(* ===== verification/Prelude.thy ===== *)
theory Prelude
  imports Main
begin

text \<open>
  Shared vocabulary of the development: type synonyms for Go values, Go string helpers that the
  sources use, and the generic lemmas on lists of keyed rows that every component proof rests on.

  Conventions.  A Go \<open>string\<close> is its byte sequence, an Isabelle \<open>string\<close>.  A Go \<open>time.Time\<close> that
  is stored in or compared with the database is an \<open>int\<close> number of milliseconds (the columns are
  \<open>DATETIME(3)\<close>); the zero time of Go is \<open>0\<close>.  A nullable SQL column is an \<open>option\<close>.
\<close>

type_synonym gostring = string
type_synonym millis = int

named_theorems tbl_simps \<open>rewriting of keyed table updates and lookups\<close>
named_theorems dbm_simps \<open>unfolding of the database monad\<close>
named_theorems key_simps \<open>updates that keep the key columns of a row\<close>

section \<open>Rows and tables\<close>

text \<open>
  A table is the list of its rows in insertion order.  \<open>sql_update p f t\<close> is
  \<open>UPDATE t SET f WHERE p\<close>; \<open>sql_affected\<close> is the number of rows the statement changes, which is what
  \<open>RowsAffected\<close> reports on a connection opened without \<open>clientFoundRows\<close> (store/mysql.go opens it
  so): a row that matches but keeps all its values is not counted.
\<close>

definition sql_update :: "('r \<Rightarrow> bool) \<Rightarrow> ('r \<Rightarrow> 'r) \<Rightarrow> 'r list \<Rightarrow> 'r list" where
  "sql_update p f t = map (\<lambda>r. if p r then f r else r) t"

definition sql_affected :: "('r \<Rightarrow> bool) \<Rightarrow> ('r \<Rightarrow> 'r) \<Rightarrow> 'r list \<Rightarrow> nat" where
  "sql_affected p f t = length (filter (\<lambda>r. p r \<and> f r \<noteq> r) t)"

definition sql_count :: "('r \<Rightarrow> bool) \<Rightarrow> 'r list \<Rightarrow> nat" where
  "sql_count p t = length (filter p t)"

text \<open>\<open>QueryRow\<close> takes the first row that the \<open>SELECT\<close> yields.\<close>

definition sql_first :: "('r \<Rightarrow> bool) \<Rightarrow> 'r list \<Rightarrow> 'r option" where
  "sql_first p t = find p t"

text \<open>\<open>ORDER BY key ASC LIMIT n\<close>; ties keep insertion order.\<close>

definition sql_order_limit :: "('r \<Rightarrow> 'k::linorder) \<Rightarrow> nat \<Rightarrow> 'r list \<Rightarrow> 'r list" where
  "sql_order_limit key n t = take n (sort_key key t)"

subsection \<open>Lookup after update\<close>

lemma sql_first_None [tbl_simps]: "sql_first p t = None \<longleftrightarrow> (\<forall>r\<in>set t. \<not> p r)"
  by (auto simp: sql_first_def find_None_iff)

lemma sql_first_SomeD: "sql_first p t = Some r \<Longrightarrow> r \<in> set t \<and> p r"
  by (auto simp: sql_first_def find_Some_iff)

lemma sql_first_Nil [simp]: "sql_first p [] = None"
  by (simp add: sql_first_def)

lemma sql_first_Cons [simp]: "sql_first p (r # t) = (if p r then Some r else sql_first p t)"
  by (simp add: sql_first_def)

lemma sql_first_append [simp]:
  "sql_first p (t @ u) = (case sql_first p t of None \<Rightarrow> sql_first p u | Some r \<Rightarrow> Some r)"
  by (induction t) auto

lemma sql_update_Nil [simp]: "sql_update p f [] = []"
  by (simp add: sql_update_def)

lemma sql_update_Cons [simp]:
  "sql_update p f (r # t) = (if p r then f r else r) # sql_update p f t"
  by (simp add: sql_update_def)

lemma sql_first_update [tbl_simps]:
  assumes "\<And>r. q (f r) = q r"
  shows "sql_first q (sql_update p f t) = map_option (\<lambda>r. if p r then f r else r) (sql_first q t)"
  using assms by (induction t) auto

lemma map_key_update [tbl_simps]:
  assumes "\<And>r. key (f r) = key r"
  shows "map key (sql_update p f t) = map key t"
  using assms by (induction t) auto

lemma set_sql_update: "set (sql_update p f t) = (\<lambda>r. if p r then f r else r) ` set t"
  by (simp add: sql_update_def)

lemma sql_update_id:
  "(\<And>r. r \<in> set t \<Longrightarrow> \<not> p r) \<Longrightarrow> sql_update p f t = t"
  by (induction t) auto

lemma length_sql_update [simp]: "length (sql_update p f t) = length t"
  by (simp add: sql_update_def)

subsection \<open>Unique keys\<close>

definition uniq_key :: "('r \<Rightarrow> 'k) \<Rightarrow> 'r list \<Rightarrow> bool" where
  "uniq_key key t \<longleftrightarrow> distinct (map key t)"

lemma uniq_key_update [tbl_simps]:
  "(\<And>r. key (f r) = key r) \<Longrightarrow> uniq_key key (sql_update p f t) = uniq_key key t"
  by (simp add: uniq_key_def map_key_update)

lemma uniq_key_Nil [simp]: "uniq_key key []"
  by (simp add: uniq_key_def)

lemma uniq_key_append_one:
  "uniq_key key (t @ [r]) \<longleftrightarrow> uniq_key key t \<and> key r \<notin> key ` set t"
  by (auto simp: uniq_key_def)

lemma uniq_key_eq: "uniq_key key t \<Longrightarrow> r \<in> set t \<Longrightarrow> s \<in> set t \<Longrightarrow> key r = key s \<Longrightarrow> r = s"
  by (auto simp: uniq_key_def distinct_map inj_on_def)

lemma sql_first_uniq:
  assumes "uniq_key key t" and "r \<in> set t" and "key r = k"
  shows "sql_first (\<lambda>r. key r = k) t = Some r"
  using assms by (induction t) (auto simp: uniq_key_def)

lemma filter_uniq_key:
  assumes "uniq_key key t" and "\<And>r. p r \<Longrightarrow> key r = k"
  shows "filter p t =
    (case sql_first (\<lambda>r. key r = k) t of None \<Rightarrow> [] | Some r \<Rightarrow> if p r then [r] else [])"
  using assms
proof (induction t)
  case Nil
  then show ?case by simp
next
  case (Cons a t)
  have IH: "filter p t =
      (case sql_first (\<lambda>r. key r = k) t of None \<Rightarrow> [] | Some r \<Rightarrow> if p r then [r] else [])"
    using Cons by (simp add: uniq_key_def)
  show ?case
  proof (cases "key a = k")
    case True
    then have "\<forall>r\<in>set t. key r \<noteq> k"
      using Cons.prems(1) by (auto simp: uniq_key_def image_iff)
    then have "filter p t = []"
      using Cons.prems(2) by (auto simp: filter_empty_conv)
    with True show ?thesis by simp
  next
    case False
    then have "\<not> p a" using Cons.prems(2) by blast
    with IH False show ?thesis by simp
  qed
qed

text \<open>A statement whose condition fixes the primary key changes one row or none.\<close>

lemma sql_affected_key:
  assumes "uniq_key key t" and "\<And>r. p r \<Longrightarrow> key r = k"
  shows "sql_affected p f t = (case sql_first (\<lambda>r. key r = k) t of
      None \<Rightarrow> 0 | Some r \<Rightarrow> if p r \<and> f r \<noteq> r then 1 else 0)"
  unfolding sql_affected_def
  by (subst filter_uniq_key [OF assms(1), where k = k])
    (auto simp: assms(2) split: option.splits)

lemma sql_count_key:
  assumes "uniq_key key t" and "\<And>r. p r \<Longrightarrow> key r = k"
  shows "sql_count p t = (case sql_first (\<lambda>r. key r = k) t of
      None \<Rightarrow> 0 | Some r \<Rightarrow> if p r then 1 else 0)"
  unfolding sql_count_def
  by (subst filter_uniq_key [OF assms(1), where k = k])
    (auto simp: assms(2) split: option.splits)

text \<open>The same facts in the form \<open>WHERE key = k AND p\<close>, for a table of any row type.\<close>

lemma sql_first_key_update:
  assumes "\<And>r. key (f r) = key r"
  shows "sql_first (\<lambda>r. key r = k) (sql_update (\<lambda>r. key r = k' \<and> p r) f t) =
    map_option (\<lambda>r. if k = k' \<and> p r then f r else r) (sql_first (\<lambda>r. key r = k) t)"
  using assms by (induction t) auto

lemma sql_affected_key_and:
  assumes "uniq_key key t"
  shows "sql_affected (\<lambda>r. key r = k \<and> p r) f t = (case sql_first (\<lambda>r. key r = k) t of
      None \<Rightarrow> 0 | Some r \<Rightarrow> if p r \<and> f r \<noteq> r then 1 else 0)"
  using sql_affected_key [OF assms, of "\<lambda>r. key r = k \<and> p r" k f]
    sql_first_SomeD [of "\<lambda>r. key r = k" t]
  by (auto split: option.splits)

lemma sql_count_key_and:
  assumes "uniq_key key t"
  shows "sql_count (\<lambda>r. key r = k \<and> p r) t = (case sql_first (\<lambda>r. key r = k) t of
      None \<Rightarrow> 0 | Some r \<Rightarrow> if p r then 1 else 0)"
  using sql_count_key [OF assms, of "\<lambda>r. key r = k \<and> p r" k]
    sql_first_SomeD [of "\<lambda>r. key r = k" t]
  by (auto split: option.splits)

lemma sql_first_key_and:
  assumes "uniq_key key t"
  shows "sql_first (\<lambda>r. key r = k \<and> p r) t = (case sql_first (\<lambda>r. key r = k) t of
      None \<Rightarrow> None | Some r \<Rightarrow> if p r then Some r else None)"
  using assms
proof (induction t)
  case Nil
  then show ?case by simp
next
  case (Cons a t)
  then have IH: "sql_first (\<lambda>r. key r = k \<and> p r) t = (case sql_first (\<lambda>r. key r = k) t of
      None \<Rightarrow> None | Some r \<Rightarrow> if p r then Some r else None)"
    by (simp add: uniq_key_def)
  have "key a = k \<Longrightarrow> sql_first (\<lambda>r. key r = k) t = None"
    using Cons.prems by (auto simp: uniq_key_def sql_first_None image_iff)
  with IH show ?case by auto
qed

lemma sql_affected_0_update: "sql_affected p f t = 0 \<Longrightarrow> sql_update p f t = t"
  by (induction t) (auto simp: sql_affected_def split: if_splits)

lemma sql_affected_key_neq_1:
  assumes "uniq_key key t" and "sql_affected (\<lambda>r. key r = k \<and> p r) f t \<noteq> 1"
  shows "sql_update (\<lambda>r. key r = k \<and> p r) f t = t"
proof (rule sql_affected_0_update)
  show "sql_affected (\<lambda>r. key r = k \<and> p r) f t = 0"
    using assms(2) unfolding sql_affected_key_and [OF assms(1)]
    by (cases "sql_first (\<lambda>r. key r = k) t") (simp_all split: if_splits)
qed

lemma sql_affected_key_eq_1:
  assumes "uniq_key key t" and "sql_affected (\<lambda>r. key r = k \<and> p r) f t = 1"
  shows "\<exists>r. sql_first (\<lambda>r. key r = k) t = Some r \<and> p r \<and> f r \<noteq> r"
  using assms(2) unfolding sql_affected_key_and [OF assms(1)]
  by (cases "sql_first (\<lambda>r. key r = k) t") (simp_all split: if_splits)

lemma neq_by_field: "g (f r) \<noteq> g r \<Longrightarrow> f r \<noteq> r"
  by auto

lemma exI2: "P x y \<Longrightarrow> \<exists>x y. P x y"
  by blast

section \<open>Sorted lists and intervals\<close>

lemma filter_after_sorted:
  assumes "sorted (map key ys)" and "distinct (map key ys)" and "0 < k" and "k \<le> length ys"
  shows "filter (\<lambda>y. key (ys ! (k - 1)) < (key y :: 'a :: linorder)) ys = drop k ys"
proof -
  have "sorted_wrt (<) (map key ys)" using assms(1,2) by (simp add: strict_sorted_iff)
  then have sd: "i < j \<Longrightarrow> j < length ys \<Longrightarrow> key (ys ! i) < key (ys ! j)" for i j
    using sorted_wrt_nth_less [of "(<)" "map key ys" i j] by simp
  have t: "filter (\<lambda>y. key (ys ! (k - 1)) < key y) (take k ys) = []"
  proof -
    have "\<not> key (ys ! (k - 1)) < key y" if y: "y \<in> set (take k ys)" for y
    proof -
      obtain i where "i < length (take k ys)" "take k ys ! i = y" using y by (meson in_set_conv_nth)
      then have i: "i < k" "y = ys ! i" by auto
      then have "i = k - 1 \<or> i < k - 1" by linarith
      with i sd [of i "k - 1"] assms(3,4) show ?thesis by force
    qed
    then show ?thesis by (simp add: filter_empty_conv)
  qed
  have d: "filter (\<lambda>y. key (ys ! (k - 1)) < key y) (drop k ys) = drop k ys"
  proof (rule filter_True, rule ballI)
    fix y assume "y \<in> set (drop k ys)"
    then obtain i where "i < length ys - k" "y = ys ! (k + i)" by (auto simp: in_set_conv_nth)
    with sd [of "k - 1" "k + i"] assms(3) show "key (ys ! (k - 1)) < key y" by simp
  qed
  have "filter (\<lambda>y. key (ys ! (k - 1)) < key y) (take k ys @ drop k ys) = drop k ys"
    using t d by (simp only: filter_append) simp
  then show ?thesis by simp
qed

lemma filter_upto: "filter (\<lambda>s. a < s) [i..j] = [max i (a + 1)..j]"
proof (induction i j rule: upto.induct)
  case (1 i j)
  then show ?case
  proof (cases "i \<le> j \<and> a < i")
    case True
    then have "max i (a + 1) = i" "max (i + 1) (a + 1) = i + 1" by (simp_all add: max_def)
    with True 1 show ?thesis by (simp add: upto_rec1)
  next
    case False
    with 1 show ?thesis by (cases "i \<le> j") (simp_all add: upto_rec1 max_def)
  qed
qed

section \<open>Go helpers\<close>

text \<open>The blank characters that \<open>strings.TrimSpace\<close> and \<open>unicode.IsSpace\<close> share on ASCII input.\<close>

definition go_space :: "char \<Rightarrow> bool" where
  "go_space c \<longleftrightarrow> c \<in> set [CHR 0x09, CHR 0x0A, CHR 0x0B, CHR 0x0C, CHR 0x0D, CHR '' '']"

definition trim_space :: "gostring \<Rightarrow> gostring" where
  "trim_space s = rev (dropWhile go_space (rev (dropWhile go_space s)))"

definition lower_char :: "char \<Rightarrow> char" where
  "lower_char c =
    (if of_char c \<in> {65::nat..90} then char_of (of_char c + 32 :: nat) else c)"

definition upper_char :: "char \<Rightarrow> char" where
  "upper_char c =
    (if of_char c \<in> {97::nat..122} then char_of (of_char c - 32 :: nat) else c)"

definition to_lower :: "gostring \<Rightarrow> gostring" where
  "to_lower s = map lower_char s"

definition to_upper :: "gostring \<Rightarrow> gostring" where
  "to_upper s = map upper_char s"

text \<open>A nullable column read through \<open>sql.NullString\<close> and friends: NULL gives the zero value.\<close>

definition null_string :: "gostring option \<Rightarrow> gostring" where
  "null_string v = (case v of None \<Rightarrow> [] | Some s \<Rightarrow> s)"

definition nullable_str :: "gostring \<Rightarrow> gostring option" where
  "nullable_str s = (if s = [] then None else Some s)"

definition nullable_int :: "int \<Rightarrow> int option" where
  "nullable_int v = (if v = 0 then None else Some v)"

definition null_int :: "int option \<Rightarrow> int" where
  "null_int v = (case v of None \<Rightarrow> 0 | Some i \<Rightarrow> i)"

text \<open>\<open>firstNonEmptyStr2(v, d)\<close> with two arguments, and the \<open>if v == "" { v = d }\<close> idiom.\<close>

definition or_default :: "gostring \<Rightarrow> gostring \<Rightarrow> gostring" where
  "or_default v d = (if v = [] then d else v)"

lemma null_string_nullable [simp]: "null_string (nullable_str s) = s"
  by (simp add: null_string_def nullable_str_def)

lemma null_int_nullable [simp]: "null_int (nullable_int v) = v"
  by (simp add: null_int_def nullable_int_def)

lemma or_default_nonempty: "d \<noteq> [] \<Longrightarrow> or_default v d \<noteq> []"
  by (simp add: or_default_def)

lemma append_sep_eq: "c \<notin> set xs \<Longrightarrow> c \<notin> set ys \<Longrightarrow> xs @ c # us = ys @ c # vs \<longleftrightarrow> xs = ys \<and> us = vs"
  by (induction xs arbitrary: ys; case_tac ys) auto

end
