(* ===== verification/Sql.thy ===== *)
theory Sql
  imports Prelude
begin

text \<open>
  The database access layer of the \<open>store\<close> package as a state-and-error monad.

  A DAO method runs a sequence of calls on the driver (Begin, QueryRow, Exec, Commit).  Each call may
  fail, and \<open>CURRENT_TIMESTAMP(3)\<close> and \<open>NOW()\<close> are read per statement, so a method is a function of
  an environment that says for the \<open>n\<close>-th call whether the driver succeeds and what the database
  clock shows.  Time may pass between two statements of one transaction: the re-check of the lease in
  \<open>TransitionTxValidatedWithLease\<close> exists because of that.

  \<open>db_tx\<close> is Begin, a body, and either Commit or the deferred Rollback: a body that returns without
  asking for a commit, or that fails, leaves the database as it was.  A Commit that fails is taken
  as not committed.  Rows locked by \<open>FOR UPDATE\<close> serialise the transactions on one Run, so a
  transaction is one step; comparisons of strings in SQL are taken as exact.
\<close>

record db_env =
  db_up :: bool
  stmt_ok :: "nat \<Rightarrow> bool"
  stmt_now :: "nat \<Rightarrow> millis"

text \<open>The errors the store package names, and the unnamed ones: no connection, driver failure.\<close>

datatype store_error =
    MysqlUnavailable
  | DriverError
  | SqlErrNoRows
  | DuplicateEntry
  | ErrLeaseHeld
  | ErrLeaseFencing
  | ErrLeaseLost
  | ErrRunTerminal
  | ErrRunNotFound
  | ErrClaimIDReused
  | ErrClaimIDExpired
  | ErrClaimRequestIncomplete
  | ErrClaimTokenTooShort
  | RetryBackoffError millis
  | IllegalTransitionError gostring gostring
  | ErrCommitNotFound
  | ErrCommitDuplicate
  | ErrCommandNotFound
  | ErrCommandDuplicate
  | ErrRunControlConflict
  | ErrCommandIdempotencyReused
  | ErrEvidenceNotEligible
  | ErrIdempotencyPayloadMismatch
  | DispatchEpochUnavailable
  | UnknownRecoveryWorkerKind
  | AmbiguousColumn
  | ManualActionIdentityRequired

type_synonym ('s, 'a) dbm = "db_env \<Rightarrow> nat \<times> 's \<Rightarrow> (store_error + 'a) \<times> (nat \<times> 's)"

definition db_ret :: "'a \<Rightarrow> ('s, 'a) dbm" where
  "db_ret x = (\<lambda>env st. (Inr x, st))"

definition db_fail :: "store_error \<Rightarrow> ('s, 'a) dbm" where
  "db_fail e = (\<lambda>env st. (Inl e, st))"

definition db_bind :: "('s, 'a) dbm \<Rightarrow> ('a \<Rightarrow> ('s, 'b) dbm) \<Rightarrow> ('s, 'b) dbm" where
  "db_bind m k = (\<lambda>env st. case m env st of
      (Inl e, st') \<Rightarrow> (Inl e, st')
    | (Inr x, st') \<Rightarrow> k x env st')"

text \<open>\<open>GetDB() == nil\<close> ends the method with "mysql unavailable".\<close>

definition db_conn :: "('s, 'a) dbm \<Rightarrow> ('s, 'a) dbm" where
  "db_conn m = (\<lambda>env st. if db_up env then m env st else (Inl MysqlUnavailable, st))"

text \<open>One driver call: it fails without effect, or it runs at the database time of that call.\<close>

definition db_stmt :: "(millis \<Rightarrow> 's \<Rightarrow> 'a \<times> 's) \<Rightarrow> ('s, 'a) dbm" where
  "db_stmt f = (\<lambda>env (n, s). if stmt_ok env n
      then (let (x, s') = f (stmt_now env n) s in (Inr x, (Suc n, s')))
      else (Inl DriverError, (Suc n, s)))"

text \<open>A call whose error the code drops, as in \<open>if err := q.Scan(&v); err == nil && ...\<close>.\<close>

definition db_try :: "('s, 'a) dbm \<Rightarrow> ('s, store_error + 'a) dbm" where
  "db_try m = (\<lambda>env st. case m env st of (r, st') \<Rightarrow> (Inr r, st'))"

datatype 'a tx_end = Commit 'a | Rollback 'a

definition db_tx :: "('s, 'a tx_end) dbm \<Rightarrow> ('s, 'a) dbm" where
  "db_tx body = (\<lambda>env (n, s).
     if stmt_ok env n then
       (case body env (Suc n, s) of
          (Inl e, (n', s')) \<Rightarrow> (Inl e, (n', s))
        | (Inr (Rollback x), (n', s')) \<Rightarrow> (Inr x, (n', s))
        | (Inr (Commit x), (n', s')) \<Rightarrow>
            if stmt_ok env n' then (Inr x, (Suc n', s')) else (Inl DriverError, (Suc n', s)))
     else (Inl DriverError, (Suc n, s)))"

text \<open>Running a method from its first driver call: its result and the database it leaves.\<close>

definition db_run :: "('s, 'a) dbm \<Rightarrow> db_env \<Rightarrow> 's \<Rightarrow> (store_error + 'a) \<times> 's" where
  "db_run m env s = (case m env (0, s) of (r, (n, s')) \<Rightarrow> (r, s'))"

text \<open>The environment in which no call fails and the clock stands at \<open>t\<close>.\<close>

definition calm :: "millis \<Rightarrow> db_env" where
  "calm t = \<lparr>db_up = True, stmt_ok = (\<lambda>_. True), stmt_now = (\<lambda>_. t)\<rparr>"

lemmas dbm_defs = db_ret_def db_fail_def db_bind_def db_conn_def db_stmt_def db_try_def

lemma calm_simps [simp]:
  "db_up (calm t)" "stmt_ok (calm t) n" "stmt_now (calm t) n = t"
  by (simp_all add: calm_def)

subsection \<open>Laws of the monad\<close>

lemma db_bind_ret [dbm_simps]: "db_bind (db_ret x) k = k x"
  by (simp add: db_bind_def db_ret_def fun_eq_iff)

lemma db_bind_fail [dbm_simps]: "db_bind (db_fail e) k = db_fail e"
  by (simp add: db_bind_def db_fail_def fun_eq_iff)

lemma db_bind_assoc: "db_bind (db_bind m k) h = db_bind m (\<lambda>x. db_bind (k x) h)"
  by (auto simp: db_bind_def fun_eq_iff split: prod.splits sum.splits)

lemma db_stmt_calm [simp]:
  "db_stmt f (calm t) (n, s) = (let (x, s') = f t s in (Inr x, (Suc n, s')))"
  by (simp add: db_stmt_def)

lemma db_bind_Inr: "db_bind m k env st = (Inr y, st') \<longleftrightarrow>
    (\<exists>x st1. m env st = (Inr x, st1) \<and> k x env st1 = (Inr y, st'))"
  by (auto simp: db_bind_def split: prod.splits sum.splits)

subsection \<open>Atomicity of a transaction\<close>

text \<open>
  \<open>keeps P m\<close>: whatever the environment does, every state that \<open>m\<close> leaves satisfies \<open>P\<close> if the state
  it starts from does.
\<close>

definition keeps :: "('s \<Rightarrow> bool) \<Rightarrow> ('s, 'a) dbm \<Rightarrow> bool" where
  "keeps P m \<longleftrightarrow> (\<forall>env n s r n' s'. P s \<longrightarrow> m env (n, s) = (r, (n', s')) \<longrightarrow> P s')"

lemma keepsD: "keeps P m \<Longrightarrow> P s \<Longrightarrow> m env (n, s) = (r, (n', s')) \<Longrightarrow> P s'"
  by (auto simp: keeps_def)

lemma keeps_ret [intro]: "keeps P (db_ret x)"
  by (simp add: keeps_def db_ret_def)

lemma keeps_fail [intro]: "keeps P (db_fail e)"
  by (simp add: keeps_def db_fail_def)

lemma keeps_stmt: "(\<And>t s. P s \<Longrightarrow> P (snd (f t s))) \<Longrightarrow> keeps P (db_stmt f)"
  by (auto simp: keeps_def db_stmt_def Let_def case_prod_beta split: if_splits)

lemma keeps_bind:
  assumes m: "keeps P m" and k: "\<And>x. keeps P (k x)"
  shows "keeps P (db_bind m k)"
proof (unfold keeps_def, intro allI impI)
  fix env n s r n' s'
  assume P: "P s" and run: "db_bind m k env (n, s) = (r, n', s')"
  obtain x n1 s1 where mr: "m env (n, s) = (x, (n1, s1))"
    by (metis prod_cases3)
  with m P have "P s1" by (rule keepsD)
  with run mr show "P s'"
    by (auto simp: db_bind_def split: sum.splits intro: keepsD [OF k])
qed

lemma keeps_try: "keeps P m \<Longrightarrow> keeps P (db_try m)"
  by (auto simp: keeps_def db_try_def split: prod.splits)

lemma keeps_conn: "keeps P m \<Longrightarrow> keeps P (db_conn m)"
  by (auto simp: keeps_def db_conn_def)

lemma keeps_tx: "keeps P m \<Longrightarrow> keeps P (db_tx m)"
  by (auto simp: keeps_def db_tx_def split: if_splits prod.splits sum.splits tx_end.splits)

lemma keeps_if: "(b \<Longrightarrow> keeps P m) \<Longrightarrow> (\<not> b \<Longrightarrow> keeps P m') \<Longrightarrow> keeps P (if b then m else m')"
  by simp

lemma keeps_case_sum: "(\<And>e. keeps P (f e)) \<Longrightarrow> (\<And>x. keeps P (g x)) \<Longrightarrow> keeps P (case r of Inl e \<Rightarrow> f e | Inr x \<Rightarrow> g x)"
  by (cases r) auto

lemma keeps_case_option: "keeps P f \<Longrightarrow> (\<And>x. keeps P (g x)) \<Longrightarrow> keeps P (case r of None \<Rightarrow> f | Some x \<Rightarrow> g x)"
  by (cases r) auto

lemma keeps_case_prod: "(\<And>x y. keeps P (f x y)) \<Longrightarrow> keeps P (case r of (x, y) \<Rightarrow> f x y)"
  by (cases r) auto

lemma keeps_run: "keeps P m \<Longrightarrow> P s \<Longrightarrow> P (snd (db_run m env s))"
  by (auto simp: db_run_def split: prod.splits dest: keepsD)

text \<open>A transaction that ends in an error has changed nothing.\<close>

lemma db_tx_error_unchanged: "db_tx m env (n, s) = (Inl e, (n', s')) \<Longrightarrow> s' = s"
  by (auto simp: db_tx_def split: if_splits prod.splits sum.splits tx_end.splits)

lemma db_run_conn_tx_error_unchanged:
  "db_run (db_conn (db_tx m)) env s = (Inl e, s') \<Longrightarrow> s' = s"
  by (auto simp: db_run_def db_conn_def split: if_splits prod.splits dest: db_tx_error_unchanged)

text \<open>A reading method leaves the database alone.\<close>

definition reads :: "('s, 'a) dbm \<Rightarrow> bool" where
  "reads m \<longleftrightarrow> (\<forall>env n s. snd (snd (m env (n, s))) = s)"

lemma readsI_keeps: "(\<And>s0. keeps (\<lambda>s. s = s0) m) \<Longrightarrow> reads m"
  by (auto simp: reads_def keeps_def) (metis prod.collapse)

lemma reads_run: "reads m \<Longrightarrow> snd (db_run m env s) = s"
  by (auto simp: reads_def db_run_def split: prod.splits) (metis snd_conv)

lemma db_tx_Inr:
  "db_tx body env (n, s) = (Inr x, (n', s')) \<longleftrightarrow> stmt_ok env n \<and>
     ((\<exists>s1. body env (Suc n, s) = (Inr (Rollback x), (n', s1)) \<and> s' = s) \<or>
      (\<exists>m. body env (Suc n, s) = (Inr (Commit x), (m, s')) \<and> stmt_ok env m \<and> n' = Suc m))"
  by (auto simp: db_tx_def split: if_splits prod.splits sum.splits tx_end.splits)

lemma db_bind_reads:
  assumes "\<And>x. reads (k x)" and "db_bind m k env (n, s) = (r, (n', s'))"
  shows "\<exists>y n1. m env (n, s) = (y, (n1, s'))"
proof -
  obtain y n1 s1 where m: "m env (n, s) = (y, (n1, s1))" by (metis prod_cases3)
  have "s' = s1"
  proof (cases y)
    case (Inl e)
    with assms(2) m show ?thesis by (simp add: db_bind_def)
  next
    case (Inr x)
    with assms(2) m have "k x env (n1, s1) = (r, (n', s'))" by (simp add: db_bind_def)
    with assms(1) [of x] show ?thesis unfolding reads_def by (metis snd_conv)
  qed
  with m show ?thesis by blast
qed

lemma reads_bind: "reads m \<Longrightarrow> (\<And>x. reads (k x)) \<Longrightarrow> reads (db_bind m k)"
  unfolding reads_def db_bind_def
  by (auto split: prod.splits sum.splits) (metis snd_conv)+

lemma reads_ret [simp]: "reads (db_ret x)"
  by (simp add: reads_def db_ret_def)

lemma reads_fail [simp]: "reads (db_fail e)"
  by (simp add: reads_def db_fail_def)

lemma reads_stmt: "(\<And>t s. snd (f t s) = s) \<Longrightarrow> reads (db_stmt f)"
  by (auto simp: reads_def db_stmt_def Let_def case_prod_beta)

lemma reads_try: "reads m \<Longrightarrow> reads (db_try m)"
  by (auto simp: reads_def db_try_def split: prod.splits) (metis snd_conv)

lemma reads_conn: "reads m \<Longrightarrow> reads (db_conn m)"
  by (auto simp: reads_def db_conn_def)

lemma reads_case_option: "reads a \<Longrightarrow> (\<And>x. reads (f x)) \<Longrightarrow> reads (case_option a f v)"
  by (cases v) simp_all

lemma reads_case_sum: "(\<And>x. reads (f x)) \<Longrightarrow> (\<And>y. reads (g y)) \<Longrightarrow> reads (case_sum f g v)"
  by (cases v) simp_all

lemma reads_if: "(b \<Longrightarrow> reads m) \<Longrightarrow> (\<not> b \<Longrightarrow> reads m') \<Longrightarrow> reads (if b then m else m')"
  by simp

lemmas reads_intros = reads_bind reads_ret reads_fail reads_stmt reads_try reads_conn
  reads_case_option reads_case_sum reads_if

lemma readsD: "reads m \<Longrightarrow> m env (n, s) = (r, (n', s')) \<Longrightarrow> s' = s"
  unfolding reads_def by (metis snd_conv)

text \<open>A handler turns every error into a reply, so it always yields a value.\<close>

definition total :: "('s, 'a) dbm \<Rightarrow> bool" where
  "total m \<longleftrightarrow> (\<forall>env st. \<exists>x st'. m env st = (Inr x, st'))"

lemma total_ret: "total (db_ret x)"
  by (simp add: total_def db_ret_def)

lemma total_try: "total (db_try m)"
  by (auto simp: total_def db_try_def split: prod.splits)

lemma total_bind: "total m \<Longrightarrow> (\<And>x. total (k x)) \<Longrightarrow> total (db_bind m k)"
  unfolding total_def db_bind_def by (simp split: prod.splits sum.splits) (metis Inl_Inr_False prod.inject)

lemma total_case_option: "total a \<Longrightarrow> (\<And>x. total (f x)) \<Longrightarrow> total (case_option a f v)"
  by (cases v) simp_all

lemma total_case_sum: "(\<And>x. total (f x)) \<Longrightarrow> (\<And>y. total (g y)) \<Longrightarrow> total (case_sum f g v)"
  by (cases v) simp_all

lemma total_if: "(b \<Longrightarrow> total m) \<Longrightarrow> (\<not> b \<Longrightarrow> total m') \<Longrightarrow> total (if b then m else m')"
  by simp

lemmas total_intros = total_ret total_try total_bind total_case_option total_case_sum total_if

lemma totalE:
  assumes "total m" and "m env st = (r, st')"
  obtains x where "r = Inr x"
  using assms unfolding total_def by (metis prod.inject)

lemmas keeps_intros = keeps_ret keeps_fail keeps_stmt keeps_bind keeps_try keeps_conn keeps_tx

lemma db_bind_stmt_Inr:
  "db_bind (db_stmt f) k env (n, s) = (Inr y, st) \<longleftrightarrow>
     stmt_ok env n \<and> k (fst (f (stmt_now env n) s)) env (Suc n, snd (f (stmt_now env n) s)) = (Inr y, st)"
  by (simp add: db_bind_def db_stmt_def case_prod_beta Let_def)

lemma db_bind_try_Inr:
  "db_bind (db_try m) k env st = (Inr y, st') \<longleftrightarrow> (\<exists>x st1. m env st = (x, st1) \<and> k x env st1 = (Inr y, st'))"
  by (auto simp: db_bind_def db_try_def split: prod.splits)

section \<open>Time columns\<close>

text \<open>\<open>NOW()\<close> has whole seconds, also where the column it is compared with has milliseconds.\<close>

definition sql_now :: "millis \<Rightarrow> millis" where
  "sql_now t = t div 1000 * 1000"

lemma sql_now_le: "sql_now t \<le> t"
  by (simp add: sql_now_def div_times_less_eq_dividend)

lemma sql_now_mono: "t \<le> u \<Longrightarrow> sql_now t \<le> sql_now u"
  by (simp add: sql_now_def zdiv_mono1)

text \<open>\<open>secs <= 0\<close> stands for the default of thirty seconds.\<close>

definition lease_or_30 :: "int \<Rightarrow> int" where
  "lease_or_30 secs = (if secs \<le> 0 then 30 else secs)"

lemma lease_or_30_pos: "0 < lease_or_30 secs"
  by (simp add: lease_or_30_def)

end
