(* ===== verification/Json.thy ===== *)
theory Json
  imports Prelude "HOL-Library.List_Lexorder" "HOL-Library.Char_ord"
begin

text \<open>
  JSON values as \<open>encoding/json\<close> decodes them into \<open>any\<close> with \<open>UseNumber\<close>, and the text that
  \<open>json.Marshal\<close> writes for them.

  A number is its literal.  An object is the list of its members in the order of the text; decoding
  it into a Go map keeps the last of several members with one name, and \<open>Marshal\<close> writes a map
  with sorted keys.  A \<open>json.RawMessage\<close> that came out of a decoded document, and the value of a
  \<open>JSON\<close> column, is such a value; a nil message or a NULL column is \<open>None\<close>.  Strings are taken to be
  valid UTF-8.  The main lemma is that the text determines the value, with the rest of the input
  left over (\<open>json_text_prefix\<close>).
\<close>

section \<open>Values\<close>

datatype json =
    JNull
  | JBool bool
  | JNum gostring
  | JStr gostring
  | JArr "json list"
  | JObj "(gostring \<times> json) list"

text \<open>A Go map with string keys: sorted members, one per key.\<close>

fun obj_put :: "gostring \<Rightarrow> 'a \<Rightarrow> (gostring \<times> 'a) list \<Rightarrow> (gostring \<times> 'a) list" where
  "obj_put k v [] = [(k, v)]"
| "obj_put k v ((k', v') # m) =
     (if k = k' then (k, v) # m else if k < k' then (k, v) # (k', v') # m else (k', v') # obj_put k v m)"

definition go_map :: "(gostring \<times> 'a) list \<Rightarrow> (gostring \<times> 'a) list" where
  "go_map fs = fold (\<lambda>(k, v). obj_put k v) fs []"

text \<open>Decoding into \<open>any\<close>: every object becomes a map.\<close>

primrec json_norm :: "json \<Rightarrow> json" where
  "json_norm JNull = JNull"
| "json_norm (JBool b) = JBool b"
| "json_norm (JNum n) = JNum n"
| "json_norm (JStr s) = JStr s"
| "json_norm (JArr xs) = JArr (map json_norm xs)"
| "json_norm (JObj fs) = JObj (go_map (map (map_prod id json_norm) fs))"

section \<open>Text\<close>

text \<open>
  The escapes of \<open>Marshal\<close>: quote, backslash, control characters, the characters that are special in
  HTML, and the line separators U+2028 and U+2029.
\<close>

definition hex_char :: "nat \<Rightarrow> char" where
  "hex_char n = ''0123456789abcdef'' ! n"

definition esc_u :: "nat \<Rightarrow> gostring" where
  "esc_u n = [CHR 0x5C, CHR ''u'', CHR ''0'', CHR ''0'', hex_char (n div 16), hex_char (n mod 16)]"

definition esc_char :: "char \<Rightarrow> gostring" where
  "esc_char c =
     (if c = CHR 0x22 then [CHR 0x5C, CHR 0x22]
      else if c = CHR 0x5C then [CHR 0x5C, CHR 0x5C]
      else if c = CHR 0x08 then [CHR 0x5C, CHR ''b'']
      else if c = CHR 0x0C then [CHR 0x5C, CHR ''f'']
      else if c = CHR 0x0A then [CHR 0x5C, CHR ''n'']
      else if c = CHR 0x0D then [CHR 0x5C, CHR ''r'']
      else if c = CHR 0x09 then [CHR 0x5C, CHR ''t'']
      else if of_char c < (32 :: nat) \<or> c = CHR ''<'' \<or> c = CHR ''>'' \<or> c = CHR ''&'' then esc_u (of_char c)
      else [c])"

text \<open>The line separators are the three-byte sequences E2 80 A8 and E2 80 A9.\<close>

fun line_sep :: "gostring \<Rightarrow> bool" where
  "line_sep (a # b # c # s) \<longleftrightarrow> a = CHR 0xE2 \<and> b = CHR 0x80 \<and> (c = CHR 0xA8 \<or> c = CHR 0xA9)"
| "line_sep _ \<longleftrightarrow> False"

fun json_escape :: "gostring \<Rightarrow> gostring" where
  "json_escape [] = []"
| "json_escape (c # s) =
     (if line_sep (c # s)
      then [CHR 0x5C, CHR ''u'', CHR ''2'', CHR ''0'', CHR ''2'', if s ! 1 = CHR 0xA8 then CHR ''8'' else CHR ''9''] @
           json_escape (drop 2 s)
      else esc_char c @ json_escape s)"

definition json_quote :: "gostring \<Rightarrow> gostring" where
  "json_quote s = CHR 0x22 # json_escape s @ [CHR 0x22]"

fun commas :: "gostring list \<Rightarrow> gostring" where
  "commas [] = []"
| "commas [x] = x"
| "commas (x # y # xs) = x @ CHR '','' # commas (y # xs)"

primrec json_text :: "json \<Rightarrow> gostring" where
  "json_text JNull = ''null''"
| "json_text (JBool b) = (if b then ''true'' else ''false'')"
| "json_text (JNum n) = n"
| "json_text (JStr s) = json_quote s"
| "json_text (JArr xs) = CHR ''['' # commas (map json_text xs) @ '']''"
| "json_text (JObj fs) =
     CHR ''{'' # commas (map (\<lambda>(k, t). json_quote k @ CHR '':'' # t) (map (map_prod id json_text) fs)) @ ''}''"

text \<open>Number literals: the grammar of JSON starts them with a digit or a minus sign.\<close>

definition is_digit :: "char \<Rightarrow> bool" where
  "is_digit c \<longleftrightarrow> 48 \<le> (of_char c :: nat) \<and> (of_char c :: nat) \<le> 57"

definition num_char :: "char \<Rightarrow> bool" where
  "num_char c \<longleftrightarrow> is_digit c \<or> c \<in> set ''+-.eE''"

definition num_start :: "char \<Rightarrow> bool" where
  "num_start c \<longleftrightarrow> is_digit c \<or> c = CHR ''-''"

definition num_literal :: "gostring \<Rightarrow> bool" where
  "num_literal n \<longleftrightarrow> n \<noteq> [] \<and> num_start (hd n) \<and> list_all num_char n"

primrec json_ok :: "json \<Rightarrow> bool" where
  "json_ok JNull \<longleftrightarrow> True"
| "json_ok (JBool b) \<longleftrightarrow> True"
| "json_ok (JNum n) \<longleftrightarrow> num_literal n"
| "json_ok (JStr s) \<longleftrightarrow> True"
| "json_ok (JArr xs) \<longleftrightarrow> list_all (\<lambda>b. b) (map json_ok xs)"
| "json_ok (JObj fs) \<longleftrightarrow> list_all snd (map (map_prod id json_ok) fs)"

section \<open>The text determines the value\<close>

subsection \<open>Strings\<close>

lemma hex_char_inj: "m < 16 \<Longrightarrow> n < 16 \<Longrightarrow> hex_char m = hex_char n \<longleftrightarrow> m = n"
  unfolding hex_char_def by (subst nth_eq_iff_index_eq) auto

lemma esc_u_prefix: "n < 256 \<Longrightarrow> m < 256 \<Longrightarrow> esc_u n @ r = esc_u m @ r' \<longleftrightarrow> n = m \<and> r = r'"
  by (auto simp: esc_u_def hex_char_inj) (metis div_mult_mod_eq)

lemma esc_u_head: "esc_u n @ r = CHR 0x5C # d # y \<longleftrightarrow>
    d = CHR ''u'' \<and> CHR ''0'' # CHR ''0'' # hex_char (n div 16) # hex_char (n mod 16) # r = y"
  by (auto simp: esc_u_def)

definition esc_plain :: "char \<Rightarrow> bool" where
  "esc_plain c \<longleftrightarrow> esc_char c = [c] \<and> c \<noteq> CHR 0x5C \<and> c \<noteq> CHR 0x22"

text \<open>The three shapes of an escape.\<close>

lemma esc_char_shapes:
  "esc_plain c \<or>
   (\<exists>d. esc_char c = [CHR 0x5C, d] \<and> d \<noteq> CHR ''u'' \<and>
      (c, d) \<in> set [(CHR 0x22, CHR 0x22), (CHR 0x5C, CHR 0x5C), (CHR 0x08, CHR ''b''), (CHR 0x0C, CHR ''f''),
        (CHR 0x0A, CHR ''n''), (CHR 0x0D, CHR ''r''), (CHR 0x09, CHR ''t'')]) \<or>
   esc_char c = esc_u (of_char c)"
  by (simp add: esc_plain_def esc_char_def)

lemma esc_plain_char: "esc_plain c \<Longrightarrow> esc_char c = [c]"
  by (simp add: esc_plain_def)

lemma esc_char_prefix:
  assumes "esc_char c @ x = esc_char d @ y"
  shows "c = d \<and> x = y"
  using esc_char_shapes [of c] esc_char_shapes [of d]
proof (elim disjE exE conjE)
  assume "esc_char c = esc_u (of_char c)" "esc_char d = esc_u (of_char d)"
  with assms show ?thesis by (simp add: esc_u_prefix of_char_eq_iff [where ?'a = nat])
qed (use assms in \<open>auto simp: esc_plain_def esc_u_def\<close>)

lemma esc_char_not_sep: "esc_char c @ x \<noteq> CHR 0x5C # CHR ''u'' # CHR ''2'' # y"
  using esc_char_shapes [of c] by (auto simp: esc_plain_def esc_u_def)

lemma esc_char_not_quote: "esc_char c @ x \<noteq> CHR 0x22 # y"
  using esc_char_shapes [of c] by (auto simp: esc_plain_def esc_u_def)

lemma line_sep_iff: "line_sep s \<longleftrightarrow>
    (\<exists>c u. s = CHR 0xE2 # CHR 0x80 # c # u \<and> (c = CHR 0xA8 \<or> c = CHR 0xA9))"
  by (cases s rule: line_sep.cases) auto

lemma json_escape_sep [simp]:
  "c = CHR 0xA8 \<or> c = CHR 0xA9 \<Longrightarrow> json_escape (CHR 0xE2 # CHR 0x80 # c # u) =
     [CHR 0x5C, CHR ''u'', CHR ''2'', CHR ''0'', CHR ''2'', if c = CHR 0xA8 then CHR ''8'' else CHR ''9''] @ json_escape u"
  by auto

lemma json_escape_other [simp]: "\<not> line_sep (c # s) \<Longrightarrow> json_escape (c # s) = esc_char c @ json_escape s"
  by simp

declare json_escape.simps(2) [simp del]

lemma json_escape_prefix:
  "json_escape s @ CHR 0x22 # r = json_escape t @ CHR 0x22 # r' \<Longrightarrow> s = t \<and> r = r'"
proof (induction s arbitrary: t rule: json_escape.induct)
  case 1
  show ?case
  proof (cases t)
    case (Cons d t')
    with 1 show ?thesis
      by (cases "line_sep t") (auto simp: line_sep_iff esc_char_not_quote dest: sym [of "CHR 0x22 # r"])
  qed (use 1 in simp)
next
  case (2 c s)
  show ?case
  proof (cases "line_sep (c # s)")
    case sep: True
    then obtain e u where e: "c # s = CHR 0xE2 # CHR 0x80 # e # u" "e = CHR 0xA8 \<or> e = CHR 0xA9"
      by (auto simp: line_sep_iff)
    then have u: "u = drop 2 s" by auto
    show ?thesis
    proof (cases "line_sep t")
      case True
      then obtain e' u' where "t = CHR 0xE2 # CHR 0x80 # e' # u'" "e' = CHR 0xA8 \<or> e' = CHR 0xA9"
        by (auto simp: line_sep_iff)
      with 2(1) [OF sep, of u'] 2(3) e u show ?thesis by (auto split: if_splits)
    next
      case False
      with 2(3) e show ?thesis
        by (cases t) (auto simp: dest: sym [THEN esc_char_not_sep [THEN notE]])
    qed
  next
    case plain: False
    show ?thesis
    proof (cases "line_sep t")
      case True
      with 2(3) plain show ?thesis by (auto simp: line_sep_iff esc_char_not_sep)
    next
      case False
      with 2(3) plain 2(2) [OF plain] show ?thesis
        by (cases t) (auto simp: esc_char_not_quote dest!: esc_char_prefix)
    qed
  qed
qed

lemma json_quote_prefix: "json_quote s @ r = json_quote t @ r' \<longleftrightarrow> s = t \<and> r = r'"
  using json_escape_prefix [of s r t r'] by (auto simp: json_quote_def)

subsection \<open>Values followed by a delimiter\<close>

definition delim :: "gostring \<Rightarrow> bool" where
  "delim r \<longleftrightarrow> r = [] \<or> hd r \<in> {CHR '','', CHR '']'', CHR ''}''}"

lemma delim_not_num: "delim r \<Longrightarrow> r = [] \<or> \<not> num_char (hd r)"
  by (auto simp: delim_def num_char_def is_digit_def)

lemma delim_Cons [simp]: "delim (c # r) \<longleftrightarrow> c = CHR '','' \<or> c = CHR '']'' \<or> c = CHR ''}''"
  by (auto simp: delim_def)

lemma takeWhile_run:
  assumes "list_all P n" and "r = [] \<or> \<not> P (hd r)"
  shows "takeWhile P (n @ r) = n"
  using assms by (induction n) (auto simp: takeWhile_eq_Nil_iff)

lemma num_prefix:
  assumes "list_all num_char n" "list_all num_char m" "delim r" "delim r'" "n @ r = m @ r'"
  shows "n = m \<and> r = r'"
  using takeWhile_run [OF assms(1) delim_not_num [OF assms(3)]]
    takeWhile_run [OF assms(2) delim_not_num [OF assms(4)]] assms(5) by simp

text \<open>The first character tells the constructor.\<close>

definition json_kind :: "json \<Rightarrow> nat" where
  "json_kind j = (case j of JNull \<Rightarrow> 0 | JBool b \<Rightarrow> if b then 1 else 2 | JNum n \<Rightarrow> 3 | JStr s \<Rightarrow> 4 | JArr xs \<Rightarrow> 5 | JObj fs \<Rightarrow> 6)"

definition head_kind :: "char \<Rightarrow> nat" where
  "head_kind c = (if c = CHR ''n'' then 0 else if c = CHR ''t'' then 1 else if c = CHR ''f'' then 2
     else if c = CHR 0x22 then 4 else if c = CHR ''['' then 5 else if c = CHR ''{'' then 6
     else if num_start c then 3 else 7)"

lemma head_kind_num: "num_start c \<Longrightarrow> head_kind c = 3"
  by (auto simp: num_start_def head_kind_def is_digit_def)

lemma json_text_head:
  assumes "json_ok j"
  shows "json_text j \<noteq> [] \<and> head_kind (hd (json_text j)) = json_kind j"
proof (cases j)
  case (JNum n)
  with assms show ?thesis by (simp add: num_literal_def head_kind_num json_kind_def)
qed (simp_all add: json_quote_def head_kind_def json_kind_def)

lemma json_text_same_kind:
  assumes "json_ok j" "json_ok j'" "json_text j @ r = json_text j' @ r'"
  shows "json_kind j = json_kind j'"
  using json_text_head [OF assms(1)] json_text_head [OF assms(2)] assms(3) by (metis hd_append2)

lemma json_kind_cases:
  "json_kind j = 0 \<Longrightarrow> j = JNull" "json_kind j = 1 \<Longrightarrow> j = JBool True" "json_kind j = 2 \<Longrightarrow> j = JBool False"
  "json_kind j = 3 \<Longrightarrow> \<exists>n. j = JNum n" "json_kind j = 4 \<Longrightarrow> \<exists>s. j = JStr s" "json_kind j = 5 \<Longrightarrow> \<exists>xs. j = JArr xs"
  "json_kind j = 6 \<Longrightarrow> \<exists>fs. j = JObj fs"
  by (cases j; simp add: json_kind_def split: if_splits)+

lemma json_text_not_close:
  assumes "json_ok j" and "c = CHR '']'' \<or> c = CHR ''}''"
  shows "json_text j @ r \<noteq> c # r'"
proof -
  have "head_kind c = 7" using assms(2) by (elim disjE) (simp_all add: head_kind_def num_start_def is_digit_def)
  moreover have "json_kind j \<noteq> 7" by (cases j) (simp_all add: json_kind_def)
  ultimately show ?thesis using json_text_head [OF assms(1)] by (cases "json_text j") auto
qed

lemma commas_Cons: "commas (x # xs) = x @ (if xs = [] then [] else CHR '','' # commas xs)"
  by (cases xs) simp_all

lemma json_ok_Arr: "json_ok (JArr xs) \<longleftrightarrow> (\<forall>x\<in>set xs. json_ok x)"
  by (auto simp: list_all_iff)

lemma json_ok_Obj: "json_ok (JObj fs) \<longleftrightarrow> (\<forall>(k, x)\<in>set fs. json_ok x)"
  by (auto simp: list_all_iff)

text \<open>A comma-separated list whose elements can be split off one by one.\<close>

lemma commas_prefix:
  assumes "\<And>x y r r'. x \<in> set xs \<Longrightarrow> y \<in> set ys \<Longrightarrow> delim r \<Longrightarrow> delim r' \<Longrightarrow>
      shown x @ r = shown y @ r' \<Longrightarrow> x = y \<and> r = r'"
    and "\<And>x r r'. x \<in> set xs \<union> set ys \<Longrightarrow> shown x @ r \<noteq> c # r'"
    and "c = CHR '']'' \<or> c = CHR ''}''"
    and "commas (map shown xs) @ c # r = commas (map shown ys) @ c # r'"
  shows "xs = ys \<and> r = r'"
  using assms(1,2,4)
proof (induction xs arbitrary: ys)
  case Nil
  show ?case
  proof (cases ys)
    case (Cons y zs)
    with Nil(2) [of y "(if zs = [] then [] else CHR '','' # commas (map shown zs)) @ c # r'" r] Nil(3)
    show ?thesis by (simp add: commas_Cons)
  qed (use Nil in simp)
next
  case (Cons x xs)
  show ?case
  proof (cases ys)
    case Nil
    with Cons.prems(2) [of x] Cons.prems(3) show ?thesis by (auto simp: commas_Cons)
  next
    case ys: (Cons y zs)
    define a b where "a = (if xs = [] then [] else CHR '','' # commas (map shown xs)) @ c # r"
      and "b = (if zs = [] then [] else CHR '','' # commas (map shown zs)) @ c # r'"
    have "shown x @ a = shown y @ b" and "delim a" and "delim b"
      using Cons.prems(3) ys assms(3) by (auto simp: commas_Cons a_def b_def)
    with Cons.prems(1) [of x y a b] ys have xy: "x = y" and ab: "a = b" by auto
    from ab assms(3) have "commas (map shown xs) @ c # r = commas (map shown zs) @ c # r'"
      by (auto simp: a_def b_def split: if_splits)
    with Cons.IH [of zs] Cons.prems(1,2) ys xy show ?thesis by (auto simp: ys)
  qed
qed

lemma json_text_prefix:
  "json_ok j \<Longrightarrow> json_ok j' \<Longrightarrow> delim r \<Longrightarrow> delim r' \<Longrightarrow> json_text j @ r = json_text j' @ r' \<Longrightarrow> j = j' \<and> r = r'"
proof (induction j arbitrary: j' r r')
  case (JNum n)
  then obtain m where "j' = JNum m"
    using json_text_same_kind [OF JNum.prems(1,2,5)] json_kind_cases(4) [of j'] by (auto simp: json_kind_def)
  with JNum show ?case using num_prefix [of n m r r'] by (simp add: num_literal_def)
next
  case (JStr s)
  then obtain t where "j' = JStr t"
    using json_text_same_kind [OF JStr.prems(1,2,5)] json_kind_cases(5) [of j'] by (auto simp: json_kind_def)
  with JStr show ?case by (simp add: json_quote_prefix)
next
  case (JArr xs)
  then obtain ys where ys: "j' = JArr ys"
    using json_text_same_kind [OF JArr.prems(1,2,5)] json_kind_cases(6) [of j'] by (auto simp: json_kind_def)
  have ok: "\<forall>x\<in>set xs. json_ok x" "\<forall>x\<in>set ys. json_ok x"
    using JArr.prems(1,2) unfolding ys json_ok_Arr by auto
  have "xs = ys \<and> r = r'"
  proof (rule commas_prefix [where shown = json_text and c = "CHR 0x5D"])
    show "commas (map json_text xs) @ CHR '']'' # r = commas (map json_text ys) @ CHR '']'' # r'"
      using JArr.prems(5) ys by simp
    show "x = y \<and> q = q'" if "x \<in> set xs" "y \<in> set ys" "delim q" "delim q'" "json_text x @ q = json_text y @ q'"
      for x y q q' using JArr.IH that ok by blast
    show "json_text x @ q \<noteq> CHR '']'' # q'" if "x \<in> set xs \<union> set ys" for x q q'
      by (rule json_text_not_close) (use ok that in auto)
  qed simp
  with ys show ?case by simp
next
  case (JObj fs)
  then obtain gs where gs: "j' = JObj gs"
    using json_text_same_kind [OF JObj.prems(1,2,5)] json_kind_cases(7) [of j'] by (auto simp: json_kind_def)
  let ?shown = "\<lambda>p. json_quote (fst p) @ CHR '':'' # json_text (snd p)"
  have "fs = gs \<and> r = r'"
  proof (rule commas_prefix [where shown = ?shown and c = "CHR ''}''"])
    show "commas (map ?shown fs) @ CHR ''}'' # r = commas (map ?shown gs) @ CHR ''}'' # r'"
      using JObj.prems(5) gs by (simp add: map_prod_def comp_def case_prod_beta)
    show "x = y \<and> q = q'" if "x \<in> set fs" "y \<in> set gs" "delim q" "delim q'" "?shown x @ q = ?shown y @ q'" for x y q q'
    proof -
      obtain k v l w where xy: "x = (k, v)" "y = (l, w)" by (metis surj_pair)
      with that(5) have k: "k = l" and t: "json_text v @ q = json_text w @ q'"
        by (auto simp: json_quote_prefix)
      have "json_ok v" "json_ok w" using JObj.prems(1,2) that(1,2) unfolding gs xy json_ok_Obj by auto
      with JObj.IH [of x v w q q'] that t xy k show ?thesis by (auto simp: snds.simps)
    qed
    show "?shown x @ q \<noteq> CHR ''}'' # q'" for x q q' by (simp add: json_quote_def split: prod.splits)
  qed simp
  with gs show ?case by simp
next
  case JNull
  then have "j' = JNull"
    using json_text_same_kind [OF JNull.prems(1,2,5)] json_kind_cases(1) [of j'] by (simp add: json_kind_def)
  with JNull show ?case by simp
next
  case (JBool b)
  have "json_kind j' = (if b then 1 else 2)"
    using json_text_same_kind [OF JBool.prems(1,2,5)] by (simp add: json_kind_def)
  then have "j' = JBool b" by (cases b) (simp_all add: json_kind_cases)
  with JBool show ?case by simp
qed

text \<open>Decoding into maps keeps the literals.\<close>

lemma set_obj_put: "set (obj_put k v m) \<subseteq> insert (k, v) (set m)"
  by (induction k v m rule: obj_put.induct) auto

lemma set_go_map: "set (go_map fs) \<subseteq> set fs"
proof -
  have "set (fold (\<lambda>(k, v). obj_put k v) fs m) \<subseteq> set fs \<union> set m" for m
  proof (induction fs arbitrary: m)
    case (Cons p fs)
    then show ?case
      using Cons.IH [of "obj_put (fst p) (snd p) m"] set_obj_put [of "fst p" "snd p" m]
      by (auto simp: case_prod_beta)
  qed simp
  from this [of "[]"] show ?thesis by (simp add: go_map_def)
qed

lemma json_ok_norm: "json_ok j \<Longrightarrow> json_ok (json_norm j)"
proof (induction j)
  case (JArr xs)
  then show ?case by (auto simp: list_all_iff)
next
  case (JObj fs)
  have "\<forall>(k, x)\<in>set (map (map_prod id json_norm) fs). json_ok x"
  proof (intro ballI, clarify)
    fix k x assume "(k, x) \<in> set (map (map_prod id json_norm) fs)"
    then obtain v where "(k, v) \<in> set fs" and x: "x = json_norm v" by auto
    with JObj show "json_ok x" unfolding json_ok_Obj x by fastforce
  qed
  then show ?case
    using set_go_map [of "map (map_prod id json_norm) fs"] unfolding json_norm.simps json_ok_Obj by blast
qed simp_all

lemma json_text_inj: "json_ok j \<Longrightarrow> json_ok j' \<Longrightarrow> json_text j = json_text j' \<longleftrightarrow> j = j'"
  using json_text_prefix [of j j' "[]" "[]"] by (auto simp: delim_def)

end
