(* ===== verification/StoreDB.thy ===== *)
theory StoreDB
  imports Sql Json
begin

text \<open>
  The tables of the control-plane database that the \<open>store\<close> package owns
  (\<open>internal/store/*.go\<close>, schema in \<open>internal/store/migrations/versions\<close>): one record per row type,
  with the columns of the schema, and one record for the database.  The row of \<open>ai_runs\<close> carries the
  columns of the Go struct \<open>AIRun\<close>; nullable columns are options.
\<close>

section \<open>Rows\<close>

record ai_run =
  r_run_id :: gostring
  r_request_id :: gostring
  r_tenant_id :: gostring
  r_principal :: gostring
  r_principal_type :: gostring
  r_session_id :: "gostring option"
  r_scope_kind :: gostring
  r_primary_cluster_id :: "gostring option"
  r_intent :: gostring
  r_action_mode :: gostring
  r_target_type :: "gostring option"
  r_target_resource_id :: "gostring option"
  r_time_range_start :: "millis option"
  r_time_range_end :: "millis option"
  r_status :: gostring
  r_state_version :: int
  r_parent_run_id :: "gostring option"
  r_created_at :: millis
  r_updated_at :: millis
  r_finished_at :: "millis option"
  r_last_event_sequence :: int
  r_lease_owner_id :: "gostring option"
  r_lease_epoch :: int
  r_lease_claim_id :: "gostring option"
  r_lease_token_hash :: "gostring option"
  r_lease_expires_at :: "millis option"
  r_heartbeat_at :: "millis option"
  r_runtime_wait_kind :: gostring
  r_retry_not_before :: "millis option"
  r_retry_attempt :: int
  r_last_failure_code :: "gostring option"
  r_runtime_metadata :: "gostring option"

record run_claim =
  cl_run_id :: gostring
  cl_claim_id :: gostring
  cl_executor_id :: gostring
  cl_lease_epoch :: int
  cl_token_hash :: gostring
  cl_claim_source :: gostring
  cl_created_at :: millis

record run_event =
  ev_event_id :: gostring
  ev_run_id :: gostring
  ev_sequence :: int
  ev_event_type :: gostring
  ev_payload :: gostring
  ev_created_at :: millis

record runtime_commit =
  cm_run_id :: gostring
  cm_commit_id :: gostring
  cm_payload_hash :: gostring
  cm_state_version :: int
  cm_result_status :: gostring
  cm_first_seq :: "int option"
  cm_last_seq :: "int option"
  cm_response :: gostring
  cm_created_at :: millis

record control_command =
  cc_command_id :: gostring
  cc_run_id :: gostring
  cc_operation :: gostring
  cc_payload :: "gostring option"
  cc_payload_hash :: "gostring option"
  cc_response :: "gostring option"
  cc_status :: gostring
  cc_completed_at :: "millis option"
  cc_idempotency_key :: gostring
  cc_created_at :: millis

record run_outbox =
  ob_invocation_id :: gostring
  ob_run_id :: gostring
  ob_status :: gostring
  ob_dispatch_count :: int
  ob_next_retry_at :: "millis option"
  ob_owner :: "gostring option"
  ob_epoch :: int
  ob_token :: "gostring option"
  ob_expires_at :: "millis option"
  ob_delivered_at :: "millis option"
  ob_created_at :: millis
  ob_updated_at :: millis

record action_outbox =
  ao_command_id :: gostring
  ao_action_id :: gostring
  ao_action_version :: int
  ao_action_hash :: gostring
  ao_run_id :: gostring
  ao_tenant_id :: gostring
  ao_cluster_id :: gostring
  ao_status :: gostring
  ao_dispatch_count :: int
  ao_next_retry_at :: "millis option"
  ao_owner :: "gostring option"
  ao_epoch :: int
  ao_token :: "gostring option"
  ao_expires_at :: "millis option"
  ao_delivered_at :: "millis option"
  ao_created_at :: millis
  ao_updated_at :: millis

record tool_run =
  tr_tool_run_id :: gostring
  tr_run_id :: gostring
  tr_step_id :: "gostring option"
  tr_tenant_id :: gostring
  tr_cluster_id :: gostring
  tr_tool_name :: gostring
  tr_status :: gostring
  tr_input :: gostring
  tr_result :: gostring
  tr_error_code :: "gostring option"
  tr_error_message :: "gostring option"
  tr_duration_ms :: int
  tr_started_at :: "millis option"
  tr_completed_at :: "millis option"
  tr_created_at :: millis
  tr_idempotency_key :: gostring
  tr_args_hash :: "gostring option"
  tr_executor_id :: "gostring option"
  tr_lease_epoch_at_start :: "int option"
  tr_deadline_at :: "millis option"
  tr_observed_at :: "millis option"
  tr_window_start :: "millis option"
  tr_window_end :: "millis option"
  tr_result_quality :: gostring
  tr_result_complete :: bool
  tr_result_truncated :: bool
  tr_result_count :: int
  tr_result_digest :: "gostring option"
  tr_eligible :: bool
  tr_evidence_consumed_at :: "millis option"

record evidence =
  evd_id :: gostring
  evd_run_id :: gostring
  evd_tenant_id :: gostring
  evd_cluster_id :: gostring
  evd_type :: gostring
  evd_source_ref :: gostring
  evd_raw_ref :: gostring
  evd_raw_digest :: gostring
  evd_summary :: "gostring option"
  evd_metadata :: gostring
  evd_fingerprint :: gostring
  evd_collected_at :: millis

record ai_action =
  ac_action_id :: gostring
  ac_run_id :: gostring
  ac_tenant_id :: gostring
  ac_cluster_id :: gostring
  ac_action_type :: gostring
  ac_action_hash :: gostring
  ac_hash_schema_version :: int
  ac_action_version :: int
  ac_proposed_by :: "gostring option"
  ac_policy_version :: gostring
  ac_preflight_status :: gostring
  ac_target_resource_type :: gostring
  ac_idempotency_key :: gostring
  ac_proposed_risk :: gostring
  ac_authoritative_risk :: gostring
  ac_status :: gostring
  ac_dry_run :: bool
  ac_params :: "json option"
  ac_result :: "json option"
  ac_target_name :: gostring
  ac_target_uid :: gostring
  ac_resource_version :: gostring
  ac_namespace :: gostring
  ac_operation :: gostring
  ac_execution_status :: gostring
  ac_executed_at :: "millis option"
  ac_error_code :: gostring
  ac_created_at :: millis
  ac_updated_at :: millis

record approval_decision =
  ap_approval_id :: gostring
  ap_run_id :: gostring
  ap_action_id :: gostring
  ap_action_hash :: gostring
  ap_action_version :: "int option"
  ap_decision_key :: "gostring option"
  ap_tenant_id :: gostring
  ap_cluster_id :: gostring
  ap_decision :: gostring
  ap_approver :: gostring
  ap_reason :: "gostring option"
  ap_decided_at :: "millis option"
  ap_created_at :: millis

record action_attempt =
  at_attempt_id :: gostring
  at_action_id :: gostring
  at_run_id :: gostring
  at_tenant_id :: gostring
  at_cluster_id :: gostring
  at_idempotency_key :: gostring
  at_action_hash :: gostring
  at_request_digest :: gostring
  at_status :: gostring
  at_executor_id :: gostring
  at_request :: "json option"
  at_result :: "json option"
  at_error_code :: gostring
  at_started_at :: "millis option"
  at_finished_at :: "millis option"
  at_completed_at :: "millis option"
  at_created_at :: millis

record action_reconciliation =
  rc_reconciliation_id :: gostring
  rc_action_id :: gostring
  rc_attempt_id :: gostring
  rc_action_hash :: gostring
  rc_status :: gostring
  rc_observed_uid :: gostring
  rc_observed_version :: gostring
  rc_observed :: "json option"
  rc_error_code :: gostring
  rc_created_at :: millis

record graph_lease =
  gl_key :: gostring
  gl_owner :: gostring
  gl_epoch :: int
  gl_token :: gostring
  gl_expires_at :: millis

section \<open>The database\<close>

record store_db =
  ai_runs :: "ai_run list"
  ai_run_claims :: "run_claim list"
  ai_run_events :: "run_event list"
  ai_runtime_commits :: "runtime_commit list"
  ai_control_commands :: "control_command list"
  ai_run_outbox :: "run_outbox list"
  ai_action_outbox :: "action_outbox list"
  ai_tool_runs :: "tool_run list"
  ai_evidence :: "evidence list"
  ai_actions :: "ai_action list"
  ai_approval_decisions :: "approval_decision list"
  ai_action_attempts :: "action_attempt list"
  ai_action_reconciliations :: "action_reconciliation list"
  graph_worker_leases :: "graph_lease list"

definition empty_db :: store_db where
  "empty_db = \<lparr>ai_runs = [], ai_run_claims = [], ai_run_events = [], ai_runtime_commits = [],
     ai_control_commands = [], ai_run_outbox = [], ai_action_outbox = [], ai_tool_runs = [],
     ai_evidence = [], ai_actions = [], ai_approval_decisions = [], ai_action_attempts = [],
     ai_action_reconciliations = [], graph_worker_leases = []\<rparr>"

definition get_run :: "gostring \<Rightarrow> store_db \<Rightarrow> ai_run option" where
  "get_run rid db = sql_first (\<lambda>r. r_run_id r = rid) (ai_runs db)"

text \<open>The primary and unique keys that the proofs need.\<close>

definition keys_ok :: "store_db \<Rightarrow> bool" where
  "keys_ok db \<longleftrightarrow>
     uniq_key r_run_id (ai_runs db) \<and>
     uniq_key (\<lambda>c. (cl_run_id c, cl_claim_id c)) (ai_run_claims db) \<and>
     uniq_key (\<lambda>c. (cm_run_id c, cm_commit_id c)) (ai_runtime_commits db) \<and>
     uniq_key cc_command_id (ai_control_commands db) \<and>
     uniq_key ob_invocation_id (ai_run_outbox db) \<and>
     uniq_key ao_command_id (ai_action_outbox db) \<and>
     uniq_key tr_tool_run_id (ai_tool_runs db) \<and>
     uniq_key ac_action_id (ai_actions db)"

lemma keys_ok_empty: "keys_ok empty_db"
  by (simp add: keys_ok_def empty_db_def)

definition update_run :: "gostring \<Rightarrow> (ai_run \<Rightarrow> bool) \<Rightarrow> (ai_run \<Rightarrow> ai_run) \<Rightarrow> store_db \<Rightarrow> nat \<times> store_db" where
  "update_run rid p f db =
     (sql_affected (\<lambda>r. r_run_id r = rid \<and> p r) f (ai_runs db),
      db\<lparr>ai_runs := sql_update (\<lambda>r. r_run_id r = rid \<and> p r) f (ai_runs db)\<rparr>)"

text \<open>
  \<open>UPDATE ai_runs SET f WHERE run_id = rid AND p\<close>: what a lookup sees afterwards, and the number of
  rows reported.
\<close>

lemma get_run_update_run:
  assumes "\<And>r. r_run_id (f r) = r_run_id r"
  shows "get_run k (snd (update_run rid p f db)) =
    map_option (\<lambda>r. if k = rid \<and> p r then f r else r) (get_run k db)"
  by (simp add: update_run_def get_run_def sql_first_key_update [where key = r_run_id and f = f, OF assms])

lemma affected_update_run:
  assumes "uniq_key r_run_id (ai_runs db)"
  shows "fst (update_run rid p f db) = (case get_run rid db of
      None \<Rightarrow> 0 | Some r \<Rightarrow> if p r \<and> f r \<noteq> r then 1 else 0)"
  by (simp add: update_run_def get_run_def sql_affected_key_and [OF assms])

lemma keys_ok_update_run:
  assumes "\<And>r. r_run_id (f r) = r_run_id r"
  shows "keys_ok (snd (update_run rid p f db)) = keys_ok db"
  using assms by (simp add: keys_ok_def update_run_def uniq_key_update)

lemma update_run_other_tables [simp]:
  "ai_run_claims (snd (update_run rid p f db)) = ai_run_claims db"
  "ai_run_events (snd (update_run rid p f db)) = ai_run_events db"
  "ai_runtime_commits (snd (update_run rid p f db)) = ai_runtime_commits db"
  "ai_control_commands (snd (update_run rid p f db)) = ai_control_commands db"
  "ai_run_outbox (snd (update_run rid p f db)) = ai_run_outbox db"
  "ai_action_outbox (snd (update_run rid p f db)) = ai_action_outbox db"
  "ai_tool_runs (snd (update_run rid p f db)) = ai_tool_runs db"
  "ai_evidence (snd (update_run rid p f db)) = ai_evidence db"
  "ai_actions (snd (update_run rid p f db)) = ai_actions db"
  "ai_approval_decisions (snd (update_run rid p f db)) = ai_approval_decisions db"
  "ai_action_attempts (snd (update_run rid p f db)) = ai_action_attempts db"
  "ai_action_reconciliations (snd (update_run rid p f db)) = ai_action_reconciliations db"
  "graph_worker_leases (snd (update_run rid p f db)) = graph_worker_leases db"
  by (simp_all add: update_run_def)

lemma update_run_neq_1:
  assumes "uniq_key r_run_id (ai_runs db)" and "fst (update_run rid p f db) \<noteq> 1"
  shows "snd (update_run rid p f db) = db"
  using sql_affected_key_neq_1 [OF assms(1), of rid p f] assms(2) by (simp add: update_run_def)

lemma update_run_eq_1:
  assumes "uniq_key r_run_id (ai_runs db)" and "fst (update_run rid p f db) = 1"
  shows "\<exists>r. get_run rid db = Some r \<and> p r \<and> f r \<noteq> r"
  using sql_affected_key_eq_1 [OF assms(1), of rid p f] assms(2)
  by (simp add: update_run_def get_run_def)

lemma update_run_snd: "snd (update_run rid p f db) =
    db\<lparr>ai_runs := sql_update (\<lambda>r. r_run_id r = rid \<and> p r) f (ai_runs db)\<rparr>"
  by (simp add: update_run_def)

lemma get_run_run_id: "get_run rid db = Some r \<Longrightarrow> r_run_id r = rid"
  by (auto simp: get_run_def dest: sql_first_SomeD)

lemma get_run_in_set: "get_run rid db = Some r \<Longrightarrow> r \<in> set (ai_runs db)"
  by (auto simp: get_run_def dest: sql_first_SomeD)

end
