(* ===== verification/AIRuns.thy ===== *)
theory AIRuns
  imports StoreDB
begin

text \<open>
  The Run record and its state machine: \<open>internal/store/ai_runs.go\<close>, with the copy of the transition
  table that the HTTP layer keeps (\<open>internal/api/control_plane_runs.go\<close>).

  A Run is created in status \<open>created\<close>, moves along \<open>runTransitions\<close> under an optimistic
  \<open>state_version\<close> check, and ends in one of five terminal statuses.
\<close>

section \<open>Statuses and transitions\<close>

definition isTerminalStatus :: "gostring \<Rightarrow> bool" where
  "isTerminalStatus status \<longleftrightarrow>
     status = ''success'' \<or> status = ''partial'' \<or> status = ''failed'' \<or>
     status = ''regressed'' \<or> status = ''cancelled''"

definition IsTerminalStatus :: "gostring \<Rightarrow> bool" where
  "IsTerminalStatus status = isTerminalStatus status"

definition runTransitions :: "(gostring \<times> gostring list) list" where
  "runTransitions =
    [(''created'', [''planning'', ''cancelled'']),
     (''planning'', [''investigating'', ''awaiting_confirmation'', ''failed'', ''cancelled'']),
     (''investigating'', [''awaiting_confirmation'', ''awaiting_approval'', ''verifying'', ''failed'', ''cancelled'']),
     (''awaiting_confirmation'', [''investigating'', ''awaiting_approval'', ''cancelled'']),
     (''awaiting_approval'', [''executing'', ''cancelled'', ''failed'']),
     (''executing'', [''verifying'', ''success'', ''partial'', ''failed'', ''regressed'', ''cancelled'']),
     (''verifying'', [''success'', ''partial'', ''failed'', ''regressed'', ''cancelled''])]"

definition runTerminal :: "gostring list" where
  "runTerminal = [''success'', ''partial'', ''failed'', ''regressed'', ''cancelled'']"

definition transition_targets :: "gostring \<Rightarrow> gostring list" where
  "transition_targets current =
     (case map_of runTransitions current of None \<Rightarrow> [] | Some ts \<Rightarrow> ts)"

definition ValidateRunTransition :: "gostring \<Rightarrow> gostring \<Rightarrow> bool" where
  "ValidateRunTransition current target =
     (if current \<in> set runTerminal then False else target \<in> set (transition_targets current))"

text \<open>The table and the check of the HTTP layer, a second copy in the sources.\<close>

definition api_runTransitions :: "(gostring \<times> gostring list) list" where
  "api_runTransitions =
    [(''created'', [''planning'', ''cancelled'']),
     (''planning'', [''investigating'', ''awaiting_confirmation'', ''failed'', ''cancelled'']),
     (''investigating'', [''awaiting_confirmation'', ''awaiting_approval'', ''verifying'', ''failed'', ''cancelled'']),
     (''awaiting_confirmation'', [''investigating'', ''awaiting_approval'', ''cancelled'']),
     (''awaiting_approval'', [''executing'', ''cancelled'', ''failed'']),
     (''executing'', [''verifying'', ''success'', ''partial'', ''failed'', ''regressed'', ''cancelled'']),
     (''verifying'', [''success'', ''partial'', ''failed'', ''regressed'', ''cancelled''])]"

definition api_runTerminal :: "gostring list" where
  "api_runTerminal = [''success'', ''partial'', ''failed'', ''regressed'', ''cancelled'']"

definition validRunTransition :: "gostring \<Rightarrow> gostring \<Rightarrow> bool" where
  "validRunTransition current target =
     (if current \<in> set api_runTerminal then False
      else (case map_of api_runTransitions current of None \<Rightarrow> False | Some ts \<Rightarrow> target \<in> set ts))"

section \<open>The Go struct and its columns\<close>

record AIRun =
  RunID :: gostring
  RequestID :: gostring
  TenantID :: gostring
  Principal :: gostring
  PrincipalType :: gostring
  SessionID :: gostring
  ScopeKind :: gostring
  PrimaryClusterID :: gostring
  Intent :: gostring
  ActionMode :: gostring
  TargetType :: gostring
  TargetResourceID :: gostring
  TimeRangeStart :: "millis option"
  TimeRangeEnd :: "millis option"
  Status :: gostring
  StateVersion :: int
  ParentRunID :: gostring
  CreatedAt :: millis
  UpdatedAt :: millis
  FinishedAt :: "millis option"
  LastEventSeq :: int
  LeaseOwnerID :: gostring
  LeaseEpoch :: int
  LeaseClaimID :: gostring
  LeaseTokenHash :: gostring
  LeaseExpiresAt :: "millis option"
  HeartbeatAt :: "millis option"
  RuntimeWaitKind :: gostring
  RetryNotBefore :: "millis option"
  RetryAttempt :: int
  LastFailureCode :: gostring
  RuntimeMetadata :: gostring

text \<open>\<open>scanAIRunRow\<close> fills the columns of \<open>Get\<close>; the lease and runtime fields keep their zero values.\<close>

definition scanAIRunRow :: "ai_run \<Rightarrow> AIRun" where
  "scanAIRunRow r =
    \<lparr>RunID = r_run_id r, RequestID = r_request_id r, TenantID = r_tenant_id r,
     Principal = r_principal r, PrincipalType = r_principal_type r,
     SessionID = null_string (r_session_id r), ScopeKind = r_scope_kind r,
     PrimaryClusterID = null_string (r_primary_cluster_id r), Intent = r_intent r,
     ActionMode = r_action_mode r, TargetType = null_string (r_target_type r),
     TargetResourceID = null_string (r_target_resource_id r),
     TimeRangeStart = r_time_range_start r, TimeRangeEnd = r_time_range_end r,
     Status = r_status r, StateVersion = r_state_version r,
     ParentRunID = null_string (r_parent_run_id r),
     CreatedAt = r_created_at r, UpdatedAt = r_updated_at r, FinishedAt = r_finished_at r,
     LastEventSeq = r_last_event_sequence r,
     LeaseOwnerID = [], LeaseEpoch = 0, LeaseClaimID = [], LeaseTokenHash = [],
     LeaseExpiresAt = None, HeartbeatAt = None, RuntimeWaitKind = [], RetryNotBefore = None,
     RetryAttempt = 0, LastFailureCode = [], RuntimeMetadata = []\<rparr>"

definition scanAIRunRowFull :: "ai_run \<Rightarrow> AIRun" where
  "scanAIRunRowFull r = (scanAIRunRow r)
    \<lparr>LeaseOwnerID := null_string (r_lease_owner_id r), LeaseEpoch := r_lease_epoch r,
     LeaseClaimID := null_string (r_lease_claim_id r),
     LeaseTokenHash := null_string (r_lease_token_hash r),
     LeaseExpiresAt := r_lease_expires_at r, HeartbeatAt := r_heartbeat_at r,
     RuntimeWaitKind := r_runtime_wait_kind r, RetryNotBefore := r_retry_not_before r,
     RetryAttempt := r_retry_attempt r, LastFailureCode := null_string (r_last_failure_code r),
     RuntimeMetadata := null_string (r_runtime_metadata r)\<rparr>"

text \<open>The row that \<open>INSERT INTO ai_runs\<close> stores; columns it does not name get their schema defaults.\<close>

definition insert_row :: "AIRun \<Rightarrow> ai_run" where
  "insert_row a =
    \<lparr>r_run_id = RunID a, r_request_id = RequestID a, r_tenant_id = TenantID a,
     r_principal = Principal a, r_principal_type = PrincipalType a,
     r_session_id = nullable_str (SessionID a),
     r_scope_kind = or_default (ScopeKind a) ''single_cluster'',
     r_primary_cluster_id = nullable_str (PrimaryClusterID a),
     r_intent = Intent a, r_action_mode = ActionMode a,
     r_target_type = nullable_str (TargetType a),
     r_target_resource_id = nullable_str (TargetResourceID a),
     r_time_range_start = TimeRangeStart a, r_time_range_end = TimeRangeEnd a,
     r_status = or_default (Status a) ''created'', r_state_version = StateVersion a,
     r_parent_run_id = nullable_str (ParentRunID a),
     r_created_at = CreatedAt a, r_updated_at = UpdatedAt a, r_finished_at = None,
     r_last_event_sequence = 0, r_lease_owner_id = None, r_lease_epoch = 0,
     r_lease_claim_id = None, r_lease_token_hash = None, r_lease_expires_at = None,
     r_heartbeat_at = None, r_runtime_wait_kind = ''none'', r_retry_not_before = None,
     r_retry_attempt = 0, r_last_failure_code = None, r_runtime_metadata = None\<rparr>"

datatype ins_result = InsOk | InsDup | InsBad

text \<open>
  The insert statement itself: the primary key on \<open>run_id\<close>, the unique key on
  \<open>(tenant_id, request_id)\<close> and the check on \<open>scope_kind\<close> of the schema.
\<close>

definition insert_run :: "ai_run \<Rightarrow> store_db \<Rightarrow> ins_result \<times> store_db" where
  "insert_run r db =
     (if r_scope_kind r \<noteq> ''single_cluster'' \<and> r_scope_kind r \<noteq> ''multi_cluster'' then (InsBad, db)
      else if list_ex (\<lambda>x. r_run_id x = r_run_id r \<or>
             (r_tenant_id x = r_tenant_id r \<and> r_request_id x = r_request_id r)) (ai_runs db)
      then (InsDup, db)
      else (InsOk, db\<lparr>ai_runs := ai_runs db @ [r]\<rparr>))"

definition insert_outbox :: "run_outbox \<Rightarrow> store_db \<Rightarrow> ins_result \<times> store_db" where
  "insert_outbox o_row db =
     (if list_ex (\<lambda>x. ob_invocation_id x = ob_invocation_id o_row) (ai_run_outbox db)
      then (InsDup, db)
      else (InsOk, db\<lparr>ai_run_outbox := ai_run_outbox db @ [o_row]\<rparr>))"

lemma keeps_case_ins: "keeps P a \<Longrightarrow> keeps P b \<Longrightarrow> keeps P c \<Longrightarrow> keeps P (case r of InsOk \<Rightarrow> a | InsDup \<Rightarrow> b | InsBad \<Rightarrow> c)"
  by (cases r) auto

lemmas keeps_rules = keeps_ret keeps_fail keeps_bind keeps_try keeps_conn keeps_tx keeps_if keeps_case_sum
  keeps_case_option keeps_case_ins keeps_case_prod

section \<open>Operations of AIRunDAO\<close>

definition AIRunDAO_Create :: "AIRun \<Rightarrow> (store_db, bool) dbm" where
  "AIRunDAO_Create a = db_conn
     (db_bind (db_stmt (\<lambda>t. insert_run (insert_row a)))
       (\<lambda>res. case res of
          InsOk \<Rightarrow> db_ret True
        | InsDup \<Rightarrow> db_ret False
        | InsBad \<Rightarrow> db_fail DriverError))"

text \<open>
  \<open>CreateWithOutbox\<close>: the Run and its dispatch record in one transaction.  A duplicate Run returns
  \<open>(false, nil)\<close> without a commit; an outbox insert that fails for any reason, a duplicate
  invocation id included, is an error and rolls the Run back.
\<close>

definition outbox_row :: "AIRun \<Rightarrow> run_outbox \<Rightarrow> run_outbox" where
  "outbox_row a ob = ob
     \<lparr>ob_run_id := RunID a, ob_status := or_default (ob_status ob) ''pending'',
      ob_next_retry_at := None, ob_owner := None, ob_epoch := 0, ob_token := None,
      ob_expires_at := None, ob_delivered_at := None,
      ob_created_at := (if ob_created_at ob = 0 then CreatedAt a else ob_created_at ob),
      ob_updated_at := (if ob_updated_at ob = 0 then UpdatedAt a else ob_updated_at ob)\<rparr>"

definition CreateWithOutbox :: "AIRun \<Rightarrow> run_outbox \<Rightarrow> (store_db, bool) dbm" where
  "CreateWithOutbox a ob = db_conn (db_tx
     (db_bind (db_stmt (\<lambda>t. insert_run (insert_row a)))
       (\<lambda>res. case res of
          InsDup \<Rightarrow> db_ret (Rollback False)
        | InsBad \<Rightarrow> db_fail DriverError
        | InsOk \<Rightarrow>
            db_bind (db_stmt (\<lambda>t. insert_outbox (outbox_row a ob)))
              (\<lambda>res2. case res2 of
                 InsOk \<Rightarrow> db_ret (Commit True)
               | InsDup \<Rightarrow> db_fail DuplicateEntry
               | InsBad \<Rightarrow> db_fail DriverError))))"

definition AIRunDAO_GetTx :: "gostring \<Rightarrow> (store_db, AIRun) dbm" where
  "AIRunDAO_GetTx rid =
     db_bind (db_stmt (\<lambda>t db. (get_run rid db, db)))
       (\<lambda>row. case row of None \<Rightarrow> db_fail SqlErrNoRows | Some r \<Rightarrow> db_ret (scanAIRunRow r))"

definition AIRunDAO_Get :: "gostring \<Rightarrow> (store_db, AIRun) dbm" where
  "AIRunDAO_Get rid = db_conn (AIRunDAO_GetTx rid)"

definition GetByTenantRequestID :: "gostring \<Rightarrow> gostring \<Rightarrow> (store_db, AIRun) dbm" where
  "GetByTenantRequestID tenant req = db_conn
     (db_bind (db_stmt (\<lambda>t db.
          (sql_first (\<lambda>r. r_tenant_id r = tenant \<and> r_request_id r = req) (ai_runs db), db)))
       (\<lambda>row. case row of None \<Rightarrow> db_fail SqlErrNoRows | Some r \<Rightarrow> db_ret (scanAIRunRow r)))"

definition GetWithRuntime :: "gostring \<Rightarrow> (store_db, AIRun) dbm" where
  "GetWithRuntime rid = db_conn
     (db_bind (db_stmt (\<lambda>t db. (get_run rid db, db)))
       (\<lambda>row. case row of None \<Rightarrow> db_fail SqlErrNoRows | Some r \<Rightarrow> db_ret (scanAIRunRowFull r)))"

text \<open>\<open>ORDER BY created_at DESC\<close>, newest first.\<close>

definition AIRunDAO_list :: "gostring \<Rightarrow> gostring \<Rightarrow> (store_db, AIRun list) dbm" where
  "AIRunDAO_list tenant cluster = db_conn
     (db_stmt (\<lambda>t db.
        (map scanAIRunRow (sort_key (\<lambda>r. - r_created_at r)
           (filter (\<lambda>r. r_tenant_id r = tenant \<and>
              (cluster \<noteq> [] \<longrightarrow> r_primary_cluster_id r = Some cluster)) (ai_runs db))), db)))"

definition AIRunDAO_List :: "gostring \<Rightarrow> (store_db, AIRun list) dbm" where
  "AIRunDAO_List tenant = AIRunDAO_list tenant []"

definition ListByCluster :: "gostring \<Rightarrow> gostring \<Rightarrow> (store_db, AIRun list) dbm" where
  "ListByCluster tenant cluster = AIRunDAO_list tenant (trim_space cluster)"

definition ScanUnfinishedLimit :: "int \<Rightarrow> (store_db, AIRun list) dbm" where
  "ScanUnfinishedLimit limit = db_conn
     (db_stmt (\<lambda>t db.
        (let open_runs = filter (\<lambda>r. \<not> isTerminalStatus (r_status r)) (ai_runs db)
         in map scanAIRunRow
              (if limit > 0 then sql_order_limit r_created_at (nat limit) open_runs else open_runs), db)))"

definition ScanUnfinished :: "(store_db, AIRun list) dbm" where
  "ScanUnfinished = ScanUnfinishedLimit 0"

subsection \<open>State changes\<close>

text \<open>The \<open>SET\<close> clause shared by every transition: status, version, update time, finish time.\<close>

definition set_transition :: "gostring \<Rightarrow> millis \<Rightarrow> ai_run \<Rightarrow> ai_run" where
  "set_transition target now r = r
     \<lparr>r_status := target, r_state_version := r_state_version r + 1, r_updated_at := now,
      r_finished_at := (if isTerminalStatus target then Some now else None)\<rparr>"

definition TransitionTx ::
  "gostring \<Rightarrow> gostring \<Rightarrow> int \<Rightarrow> millis \<Rightarrow> (store_db, bool) dbm" where
  "TransitionTx rid target expected now =
     db_bind (db_stmt (\<lambda>t. update_run rid (\<lambda>r. r_state_version r = expected) (set_transition target now)))
       (\<lambda>n. db_ret (n = 1))"

definition AIRunDAO_Transition ::
  "gostring \<Rightarrow> gostring \<Rightarrow> int \<Rightarrow> millis \<Rightarrow> (store_db, bool) dbm" where
  "AIRunDAO_Transition rid target expected now = db_conn (TransitionTx rid target expected now)"

definition AIRunDAO_CancelTx :: "gostring \<Rightarrow> int \<Rightarrow> millis \<Rightarrow> (store_db, bool) dbm" where
  "AIRunDAO_CancelTx rid expected now =
     db_bind (db_stmt (\<lambda>t. update_run rid
          (\<lambda>r. r_state_version r = expected \<and> \<not> isTerminalStatus (r_status r))
          (\<lambda>r. r\<lparr>r_status := ''cancelled'', r_state_version := r_state_version r + 1,
                r_updated_at := now, r_finished_at := Some now\<rparr>)))
       (\<lambda>n. db_ret (n = 1))"

definition AIRunDAO_Cancel :: "gostring \<Rightarrow> int \<Rightarrow> millis \<Rightarrow> (store_db, bool) dbm" where
  "AIRunDAO_Cancel rid expected now = db_conn (AIRunDAO_CancelTx rid expected now)"

definition TransitionTxValidated ::
  "gostring \<Rightarrow> gostring \<Rightarrow> int \<Rightarrow> millis \<Rightarrow> (store_db, bool) dbm" where
  "TransitionTxValidated rid target expected now =
     db_bind (db_stmt (\<lambda>t db. (map_option r_status (get_run rid db), db)))
       (\<lambda>row. case row of
          None \<Rightarrow> db_fail ErrRunNotFound
        | Some current \<Rightarrow>
            if \<not> ValidateRunTransition current target
            then db_fail (IllegalTransitionError current target)
            else db_bind (db_stmt (\<lambda>t. update_run rid
                     (\<lambda>r. r_state_version r = expected) (set_transition target now)))
                   (\<lambda>n. db_ret (n = 1)))"

text \<open>
  The lease predicate that the fencing statements share: owner, epoch and token hash match, the
  lease is not past its expiry at the database time of the statement, and the Run is not terminal.
\<close>

definition lease_matches :: "gostring \<Rightarrow> int \<Rightarrow> gostring \<Rightarrow> ai_run \<Rightarrow> bool" where
  "lease_matches owner epoch token r \<longleftrightarrow>
     r_lease_owner_id r = Some owner \<and> r_lease_epoch r = epoch \<and> r_lease_token_hash r = Some token"

definition lease_unexpired :: "millis \<Rightarrow> ai_run \<Rightarrow> bool" where
  "lease_unexpired t r = (case r_lease_expires_at r of None \<Rightarrow> False | Some e \<Rightarrow> t \<le> e)"

definition lease_live :: "millis \<Rightarrow> gostring \<Rightarrow> int \<Rightarrow> gostring \<Rightarrow> ai_run \<Rightarrow> bool" where
  "lease_live t owner epoch token r \<longleftrightarrow>
     lease_matches owner epoch token r \<and> lease_unexpired t r \<and> \<not> isTerminalStatus (r_status r)"

definition TransitionTxValidatedWithLease ::
  "gostring \<Rightarrow> gostring \<Rightarrow> int \<Rightarrow> millis \<Rightarrow> gostring \<Rightarrow> int \<Rightarrow> gostring \<Rightarrow> (store_db, bool) dbm" where
  "TransitionTxValidatedWithLease rid target expected now owner epoch token =
     db_bind (db_stmt (\<lambda>t db. (map_option r_status (get_run rid db), db)))
       (\<lambda>row. case row of
          None \<Rightarrow> db_fail ErrRunNotFound
        | Some current \<Rightarrow>
            if \<not> ValidateRunTransition current target
            then db_fail (IllegalTransitionError current target)
            else db_bind (db_stmt (\<lambda>t. update_run rid
                     (\<lambda>r. r_state_version r = expected \<and> lease_live t owner epoch token r)
                     (set_transition target now)))
                   (\<lambda>n. db_ret (n = 1)))"

definition SetRuntimeMetadataTx :: "gostring \<Rightarrow> gostring \<Rightarrow> (store_db, unit) dbm" where
  "SetRuntimeMetadataTx rid metadata =
     (if metadata = [] then db_ret ()
      else db_stmt (\<lambda>t db. ((), snd (update_run rid (\<lambda>_. True)
             (\<lambda>r. r\<lparr>r_runtime_metadata := Some metadata\<rparr>) db))))"

section \<open>The status machine\<close>

lemma runTerminal_iff: "s \<in> set runTerminal \<longleftrightarrow> isTerminalStatus s"
  by (simp add: runTerminal_def isTerminalStatus_def)

lemma terminal_no_transition: "isTerminalStatus s \<Longrightarrow> \<not> ValidateRunTransition s t"
  by (simp add: ValidateRunTransition_def runTerminal_iff)

lemma transition_from_nonterminal: "ValidateRunTransition s t \<Longrightarrow> \<not> isTerminalStatus s"
  by (metis terminal_no_transition)

lemma ValidateRunTransition_cases:
  assumes "ValidateRunTransition s t"
  shows "(s, t) \<in> set (concat (map (\<lambda>(c, ts). map (Pair c) ts) runTransitions))"
  using assms
  by (auto simp: ValidateRunTransition_def transition_targets_def runTransitions_def
      split: if_splits option.splits)

text \<open>The statuses a Run passes through: a list in which every step is a valid transition.\<close>

fun status_path :: "gostring list \<Rightarrow> bool" where
  "status_path [] = False"
| "status_path [s] = (s = ''created'')"
| "status_path (t # s # rest) = (ValidateRunTransition s t \<and> status_path (s # rest))"

lemma status_path_executing:
  "status_path (s # rest) \<Longrightarrow> s = ''executing'' \<Longrightarrow> rest \<noteq> [] \<and> hd rest = ''awaiting_approval''"
  by (cases rest) (auto dest!: ValidateRunTransition_cases simp: runTransitions_def)

lemma status_path_suffix: "status_path (xs @ s # rest) \<Longrightarrow> status_path (s # rest)"
proof (induction xs)
  case Nil
  then show ?case by simp
next
  case (Cons x xs)
  then show ?case by (cases "xs @ s # rest") auto
qed

section \<open>Update clauses\<close>

lemma set_transition_key [key_simps, simp]: "r_run_id (set_transition target now r) = r_run_id r"
  by (simp add: set_transition_def)

lemma set_transition_fields [simp]:
  "r_status (set_transition target now r) = target"
  "r_state_version (set_transition target now r) = r_state_version r + 1"
  "r_lease_epoch (set_transition target now r) = r_lease_epoch r"
  "r_lease_owner_id (set_transition target now r) = r_lease_owner_id r"
  "r_lease_token_hash (set_transition target now r) = r_lease_token_hash r"
  "r_lease_expires_at (set_transition target now r) = r_lease_expires_at r"
  "r_last_event_sequence (set_transition target now r) = r_last_event_sequence r"
  "r_tenant_id (set_transition target now r) = r_tenant_id r"
  "r_primary_cluster_id (set_transition target now r) = r_primary_cluster_id r"
  by (simp_all add: set_transition_def)

lemma set_transition_changes: "set_transition target now r \<noteq> r"
  by (rule neq_by_field [of r_state_version]) simp

lemma TransitionTxValidatedWithLease_True:
  assumes uk: "uniq_key r_run_id (ai_runs db)"
    and run: "TransitionTxValidatedWithLease rid target expected now owner epoch token env (n, db)
                = (Inr True, (n', db'))"
  shows "\<exists>r. get_run rid db = Some r \<and> ValidateRunTransition (r_status r) target \<and>
      r_state_version r = expected \<and> lease_live (stmt_now env (Suc n)) owner epoch token r \<and>
      n' = n + 2 \<and>
      db' = snd (update_run rid (\<lambda>r. r_state_version r = expected \<and>
                 lease_live (stmt_now env (Suc n)) owner epoch token r) (set_transition target now) db)"
proof -
  let ?u = "update_run rid (\<lambda>r. r_state_version r = expected \<and>
      lease_live (stmt_now env (Suc n)) owner epoch token r) (set_transition target now) db"
  obtain r0 where r0: "get_run rid db = Some r0" "ValidateRunTransition (r_status r0) target"
    and u: "fst ?u = 1" "n' = n + 2" "db' = snd ?u"
    using run
    by (auto simp: TransitionTxValidatedWithLease_def dbm_defs Let_def case_prod_beta
        split: if_splits option.splits)
  from update_run_eq_1 [OF uk u(1)] r0 u(2,3) show ?thesis by auto
qed

lemma TransitionTxValidatedWithLease_not_True:
  assumes uk: "uniq_key r_run_id (ai_runs db)"
    and run: "TransitionTxValidatedWithLease rid target expected now owner epoch token env (n, db)
                = (res, (n', db'))"
    and ne: "res \<noteq> Inr True"
  shows "db' = db"
  using run ne update_run_neq_1 [OF uk]
  by (auto simp: TransitionTxValidatedWithLease_def dbm_defs Let_def case_prod_beta
      split: if_splits option.splits)

section \<open>Creation\<close>

lemma insert_run_get:
  assumes "insert_run r db = (InsOk, db')"
  shows "db' = db\<lparr>ai_runs := ai_runs db @ [r]\<rparr> \<and> get_run (r_run_id r) db = None \<and>
    get_run k db' = (if k = r_run_id r then Some r else get_run k db)"
proof -
  have f: "\<forall>x\<in>set (ai_runs db). r_run_id x \<noteq> r_run_id r" and d: "db' = db\<lparr>ai_runs := ai_runs db @ [r]\<rparr>"
    using assms by (auto simp: insert_run_def list_ex_iff split: if_splits)
  have "get_run (r_run_id r) db = None" using f by (simp add: get_run_def sql_first_None)
  with d show ?thesis
    by (cases "get_run k db") (auto simp: get_run_def)
qed

lemma insert_run_not_ok: "insert_run r db = (res, db') \<Longrightarrow> res \<noteq> InsOk \<Longrightarrow> db' = db"
  by (auto simp: insert_run_def split: if_splits)

lemma insert_outbox_ok: "insert_outbox o_row db = (InsOk, db') \<Longrightarrow>
    db' = db\<lparr>ai_run_outbox := ai_run_outbox db @ [o_row]\<rparr>"
  by (auto simp: insert_outbox_def split: if_splits)

lemma CreateWithOutbox_cases:
  assumes "CreateWithOutbox a ob env (n, db) = (res, (n', db'))"
  shows "(res = Inr True \<and> (\<exists>db1. insert_run (insert_row a) db = (InsOk, db1) \<and>
            db' = db1\<lparr>ai_run_outbox := ai_run_outbox db @ [outbox_row a ob]\<rparr> \<and>
            ob_invocation_id ob \<notin> ob_invocation_id ` set (ai_run_outbox db)))
       \<or> (res \<noteq> Inr True \<and> db' = db)"
proof (cases "res = Inr True")
  case True
  then obtain m db0 where
    "db_bind (db_stmt (\<lambda>t. insert_run (insert_row a)))
       (\<lambda>res. case res of
          InsDup \<Rightarrow> db_ret (Rollback False)
        | InsBad \<Rightarrow> db_fail DriverError
        | InsOk \<Rightarrow>
            db_bind (db_stmt (\<lambda>t. insert_outbox (outbox_row a ob)))
              (\<lambda>res2. case res2 of
                 InsOk \<Rightarrow> db_ret (Commit True)
               | InsDup \<Rightarrow> db_fail DuplicateEntry
               | InsBad \<Rightarrow> db_fail DriverError)) env (Suc n, db) = (Inr (Commit True), (m, db'))"
    using assms
    by (auto simp: CreateWithOutbox_def db_conn_def db_tx_Inr dbm_defs case_prod_beta Let_def
        split: if_splits ins_result.splits)
  then obtain db1 where r: "insert_run (insert_row a) db = (InsOk, db1)"
    and ob: "insert_outbox (outbox_row a ob) db1 = (InsOk, db')"
    by (cases "insert_run (insert_row a) db"; cases "fst (insert_run (insert_row a) db)")
      (auto simp: dbm_defs case_prod_beta Let_def prod_eq_iff split: if_splits ins_result.splits)
  have "ai_run_outbox db1 = ai_run_outbox db" using insert_run_get [OF r] by simp
  moreover have "ob_invocation_id ob \<notin> ob_invocation_id ` set (ai_run_outbox db1)"
    using ob by (auto simp: insert_outbox_def outbox_row_def list_ex_iff split: if_splits)
  ultimately show ?thesis using r insert_outbox_ok [OF ob] True by auto
next
  case False
  have "db' = db"
  proof (cases res)
    case (Inl e)
    with assms show ?thesis
      by (auto simp: CreateWithOutbox_def db_conn_def split: if_splits dest: db_tx_error_unchanged)
  next
    case (Inr b)
    with False assms show ?thesis
      by (auto simp: CreateWithOutbox_def db_conn_def db_tx_Inr dbm_defs case_prod_beta Let_def
        split: if_splits ins_result.splits)
  qed
  with False show ?thesis by simp
qed

lemma scan_insert_row:
  assumes "ScopeKind a \<noteq> []" and "Status a \<noteq> []"
  shows "scanAIRunRow (insert_row a) = a\<lparr>FinishedAt := None, LastEventSeq := 0, LeaseOwnerID := [],
      LeaseEpoch := 0, LeaseClaimID := [], LeaseTokenHash := [], LeaseExpiresAt := None, HeartbeatAt := None,
      RuntimeWaitKind := [], RetryNotBefore := None, RetryAttempt := 0, LastFailureCode := [],
      RuntimeMetadata := []\<rparr>"
  using assms by (simp add: scanAIRunRow_def insert_row_def or_default_def)

lemma insert_row_fields: "r_run_id (insert_row a) = RunID a" "r_last_event_sequence (insert_row a) = 0"
  by (simp_all add: insert_row_def)


lemma status_path_status: "status_path (s # rest) \<Longrightarrow> s \<in> set (''created'' # concat (map snd runTransitions))"
  by (cases rest) (auto dest!: ValidateRunTransition_cases simp: runTransitions_def)

section \<open>Properties\<close>

text \<open>
  C39.  The transition table that the HTTP layer keeps and the one that the store enforces accept
  exactly the same moves, for every pair of strings.
\<close>

theorem api_and_store_transitions_agree:
  "validRunTransition current target = ValidateRunTransition current target"
  by (simp add: validRunTransition_def ValidateRunTransition_def transition_targets_def
      api_runTerminal_def runTerminal_def api_runTransitions_def runTransitions_def)

text \<open>
  No Run executes without approval: in every history of legal moves from \<open>created\<close> (newest status
  first), \<open>executing\<close> is entered from \<open>awaiting_approval\<close> and from nowhere else.
\<close>

theorem execution_needs_approval:
  assumes "status_path path" and "''executing'' \<in> set path"
  shows "\<exists>newer older. path = newer @ ''executing'' # ''awaiting_approval'' # older"
proof -
  obtain newer older where p: "path = newer @ ''executing'' # older" using assms(2) by (meson split_list)
  then have "status_path (''executing'' # older)" using assms(1) status_path_suffix by blast
  from status_path_executing [OF this] have "older = ''awaiting_approval'' # tl older" by (cases older) auto
  with p show ?thesis by metis
qed

theorem execution_needs_approval_witness:
  "status_path [''verifying'', ''executing'', ''awaiting_approval'', ''investigating'', ''planning'', ''created''] \<and>
   (\<exists>newer older. [''verifying'', ''executing'', ''awaiting_approval'', ''investigating'', ''planning'', ''created''] =
      newer @ ''executing'' # ''awaiting_approval'' # older)"
proof -
  have "status_path [''verifying'', ''executing'', ''awaiting_approval'', ''investigating'', ''planning'', ''created'']"
    by code_simp
  with execution_needs_approval [OF this] show ?thesis by simp
qed

text \<open>
  The status machine has no dead ends: every status that a history of legal moves can reach is
  either terminal, and then nothing follows it, or can still be cancelled.
\<close>

theorem status_path_ends_or_cancels:
  assumes "status_path (s # rest)"
  shows "if isTerminalStatus s then \<forall>t. \<not> ValidateRunTransition s t else ValidateRunTransition s ''cancelled''"
  using status_path_status [OF assms] terminal_no_transition [of s]
  by (auto simp: runTransitions_def isTerminalStatus_def ValidateRunTransition_def runTerminal_def transition_targets_def)

theorem status_path_ends_or_cancels_witness:
  "status_path [''planning'', ''created''] \<and> ValidateRunTransition ''planning'' ''cancelled''"
proof -
  have p: "status_path [''planning'', ''created'']" by code_simp
  with status_path_ends_or_cancels [OF p] show ?thesis by (simp add: isTerminalStatus_def)
qed

text \<open>
  Creating a Run with its dispatch record is all or nothing, whichever driver calls fail: either
  the call reports creation, the outbox holds exactly one new record for the Run and \<open>Get\<close> returns the
  Run as it was given (with the columns that an insert leaves at their defaults), or nothing changed.
\<close>

theorem create_with_outbox_atomic:
  assumes "ScopeKind a \<noteq> []" and "Status a \<noteq> []"
    and "CreateWithOutbox a ob env (n, db) = (res, (n', db'))"
  shows "(res = Inr True \<and> ai_run_outbox db' = ai_run_outbox db @ [outbox_row a ob] \<and>
     AIRunDAO_Get (RunID a) (calm t) (m, db') =
      (Inr (a\<lparr>FinishedAt := None, LastEventSeq := 0, LeaseOwnerID := [], LeaseEpoch := 0, LeaseClaimID := [],
        LeaseTokenHash := [], LeaseExpiresAt := None, HeartbeatAt := None, RuntimeWaitKind := [],
        RetryNotBefore := None, RetryAttempt := 0, LastFailureCode := [], RuntimeMetadata := []\<rparr>), (Suc m, db')))
   \<or> (res \<noteq> Inr True \<and> db' = db)"
  using CreateWithOutbox_cases [OF assms(3)]
proof (elim disjE conjE exE)
  fix db1
  assume r: "res = Inr True" "insert_run (insert_row a) db = (InsOk, db1)"
    and db': "db' = db1\<lparr>ai_run_outbox := ai_run_outbox db @ [outbox_row a ob]\<rparr>"
  have "get_run (RunID a) db' = Some (insert_row a)"
    using insert_run_get [OF r(2), of "RunID a"] by (simp add: db' get_run_def insert_row_fields)
  with r(1) scan_insert_row [OF assms(1,2)] show ?thesis
    by (simp add: db' AIRunDAO_Get_def AIRunDAO_GetTx_def db_conn_def db_bind_def db_ret_def)
qed simp

definition sample_new_run :: AIRun where
  "sample_new_run =
    \<lparr>RunID = ''r9'', RequestID = ''q9'', TenantID = ''t1'', Principal = ''u1'', PrincipalType = ''user'',
     SessionID = ''s1'', ScopeKind = ''single_cluster'', PrimaryClusterID = ''c1'', Intent = ''diagnose'',
     ActionMode = ''read_only'', TargetType = [], TargetResourceID = [], TimeRangeStart = None,
     TimeRangeEnd = None, Status = ''created'', StateVersion = 1, ParentRunID = [], CreatedAt = 5,
     UpdatedAt = 5, FinishedAt = None, LastEventSeq = 0, LeaseOwnerID = [], LeaseEpoch = 0,
     LeaseClaimID = [], LeaseTokenHash = [], LeaseExpiresAt = None, HeartbeatAt = None,
     RuntimeWaitKind = [], RetryNotBefore = None, RetryAttempt = 0, LastFailureCode = [],
     RuntimeMetadata = []\<rparr>"

definition sample_outbox :: run_outbox where
  "sample_outbox = \<lparr>ob_invocation_id = ''i9'', ob_run_id = ''r9'', ob_status = [], ob_dispatch_count = 0,
     ob_next_retry_at = None, ob_owner = None, ob_epoch = 0, ob_token = None, ob_expires_at = None,
     ob_delivered_at = None, ob_created_at = 0, ob_updated_at = 0\<rparr>"

theorem create_with_outbox_atomic_witness:
  "let r = CreateWithOutbox sample_new_run sample_outbox (calm 5) (0, empty_db)
   in AIRunDAO_Get ''r9'' (calm 6) (0, snd (snd r)) = (Inr sample_new_run, (1, snd (snd r)))"
proof -
  let ?r = "CreateWithOutbox sample_new_run sample_outbox (calm 5) (0, empty_db)"
  have f: "fst ?r = Inr True" by code_simp
  have e: "?r = (fst ?r, (fst (snd ?r), snd (snd ?r)))" by simp
  have a: "ScopeKind sample_new_run \<noteq> []" "Status sample_new_run \<noteq> []" by (simp_all add: sample_new_run_def)
  from create_with_outbox_atomic [OF a e, of 6 0] f show ?thesis
    by (simp add: sample_new_run_def Let_def)
qed

lemma bind_GetTx_Inr:
  "db_bind (AIRunDAO_GetTx rid) k env (n, db) = (Inr y, st) \<longleftrightarrow>
     stmt_ok env n \<and> (\<exists>r. get_run rid db = Some r \<and> k (scanAIRunRow r) env (Suc n, db) = (Inr y, st))"
  by (cases "get_run rid db")
    (simp_all add: AIRunDAO_GetTx_def db_bind_def db_stmt_def db_fail_def db_ret_def)

lemma scanAIRunRow_fields [simp]:
  "TenantID (scanAIRunRow r) = r_tenant_id r" "Status (scanAIRunRow r) = r_status r"
  "StateVersion (scanAIRunRow r) = r_state_version r"
  by (simp_all add: scanAIRunRow_def)

lemma validRunTransition_eq: "validRunTransition s t = ValidateRunTransition s t"
  by (simp add: validRunTransition_def ValidateRunTransition_def transition_targets_def
      api_runTerminal_def runTerminal_def api_runTransitions_def runTransitions_def)

lemma reads_AIRunDAO_Get: "reads (AIRunDAO_Get rid)"
  unfolding AIRunDAO_Get_def AIRunDAO_GetTx_def by (intro reads_intros) simp_all

end
