(* ===== verification/RunLease.thy ===== *)
theory RunLease
  imports AIRuns "HOL-Library.Char_ord" "HOL-Library.List_Lexorder" "HOL-Library.Product_Lexorder"
begin

text \<open>
  The execution lease of a Run: \<open>internal/store/ai_run_lease.go\<close>.

  At most one executor owns a Run.  \<open>Claim\<close> takes a free or expired lease and raises \<open>lease_epoch\<close>;
  \<open>Renew\<close> extends a live lease; \<open>Release\<close> gives it up; \<open>LeaseFencingTx\<close> and
  \<open>FenceToolExecutionTx\<close> are the checks every authoritative write makes first.  The SHA-256 digest
  \<open>hx\<close>, the generated claim id and the generated token are arguments of the model.
\<close>

record ClaimRequest =
  req_ClaimID :: gostring
  req_LeaseToken :: gostring
  req_ClaimSource :: gostring

record RunLeaseHolder =
  lh_RunID :: gostring
  lh_OwnerID :: gostring
  lh_Epoch :: int
  lh_ClaimID :: gostring
  lh_Token :: gostring
  lh_TokenHash :: gostring
  lh_ExpiresAt :: millis
  lh_WaitKind :: gostring
  lh_RetryBefore :: "millis option"
  lh_RetryAttempt :: int
  lh_ServerNow :: millis
  lh_RemainingMS :: int
  lh_ClaimSource :: gostring

record RecoveryCandidate =
  rc_RunID :: gostring
  rc_RequestID :: gostring
  rc_InvocationID :: gostring
  rc_TenantID :: gostring
  rc_ClusterID :: gostring
  rc_Status :: gostring
  rc_Intent :: gostring
  rc_TargetResourceID :: gostring
  rc_ActionMode :: gostring
  rc_OwnerID :: gostring
  rc_Epoch :: int
  rc_WaitKind :: gostring
  rc_RetryBefore :: "millis option"
  rc_RetryAttempt :: int
  rc_CreatedAt :: millis

section \<open>Claim\<close>

text \<open>\<open>NewLeaseToken\<close>: the encoded random bytes \<open>raw\<close> and their digest.\<close>

definition NewLeaseToken :: "(gostring \<Rightarrow> gostring) \<Rightarrow> gostring \<Rightarrow> gostring \<times> gostring" where
  "NewLeaseToken hx raw = (raw, hx raw)"

text \<open>The pair check and the length check on what the caller sends, before any database access.\<close>

definition caller_check :: "ClaimRequest list \<Rightarrow> store_error option" where
  "caller_check caller = (case caller of
      [] \<Rightarrow> None
    | c # _ \<Rightarrow>
        if (req_ClaimID c = []) \<noteq> (req_LeaseToken c = []) then Some ErrClaimRequestIncomplete
        else if req_ClaimID c \<noteq> [] \<and> length (req_LeaseToken c) < 43 then Some ErrClaimTokenTooShort
        else None)"

text \<open>Claim id, plain token, token digest and source in effect: the caller's where given.\<close>

definition claim_identity ::
  "(gostring \<Rightarrow> gostring) \<Rightarrow> gostring \<Rightarrow> gostring \<Rightarrow> ClaimRequest list \<Rightarrow>
     gostring \<times> gostring \<times> gostring \<times> gostring" where
  "claim_identity hx gen_id gen_raw caller = (case caller of
      [] \<Rightarrow> (gen_id, fst (NewLeaseToken hx gen_raw), snd (NewLeaseToken hx gen_raw), ''LIVE_INVOCATION'')
    | c # _ \<Rightarrow>
       (let cid = (if req_ClaimID c \<noteq> [] then req_ClaimID c else gen_id);
            (raw, th) = (if req_LeaseToken c \<noteq> [] then (req_LeaseToken c, hx (req_LeaseToken c))
                         else NewLeaseToken hx gen_raw)
        in (cid, raw, th, or_default (req_ClaimSource c) ''LIVE_INVOCATION'')))"

text \<open>
  \<open>readLeaseTiming\<close>: clock, expiry and remaining microseconds from one statement; no matching row
  means the lease has gone to somebody else, a NULL expiry cannot be scanned.
\<close>

definition readLeaseTiming ::
  "gostring \<Rightarrow> gostring \<Rightarrow> int \<Rightarrow> gostring \<Rightarrow> (store_db, millis \<times> millis \<times> int) dbm" where
  "readLeaseTiming rid owner epoch token =
     db_bind (db_stmt (\<lambda>t db.
         ((t, sql_first (\<lambda>r. r_run_id r = rid \<and> lease_matches owner epoch token r) (ai_runs db)), db)))
       (\<lambda>(t, row). case row of
          None \<Rightarrow> db_fail ErrLeaseLost
        | Some r \<Rightarrow> (case r_lease_expires_at r of
              None \<Rightarrow> db_fail DriverError
            | Some e \<Rightarrow> db_ret (t, e, (e - t) * 1000)))"

definition set_claim :: "gostring \<Rightarrow> int \<Rightarrow> gostring \<Rightarrow> gostring \<Rightarrow> int \<Rightarrow> millis \<Rightarrow> ai_run \<Rightarrow> ai_run" where
  "set_claim owner epoch cid th secs t r = r
     \<lparr>r_lease_owner_id := Some owner, r_lease_epoch := epoch, r_lease_claim_id := Some cid,
      r_lease_token_hash := Some th, r_lease_expires_at := Some (t + secs * 1000),
      r_heartbeat_at := Some t, r_runtime_wait_kind := ''none'', r_retry_not_before := None\<rparr>"

definition insert_claim :: "run_claim \<Rightarrow> store_db \<Rightarrow> ins_result \<times> store_db" where
  "insert_claim c db =
     (if list_ex (\<lambda>x. cl_run_id x = cl_run_id c \<and> cl_claim_id x = cl_claim_id c) (ai_run_claims db)
      then (InsDup, db)
      else (InsOk, db\<lparr>ai_run_claims := ai_run_claims db @ [c]\<rparr>))"

definition holder_of ::
  "gostring \<Rightarrow> gostring \<Rightarrow> int \<Rightarrow> gostring \<Rightarrow> gostring \<Rightarrow> gostring \<Rightarrow> gostring \<Rightarrow> int \<Rightarrow> gostring \<Rightarrow>
     millis \<times> millis \<times> int \<Rightarrow> RunLeaseHolder" where
  "holder_of rid owner epoch cid raw th wait attempt source timing =
     \<lparr>lh_RunID = rid, lh_OwnerID = owner, lh_Epoch = epoch, lh_ClaimID = cid, lh_Token = raw,
      lh_TokenHash = th, lh_ExpiresAt = fst (snd timing), lh_WaitKind = wait, lh_RetryBefore = None,
      lh_RetryAttempt = attempt, lh_ServerNow = fst timing,
      lh_RemainingMS = snd (snd timing) div 1000, lh_ClaimSource = source\<rparr>"

text \<open>
  The grant: raise the epoch and store the new holder (the row count is not read), then write the
  claim history; a claim id that the history already has fails on its primary key.
\<close>

definition claim_grant ::
  "gostring \<Rightarrow> gostring \<Rightarrow> int \<Rightarrow> int \<Rightarrow> gostring \<Rightarrow> gostring \<Rightarrow> gostring \<Rightarrow>
     (store_db, (RunLeaseHolder + int) tx_end) dbm" where
  "claim_grant rid owner secs newEpoch cid th source =
     db_bind (db_stmt (\<lambda>t. update_run rid (\<lambda>r. \<not> isTerminalStatus (r_status r))
                             (set_claim owner newEpoch cid th secs t)))
      (\<lambda>_. db_bind (db_stmt (\<lambda>t. insert_claim
             \<lparr>cl_run_id = rid, cl_claim_id = cid, cl_executor_id = owner, cl_lease_epoch = newEpoch,
              cl_token_hash = th, cl_claim_source = source, cl_created_at = t\<rparr>))
      (\<lambda>res. case res of
          InsOk \<Rightarrow> db_ret (Commit (Inr newEpoch))
        | InsDup \<Rightarrow> db_fail DuplicateEntry
        | InsBad \<Rightarrow> db_fail DriverError))"

text \<open>An expired lease whose claim id is presented again cannot be recovered.\<close>

definition claim_expired_retry :: "ai_run \<Rightarrow> gostring \<Rightarrow> bool" where
  "claim_expired_retry r cid \<longleftrightarrow>
     r_lease_claim_id r = Some cid \<and> r_lease_token_hash r \<noteq> None \<and>
     null_string (r_lease_owner_id r) \<noteq> []"

definition lease_owned :: "ai_run \<Rightarrow> bool" where
  "lease_owned r \<longleftrightarrow> null_string (r_lease_owner_id r) \<noteq> [] \<and> r_lease_expires_at r \<noteq> None"

text \<open>The decision on the row \<open>r\<close> read under lock, once it is known whether the lease is active.\<close>

definition claim_decide ::
  "gostring \<Rightarrow> gostring \<Rightarrow> int \<Rightarrow> gostring \<Rightarrow> gostring \<Rightarrow> gostring \<Rightarrow> gostring \<Rightarrow> ai_run \<Rightarrow> bool \<Rightarrow>
     (store_db, (RunLeaseHolder + int) tx_end) dbm" where
  "claim_decide rid owner secs cid raw th source r active =
     (if active then
        (if r_lease_owner_id r = Some owner then
           (if r_lease_claim_id r = Some cid \<and> r_lease_token_hash r = Some th then
              db_bind (readLeaseTiming rid owner (r_lease_epoch r) th)
                (\<lambda>timing. db_ret (Rollback (Inl (holder_of rid owner (r_lease_epoch r) cid raw th
                    (r_runtime_wait_kind r) (r_retry_attempt r) source timing))))
            else db_fail ErrClaimIDReused)
         else db_fail ErrLeaseHeld)
      else if claim_expired_retry r cid then db_fail ErrClaimIDExpired
      else claim_grant rid owner secs (r_lease_epoch r + 1) cid th source)"

text \<open>\<open>SELECT lease_expires_at >= CURRENT_TIMESTAMP(3)\<close>, asked only when an owner and an expiry are set.\<close>

definition claim_check_active ::
  "gostring \<Rightarrow> ai_run \<Rightarrow> (bool \<Rightarrow> (store_db, 'a) dbm) \<Rightarrow> (store_db, 'a) dbm" where
  "claim_check_active rid r k =
     (if lease_owned r then
        db_bind (db_stmt (\<lambda>t db. (map_option (lease_unexpired t) (get_run rid db), db)))
          (\<lambda>still. case still of None \<Rightarrow> db_fail SqlErrNoRows | Some b \<Rightarrow> k b)
      else k False)"

text \<open>
  \<open>SELECT retry_not_before <= CURRENT_TIMESTAMP(3)\<close>, asked for a Run that waits for a retry; a
  failing query is ignored and the claim goes on.
\<close>

definition claim_check_backoff ::
  "gostring \<Rightarrow> ai_run \<Rightarrow> (store_db, 'a) dbm \<Rightarrow> (store_db, 'a) dbm" where
  "claim_check_backoff rid r k =
     (case (r_runtime_wait_kind r = ''retry'', r_retry_not_before r) of
        (True, Some b) \<Rightarrow>
          db_bind (db_try (db_stmt (\<lambda>t db.
               (case get_run rid db of None \<Rightarrow> None | Some r' \<Rightarrow> map_option (\<lambda>nb. nb \<le> t) (r_retry_not_before r'), db))))
            (\<lambda>can. case can of Inr (Some False) \<Rightarrow> db_fail (RetryBackoffError b) | _ \<Rightarrow> k)
      | _ \<Rightarrow> k)"

definition claim_body ::
  "gostring \<Rightarrow> gostring \<Rightarrow> int \<Rightarrow> gostring \<Rightarrow> gostring \<Rightarrow> gostring \<Rightarrow> gostring \<Rightarrow>
     (store_db, (RunLeaseHolder + int) tx_end) dbm" where
  "claim_body rid owner secs cid raw th source =
     db_bind (db_stmt (\<lambda>t db. (get_run rid db, db)))
       (\<lambda>row. case row of
          None \<Rightarrow> db_fail ErrRunNotFound
        | Some r \<Rightarrow>
            if isTerminalStatus (r_status r) then db_fail ErrRunTerminal
            else claim_check_backoff rid r
                   (claim_check_active rid r
                      (claim_decide rid owner secs cid raw th source r)))"

text \<open>
  \<open>Claim\<close>.  The transaction ends in a granted epoch (committed) or in the existing holder of an
  exact retry (nothing written).  After a grant the timing is read back outside the transaction.
\<close>

definition Claim ::
  "(gostring \<Rightarrow> gostring) \<Rightarrow> gostring \<Rightarrow> gostring \<Rightarrow> gostring \<Rightarrow> gostring \<Rightarrow> int \<Rightarrow> ClaimRequest list \<Rightarrow>
     (store_db, RunLeaseHolder) dbm" where
  "Claim hx gen_id gen_raw rid owner secs caller =
     (case caller_check caller of
        Some e \<Rightarrow> db_fail e
      | None \<Rightarrow>
          (case claim_identity hx gen_id gen_raw caller of
             (cid, raw, th, source) \<Rightarrow>
               db_conn (db_bind (db_tx (claim_body rid owner secs cid raw th source))
                 (\<lambda>res. case res of
                    Inl holder \<Rightarrow> db_ret holder
                  | Inr newEpoch \<Rightarrow>
                      db_bind (readLeaseTiming rid owner newEpoch th)
                        (\<lambda>timing. db_ret (holder_of rid owner newEpoch cid raw th
                             ''none'' 0 source timing))))))"

section \<open>Renew and Release\<close>

text \<open>
  \<open>Renew\<close>: when the update changed no row, a second query tells a lease that this holder still
  owns (\<open>ErrLeaseLost\<close>) from one that moved on (\<open>ErrLeaseFencing\<close>); an error of that query counts as
  moved on.  The new expiry is read back, and an error there gives the zero time.
\<close>

definition set_renew :: "int \<Rightarrow> millis \<Rightarrow> ai_run \<Rightarrow> ai_run" where
  "set_renew secs t r = r\<lparr>r_lease_expires_at := Some (t + secs * 1000), r_heartbeat_at := Some t\<rparr>"

definition Renew ::
  "gostring \<Rightarrow> gostring \<Rightarrow> int \<Rightarrow> gostring \<Rightarrow> int \<Rightarrow> (store_db, millis) dbm" where
  "Renew rid owner epoch token secs = db_conn
     (db_bind (db_stmt (\<lambda>t. update_run rid (lease_live t owner epoch token) (set_renew secs t)))
       (\<lambda>n. if n \<noteq> 1 then
              db_bind (db_try (db_stmt (\<lambda>t db.
                  (sql_count (\<lambda>r. r_run_id r = rid \<and> lease_matches owner epoch token r) (ai_runs db) = 1, db))))
                (\<lambda>still. case still of
                   Inr True \<Rightarrow> db_fail ErrLeaseLost
                 | _ \<Rightarrow> db_fail ErrLeaseFencing)
            else
              db_bind (db_try (db_stmt (\<lambda>t db.
                  (case get_run rid db of None \<Rightarrow> None | Some r \<Rightarrow> r_lease_expires_at r, db))))
                (\<lambda>e. db_ret (case e of Inr (Some x) \<Rightarrow> x | _ \<Rightarrow> 0))))"

definition clear_lease :: "ai_run \<Rightarrow> ai_run" where
  "clear_lease r = r\<lparr>r_lease_owner_id := None, r_lease_claim_id := None, r_lease_token_hash := None,
     r_lease_expires_at := None, r_heartbeat_at := None\<rparr>"

definition Release :: "gostring \<Rightarrow> int \<Rightarrow> gostring \<Rightarrow> (store_db, unit) dbm" where
  "Release rid epoch token = db_conn
     (db_bind (db_stmt (\<lambda>t. update_run rid
          (\<lambda>r. r_lease_epoch r = epoch \<and> r_lease_token_hash r = Some token) clear_lease))
       (\<lambda>n. if n \<noteq> 1 then db_fail ErrLeaseFencing else db_ret ()))"

section \<open>Fencing checks and reads\<close>

definition LeaseFencingTx ::
  "gostring \<Rightarrow> gostring \<Rightarrow> int \<Rightarrow> gostring \<Rightarrow> (store_db, bool) dbm" where
  "LeaseFencingTx rid owner epoch token =
     db_bind (db_stmt (\<lambda>t db.
         (sql_first (\<lambda>r. r_run_id r = rid \<and> lease_live t owner epoch token r) (ai_runs db), db)))
       (\<lambda>row. case row of None \<Rightarrow> db_ret False | Some r \<Rightarrow> db_ret (r_run_id r = rid))"

definition FenceToolExecutionTx ::
  "gostring \<Rightarrow> gostring \<Rightarrow> int \<Rightarrow> gostring \<Rightarrow> (store_db, unit) dbm" where
  "FenceToolExecutionTx rid owner epoch token =
     db_bind (db_stmt (\<lambda>t db.
         (sql_first (\<lambda>r. r_run_id r = rid \<and> lease_live t owner epoch token r) (ai_runs db), db)))
       (\<lambda>row. case row of
          None \<Rightarrow> db_fail ErrLeaseFencing
        | Some r \<Rightarrow> if r_run_id r \<noteq> rid then db_fail ErrLeaseFencing else db_ret ())"

definition LeaseExpired :: "gostring \<Rightarrow> (store_db, bool) dbm" where
  "LeaseExpired rid = db_conn
     (db_stmt (\<lambda>t db. (0 < sql_count (\<lambda>r. r_run_id r = rid \<and>
          (case r_lease_expires_at r of None \<Rightarrow> False | Some e \<Rightarrow> e < t)) (ai_runs db), db)))"

definition GetRuntimeMetadataTx :: "gostring \<Rightarrow> (store_db, RunLeaseHolder) dbm" where
  "GetRuntimeMetadataTx rid =
     db_bind (db_stmt (\<lambda>t db. (get_run rid db, db)))
       (\<lambda>row. case row of
          None \<Rightarrow> db_fail ErrRunNotFound
        | Some r \<Rightarrow> db_ret
            \<lparr>lh_RunID = rid, lh_OwnerID = null_string (r_lease_owner_id r), lh_Epoch = r_lease_epoch r,
             lh_ClaimID = null_string (r_lease_claim_id r), lh_Token = [],
             lh_TokenHash = null_string (r_lease_token_hash r),
             lh_ExpiresAt = null_int (r_lease_expires_at r), lh_WaitKind = r_runtime_wait_kind r,
             lh_RetryBefore = r_retry_not_before r, lh_RetryAttempt = r_retry_attempt r,
             lh_ServerNow = 0, lh_RemainingMS = 0, lh_ClaimSource = []\<rparr>)"

section \<open>Recovery scans\<close>

text \<open>No active lease at time \<open>t\<close>, and not waiting for a retry that is still in the future.\<close>

definition recoverable :: "millis \<Rightarrow> ai_run \<Rightarrow> bool" where
  "recoverable t r \<longleftrightarrow>
     (r_lease_owner_id r = None \<or>
      (case r_lease_expires_at r of None \<Rightarrow> True | Some e \<Rightarrow> e < t)) \<and>
     (r_runtime_wait_kind r \<noteq> ''retry'' \<or>
      (case r_retry_not_before r of None \<Rightarrow> True | Some b \<Rightarrow> b \<le> t))"

definition candidate_of :: "gostring \<Rightarrow> ai_run \<Rightarrow> RecoveryCandidate" where
  "candidate_of iid r =
     \<lparr>rc_RunID = r_run_id r, rc_RequestID = r_request_id r, rc_InvocationID = iid,
      rc_TenantID = r_tenant_id r, rc_ClusterID = null_string (r_primary_cluster_id r),
      rc_Status = r_status r, rc_Intent = r_intent r,
      rc_TargetResourceID = null_string (r_target_resource_id r), rc_ActionMode = r_action_mode r,
      rc_OwnerID = null_string (r_lease_owner_id r), rc_Epoch = r_lease_epoch r,
      rc_WaitKind = r_runtime_wait_kind r, rc_RetryBefore = r_retry_not_before r,
      rc_RetryAttempt = r_retry_attempt r, rc_CreatedAt = r_created_at r\<rparr>"

text \<open>\<open>ai_runs r LEFT JOIN ai_run_outbox o ON o.run_id = r.run_id\<close>: a Run without an outbox row appears once.\<close>

definition join_outbox :: "store_db \<Rightarrow> ai_run \<Rightarrow> RecoveryCandidate list" where
  "join_outbox db r =
     (case filter (\<lambda>ob. ob_run_id ob = r_run_id r) (ai_run_outbox db) of
        [] \<Rightarrow> [candidate_of [] r]
      | obs \<Rightarrow> map (\<lambda>ob. candidate_of (ob_invocation_id ob) r) obs)"

text \<open>
  \<open>ScanRecoveryCandidates\<close>.  With a positive limit the statement ends in \<open>ORDER BY created_at\<close>;
  both joined tables have a column of that name and the select list names neither, so the server
  rejects the statement as ambiguous.  The created time is not among the scanned columns.
\<close>

definition ScanRecoveryCandidates :: "int \<Rightarrow> (store_db, RecoveryCandidate list) dbm" where
  "ScanRecoveryCandidates limit = db_conn
     (if limit > 0 then db_bind (db_stmt (\<lambda>t db. ((), db))) (\<lambda>_. db_fail AmbiguousColumn)
      else db_stmt (\<lambda>t db.
        (map (\<lambda>c. c\<lparr>rc_CreatedAt := 0\<rparr>) (concat (map (join_outbox db)
           (filter (\<lambda>r. \<not> isTerminalStatus (r_status r) \<and> recoverable t r) (ai_runs db)))), db)))"

definition worker_statuses :: "gostring \<Rightarrow> (store_db \<Rightarrow> ai_run \<Rightarrow> bool) option" where
  "worker_statuses kind =
     (if kind = ''investigation'' then
        Some (\<lambda>db r. r_status r \<in> set [''created'', ''planning'', ''investigating''])
      else if kind = ''verification'' then Some (\<lambda>db r. r_status r = ''verifying'')
      else if kind = ''action_reconcile'' then
        Some (\<lambda>db r. r_status r = ''executing'' \<and>
          list_ex (\<lambda>a. ac_run_id a = r_run_id r \<and> ac_execution_status a = ''execution_unknown'') (ai_actions db))
      else None)"

definition scan_limit :: "int \<Rightarrow> nat" where
  "scan_limit limit = (if limit \<le> 0 \<or> limit > 1000 then 200 else nat limit)"

text \<open>The keyset condition on \<open>(created_at, run_id)\<close>.\<close>

definition after_cursor :: "millis option \<Rightarrow> gostring \<Rightarrow> RecoveryCandidate \<Rightarrow> bool" where
  "after_cursor after_created after_id c = (case after_created of
      None \<Rightarrow> True
    | Some a \<Rightarrow> a < rc_CreatedAt c \<or> (rc_CreatedAt c = a \<and> after_id < rc_RunID c))"

definition ScanRecoveryCandidatesForWorker ::
  "gostring \<Rightarrow> int \<Rightarrow> millis option \<Rightarrow> gostring \<Rightarrow> (store_db, RecoveryCandidate list) dbm" where
  "ScanRecoveryCandidatesForWorker kind limit after_created after_id = db_conn
     (case worker_statuses kind of
        None \<Rightarrow> db_fail UnknownRecoveryWorkerKind
      | Some ok \<Rightarrow> db_stmt (\<lambda>t db.
          (sql_order_limit (\<lambda>c. (rc_CreatedAt c, rc_RunID c)) (scan_limit limit)
             (filter (after_cursor after_created after_id)
                (concat (map (join_outbox db) (filter (\<lambda>r. ok db r \<and> recoverable t r) (ai_runs db))))), db)))"

section \<open>What a claim does\<close>

lemma set_claim_key [key_simps, simp]: "r_run_id (set_claim owner epoch cid th secs t r) = r_run_id r"
  by (simp add: set_claim_def)

lemma set_claim_fields [simp]:
  "r_lease_owner_id (set_claim owner epoch cid th secs t r) = Some owner"
  "r_lease_epoch (set_claim owner epoch cid th secs t r) = epoch"
  "r_lease_claim_id (set_claim owner epoch cid th secs t r) = Some cid"
  "r_lease_token_hash (set_claim owner epoch cid th secs t r) = Some th"
  "r_lease_expires_at (set_claim owner epoch cid th secs t r) = Some (t + secs * 1000)"
  "r_status (set_claim owner epoch cid th secs t r) = r_status r"
  "r_state_version (set_claim owner epoch cid th secs t r) = r_state_version r"
  "r_last_event_sequence (set_claim owner epoch cid th secs t r) = r_last_event_sequence r"
  "r_tenant_id (set_claim owner epoch cid th secs t r) = r_tenant_id r"
  "r_primary_cluster_id (set_claim owner epoch cid th secs t r) = r_primary_cluster_id r"
  "r_runtime_wait_kind (set_claim owner epoch cid th secs t r) = ''none''"
  by (simp_all add: set_claim_def)

text \<open>What a granted claim does to the database.\<close>

definition granted_db ::
  "gostring \<Rightarrow> gostring \<Rightarrow> int \<Rightarrow> int \<Rightarrow> gostring \<Rightarrow> gostring \<Rightarrow> gostring \<Rightarrow> millis \<Rightarrow> millis \<Rightarrow> store_db \<Rightarrow> store_db" where
  "granted_db rid owner secs e cid th source t t' db =
     (let db1 = snd (update_run rid (\<lambda>r. \<not> isTerminalStatus (r_status r)) (set_claim owner e cid th secs t) db)
      in db1\<lparr>ai_run_claims := ai_run_claims db @
           [\<lparr>cl_run_id = rid, cl_claim_id = cid, cl_executor_id = owner, cl_lease_epoch = e,
             cl_token_hash = th, cl_claim_source = source, cl_created_at = t'\<rparr>]\<rparr>)"

lemma claim_grant_Commit:
  "claim_grant rid owner secs e cid th source env (n, db) = (Inr x, (n', db')) \<Longrightarrow>
     x = Commit (Inr e) \<and> n' = n + 2 \<and>
     db' = granted_db rid owner secs e cid th source (stmt_now env n) (stmt_now env (Suc n)) db \<and>
     (\<forall>c\<in>set (ai_run_claims db). \<not> (cl_run_id c = rid \<and> cl_claim_id c = cid))"
  by (simp add: claim_grant_def dbm_defs Let_def case_prod_beta insert_claim_def granted_db_def
      list_ex_iff split: if_splits)

lemma readLeaseTiming_db:
  "readLeaseTiming rid owner e th env (n, db) = (res, (n', db')) \<Longrightarrow> db' = db"
  by (auto simp: readLeaseTiming_def dbm_defs split: if_splits option.splits)

lemma readLeaseTiming_Inr:
  "readLeaseTiming rid owner e th env (n, db) = (Inr (t, exp, us), (n', db')) \<Longrightarrow>
    uniq_key r_run_id (ai_runs db) \<Longrightarrow>
    \<exists>r. get_run rid db = Some r \<and> lease_matches owner e th r \<and> r_lease_expires_at r = Some exp \<and>
      t = stmt_now env n \<and> us = (exp - t) * 1000"
  by (auto simp: readLeaseTiming_def dbm_defs get_run_def sql_first_key_and [where key = r_run_id]
      split: if_splits option.splits)


lemma claim_decide_Inr:
  assumes "claim_decide rid owner secs cid raw th source r active env (n, db) = (Inr x, (n', db'))"
  shows "(active \<and> r_lease_owner_id r = Some owner \<and> r_lease_claim_id r = Some cid \<and>
          r_lease_token_hash r = Some th \<and> db' = db \<and>
          (\<exists>timing. x = Rollback (Inl (holder_of rid owner (r_lease_epoch r) cid raw th
              (r_runtime_wait_kind r) (r_retry_attempt r) source timing)) \<and>
            readLeaseTiming rid owner (r_lease_epoch r) th env (n, db) = (Inr timing, (n', db'))))
      \<or> (\<not> active \<and> \<not> claim_expired_retry r cid \<and> x = Commit (Inr (r_lease_epoch r + 1)) \<and>
          claim_grant rid owner secs (r_lease_epoch r + 1) cid th source env (n, db) = (Inr x, (n', db')))"
proof (cases active)
  case True
  have own: "r_lease_owner_id r = Some owner"
    using assms True by (simp add: claim_decide_def db_fail_def split: if_splits)
  have cid: "r_lease_claim_id r = Some cid \<and> r_lease_token_hash r = Some th"
    using assms True own by (simp add: claim_decide_def db_fail_def split: if_splits)
  obtain timing st where t: "readLeaseTiming rid owner (r_lease_epoch r) th env (n, db) = (Inr timing, st)"
    and x: "x = Rollback (Inl (holder_of rid owner (r_lease_epoch r) cid raw th
              (r_runtime_wait_kind r) (r_retry_attempt r) source timing))" and st: "st = (n', db')"
    using assms True own cid by (auto simp: claim_decide_def db_bind_Inr db_ret_def)
  with True own cid readLeaseTiming_db [of rid owner "r_lease_epoch r" th env n db "Inr timing" n' db'] st
  show ?thesis by (cases timing) simp
next
  case False
  have ne: "\<not> claim_expired_retry r cid"
    using assms False by (simp add: claim_decide_def db_fail_def split: if_splits)
  have g: "claim_grant rid owner secs (r_lease_epoch r + 1) cid th source env (n, db) = (Inr x, (n', db'))"
    using assms False ne by (simp add: claim_decide_def)
  from claim_grant_Commit [OF g] False ne g show ?thesis by simp
qed

lemma claim_check_active_Inr:
  assumes "claim_check_active rid r k env (n, db) = (Inr x, (n', db'))" and "get_run rid db = Some r"
  shows "\<exists>m. k (lease_owned r \<and> lease_unexpired (stmt_now env n) r) env (m, db) = (Inr x, (n', db'))"
  using assms
  by (cases "lease_owned r") (auto simp: claim_check_active_def dbm_defs split: if_splits)

lemma claim_check_backoff_Inr:
  assumes "claim_check_backoff rid r k env (n, db) = (Inr x, (n', db'))" and "get_run rid db = Some r"
  shows "\<exists>m\<ge>n. k env (m, db) = (Inr x, (n', db'))"
proof (cases "r_runtime_wait_kind r = ''retry'' \<and> r_retry_not_before r \<noteq> None")
  case True
  then show ?thesis using assms
    by (auto simp: claim_check_backoff_def dbm_defs split: if_splits bool.splits intro!: exI [of _ "Suc n"])
next
  case False
  then have "k env (n, db) = (Inr x, (n', db'))" using assms
    by (simp add: claim_check_backoff_def split: bool.splits option.splits)
  then show ?thesis by blast
qed

text \<open>The two ways a claim transaction can end without an error.\<close>

lemma claim_body_Inr:
  assumes "claim_body rid owner secs cid raw th source env (n, db) = (Inr x, (n', db'))"
  shows "\<exists>r k m. get_run rid db = Some r \<and> \<not> isTerminalStatus (r_status r) \<and>
     claim_decide rid owner secs cid raw th source r
       (lease_owned r \<and> lease_unexpired (stmt_now env k) r) env (m, db) = (Inr x, (n', db'))"
proof -
  obtain r where r: "get_run rid db = Some r" and nt: "\<not> isTerminalStatus (r_status r)"
    and b: "claim_check_backoff rid r (claim_check_active rid r
              (claim_decide rid owner secs cid raw th source r)) env (Suc n, db) = (Inr x, (n', db'))"
    using assms
    by (cases "get_run rid db") (simp_all add: claim_body_def db_bind_def db_stmt_def db_fail_def split: if_splits)
  from claim_check_backoff_Inr [OF b r] obtain m where
    "claim_check_active rid r (claim_decide rid owner secs cid raw th source r) env (m, db) = (Inr x, (n', db'))"
    by blast
  from claim_check_active_Inr [OF this r] r nt show ?thesis by blast
qed


text \<open>The claim transaction: an exact retry, or a grant of the next epoch on a lease that is not held.\<close>

lemma claim_tx_Inr:
  assumes "db_tx (claim_body rid owner secs cid raw th source) env (n, db) = (Inr x, (n', db'))"
  shows "(\<exists>r k timing m. get_run rid db = Some r \<and> \<not> isTerminalStatus (r_status r) \<and>
            lease_owned r \<and> lease_unexpired (stmt_now env k) r \<and> r_lease_owner_id r = Some owner \<and>
            r_lease_claim_id r = Some cid \<and> r_lease_token_hash r = Some th \<and> db' = db \<and>
            readLeaseTiming rid owner (r_lease_epoch r) th env (m, db) = (Inr timing, (n', db)) \<and>
            x = Inl (holder_of rid owner (r_lease_epoch r) cid raw th
              (r_runtime_wait_kind r) (r_retry_attempt r) source timing))
       \<or> (\<exists>r k t t'. get_run rid db = Some r \<and> \<not> isTerminalStatus (r_status r) \<and>
            \<not> (lease_owned r \<and> lease_unexpired (stmt_now env k) r) \<and> \<not> claim_expired_retry r cid \<and>
            x = Inr (r_lease_epoch r + 1) \<and>
            (\<forall>c\<in>set (ai_run_claims db). \<not> (cl_run_id c = rid \<and> cl_claim_id c = cid)) \<and>
            db' = granted_db rid owner secs (r_lease_epoch r + 1) cid th source
                    (stmt_now env t) (stmt_now env t') db)"
proof -
  obtain y m db1 where body: "claim_body rid owner secs cid raw th source env (Suc n, db) = (Inr y, (m, db1))"
    and y: "(y = Rollback x \<and> db' = db \<and> m = n') \<or> (y = Commit x \<and> db' = db1)"
    using assms unfolding db_tx_Inr by blast
  from claim_body_Inr [OF body] obtain r k j where r: "get_run rid db = Some r"
    "\<not> isTerminalStatus (r_status r)"
    and d: "claim_decide rid owner secs cid raw th source r
       (lease_owned r \<and> lease_unexpired (stmt_now env k) r) env (j, db) = (Inr y, (m, db1))"
    by blast
  from claim_decide_Inr [OF d] show ?thesis
  proof (elim disjE conjE exE)
    fix timing
    assume a: "lease_owned r" "lease_unexpired (stmt_now env k) r" "r_lease_owner_id r = Some owner"
      "r_lease_claim_id r = Some cid" "r_lease_token_hash r = Some th" "db1 = db"
      "y = Rollback (Inl (holder_of rid owner (r_lease_epoch r) cid raw th
              (r_runtime_wait_kind r) (r_retry_attempt r) source timing))"
      "readLeaseTiming rid owner (r_lease_epoch r) th env (j, db) = (Inr timing, m, db1)"
    with y have "x = Inl (holder_of rid owner (r_lease_epoch r) cid raw th
              (r_runtime_wait_kind r) (r_retry_attempt r) source timing)" "db' = db" "m = n'"
      by auto
    with a r show ?thesis by blast
  next
    assume a: "\<not> (lease_owned r \<and> lease_unexpired (stmt_now env k) r)" "\<not> claim_expired_retry r cid"
      "y = Commit (Inr (r_lease_epoch r + 1))"
      "claim_grant rid owner secs (r_lease_epoch r + 1) cid th source env (j, db) = (Inr y, m, db1)"
    from claim_grant_Commit [OF a(4)] a(3) y have
      "x = Inr (r_lease_epoch r + 1)"
      "db' = granted_db rid owner secs (r_lease_epoch r + 1) cid th source (stmt_now env j) (stmt_now env (Suc j)) db"
      "\<forall>c\<in>set (ai_run_claims db). \<not> (cl_run_id c = rid \<and> cl_claim_id c = cid)"
      by auto
    with a r show ?thesis by blast
  qed
qed

lemma reads_readLeaseTiming: "reads (readLeaseTiming rid owner e th)"
  by (auto simp: reads_def) (metis prod.collapse readLeaseTiming_db)

lemma claim_after_reads:
  "reads (case res of Inl holder \<Rightarrow> db_ret holder
          | Inr newEpoch \<Rightarrow> db_bind (readLeaseTiming rid owner newEpoch th)
                (\<lambda>timing. db_ret (holder_of rid owner newEpoch cid raw th ''none'' 0 source timing)))"
  by (cases res) (simp_all add: reads_bind reads_readLeaseTiming)

text \<open>
  Whatever a claim returns, the database is either untouched or holds exactly one more grant, of the
  epoch after the current one, on a non-terminal Run whose lease was free or expired.
\<close>

lemma Claim_db:
  assumes "Claim hx gi gr rid owner secs caller env (n, db) = (res, (n', db'))"
  shows "db' = db \<or> (\<exists>r k t t' cid raw th source. caller_check caller = None \<and>
     claim_identity hx gi gr caller = (cid, raw, th, source) \<and> get_run rid db = Some r \<and>
     \<not> isTerminalStatus (r_status r) \<and> \<not> (lease_owned r \<and> lease_unexpired (stmt_now env k) r) \<and>
     (\<forall>c\<in>set (ai_run_claims db). \<not> (cl_run_id c = rid \<and> cl_claim_id c = cid)) \<and>
     db' = granted_db rid owner secs (r_lease_epoch r + 1) cid th source (stmt_now env t) (stmt_now env t') db)"
proof (cases "caller_check caller")
  case (Some e)
  with assms show ?thesis by (simp add: Claim_def db_fail_def)
next
  case None
  obtain cid raw th source where ci: "claim_identity hx gi gr caller = (cid, raw, th, source)"
    by (metis prod_cases4)
  show ?thesis
  proof (cases "db_up env")
    case False
    with assms None ci show ?thesis by (simp add: Claim_def db_conn_def)
  next
    case True
    then obtain y m where tx: "db_tx (claim_body rid owner secs cid raw th source) env (n, db) = (y, (m, db'))"
      using assms None ci db_bind_reads [OF claim_after_reads] by (fastforce simp: Claim_def db_conn_def)
    show ?thesis
    proof (cases y)
      case (Inl e)
      with db_tx_error_unchanged [OF tx [unfolded Inl]] show ?thesis by blast
    next
      case (Inr x)
      with claim_tx_Inr [OF tx [unfolded Inr]] None ci show ?thesis by blast
    qed
  qed
qed

end
