(* ===== verification/RunEvents.thy ===== *)
theory RunEvents
  imports AIRuns
begin

text \<open>
  The event log of a Run: \<open>internal/store/ai_run_events.go\<close>.

  \<open>ai_runs.last_event_sequence\<close> owns the numbering.  An append looks the event id up first, then
  raises the counter and inserts the event under the new number, so that a retry creates no gap.
  The invariant \<open>seq_ok\<close> says that the log of every Run is numbered 1, 2, ..., last.
\<close>

section \<open>Operations\<close>

definition find_event :: "gostring \<Rightarrow> gostring \<Rightarrow> store_db \<Rightarrow> int option" where
  "find_event rid eid db =
     map_option ev_sequence (sql_first (\<lambda>e. ev_run_id e = rid \<and> ev_event_id e = eid) (ai_run_events db))"

definition bump_sequence :: "ai_run \<Rightarrow> ai_run" where
  "bump_sequence r = r\<lparr>r_last_event_sequence := r_last_event_sequence r + 1\<rparr>"

text \<open>The insert, under the primary key \<open>(run_id, sequence)\<close> and the unique key \<open>(run_id, event_id)\<close>.\<close>

definition insert_event :: "run_event \<Rightarrow> store_db \<Rightarrow> ins_result \<times> store_db" where
  "insert_event e db =
     (if list_ex (\<lambda>x. ev_run_id x = ev_run_id e \<and>
            (ev_sequence x = ev_sequence e \<or> ev_event_id x = ev_event_id e)) (ai_run_events db)
      then (InsDup, db)
      else (InsOk, db\<lparr>ai_run_events := ai_run_events db @ [e]\<rparr>))"

text \<open>What a caller gets for an event that is already there: its number, without payload and time.\<close>

definition prev_event :: "run_event \<Rightarrow> int \<Rightarrow> run_event" where
  "prev_event ev s = ev\<lparr>ev_sequence := s, ev_payload := [], ev_created_at := 0\<rparr>"

text \<open>
  \<open>AppendTx\<close>; \<open>now\<close> is the clock of the process.  On a duplicate key the number of the event that
  won is read back, an error of that read giving 0.
\<close>

definition AppendTx :: "run_event \<Rightarrow> millis \<Rightarrow> (store_db, run_event \<times> bool) dbm" where
  "AppendTx ev now =
     db_bind (db_stmt (\<lambda>t db. (find_event (ev_run_id ev) (ev_event_id ev) db, db)))
      (\<lambda>existing. case existing of
         Some s \<Rightarrow> db_ret (prev_event ev s, False)
       | None \<Rightarrow>
          db_bind (db_stmt (\<lambda>t. update_run (ev_run_id ev) (\<lambda>_. True) bump_sequence))
           (\<lambda>_. db_bind (db_stmt (\<lambda>t db. (map_option r_last_event_sequence (get_run (ev_run_id ev) db), db)))
            (\<lambda>row. case row of
               None \<Rightarrow> db_fail SqlErrNoRows
             | Some s \<Rightarrow>
                db_bind (db_stmt (\<lambda>t. insert_event (ev\<lparr>ev_sequence := s, ev_created_at := now\<rparr>)))
                 (\<lambda>res. case res of
                    InsOk \<Rightarrow> db_ret (ev\<lparr>ev_sequence := s, ev_created_at := now\<rparr>, True)
                  | InsDup \<Rightarrow>
                      db_bind (db_try (db_stmt (\<lambda>t db. (find_event (ev_run_id ev) (ev_event_id ev) db, db))))
                        (\<lambda>q. db_ret (prev_event ev (case q of Inr (Some x) \<Rightarrow> x | _ \<Rightarrow> 0), False))
                  | InsBad \<Rightarrow> db_fail DriverError))))"

text \<open>
  \<open>Append\<close>: the same steps in a transaction of its own.  A known event ends the transaction with
  nothing written; a duplicate key rolls the counter back and reads the number outside of it.
\<close>

definition append_body :: "run_event \<Rightarrow> millis \<Rightarrow> (store_db, (run_event \<times> bool) option tx_end) dbm" where
  "append_body ev now =
     db_bind (db_stmt (\<lambda>t db. (find_event (ev_run_id ev) (ev_event_id ev) db, db)))
      (\<lambda>existing. case existing of
         Some s \<Rightarrow> db_ret (Rollback (Some (prev_event ev s, False)))
       | None \<Rightarrow>
          db_bind (db_stmt (\<lambda>t. update_run (ev_run_id ev) (\<lambda>_. True) bump_sequence))
           (\<lambda>_. db_bind (db_stmt (\<lambda>t db. (map_option r_last_event_sequence (get_run (ev_run_id ev) db), db)))
            (\<lambda>row. case row of
               None \<Rightarrow> db_fail SqlErrNoRows
             | Some s \<Rightarrow>
                db_bind (db_stmt (\<lambda>t. insert_event (ev\<lparr>ev_sequence := s, ev_created_at := now\<rparr>)))
                 (\<lambda>res. case res of
                    InsOk \<Rightarrow> db_ret (Commit (Some (ev\<lparr>ev_sequence := s, ev_created_at := now\<rparr>, True)))
                  | InsDup \<Rightarrow> db_ret (Rollback None)
                  | InsBad \<Rightarrow> db_fail DriverError))))"

definition AIRunEventDAO_Append :: "run_event \<Rightarrow> millis \<Rightarrow> (store_db, run_event \<times> bool) dbm" where
  "AIRunEventDAO_Append ev now = db_conn
     (db_bind (db_tx (append_body ev now))
       (\<lambda>res. case res of
          Some r \<Rightarrow> db_ret r
        | None \<Rightarrow>
            db_bind (db_try (db_stmt (\<lambda>t db. (find_event (ev_run_id ev) (ev_event_id ev) db, db))))
              (\<lambda>q. db_ret (prev_event ev (case q of Inr (Some x) \<Rightarrow> x | _ \<Rightarrow> 0), False))))"

definition replay_rows :: "gostring \<Rightarrow> int \<Rightarrow> store_db \<Rightarrow> run_event list" where
  "replay_rows rid after db =
     sort_key ev_sequence (filter (\<lambda>e. ev_run_id e = rid \<and> after < ev_sequence e) (ai_run_events db))"

definition ReplayAfter :: "gostring \<Rightarrow> int \<Rightarrow> (store_db, run_event list) dbm" where
  "ReplayAfter rid after = db_conn (db_stmt (\<lambda>t db. (replay_rows rid after db, db)))"

definition LastSequenceTx :: "gostring \<Rightarrow> (store_db, int) dbm" where
  "LastSequenceTx rid =
     db_bind (db_stmt (\<lambda>t db. (map_option r_last_event_sequence (get_run rid db), db)))
       (\<lambda>row. case row of None \<Rightarrow> db_fail SqlErrNoRows | Some s \<Rightarrow> db_ret s)"

definition LastSequence :: "gostring \<Rightarrow> (store_db, int) dbm" where
  "LastSequence rid = db_conn (LastSequenceTx rid)"

section \<open>The numbering invariant\<close>

definition events_of :: "gostring \<Rightarrow> store_db \<Rightarrow> run_event list" where
  "events_of rid db = filter (\<lambda>e. ev_run_id e = rid) (ai_run_events db)"

definition last_seq_of :: "gostring \<Rightarrow> store_db \<Rightarrow> int" where
  "last_seq_of rid db = (case get_run rid db of None \<Rightarrow> 0 | Some r \<Rightarrow> r_last_event_sequence r)"

definition seq_ok :: "store_db \<Rightarrow> bool" where
  "seq_ok db \<longleftrightarrow> (\<forall>rid. 0 \<le> last_seq_of rid db \<and>
      map ev_sequence (events_of rid db) = [1..last_seq_of rid db] \<and>
      distinct (map ev_event_id (events_of rid db)))"

lemma seq_ok_last:
  assumes "seq_ok db"
  shows "last_seq_of rid db = int (length (events_of rid db))"
proof -
  have "length (map ev_sequence (events_of rid db)) = nat (last_seq_of rid db)"
    using assms by (simp only: seq_ok_def) simp
  then show ?thesis using assms by (simp add: seq_ok_def)
qed

lemma bump_sequence_key [key_simps, simp]: "r_run_id (bump_sequence r) = r_run_id r"
  by (simp add: bump_sequence_def)

lemma bump_sequence_fields [simp]:
  "r_last_event_sequence (bump_sequence r) = r_last_event_sequence r + 1"
  "r_status (bump_sequence r) = r_status r"
  "r_state_version (bump_sequence r) = r_state_version r"
  "r_lease_epoch (bump_sequence r) = r_lease_epoch r"
  "r_lease_owner_id (bump_sequence r) = r_lease_owner_id r"
  "r_lease_token_hash (bump_sequence r) = r_lease_token_hash r"
  "r_lease_expires_at (bump_sequence r) = r_lease_expires_at r"
  "r_tenant_id (bump_sequence r) = r_tenant_id r"
  "r_primary_cluster_id (bump_sequence r) = r_primary_cluster_id r"
  by (simp_all add: bump_sequence_def)

text \<open>The database after one event is appended.\<close>

definition appended_db :: "run_event \<Rightarrow> store_db \<Rightarrow> store_db" where
  "appended_db e db =
     (snd (update_run (ev_run_id e) (\<lambda>_. True) bump_sequence db))
       \<lparr>ai_run_events := ai_run_events db @ [e]\<rparr>"

lemma get_run_events_update [simp]: "get_run rid (db\<lparr>ai_run_events := es\<rparr>) = get_run rid db"
  by (simp add: get_run_def)

lemma get_run_appended_db:
  "get_run k (appended_db e db) =
     map_option (\<lambda>r. if k = ev_run_id e then bump_sequence r else r) (get_run k db)"
  by (simp add: appended_db_def get_run_update_run)

lemma last_seq_of_appended:
  "last_seq_of k (appended_db e db) = (if k = ev_run_id e \<and> get_run k db \<noteq> None
     then last_seq_of k db + 1 else last_seq_of k db)"
  unfolding last_seq_of_def get_run_appended_db
  by (cases "k = ev_run_id e"; cases "get_run k db") simp_all

lemma events_of_appended:
  "events_of k (appended_db e db) = events_of k db @ (if ev_run_id e = k then [e] else [])"
  by (simp add: events_of_def appended_db_def)

lemma find_event_None:
  "find_event rid eid db = None \<longleftrightarrow> eid \<notin> ev_event_id ` set (events_of rid db)"
  by (auto simp: find_event_def sql_first_None events_of_def)

lemma seq_ok_appended:
  assumes ok: "seq_ok db" and run: "get_run (ev_run_id e) db \<noteq> None"
    and s: "ev_sequence e = last_seq_of (ev_run_id e) db + 1"
    and new: "find_event (ev_run_id e) (ev_event_id e) db = None"
  shows "seq_ok (appended_db e db)"
proof (unfold seq_ok_def, intro allI)
  fix k
  have k: "0 \<le> last_seq_of k db" "map ev_sequence (events_of k db) = [1..last_seq_of k db]"
    "distinct (map ev_event_id (events_of k db))"
    using ok by (simp_all add: seq_ok_def)
  show "0 \<le> last_seq_of k (appended_db e db) \<and>
      map ev_sequence (events_of k (appended_db e db)) = [1..last_seq_of k (appended_db e db)] \<and>
      distinct (map ev_event_id (events_of k (appended_db e db)))"
  proof (cases "k = ev_run_id e")
    case True
    have "[1..last_seq_of k db + 1] = [1..last_seq_of k db] @ [last_seq_of k db + 1]"
      using k(1) by (simp add: upto_rec2)
    with True k s run new show ?thesis
      by (simp add: last_seq_of_appended events_of_appended find_event_None)
  next
    case False
    with k show ?thesis by (simp add: last_seq_of_appended events_of_appended)
  qed
qed

lemma seq_ok_fresh_insert:
  assumes ok: "seq_ok db" and run: "get_run (ev_run_id e) db \<noteq> None"
    and s: "ev_sequence e = last_seq_of (ev_run_id e) db + 1"
    and new: "find_event (ev_run_id e) (ev_event_id e) db = None"
  shows "insert_event e (snd (update_run (ev_run_id e) (\<lambda>_. True) bump_sequence db)) = (InsOk, appended_db e db)"
proof -
  have "ev_sequence ` set (events_of (ev_run_id e) db) = {1..last_seq_of (ev_run_id e) db}"
    using ok by (metis list.set_map set_upto seq_ok_def)
  then have "\<forall>x\<in>set (ai_run_events db). ev_run_id x = ev_run_id e \<longrightarrow> ev_sequence x \<noteq> ev_sequence e"
    using s by (force simp: events_of_def)
  moreover have "\<forall>x\<in>set (ai_run_events db). ev_run_id x = ev_run_id e \<longrightarrow> ev_event_id x \<noteq> ev_event_id e"
    using new by (auto simp: find_event_None events_of_def image_iff)
  ultimately show ?thesis
    by (auto simp: insert_event_def appended_db_def list_ex_iff)
qed

section \<open>What an append does\<close>

lemma AppendTx_Inr:
  assumes ok: "seq_ok db" and run: "AppendTx ev now env (n, db) = (Inr (e, created), (n', db'))"
  shows "(\<exists>s. find_event (ev_run_id ev) (ev_event_id ev) db = Some s \<and> \<not> created \<and>
            e = prev_event ev s \<and> db' = db)
       \<or> (find_event (ev_run_id ev) (ev_event_id ev) db = None \<and> created \<and>
            get_run (ev_run_id ev) db \<noteq> None \<and>
            e = ev\<lparr>ev_sequence := last_seq_of (ev_run_id ev) db + 1, ev_created_at := now\<rparr> \<and>
            db' = appended_db e db)"
proof (cases "find_event (ev_run_id ev) (ev_event_id ev) db")
  case (Some s)
  with run show ?thesis by (simp add: AppendTx_def dbm_defs split: if_splits)
next
  case None
  show ?thesis
  proof (cases "get_run (ev_run_id ev) db")
    case nr: None
    with run None show ?thesis
      by (simp add: AppendTx_def dbm_defs get_run_update_run Let_def case_prod_beta split: if_splits)
  next
    case r: (Some r)
    let ?e = "ev\<lparr>ev_sequence := last_seq_of (ev_run_id ev) db + 1, ev_created_at := now\<rparr>"
    have s: "last_seq_of (ev_run_id ev) db = r_last_event_sequence r"
      using r by (simp add: last_seq_of_def)
    have "insert_event ?e (snd (update_run (ev_run_id ev) (\<lambda>_. True) bump_sequence db)) = (InsOk, appended_db ?e db)"
      using seq_ok_fresh_insert [OF ok, of ?e] r None by simp
    with run None r s show ?thesis
      by (auto simp: AppendTx_def dbm_defs get_run_update_run Let_def case_prod_beta split: if_splits)
  qed
qed

lemma AppendTx_seq_ok:
  assumes "seq_ok db" and "AppendTx ev now env (n, db) = (Inr (e, created), (n', db'))"
  shows "seq_ok db'"
  using AppendTx_Inr [OF assms] assms(1) seq_ok_appended [of db e]
  by auto

end
