(* ===== verification/RunInvariant.thy ===== *)
theory RunInvariant
  imports RunLease RunEvents "HOL-Library.Sublist"
begin

text \<open>
  How one operation of the control plane may change a Run, and the invariant of its tables.

  \<open>run_step\<close> relates a row of \<open>ai_runs\<close> before and after one operation: identity, tenant and cluster stay, the
  lease epoch and the event counter never go back, and the status either stays with its version or
  makes one legal move with the version raised by one.  \<open>db_step\<close> lifts it to the database and adds
  that the event log, the claim history and the commit log are append-only.
\<close>

definition run_quiet :: "ai_run \<Rightarrow> ai_run \<Rightarrow> bool" where
  "run_quiet r r' \<longleftrightarrow>
     r_run_id r' = r_run_id r \<and> r_tenant_id r' = r_tenant_id r \<and>
     r_primary_cluster_id r' = r_primary_cluster_id r \<and>
     r_lease_epoch r \<le> r_lease_epoch r' \<and> r_last_event_sequence r \<le> r_last_event_sequence r' \<and>
     r_status r' = r_status r \<and> r_state_version r' = r_state_version r"

definition run_moves :: "gostring \<Rightarrow> gostring \<Rightarrow> bool" where
  "run_moves s s' \<longleftrightarrow> ValidateRunTransition s s' \<or> \<not> isTerminalStatus s \<and> s' = ''cancelled''"

definition run_step :: "ai_run \<Rightarrow> ai_run \<Rightarrow> bool" where
  "run_step r r' \<longleftrightarrow>
     r_run_id r' = r_run_id r \<and> r_tenant_id r' = r_tenant_id r \<and>
     r_primary_cluster_id r' = r_primary_cluster_id r \<and>
     r_lease_epoch r \<le> r_lease_epoch r' \<and> r_last_event_sequence r \<le> r_last_event_sequence r' \<and>
     (r_status r' = r_status r \<and> r_state_version r' = r_state_version r \<or>
      run_moves (r_status r) (r_status r') \<and> r_state_version r' = r_state_version r + 1)"

definition db_step :: "store_db \<Rightarrow> store_db \<Rightarrow> bool" where
  "db_step db db' \<longleftrightarrow>
     (\<forall>rid r. get_run rid db = Some r \<longrightarrow> (\<exists>r'. get_run rid db' = Some r' \<and> run_step r r')) \<and>
     prefix (ai_run_events db) (ai_run_events db') \<and>
     prefix (ai_run_claims db) (ai_run_claims db') \<and>
     prefix (ai_runtime_commits db) (ai_runtime_commits db')"

definition db_quiet :: "store_db \<Rightarrow> store_db \<Rightarrow> bool" where
  "db_quiet db db' \<longleftrightarrow>
     (\<forall>rid r. get_run rid db = Some r \<longrightarrow> (\<exists>r'. get_run rid db' = Some r' \<and> run_quiet r r')) \<and>
     prefix (ai_run_events db) (ai_run_events db') \<and>
     prefix (ai_run_claims db) (ai_run_claims db') \<and>
     prefix (ai_runtime_commits db) (ai_runtime_commits db')"

definition cp_inv :: "store_db \<Rightarrow> bool" where
  "cp_inv db \<longleftrightarrow> uniq_key r_run_id (ai_runs db) \<and> seq_ok db"

section \<open>Composition\<close>

lemma terminal_no_moves: "isTerminalStatus s \<Longrightarrow> \<not> run_moves s s'"
  by (simp add: run_moves_def terminal_no_transition)

lemma run_quiet_refl [simp]: "run_quiet r r"
  by (simp add: run_quiet_def)

lemma run_quiet_step: "run_quiet r r' \<Longrightarrow> run_step r r'"
  by (simp add: run_quiet_def run_step_def)

lemma run_quiet_trans: "run_quiet r r1 \<Longrightarrow> run_quiet r1 r2 \<Longrightarrow> run_quiet r r2"
  by (simp add: run_quiet_def)

lemma run_step_quiet: "run_step r r1 \<Longrightarrow> run_quiet r1 r2 \<Longrightarrow> run_step r r2"
  by (auto simp: run_quiet_def run_step_def)

lemma db_quiet_refl [simp]: "db_quiet db db"
  unfolding db_quiet_def by (metis run_quiet_refl prefix_order.refl)

lemma db_quiet_step: "db_quiet db db' \<Longrightarrow> db_step db db'"
  unfolding db_quiet_def db_step_def by (metis run_quiet_step)

lemma db_step_refl [simp]: "db_step db db"
  by (simp add: db_quiet_step)

lemma db_quiet_trans: "db_quiet db db1 \<Longrightarrow> db_quiet db1 db2 \<Longrightarrow> db_quiet db db2"
  unfolding db_quiet_def by (metis run_quiet_trans prefix_order.trans)

lemma db_step_quiet: "db_step db db1 \<Longrightarrow> db_quiet db1 db2 \<Longrightarrow> db_step db db2"
  unfolding db_quiet_def db_step_def by (metis run_step_quiet prefix_order.trans)

text \<open>One \<open>UPDATE ai_runs\<close> by primary key: it is enough to look at the row that is there.\<close>

lemma get_run_update_cases:
  assumes "\<And>r. r_run_id (f r) = r_run_id r" and "R r r" and "get_run k db = Some r"
    and "k = rid \<Longrightarrow> p r \<Longrightarrow> R r (f r)"
  shows "\<exists>r'. get_run k (snd (update_run rid p f db)) = Some r' \<and> R r r'"
  using assms by (simp add: get_run_update_run)

lemma db_quiet_update_run:
  assumes "\<And>r. r_run_id (f r) = r_run_id r"
    and "\<And>r. get_run rid db = Some r \<Longrightarrow> p r \<Longrightarrow> run_quiet r (f r)"
  shows "db_quiet db (snd (update_run rid p f db))"
  unfolding db_quiet_def
  by (intro conjI allI impI get_run_update_cases [where R = run_quiet]) (use assms in simp_all)

lemma db_step_update_run:
  assumes "\<And>r. r_run_id (f r) = r_run_id r"
    and "\<And>r. get_run rid db = Some r \<Longrightarrow> p r \<Longrightarrow> run_step r (f r)"
  shows "db_step db (snd (update_run rid p f db))"
  unfolding db_step_def
  by (intro conjI allI impI get_run_update_cases [where R = run_step]) (use assms in \<open>simp_all add: run_quiet_step\<close>)

lemma cp_inv_update_run:
  assumes k: "\<And>r. r_run_id (f r) = r_run_id r"
    and s: "\<And>r. r_last_event_sequence (f r) = r_last_event_sequence r"
    and i: "cp_inv db"
  shows "cp_inv (snd (update_run rid p f db))"
proof -
  have "last_seq_of k (snd (update_run rid p f db)) = last_seq_of k db" for k
    unfolding last_seq_of_def get_run_update_run [of f, OF k] using s
    by (cases "get_run k db") simp_all
  moreover have "events_of k (snd (update_run rid p f db)) = events_of k db" for k
    by (simp add: events_of_def)
  moreover have "uniq_key r_run_id (ai_runs (snd (update_run rid p f db)))"
    using i uniq_key_update [where key = r_run_id and f = f, OF k] by (simp add: cp_inv_def update_run_snd)
  ultimately show ?thesis using i by (simp add: cp_inv_def seq_ok_def)
qed

lemma cp_inv_other_table [simp]:
  "cp_inv (db\<lparr>ai_run_claims := x1\<rparr>) = cp_inv db"
  "cp_inv (db\<lparr>ai_runtime_commits := x2\<rparr>) = cp_inv db"
  "cp_inv (db\<lparr>ai_control_commands := x3\<rparr>) = cp_inv db"
  "cp_inv (db\<lparr>ai_run_outbox := x4\<rparr>) = cp_inv db"
  by (simp_all add: cp_inv_def seq_ok_def last_seq_of_def events_of_def get_run_def)

section \<open>Lease operations and appends\<close>

lemma set_renew_key [key_simps, simp]: "r_run_id (set_renew secs t r) = r_run_id r"
  by (simp add: set_renew_def)

lemma clear_lease_key [key_simps, simp]: "r_run_id (clear_lease r) = r_run_id r"
  by (simp add: clear_lease_def)

lemma run_quiet_renew: "run_quiet r (set_renew secs t r)"
  by (simp add: run_quiet_def set_renew_def)

lemma run_quiet_clear: "run_quiet r (clear_lease r)"
  by (simp add: run_quiet_def clear_lease_def)

lemma run_quiet_bump: "run_quiet r (bump_sequence r)"
  by (simp add: run_quiet_def)

lemma granted_db_quiet:
  assumes "get_run rid db = Some r"
  shows "db_quiet db (granted_db rid owner secs (r_lease_epoch r + 1) cid th source t t' db)"
proof -
  have "db_quiet db (snd (update_run rid (\<lambda>r. \<not> isTerminalStatus (r_status r))
          (set_claim owner (r_lease_epoch r + 1) cid th secs t) db))"
    by (rule db_quiet_update_run) (use assms in \<open>simp_all add: run_quiet_def\<close>)
  then show ?thesis
    by (simp add: granted_db_def Let_def db_quiet_def get_run_def)
qed

lemma granted_db_inv:
  assumes "cp_inv db"
  shows "cp_inv (granted_db rid owner secs e cid th source t t' db)"
  unfolding granted_db_def Let_def using assms
  by (simp add: cp_inv_update_run)

lemma appended_db_quiet: "db_quiet db (appended_db e db)"
proof -
  have "db_quiet db (snd (update_run (ev_run_id e) (\<lambda>_. True) bump_sequence db))"
    by (rule db_quiet_update_run) (simp_all add: run_quiet_bump)
  then show ?thesis
    by (simp add: appended_db_def db_quiet_def get_run_def)
qed

lemma AppendTx_step:
  assumes inv: "cp_inv db" and run: "AppendTx ev now env (n, db) = (Inr (e, created), (n', db'))"
  shows "db_quiet db db' \<and> cp_inv db'"
proof -
  have ok: "seq_ok db" and u: "uniq_key r_run_id (ai_runs db)" using inv by (simp_all add: cp_inv_def)
  have "uniq_key r_run_id (ai_runs (appended_db e db))"
    using u by (simp add: appended_db_def update_run_snd uniq_key_update)
  with AppendTx_Inr [OF ok run] AppendTx_seq_ok [OF ok run] u appended_db_quiet [of db e] show ?thesis
    by (auto simp: cp_inv_def)
qed

lemma Claim_step:
  assumes "cp_inv db" and "Claim hx gi gr rid owner secs caller env (n, db) = (res, (n', db'))"
  shows "db_quiet db db' \<and> cp_inv db'"
  using Claim_db [OF assms(2)] assms(1) granted_db_quiet granted_db_inv by (metis db_quiet_refl)

lemma Renew_step:
  assumes "cp_inv db" and run: "Renew rid owner epoch token secs env (n, db) = (res, (n', db'))"
  shows "db_quiet db db' \<and> cp_inv db'"
proof -
  have "db' = db \<or> (\<exists>t. db' = snd (update_run rid (lease_live t owner epoch token) (set_renew secs t) db))"
    using run
    by (auto simp: Renew_def dbm_defs Let_def case_prod_beta split: if_splits sum.splits bool.splits option.splits)
  then show ?thesis
    using assms(1) db_quiet_update_run [of "set_renew secs _"] cp_inv_update_run [of "set_renew secs _"]
    by (auto simp: run_quiet_renew) (simp_all add: set_renew_def)
qed

lemma Release_step:
  assumes "cp_inv db" and run: "Release rid epoch token env (n, db) = (res, (n', db'))"
  shows "db_quiet db db' \<and> cp_inv db'"
proof -
  have "db' = db \<or> db' = snd (update_run rid (\<lambda>r. r_lease_epoch r = epoch \<and> r_lease_token_hash r = Some token) clear_lease db)"
    using run
    by (auto simp: Release_def dbm_defs Let_def case_prod_beta split: if_splits)
  then show ?thesis
    using assms(1) db_quiet_update_run [of clear_lease] cp_inv_update_run [of clear_lease]
    by (auto simp: run_quiet_clear) (simp_all add: clear_lease_def)
qed

section \<open>Creation\<close>

lemma create_step:
  assumes inv: "cp_inv db" and run: "CreateWithOutbox a ob env (n, db) = (res, (n', db'))"
  shows "db_step db db' \<and> cp_inv db'"
  using CreateWithOutbox_cases [OF run]
proof (elim disjE conjE exE)
  fix db1
  assume r: "insert_run (insert_row a) db = (InsOk, db1)"
    and db': "db' = db1\<lparr>ai_run_outbox := ai_run_outbox db @ [outbox_row a ob]\<rparr>"
  note g = insert_run_get [OF r, unfolded insert_row_fields]
  have none: "get_run (RunID a) db = None" and d1: "db1 = db\<lparr>ai_runs := ai_runs db @ [insert_row a]\<rparr>"
    using g by blast+
  have get': "get_run k db' = (if k = RunID a then Some (insert_row a) else get_run k db)" for k
  proof -
    have "get_run k db' = get_run k db1" by (simp add: db' get_run_def)
    moreover have "get_run k db1 = (if k = RunID a then Some (insert_row a) else get_run k db)"
      using g [of k] by blast
    ultimately show ?thesis by (rule trans)
  qed
  have seq: "last_seq_of k db' = last_seq_of k db" for k
    using none by (simp add: last_seq_of_def get' insert_row_fields)
  have "uniq_key r_run_id (ai_runs db')"
    using inv none by (auto simp: db' d1 cp_inv_def uniq_key_append_one get_run_def sql_first_None insert_row_fields)
  moreover have "seq_ok db'"
    using inv seq by (simp add: cp_inv_def seq_ok_def events_of_def db' d1)
  moreover have "db_step db db'"
  proof -
    have "\<exists>r'. get_run rid db' = Some r' \<and> run_step r r'" if "get_run rid db = Some r" for rid r
      using that none get' [of rid] run_quiet_step [OF run_quiet_refl, of r] by (cases "rid = RunID a") simp_all
    then show ?thesis by (simp add: db_step_def db' d1)
  qed
  ultimately show ?thesis by (simp add: cp_inv_def)
qed (use inv in auto)
section \<open>Sequences of operations\<close>

lemma db_steps_run:
  assumes "db_step\<^sup>*\<^sup>* db db'" and "get_run rid db = Some r"
  shows "\<exists>r'. get_run rid db' = Some r' \<and> r_tenant_id r' = r_tenant_id r \<and>
    r_primary_cluster_id r' = r_primary_cluster_id r \<and> r_lease_epoch r \<le> r_lease_epoch r' \<and>
    r_state_version r \<le> r_state_version r' \<and> r_last_event_sequence r \<le> r_last_event_sequence r' \<and>
    (isTerminalStatus (r_status r) \<longrightarrow> r_status r' = r_status r \<and> r_state_version r' = r_state_version r)"
  using assms(1)
proof (induction rule: rtranclp_induct)
  case base
  with assms(2) show ?case by blast
next
  case (step db1 db2)
  then obtain r1 where r1: "get_run rid db1 = Some r1" "r_tenant_id r1 = r_tenant_id r"
    "r_primary_cluster_id r1 = r_primary_cluster_id r" "r_lease_epoch r \<le> r_lease_epoch r1"
    "r_state_version r \<le> r_state_version r1" "r_last_event_sequence r \<le> r_last_event_sequence r1"
    "isTerminalStatus (r_status r) \<longrightarrow> r_status r1 = r_status r \<and> r_state_version r1 = r_state_version r"
    by blast
  with step.hyps(2) obtain r2 where r2: "get_run rid db2 = Some r2" "run_step r1 r2"
    unfolding db_step_def by blast
  have "isTerminalStatus (r_status r) \<longrightarrow> r_status r2 = r_status r \<and> r_state_version r2 = r_state_version r"
    using r1(7) r2(2) terminal_no_moves by (auto simp: run_step_def)
  with r1 r2 show ?case unfolding run_step_def
    by (intro exI [of _ r2]) auto
qed

lemma db_steps_logs:
  "db_step\<^sup>*\<^sup>* db db' \<Longrightarrow>
    prefix (ai_run_events db) (ai_run_events db') \<and> prefix (ai_run_claims db) (ai_run_claims db') \<and>
    prefix (ai_runtime_commits db) (ai_runtime_commits db')"
  by (induction rule: rtranclp_induct) (auto simp: db_step_def intro: prefix_order.trans)

lemma sql_first_prefix: "prefix xs ys \<Longrightarrow> sql_first p xs = Some x \<Longrightarrow> sql_first p ys = Some x"
  by (auto simp: prefix_def)

section \<open>A sample database\<close>

text \<open>One Run under investigation, leased by \<open>w1\<close> at epoch 1 until time 100; the witnesses start from it.\<close>

definition sample_run :: ai_run where
  "sample_run =
    \<lparr>r_run_id = ''r1'', r_request_id = ''q1'', r_tenant_id = ''t1'', r_principal = ''u1'',
     r_principal_type = ''user'', r_session_id = None, r_scope_kind = ''single_cluster'',
     r_primary_cluster_id = Some ''c1'', r_intent = ''diagnose'', r_action_mode = ''read_only'',
     r_target_type = None, r_target_resource_id = None, r_time_range_start = None,
     r_time_range_end = None, r_status = ''investigating'', r_state_version = 3,
     r_parent_run_id = None, r_created_at = 10, r_updated_at = 20, r_finished_at = None,
     r_last_event_sequence = 0, r_lease_owner_id = Some ''w1'', r_lease_epoch = 1,
     r_lease_claim_id = Some ''k1'', r_lease_token_hash = Some ''tok'', r_lease_expires_at = Some 100,
     r_heartbeat_at = Some 40, r_runtime_wait_kind = ''none'', r_retry_not_before = None,
     r_retry_attempt = 0, r_last_failure_code = None, r_runtime_metadata = None\<rparr>"

definition sample_db :: store_db where
  "sample_db = empty_db\<lparr>ai_runs := [sample_run]\<rparr>"

lemma sample_get_run: "get_run rid sample_db = (if rid = ''r1'' then Some sample_run else None)"
  by (simp add: get_run_def sample_db_def sample_run_def)

lemma sample_inv: "cp_inv sample_db"
  unfolding cp_inv_def seq_ok_def events_of_def last_seq_of_def sample_get_run
  by (simp add: sample_db_def sample_run_def empty_db_def uniq_key_def)

end
