(* ===== verification/Contract.thy ===== *)
theory Contract
  imports Json "HOL-Library.Word"
begin

text \<open>
  The internal JSON contracts of the query API: \<open>internal/contract/context.go\<close> and \<open>errors.go\<close>, with
  the UUID generator of \<open>internal/store/ai_run_lease.go\<close>.

  A \<open>Validate\<close> method returns \<open>None\<close> when it accepts and \<open>Some m\<close> with the text of its error
  otherwise (the quoted values that \<open>%q\<close> adds to two of the texts are left out).  A \<open>time.Time\<close> is the \<open>int\<close> number of nanoseconds since the zero time of Go, so that
  \<open>IsZero\<close> is \<open>= 0\<close>.
\<close>

unbundle bit_operations_syntax

section \<open>Error codes\<close>

definition HTTPStatusCode :: "gostring \<Rightarrow> int" where
  "HTTPStatusCode code =
     (if code \<in> set [''AUTH_REQUIRED'', ''SESSION_REVOKED'', ''SERVICE_AUTH_FAILED'', ''INVALID_CONTEXT'',
                     ''CONTEXT_EXPIRED'', ''CONTEXT_REPLAYED''] then 401
      else if code \<in> set [''TENANT_ACCESS_DENIED'', ''CLUSTER_ACCESS_DENIED''] then 403
      else if code = ''RESOURCE_NOT_FOUND'' then 404
      else if code \<in> set [''RESOURCE_AMBIGUOUS'', ''CONTEXT_SCOPE_MISMATCH'', ''CLUSTER_IDENTITY_MISMATCH'',
                     ''RUN_STATE_CONFLICT'', ''RUN_CANCELLED'', ''RESOURCE_VERSION_CONFLICT'',
                     ''APPROVAL_SCOPE_MISMATCH''] then 409
      else if code \<in> set [''VALIDATION_FAILED'', ''ACTION_NOT_ALLOWED'', ''ACTION_CONFIRMATION_REQUIRED'',
                     ''ACTION_APPROVAL_REQUIRED'', ''APPROVAL_EXPIRED''] then 422
      else if code \<in> set [''CLUSTER_UNAVAILABLE'', ''BACKEND_UNAVAILABLE'', ''TOOL_UNAVAILABLE'',
                     ''MAINTENANCE_MODE''] then 503
      else if code = ''TOOL_TIMEOUT'' then 504
      else 500)"

section \<open>UUIDs\<close>

definition hex_lower :: "char \<Rightarrow> bool" where
  "hex_lower c \<longleftrightarrow> c \<in> set ''0123456789abcdef''"

text \<open>The regular expression \<open>canonicalUUID\<close>, as the list of the character classes of its 36 positions.\<close>

definition canonicalUUID :: "(char \<Rightarrow> bool) list" where
  "canonicalUUID =
     replicate 8 hex_lower @ [\<lambda>c. c = CHR ''-''] @ replicate 4 hex_lower @ [\<lambda>c. c = CHR ''-''] @
     [\<lambda>c. c \<in> set ''12345''] @ replicate 3 hex_lower @ [\<lambda>c. c = CHR ''-''] @
     [\<lambda>c. c \<in> set ''89ab''] @ replicate 3 hex_lower @ [\<lambda>c. c = CHR ''-''] @ replicate 12 hex_lower"

definition match_classes :: "(char \<Rightarrow> bool) list \<Rightarrow> gostring \<Rightarrow> bool" where
  "match_classes ps s \<longleftrightarrow> length s = length ps \<and> list_all (\<lambda>(p, c). p c) (zip ps s)"

definition validateUUID :: "gostring \<Rightarrow> gostring \<Rightarrow> gostring option" where
  "validateUUID field v =
     (if to_lower v \<noteq> v \<or> \<not> match_classes canonicalUUID v
      then Some (field @ '' must be a lowercase canonical UUID'') else None)"

definition validateOptionalUUID :: "gostring \<Rightarrow> gostring \<Rightarrow> gostring option" where
  "validateOptionalUUID field v = (if v = [] then None else validateUUID field v)"

text \<open>\<open>hex.EncodeToString\<close>, and \<open>NewUUIDv4\<close> on the sixteen bytes that the random source delivers.\<close>

definition hex_digit :: "nat \<Rightarrow> char" where
  "hex_digit n = ''0123456789abcdef'' ! n"

definition hex_byte :: "8 word \<Rightarrow> gostring" where
  "hex_byte b = [hex_digit (unat (drop_bit 4 b)), hex_digit (unat (b AND 0x0f))]"

definition hex_encode :: "8 word list \<Rightarrow> gostring" where
  "hex_encode bs = concat (map hex_byte bs)"

definition NewUUIDv4 :: "8 word list \<Rightarrow> gostring" where
  "NewUUIDv4 random =
     (let b6 = random[6 := ((random ! 6) AND 0x0f) OR 0x40];
          b = b6[8 := ((b6 ! 8) AND 0x3f) OR 0x80]
      in hex_encode (take 4 b) @ ''-'' @ hex_encode (take 2 (drop 4 b)) @ ''-'' @
         hex_encode (take 2 (drop 6 b)) @ ''-'' @ hex_encode (take 2 (drop 8 b)) @ ''-'' @
         hex_encode (take 6 (drop 10 b)))"

section \<open>Signed contexts\<close>

definition second_ns :: int where
  "second_ns = 1000000000"

record commonContext =
  cx_Version :: int
  cx_ContextType :: gostring
  cx_Issuer :: gostring
  cx_Audience :: gostring
  cx_RequestID :: gostring
  cx_PrincipalType :: gostring
  cx_PrincipalID :: gostring
  cx_SessionID :: gostring
  cx_TenantID :: gostring
  cx_IssuedAt :: int
  cx_ExpiresAt :: int
  cx_Nonce :: gostring

text \<open>Checks run in order and the first that fails decides.\<close>

fun first_error :: "gostring option list \<Rightarrow> gostring option" where
  "first_error [] = None"
| "first_error (Some e # rest) = Some e"
| "first_error (None # rest) = first_error rest"

definition require :: "bool \<Rightarrow> gostring \<Rightarrow> gostring option" where
  "require ok msg = (if ok then None else Some msg)"

definition validateCommon :: "('a) commonContext_scheme \<Rightarrow> gostring option" where
  "validateCommon c =
     (let lifetime = cx_ExpiresAt c - cx_IssuedAt c in first_error
      [require (\<not> cx_Version c < 1) ''version must be positive'',
       require (cx_PrincipalType c = ''user'' \<or> cx_PrincipalType c = ''system'')
         ''principal_type must be user or system'',
       validateUUID ''principal_id'' (cx_PrincipalID c),
       validateOptionalUUID ''session_id'' (cx_SessionID c),
       require (\<not> (cx_PrincipalType c = ''user'' \<and> cx_SessionID c = []))
         ''user principal requires session_id'',
       require (\<not> (cx_PrincipalType c = ''system'' \<and> cx_SessionID c \<noteq> []))
         ''system principal must have null session_id'',
       validateUUID ''tenant_id'' (cx_TenantID c),
       validateUUID ''nonce'' (cx_Nonce c),
       require (\<not> (cx_Issuer c = [] \<or> cx_Audience c = [])) ''issuer and audience are required'',
       require (\<not> (cx_IssuedAt c = 0 \<or> cx_ExpiresAt c = 0)) ''issued_at and expires_at are required'',
       require (\<not> (lifetime \<le> 0 \<or> lifetime > 60 * second_ns))
         ''context lifetime must be between 1 and 60 seconds''])"

record RunInvocationContext = commonContext +
  ric_Source :: gostring
  ric_ClusterScope :: "gostring list"
  ric_Capability :: gostring
  ric_RunID :: gostring
  ric_InvocationID :: gostring

definition NewRunInvocationContext ::
  "gostring \<Rightarrow> gostring \<Rightarrow> gostring \<Rightarrow> gostring \<Rightarrow> gostring \<Rightarrow> gostring \<Rightarrow> gostring \<Rightarrow> gostring \<Rightarrow>
     gostring list \<Rightarrow> int \<Rightarrow> int \<Rightarrow> gostring \<Rightarrow> RunInvocationContext" where
  "NewRunInvocationContext issuer audience requestID principalType principalID sessionID tenantID
       source clusterScope issuedAt expiresAt nonce =
     \<lparr>cx_Version = 1, cx_ContextType = ''run_invocation'', cx_Issuer = issuer, cx_Audience = audience,
      cx_RequestID = requestID, cx_PrincipalType = principalType, cx_PrincipalID = principalID,
      cx_SessionID = sessionID, cx_TenantID = tenantID, cx_IssuedAt = issuedAt,
      cx_ExpiresAt = expiresAt, cx_Nonce = nonce,
      ric_Source = source, ric_ClusterScope = clusterScope, ric_Capability = [],
      ric_RunID = [], ric_InvocationID = []\<rparr>"

text \<open>Decimal numerals, for the index in \<open>cluster_scope[%d]\<close>.\<close>

fun dec_nat :: "nat \<Rightarrow> gostring" where
  "dec_nat n = (if n < 10 then [char_of (48 + n)] else dec_nat (n div 10) @ [char_of (48 + n mod 10)])"

declare dec_nat.simps [simp del]

definition validate_scope :: "gostring list \<Rightarrow> gostring option list" where
  "validate_scope ids = map (\<lambda>(i, id). validateUUID (''cluster_scope['' @ dec_nat i @ '']'') id)
     (zip [0..<length ids] ids)"

definition RunInvocationContext_Validate :: "RunInvocationContext \<Rightarrow> gostring option" where
  "RunInvocationContext_Validate c = first_error
     ([validateCommon c,
       require (cx_ContextType c = ''run_invocation'') ''context_type must be run_invocation'',
       require (ric_Source c \<noteq> []) ''source is required'',
       require (ric_ClusterScope c \<noteq> []) ''cluster_scope must not be empty''] @
      validate_scope (ric_ClusterScope c) @
      [require (ric_Capability c = [] \<or> ric_Capability c = ''ai.chat'' \<or> ric_Capability c = ''ai.investigate'')
         ''capability must be one of ai.chat | ai.investigate''] @
      (if ric_Capability c = ''ai.investigate''
       then [validateUUID ''run_id'' (ric_RunID c), validateUUID ''invocation_id'' (ric_InvocationID c)]
       else []) @
      [require (\<not> (ric_Capability c = ''ai.chat'' \<and> (ric_RunID c \<noteq> [] \<or> ric_InvocationID c \<noteq> [])))
         ''chat invocation must not carry run identity''])"

record RunControlContext = commonContext +
  rcc_RunID :: gostring
  rcc_Operation :: gostring
  rcc_ActionID :: gostring
  rcc_DecisionID :: gostring

definition RunControlContext_Validate :: "RunControlContext \<Rightarrow> gostring option" where
  "RunControlContext_Validate c = first_error
     [validateCommon c,
      require (cx_ContextType c = ''run_control'') ''context_type must be run_control'',
      validateUUID ''run_id'' (rcc_RunID c),
      require (rcc_Operation c \<in> set [''cancel'', ''stream'', ''action_decision''])
        ''operation must be cancel, stream, or action_decision'',
      validateOptionalUUID ''action_id'' (rcc_ActionID c)]"

definition NewRunControlContext ::
  "gostring \<Rightarrow> gostring \<Rightarrow> gostring \<Rightarrow> gostring \<Rightarrow> gostring \<Rightarrow> gostring \<Rightarrow> gostring \<Rightarrow> gostring \<Rightarrow>
     gostring \<Rightarrow> int \<Rightarrow> int \<Rightarrow> gostring \<Rightarrow> RunControlContext" where
  "NewRunControlContext issuer audience requestID principalType principalID sessionID tenantID
       runID operation issuedAt expiresAt nonce =
     \<lparr>cx_Version = 1, cx_ContextType = ''run_control'', cx_Issuer = issuer, cx_Audience = audience,
      cx_RequestID = requestID, cx_PrincipalType = principalType, cx_PrincipalID = principalID,
      cx_SessionID = sessionID, cx_TenantID = tenantID, cx_IssuedAt = issuedAt,
      cx_ExpiresAt = expiresAt, cx_Nonce = nonce,
      rcc_RunID = runID, rcc_Operation = operation, rcc_ActionID = [], rcc_DecisionID = []\<rparr>"

record TrustedRequestContext = commonContext +
  trc_RunID :: gostring
  trc_ScopeKind :: gostring
  trc_ClusterID :: gostring
  trc_Capability :: gostring
  trc_Source :: gostring
  trc_WorkloadKind :: gostring

definition has_prefix :: "gostring \<Rightarrow> gostring \<Rightarrow> bool" where
  "has_prefix s p \<longleftrightarrow> take (length p) s = p"

definition TrustedRequestContext_Validate :: "TrustedRequestContext \<Rightarrow> gostring option" where
  "TrustedRequestContext_Validate c = first_error
     ([validateCommon c,
       require (cx_ContextType c = ''trusted_request'') ''context_type must be trusted_request'',
       validateUUID ''run_id'' (trc_RunID c),
       require (trc_ScopeKind c = ''cluster'' \<or> trc_ScopeKind c = ''run'') ''scope_kind must be cluster or run''] @
      (if trc_ScopeKind c = ''cluster''
       then [require (trc_ClusterID c \<noteq> []) ''cluster scope requires cluster_id'',
             validateUUID ''cluster_id'' (trc_ClusterID c)]
       else [require (trc_ClusterID c = []) ''run scope must have null cluster_id'',
             require (has_prefix (trc_Capability c) ''control_plane.'')
               ''run scope only allows control_plane.* capability'']) @
      [require (trc_Source c \<noteq> []) ''source is required'',
       require (trc_WorkloadKind c \<in> set [[], ''investigation'', ''chat'', ''platform''])
         ''workload_kind must be investigation, chat, or platform''])"

definition NewTrustedRequestContext ::
  "gostring \<Rightarrow> gostring \<Rightarrow> gostring \<Rightarrow> gostring \<Rightarrow> gostring \<Rightarrow> gostring \<Rightarrow> gostring \<Rightarrow> gostring \<Rightarrow>
     gostring \<Rightarrow> gostring \<Rightarrow> gostring \<Rightarrow> gostring \<Rightarrow> int \<Rightarrow> int \<Rightarrow> gostring \<Rightarrow> TrustedRequestContext" where
  "NewTrustedRequestContext issuer audience requestID principalType principalID sessionID tenantID
       runID scopeKind clusterID capability source issuedAt expiresAt nonce =
     \<lparr>cx_Version = 1, cx_ContextType = ''trusted_request'', cx_Issuer = issuer, cx_Audience = audience,
      cx_RequestID = requestID, cx_PrincipalType = principalType, cx_PrincipalID = principalID,
      cx_SessionID = sessionID, cx_TenantID = tenantID, cx_IssuedAt = issuedAt,
      cx_ExpiresAt = expiresAt, cx_Nonce = nonce,
      trc_RunID = runID, trc_ScopeKind = scopeKind, trc_ClusterID = clusterID,
      trc_Capability = capability, trc_Source = source, trc_WorkloadKind = []\<rparr>"

text \<open>
  The legacy context.  Its UUID fields stand in a Go map, whose iteration order is not fixed: the
  order is the argument \<open>order\<close>, which may permute the fields in any way.
\<close>

record RequestContext =
  lx_Version :: int
  lx_Issuer :: gostring
  lx_Audience :: gostring
  lx_RequestID :: gostring
  lx_RunID :: gostring
  lx_UserID :: gostring
  lx_SessionID :: gostring
  lx_TenantID :: gostring
  lx_ClusterID :: gostring
  lx_Source :: gostring
  lx_Capability :: gostring
  lx_IssuedAt :: int
  lx_ExpiresAt :: int
  lx_Nonce :: gostring

definition legacy_uuids :: "RequestContext \<Rightarrow> (gostring \<times> gostring) list" where
  "legacy_uuids c =
     [(''request_id'', lx_RequestID c), (''run_id'', lx_RunID c), (''user_id'', lx_UserID c),
      (''session_id'', lx_SessionID c), (''tenant_id'', lx_TenantID c),
      (''cluster_id'', lx_ClusterID c), (''nonce'', lx_Nonce c)]"

definition RequestContext_Validate ::
  "((gostring \<times> gostring) list \<Rightarrow> (gostring \<times> gostring) list) \<Rightarrow> RequestContext \<Rightarrow> gostring option" where
  "RequestContext_Validate order c =
     (let lifetime = lx_ExpiresAt c - lx_IssuedAt c in first_error
      ([require (\<not> lx_Version c < 1) ''version must be positive''] @
       map (\<lambda>(f, v). validateUUID f v) (order (legacy_uuids c)) @
       [require (\<not> (lx_Issuer c = [] \<or> lx_Audience c = [] \<or> lx_Source c = [] \<or> lx_Capability c = []))
          ''issuer, audience, source and capability are required'',
        require (\<not> (lx_IssuedAt c = 0 \<or> lx_ExpiresAt c = 0)) ''issued_at and expires_at are required'',
        require (\<not> (lifetime \<le> 0 \<or> lifetime > 60 * second_ns))
          ''legacy RequestContext lifetime must be between 1 and 60 seconds'']))"

section \<open>Resources, tool results, actions\<close>

record ResourceRef =
  rr_ClusterID :: gostring
  rr_ResourceType :: gostring
  rr_Namespace :: "gostring option"
  rr_Name :: gostring
  rr_ResourceID :: gostring
  rr_TenantID :: gostring

definition expected_resource_id :: "ResourceRef \<Rightarrow> gostring" where
  "expected_resource_id rr =
     rr_ResourceType rr @ '':'' @ rr_ClusterID rr @ '':'' @
     or_default (null_string (rr_Namespace rr)) ''_'' @ '':'' @ rr_Name rr"

definition ResourceRef_Validate :: "ResourceRef \<Rightarrow> gostring option" where
  "ResourceRef_Validate rr = first_error
     [validateUUID ''cluster_id'' (rr_ClusterID rr),
      require (\<not> (rr_ResourceType rr = [] \<or> rr_Name rr = [])) ''resource_type and name are required'',
      require (rr_ResourceID rr = expected_resource_id rr)
        ''resource_id must be <type>:<cluster_uuid>:<namespace-or->_>:<name> and must NOT include tenant_id'',
      validateUUID ''tenant_id'' (rr_TenantID rr)]"

record ToolResult =
  tl_ClusterID :: gostring
  tl_Success :: bool
  tl_Status :: gostring
  tl_ErrorCode :: gostring
  tl_StartedAt :: int
  tl_FinishedAt :: int

definition ToolResult_Validate :: "ToolResult \<Rightarrow> gostring option" where
  "ToolResult_Validate res = first_error
     [require (tl_Status res \<in> set [''success'', ''partial'', ''no_data'', ''failed'', ''timeout'',
                 ''unavailable'', ''permission_denied'']) ''unsupported ToolResult status'',
      validateUUID ''cluster_id'' (tl_ClusterID res),
      require (\<not> tl_FinishedAt res < tl_StartedAt res) ''finished_at must not precede started_at'',
      require (\<not> (tl_Success res \<and> tl_Status res \<noteq> ''success'' \<and> tl_Status res \<noteq> ''partial'' \<and>
                 tl_Status res \<noteq> ''no_data'')) ''successful ToolResult must use success, partial, or no_data'',
      require (\<not> (\<not> tl_Success res \<and> (tl_Status res = ''success'' \<or> tl_Status res = ''partial'' \<or>
                 tl_Status res = ''no_data''))) ''failed ToolResult must use a non-success status'',
      require (\<not> (tl_Status res = ''permission_denied'' \<and> tl_ErrorCode res = []))
        ''permission_denied ToolResult requires a structured error code'']"

record ActionExecutionContext =
  aec_ActionID :: gostring
  aec_ActionHash :: gostring
  aec_ApprovalID :: gostring
  aec_TargetUID :: gostring
  aec_TargetName :: gostring
  aec_ResourceVersion :: gostring
  aec_ClusterID :: gostring
  aec_ResourceType :: gostring
  aec_Namespace :: gostring
  aec_Operation :: gostring
  aec_TargetSpec :: json
  aec_CredentialRef :: gostring
  aec_ApprovedAt :: gostring
  aec_ExecutedBy :: gostring

definition allowed_operations :: "(gostring \<times> gostring list) list" where
  "allowed_operations =
    [(''patch'', [''deployment'']),
     (''rollout_restart'', [''deployment'', ''statefulset'', ''daemonset'']),
     (''scale'', [''deployment'', ''statefulset'']),
     (''delete_pod'', [''pod'']),
     (''evict_pod'', [''pod'']),
     (''cordon'', [''node'']),
     (''uncordon'', [''node'']),
     (''drain'', [''node''])]"

definition ActionExecutionContext_Validate :: "ActionExecutionContext \<Rightarrow> gostring option" where
  "ActionExecutionContext_Validate c = first_error
     [require (\<not> (aec_ActionID c = [] \<or> aec_ActionHash c = [] \<or> aec_TargetUID c = []))
        ''action_id, action_hash and target_uid are required'',
      require (aec_TargetName c \<noteq> []) ''target_name is required'',
      require (\<not> (aec_ResourceType c = [] \<or> aec_Operation c = [])) ''operation is required'',
      require (case map_of allowed_operations (aec_Operation c) of
                 None \<Rightarrow> False | Some kinds \<Rightarrow> aec_ResourceType c \<in> set kinds)
        ''unsupported operation for resource_type'']"

section \<open>What the checks accept\<close>

lemma first_error_None: "first_error es = None \<longleftrightarrow> (\<forall>e\<in>set es. e = None)"
  by (induction es rule: first_error.induct) auto

lemma require_None [simp]: "require ok msg = None \<longleftrightarrow> ok"
  by (simp add: require_def)

lemma validateUUID_None: "validateUUID f v = None \<longleftrightarrow> to_lower v = v \<and> match_classes canonicalUUID v"
  by (simp add: validateUUID_def)

lemma validateUUID_field: "validateUUID f v = None \<longleftrightarrow> validateUUID g v = None"
  by (simp add: validateUUID_None)


lemma hex_digit_lower: "n < 16 \<Longrightarrow> hex_lower (hex_digit n)"
  unfolding hex_lower_def hex_digit_def by (rule nth_mem) simp

lemma hex_lower_fixed: "hex_lower c \<Longrightarrow> lower_char c = c"
  by (auto simp: hex_lower_def lower_char_def)

lemma unat_high_nibble: "unat (drop_bit 4 (b :: 8 word)) < 16"
proof -
  have "unat b < 256" using unsigned_less [of b, where ?'a = nat] by simp
  moreover have "n < 256 \<Longrightarrow> drop_bit 4 n < 16" for n :: nat
    by (simp add: drop_bit_eq_div less_mult_imp_div_less)
  ultimately show ?thesis by (simp only: unat_drop_bit_eq)
qed

lemma unat_low_nibble: "unat ((b :: 8 word) AND 0x0f) < 16"
  using and_mask_less' [of 4 b] by (simp add: mask_eq_exp_minus_1 word_less_nat_alt)

lemma hex_byte_lower: "list_all hex_lower (hex_byte b)"
  by (simp add: hex_byte_def hex_digit_lower unat_high_nibble unat_low_nibble)

lemma version_nibble: "drop_bit 4 (((b :: 8 word) AND 0x0f) OR 0x40) = 4"
  by (rule bit_word_eqI) (auto simp: bit_simps)

lemma variant_nibble: "drop_bit 4 (((b :: 8 word) AND 0x3f) OR 0x80) = (drop_bit 4 b AND 3) OR 8"
  by (rule bit_word_eqI) (auto simp: bit_simps)

lemma nibble_or_8: "n < 4 \<Longrightarrow> (n :: nat) OR 8 \<in> {8, 9, 10, 11}"
proof -
  assume "n < 4"
  then have "n \<in> {0, 1, 2, 3}" by auto
  then show ?thesis by auto
qed

lemma variant_digit: "unat (drop_bit 4 (((b :: 8 word) AND 0x3f) OR 0x80)) \<in> {8, 9, 10, 11}"
proof -
  have "unat (drop_bit 4 b AND 3) < 4"
    using and_mask_less' [of 2 "drop_bit 4 b"] by (simp add: mask_eq_exp_minus_1 word_less_nat_alt)
  then have "unat (drop_bit 4 b AND 3) OR 8 \<in> {8, 9, 10, 11}" by (rule nibble_or_8)
  then show ?thesis by (simp add: variant_nibble unsigned_or_eq)
qed

lemma match_classes_append:
  "length s = length ps \<Longrightarrow>
     match_classes (ps @ qs) (s @ t) \<longleftrightarrow> match_classes ps s \<and> match_classes qs t"
  by (auto simp: match_classes_def)

lemma match_classes_Cons [simp]:
  "match_classes (p # ps) (c # s) \<longleftrightarrow> p c \<and> match_classes ps s"
  by (auto simp: match_classes_def)

lemma match_classes_Nil [simp]: "match_classes [] []"
  by (simp add: match_classes_def)

lemma match_classes_hex: "list_all hex_lower s \<Longrightarrow> match_classes (replicate (length s) hex_lower) s"
  by (induction s) auto

lemma hex_encode_lower: "list_all hex_lower (hex_encode bs)"
  by (induction bs) (simp_all add: hex_encode_def hex_byte_lower)

lemma length_hex_encode: "length (hex_encode bs) = 2 * length bs"
  by (induction bs) (simp_all add: hex_encode_def hex_byte_def)

lemma match_hex_encode:
  "2 * length bs = n \<Longrightarrow> match_classes (replicate n hex_lower) (hex_encode bs)"
  using match_classes_hex [OF hex_encode_lower, of bs] by (simp add: length_hex_encode)

lemma hex_encode_Cons: "hex_encode (b # bs) =
    hex_digit (unat (drop_bit 4 b)) # hex_digit (unat (b AND 0x0f)) # hex_encode bs"
  by (simp add: hex_encode_def hex_byte_def)

lemma low_nibble_lower: "hex_lower (hex_digit (unat ((b :: 8 word) AND 0x0f)))"
  by (simp add: hex_digit_lower unat_low_nibble)

lemma match_three: "match_classes (replicate 3 hex_lower @ qs) (c # hex_encode [b] @ t) \<longleftrightarrow>
    hex_lower c \<and> match_classes qs t"
  using hex_byte_lower [of b] by (simp add: hex_encode_def hex_byte_def numeral_3_eq_3)

lemma NewUUIDv4_match:
  assumes len: "length random = 16"
  shows "match_classes canonicalUUID (NewUUIDv4 random)"
proof -
  let ?v = "((random ! 6) AND 0x0f) OR 0x40" and ?w = "((random ! 8) AND 0x3f) OR 0x80"
  let ?b = "random[6 := ?v, 8 := ?w]"
  let ?low = "\<lambda>b. hex_digit (unat (b AND 0x0f))"
  have seven: "take 2 (drop 6 ?b) = [?v, random ! 7]" and nine: "take 2 (drop 8 ?b) = [?w, random ! 9]"
    using len by (simp_all add: list_eq_iff_nth_eq less_Suc_eq numeral_eq_Suc)
  have g3: "hex_encode (take 2 (drop 6 ?b)) = CHR ''4'' # ?low ?v # hex_encode [random ! 7]"
    unfolding seven hex_encode_Cons version_nibble by (simp add: hex_digit_def)
  have g4: "hex_encode (take 2 (drop 8 ?b)) =
      hex_digit (unat (drop_bit 4 ?w)) # ?low ?w # hex_encode [random ! 9]"
    unfolding nine hex_encode_Cons ..
  have w: "hex_digit (unat (drop_bit 4 ?w)) \<in> set ''89ab''"
    using variant_digit [of "random ! 8"] by (auto simp: hex_digit_def)
  have eq: "NewUUIDv4 random = hex_encode (take 4 ?b) @ ''-'' @ hex_encode (take 2 (drop 4 ?b)) @ ''-'' @
         hex_encode (take 2 (drop 6 ?b)) @ ''-'' @ hex_encode (take 2 (drop 8 ?b)) @ ''-'' @
         hex_encode (take 6 (drop 10 ?b))"
    unfolding NewUUIDv4_def Let_def by simp
  have four: "CHR ''4'' \<in> set ''12345''" by simp
  show ?thesis
    unfolding eq canonicalUUID_def g3 g4
    using len w four match_hex_encode [of "take 6 (drop 10 ?b)" 12]
    by (simp add: match_classes_append match_hex_encode length_hex_encode match_three low_nibble_lower
        del: set_simps)
qed

lemma match_classes_iff: "match_classes ps s \<longleftrightarrow> list_all2 (\<lambda>p c. p c) ps s"
  by (auto simp: match_classes_def list_all2_iff list_all_iff)

lemma canonicalUUID_lower:
  assumes "match_classes canonicalUUID s"
  shows "to_lower s = s"
proof -
  have "list_all2 (\<lambda>p c. p c) canonicalUUID s" using assms by (simp add: match_classes_iff)
  moreover have "\<forall>p\<in>set canonicalUUID. \<forall>c. p c \<longrightarrow> lower_char c = c"
    by (auto simp: canonicalUUID_def hex_lower_fixed) (simp_all add: lower_char_def)
  ultimately have "\<forall>c\<in>set s. lower_char c = c"
    by (metis in_set_conv_nth list_all2_conv_all_nth)
  then show ?thesis by (simp add: to_lower_def map_idI)
qed

lemma TrustedRequestContext_None:
  "TrustedRequestContext_Validate c = None \<longleftrightarrow>
     validateCommon c = None \<and> cx_ContextType c = ''trusted_request'' \<and>
     validateUUID ''run_id'' (trc_RunID c) = None \<and>
     (trc_ScopeKind c = ''cluster'' \<and> trc_ClusterID c \<noteq> [] \<and> validateUUID ''cluster_id'' (trc_ClusterID c) = None \<or>
      trc_ScopeKind c = ''run'' \<and> trc_ClusterID c = [] \<and> has_prefix (trc_Capability c) ''control_plane.'') \<and>
     trc_Source c \<noteq> [] \<and> trc_WorkloadKind c \<in> set [[], ''investigation'', ''chat'', ''platform'']"
  unfolding TrustedRequestContext_Validate_def first_error_None by auto

lemma validateCommon_None:
  "validateCommon c = None \<longleftrightarrow>
     1 \<le> cx_Version c \<and> validateUUID ''principal_id'' (cx_PrincipalID c) = None \<and>
     (cx_PrincipalType c = ''user'' \<and> cx_SessionID c \<noteq> [] \<and> validateUUID ''session_id'' (cx_SessionID c) = None \<or>
      cx_PrincipalType c = ''system'' \<and> cx_SessionID c = []) \<and>
     validateUUID ''tenant_id'' (cx_TenantID c) = None \<and> validateUUID ''nonce'' (cx_Nonce c) = None \<and>
     cx_Issuer c \<noteq> [] \<and> cx_Audience c \<noteq> [] \<and> cx_IssuedAt c \<noteq> 0 \<and> cx_ExpiresAt c \<noteq> 0 \<and>
     cx_IssuedAt c < cx_ExpiresAt c \<and> cx_ExpiresAt c \<le> cx_IssuedAt c + 60 * second_ns"
  unfolding validateCommon_def Let_def first_error_None by (auto simp: validateOptionalUUID_def)

lemma canonicalUUID_no_colon:
  assumes "match_classes canonicalUUID s"
  shows "CHR '':'' \<notin> set s"
proof -
  have "list_all2 (\<lambda>p c. p c) canonicalUUID s" using assms by (simp add: match_classes_iff)
  moreover have "\<forall>p\<in>set canonicalUUID. \<not> p CHR '':''"
    by (auto simp: canonicalUUID_def hex_lower_def)
  ultimately show ?thesis by (metis in_set_conv_nth list_all2_conv_all_nth)
qed

lemma split_colon:
  "CHR '':'' \<notin> set xs \<Longrightarrow> CHR '':'' \<notin> set xs' \<Longrightarrow>
     xs @ CHR '':'' # ys = xs' @ CHR '':'' # ys' \<longleftrightarrow> xs = xs' \<and> ys = ys'"
proof (induction xs arbitrary: xs')
  case Nil
  then show ?case by (cases xs') auto
next
  case (Cons x xs)
  then show ?case by (cases xs') auto
qed

lemma ResourceRef_None:
  "ResourceRef_Validate rr = None \<longleftrightarrow>
     validateUUID ''cluster_id'' (rr_ClusterID rr) = None \<and> rr_ResourceType rr \<noteq> [] \<and> rr_Name rr \<noteq> [] \<and>
     rr_ResourceID rr = expected_resource_id rr \<and> validateUUID ''tenant_id'' (rr_TenantID rr) = None"
  unfolding ResourceRef_Validate_def first_error_None by auto

section \<open>Properties\<close>

text \<open>
  C40.  \<open>NewUUIDv4\<close> always produces an identifier that the contract layer accepts, whatever sixteen
  bytes the random source delivers: the version and variant bits it sets, and the lower-case
  encoding, are exactly what \<open>canonicalUUID\<close> asks for.
\<close>

theorem NewUUIDv4_valid:
  assumes "length random = 16"
  shows "validateUUID field (NewUUIDv4 random) = None"
  using NewUUIDv4_match [OF assms] by (simp add: validateUUID_None canonicalUUID_lower)

theorem NewUUIDv4_valid_witness:
  "validateUUID ''run_id'' (NewUUIDv4 (replicate 16 (0xff :: 8 word))) = None"
  using NewUUIDv4_valid [of "replicate 16 (0xff :: 8 word)" "''run_id''"] by simp

text \<open>
  A trusted request context that passes validation is bounded in scope and time: it lives at most
  60 seconds and more than none, a user principal carries a session and a system principal does not,
  a run-scoped context names no cluster and can only hold a \<open>control_plane.\<close> capability, and a
  cluster-scoped one names a canonical cluster.
\<close>

theorem trusted_request_bounded:
  assumes "TrustedRequestContext_Validate c = None"
  shows "0 < cx_ExpiresAt c - cx_IssuedAt c \<and> cx_ExpiresAt c - cx_IssuedAt c \<le> 60 * second_ns \<and>
    (cx_PrincipalType c = ''user'') = (cx_SessionID c \<noteq> []) \<and>
    (trc_ScopeKind c = ''run'' \<and> trc_ClusterID c = [] \<and> has_prefix (trc_Capability c) ''control_plane.'' \<or>
     trc_ScopeKind c = ''cluster'' \<and> match_classes canonicalUUID (trc_ClusterID c))"
  using assms by (auto simp: TrustedRequestContext_None validateCommon_None validateUUID_None)

theorem trusted_request_bounded_witness:
  "let u = ''00000000-0000-4000-8000-000000000000'';
       c = NewTrustedRequestContext ''ai-orchestrator'' ''query-api'' u ''system'' u [] u u ''run'' []
             ''control_plane.runs.mutate'' ''orchestrator'' 5 (5 + 60 * second_ns) u
   in TrustedRequestContext_Validate c = None \<and> has_prefix (trc_Capability c) ''control_plane.''"
proof -
  let ?u = "''00000000-0000-4000-8000-000000000000''"
  let ?c = "NewTrustedRequestContext ''ai-orchestrator'' ''query-api'' ?u ''system'' ?u [] ?u ?u ''run'' []
             ''control_plane.runs.mutate'' ''orchestrator'' 5 (5 + 60 * second_ns) ?u"
  have ok: "TrustedRequestContext_Validate ?c = None"
    by code_simp
  with trusted_request_bounded [OF ok] show ?thesis
    by (simp add: NewTrustedRequestContext_def)
qed

text \<open>
  Whether the legacy context is accepted does not depend on the order in which Go walks the map
  of its UUID fields (only the error text may).
\<close>

theorem legacy_context_order_irrelevant:
  assumes "\<And>xs. set (order xs) = set xs"
  shows "RequestContext_Validate order c = None \<longleftrightarrow> RequestContext_Validate (\<lambda>xs. xs) c = None"
  using assms unfolding RequestContext_Validate_def Let_def first_error_None by auto

theorem legacy_context_order_irrelevant_witness:
  "let u = ''00000000-0000-4000-8000-000000000000'';
       c = \<lparr>lx_Version = 1, lx_Issuer = ''i'', lx_Audience = ''a'', lx_RequestID = u, lx_RunID = u,
            lx_UserID = ''x'', lx_SessionID = u, lx_TenantID = u, lx_ClusterID = u, lx_Source = ''s'',
            lx_Capability = ''c'', lx_IssuedAt = 1, lx_ExpiresAt = 2, lx_Nonce = u\<rparr>
   in RequestContext_Validate rev c = None \<longleftrightarrow> RequestContext_Validate (\<lambda>xs. xs) c = None"
  unfolding Let_def by (rule legacy_context_order_irrelevant) simp

text \<open>
  A canonical resource identifier identifies its resource: two valid references with the same
  \<open>resource_id\<close> agree on type, cluster, namespace and name, as long as types and namespaces contain no
  colon (Kubernetes kinds and namespaces cannot).  The tenant is not part of the identifier, so
  nothing is said about it.
\<close>

theorem resource_id_injective:
  assumes "ResourceRef_Validate a = None" and "ResourceRef_Validate b = None"
    and "rr_ResourceID a = rr_ResourceID b"
    and "CHR '':'' \<notin> set (rr_ResourceType a)" and "CHR '':'' \<notin> set (rr_ResourceType b)"
    and "CHR '':'' \<notin> set (null_string (rr_Namespace a))" and "CHR '':'' \<notin> set (null_string (rr_Namespace b))"
  shows "rr_ResourceType a = rr_ResourceType b \<and> rr_ClusterID a = rr_ClusterID b \<and>
    or_default (null_string (rr_Namespace a)) ''_'' = or_default (null_string (rr_Namespace b)) ''_'' \<and>
    rr_Name a = rr_Name b"
proof -
  have ns: "CHR '':'' \<notin> set (or_default (null_string (rr_Namespace a)) ''_'')"
    "CHR '':'' \<notin> set (or_default (null_string (rr_Namespace b)) ''_'')"
    using assms(6,7) by (simp_all add: or_default_def)
  have cl: "CHR '':'' \<notin> set (rr_ClusterID a)" "CHR '':'' \<notin> set (rr_ClusterID b)"
    using assms(1,2) by (simp_all add: ResourceRef_None validateUUID_None canonicalUUID_no_colon)
  have "expected_resource_id a = expected_resource_id b"
    using assms(1-3) by (simp add: ResourceRef_None)
  then show ?thesis
    using assms(4,5) ns cl by (simp add: expected_resource_id_def split_colon)
qed

theorem resource_id_injective_witness:
  "let u = ''00000000-0000-4000-8000-000000000000'';
       a = \<lparr>rr_ClusterID = u, rr_ResourceType = ''pod'', rr_Namespace = None, rr_Name = ''p'',
            rr_ResourceID = ''pod:'' @ u @ '':_:p'', rr_TenantID = u\<rparr>
   in ResourceRef_Validate a = None \<and> or_default (null_string (rr_Namespace a)) ''_'' =
      or_default (null_string (rr_Namespace (a\<lparr>rr_Namespace := Some []\<rparr>))) ''_''"
proof -
  let ?u = "''00000000-0000-4000-8000-000000000000''"
  let ?a = "\<lparr>rr_ClusterID = ?u, rr_ResourceType = ''pod'', rr_Namespace = None, rr_Name = ''p'',
            rr_ResourceID = ''pod:'' @ ?u @ '':_:p'', rr_TenantID = ?u\<rparr>"
  let ?b = "\<lparr>rr_ClusterID = ?u, rr_ResourceType = ''pod'', rr_Namespace = Some [], rr_Name = ''p'',
            rr_ResourceID = ''pod:'' @ ?u @ '':_:p'', rr_TenantID = ?u\<rparr>"
  have a: "ResourceRef_Validate ?a = None" and b: "ResourceRef_Validate ?b = None"
    by code_simp+
  from resource_id_injective [OF a b] a show ?thesis
    by (simp add: null_string_def)
qed

end
