(* ===== verification/ApiBase.thy ===== *)
theory ApiBase
  imports RunInvariant Contract
begin

text \<open>
  What the control-plane handlers share: the authorization steps of \<open>internal/api/control_plane.go\<close> and
  \<open>internal_query_envelope.go\<close>, and the mapping of lease errors to HTTP replies
  (\<open>internal/api/control_plane_lease.go\<close>).

  The outcome of verifying the service token and the signature of the context header is the argument
  \<open>trust\<close> of the handlers: the checks behind it live in \<open>internal/auth\<close> and rest on Ed25519.
\<close>

text \<open>A reply: an error code with its HTTP status, or the payload of a 200.\<close>

datatype 'a reply = Refuse int gostring | Reply 'a

datatype verify_error =
    ErrExpiredContext
  | ErrReplayedContext
  | ErrWrongAudience
  | ErrWrongContextType
  | ErrInvalidContext
  | OtherVerifyError

datatype trust =
    NoVerifier
  | BadServiceToken
  | BadContext verify_error
  | Verified TrustedRequestContext

text \<open>The authorization of a browser session.\<close>

record AuthorizationContext =
  au_UserID :: gostring
  au_SessionID :: gostring
  au_TenantID :: gostring
  au_ActiveClusterID :: gostring
  au_AuthorizationVersion :: int
  au_MustChangePassword :: bool

record internalQueryCtx =
  iq_TenantID :: gostring
  iq_ClusterID :: gostring
  iq_Capability :: gostring
  iq_RunID :: gostring

definition mapTrustedContextVerifyError :: "verify_error \<Rightarrow> gostring" where
  "mapTrustedContextVerifyError err = (case err of
      ErrExpiredContext \<Rightarrow> ''CONTEXT_EXPIRED''
    | ErrReplayedContext \<Rightarrow> ''CONTEXT_REPLAYED''
    | ErrWrongAudience \<Rightarrow> ''INVALID_CONTEXT''
    | ErrWrongContextType \<Rightarrow> ''INVALID_CONTEXT''
    | ErrInvalidContext \<Rightarrow> ''INVALID_CONTEXT''
    | OtherVerifyError \<Rightarrow> ''SERVICE_AUTH_FAILED'')"

text \<open>The error side is the code of the \<open>internalQueryError\<close>.\<close>

definition authorizeInternalControlPlane ::
  "trust \<Rightarrow> gostring \<Rightarrow> gostring \<Rightarrow> gostring + internalQueryCtx" where
  "authorizeInternalControlPlane trust capability expectedIssuer = (case trust of
      NoVerifier \<Rightarrow> Inl ''SERVICE_AUTH_FAILED''
    | BadServiceToken \<Rightarrow> Inl ''SERVICE_AUTH_FAILED''
    | BadContext err \<Rightarrow> Inl (mapTrustedContextVerifyError err)
    | Verified ctx \<Rightarrow>
        if cx_PrincipalType ctx \<noteq> ''system'' then Inl ''TENANT_ACCESS_DENIED''
        else if expectedIssuer \<noteq> [] \<and> cx_Issuer ctx \<noteq> expectedIssuer then Inl ''TENANT_ACCESS_DENIED''
        else if trc_Capability ctx \<noteq> capability then Inl ''TENANT_ACCESS_DENIED''
        else Inr \<lparr>iq_TenantID = cx_TenantID ctx, iq_ClusterID = trc_ClusterID ctx,
                  iq_Capability = trc_Capability ctx, iq_RunID = trc_RunID ctx\<rparr>)"

text \<open>
  \<open>authorizeControlPlaneForRun\<close>: any failure to read the Run is reported as not found; a signed tenant
  or cluster has to be the one of the Run.
\<close>

definition run_scope_ok :: "internalQueryCtx \<Rightarrow> AIRun \<Rightarrow> gostring option" where
  "run_scope_ok ictx run =
     (if iq_TenantID ictx \<noteq> [] \<and> TenantID run \<noteq> iq_TenantID ictx then Some ''TENANT_ACCESS_DENIED''
      else if iq_ClusterID ictx \<noteq> [] \<and> PrimaryClusterID run \<noteq> [] \<and> PrimaryClusterID run \<noteq> iq_ClusterID ictx
      then Some ''CONTEXT_SCOPE_MISMATCH''
      else None)"

definition authorizeControlPlaneForRun ::
  "trust \<Rightarrow> gostring \<Rightarrow> gostring \<Rightarrow> gostring \<Rightarrow> (store_db, gostring + (internalQueryCtx \<times> AIRun)) dbm" where
  "authorizeControlPlaneForRun trust capability expectedIssuer rid =
     (case authorizeInternalControlPlane trust capability expectedIssuer of
        Inl code \<Rightarrow> db_ret (Inl code)
      | Inr ictx \<Rightarrow>
          if rid = [] then db_ret (Inl ''VALIDATION_FAILED'')
          else db_bind (db_try (AIRunDAO_Get rid))
                 (\<lambda>got. case got of
                    Inl _ \<Rightarrow> db_ret (Inl ''RESOURCE_NOT_FOUND'')
                  | Inr run \<Rightarrow> (case run_scope_ok ictx run of
                        Some code \<Rightarrow> db_ret (Inl code)
                      | None \<Rightarrow> db_ret (Inr (ictx, run)))))"

definition respondInternalQueryError :: "gostring \<Rightarrow> 'a reply" where
  "respondInternalQueryError code = Refuse (HTTPStatusCode code) code"

definition checkScopeMatch :: "internalQueryCtx \<Rightarrow> gostring \<Rightarrow> gostring \<Rightarrow> gostring option" where
  "checkScopeMatch rctx bodyTenant bodyCluster =
     (if bodyTenant \<noteq> [] \<and> bodyTenant \<noteq> iq_TenantID rctx then Some ''CONTEXT_SCOPE_MISMATCH''
      else if bodyCluster \<noteq> [] \<and> bodyCluster \<noteq> iq_ClusterID rctx then Some ''CONTEXT_SCOPE_MISMATCH''
      else None)"

text \<open>The named errors of \<open>respondLeaseError\<close>; every other error of the store is a 500.\<close>

definition respondLeaseError :: "store_error \<Rightarrow> 'a reply" where
  "respondLeaseError err = (case err of
      ErrClaimRequestIncomplete \<Rightarrow> Refuse 400 ''MISSING_CLAIM_FENCING''
    | ErrClaimTokenTooShort \<Rightarrow> Refuse 400 ''MISSING_CLAIM_FENCING''
    | ErrLeaseHeld \<Rightarrow> Refuse 409 ''RUN_LEASE_HELD''
    | ErrLeaseFencing \<Rightarrow> Refuse 409 ''RUN_LEASE_FENCING''
    | ErrLeaseLost \<Rightarrow> Refuse 409 ''RUN_LEASE_LOST''
    | ErrClaimIDReused \<Rightarrow> Refuse 409 ''CLAIM_ID_REUSED''
    | ErrClaimIDExpired \<Rightarrow> Refuse 409 ''CLAIM_ID_EXPIRED''
    | ErrRunTerminal \<Rightarrow> Refuse 409 ''RUN_STATE_CONFLICT''
    | ErrRunNotFound \<Rightarrow> Refuse 404 ''RESOURCE_NOT_FOUND''
    | RetryBackoffError _ \<Rightarrow> Refuse 409 ''RUN_RETRY_BACKOFF''
    | IllegalTransitionError _ _ \<Rightarrow> Refuse 409 ''ILLEGAL_RUN_TRANSITION''
    | _ \<Rightarrow> Refuse 500 ''lease_error'')"

section \<open>Claim, renew and release handlers\<close>

definition lease_seconds_of :: "int option \<Rightarrow> int" where
  "lease_seconds_of requested = (case requested of
      None \<Rightarrow> 60 | Some s \<Rightarrow> if s > 0 \<and> s \<le> 300 then s else 60)"

definition claimRequestFromBody :: "gostring \<Rightarrow> gostring \<Rightarrow> gostring \<Rightarrow> ClaimRequest list" where
  "claimRequestFromBody claimID leaseToken claimSource =
     (if claimID = [] \<and> leaseToken = [] then []
      else [\<lparr>req_ClaimID = claimID, req_LeaseToken = leaseToken, req_ClaimSource = claimSource\<rparr>])"

record claim_body_json =
  cb_OwnerID :: gostring
  cb_LeaseSeconds :: "int option"
  cb_ClaimID :: gostring
  cb_LeaseToken :: gostring
  cb_ClaimSource :: gostring

text \<open>\<open>hx\<close> is \<open>hashToken\<close>, the hexadecimal SHA-256 of the token.\<close>

definition internalControlPlaneRunClaim ::
  "trust \<Rightarrow> (gostring \<Rightarrow> gostring) \<Rightarrow> gostring \<Rightarrow> gostring \<Rightarrow> gostring \<Rightarrow> claim_body_json \<Rightarrow>
     (store_db, RunLeaseHolder reply) dbm" where
  "internalControlPlaneRunClaim trust hx gen_id gen_raw rid body =
     db_bind (authorizeControlPlaneForRun trust ''control_plane.runs.mutate'' ''ai-orchestrator'' rid)
      (\<lambda>auth. case auth of
         Inl code \<Rightarrow> db_ret (respondInternalQueryError code)
       | Inr _ \<Rightarrow>
           if cb_OwnerID body = [] then db_ret (Refuse 400 ''MISSING_OWNER_ID'')
           else db_bind (db_try (Claim hx gen_id gen_raw rid (cb_OwnerID body)
                   (lease_seconds_of (cb_LeaseSeconds body))
                   (claimRequestFromBody (cb_ClaimID body) (cb_LeaseToken body) (cb_ClaimSource body))))
                 (\<lambda>res. case res of
                    Inl err \<Rightarrow> db_ret (respondLeaseError err)
                  | Inr holder \<Rightarrow> db_ret (Reply holder)))"

definition internalControlPlaneRunRenew ::
  "trust \<Rightarrow> (gostring \<Rightarrow> gostring) \<Rightarrow> gostring \<Rightarrow> gostring \<Rightarrow> int \<Rightarrow> gostring \<Rightarrow> int option \<Rightarrow>
     (store_db, millis reply) dbm" where
  "internalControlPlaneRunRenew trust hx rid owner epoch token seconds =
     db_bind (authorizeControlPlaneForRun trust ''control_plane.runs.mutate'' ''ai-orchestrator'' rid)
      (\<lambda>auth. case auth of
         Inl code \<Rightarrow> db_ret (respondInternalQueryError code)
       | Inr _ \<Rightarrow>
           if owner = [] \<or> token = [] \<or> epoch \<le> 0 then db_ret (Refuse 400 ''MISSING_LEASE_FENCING'')
           else db_bind (db_try (Renew rid owner epoch (hx token) (lease_seconds_of seconds)))
                 (\<lambda>res. case res of
                    Inl err \<Rightarrow> db_ret (respondLeaseError err)
                  | Inr expires \<Rightarrow> db_ret (Reply expires)))"

definition internalControlPlaneRunRelease ::
  "trust \<Rightarrow> (gostring \<Rightarrow> gostring) \<Rightarrow> gostring \<Rightarrow> int \<Rightarrow> gostring \<Rightarrow> (store_db, unit reply) dbm" where
  "internalControlPlaneRunRelease trust hx rid epoch token =
     db_bind (authorizeControlPlaneForRun trust ''control_plane.runs.mutate'' ''ai-orchestrator'' rid)
      (\<lambda>auth. case auth of
         Inl code \<Rightarrow> db_ret (respondInternalQueryError code)
       | Inr _ \<Rightarrow>
           if token = [] \<or> epoch \<le> 0 then db_ret (Refuse 400 ''MISSING_LEASE_FENCING'')
           else db_bind (db_try (Release rid epoch (hx token)))
                 (\<lambda>res. case res of
                    Inl err \<Rightarrow> db_ret (respondLeaseError err)
                  | Inr _ \<Rightarrow> db_ret (Reply ())))"

section \<open>Authorization only reads\<close>

lemma reads_authorizeControlPlaneForRun: "reads (authorizeControlPlaneForRun trust capability issuer rid)"
  unfolding authorizeControlPlaneForRun_def by (intro reads_intros reads_AIRunDAO_Get)

lemma total_authorizeControlPlaneForRun: "total (authorizeControlPlaneForRun trust capability issuer rid)"
  unfolding authorizeControlPlaneForRun_def by (intro total_intros)

text \<open>A handler that authorizes first: what it returns is a refusal or the result of the rest on the same database.\<close>

lemma authorized_cases:
  assumes "db_bind (authorizeControlPlaneForRun trust capability issuer rid)
      (\<lambda>auth. case auth of Inl code \<Rightarrow> db_ret (respondInternalQueryError code) | Inr x \<Rightarrow> rest x) env (n, db) = (res, (n', db'))"
  obtains (refused) code where "res = Inr (Refuse (HTTPStatusCode code) code)" "db' = db"
  | (granted) x n1 where
      "authorizeControlPlaneForRun trust capability issuer rid env (n, db) = (Inr (Inr x), (n1, db))"
      "rest x env (n1, db) = (res, (n', db'))"
proof -
  obtain auth n1 where a: "authorizeControlPlaneForRun trust capability issuer rid env (n, db) = (Inr auth, (n1, db))"
    using totalE [OF total_authorizeControlPlaneForRun] readsD [OF reads_authorizeControlPlaneForRun]
    by (metis prod_cases3)
  show thesis
  proof (cases auth)
    case (Inl code)
    with assms a refused show thesis
      by (auto simp: db_bind_def db_ret_def respondInternalQueryError_def)
  next
    case (Inr x)
    with assms a granted show thesis by (auto simp: db_bind_def)
  qed
qed

lemma authorize_granted:
  assumes "authorizeControlPlaneForRun trust capability issuer rid env (n, db) = (Inr (Inr x), st)"
  shows "\<exists>ictx r. authorizeInternalControlPlane trust capability issuer = Inr ictx \<and> rid \<noteq> [] \<and>
     get_run rid db = Some r \<and> run_scope_ok ictx (scanAIRunRow r) = None"
  using assms
  by (cases "authorizeInternalControlPlane trust capability issuer"; cases "get_run rid db")
    (auto simp: authorizeControlPlaneForRun_def AIRunDAO_Get_def AIRunDAO_GetTx_def dbm_defs
      split: if_splits option.splits)

lemma authorize_calm:
  assumes "authorizeInternalControlPlane trust capability issuer = Inr ictx" and "rid \<noteq> []"
    and "get_run rid db = Some r" and "run_scope_ok ictx (scanAIRunRow r) = None"
  shows "authorizeControlPlaneForRun trust capability issuer rid (calm t) (n, db) =
    (Inr (Inr (ictx, scanAIRunRow r)), (Suc n, db))"
  using assms
  by (simp add: authorizeControlPlaneForRun_def AIRunDAO_Get_def AIRunDAO_GetTx_def db_ret_def
      db_bind_def db_conn_def db_try_def)

lemma run_scope_ok_cong:
  "r_tenant_id r' = r_tenant_id r \<Longrightarrow> r_primary_cluster_id r' = r_primary_cluster_id r \<Longrightarrow>
    run_scope_ok ictx (scanAIRunRow r') = run_scope_ok ictx (scanAIRunRow r)"
  by (simp add: run_scope_ok_def scanAIRunRow_def)

lemma authorize_later:
  assumes "authorizeControlPlaneForRun trust capability issuer rid env (n, db) = (Inr (Inr x), st)"
    and "db_step\<^sup>*\<^sup>* db db'"
  shows "\<exists>y. authorizeControlPlaneForRun trust capability issuer rid (calm t) (m, db') = (Inr (Inr y), (Suc m, db'))"
proof -
  obtain ictx r where a: "authorizeInternalControlPlane trust capability issuer = Inr ictx" "rid \<noteq> []"
    "get_run rid db = Some r" "run_scope_ok ictx (scanAIRunRow r) = None"
    using authorize_granted [OF assms(1)] by blast
  then obtain r' where "get_run rid db' = Some r'" "run_scope_ok ictx (scanAIRunRow r') = None"
    using db_steps_run [OF assms(2)] run_scope_ok_cong by metis
  with a authorize_calm show ?thesis by blast
qed

end
