(* ===== verification/RuntimeCommit.thy ===== *)
theory RuntimeCommit
  imports ApiBase
begin

text \<open>
  Runtime Commit: \<open>internal/store/ai_runtime_commit.go\<close> and the commit endpoint of
  \<open>internal/api/control_plane_lease.go\<close>.

  An executor that holds the lease commits a result: in one transaction the Run moves to its target
  status, the events are appended and the commit record is inserted.  A commit id that is known
  already returns the first result if the payload hash is the same and is refused otherwise.
\<close>

section \<open>RuntimeCommitDAO\<close>

definition find_commit :: "gostring \<Rightarrow> gostring \<Rightarrow> store_db \<Rightarrow> runtime_commit option" where
  "find_commit rid cid db = sql_first (\<lambda>c. cm_run_id c = rid \<and> cm_commit_id c = cid) (ai_runtime_commits db)"

definition RuntimeCommitDAO_GetTx :: "gostring \<Rightarrow> gostring \<Rightarrow> (store_db, runtime_commit) dbm" where
  "RuntimeCommitDAO_GetTx rid cid =
     db_bind (db_stmt (\<lambda>t db. (find_commit rid cid db, db)))
       (\<lambda>row. case row of None \<Rightarrow> db_fail ErrCommitNotFound | Some c \<Rightarrow> db_ret c)"

definition RuntimeCommitDAO_Get :: "gostring \<Rightarrow> gostring \<Rightarrow> (store_db, runtime_commit) dbm" where
  "RuntimeCommitDAO_Get rid cid = db_conn (RuntimeCommitDAO_GetTx rid cid)"

text \<open>The column \<open>response_json\<close> is \<open>NOT NULL\<close>: a commit without a result is rejected.\<close>

definition insert_commit :: "runtime_commit \<Rightarrow> store_db \<Rightarrow> ins_result \<times> store_db" where
  "insert_commit c db =
     (if cm_response c = [] then (InsBad, db)
      else if find_commit (cm_run_id c) (cm_commit_id c) db \<noteq> None then (InsDup, db)
      else (InsOk, db\<lparr>ai_runtime_commits := ai_runtime_commits db @ [c]\<rparr>))"

definition RuntimeCommitDAO_CreateTx :: "runtime_commit \<Rightarrow> (store_db, unit) dbm" where
  "RuntimeCommitDAO_CreateTx c =
     db_bind (db_stmt (\<lambda>t. insert_commit c))
       (\<lambda>res. case res of
          InsOk \<Rightarrow> db_ret () | InsDup \<Rightarrow> db_fail ErrCommitDuplicate | InsBad \<Rightarrow> db_fail DriverError)"

section \<open>The commit transaction\<close>

record commitEvent =
  ce_EventID :: gostring
  ce_EventType :: gostring
  ce_Payload :: gostring

record controlPlaneBodyCommit =
  bc_CommitID :: gostring
  bc_PayloadHash :: gostring
  bc_Target :: gostring
  bc_Result :: gostring
  bc_Events :: "commitEvent list"
  bc_ExpectedVersion :: int
  bc_OwnerID :: gostring
  bc_Epoch :: int
  bc_Token :: gostring

definition event_of :: "gostring \<Rightarrow> commitEvent \<Rightarrow> run_event" where
  "event_of rid ce = \<lparr>ev_event_id = ce_EventID ce, ev_run_id = rid, ev_sequence = 0,
     ev_event_type = ce_EventType ce, ev_payload = ce_Payload ce, ev_created_at = 0\<rparr>"

text \<open>The loop over the events, with the smallest and the largest new number so far.\<close>

primrec append_events ::
  "gostring \<Rightarrow> millis \<Rightarrow> commitEvent list \<Rightarrow> int \<times> int \<Rightarrow> (store_db, int \<times> int) dbm" where
  "append_events rid now [] acc = db_ret acc"
| "append_events rid now (ce # rest) acc =
     db_bind (AppendTx (event_of rid ce) now)
       (\<lambda>(appended, created).
          append_events rid now rest
            (if created then
               (if fst acc = 0 \<or> ev_sequence appended < fst acc then ev_sequence appended else fst acc,
                if ev_sequence appended > snd acc then ev_sequence appended else snd acc)
             else acc))"

text \<open>
  \<open>extractInvestigationSummary\<close>; \<open>decode\<close> yields the raw texts of \<open>investigation_summary\<close> and
  \<open>runtime_metadata\<close> (empty when absent), \<open>wrap\<close> is the encoding of the one-field object.  The empty
  text is the nil slice.
\<close>

definition extractInvestigationSummary ::
  "(gostring \<Rightarrow> (gostring \<times> gostring) option) \<Rightarrow> (gostring \<Rightarrow> gostring option) \<Rightarrow> gostring \<Rightarrow> gostring" where
  "extractInvestigationSummary decode wrap result =
     (if result = [] then []
      else (case decode result of
          None \<Rightarrow> []
        | Some (summary, metadata) \<Rightarrow>
            if metadata \<noteq> [] then metadata
            else if summary \<noteq> [] \<and> summary \<noteq> ''null'' then null_string (wrap summary)
            else []))"

text \<open>How a commit transaction ends when no error of the store stops it.\<close>

datatype commit_outcome =
    CommitDone
  | CommitIdempotentHit runtime_commit
  | CommitKeyReused
  | CommitDuplicate
  | RunStateConflict

definition commit_row :: "gostring \<Rightarrow> controlPlaneBodyCommit \<Rightarrow> int \<times> int \<Rightarrow> millis \<Rightarrow> runtime_commit" where
  "commit_row rid body seqs now =
     \<lparr>cm_run_id = rid, cm_commit_id = bc_CommitID body, cm_payload_hash = bc_PayloadHash body,
      cm_state_version = bc_ExpectedVersion body + 1, cm_result_status = bc_Target body,
      cm_first_seq = nullable_int (fst seqs), cm_last_seq = nullable_int (snd seqs),
      cm_response = bc_Result body, cm_created_at = now\<rparr>"

definition commit_record ::
  "(gostring \<Rightarrow> gostring) \<Rightarrow> gostring \<Rightarrow> controlPlaneBodyCommit \<Rightarrow> millis \<Rightarrow> int \<times> int \<Rightarrow>
     (store_db, commit_outcome tx_end) dbm" where
  "commit_record extract rid body now seqs =
     db_bind (db_try (RuntimeCommitDAO_CreateTx (commit_row rid body seqs now)))
      (\<lambda>res. case res of
         Inl err \<Rightarrow> if err = ErrCommitDuplicate then db_ret (Rollback CommitDuplicate) else db_fail err
       | Inr _ \<Rightarrow>
           if bc_Target body \<in> set api_runTerminal \<and> extract (bc_Result body) \<noteq> []
           then db_bind (SetRuntimeMetadataTx rid (extract (bc_Result body)))
                  (\<lambda>_. db_ret (Commit CommitDone))
           else db_ret (Commit CommitDone))"

definition commit_apply ::
  "(gostring \<Rightarrow> gostring) \<Rightarrow> (gostring \<Rightarrow> gostring) \<Rightarrow> gostring \<Rightarrow> controlPlaneBodyCommit \<Rightarrow> millis \<Rightarrow>
     (store_db, commit_outcome tx_end) dbm" where
  "commit_apply extract hx rid body now =
     db_bind (LeaseFencingTx rid (bc_OwnerID body) (bc_Epoch body) (hx (bc_Token body)))
      (\<lambda>valid. if \<not> valid then db_fail ErrLeaseFencing
        else db_bind (TransitionTxValidatedWithLease rid (bc_Target body) (bc_ExpectedVersion body) now
                 (bc_OwnerID body) (bc_Epoch body) (hx (bc_Token body)))
          (\<lambda>ok. if \<not> ok then db_ret (Rollback RunStateConflict)
            else db_bind (append_events rid now (bc_Events body) (0, 0))
              (commit_record extract rid body now)))"

definition commit_tx_body ::
  "(gostring \<Rightarrow> gostring) \<Rightarrow> (gostring \<Rightarrow> gostring) \<Rightarrow> gostring \<Rightarrow> controlPlaneBodyCommit \<Rightarrow> millis \<Rightarrow>
     (store_db, commit_outcome tx_end) dbm" where
  "commit_tx_body extract hx rid body now =
     db_bind (db_stmt (\<lambda>t db. (get_run rid db \<noteq> None, db)))
      (\<lambda>found. if \<not> found then db_fail ErrRunNotFound
        else db_bind (db_try (RuntimeCommitDAO_GetTx rid (bc_CommitID body)))
          (\<lambda>existing. case existing of
             Inr c \<Rightarrow> if cm_payload_hash c = bc_PayloadHash body
                      then db_ret (Rollback (CommitIdempotentHit c))
                      else db_ret (Rollback CommitKeyReused)
           | Inl err \<Rightarrow> if err = ErrCommitNotFound then commit_apply extract hx rid body now
                        else db_fail err))"

definition applyRuntimeCommitTx ::
  "(gostring \<Rightarrow> gostring) \<Rightarrow> (gostring \<Rightarrow> gostring) \<Rightarrow> gostring \<Rightarrow> controlPlaneBodyCommit \<Rightarrow> millis \<Rightarrow>
     (store_db, commit_outcome) dbm" where
  "applyRuntimeCommitTx extract hx rid body now = db_conn (db_tx (commit_tx_body extract hx rid body now))"

section \<open>The commit handler\<close>

record commit_reply =
  cr_Idempotent :: bool
  cr_CommitID :: gostring
  cr_ResultStatus :: gostring
  cr_Result :: gostring

definition first_reply :: "runtime_commit \<Rightarrow> commit_reply reply" where
  "first_reply c = Reply \<lparr>cr_Idempotent = True, cr_CommitID = cm_commit_id c,
     cr_ResultStatus = cm_result_status c, cr_Result = cm_response c\<rparr>"

text \<open>The outcomes that \<open>respondLeaseError\<close> tells apart after the errors of the store.\<close>

definition respond_outcome :: "controlPlaneBodyCommit \<Rightarrow> commit_outcome \<Rightarrow> commit_reply reply" where
  "respond_outcome body oc = (case oc of
      CommitDone \<Rightarrow> Reply \<lparr>cr_Idempotent = False, cr_CommitID = bc_CommitID body,
                        cr_ResultStatus = bc_Target body, cr_Result = bc_Result body\<rparr>
    | CommitIdempotentHit c \<Rightarrow> first_reply c
    | CommitKeyReused \<Rightarrow> Refuse 409 ''IDEMPOTENCY_KEY_REUSED''
    | RunStateConflict \<Rightarrow> Refuse 409 ''RUN_STATE_CONFLICT''
    | CommitDuplicate \<Rightarrow> Refuse 200 ''IDEMPOTENT_COMMIT'')"

text \<open>The handler once the caller is authorized; \<open>None\<close> stands for a body that does not decode.\<close>

definition commit_request ::
  "(gostring \<Rightarrow> gostring) \<Rightarrow> (gostring \<Rightarrow> gostring) \<Rightarrow> gostring \<Rightarrow> controlPlaneBodyCommit option \<Rightarrow>
     millis \<Rightarrow> (store_db, commit_reply reply) dbm" where
  "commit_request extract hx rid decoded now = (case decoded of
      None \<Rightarrow> db_ret (Refuse 400 ''INVALID_BODY'')
    | Some body \<Rightarrow>
        if bc_CommitID body = [] \<or> bc_OwnerID body = [] \<or> bc_Token body = [] \<or> bc_Epoch body \<le> 0 \<or>
           bc_PayloadHash body = []
        then db_ret (Refuse 400 ''MISSING_COMMIT_FIELDS'')
        else db_bind (db_try (RuntimeCommitDAO_Get rid (bc_CommitID body)))
          (\<lambda>existing. case existing of
             Inr c \<Rightarrow> if cm_payload_hash c \<noteq> bc_PayloadHash body
                      then db_ret (Refuse 409 ''IDEMPOTENCY_KEY_REUSED'')
                      else db_ret (first_reply c)
           | Inl err \<Rightarrow>
               if err \<noteq> ErrCommitNotFound then db_ret (Refuse 500 ''commit_lookup_failed'')
               else db_bind (db_try (applyRuntimeCommitTx extract hx rid body now))
                 (\<lambda>res. case res of
                    Inl err \<Rightarrow> db_ret (respondLeaseError err)
                  | Inr oc \<Rightarrow> db_ret (respond_outcome body oc))))"

definition internalControlPlaneRunCommit ::
  "trust \<Rightarrow> (gostring \<Rightarrow> gostring) \<Rightarrow> (gostring \<Rightarrow> gostring) \<Rightarrow> gostring \<Rightarrow> controlPlaneBodyCommit option \<Rightarrow>
     millis \<Rightarrow> (store_db, commit_reply reply) dbm" where
  "internalControlPlaneRunCommit trust extract hx rid decoded now =
     db_bind (authorizeControlPlaneForRun trust ''control_plane.runs.mutate'' ''ai-orchestrator'' rid)
      (\<lambda>auth. case auth of
         Inl code \<Rightarrow> db_ret (respondInternalQueryError code)
       | Inr _ \<Rightarrow> commit_request extract hx rid decoded now)"

section \<open>What a commit does\<close>

lemma AppendTx_tables:
  assumes "seq_ok db" and "AppendTx ev now env (n, db) = (Inr (e, created), (n', db'))"
  shows "ai_runtime_commits db' = ai_runtime_commits db \<and> ai_run_claims db' = ai_run_claims db"
  using AppendTx_Inr [OF assms] by (auto simp: appended_db_def)

lemma AppendTx_last_seq:
  assumes "seq_ok db" and "AppendTx ev now env (n, db) = (Inr (e, created), (n', db'))"
  shows "last_seq_of (ev_run_id ev) db' = last_seq_of (ev_run_id ev) db + (if created then 1 else 0) \<and>
    (created \<longrightarrow> ev_sequence e = last_seq_of (ev_run_id ev) db + 1)"
  using AppendTx_Inr [OF assms] by (auto simp: last_seq_of_appended)

text \<open>
  The loop: the log only grows, the invariant stays, and the pair of numbers is the interval of the
  events that were new.
\<close>

lemma append_events_Inr:
  assumes "append_events rid now evs acc env (n, db) = (Inr acc', (n', db'))" and "cp_inv db"
    and "0 \<le> fst acc" "fst acc \<le> last_seq_of rid db" "snd acc \<le> last_seq_of rid db"
  shows "db_quiet db db' \<and> cp_inv db' \<and> ai_runtime_commits db' = ai_runtime_commits db \<and>
    last_seq_of rid db \<le> last_seq_of rid db' \<and>
    acc' = (if last_seq_of rid db' = last_seq_of rid db then acc
            else (if fst acc = 0 then last_seq_of rid db + 1 else fst acc, last_seq_of rid db'))"
  using assms
proof (induction evs arbitrary: acc n db)
  case Nil
  then show ?case by (simp add: db_ret_def)
next
  case (Cons ce evs)
  then obtain e created n1 db1 where
    a: "AppendTx (event_of rid ce) now env (n, db) = (Inr (e, created), (n1, db1))"
    and rest: "append_events rid now evs
       (if created then
               (if fst acc = 0 \<or> ev_sequence e < fst acc then ev_sequence e else fst acc,
                if ev_sequence e > snd acc then ev_sequence e else snd acc)
             else acc) env (n1, db1) = (Inr acc', (n', db'))"
    by (auto simp: db_bind_Inr)
  have ok: "seq_ok db" using Cons.prems(2) by (simp add: cp_inv_def)
  have 1: "db_quiet db db1" "cp_inv db1" using AppendTx_step [OF Cons.prems(2) a] by simp_all
  have 2: "ai_runtime_commits db1 = ai_runtime_commits db" using AppendTx_tables [OF ok a] by simp
  have 3: "last_seq_of rid db1 = last_seq_of rid db + (if created then 1 else 0)"
    "created \<Longrightarrow> ev_sequence e = last_seq_of rid db + 1"
    using AppendTx_last_seq [OF ok a] by (simp_all add: event_of_def)
  have 4: "0 \<le> last_seq_of rid db" using ok by (simp add: seq_ok_def)
  show ?case
  proof (cases created)
    case True
    with Cons.IH [OF rest 1(2)] 1 2 3 4 Cons.prems show ?thesis
      by (auto intro: db_quiet_trans)
  next
    case False
    with Cons.IH [OF rest 1(2)] 1 2 3 Cons.prems show ?thesis
      by (auto intro: db_quiet_trans)
  qed
qed

lemma get_run_commits_update [simp]: "get_run rid (db\<lparr>ai_runtime_commits := cs\<rparr>) = get_run rid db"
  by (simp add: get_run_def)

lemma db_quiet_commit: "db_quiet db (db\<lparr>ai_runtime_commits := ai_runtime_commits db @ [c]\<rparr>)"
  by (simp add: db_quiet_def)

lemma SetRuntimeMetadataTx_Inr:
  assumes "SetRuntimeMetadataTx rid m env (n, db) = (Inr u, (n', db'))" and "cp_inv db"
  shows "db_quiet db db' \<and> cp_inv db' \<and> ai_runtime_commits db' = ai_runtime_commits db \<and>
    ai_run_events db' = ai_run_events db"
proof (cases "m = []")
  case True
  with assms show ?thesis by (simp add: SetRuntimeMetadataTx_def db_ret_def)
next
  case False
  let ?f = "\<lambda>r. r\<lparr>r_runtime_metadata := Some m\<rparr>"
  have "db' = snd (update_run rid (\<lambda>_. True) ?f db)"
    using False assms(1) by (simp add: SetRuntimeMetadataTx_def dbm_defs split: if_splits)
  moreover have "db_quiet db (snd (update_run rid (\<lambda>_. True) ?f db))"
    by (rule db_quiet_update_run) (simp_all add: run_quiet_def)
  moreover have "cp_inv (snd (update_run rid (\<lambda>_. True) ?f db))"
    by (rule cp_inv_update_run) (simp_all add: assms(2))
  ultimately show ?thesis by simp
qed

lemma commit_record_Commit:
  assumes "commit_record extract rid body now seqs env (n, db) = (Inr (Commit oc), (n', db'))" and "cp_inv db"
  shows "oc = CommitDone \<and> db_quiet db db' \<and> cp_inv db' \<and> bc_Result body \<noteq> [] \<and>
    find_commit rid (bc_CommitID body) db = None \<and> ai_run_events db' = ai_run_events db \<and>
    ai_runtime_commits db' = ai_runtime_commits db @ [commit_row rid body seqs now]"
proof -
  let ?c = "commit_row rid body seqs now"
  let ?db1 = "db\<lparr>ai_runtime_commits := ai_runtime_commits db @ [?c]\<rparr>"
  have ins: "insert_commit ?c db = (InsOk, ?db1) \<and> bc_Result body \<noteq> [] \<and>
      find_commit rid (bc_CommitID body) db = None"
    using assms(1)
    by (auto simp: commit_record_def RuntimeCommitDAO_CreateTx_def insert_commit_def dbm_defs commit_row_def
        split: if_splits)
  have q1: "db_quiet db ?db1" "cp_inv ?db1" using assms(2) by (simp_all add: db_quiet_commit)
  have "(oc = CommitDone \<and> db' = ?db1) \<or> (oc = CommitDone \<and>
     SetRuntimeMetadataTx rid (extract (bc_Result body)) env (Suc n, ?db1) = (Inr (), (n', db')))"
    using assms(1) ins
    by (auto simp: commit_record_def RuntimeCommitDAO_CreateTx_def dbm_defs
        split: if_splits prod.splits sum.splits)
  then show ?thesis
    using SetRuntimeMetadataTx_Inr [of rid "extract (bc_Result body)" env "Suc n" ?db1] q1 ins
      db_quiet_trans [OF q1(1)] by auto
qed

lemma transition_lease_step:
  assumes inv: "cp_inv db"
    and run: "TransitionTxValidatedWithLease rid target expected now owner epoch token env (n, db)
                = (Inr True, (n', db'))"
  shows "db_step db db' \<and> cp_inv db' \<and> ai_runtime_commits db' = ai_runtime_commits db \<and>
    ai_run_events db' = ai_run_events db \<and> last_seq_of rid db' = last_seq_of rid db \<and>
    (\<exists>r. get_run rid db = Some r \<and> ValidateRunTransition (r_status r) target \<and>
       r_state_version r = expected \<and> lease_live (stmt_now env (Suc n)) owner epoch token r \<and>
       get_run rid db' = Some (set_transition target now r))"
proof -
  let ?p = "\<lambda>r. r_state_version r = expected \<and> lease_live (stmt_now env (Suc n)) owner epoch token r"
  obtain r where r: "get_run rid db = Some r" "ValidateRunTransition (r_status r) target" "?p r"
    and db': "db' = snd (update_run rid ?p (set_transition target now) db)"
    using TransitionTxValidatedWithLease_True [OF _ run] inv by (auto simp: cp_inv_def)
  have "db_step db db'"
    unfolding db' using r(1,2)
    by (intro db_step_update_run) (simp_all add: run_step_def run_moves_def)
  moreover have "cp_inv db'"
    unfolding db' by (rule cp_inv_update_run) (simp_all add: inv)
  moreover have g: "get_run rid db' = Some (set_transition target now r)"
    using r by (simp add: db' get_run_update_run)
  moreover have "last_seq_of rid db' = last_seq_of rid db"
    using r(1) g by (simp add: last_seq_of_def)
  ultimately show ?thesis using r by (simp add: db')
qed

lemma LeaseFencingTx_db:
  "LeaseFencingTx rid owner epoch token env (n, db) = (res, (n', db')) \<Longrightarrow> db' = db"
  by (auto simp: LeaseFencingTx_def dbm_defs split: if_splits option.splits)

text \<open>Everything that holds once a commit has gone through.\<close>

definition commit_effect ::
  "gostring \<Rightarrow> controlPlaneBodyCommit \<Rightarrow> gostring \<Rightarrow> millis \<Rightarrow> millis \<Rightarrow> store_db \<Rightarrow> store_db \<Rightarrow> bool" where
  "commit_effect rid body th now t db db' \<longleftrightarrow>
     (\<exists>r r'. get_run rid db = Some r \<and> get_run rid db' = Some r' \<and>
        lease_live t (bc_OwnerID body) (bc_Epoch body) th r \<and>
        ValidateRunTransition (r_status r) (bc_Target body) \<and>
        r_state_version r = bc_ExpectedVersion body \<and>
        r_status r' = bc_Target body \<and> r_state_version r' = bc_ExpectedVersion body + 1 \<and>
        find_commit rid (bc_CommitID body) db = None \<and>
        ai_runtime_commits db' = ai_runtime_commits db @
          [commit_row rid body
             (if r_last_event_sequence r' = r_last_event_sequence r then (0, 0)
              else (r_last_event_sequence r + 1, r_last_event_sequence r')) now])"

lemma commit_apply_Commit:
  assumes inv: "cp_inv db"
    and run: "commit_apply extract hx rid body now env (n, db) = (Inr (Commit oc), (n', db'))"
  shows "oc = CommitDone \<and> db_step db db' \<and> cp_inv db' \<and>
    (\<exists>k. commit_effect rid body (hx (bc_Token body)) now (stmt_now env k) db db')"
proof -
  obtain n1 n2 db2 n3 db3 seqs where
    tr: "TransitionTxValidatedWithLease rid (bc_Target body) (bc_ExpectedVersion body) now
                 (bc_OwnerID body) (bc_Epoch body) (hx (bc_Token body)) env (n1, db) = (Inr True, (n2, db2))"
    and ap: "append_events rid now (bc_Events body) (0, 0) env (n2, db2) = (Inr seqs, (n3, db3))"
    and rec: "commit_record extract rid body now seqs env (n3, db3) = (Inr (Commit oc), (n', db'))"
    using run LeaseFencingTx_db
    by (auto simp: commit_apply_def db_bind_Inr db_fail_def db_ret_def split: if_splits) metis+
  obtain r where r: "get_run rid db = Some r" "ValidateRunTransition (r_status r) (bc_Target body)"
       "r_state_version r = bc_ExpectedVersion body"
       "lease_live (stmt_now env (Suc n1)) (bc_OwnerID body) (bc_Epoch body) (hx (bc_Token body)) r"
       "get_run rid db2 = Some (set_transition (bc_Target body) now r)"
    and t: "db_step db db2" "cp_inv db2" "ai_runtime_commits db2 = ai_runtime_commits db"
       "last_seq_of rid db2 = last_seq_of rid db"
    using transition_lease_step [OF inv tr] by blast
  have "0 \<le> last_seq_of rid db2" using t(2) by (simp add: cp_inv_def seq_ok_def)
  then have a: "db_quiet db2 db3" "cp_inv db3" "ai_runtime_commits db3 = ai_runtime_commits db2"
    "seqs = (if last_seq_of rid db3 = last_seq_of rid db2 then (0, 0)
             else (last_seq_of rid db2 + 1, last_seq_of rid db3))"
    using append_events_Inr [OF ap t(2)] by simp_all
  have c: "oc = CommitDone" "db_quiet db3 db'" "cp_inv db'" "find_commit rid (bc_CommitID body) db3 = None"
    "ai_runtime_commits db' = ai_runtime_commits db3 @ [commit_row rid body seqs now]"
    "ai_run_events db' = ai_run_events db3"
    using commit_record_Commit [OF rec a(2)] by simp_all
  have q: "db_quiet db2 db'" using a(1) c(2) by (rule db_quiet_trans)
  then obtain r' where r': "get_run rid db' = Some r'" "run_quiet (set_transition (bc_Target body) now r) r'"
    using r(5) unfolding db_quiet_def by blast
  have st: "r_status r' = bc_Target body" "r_state_version r' = bc_ExpectedVersion body + 1"
    using r'(2) r(3) by (simp_all add: run_quiet_def)
  have "last_seq_of rid db' = last_seq_of rid db3"
    using c(3,6) a(2) by (simp add: cp_inv_def seq_ok_last events_of_def)
  then have "seqs = (if r_last_event_sequence r' = r_last_event_sequence r then (0, 0)
             else (r_last_event_sequence r + 1, r_last_event_sequence r'))"
    using a(4) t(4) r(1) r'(1) by (simp add: last_seq_of_def)
  moreover have "find_commit rid (bc_CommitID body) db = None"
    using c(4) a(3) t(3) by (simp add: find_commit_def)
  ultimately have "commit_effect rid body (hx (bc_Token body)) now (stmt_now env (Suc n1)) db db'"
    unfolding commit_effect_def using r r'(1) st c(5) a(3) t(3)
    by (intro exI2 [of _ r r'] conjI) simp_all
  with c t q show ?thesis by (blast intro: db_step_quiet)
qed

lemma RuntimeCommitDAO_GetTx_eq:
  "RuntimeCommitDAO_GetTx rid cid env (n, db) =
     (if stmt_ok env n then
        (case find_commit rid cid db of None \<Rightarrow> Inl ErrCommitNotFound | Some c \<Rightarrow> Inr c)
      else Inl DriverError, (Suc n, db))"
  by (cases "find_commit rid cid db") (simp_all add: RuntimeCommitDAO_GetTx_def dbm_defs)

lemma commit_tx_body_Inr:
  assumes "commit_tx_body extract hx rid body now env (n, db) = (Inr x, st)"
  shows "(\<exists>c. find_commit rid (bc_CommitID body) db = Some c \<and>
            x = (if cm_payload_hash c = bc_PayloadHash body then Rollback (CommitIdempotentHit c)
                 else Rollback CommitKeyReused))
       \<or> (\<exists>k. find_commit rid (bc_CommitID body) db = None \<and>
            commit_apply extract hx rid body now env (k, db) = (Inr x, st))"
proof -
  have r: "get_run rid db \<noteq> None" "stmt_ok env n"
    using assms by (auto simp: commit_tx_body_def dbm_defs split: if_splits)
  then have "stmt_ok env (Suc n)"
    using assms by (auto simp: commit_tx_body_def db_bind_def db_try_def db_stmt_def RuntimeCommitDAO_GetTx_eq
        db_fail_def split: if_splits)
  with r assms show ?thesis
    by (cases "find_commit rid (bc_CommitID body) db")
      (auto simp: commit_tx_body_def db_bind_def db_try_def db_stmt_def db_ret_def RuntimeCommitDAO_GetTx_eq
        split: if_splits)
qed

lemma commit_record_ends:
  assumes "commit_record extract rid body now seqs env st = (Inr x, st')"
  shows "x = Commit CommitDone \<or> x = Rollback CommitDuplicate"
proof -
  obtain res st1 where
    "db_try (RuntimeCommitDAO_CreateTx (commit_row rid body seqs now)) env st = (Inr res, st1)"
    and "(case res of
         Inl err \<Rightarrow> if err = ErrCommitDuplicate then db_ret (Rollback CommitDuplicate) else db_fail err
       | Inr _ \<Rightarrow>
           if bc_Target body \<in> set api_runTerminal \<and> extract (bc_Result body) \<noteq> []
           then db_bind (SetRuntimeMetadataTx rid (extract (bc_Result body)))
                  (\<lambda>_. db_ret (Commit CommitDone))
           else db_ret (Commit CommitDone)) env st1 = (Inr x, st')"
    using assms unfolding commit_record_def db_bind_Inr by blast
  then show ?thesis
    by (cases res) (auto simp: db_ret_def db_fail_def db_bind_Inr split: if_splits)
qed

lemma commit_apply_ends:
  assumes "commit_apply extract hx rid body now env st = (Inr x, st')"
  shows "x = Commit CommitDone \<or> x = Rollback CommitDuplicate \<or> x = Rollback RunStateConflict"
  using assms
  by (auto simp: commit_apply_def db_bind_Inr db_fail_def db_ret_def split: if_splits
      dest: commit_record_ends)

lemma applyRuntimeCommitTx_cases:
  assumes inv: "cp_inv db"
    and run: "applyRuntimeCommitTx extract hx rid body now env (n, db) = (res, (n', db'))"
  shows "(res = Inr CommitDone \<and> db_step db db' \<and> cp_inv db' \<and>
            (\<exists>k. commit_effect rid body (hx (bc_Token body)) now (stmt_now env k) db db'))
       \<or> (res \<noteq> Inr CommitDone \<and> db' = db)"
proof (cases "db_up env")
  case False
  with run show ?thesis by (auto simp: applyRuntimeCommitTx_def db_conn_def)
next
  case True
  with run have tx: "db_tx (commit_tx_body extract hx rid body now) env (n, db) = (res, (n', db'))"
    by (simp add: applyRuntimeCommitTx_def db_conn_def)
  show ?thesis
  proof (cases res)
    case (Inl e)
    with db_tx_error_unchanged [OF tx [unfolded Inl]] show ?thesis by simp
  next
    case (Inr oc)
    with tx have "(\<exists>s1. commit_tx_body extract hx rid body now env (Suc n, db) = (Inr (Rollback oc), s1) \<and> db' = db) \<or>
      (\<exists>m. commit_tx_body extract hx rid body now env (Suc n, db) = (Inr (Commit oc), (m, db')))"
      by (auto simp: db_tx_Inr)
    then show ?thesis
    proof (elim disjE exE conjE)
      fix s1
      assume a: "commit_tx_body extract hx rid body now env (Suc n, db) = (Inr (Rollback oc), s1)" "db' = db"
      have "oc \<noteq> CommitDone"
        using commit_tx_body_Inr [OF a(1)] by (auto split: if_splits dest: commit_apply_ends)
      with a(2) Inr show ?thesis by blast
    next
      fix m
      assume "commit_tx_body extract hx rid body now env (Suc n, db) = (Inr (Commit oc), (m, db'))"
      from commit_tx_body_Inr [OF this] obtain k
        where "commit_apply extract hx rid body now env (k, db) = (Inr (Commit oc), (m, db'))"
        by (auto split: if_splits)
      from commit_apply_Commit [OF inv this] Inr show ?thesis by blast
    qed
  qed
qed

lemma respondLeaseError_refuses: "respondLeaseError err \<noteq> Reply x"
  by (cases err) (simp_all add: respondLeaseError_def)

lemma respond_outcome_fresh: "respond_outcome body oc = Reply x \<Longrightarrow> \<not> cr_Idempotent x \<Longrightarrow> oc = CommitDone"
  by (cases oc) (auto simp: respond_outcome_def first_reply_def)

lemma applyRuntimeCommitTx_hit:
  assumes "applyRuntimeCommitTx extract hx rid body now env (n, db) = (Inr (CommitIdempotentHit c), st)"
  shows "find_commit rid (bc_CommitID body) db = Some c \<and> cm_payload_hash c = bc_PayloadHash body"
proof -
  obtain x st1 where b: "commit_tx_body extract hx rid body now env (Suc n, db) = (Inr x, st1)"
    and x: "x = Rollback (CommitIdempotentHit c) \<or> x = Commit (CommitIdempotentHit c)"
    using assms by (cases st) (auto simp: applyRuntimeCommitTx_def db_conn_def db_tx_Inr split: if_splits)
  then show ?thesis
    using commit_tx_body_Inr [OF b] by (auto split: if_splits dest: commit_apply_ends)
qed

text \<open>
  The handler: a reply that is not marked idempotent means that the whole effect took place; every
  other reply leaves the database as it was, and a reply marked idempotent is the stored first result.
\<close>

lemma commit_request_cases:
  assumes inv: "cp_inv db"
    and run: "commit_request extract hx rid decoded now env (n, db) = (res, (n', db'))"
  shows "\<exists>rp. res = Inr rp \<and>
    ((\<exists>body k. decoded = Some body \<and> rp = respond_outcome body CommitDone \<and> db_step db db' \<and> cp_inv db' \<and>
        commit_effect rid body (hx (bc_Token body)) now (stmt_now env k) db db') \<or>
     (db' = db \<and> (\<forall>x. rp = Reply x \<longrightarrow> (\<exists>body c. decoded = Some body \<and> rp = first_reply c \<and>
        find_commit rid (bc_CommitID body) db = Some c \<and> cm_payload_hash c = bc_PayloadHash body))))"
proof (cases decoded)
  case None
  with run show ?thesis by (auto simp: commit_request_def db_ret_def)
next
  case (Some body)
  show ?thesis
  proof (cases "bc_CommitID body = [] \<or> bc_OwnerID body = [] \<or> bc_Token body = [] \<or> bc_Epoch body \<le> 0 \<or>
           bc_PayloadHash body = []")
    case True
    with run Some show ?thesis by (auto simp: commit_request_def db_ret_def)
  next
    case False
    let ?g = "RuntimeCommitDAO_Get rid (bc_CommitID body) env (n, db)"
    obtain g n1 where g: "?g = (g, (n1, db))" "\<And>c. g = Inr c \<Longrightarrow> find_commit rid (bc_CommitID body) db = Some c"
      by (cases "find_commit rid (bc_CommitID body) db"; cases "db_up env"; cases "stmt_ok env n")
        (simp_all add: RuntimeCommitDAO_Get_def db_conn_def RuntimeCommitDAO_GetTx_eq)
    consider (hit) c where "g = Inr c" | (err) e where "g = Inl e" "e \<noteq> ErrCommitNotFound"
      | (none) "g = Inl ErrCommitNotFound" by (cases g) auto
    then show ?thesis
    proof cases
      case hit
      with run Some False g show ?thesis
        by (auto simp: commit_request_def db_bind_def db_try_def db_ret_def split: if_splits)
    next
      case err
      with run Some False g show ?thesis
        by (auto simp: commit_request_def db_bind_def db_try_def db_ret_def)
    next
      case none
      obtain ar n2 db2 where ap: "applyRuntimeCommitTx extract hx rid body now env (n1, db) = (ar, (n2, db2))"
        by (metis prod_cases3)
      have r: "res = Inr (case ar of Inl e \<Rightarrow> respondLeaseError e | Inr oc \<Rightarrow> respond_outcome body oc)" "db' = db2"
        using run Some False g none ap
        by (cases ar; simp add: commit_request_def db_bind_def db_try_def db_ret_def)+
      show ?thesis
      proof (cases "ar = Inr CommitDone")
        case True
        with applyRuntimeCommitTx_cases [OF inv ap] r Some show ?thesis by auto
      next
        case nd: False
        with applyRuntimeCommitTx_cases [OF inv ap] r have "db' = db" by simp
        moreover have "\<forall>x. (case ar of Inl e \<Rightarrow> respondLeaseError e | Inr oc \<Rightarrow> respond_outcome body oc) = Reply x \<longrightarrow>
           (\<exists>c. ar = Inr (CommitIdempotentHit c))"
          using nd by (auto simp: respondLeaseError_refuses respond_outcome_def
              split: sum.splits commit_outcome.splits)
        ultimately show ?thesis
          using r(1) Some applyRuntimeCommitTx_hit ap by (fastforce simp: respond_outcome_def)
      qed
    qed
  qed
qed

lemma commit_effect_found:
  assumes "commit_effect rid body th now t db db'"
  shows "\<exists>c. find_commit rid (bc_CommitID body) db' = Some c \<and> cm_commit_id c = bc_CommitID body \<and>
    cm_payload_hash c = bc_PayloadHash body \<and> cm_result_status c = bc_Target body \<and> cm_response c = bc_Result body"
proof -
  obtain seqs where "find_commit rid (bc_CommitID body) db = None"
    "ai_runtime_commits db' = ai_runtime_commits db @ [commit_row rid body seqs now]"
    using assms unfolding commit_effect_def by blast
  then have "find_commit rid (bc_CommitID body) db' = Some (commit_row rid body seqs now)"
    by (simp add: find_commit_def commit_row_def)
  then show ?thesis by (simp add: commit_row_def)
qed

lemma commit_request_known:
  assumes "find_commit rid (bc_CommitID body) db = Some c" and "cm_payload_hash c = bc_PayloadHash body"
    and "\<not> (bc_CommitID body = [] \<or> bc_OwnerID body = [] \<or> bc_Token body = [] \<or> bc_Epoch body \<le> 0 \<or>
           bc_PayloadHash body = [])"
  shows "commit_request extract hx rid (Some body) now (calm t) (n, db) = (Inr (first_reply c), (Suc n, db))"
  using assms by (simp add: commit_request_def db_bind_def db_try_def db_ret_def RuntimeCommitDAO_Get_def
      db_conn_def RuntimeCommitDAO_GetTx_eq)

lemma commit_request_Reply_complete:
  assumes "commit_request extract hx rid (Some body) now env st = (Inr (Reply x), st')"
  shows "\<not> (bc_CommitID body = [] \<or> bc_OwnerID body = [] \<or> bc_Token body = [] \<or> bc_Epoch body \<le> 0 \<or>
           bc_PayloadHash body = [])"
  using assms by (auto simp: commit_request_def db_ret_def)

section \<open>Properties\<close>

definition sample_trust :: trust where
  "sample_trust = Verified (NewTrustedRequestContext ''ai-orchestrator'' ''query-api'' ''q1'' ''system'' ''s'' []
     ''t1'' ''r1'' ''run'' [] ''control_plane.runs.mutate'' ''orchestrator'' 1 2 ''n'')"

definition sample_commit :: controlPlaneBodyCommit where
  "sample_commit =
    \<lparr>bc_CommitID = ''m1'', bc_PayloadHash = ''p1'', bc_Target = ''verifying'', bc_Result = ''{}'',
     bc_Events = [\<lparr>ce_EventID = ''e1'', ce_EventType = ''step'', ce_Payload = ''{}''\<rparr>,
                  \<lparr>ce_EventID = ''e2'', ce_EventType = ''step'', ce_Payload = ''{}''\<rparr>],
     bc_ExpectedVersion = 3, bc_OwnerID = ''w1'', bc_Epoch = 1, bc_Token = ''tok''\<rparr>"



text \<open>
  C15.  A lost response can be retried.  If the commit endpoint has once answered a request with
  success, then after any further operations of the control plane the same request gets the same
  result again, marked idempotent, and changes nothing.
\<close>

theorem commit_retry_same_reply:
  assumes inv: "cp_inv db"
    and first: "internalControlPlaneRunCommit trust extract hx rid (Some body) now env (n, db) = (Inr (Reply x), (n', db'))"
    and later: "db_step\<^sup>*\<^sup>* db' db''"
  shows "internalControlPlaneRunCommit trust extract hx rid (Some body) now' (calm t) (m, db'') =
    (Inr (Reply (x\<lparr>cr_Idempotent := True\<rparr>)), (m + 2, db''))"
proof -
  obtain a k where auth: "authorizeControlPlaneForRun trust ''control_plane.runs.mutate'' ''ai-orchestrator'' rid
      env (n, db) = (Inr (Inr a), (k, db))"
    and st: "commit_request extract hx rid (Some body) now env (k, db) = (Inr (Reply x), (n', db'))"
    using first unfolding internalControlPlaneRunCommit_def by (cases rule: authorized_cases) auto
  have "db_step\<^sup>*\<^sup>* db db' \<and> (\<exists>c. find_commit rid (bc_CommitID body) db' = Some c \<and>
      cm_payload_hash c = bc_PayloadHash body \<and> first_reply c = Reply (x\<lparr>cr_Idempotent := True\<rparr>))"
    using commit_request_cases [OF inv st]
  proof (elim exE conjE disjE)
    fix rp b j
    assume "Inr (Reply x) = Inr rp" "Some body = Some b" "rp = respond_outcome b CommitDone" "db_step db db'"
      "commit_effect rid b (hx (bc_Token b)) now (stmt_now env j) db db'"
    then show ?thesis using commit_effect_found [of rid body]
      by (fastforce simp: respond_outcome_def first_reply_def)
  next
    fix rp
    assume "Inr (Reply x) = Inr rp" "db' = db" "\<forall>x. rp = Reply x \<longrightarrow> (\<exists>b c. Some body = Some b \<and> rp = first_reply c \<and>
        find_commit rid (bc_CommitID b) db = Some c \<and> cm_payload_hash c = bc_PayloadHash b)"
    then show ?thesis by (auto simp: first_reply_def)
  qed
  then obtain c where c: "db_step\<^sup>*\<^sup>* db db'" "find_commit rid (bc_CommitID body) db' = Some c"
    "cm_payload_hash c = bc_PayloadHash body" "first_reply c = Reply (x\<lparr>cr_Idempotent := True\<rparr>)" by blast
  have f: "find_commit rid (bc_CommitID body) db'' = Some c"
    using c(2) sql_first_prefix [of "ai_runtime_commits db'" "ai_runtime_commits db''"] db_steps_logs [OF later]
    by (simp add: find_commit_def)
  obtain y where "authorizeControlPlaneForRun trust ''control_plane.runs.mutate'' ''ai-orchestrator'' rid (calm t) (m, db'')
      = (Inr (Inr y), (Suc m, db''))"
    using authorize_later [OF auth rtranclp_trans [OF c(1) later]] by blast
  with commit_request_known [OF f c(3) commit_request_Reply_complete [OF st]] c(4) show ?thesis
    by (simp add: internalControlPlaneRunCommit_def db_bind_def)
qed

theorem commit_retry_same_reply_witness:
  "let h = internalControlPlaneRunCommit sample_trust (\<lambda>_. []) (\<lambda>x. x) ''r1'' (Some sample_commit);
       db' = snd (snd (h 60 (calm 60) (0, sample_db)))
   in h 500 (calm 500) (0, db') =
      (Inr (Reply \<lparr>cr_Idempotent = True, cr_CommitID = ''m1'', cr_ResultStatus = ''verifying'', cr_Result = ''{}''\<rparr>), (2, db'))"
proof -
  let ?h = "internalControlPlaneRunCommit sample_trust (\<lambda>_. []) (\<lambda>x. x) ''r1'' (Some sample_commit)"
  let ?r = "?h 60 (calm 60) (0, sample_db)"
  have "fst ?r = Inr (Reply \<lparr>cr_Idempotent = False, cr_CommitID = ''m1'', cr_ResultStatus = ''verifying'', cr_Result = ''{}''\<rparr>)"
    by code_simp
  then have "?r = (Inr (Reply \<lparr>cr_Idempotent = False, cr_CommitID = ''m1'', cr_ResultStatus = ''verifying'',
       cr_Result = ''{}''\<rparr>), (fst (snd ?r), snd (snd ?r)))" by (metis prod.collapse)
  from commit_retry_same_reply [OF sample_inv this rtranclp.rtrancl_refl, of 500 500 0]
  show ?thesis by (simp add: Let_def)
qed

end
