(* ===== verification/Fencing.thy ===== *)
theory Fencing
  imports Prelude
begin

text \<open>
  The interfaces behind the leases of the system.  A resource carries an epoch; a credential names
  the epoch it was issued for; an operation accepts a credential only at the current epoch.  The Run
  lease, the two outboxes and the graph worker lease are instances.
\<close>

text \<open>Epochs only grow, and a guarded operation accepts only credentials of the current epoch.\<close>

locale epoch_fencing =
  fixes step :: "'s \<Rightarrow> 's \<Rightarrow> bool"
    and epoch :: "'k \<Rightarrow> 's \<Rightarrow> int option"
    and accepts :: "'k \<Rightarrow> 'c \<Rightarrow> 's \<Rightarrow> bool"
    and cred_epoch :: "'c \<Rightarrow> int"
  assumes epoch_mono: "step s s' \<Longrightarrow> epoch k s = Some e \<Longrightarrow> \<exists>e'. epoch k s' = Some e' \<and> e \<le> e'"
    and accepts_epoch: "accepts k c s \<Longrightarrow> epoch k s = Some (cred_epoch c)"
begin

lemma epoch_mono_steps:
  "step\<^sup>*\<^sup>* s s' \<Longrightarrow> epoch k s = Some e \<Longrightarrow> \<exists>e'. epoch k s' = Some e' \<and> e \<le> e'"
proof (induction rule: rtranclp_induct)
  case base
  then show ?case by blast
next
  case (step s1 s2)
  then show ?case by (meson epoch_mono order_trans)
qed

lemma fenced_forever:
  "step\<^sup>*\<^sup>* s s' \<Longrightarrow> epoch k s = Some e \<Longrightarrow> cred_epoch c < e \<Longrightarrow> \<not> accepts k c s'"
  using epoch_mono_steps accepts_epoch by fastforce

lemma accepted_epochs_grow:
  "accepts k c s \<Longrightarrow> step\<^sup>*\<^sup>* s s' \<Longrightarrow> accepts k c' s' \<Longrightarrow> cred_epoch c \<le> cred_epoch c'"
  using fenced_forever accepts_epoch by (meson not_le_imp_less)

end

text \<open>A lease in addition has one holder at a time.\<close>

locale exclusive_lease = epoch_fencing +
  assumes accepts_unique: "accepts k c s \<Longrightarrow> accepts k c' s \<Longrightarrow> c = c'"
begin

text \<open>A holder that is replaced is out for good: the replacement holds a later epoch, and no later
  state accepts the old credential again.\<close>

lemma replaced_is_fenced:
  assumes "accepts k c s" and "step\<^sup>*\<^sup>* s s'" and "accepts k c' s'" and "cred_epoch c' \<noteq> cred_epoch c"
    and "step\<^sup>*\<^sup>* s' s''"
  shows "\<not> accepts k c s''"
proof -
  have "cred_epoch c < cred_epoch c'" using accepted_epochs_grow [OF assms(1-3)] assms(4) by simp
  with accepts_epoch [OF assms(3)] fenced_forever [OF assms(5)] show ?thesis by blast
qed

end

end
