(* ===== verification/LeaseSafety.thy ===== *)
theory LeaseSafety
  imports RunInvariant Fencing
begin

text \<open>
  What the execution lease guarantees: a live lease is never taken away, a free one can be taken,
  an expired one cannot be renewed, and a credential of an earlier epoch is fenced for ever.  The
  lease is an instance of \<open>exclusive_lease\<close>.  The theory also holds the facts about the recovery scan
  and the replay of the event log.
\<close>

section \<open>Claims in detail\<close>


lemma Claim_live_result:
  assumes r: "get_run rid db = Some r" "lease_owned r" "\<And>k. lease_unexpired (stmt_now env k) r"
    and u: "uniq_key r_run_id (ai_runs db)"
    and run: "Claim hx gi gr rid owner secs caller env (n, db) = (Inr h, st)"
  shows "lh_Epoch h = r_lease_epoch r \<and> r_lease_owner_id r = Some owner \<and>
    r_lease_claim_id r = Some (lh_ClaimID h) \<and> r_lease_token_hash r = Some (lh_TokenHash h)"
proof -
  obtain cid raw th source where ci: "claim_identity hx gi gr caller = (cid, raw, th, source)"
    by (metis prod_cases4)
  have cc: "caller_check caller = None" using run by (cases "caller_check caller") (simp_all add: Claim_def db_fail_def)
  have up: "db_up env" using run cc ci by (simp add: Claim_def db_conn_def split: if_splits)
  obtain x st1 where tx: "db_tx (claim_body rid owner secs cid raw th source) env (n, db) = (Inr x, st1)"
    and k: "(case x of Inl holder \<Rightarrow> db_ret holder
          | Inr newEpoch \<Rightarrow> db_bind (readLeaseTiming rid owner newEpoch th)
                (\<lambda>timing. db_ret (holder_of rid owner newEpoch cid raw th ''none'' 0 source timing))) env st1 = (Inr h, st)"
    using run cc ci up by (auto simp: Claim_def db_conn_def db_bind_Inr)
  obtain n1 db1 where st1: "st1 = (n1, db1)" by (cases st1)
  from claim_tx_Inr [OF tx [unfolded st1]] show ?thesis
  proof (elim disjE exE conjE)
    fix r' timing
    assume "get_run rid db = Some r'" "r_lease_owner_id r' = Some owner" "r_lease_claim_id r' = Some cid"
      "r_lease_token_hash r' = Some th" "x = Inl (holder_of rid owner (r_lease_epoch r') cid raw th
              (r_runtime_wait_kind r') (r_retry_attempt r') source timing)"
    with k r(1) show ?thesis by (auto simp: db_ret_def holder_of_def)
  next
    fix r' k
    assume "get_run rid db = Some r'" "\<not> (lease_owned r' \<and> lease_unexpired (stmt_now env k) r')"
    with r show ?thesis by simp
  qed
qed

lemma readLeaseTiming_calm:
  assumes "uniq_key r_run_id (ai_runs db)" "get_run rid db = Some r" "lease_matches owner e th r"
    "r_lease_expires_at r = Some x"
  shows "readLeaseTiming rid owner e th (calm t) (n, db) = (Inr (t, x, (x - t) * 1000), (Suc n, db))"
  using assms by (simp add: readLeaseTiming_def dbm_defs sql_first_key_and [where key = r_run_id] get_run_def)

definition claimable :: "millis \<Rightarrow> ai_run \<Rightarrow> bool" where
  "claimable t r \<longleftrightarrow> \<not> isTerminalStatus (r_status r) \<and> \<not> (lease_owned r \<and> lease_unexpired t r) \<and>
     (r_runtime_wait_kind r = ''retry'' \<longrightarrow> (case r_retry_not_before r of None \<Rightarrow> True | Some b \<Rightarrow> b \<le> t))"

lemma get_run_granted:
  "get_run k (granted_db rid owner secs e cid th source t t' db) =
    map_option (\<lambda>r. if k = rid \<and> \<not> isTerminalStatus (r_status r) then set_claim owner e cid th secs t r else r) (get_run k db)"
proof -
  have "get_run k (granted_db rid owner secs e cid th source t t' db) =
      get_run k (snd (update_run rid (\<lambda>r. \<not> isTerminalStatus (r_status r)) (set_claim owner e cid th secs t) db))"
    by (simp add: granted_db_def Let_def get_run_def)
  then show ?thesis by (simp add: get_run_update_run)
qed

lemma claim_body_calm:
  assumes r: "get_run rid db = Some r" "claimable t r" "\<not> claim_expired_retry r cid"
    and new: "\<forall>c\<in>set (ai_run_claims db). \<not> (cl_run_id c = rid \<and> cl_claim_id c = cid)"
  shows "\<exists>m. claim_body rid owner secs cid raw th source (calm t) (n, db) =
    (Inr (Commit (Inr (r_lease_epoch r + 1))),
     (m, granted_db rid owner secs (r_lease_epoch r + 1) cid th source t t db))"
proof -
  let ?e = "r_lease_epoch r + 1"
  have g: "\<exists>m. claim_grant rid owner secs ?e cid th source (calm t) (k, db) =
      (Inr (Commit (Inr ?e)), (m, granted_db rid owner secs ?e cid th source t t db))" for k
    using new by (auto simp: claim_grant_def dbm_defs Let_def case_prod_beta insert_claim_def granted_db_def list_ex_iff)
  have d: "\<exists>m. claim_decide rid owner secs cid raw th source r False (calm t) (k, db) =
      (Inr (Commit (Inr ?e)), (m, granted_db rid owner secs ?e cid th source t t db))" for k
    using g r(3) by (simp add: claim_decide_def)
  have a: "\<exists>m. claim_check_active rid r (claim_decide rid owner secs cid raw th source r) (calm t) (k, db) =
      (Inr (Commit (Inr ?e)), (m, granted_db rid owner secs ?e cid th source t t db))" for k
    using d r(1,2) by (cases "lease_owned r") (simp_all add: claim_check_active_def dbm_defs claimable_def)
  have b: "\<exists>m. claim_check_backoff rid r (claim_check_active rid r (claim_decide rid owner secs cid raw th source r)) (calm t) (k, db) =
      (Inr (Commit (Inr ?e)), (m, granted_db rid owner secs ?e cid th source t t db))" for k
    using a r(1,2)
    by (cases "r_runtime_wait_kind r = ''retry''"; cases "r_retry_not_before r")
      (simp_all add: claim_check_backoff_def dbm_defs claimable_def)
  show ?thesis
    using b r(1,2) by (simp add: claim_body_def db_bind_def claimable_def)
qed

lemma claim_calm:
  assumes inv: "cp_inv db" and r: "get_run rid db = Some r" "claimable t r" "\<not> claim_expired_retry r cid"
    and caller: "caller_check caller = None" "claim_identity hx gi gr caller = (cid, raw, th, source)"
    and new: "\<forall>c\<in>set (ai_run_claims db). \<not> (cl_run_id c = rid \<and> cl_claim_id c = cid)"
  shows "\<exists>m. Claim hx gi gr rid owner secs caller (calm t) (n, db) =
    (Inr (holder_of rid owner (r_lease_epoch r + 1) cid raw th ''none'' 0 source (t, t + secs * 1000, secs * 1000 * 1000)),
     (m, granted_db rid owner secs (r_lease_epoch r + 1) cid th source t t db))"
proof -
  let ?db = "granted_db rid owner secs (r_lease_epoch r + 1) cid th source t t db"
  obtain m where b: "claim_body rid owner secs cid raw th source (calm t) (Suc n, db) =
    (Inr (Commit (Inr (r_lease_epoch r + 1))), (m, ?db))"
    using claim_body_calm [OF r new] by blast
  have g: "get_run rid ?db = Some (set_claim owner (r_lease_epoch r + 1) cid th secs t r)"
    using r by (simp add: get_run_granted claimable_def)
  have u: "uniq_key r_run_id (ai_runs ?db)" using granted_db_inv [OF inv] by (simp add: cp_inv_def)
  have t: "readLeaseTiming rid owner (r_lease_epoch r + 1) th (calm t) (Suc m, ?db) =
     (Inr (t, t + secs * 1000, (t + secs * 1000 - t) * 1000), (Suc (Suc m), ?db))"
    by (rule readLeaseTiming_calm [OF u g]) (simp_all add: lease_matches_def)
  show ?thesis
    using caller b t by (simp add: Claim_def db_conn_def db_bind_def db_tx_def db_ret_def)
qed

lemma FenceToolExecutionTx_eq:
  assumes "uniq_key r_run_id (ai_runs db)"
  shows "FenceToolExecutionTx rid owner e th env (n, db) =
    (if \<not> stmt_ok env n then Inl DriverError
     else if \<exists>r. get_run rid db = Some r \<and> lease_live (stmt_now env n) owner e th r then Inr ()
     else Inl ErrLeaseFencing, (Suc n, db))"
  using assms
  by (cases "get_run rid db")
    (auto simp: FenceToolExecutionTx_def dbm_defs sql_first_key_and [where key = r_run_id] get_run_def
      dest: sql_first_SomeD)



section \<open>Recovery scan\<close>


definition candidate_key :: "RecoveryCandidate \<Rightarrow> millis \<times> gostring" where
  "candidate_key c = (rc_CreatedAt c, rc_RunID c)"

lemma after_cursor_key:
  "after_cursor (Some (rc_CreatedAt c)) (rc_RunID c) d \<longleftrightarrow> candidate_key c < candidate_key d"
  by (auto simp: after_cursor_def candidate_key_def)

definition worker_candidates :: "(store_db \<Rightarrow> ai_run \<Rightarrow> bool) \<Rightarrow> millis \<Rightarrow> store_db \<Rightarrow> RecoveryCandidate list" where
  "worker_candidates ok t db =
     sort_key candidate_key (concat (map (join_outbox db) (filter (\<lambda>r. ok db r \<and> recoverable t r) (ai_runs db))))"

lemma scan_page:
  assumes "worker_statuses kind = Some ok"
  shows "ScanRecoveryCandidatesForWorker kind limit ac ai (calm t) (n, db) =
    (Inr (take (scan_limit limit) (filter (after_cursor ac ai) (worker_candidates ok t db))), (Suc n, db))"
proof -
  have "(\<lambda>c. (rc_CreatedAt c, rc_RunID c)) = candidate_key" by (simp add: fun_eq_iff candidate_key_def)
  with assms show ?thesis
    by (simp add: ScanRecoveryCandidatesForWorker_def db_conn_def sql_order_limit_def worker_candidates_def filter_sort)
qed

lemma join_outbox_fields: "c \<in> set (join_outbox db r) \<Longrightarrow> rc_RunID c = r_run_id r \<and> rc_Epoch c = r_lease_epoch r"
  by (auto simp: join_outbox_def candidate_of_def split: list.splits)


section \<open>The lease as an instance\<close>

type_synonym lease_cred = "gostring \<times> int \<times> gostring"

definition run_epoch :: "gostring \<Rightarrow> store_db \<Rightarrow> int option" where
  "run_epoch rid db = map_option r_lease_epoch (get_run rid db)"

text \<open>The condition under which the fencing statements find the row, at some time of the database clock.\<close>

definition lease_accepts :: "gostring \<Rightarrow> lease_cred \<Rightarrow> store_db \<Rightarrow> bool" where
  "lease_accepts rid c db \<longleftrightarrow>
     (\<exists>r t. get_run rid db = Some r \<and> lease_live t (fst c) (fst (snd c)) (snd (snd c)) r)"

interpretation run_lease: exclusive_lease db_step run_epoch lease_accepts "\<lambda>c. fst (snd c)"
proof
  fix s s' :: store_db and k e
  assume "db_step s s'" and e: "run_epoch k s = Some e"
  from e obtain r where r: "get_run k s = Some r" "e = r_lease_epoch r" by (auto simp: run_epoch_def)
  with \<open>db_step s s'\<close> obtain r' where "get_run k s' = Some r'" "run_step r r'" unfolding db_step_def by blast
  then show "\<exists>e'. run_epoch k s' = Some e' \<and> e \<le> e'" using r(2) by (simp add: run_epoch_def run_step_def)
next
  fix k and c :: lease_cred and s
  assume "lease_accepts k c s"
  then obtain r t where "get_run k s = Some r" "lease_live t (fst c) (fst (snd c)) (snd (snd c)) r"
    unfolding lease_accepts_def by blast
  then show "run_epoch k s = Some (fst (snd c))" by (simp add: run_epoch_def lease_live_def lease_matches_def)
next
  fix k and c c' :: lease_cred and s
  assume "lease_accepts k c s" "lease_accepts k c' s"
  then obtain r t t' where "get_run k s = Some r" "lease_live t (fst c) (fst (snd c)) (snd (snd c)) r"
    "lease_live t' (fst c') (fst (snd c')) (snd (snd c')) r"
    unfolding lease_accepts_def by (metis option.inject)
  then show "c = c'" by (cases c; cases c') (simp add: lease_live_def lease_matches_def)
qed

lemma LeaseFencingTx_accepts:
  assumes "LeaseFencingTx rid owner e th env (n, db) = (Inr True, st)"
    and "uniq_key r_run_id (ai_runs db)"
  shows "lease_accepts rid (owner, e, th) db"
  using assms
  by (cases "get_run rid db")
    (auto simp: LeaseFencingTx_def dbm_defs sql_first_key_and [where key = r_run_id] get_run_def lease_accepts_def
      split: if_splits)

lemma FenceToolExecutionTx_accepts:
  assumes "FenceToolExecutionTx rid owner e th env (n, db) = (Inr (), st)"
    and "uniq_key r_run_id (ai_runs db)"
  shows "lease_accepts rid (owner, e, th) db"
  using assms by (auto simp: FenceToolExecutionTx_eq lease_accepts_def split: if_splits)

lemma Renew_accepts:
  assumes run: "Renew rid owner e th secs env (n, db) = (Inr x, st)" and u: "uniq_key r_run_id (ai_runs db)"
  shows "lease_accepts rid (owner, e, th) db"
proof -
  have "fst (update_run rid (lease_live (stmt_now env n) owner e th) (set_renew secs (stmt_now env n)) db) = 1"
    using run
    by (auto simp: Renew_def dbm_defs Let_def case_prod_beta split: if_splits sum.splits bool.splits option.splits)
  from update_run_eq_1 [OF u this] show ?thesis by (auto simp: lease_accepts_def)
qed

section \<open>Properties\<close>

text \<open>
  C8.  A live lease is never stolen.  As long as the lease of a Run has an owner and is not past its
  expiry at any statement of the call, a claim by anybody changes nothing; and it only succeeds for
  the holder itself, repeating the same claim id and token, who gets the epoch it already has.
\<close>

theorem claim_never_steals:
  assumes "cp_inv db" and "get_run rid db = Some r" and "lease_owned r"
    and "\<And>k. lease_unexpired (stmt_now env k) r"
    and "Claim hx gi gr rid owner secs caller env (n, db) = (res, (n', db'))"
  shows "db' = db \<and> (\<forall>h. res = Inr h \<longrightarrow> lh_Epoch h = r_lease_epoch r \<and> r_lease_owner_id r = Some owner \<and>
    r_lease_claim_id r = Some (lh_ClaimID h) \<and> r_lease_token_hash r = Some (lh_TokenHash h))"
proof
  show "db' = db" using Claim_db [OF assms(5)] assms(2,3,4) by auto
  show "\<forall>h. res = Inr h \<longrightarrow> lh_Epoch h = r_lease_epoch r \<and> r_lease_owner_id r = Some owner \<and>
    r_lease_claim_id r = Some (lh_ClaimID h) \<and> r_lease_token_hash r = Some (lh_TokenHash h)"
    using Claim_live_result [OF assms(2-4)] assms(1,5) by (simp add: cp_inv_def) blast
qed


theorem claim_never_steals_witness:
  "snd (snd (Claim (\<lambda>x. x) ''k2'' ''tok2'' ''r1'' ''w2'' 60 [] (calm 50) (0, sample_db))) = sample_db \<and>
   fst (Claim (\<lambda>x. x) ''k2'' ''tok2'' ''r1'' ''w2'' 60 [] (calm 50) (0, sample_db)) = Inl ErrLeaseHeld"
proof -
  let ?c = "Claim (\<lambda>x. x) ''k2'' ''tok2'' ''r1'' ''w2'' 60 [] (calm 50) (0, sample_db)"
  have e: "?c = (fst ?c, (fst (snd ?c), snd (snd ?c)))" by simp
  have g: "get_run ''r1'' sample_db = Some sample_run" by (simp add: sample_get_run)
  have l: "lease_owned sample_run" "\<And>k. lease_unexpired (stmt_now (calm 50) k) sample_run"
    by (simp_all add: sample_run_def lease_owned_def null_string_def lease_unexpired_def)
  have "fst ?c = Inl ErrLeaseHeld" by code_simp
  with claim_never_steals [OF sample_inv g l e] show ?thesis by blast
qed

text \<open>
  C26.  A lease that is free or expired can be taken.  A claim on a Run that is not terminal, not in
  retry backoff and not held succeeds, is granted the next epoch for the requested time, and from
  then on exactly the new credential passes the fence, until it expires.
\<close>

theorem free_lease_claimable:
  assumes "cp_inv db" and "get_run rid db = Some r" and "claimable t r"
    and "caller_check caller = None" and "claim_identity hx gi gr caller = (cid, raw, th, source)"
    and "\<not> claim_expired_retry r cid"
    and "\<forall>c\<in>set (ai_run_claims db). \<not> (cl_run_id c = rid \<and> cl_claim_id c = cid)"
  shows "\<exists>h m db'. Claim hx gi gr rid owner secs caller (calm t) (n, db) = (Inr h, (m, db')) \<and>
    lh_Epoch h = r_lease_epoch r + 1 \<and> lh_ClaimID h = cid \<and> lh_Token h = raw \<and> lh_RemainingMS h = secs * 1000 \<and>
    (\<forall>t' owner' e token. FenceToolExecutionTx rid owner' e token (calm t') (0, db') =
       (if owner' = owner \<and> e = r_lease_epoch r + 1 \<and> token = th \<and> t' \<le> t + secs * 1000 then Inr ()
        else Inl ErrLeaseFencing, (1, db')))"
proof -
  let ?db = "granted_db rid owner secs (r_lease_epoch r + 1) cid th source t t db"
  have u: "uniq_key r_run_id (ai_runs ?db)" using granted_db_inv [OF assms(1)] by (simp add: cp_inv_def)
  have g: "get_run rid ?db = Some (set_claim owner (r_lease_epoch r + 1) cid th secs t r)"
    using assms(2,3) by (simp add: get_run_granted claimable_def)
  have "FenceToolExecutionTx rid owner' e token (calm t') (0, ?db) =
       (if owner' = owner \<and> e = r_lease_epoch r + 1 \<and> token = th \<and> t' \<le> t + secs * 1000 then Inr ()
        else Inl ErrLeaseFencing, (1, ?db))" for t' owner' e token
    unfolding FenceToolExecutionTx_eq [OF u] g using assms(3)
    by (auto simp: lease_live_def lease_matches_def lease_unexpired_def claimable_def)
  with claim_calm [OF assms(1,2,3,6,4,5,7), of owner secs n] show ?thesis
    by (auto simp: holder_of_def)
qed


theorem free_lease_claimable_witness:
  "\<exists>h m db'. Claim (\<lambda>x. x) ''k2'' ''tok2'' ''r1'' ''w2'' 60 [] (calm 101) (0, sample_db) = (Inr h, (m, db')) \<and>
     lh_Epoch h = 2 \<and> FenceToolExecutionTx ''r1'' ''w1'' 1 ''tok'' (calm 102) (0, db') = (Inl ErrLeaseFencing, (1, db'))"
proof -
  have g: "get_run ''r1'' sample_db = Some sample_run" by (simp add: sample_get_run)
  have c: "claimable 101 sample_run"
    by (simp add: sample_run_def claimable_def lease_owned_def null_string_def lease_unexpired_def isTerminalStatus_def)
  have i: "caller_check [] = None" "claim_identity (\<lambda>x. x) ''k2'' ''tok2'' [] = (''k2'', ''tok2'', ''tok2'', ''LIVE_INVOCATION'')"
    by (simp_all add: caller_check_def claim_identity_def NewLeaseToken_def)
  have n: "\<not> claim_expired_retry sample_run ''k2''" "r_lease_epoch sample_run = 1"
    "\<forall>c\<in>set (ai_run_claims sample_db). \<not> (cl_run_id c = ''r1'' \<and> cl_claim_id c = ''k2'')"
    by (simp_all add: sample_run_def claim_expired_retry_def sample_db_def empty_db_def)
  from free_lease_claimable [OF sample_inv g c i n(1,3), of "''w2''" 60 0] n(2) show ?thesis by fastforce
qed

text \<open>
  C36.  What a renewal returns and writes, on every branch: a live lease is extended from the current
  time; a lease that this holder still owns but that has run out is \<open>ErrLeaseLost\<close>, as is a renewal
  that changes no column; anything else is \<open>ErrLeaseFencing\<close>.  An expired lease is never revived.
\<close>

theorem renew_exact:
  assumes "cp_inv db" and r: "get_run rid db = Some r"
  shows "fst (Renew rid owner e th secs (calm t) (n, db)) =
      (if lease_live t owner e th r \<and> set_renew secs t r \<noteq> r then Inr (t + secs * 1000)
       else if lease_matches owner e th r then Inl ErrLeaseLost else Inl ErrLeaseFencing) \<and>
    get_run rid (snd (snd (Renew rid owner e th secs (calm t) (n, db)))) =
      Some (if lease_live t owner e th r then set_renew secs t r else r)"
proof -
  let ?u = "update_run rid (lease_live t owner e th) (set_renew secs t) db"
  have u: "uniq_key r_run_id (ai_runs db)" using assms(1) by (simp add: cp_inv_def)
  have u': "uniq_key r_run_id (ai_runs (snd ?u))"
    using u by (simp add: update_run_snd uniq_key_update)
  have a: "fst ?u = (if lease_live t owner e th r \<and> set_renew secs t r \<noteq> r then 1 else 0)"
    using affected_update_run [OF u] r by simp
  have g: "get_run rid (snd ?u) = Some (if lease_live t owner e th r then set_renew secs t r else r)"
    using r by (simp add: get_run_update_run)
  have c: "(sql_count (\<lambda>r. r_run_id r = rid \<and> lease_matches owner e th r) (ai_runs (snd ?u)) = 1) =
      lease_matches owner e th r"
    unfolding sql_count_key_and [OF u'] using g
    by (simp add: get_run_def lease_matches_def set_renew_def)
  show ?thesis
  proof (cases "lease_live t owner e th r \<and> set_renew secs t r \<noteq> r")
    case True
    with a have "fst ?u = 1" by simp
    then have "Renew rid owner e th secs (calm t) (n, db) = (Inr (t + secs * 1000), (Suc (Suc n), snd ?u))"
      using g True by (simp add: Renew_def db_conn_def db_bind_def db_try_def db_ret_def case_prod_beta Let_def)
         (simp add: set_renew_def)
    with g True show ?thesis by simp
  next
    case False
    with a have "fst ?u \<noteq> 1" by (auto split: if_splits)
    then have "Renew rid owner e th secs (calm t) (n, db) =
       (Inl (if lease_matches owner e th r then ErrLeaseLost else ErrLeaseFencing), (Suc (Suc n), snd ?u))"
      using c by (simp add: Renew_def db_conn_def db_bind_def db_try_def db_ret_def db_fail_def case_prod_beta Let_def)
    with g False show ?thesis by simp
  qed
qed

theorem renew_exact_witness:
  "fst (Renew ''r1'' ''w1'' 1 ''tok'' 60 (calm 101) (0, sample_db)) = Inl ErrLeaseLost \<and>
   fst (Renew ''r1'' ''w1'' 1 ''tok'' 60 (calm 90) (0, sample_db)) = Inr 60090"
proof -
  have g: "get_run ''r1'' sample_db = Some sample_run" by (simp add: sample_get_run)
  have r: "lease_matches ''w1'' 1 ''tok'' sample_run" "\<not> lease_live 101 ''w1'' 1 ''tok'' sample_run"
    "lease_live 90 ''w1'' 1 ''tok'' sample_run" "set_renew 60 90 sample_run \<noteq> sample_run"
    by (simp_all add: sample_run_def lease_matches_def lease_live_def lease_unexpired_def isTerminalStatus_def set_renew_def)
  from renew_exact [OF sample_inv g, of "''w1''" 1 "''tok''" 60 101 0] renew_exact [OF sample_inv g, of "''w1''" 1 "''tok''" 60 90 0] r
  show ?thesis by simp
qed

text \<open>
  Keyset paging of the recovery scan loses nothing: with the last candidate of a page as cursor,
  the next page is exactly the next slice of the ordered list of candidates, whatever the page size.
\<close>

theorem recovery_paging_complete:
  assumes "worker_statuses kind = Some ok" and "distinct (map candidate_key (worker_candidates ok t db))"
    and "0 < k" and "k \<le> length (worker_candidates ok t db)"
  shows "fst (ScanRecoveryCandidatesForWorker kind limit
       (Some (rc_CreatedAt (worker_candidates ok t db ! (k - 1)))) (rc_RunID (worker_candidates ok t db ! (k - 1)))
       (calm t) (n, db)) =
    Inr (take (scan_limit limit) (drop k (worker_candidates ok t db)))"
proof -
  have s: "sorted (map candidate_key (worker_candidates ok t db))" by (simp add: worker_candidates_def)
  show ?thesis
    unfolding scan_page [OF assms(1)] after_cursor_key filter_after_sorted [OF s assms(2-4)] by simp
qed


theorem recovery_paging_complete_witness:
  "let db = sample_db\<lparr>ai_runs := [sample_run, sample_run\<lparr>r_run_id := ''r2''\<rparr>]\<rparr>
   in map rc_RunID (case fst (ScanRecoveryCandidatesForWorker ''investigation'' 1 (Some 10) ''r1'' (calm 200) (0, db))
        of Inr cs \<Rightarrow> cs | _ \<Rightarrow> []) = [''r2'']"
proof -
  let ?db = "sample_db\<lparr>ai_runs := [sample_run, sample_run\<lparr>r_run_id := ''r2''\<rparr>]\<rparr>"
  let ?ok = "\<lambda>(db::store_db) r. r_status r \<in> set [''created'', ''planning'', ''investigating'']"
  have k: "worker_statuses ''investigation'' = Some ?ok" by (simp add: worker_statuses_def)
  let ?w = "worker_candidates (\<lambda>(db::store_db) r. r_status r \<in> set [''created'', ''planning'', ''investigating'']) 200 ?db"
  have w: "?w = [candidate_of [] sample_run, candidate_of [] (sample_run\<lparr>r_run_id := ''r2''\<rparr>)]"
    by code_simp
  have d: "distinct (map candidate_key ?w)" unfolding w by code_simp
  have l: "(0::nat) < 1" "1 \<le> length ?w" unfolding w by simp_all
  from recovery_paging_complete [OF k d l, of 1 0] show ?thesis
    unfolding w by (simp add: candidate_of_def sample_run_def scan_limit_def)
qed

text \<open>
  Replay is complete and in order: after any sequence number the replay returns exactly the
  numbers from the next one up to the last event of the Run, each once and ascending.
\<close>

theorem replay_complete:
  assumes "cp_inv db"
  shows "map ev_sequence (replay_rows rid after db) = [max 1 (after + 1)..last_seq_of rid db] \<and>
    set (replay_rows rid after db) = {e \<in> set (ai_run_events db). ev_run_id e = rid \<and> after < ev_sequence e}"
proof
  have ok: "map ev_sequence (events_of rid db) = [1..last_seq_of rid db]" using assms by (simp add: cp_inv_def seq_ok_def)
  have f: "filter (\<lambda>e. ev_run_id e = rid \<and> after < ev_sequence e) (ai_run_events db) =
      filter (\<lambda>e. after < ev_sequence e) (events_of rid db)"
    by (simp add: events_of_def conj_commute)
  have s: "sorted (map ev_sequence (filter (\<lambda>e. after < ev_sequence e) (events_of rid db)))"
    using ok by (metis sorted_upto sorted_filter)
  have "map ev_sequence (replay_rows rid after db) = filter (\<lambda>s. after < s) (map ev_sequence (events_of rid db))"
    unfolding replay_rows_def f sorted_sort_key by (simp add: sort_key_id_if_sorted s filter_map comp_def)
  also have "\<dots> = [max 1 (after + 1)..last_seq_of rid db]"
    unfolding ok by (rule filter_upto)
  finally show "map ev_sequence (replay_rows rid after db) = [max 1 (after + 1)..last_seq_of rid db]" .
  show "set (replay_rows rid after db) = {e \<in> set (ai_run_events db). ev_run_id e = rid \<and> after < ev_sequence e}"
    by (simp add: replay_rows_def)
qed

theorem replay_complete_witness:
  "let db = snd (snd (AppendTx \<lparr>ev_event_id = ''e1'', ev_run_id = ''r1'', ev_sequence = 0, ev_event_type = ''x'',
        ev_payload = [], ev_created_at = 0\<rparr> 5 (calm 5) (0, sample_db)))
   in map ev_sequence (replay_rows ''r1'' 0 db) = [1]"
proof -
  let ?e = "\<lparr>ev_event_id = ''e1'', ev_run_id = ''r1'', ev_sequence = 0, ev_event_type = ''x'',
        ev_payload = [], ev_created_at = 0\<rparr>"
  let ?a = "AppendTx ?e 5 (calm 5) (0, sample_db)"
  have f: "fst ?a = Inr (?e\<lparr>ev_sequence := 1, ev_created_at := 5\<rparr>, True)" and l: "last_seq_of ''r1'' (snd (snd ?a)) = 1"
    by code_simp+
  then have "?a = (Inr (?e\<lparr>ev_sequence := 1, ev_created_at := 5\<rparr>, True), (fst (snd ?a), snd (snd ?a)))"
    by (metis prod.collapse)
  then have "cp_inv (snd (snd ?a))" using AppendTx_step [OF sample_inv] by blast
  from replay_complete [OF this, of "''r1''" 0] l show ?thesis by (simp add: Let_def)
qed

lemma Claim_terminal:
  assumes "get_run rid db = Some r" and "isTerminalStatus (r_status r)"
    and run: "Claim hx gi gr rid owner secs caller env (n, db) = (res, (n', db'))"
  shows "db' = db \<and> (\<exists>e. res = Inl e)"
proof
  show "db' = db" using Claim_db [OF run] assms(1,2) by auto
  show "\<exists>e. res = Inl e"
  proof (cases res)
    case (Inr h)
    obtain cid raw th source where ci: "claim_identity hx gi gr caller = (cid, raw, th, source)"
      by (metis prod_cases4)
    have cc: "caller_check caller = None" using run Inr by (cases "caller_check caller") (simp_all add: Claim_def db_fail_def)
    have up: "db_up env" using run Inr cc ci by (simp add: Claim_def db_conn_def split: if_splits)
    obtain x st1 where tx: "db_tx (claim_body rid owner secs cid raw th source) env (n, db) = (Inr x, st1)"
      using run cc ci up Inr by (auto simp: Claim_def db_conn_def db_bind_Inr)
    with claim_tx_Inr [of rid owner secs cid raw th source env n db x "fst st1" "snd st1"] assms(1,2)
    show ?thesis by auto
  qed simp
qed

lemma terminal_not_accepted:
  "get_run rid db = Some r \<Longrightarrow> isTerminalStatus (r_status r) \<Longrightarrow> \<not> lease_accepts rid c db"
  by (auto simp: lease_accepts_def lease_live_def)

end
