(* ===== verification/RunControl.thy ===== *)
theory RunControl
  imports RuntimeCommit LeaseSafety
begin

text \<open>
  Control commands on a Run: \<open>internal/store/ai_control_commands.go\<close>, the cancel service
  \<open>internal/api/run_control_service.go\<close>, and the transition and cancel endpoints
  (\<open>internal/api/control_plane_runs.go\<close>, \<open>internal/api/runs_control.go\<close>).

  A command carries a command id and a hash of its meaning; a repeated command returns the stored
  response, a reused id with another meaning is refused.  Cancelling sets the terminal status, raises
  the lease epoch and clears the lease in one transaction.

  A row of \<open>ai_control_commands\<close> stands for the scanned struct as well; NULL and the empty text of a
  nullable column read the same through \<open>null_string\<close>.
\<close>

section \<open>AIControlCommandDAO\<close>

definition get_command :: "gostring \<Rightarrow> store_db \<Rightarrow> control_command option" where
  "get_command cid db = sql_first (\<lambda>c. cc_command_id c = cid) (ai_control_commands db)"

definition insert_command :: "control_command \<Rightarrow> store_db \<Rightarrow> ins_result \<times> store_db" where
  "insert_command c db =
     (if list_ex (\<lambda>x. cc_command_id x = cc_command_id c \<or>
            (cc_run_id x = cc_run_id c \<and> cc_idempotency_key x = cc_idempotency_key c)) (ai_control_commands db)
      then (InsDup, db)
      else (InsOk, db\<lparr>ai_control_commands := ai_control_commands db @ [c]\<rparr>))"

text \<open>The row an insert writes: the default status, and no completion time.\<close>

definition command_row :: "control_command \<Rightarrow> millis \<Rightarrow> control_command" where
  "command_row c now = c\<lparr>cc_status := or_default (cc_status c) ''pending'', cc_completed_at := None,
     cc_created_at := now\<rparr>"

definition AIControlCommandDAO_CreateTx :: "control_command \<Rightarrow> millis \<Rightarrow> (store_db, bool) dbm" where
  "AIControlCommandDAO_CreateTx c now =
     db_bind (db_stmt (\<lambda>t. insert_command (command_row c now)))
       (\<lambda>res. case res of InsOk \<Rightarrow> db_ret True | InsDup \<Rightarrow> db_ret False | InsBad \<Rightarrow> db_fail DriverError)"

definition AIControlCommandDAO_Create :: "control_command \<Rightarrow> millis \<Rightarrow> (store_db, bool) dbm" where
  "AIControlCommandDAO_Create c now = db_conn (AIControlCommandDAO_CreateTx c now)"

text \<open>
  \<open>UpsertDoneTx\<close>: insert, or on a conflict with the primary key or with
  \<open>(run_id, idempotency_key)\<close>, looked at in this order, complete the row that is there.
\<close>

definition set_done :: "gostring \<Rightarrow> gostring \<Rightarrow> millis \<Rightarrow> control_command \<Rightarrow> control_command" where
  "set_done hash response now c = c\<lparr>cc_status := ''done'', cc_payload_hash := Some hash,
     cc_response := Some response, cc_completed_at := Some now\<rparr>"

definition done_row :: "gostring \<Rightarrow> gostring \<Rightarrow> gostring \<Rightarrow> gostring \<Rightarrow> gostring \<Rightarrow> millis \<Rightarrow> control_command" where
  "done_row cid rid op hash response now =
     \<lparr>cc_command_id = cid, cc_run_id = rid, cc_operation = op, cc_payload = None,
      cc_payload_hash = Some hash, cc_response = Some response, cc_status = ''done'',
      cc_completed_at = None, cc_idempotency_key = cid, cc_created_at = now\<rparr>"

definition upsert_done ::
  "gostring \<Rightarrow> gostring \<Rightarrow> gostring \<Rightarrow> gostring \<Rightarrow> gostring \<Rightarrow> millis \<Rightarrow> store_db \<Rightarrow> store_db" where
  "upsert_done cid rid op hash response now db =
     (if get_command cid db \<noteq> None
      then db\<lparr>ai_control_commands := sql_update (\<lambda>c. cc_command_id c = cid) (set_done hash response now)
                (ai_control_commands db)\<rparr>
      else if list_ex (\<lambda>c. cc_run_id c = rid \<and> cc_idempotency_key c = cid) (ai_control_commands db)
      then db\<lparr>ai_control_commands := sql_update (\<lambda>c. cc_run_id c = rid \<and> cc_idempotency_key c = cid)
                (set_done hash response now) (ai_control_commands db)\<rparr>
      else db\<lparr>ai_control_commands := ai_control_commands db @ [done_row cid rid op hash response now]\<rparr>)"

definition UpsertDoneTx ::
  "gostring \<Rightarrow> gostring \<Rightarrow> gostring \<Rightarrow> gostring \<Rightarrow> gostring \<Rightarrow> millis \<Rightarrow> (store_db, unit) dbm" where
  "UpsertDoneTx cid rid op hash response now =
     db_stmt (\<lambda>t db. ((), upsert_done cid rid op hash response now db))"

definition MarkDone :: "gostring \<Rightarrow> (store_db, unit) dbm" where
  "MarkDone cid = db_conn (db_stmt (\<lambda>t db. ((),
     db\<lparr>ai_control_commands := sql_update (\<lambda>c. cc_command_id c = cid) (\<lambda>c. c\<lparr>cc_status := ''done''\<rparr>)
          (ai_control_commands db)\<rparr>)))"

definition AIControlCommandDAO_GetTx :: "gostring \<Rightarrow> (store_db, control_command) dbm" where
  "AIControlCommandDAO_GetTx cid =
     db_bind (db_stmt (\<lambda>t db. (get_command cid db, db)))
       (\<lambda>row. case row of None \<Rightarrow> db_fail ErrCommandNotFound | Some c \<Rightarrow> db_ret c)"

definition AIControlCommandDAO_Get :: "gostring \<Rightarrow> (store_db, control_command) dbm" where
  "AIControlCommandDAO_Get cid = db_conn (AIControlCommandDAO_GetTx cid)"

definition ListByRunTx :: "gostring \<Rightarrow> (store_db, control_command list) dbm" where
  "ListByRunTx rid = db_stmt (\<lambda>t db.
     (sort_key cc_created_at (filter (\<lambda>c. cc_run_id c = rid) (ai_control_commands db)), db))"

definition ListByRun :: "gostring \<Rightarrow> (store_db, control_command list) dbm" where
  "ListByRun rid = db_conn (ListByRunTx rid)"

section \<open>ApplyRunControlCommandTx\<close>

text \<open>
  \<open>mutate\<close> is the callback of the caller: it runs inside the transaction and returns the response and
  whether it took effect.  The result is the response and whether it is a replay.  An error of the
  lookup, not found included, lets the command run.
\<close>

definition command_run ::
  "gostring \<Rightarrow> gostring \<Rightarrow> gostring \<Rightarrow> gostring \<Rightarrow> millis \<Rightarrow> (store_db, gostring \<times> bool) dbm \<Rightarrow>
     (store_db, (gostring \<times> bool) tx_end) dbm" where
  "command_run rid cid op hash now mutate =
     db_bind mutate
       (\<lambda>(response, ok). if \<not> ok then db_fail ErrRunControlConflict
          else if cid \<noteq> []
          then db_bind (UpsertDoneTx cid rid op hash response now) (\<lambda>_. db_ret (Commit (response, False)))
          else db_ret (Commit (response, False)))"

definition command_tx_body ::
  "gostring \<Rightarrow> gostring \<Rightarrow> gostring \<Rightarrow> gostring \<Rightarrow> millis \<Rightarrow> (store_db, gostring \<times> bool) dbm \<Rightarrow>
     (store_db, (gostring \<times> bool) tx_end) dbm" where
  "command_tx_body rid cid op hash now mutate =
     (if cid = [] then command_run rid cid op hash now mutate
      else db_bind (db_try (AIControlCommandDAO_GetTx cid))
        (\<lambda>got. case got of
           Inl _ \<Rightarrow> command_run rid cid op hash now mutate
         | Inr existing \<Rightarrow>
             if cc_status existing = ''done'' \<and> cc_operation existing = op \<and> null_string (cc_payload_hash existing) \<noteq> []
             then (if null_string (cc_payload_hash existing) = hash
                   then db_ret (Rollback (null_string (cc_response existing), True))
                   else db_fail ErrCommandIdempotencyReused)
             else command_run rid cid op hash now mutate))"

definition ApplyRunControlCommandTx ::
  "gostring \<Rightarrow> gostring \<Rightarrow> gostring \<Rightarrow> gostring \<Rightarrow> millis \<Rightarrow> (store_db, gostring \<times> bool) dbm \<Rightarrow>
     (store_db, gostring \<times> bool) dbm" where
  "ApplyRunControlCommandTx rid cid op hash now mutate =
     db_conn (db_tx (command_tx_body rid cid op hash now mutate))"

section \<open>The hash of a command\<close>

text \<open>
  The bytes that \<open>controlCommandPayloadHash\<close> digests; \<open>timeToBytes\<close> writes the version as eight bytes,
  highest first, of its two's complement.
\<close>

definition timeToBytes :: "int \<Rightarrow> gostring" where
  "timeToBytes n = map (\<lambda>i. char_of (take_bit 8 (drop_bit (8 * (7 - i)) n))) [0..<8]"

definition command_preimage :: "gostring \<Rightarrow> gostring \<Rightarrow> int option \<Rightarrow> gostring \<Rightarrow> gostring" where
  "command_preimage rid op expected target =
     rid @ [CHR 0x00] @ op @ [CHR 0x00] @
     (case expected of Some v \<Rightarrow> ''v'' @ timeToBytes v | None \<Rightarrow> ''n'') @ [CHR 0x00] @ target"

definition controlCommandPayloadHash ::
  "(gostring \<Rightarrow> gostring) \<Rightarrow> gostring \<Rightarrow> gostring \<Rightarrow> int option \<Rightarrow> gostring \<Rightarrow> gostring" where
  "controlCommandPayloadHash hx rid op expected target = hx (command_preimage rid op expected target)"

section \<open>The transition endpoint\<close>

record controlPlaneBodyTransition =
  bt_ExpectedVersion :: "int option"
  bt_Target :: gostring
  bt_CommandID :: gostring

text \<open>
  \<open>enc\<close> is \<open>runToResponseJSON\<close>, the JSON encoding of the Run.  A reply carries the stored bytes, which
  \<open>parseRunResponse\<close> turns into the object that is sent.
\<close>

definition transition_mutation ::
  "(AIRun \<Rightarrow> gostring) \<Rightarrow> gostring \<Rightarrow> gostring \<Rightarrow> gostring \<Rightarrow> int \<Rightarrow> millis \<Rightarrow> (store_db, gostring \<times> bool) dbm" where
  "transition_mutation enc tenant rid target expected now =
     db_bind (AIRunDAO_GetTx rid)
       (\<lambda>run. if tenant \<noteq> TenantID run then db_ret ([], False)
          else if \<not> validRunTransition (Status run) target then db_ret ([], False)
          else db_bind (TransitionTx rid target expected now)
            (\<lambda>ok. if \<not> ok then db_ret ([], False)
               else db_bind (AIRunDAO_GetTx rid) (\<lambda>updated. db_ret (enc updated, True))))"

definition respondRunControlError :: "store_error \<Rightarrow> 'a reply" where
  "respondRunControlError err =
     (if err = ErrRunControlConflict then Refuse 409 ''RUN_STATE_CONFLICT''
      else if err = ErrCommandIdempotencyReused then Refuse 409 ''IDEMPOTENCY_KEY_REUSED''
      else Refuse 500 ''control_command_failed'')"

definition internalControlPlaneRunTransition ::
  "trust \<Rightarrow> (AIRun \<Rightarrow> gostring) \<Rightarrow> (gostring \<Rightarrow> gostring) \<Rightarrow> gostring \<Rightarrow> controlPlaneBodyTransition option \<Rightarrow>
     millis \<Rightarrow> (store_db, gostring reply) dbm" where
  "internalControlPlaneRunTransition trust enc hx rid decoded now =
     (case authorizeInternalControlPlane trust ''control_plane.runs.mutate'' ''ai-orchestrator'' of
        Inl code \<Rightarrow> db_ret (respondInternalQueryError code)
      | Inr rctx \<Rightarrow>
        (case decoded of
           None \<Rightarrow> db_ret (Refuse 400 ''VALIDATION_FAILED'')
         | Some body \<Rightarrow>
           (case bt_ExpectedVersion body of
              None \<Rightarrow> db_ret (Refuse 400 ''MISSING_EXPECTED_VERSION'')
            | Some expected \<Rightarrow>
                if bt_Target body = [] then db_ret (Refuse 400 ''VALIDATION_FAILED'')
                else db_bind (db_try (ApplyRunControlCommandTx rid (bt_CommandID body) ''transition''
                        (controlCommandPayloadHash hx rid ''transition'' (Some expected) (bt_Target body)) now
                        (transition_mutation enc (iq_TenantID rctx) rid (bt_Target body) expected now)))
                  (\<lambda>res. case res of
                     Inl err \<Rightarrow> if err = ErrRunControlConflict \<or> err = ErrCommandIdempotencyReused
                                then db_ret (respondRunControlError err)
                                else db_ret (Refuse 500 ''run_transition_failed'')
                   | Inr (response, _) \<Rightarrow> db_ret (Reply response)))))"

section \<open>Cancel\<close>

definition set_cancel :: "millis \<Rightarrow> ai_run \<Rightarrow> ai_run" where
  "set_cancel now r = r
     \<lparr>r_status := ''cancelled'', r_state_version := r_state_version r + 1, r_updated_at := now,
      r_finished_at := Some now, r_lease_epoch := r_lease_epoch r + 1, r_lease_owner_id := None,
      r_lease_claim_id := None, r_lease_token_hash := None, r_lease_expires_at := None,
      r_heartbeat_at := None\<rparr>"

definition cancel_event :: "gostring \<Rightarrow> gostring \<Rightarrow> gostring \<Rightarrow> run_event" where
  "cancel_event rid eid requester =
     \<lparr>ev_event_id = eid, ev_run_id = rid, ev_sequence = 0, ev_event_type = ''run.cancelled'',
      ev_payload = ''{'' @ [CHR 0x22] @ ''requester'' @ [CHR 0x22] @ '':'' @ [CHR 0x22] @ requester @ [CHR 0x22] @ ''}'',
      ev_created_at = 0\<rparr>"

definition cancel_command :: "gostring \<Rightarrow> gostring \<Rightarrow> gostring \<Rightarrow> gostring \<Rightarrow> millis \<Rightarrow> control_command" where
  "cancel_command rid cid hash response now =
     \<lparr>cc_command_id = cid, cc_run_id = rid, cc_operation = ''cancel'', cc_payload = None,
      cc_payload_hash = Some hash, cc_response = Some response, cc_status = ''done'',
      cc_completed_at = None, cc_idempotency_key = ''cancel:'' @ rid, cc_created_at = now\<rparr>"

text \<open>
  How a cancel ends without an error of the store.  \<open>CancelReplayed\<close> is \<open>Cancelled: true\<close> without a
  Run: the command was known, or its record could not be inserted because of a duplicate key, in which
  case the deferred rollback undoes the cancellation.
\<close>

datatype cancel_outcome =
    CancelIdempotencyReused
  | CancelVersionConflict int int
  | CancelReplayed
  | CancelDone

text \<open>
  The comparison with \<open>sqlErrNoRows()\<close> never holds, since that function makes a new error value: a
  missing Run is reported as the driver's own error.  \<open>enc\<close> encodes the stored response from the new
  version; \<open>eid\<close> is the fresh event id.
\<close>

definition cancel_finish ::
  "(int \<Rightarrow> gostring) \<Rightarrow> gostring \<Rightarrow> gostring \<Rightarrow> gostring \<Rightarrow> int \<Rightarrow> millis \<Rightarrow>
     (store_db, cancel_outcome tx_end) dbm" where
  "cancel_finish enc rid cid hash version now =
     (if cid = [] then db_ret (Commit CancelDone)
      else db_bind (AIControlCommandDAO_CreateTx (cancel_command rid cid hash (enc (version + 1)) now) now)
        (\<lambda>created. if \<not> created then db_ret (Rollback CancelReplayed) else db_ret (Commit CancelDone)))"

definition cancel_apply ::
  "(int \<Rightarrow> gostring) \<Rightarrow> gostring \<Rightarrow> gostring \<Rightarrow> gostring \<Rightarrow> gostring \<Rightarrow> int \<Rightarrow> gostring \<Rightarrow> millis \<Rightarrow>
     (store_db, cancel_outcome tx_end) dbm" where
  "cancel_apply enc eid rid cid hash expected requester now =
     db_bind (db_stmt (\<lambda>t. update_run rid
         (\<lambda>x. r_state_version x = expected \<and> \<not> isTerminalStatus (r_status x)) (set_cancel now)))
      (\<lambda>_. db_bind (AppendTx (cancel_event rid eid requester) now)
        (\<lambda>_. cancel_finish enc rid cid hash expected now))"

definition cancel_run ::
  "(int \<Rightarrow> gostring) \<Rightarrow> gostring \<Rightarrow> gostring \<Rightarrow> gostring \<Rightarrow> gostring \<Rightarrow> int \<Rightarrow> gostring \<Rightarrow> millis \<Rightarrow>
     (store_db, cancel_outcome tx_end) dbm" where
  "cancel_run enc eid rid cid hash expected requester now =
     db_bind (db_stmt (\<lambda>t db. (get_run rid db, db)))
      (\<lambda>row. case row of
         None \<Rightarrow> db_fail SqlErrNoRows
       | Some r \<Rightarrow>
           if IsTerminalStatus (r_status r) then db_fail ErrRunTerminal
           else if expected \<noteq> r_state_version r
           then db_ret (Rollback (CancelVersionConflict expected (r_state_version r)))
           else cancel_apply enc eid rid cid hash expected requester now)"

definition cancel_body ::
  "(int \<Rightarrow> gostring) \<Rightarrow> gostring \<Rightarrow> gostring \<Rightarrow> gostring \<Rightarrow> gostring \<Rightarrow> int \<Rightarrow> gostring \<Rightarrow> millis \<Rightarrow>
     (store_db, cancel_outcome tx_end) dbm" where
  "cancel_body enc eid rid cid hash expected requester now =
     (if cid = [] then cancel_run enc eid rid cid hash expected requester now
      else db_bind (db_try (AIControlCommandDAO_GetTx cid))
        (\<lambda>got. case got of
           Inr existing \<Rightarrow> if null_string (cc_payload_hash existing) \<noteq> hash
                           then db_ret (Rollback CancelIdempotencyReused)
                           else db_ret (Rollback CancelReplayed)
         | Inl err \<Rightarrow> if err \<noteq> ErrCommandNotFound then db_fail err
                      else cancel_run enc eid rid cid hash expected requester now))"

text \<open>After the commit the Run is read back; an error of that read leaves it out.\<close>

definition CancelTx ::
  "(int \<Rightarrow> gostring) \<Rightarrow> gostring \<Rightarrow> gostring \<Rightarrow> gostring \<Rightarrow> gostring \<Rightarrow> int \<Rightarrow> gostring \<Rightarrow> millis \<Rightarrow>
     (store_db, cancel_outcome \<times> AIRun option) dbm" where
  "CancelTx enc eid rid cid hash expected requester now = db_conn
     (db_bind (db_tx (cancel_body enc eid rid cid hash expected requester now))
       (\<lambda>oc. if oc = CancelDone
          then db_bind (db_try (AIRunDAO_Get rid))
                 (\<lambda>got. db_ret (oc, case got of Inl _ \<Rightarrow> None | Inr run \<Rightarrow> Some run))
          else db_ret (oc, None)))"

definition respondCancelError :: "store_error \<Rightarrow> 'a reply" where
  "respondCancelError err =
     (if err = ErrRunNotFound then Refuse 404 ''RESOURCE_NOT_FOUND''
      else if err = ErrRunTerminal then Refuse 409 ''RUN_STATE_CONFLICT''
      else Refuse 500 ''cancel_failed'')"

text \<open>The internal endpoint: the tenant of the Run is checked before the transaction.\<close>

definition internalControlPlaneRunCancel ::
  "trust \<Rightarrow> (int \<Rightarrow> gostring) \<Rightarrow> (gostring \<Rightarrow> gostring) \<Rightarrow> gostring \<Rightarrow> gostring \<Rightarrow>
     (int option \<times> gostring) option \<Rightarrow> millis \<Rightarrow> (store_db, AIRun option reply) dbm" where
  "internalControlPlaneRunCancel trust enc hx eid rid decoded now =
     (case authorizeInternalControlPlane trust ''control_plane.runs.mutate'' ''ai-orchestrator'' of
        Inl code \<Rightarrow> db_ret (respondInternalQueryError code)
      | Inr rctx \<Rightarrow>
        (case decoded of
           None \<Rightarrow> db_ret (Refuse 400 ''VALIDATION_FAILED'')
         | Some (None, _) \<Rightarrow> db_ret (Refuse 400 ''MISSING_EXPECTED_VERSION'')
         | Some (Some expected, cid) \<Rightarrow>
            db_bind (db_try (AIRunDAO_Get rid))
             (\<lambda>got. case got of
                Inl _ \<Rightarrow> db_ret (Refuse 404 ''RESOURCE_NOT_FOUND'')
              | Inr pre \<Rightarrow>
                 if iq_TenantID rctx \<noteq> TenantID pre then db_ret (Refuse 403 ''TENANT_ACCESS_DENIED'')
                 else db_bind (db_try (CancelTx enc eid rid cid
                        (controlCommandPayloadHash hx rid ''cancel'' (Some expected) ''cancelled'')
                        expected ''system:control-plane'' now))
                   (\<lambda>res. case res of
                      Inl err \<Rightarrow> if err = ErrRunNotFound \<or> err = ErrRunTerminal
                                 then db_ret (respondCancelError err)
                                 else db_ret (Refuse 500 ''run_cancel_failed'')
                    | Inr (CancelVersionConflict _ _, _) \<Rightarrow> db_ret (Refuse 409 ''RUN_STATE_CONFLICT'')
                    | Inr (CancelIdempotencyReused, _) \<Rightarrow> db_ret (Refuse 409 ''IDEMPOTENCY_KEY_REUSED'')
                    | Inr (_, run) \<Rightarrow> db_ret (Reply run)))))"

text \<open>The scope check of the public endpoints.\<close>

definition runScopeDenied :: "AuthorizationContext \<Rightarrow> gostring \<Rightarrow> gostring \<Rightarrow> (int \<times> gostring) option" where
  "runScopeDenied auth tenant cluster =
     (if au_TenantID auth \<noteq> [] \<and> au_TenantID auth \<noteq> tenant then Some (403, ''TENANT_ACCESS_DENIED'')
      else if au_ActiveClusterID auth \<noteq> [] \<and> cluster \<noteq> [] \<and> au_ActiveClusterID auth \<noteq> cluster
      then Some (409, ''CONTEXT_SCOPE_MISMATCH'')
      else None)"

text \<open>
  The public endpoint; \<open>auth\<close> is the session of the request, if any.  The expected version is the one
  just read, and it enters the payload hash.
\<close>

definition PublicCancelRun ::
  "AuthorizationContext option \<Rightarrow> (int \<Rightarrow> gostring) \<Rightarrow> (gostring \<Rightarrow> gostring) \<Rightarrow> gostring \<Rightarrow> gostring \<Rightarrow>
     gostring \<Rightarrow> millis \<Rightarrow> (store_db, AIRun option reply) dbm" where
  "PublicCancelRun auth enc hx eid rid cid now =
     (case auth of
        None \<Rightarrow> db_ret (Refuse 403 ''permission_denied'')
      | Some a \<Rightarrow>
        if au_UserID a = [] then db_ret (Refuse 403 ''permission_denied'')
        else if rid = [] then db_ret (Refuse 400 ''VALIDATION_FAILED'')
        else db_bind (db_try (AIRunDAO_Get rid))
          (\<lambda>got. case got of
             Inl _ \<Rightarrow> db_ret (Refuse 404 ''RESOURCE_NOT_FOUND'')
           | Inr run \<Rightarrow>
             (case runScopeDenied a (TenantID run) (PrimaryClusterID run) of
                Some (code, msg) \<Rightarrow> db_ret (Refuse code msg)
              | None \<Rightarrow>
                 db_bind (db_try (CancelTx enc eid rid cid
                     (controlCommandPayloadHash hx rid ''cancel'' (Some (StateVersion run)) ''cancelled'')
                     (StateVersion run) (au_UserID a) now))
                  (\<lambda>res. case res of
                     Inl err \<Rightarrow>
                       if err = ErrRunTerminal then db_ret (Refuse 409 ''RUN_CANCELLED'')
                       else if err = ErrRunNotFound then db_ret (Refuse 404 ''RESOURCE_NOT_FOUND'')
                       else db_ret (Refuse 500 ''run_cancel_failed'')
                   | Inr (CancelVersionConflict _ _, _) \<Rightarrow> db_ret (Refuse 409 ''RUN_CANCELLED'')
                   | Inr (CancelIdempotencyReused, _) \<Rightarrow> db_ret (Refuse 409 ''IDEMPOTENCY_KEY_REUSED'')
                   | Inr _ \<Rightarrow>
                       db_bind (db_try (AIRunDAO_Get rid))
                         (\<lambda>upd. db_ret (Reply (case upd of Inl _ \<Rightarrow> None | Inr u \<Rightarrow> Some u)))))))"

section \<open>Lemmas\<close>

lemma set_cancel_key [key_simps, simp]: "r_run_id (set_cancel now r) = r_run_id r"
  by (simp add: set_cancel_def)

lemma set_cancel_fields [simp]:
  "r_status (set_cancel now r) = ''cancelled''"
  "r_state_version (set_cancel now r) = r_state_version r + 1"
  "r_lease_epoch (set_cancel now r) = r_lease_epoch r + 1"
  "r_lease_owner_id (set_cancel now r) = None"
  "r_last_event_sequence (set_cancel now r) = r_last_event_sequence r"
  "r_tenant_id (set_cancel now r) = r_tenant_id r"
  "r_primary_cluster_id (set_cancel now r) = r_primary_cluster_id r"
  by (simp_all add: set_cancel_def)

lemma get_run_commands_update [simp]: "get_run rid (db\<lparr>ai_control_commands := cs\<rparr>) = get_run rid db"
  by (simp add: get_run_def)

lemma db_quiet_commands [simp]: "db_quiet db (db\<lparr>ai_control_commands := cs\<rparr>)"
proof -
  have "\<exists>r'. get_run rid (db\<lparr>ai_control_commands := cs\<rparr>) = Some r' \<and> run_quiet r r'" if "get_run rid db = Some r" for rid r
    using that by (simp add: get_run_commands_update)
  then show ?thesis by (simp add: db_quiet_def)
qed

lemma CreateTx_command_Inr:
  assumes "AIControlCommandDAO_CreateTx c now env (n, db) = (Inr b, (n', db'))"
  shows "(b \<and> db' = db\<lparr>ai_control_commands := ai_control_commands db @ [command_row c now]\<rparr>) \<or> (\<not> b \<and> db' = db)"
  using assms
  by (auto simp: AIControlCommandDAO_CreateTx_def insert_command_def dbm_defs split: if_splits)

text \<open>What a committed cancel has done.\<close>

definition cancel_effect :: "gostring \<Rightarrow> int \<Rightarrow> store_db \<Rightarrow> store_db \<Rightarrow> bool" where
  "cancel_effect rid expected db db' \<longleftrightarrow>
     (\<exists>r r'. get_run rid db = Some r \<and> get_run rid db' = Some r' \<and> \<not> isTerminalStatus (r_status r) \<and>
        r_state_version r = expected \<and> r_status r' = ''cancelled'' \<and> r_state_version r' = expected + 1 \<and>
        r_lease_epoch r' = r_lease_epoch r + 1 \<and> r_lease_owner_id r' = None \<and>
        r_last_event_sequence r' = r_last_event_sequence r + 1)"

lemma cancel_finish_Inr:
  assumes "cancel_finish enc rid cid hash v now env (n, db) = (Inr x, (n', db'))"
  shows "(x = Commit CancelDone \<or> x = Rollback CancelReplayed) \<and>
    (db' = db \<or> (\<exists>cs. db' = db\<lparr>ai_control_commands := cs\<rparr>))"
  using assms CreateTx_command_Inr
  by (auto simp: cancel_finish_def db_ret_def db_bind_Inr split: if_split_asm) blast+

lemma cancel_apply_Inr:
  assumes inv: "cp_inv db" and fresh: "find_event rid eid db = None"
    and r: "get_run rid db = Some r" "\<not> isTerminalStatus (r_status r)" "r_state_version r = expected"
    and run: "cancel_apply enc eid rid cid hash expected requester now env (n, db) = (Inr x, (n', db'))"
  shows "(x = Commit CancelDone \<or> x = Rollback CancelReplayed) \<and> db_step db db' \<and> cp_inv db' \<and>
    cancel_effect rid expected db db'"
proof -
  let ?p = "\<lambda>x. r_state_version x = expected \<and> \<not> isTerminalStatus (r_status x)"
  let ?db1 = "snd (update_run rid ?p (set_cancel now) db)"
  have "db_bind (AppendTx (cancel_event rid eid requester) now) (\<lambda>_. cancel_finish enc rid cid hash expected now)
      env (Suc n, ?db1) = (Inr x, (n', db'))"
    using run by (simp add: cancel_apply_def db_bind_stmt_Inr)
  then obtain y st1 where y: "AppendTx (cancel_event rid eid requester) now env (Suc n, ?db1) = (Inr y, st1)"
    and f: "cancel_finish enc rid cid hash expected now env st1 = (Inr x, (n', db'))"
    unfolding db_bind_Inr by blast
  obtain e c n2 db2 where "y = (e, c)" "st1 = (n2, db2)" by (cases y; cases st1)
  with y f have ap: "AppendTx (cancel_event rid eid requester) now env (Suc n, ?db1) = (Inr (e, c), (n2, db2))"
    and fin: "cancel_finish enc rid cid hash expected now env (n2, db2) = (Inr x, (n', db'))" by simp_all
  have s1: "db_step db ?db1"
    using r by (intro db_step_update_run) (simp_all add: run_step_def run_moves_def)
  have i1: "cp_inv ?db1" by (rule cp_inv_update_run) (simp_all add: inv)
  have g1: "get_run rid ?db1 = Some (set_cancel now r)" using r by (simp add: get_run_update_run)
  have f1: "find_event rid eid ?db1 = None" using fresh by (simp add: find_event_def)
  have s2: "db_quiet ?db1 db2" "cp_inv db2" using AppendTx_step [OF i1 ap] by simp_all
  have "seq_ok ?db1" using i1 by (simp add: cp_inv_def)
  from AppendTx_Inr [OF this ap] f1 have "db2 = appended_db e ?db1" "ev_run_id e = rid"
    by (auto simp: cancel_event_def)
  then have g2: "get_run rid db2 = Some (bump_sequence (set_cancel now r))"
    using g1 by (simp add: get_run_appended_db)
  have s3: "db_quiet db2 db'" "cp_inv db'" "get_run rid db' = get_run rid db2"
    using cancel_finish_Inr [OF fin] s2(2) by auto
  have "db_step db db'" using s1 db_quiet_trans [OF s2(1) s3(1)] by (rule db_step_quiet)
  moreover have "cancel_effect rid expected db db'"
    unfolding cancel_effect_def using r g2 s3(3) by (intro exI2 [of _ r "bump_sequence (set_cancel now r)"]) simp
  ultimately show ?thesis using s3(2) cancel_finish_Inr [OF fin] by blast
qed

lemma cancel_run_Inr:
  assumes inv: "cp_inv db" and fresh: "find_event rid eid db = None"
    and run: "cancel_run enc eid rid cid hash expected requester now env (n, db) = (Inr x, (n', db'))"
  shows "(\<exists>oc. x = Rollback oc \<and> oc \<noteq> CancelDone) \<or>
    (x = Commit CancelDone \<and> db_step db db' \<and> cp_inv db' \<and> cancel_effect rid expected db db')"
proof (cases "get_run rid db")
  case None
  with run show ?thesis by (simp add: cancel_run_def db_bind_stmt_Inr db_fail_def)
next
  case (Some r)
  show ?thesis
  proof (cases "\<not> isTerminalStatus (r_status r) \<and> r_state_version r = expected")
    case True
    with run Some have "cancel_apply enc eid rid cid hash expected requester now env (Suc n, db) = (Inr x, (n', db'))"
      by (simp add: cancel_run_def db_bind_stmt_Inr IsTerminalStatus_def)
    from cancel_apply_Inr [OF inv fresh Some _ _ this] True show ?thesis by blast
  next
    case False
    with run Some show ?thesis
      by (auto simp: cancel_run_def db_bind_stmt_Inr IsTerminalStatus_def db_fail_def db_ret_def split: if_split_asm)
  qed
qed

lemma cancel_body_Inr:
  assumes "cancel_body enc eid rid cid hash expected requester now env (n, db) = (Inr x, st)"
  shows "x = Rollback CancelIdempotencyReused \<or> x = Rollback CancelReplayed \<or>
    (\<exists>m. cancel_run enc eid rid cid hash expected requester now env (m, db) = (Inr x, st))"
proof (cases "cid = []")
  case True
  with assms show ?thesis by (auto simp: cancel_body_def)
next
  case False
  with assms show ?thesis
    by (cases "get_command cid db"; cases "stmt_ok env n")
      (auto simp: cancel_body_def AIControlCommandDAO_GetTx_def dbm_defs split: if_split_asm)
qed

lemma CancelTx_cases:
  assumes inv: "cp_inv db" and fresh: "find_event rid eid db = None"
    and run: "CancelTx enc eid rid cid hash expected requester now env (n, db) = (res, (n', db'))"
  shows "((\<exists>x. res = Inr (CancelDone, x)) \<and> db_step db db' \<and> cp_inv db' \<and> cancel_effect rid expected db db')
       \<or> (db' = db \<and> (\<forall>x. res \<noteq> Inr (CancelDone, x)))"
proof (cases "db_up env")
  case False
  with run show ?thesis by (auto simp: CancelTx_def db_conn_def)
next
  case True
  let ?k = "\<lambda>oc. if oc = CancelDone
          then db_bind (db_try (AIRunDAO_Get rid))
                 (\<lambda>got. db_ret (oc, case got of Inl _ \<Rightarrow> None | Inr run \<Rightarrow> Some run))
          else db_ret (oc, None)"
  have rk: "\<And>oc. reads (?k oc)" by (intro reads_intros reads_AIRunDAO_Get)
  have b: "db_bind (db_tx (cancel_body enc eid rid cid hash expected requester now)) ?k env (n, db) = (res, (n', db'))"
    using run True by (simp add: CancelTx_def db_conn_def)
  obtain y m where tx: "db_tx (cancel_body enc eid rid cid hash expected requester now) env (n, db) = (y, (m, db'))"
    using db_bind_reads [OF rk b] by blast
  show ?thesis
  proof (cases y)
    case (Inl e)
    with db_tx_error_unchanged [OF tx [unfolded Inl]] b tx show ?thesis by (auto simp: db_bind_def)
  next
    case (Inr oc)
    have res: "(\<exists>x. res = Inr (oc, x))"
      using b tx Inr by (auto simp: db_bind_def db_try_def db_ret_def split: if_splits prod.splits)
    from tx [unfolded Inr] consider
      (rb) m1 db1 where "cancel_body enc eid rid cid hash expected requester now env (Suc n, db) = (Inr (Rollback oc), (m1, db1))" "db' = db"
    | (cm) m1 where "cancel_body enc eid rid cid hash expected requester now env (Suc n, db) = (Inr (Commit oc), (m1, db'))"
      unfolding db_tx_Inr by blast
    then show ?thesis
    proof cases
      case rb
      have "oc \<noteq> CancelDone"
        using cancel_body_Inr [OF rb(1)] cancel_run_Inr [OF inv fresh] by fastforce
      with rb(2) res show ?thesis by auto
    next
      case cm
      from cancel_body_Inr [OF cm] obtain k
        where "cancel_run enc eid rid cid hash expected requester now env (k, db) = (Inr (Commit oc), (m1, db'))" by blast
      from cancel_run_Inr [OF inv fresh this] res show ?thesis by blast
    qed
  qed
qed



lemma get_command_upsert_fresh:
  assumes "get_command cid db = None"
    and "\<not> list_ex (\<lambda>c. cc_run_id c = rid \<and> cc_idempotency_key c = cid) (ai_control_commands db)"
  shows "get_command cid (upsert_done cid rid op hash response now db) = Some (done_row cid rid op hash response now)"
  using assms by (simp add: upsert_done_def get_command_def done_row_def)

lemma GetTx_command_eq:
  "AIControlCommandDAO_GetTx cid env (n, db) =
     (if stmt_ok env n then (case get_command cid db of None \<Rightarrow> Inl ErrCommandNotFound | Some c \<Rightarrow> Inr c)
      else Inl DriverError, (Suc n, db))"
  by (cases "get_command cid db") (simp_all add: AIControlCommandDAO_GetTx_def dbm_defs)

lemma command_run_Inr:
  assumes "command_run rid cid op hash now mutate env (n, db) = (Inr x, (n', db'))"
  shows "\<exists>resp n1 db1. mutate env (n, db) = (Inr (resp, True), (n1, db1)) \<and> x = Commit (resp, False) \<and>
    db' = (if cid = [] then db1 else upsert_done cid rid op hash resp now db1)"
proof -
  obtain y st1 where y: "mutate env (n, db) = (Inr y, st1)"
    and k: "(case y of (response, ok) \<Rightarrow> if \<not> ok then db_fail ErrRunControlConflict
          else if cid \<noteq> []
          then db_bind (UpsertDoneTx cid rid op hash response now) (\<lambda>_. db_ret (Commit (response, False)))
          else db_ret (Commit (response, False))) env st1 = (Inr x, (n', db'))"
    using assms unfolding command_run_def db_bind_Inr by blast
  obtain resp ok n1 db1 where "y = (resp, ok)" "st1 = (n1, db1)" by (cases y; cases st1)
  with y k show ?thesis
    by (auto simp: db_fail_def db_ret_def UpsertDoneTx_def db_bind_stmt_Inr split: if_split_asm)
qed

text \<open>
  The transaction ends in a replay of the stored response, with nothing written, or in the effect of
  the mutation together with the record of the command.
\<close>

lemma ApplyRunControlCommandTx_cases:
  assumes "ApplyRunControlCommandTx rid cid op hash now mutate env (n, db) = (res, (n', db'))"
  shows "(db' = db \<and> (\<forall>resp b. res = Inr (resp, b) \<longrightarrow> b \<and> get_command cid db \<noteq> None)) \<or>
    (\<exists>resp m n1 db1. mutate env (m, db) = (Inr (resp, True), (n1, db1)) \<and> res = Inr (resp, False) \<and>
      db' = (if cid = [] then db1 else upsert_done cid rid op hash resp now db1))"
proof (cases "db_up env")
  case False
  with assms show ?thesis by (auto simp: ApplyRunControlCommandTx_def db_conn_def)
next
  case True
  let ?b = "command_tx_body rid cid op hash now mutate"
  have tx: "db_tx ?b env (n, db) = (res, (n', db'))"
    using assms True by (simp add: ApplyRunControlCommandTx_def db_conn_def)
  have body: "(\<exists>resp. x = Rollback (resp, True) \<and> get_command cid db \<noteq> None) \<or> (\<exists>m. command_run rid cid op hash now mutate env (m, db) = (Inr x, st))"
    if "?b env (Suc n, db) = (Inr x, st)" for x st
    using that
    by (cases "cid = []"; cases "get_command cid db"; cases "stmt_ok env (Suc n)")
      (auto simp: command_tx_body_def db_bind_def db_try_def GetTx_command_eq db_ret_def db_fail_def split: if_split_asm)
  show ?thesis
  proof (cases res)
    case (Inl e)
    with db_tx_error_unchanged [OF tx [unfolded Inl]] show ?thesis by simp
  next
    case (Inr y)
    from tx [unfolded Inr] show ?thesis unfolding db_tx_Inr
    proof (elim conjE disjE exE)
      fix s1 assume a: "?b env (Suc n, db) = (Inr (Rollback y), n', s1)" "db' = db"
      have "\<exists>resp. y = (resp, True) \<and> get_command cid db \<noteq> None" using body [OF a(1)] by (auto dest: command_run_Inr)
      with a(2) Inr show ?thesis by auto
    next
      fix m assume a: "?b env (Suc n, db) = (Inr (Commit y), m, db')"
      from body [OF a] obtain k where "command_run rid cid op hash now mutate env (k, db) = (Inr (Commit y), (m, db'))" by auto
      from command_run_Inr [OF this] obtain resp n1 db1 where "mutate env (k, db) = (Inr (resp, True), (n1, db1))"
        "y = (resp, False)" "db' = (if cid = [] then db1 else upsert_done cid rid op hash resp now db1)" by auto
      with Inr show ?thesis by blast
    qed
  qed
qed

lemma command_replay_calm:
  assumes "get_command cid db = Some (done_row cid rid op hash resp now)" and "cid \<noteq> []" and "hash \<noteq> []"
  shows "ApplyRunControlCommandTx rid cid op hash now' mutate (calm t) (m, db) = (Inr (resp, True), (m + 2, db))"
  using assms
  by (simp add: ApplyRunControlCommandTx_def db_conn_def db_tx_def command_tx_body_def db_bind_def db_try_def
      GetTx_command_eq done_row_def null_string_def db_ret_def)

lemma transition_mutation_Inr:
  assumes inv: "cp_inv db"
    and run: "transition_mutation enc tenant rid target expected now env (n, db) = (Inr (resp, True), (n', db'))"
  shows "\<exists>r. get_run rid db = Some r \<and> r_tenant_id r = tenant \<and> ValidateRunTransition (r_status r) target \<and>
    r_state_version r = expected \<and> resp = enc (scanAIRunRow (set_transition target now r)) \<and>
    db' = snd (update_run rid (\<lambda>r. r_state_version r = expected) (set_transition target now) db)"
proof -
  let ?u = "update_run rid (\<lambda>r. r_state_version r = expected) (set_transition target now) db"
  have u: "uniq_key r_run_id (ai_runs db)" using inv by (simp add: cp_inv_def)
  obtain r where r: "get_run rid db = Some r" and t: "tenant = r_tenant_id r" "validRunTransition (r_status r) target"
    and 1: "fst ?u = 1" and k: "db_bind (AIRunDAO_GetTx rid) (\<lambda>updated. db_ret (enc updated, True)) env (Suc (Suc n), snd ?u)
      = (Inr (resp, True), (n', db'))"
    using run
    by (auto simp: transition_mutation_def bind_GetTx_Inr TransitionTx_def db_bind_assoc db_bind_ret db_bind_stmt_Inr
        db_ret_def [of "([], False)"] split: if_split_asm)
  have v: "r_state_version r = expected" using update_run_eq_1 [OF u 1] r by auto
  have "get_run rid (snd ?u) = Some (set_transition target now r)" using r v by (simp add: get_run_update_run)
  with k have "resp = enc (scanAIRunRow (set_transition target now r))" "db' = snd ?u"
    by (auto simp: bind_GetTx_Inr db_ret_def)
  with r t v show ?thesis by (simp add: validRunTransition_eq)
qed

lemma upsert_done_runs:
  "get_run k (upsert_done cid rid op hash resp now db) = get_run k db"
  "cp_inv (upsert_done cid rid op hash resp now db) = cp_inv db"
  "db_quiet db (upsert_done cid rid op hash resp now db)"
  by (simp_all add: upsert_done_def)

lemma transition_effect:
  assumes inv: "cp_inv db"
    and mut: "transition_mutation enc tenant rid target expected now env (m, db) = (Inr (resp, True), (n1, db1))"
    and db': "db' = (if cid = [] then db1 else upsert_done cid rid op hash resp now db1)"
  shows "\<exists>r. get_run rid db = Some r \<and> r_tenant_id r = tenant \<and> ValidateRunTransition (r_status r) target \<and>
    r_state_version r = expected \<and> resp = enc (scanAIRunRow (set_transition target now r)) \<and>
    get_run rid db' = Some (set_transition target now r) \<and> db_step db db' \<and> cp_inv db' \<and>
    ai_control_commands db1 = ai_control_commands db"
proof -
  let ?u = "snd (update_run rid (\<lambda>r. r_state_version r = expected) (set_transition target now) db)"
  obtain r where r: "get_run rid db = Some r" "r_tenant_id r = tenant" "ValidateRunTransition (r_status r) target"
    "r_state_version r = expected" "resp = enc (scanAIRunRow (set_transition target now r))" and d: "db1 = ?u"
    using transition_mutation_Inr [OF inv mut] by blast
  have s: "db_step db ?u"
    using r by (intro db_step_update_run) (simp_all add: run_step_def run_moves_def)
  have i: "cp_inv ?u" by (rule cp_inv_update_run) (simp_all add: inv)
  have g: "get_run rid ?u = Some (set_transition target now r)" using r by (simp add: get_run_update_run)
  have "db_step db db'" using s db' d db_step_quiet [OF s upsert_done_runs(3)] by (cases "cid = []") simp_all
  moreover have "cp_inv db'" "get_run rid db' = Some (set_transition target now r)"
    using i g db' d by (simp_all add: upsert_done_runs)
  ultimately show ?thesis using r d by simp
qed

definition sample_transition :: controlPlaneBodyTransition where
  "sample_transition = \<lparr>bt_ExpectedVersion = Some 3, bt_Target = ''verifying'', bt_CommandID = ''cmd1''\<rparr>"

text \<open>
  C25.  The transition endpoint changes the database only for an authorized orchestrator of the Run's
  tenant, whose expected version is the current one, and along a legal move; the change is exactly that
  move, one version later, the reply is the encoding of the Run as moved, and the invariant is kept.
\<close>

theorem transition_endpoint_exact:
  assumes inv: "cp_inv db"
    and run: "internalControlPlaneRunTransition trust enc hx rid (Some body) now env (n, db) = (res, (n', db'))"
    and changed: "db' \<noteq> db"
  shows "\<exists>rctx r. authorizeInternalControlPlane trust ''control_plane.runs.mutate'' ''ai-orchestrator'' = Inr rctx \<and>
    get_run rid db = Some r \<and> r_tenant_id r = iq_TenantID rctx \<and> bt_ExpectedVersion body = Some (r_state_version r) \<and>
    ValidateRunTransition (r_status r) (bt_Target body) \<and>
    get_run rid db' = Some (set_transition (bt_Target body) now r) \<and>
    res = Inr (Reply (enc (scanAIRunRow (set_transition (bt_Target body) now r)))) \<and>
    db_step db db' \<and> cp_inv db'"
proof -
  let ?auth = "authorizeInternalControlPlane trust ''control_plane.runs.mutate'' ''ai-orchestrator''"
  obtain rctx where a: "?auth = Inr rctx"
    using run changed by (cases ?auth) (simp_all add: internalControlPlaneRunTransition_def db_ret_def)
  obtain expected where e: "bt_ExpectedVersion body = Some expected"
    using run changed a by (cases "bt_ExpectedVersion body") (simp_all add: internalControlPlaneRunTransition_def db_ret_def)
  have t: "bt_Target body \<noteq> []"
    using run changed a e by (auto simp: internalControlPlaneRunTransition_def db_ret_def)
  let ?A = "ApplyRunControlCommandTx rid (bt_CommandID body) ''transition''
      (controlCommandPayloadHash hx rid ''transition'' (Some expected) (bt_Target body)) now
      (transition_mutation enc (iq_TenantID rctx) rid (bt_Target body) expected now)"
  obtain ar m db1 where ap: "?A env (n, db) = (ar, (m, db1))" by (metis prod_cases3)
  have d: "db' = db1" and r: "\<And>resp b. ar = Inr (resp, b) \<Longrightarrow> res = Inr (Reply resp)"
    using run a e t ap
    by (auto simp: internalControlPlaneRunTransition_def db_bind_def db_try_def db_ret_def split: sum.splits if_splits prod.splits)
  from ApplyRunControlCommandTx_cases [OF ap] changed d obtain resp k n1 db2 where
    mut: "transition_mutation enc (iq_TenantID rctx) rid (bt_Target body) expected now env (k, db) = (Inr (resp, True), (n1, db2))"
    and ar: "ar = Inr (resp, False)" and up: "db' = (if bt_CommandID body = [] then db2
      else upsert_done (bt_CommandID body) rid ''transition'' (controlCommandPayloadHash hx rid ''transition'' (Some expected) (bt_Target body)) resp now db2)"
    by blast
  from transition_effect [OF inv mut up] a e r [OF ar] show ?thesis by auto
qed

theorem transition_endpoint_exact_witness:
  "map_option r_status (get_run ''r1'' (snd (snd (internalControlPlaneRunTransition sample_trust Status (\<lambda>x. CHR ''h'' # x)
     ''r1'' (Some sample_transition) 50 (calm 50) (0, sample_db))))) = Some ''verifying''"
proof -
  let ?r = "internalControlPlaneRunTransition sample_trust Status (\<lambda>x. CHR ''h'' # x) ''r1'' (Some sample_transition) 50
    (calm 50) (0, sample_db)"
  have e: "?r = (fst ?r, (fst (snd ?r), snd (snd ?r)))" by simp
  have "ai_control_commands (snd (snd ?r)) \<noteq> []" by code_simp
  then have "snd (snd ?r) \<noteq> sample_db" by (auto simp: sample_db_def empty_db_def)
  from transition_endpoint_exact [OF sample_inv e this] show ?thesis
    by (auto simp: sample_transition_def set_transition_def)
qed

text \<open>
  A transition under a fresh command id that was answered with a Run is answered the same way when
  the request is repeated, at any later time, and the repetition writes nothing.
\<close>

theorem transition_retry_same_reply:
  assumes inv: "cp_inv db"
    and run: "internalControlPlaneRunTransition trust enc hx rid (Some body) now env (n, db) = (Inr (Reply resp), (n', db'))"
    and cid: "bt_CommandID body \<noteq> []" and hx: "\<And>x. hx x \<noteq> []"
    and fresh: "get_command (bt_CommandID body) db = None"
      "\<not> list_ex (\<lambda>c. cc_run_id c = rid \<and> cc_idempotency_key c = bt_CommandID body) (ai_control_commands db)"
  shows "internalControlPlaneRunTransition trust enc hx rid (Some body) now' (calm t) (m, db') = (Inr (Reply resp), (m + 2, db'))"
proof -
  let ?auth = "authorizeInternalControlPlane trust ''control_plane.runs.mutate'' ''ai-orchestrator''"
  obtain rctx where a: "?auth = Inr rctx"
    using run by (cases ?auth) (simp_all add: internalControlPlaneRunTransition_def db_ret_def respondInternalQueryError_def)
  obtain expected where e: "bt_ExpectedVersion body = Some expected"
    using run a by (cases "bt_ExpectedVersion body") (simp_all add: internalControlPlaneRunTransition_def db_ret_def)
  have t: "bt_Target body \<noteq> []"
    using run a e by (auto simp: internalControlPlaneRunTransition_def db_ret_def)
  let ?h = "controlCommandPayloadHash hx rid ''transition'' (Some expected) (bt_Target body)"
  let ?A = "\<lambda>now. ApplyRunControlCommandTx rid (bt_CommandID body) ''transition'' ?h now
      (transition_mutation enc (iq_TenantID rctx) rid (bt_Target body) expected now)"
  obtain ar k db1 where ap: "?A now env (n, db) = (ar, (k, db1))" by (metis prod_cases3)
  have d: "db' = db1" and r: "\<exists>b. ar = Inr (resp, b)"
    using run a e t ap
    by (auto simp: internalControlPlaneRunTransition_def db_bind_def db_try_def db_ret_def respondRunControlError_def
        split: sum.splits if_splits prod.splits)
  have hn: "?h \<noteq> []" using hx by (simp add: controlCommandPayloadHash_def)
  obtain k' n1 db2 where mut: "transition_mutation enc (iq_TenantID rctx) rid (bt_Target body) expected now env (k', db)
      = (Inr (resp, True), (n1, db2))"
    and up: "db' = upsert_done (bt_CommandID body) rid ''transition'' ?h resp now db2"
    using ApplyRunControlCommandTx_cases [OF ap] fresh(1) r d cid by auto
  have "ai_control_commands db2 = ai_control_commands db"
    using transition_effect [OF inv mut refl, of "[]"] by blast
  then have "get_command (bt_CommandID body) db' = Some (done_row (bt_CommandID body) rid ''transition'' ?h resp now)"
    unfolding up using fresh by (intro get_command_upsert_fresh) (simp_all add: get_command_def)
  from command_replay_calm [OF this cid hn, of now' _ t m] a e t show ?thesis
    by (simp add: internalControlPlaneRunTransition_def db_bind_def db_try_def db_ret_def)
qed

theorem transition_retry_same_reply_witness:
  "let h = internalControlPlaneRunTransition sample_trust Status (\<lambda>x. CHR ''h'' # x) ''r1'' (Some sample_transition);
       db' = snd (snd (h 50 (calm 50) (0, sample_db)))
   in h 700 (calm 700) (0, db') = (Inr (Reply ''verifying''), (2, db'))"
proof -
  let ?h = "internalControlPlaneRunTransition sample_trust Status (\<lambda>x. CHR ''h'' # x) ''r1'' (Some sample_transition)"
  let ?r = "?h 50 (calm 50) (0, sample_db)"
  have "fst ?r = Inr (Reply ''verifying'')" by code_simp
  then have e: "?r = (Inr (Reply ''verifying''), (fst (snd ?r), snd (snd ?r)))" by (metis prod.collapse)
  have f: "bt_CommandID sample_transition \<noteq> []" "get_command (bt_CommandID sample_transition) sample_db = None"
    "\<not> list_ex (\<lambda>c. cc_run_id c = ''r1'' \<and> cc_idempotency_key c = bt_CommandID sample_transition) (ai_control_commands sample_db)"
    by (simp_all add: sample_transition_def get_command_def sample_db_def empty_db_def)
  from transition_retry_same_reply [OF sample_inv e f(1) _ f(2,3), of 700 700 0] show ?thesis
    by (simp add: Let_def)
qed

lemma timeToBytes_inj:
  assumes "timeToBytes m = timeToBytes n" and "- (2 ^ 63) \<le> m" "m < 2 ^ 63" "- (2 ^ 63) \<le> n" "n < 2 ^ 63"
  shows "m = n"
proof -
  have b: "take_bit 8 (drop_bit (8 * (7 - i)) m) = take_bit 8 (drop_bit (8 * (7 - i)) n)" if "i < 8" for i
  proof -
    have "char_of (take_bit 8 (drop_bit (8 * (7 - i)) m)) = (char_of (take_bit 8 (drop_bit (8 * (7 - i)) n)) :: char)"
      using assms(1) that by (simp add: timeToBytes_def list_eq_iff_nth_eq del: char_of_take_bit_eq)
    from arg_cong [OF this, of "of_char :: char \<Rightarrow> int"] show ?thesis
      by (simp add: take_bit_eq_mod)
  qed
  have "bit m k = bit n k" if "k < 64" for k
  proof -
    have e: "8 * (7 - (7 - k div 8)) + k mod 8 = k" using that by presburger
    have i: "7 - k div 8 < 8" "k mod 8 < 8" by simp_all
    have "bit (take_bit 8 (drop_bit (8 * (7 - (7 - k div 8))) m)) (k mod 8) = bit (take_bit 8 (drop_bit (8 * (7 - (7 - k div 8))) n)) (k mod 8)"
      using b [OF i(1)] by simp
    then show ?thesis using i(2) e by (simp only: bit_take_bit_iff bit_drop_bit_eq o_apply simp_thms)
  qed
  then have "take_bit 64 m = take_bit 64 n" by (auto simp: bit_eq_iff bit_take_bit_iff)
  then have "(m + 2 ^ 63) mod 2 ^ 64 = (n + 2 ^ 63) mod 2 ^ 64"
    unfolding take_bit_eq_mod by (rule mod_add_cong) (rule refl)
  moreover have "(k + 2 ^ 63) mod 2 ^ 64 = k + 2 ^ 63" if "- (2 ^ 63) \<le> k" "k < 2 ^ 63" for k :: int
    using that by (intro mod_pos_pos_trivial) simp_all
  ultimately show ?thesis using assms(2-) by simp
qed

text \<open>
  The hash of a command tells commands apart: two commands that differ in the Run, the operation,
  the expected version or the target have different hashes, unless the digest collides on the two byte
  strings.  Run ids and operation names contain no NUL byte, and versions are 64-bit integers.
\<close>

theorem command_hash_injective:
  assumes "CHR 0x00 \<notin> set rid \<union> set op \<union> set rid' \<union> set op'"
    and "\<forall>v\<in>set_option expected \<union> set_option expected'. - (2 ^ 63) \<le> v \<and> v < 2 ^ 63"
    and "hx (command_preimage rid op expected target) = hx (command_preimage rid' op' expected' target')
      \<Longrightarrow> command_preimage rid op expected target = command_preimage rid' op' expected' target'"
    and "(rid, op, expected, target) \<noteq> (rid', op', expected', target')"
  shows "controlCommandPayloadHash hx rid op expected target \<noteq> controlCommandPayloadHash hx rid' op' expected' target'"
proof
  assume "controlCommandPayloadHash hx rid op expected target = controlCommandPayloadHash hx rid' op' expected' target'"
  then have p: "command_preimage rid op expected target = command_preimage rid' op' expected' target'"
    using assms(3) unfolding controlCommandPayloadHash_def by blast
  have l: "length (timeToBytes v) = 8" for v by (simp add: timeToBytes_def)
  have "timeToBytes v @ CHR 0x00 # xs = timeToBytes w @ CHR 0x00 # ys \<longleftrightarrow> timeToBytes v = timeToBytes w \<and> xs = ys" for v w xs ys
    using l by (simp add: append_eq_append_conv)
  with p assms(1,2,4) timeToBytes_inj show False
    by (auto simp: command_preimage_def append_sep_eq split: option.splits)
qed

theorem command_hash_injective_witness:
  "controlCommandPayloadHash (\<lambda>x. x) ''r1'' ''cancel'' (Some 3) ''cancelled'' \<noteq>
   controlCommandPayloadHash (\<lambda>x. x) ''r1'' ''cancel'' (Some 4) ''cancelled''"
  by (rule command_hash_injective) simp_all

end
