(* ===== verification/ActionStore.thy ===== *)
theory ActionStore
  imports AIRuns
begin

text \<open>
  The tables behind an Action: \<open>internal/store/ai_actions.go\<close>, \<open>ai_approval_decisions.go\<close>,
  \<open>ai_action_attempts.go\<close>, \<open>ai_action_reconciliations.go\<close> and \<open>ai_manual_actions.go\<close>.

  A row stands for the Go struct as well; an empty string that the code writes through \<open>nullableStr\<close> is
  \<open>None\<close>.  \<open>now\<close> is the clock of the process.  Rows of these tables are never deleted, and of an Action
  only status, execution status, result, error code and the times change: the lemmas at the end state
  what each operation keeps.
\<close>

section \<open>AIActionDAO\<close>

definition get_action :: "gostring \<Rightarrow> store_db \<Rightarrow> ai_action option" where
  "get_action aid db = sql_first (\<lambda>a. ac_action_id a = aid) (ai_actions db)"

definition action_insert_row :: "millis \<Rightarrow> ai_action \<Rightarrow> ai_action" where
  "action_insert_row now a = a
     \<lparr>ac_hash_schema_version := (if ac_hash_schema_version a = 0 then 1 else ac_hash_schema_version a),
      ac_action_version := (if ac_action_version a = 0 then 1 else ac_action_version a),
      ac_policy_version := or_default (ac_policy_version a) ''action-policy-v1'',
      ac_preflight_status := or_default (ac_preflight_status a) ''unresolved'',
      ac_target_resource_type := or_default (ac_target_resource_type a) ''deployment'',
      ac_proposed_risk := or_default (ac_proposed_risk a) ''R0'',
      ac_authoritative_risk := or_default (ac_authoritative_risk a) ''R0'',
      ac_status := or_default (ac_status a) ''proposed'',
      ac_execution_status := or_default (ac_execution_status a) ''proposed'',
      ac_executed_at := None, ac_error_code := [], ac_created_at := now, ac_updated_at := now\<rparr>"

text \<open>The insert, under the primary key \<open>action_id\<close> and the unique key \<open>(run_id, idempotency_key)\<close>.\<close>

definition insert_action :: "ai_action \<Rightarrow> store_db \<Rightarrow> ins_result \<times> store_db" where
  "insert_action a db =
     (if list_ex (\<lambda>x. ac_action_id x = ac_action_id a \<or>
            (ac_run_id x = ac_run_id a \<and> ac_idempotency_key x = ac_idempotency_key a)) (ai_actions db)
      then (InsDup, db)
      else (InsOk, db\<lparr>ai_actions := ai_actions db @ [a]\<rparr>))"

definition AIActionDAO_Create :: "millis \<Rightarrow> ai_action \<Rightarrow> (store_db, bool) dbm" where
  "AIActionDAO_Create now a = db_conn
     (db_bind (db_stmt (\<lambda>t. insert_action (action_insert_row now a)))
       (\<lambda>res. case res of
          InsOk \<Rightarrow> db_ret True
        | InsBad \<Rightarrow> db_fail DriverError
        | InsDup \<Rightarrow>
            db_bind (db_try (db_stmt (\<lambda>t db. (map_option ac_action_hash (sql_first
                (\<lambda>x. ac_run_id x = ac_run_id a \<and> ac_idempotency_key x = ac_idempotency_key a) (ai_actions db)), db))))
              (\<lambda>q. case q of
                 Inr (Some existing) \<Rightarrow>
                   if existing \<noteq> ac_action_hash a then db_fail ErrIdempotencyPayloadMismatch else db_ret False
               | _ \<Rightarrow> db_fail ErrIdempotencyPayloadMismatch)))"

definition update_actions :: "(ai_action \<Rightarrow> bool) \<Rightarrow> (ai_action \<Rightarrow> ai_action) \<Rightarrow> store_db \<Rightarrow> store_db" where
  "update_actions p f db = db\<lparr>ai_actions := sql_update p f (ai_actions db)\<rparr>"

definition UpdateByIdemKey ::
  "gostring \<Rightarrow> gostring \<Rightarrow> gostring \<Rightarrow> json option \<Rightarrow> millis \<Rightarrow> (store_db, unit) dbm" where
  "UpdateByIdemKey rid key status result now = db_conn (db_stmt (\<lambda>t db. ((),
     update_actions (\<lambda>a. ac_run_id a = rid \<and> ac_idempotency_key a = key)
       (\<lambda>a. a\<lparr>ac_status := status, ac_result := result, ac_updated_at := now\<rparr>) db)))"

text \<open>
  The columns that \<open>ListByRun\<close>, \<open>ListByRunTx\<close> and \<open>GetByID\<close> select: the fields of the struct they leave
  out stay zero.
\<close>

definition action_view :: "ai_action \<Rightarrow> ai_action" where
  "action_view a = a
     \<lparr>ac_hash_schema_version := 0, ac_action_version := 0, ac_proposed_by := None, ac_policy_version := [],
      ac_preflight_status := [], ac_target_resource_type := []\<rparr>"

definition actions_by_run :: "gostring \<Rightarrow> store_db \<Rightarrow> ai_action list" where
  "actions_by_run rid db =
     map action_view (sort_key ac_created_at (filter (\<lambda>a. ac_run_id a = rid) (ai_actions db)))"

definition AIActionDAO_ListByRunTx :: "gostring \<Rightarrow> (store_db, ai_action list) dbm" where
  "AIActionDAO_ListByRunTx rid = db_stmt (\<lambda>t db. (actions_by_run rid db, db))"

definition AIActionDAO_ListByRun :: "gostring \<Rightarrow> (store_db, ai_action list) dbm" where
  "AIActionDAO_ListByRun rid = db_conn (db_stmt (\<lambda>t db. (actions_by_run rid db, db)))"

definition AIActionDAO_GetByID :: "gostring \<Rightarrow> (store_db, ai_action option) dbm" where
  "AIActionDAO_GetByID aid = db_conn (db_stmt (\<lambda>t db. (map_option action_view (get_action aid db), db)))"

definition isTerminalExecutionStatus :: "gostring \<Rightarrow> bool" where
  "isTerminalExecutionStatus s \<longleftrightarrow> s \<in> set [''success'', ''failed'', ''rejected'', ''rollback_required'']"

definition set_execution :: "gostring \<Rightarrow> json option \<Rightarrow> gostring \<Rightarrow> millis \<Rightarrow> ai_action \<Rightarrow> ai_action" where
  "set_execution status result code now a = a
     \<lparr>ac_execution_status := status, ac_result := result, ac_error_code := code,
      ac_executed_at := Some now, ac_updated_at := now\<rparr>"

definition UpdateExecution ::
  "gostring \<Rightarrow> gostring \<Rightarrow> json option \<Rightarrow> gostring \<Rightarrow> millis \<Rightarrow> (store_db, unit) dbm" where
  "UpdateExecution aid status result code now = db_conn (db_stmt (\<lambda>t db. ((),
     update_actions (\<lambda>a. ac_action_id a = aid \<and>
         ac_execution_status a \<notin> set [''success'', ''failed'', ''rejected'', ''rollback_required''])
       (set_execution status result code now) db)))"

section \<open>AIApprovalDecisionDAO\<close>

text \<open>
  The insert, under the primary key and the unique keys \<open>(action_id, action_version)\<close> and
  \<open>(action_id, decision_idempotency_key)\<close>; NULL is different from every value.
\<close>

definition approval_clash :: "approval_decision \<Rightarrow> approval_decision \<Rightarrow> bool" where
  "approval_clash p x \<longleftrightarrow> ap_approval_id x = ap_approval_id p \<or>
     (ap_action_id x = ap_action_id p \<and>
        (ap_action_version p \<noteq> None \<and> ap_action_version x = ap_action_version p \<or>
         ap_decision_key p \<noteq> None \<and> ap_decision_key x = ap_decision_key p))"

definition insert_approval :: "approval_decision \<Rightarrow> store_db \<Rightarrow> ins_result \<times> store_db" where
  "insert_approval p db =
     (if list_ex (approval_clash p) (ai_approval_decisions db) then (InsDup, db)
      else (InsOk, db\<lparr>ai_approval_decisions := ai_approval_decisions db @ [p]\<rparr>))"

definition approval_insert_row :: "millis \<Rightarrow> approval_decision \<Rightarrow> approval_decision" where
  "approval_insert_row now p = p\<lparr>ap_decision := or_default (ap_decision p) ''pending'', ap_created_at := now\<rparr>"

definition AIApprovalDecisionDAO_Create :: "millis \<Rightarrow> approval_decision \<Rightarrow> (store_db, bool) dbm" where
  "AIApprovalDecisionDAO_Create now p = db_conn
     (db_bind (db_stmt (\<lambda>t. insert_approval (approval_insert_row now p)))
       (\<lambda>res. case res of
          InsOk \<Rightarrow> db_ret True
        | InsBad \<Rightarrow> db_fail DriverError
        | InsDup \<Rightarrow>
            db_bind (db_stmt (\<lambda>t db.
                (sql_first (\<lambda>x. ap_approval_id x = ap_approval_id p) (ai_approval_decisions db), db)))
              (\<lambda>row. case row of
                 None \<Rightarrow> db_fail SqlErrNoRows
               | Some x \<Rightarrow>
                   if ap_action_hash x \<noteq> ap_action_hash p \<or>
                      null_int (ap_action_version x) \<noteq> null_int (ap_action_version p) \<or>
                      null_string (ap_decision_key x) \<noteq> null_string (ap_decision_key p)
                   then db_fail ErrIdempotencyPayloadMismatch else db_ret False)))"

definition approval_view :: "approval_decision \<Rightarrow> approval_decision" where
  "approval_view p = p\<lparr>ap_action_version := None, ap_decision_key := None\<rparr>"

definition approvals_by_run :: "gostring \<Rightarrow> store_db \<Rightarrow> approval_decision list" where
  "approvals_by_run rid db =
     map approval_view (sort_key ap_created_at (filter (\<lambda>p. ap_run_id p = rid) (ai_approval_decisions db)))"

definition AIApprovalDecisionDAO_ListByRunTx :: "gostring \<Rightarrow> (store_db, approval_decision list) dbm" where
  "AIApprovalDecisionDAO_ListByRunTx rid = db_stmt (\<lambda>t db. (approvals_by_run rid db, db))"

definition AIApprovalDecisionDAO_ListByRun :: "gostring \<Rightarrow> (store_db, approval_decision list) dbm" where
  "AIApprovalDecisionDAO_ListByRun rid = db_conn (db_stmt (\<lambda>t db. (approvals_by_run rid db, db)))"

text \<open>
  \<open>ORDER BY created_at DESC LIMIT 1\<close>, whatever the decision.  Of rows with the same time the first
  inserted is taken; the database may return any of them.
\<close>

definition latest_approval :: "gostring \<Rightarrow> store_db \<Rightarrow> approval_decision option" where
  "latest_approval aid db =
     (case sort_key (\<lambda>p. - ap_created_at p) (filter (\<lambda>p. ap_action_id p = aid) (ai_approval_decisions db)) of
        [] \<Rightarrow> None | p # _ \<Rightarrow> Some (approval_view p))"

definition GetApprovedApproval :: "gostring \<Rightarrow> (store_db, approval_decision option) dbm" where
  "GetApprovedApproval aid = db_conn (db_stmt (\<lambda>t db. (latest_approval aid db, db)))"

section \<open>AIActionAttemptDAO\<close>

definition attempt_insert_row :: "millis \<Rightarrow> action_attempt \<Rightarrow> action_attempt" where
  "attempt_insert_row now at = at
     \<lparr>at_request_digest := or_default (at_request_digest at) (at_action_hash at),
      at_status := or_default (at_status at) ''running'', at_completed_at := at_finished_at at,
      at_created_at := (if at_created_at at = 0 then now else at_created_at at)\<rparr>"

definition insert_attempt :: "action_attempt \<Rightarrow> store_db \<Rightarrow> ins_result \<times> store_db" where
  "insert_attempt at db =
     (if list_ex (\<lambda>x. at_attempt_id x = at_attempt_id at \<or>
            (at_action_id x = at_action_id at \<and> at_idempotency_key x = at_idempotency_key at)) (ai_action_attempts db)
      then (InsDup, db)
      else (InsOk, db\<lparr>ai_action_attempts := ai_action_attempts db @ [at]\<rparr>))"

definition AIActionAttemptDAO_Create :: "millis \<Rightarrow> action_attempt \<Rightarrow> (store_db, bool) dbm" where
  "AIActionAttemptDAO_Create now at = db_conn
     (db_bind (db_stmt (\<lambda>t. insert_attempt (attempt_insert_row now at)))
       (\<lambda>res. case res of
          InsOk \<Rightarrow> db_ret True
        | InsBad \<Rightarrow> db_fail DriverError
        | InsDup \<Rightarrow>
            db_bind (db_stmt (\<lambda>t db.
                (sql_first (\<lambda>x. at_attempt_id x = at_attempt_id at) (ai_action_attempts db), db)))
              (\<lambda>row. case row of
                 None \<Rightarrow> db_fail SqlErrNoRows
               | Some x \<Rightarrow>
                   if at_action_hash x \<noteq> at_action_hash at \<or>
                      at_request_digest x \<noteq> or_default (at_request_digest at) (at_action_hash at)
                   then db_fail ErrIdempotencyPayloadMismatch else db_ret False)))"

definition set_attempt ::
  "gostring \<Rightarrow> json option \<Rightarrow> gostring \<Rightarrow> millis option \<Rightarrow> action_attempt \<Rightarrow> action_attempt" where
  "set_attempt status result code finished at = at
     \<lparr>at_status := status, at_result := result, at_error_code := code, at_finished_at := finished,
      at_completed_at := finished\<rparr>"

definition AIActionAttemptDAO_Update ::
  "gostring \<Rightarrow> gostring \<Rightarrow> json option \<Rightarrow> gostring \<Rightarrow> millis option \<Rightarrow> (store_db, unit) dbm" where
  "AIActionAttemptDAO_Update atid status result code finished = db_conn (db_stmt (\<lambda>t db. ((),
     db\<lparr>ai_action_attempts := sql_update (\<lambda>x. at_attempt_id x = atid)
          (set_attempt status result code finished) (ai_action_attempts db)\<rparr>)))"

definition AIActionAttemptDAO_ListByRun :: "gostring \<Rightarrow> (store_db, action_attempt list) dbm" where
  "AIActionAttemptDAO_ListByRun rid = db_conn (db_stmt (\<lambda>t db.
     (sort_key at_created_at (filter (\<lambda>x. at_run_id x = rid) (ai_action_attempts db)), db)))"

section \<open>AIActionReconciliationDAO\<close>

definition AIActionReconciliationDAO_Create :: "action_reconciliation \<Rightarrow> (store_db, bool) dbm" where
  "AIActionReconciliationDAO_Create r = db_conn (db_stmt (\<lambda>t db.
     if list_ex (\<lambda>x. rc_reconciliation_id x = rc_reconciliation_id r \<or> rc_attempt_id x = rc_attempt_id r)
          (ai_action_reconciliations db)
     then (False, db)
     else (True, db\<lparr>ai_action_reconciliations := ai_action_reconciliations db @ [r]\<rparr>)))"

section \<open>CreateManualAction\<close>

definition manual_run_row :: "AIRun \<Rightarrow> millis \<Rightarrow> ai_run" where
  "manual_run_row run now =
     (let created = (if CreatedAt run = 0 then now else CreatedAt run)
      in insert_row (run\<lparr>Status := or_default (Status run) ''awaiting_approval'',
           PrincipalType := or_default (PrincipalType run) ''user'',
           ActionMode := or_default (ActionMode run) ''manual'', CreatedAt := created,
           UpdatedAt := (if UpdatedAt run = 0 then created else UpdatedAt run)\<rparr>))"

definition manual_action_row :: "AIRun \<Rightarrow> ai_action \<Rightarrow> millis \<Rightarrow> ai_action" where
  "manual_action_row run a now =
     (let created = (if CreatedAt run = 0 then now else CreatedAt run)
      in (action_insert_row created
           (a\<lparr>ac_run_id := RunID run, ac_tenant_id := TenantID run,
              ac_action_type := or_default (ac_action_type a) ''kubernetes'',
              ac_hash_schema_version := (if ac_hash_schema_version a = 0 then 2 else ac_hash_schema_version a),
              ac_preflight_status := or_default (ac_preflight_status a) ''passed''\<rparr>))
         \<lparr>ac_updated_at := (if UpdatedAt run = 0 then created else UpdatedAt run)\<rparr>)"

definition manual_replay :: "AIRun \<Rightarrow> ai_action \<Rightarrow> (store_db, bool tx_end) dbm" where
  "manual_replay run a =
     db_bind (db_stmt (\<lambda>t db. (sql_first
         (\<lambda>r. r_tenant_id r = TenantID run \<and> r_request_id r = RequestID run) (ai_runs db), db)))
      (\<lambda>row. case row of
         None \<Rightarrow> db_fail SqlErrNoRows
       | Some r \<Rightarrow>
           db_bind (db_stmt (\<lambda>t db. (map_option ac_action_hash
               (sql_first (\<lambda>x. ac_run_id x = r_run_id r) (ai_actions db)), db)))
             (\<lambda>h. case h of
                None \<Rightarrow> db_fail SqlErrNoRows
              | Some existing \<Rightarrow>
                  if existing \<noteq> ac_action_hash a then db_fail ErrIdempotencyPayloadMismatch
                  else db_ret (Commit False)))"

definition manual_body :: "millis \<Rightarrow> AIRun \<Rightarrow> ai_action \<Rightarrow> (store_db, bool tx_end) dbm" where
  "manual_body now run a =
     db_bind (db_stmt (\<lambda>t. insert_run (manual_run_row run now)))
       (\<lambda>res. case res of
          InsBad \<Rightarrow> db_fail DriverError
        | InsDup \<Rightarrow> manual_replay run a
        | InsOk \<Rightarrow>
            db_bind (db_stmt (\<lambda>t. insert_action (manual_action_row run a now)))
              (\<lambda>res2. if res2 = InsOk then db_ret (Commit True) else db_fail DuplicateEntry))"

definition CreateManualAction :: "millis \<Rightarrow> AIRun \<Rightarrow> ai_action \<Rightarrow> (store_db, bool) dbm" where
  "CreateManualAction now run a = db_conn
     (if RunID run = [] \<or> RequestID run = [] \<or> TenantID run = [] \<or> ac_action_id a = [] \<or> ac_action_hash a = []
      then db_fail ManualActionIdentityRequired
      else db_tx (manual_body now run a))"

section \<open>What the inserts do\<close>

lemma insert_run_ok: "insert_run r db = (InsOk, db') \<Longrightarrow>
    \<not> list_ex (\<lambda>x. r_run_id x = r_run_id r) (ai_runs db) \<and> db' = db\<lparr>ai_runs := ai_runs db @ [r]\<rparr>"
  by (auto simp: insert_run_def list_ex_iff split: if_splits)

lemma insert_action_ok: "insert_action a db = (InsOk, db') \<Longrightarrow>
    \<not> list_ex (\<lambda>x. ac_action_id x = ac_action_id a) (ai_actions db) \<and> db' = db\<lparr>ai_actions := ai_actions db @ [a]\<rparr>"
  by (auto simp: insert_action_def list_ex_iff split: if_splits)

lemma manual_replay_end: "manual_replay run a env st = (Inr x, st') \<Longrightarrow> x = Commit False \<and> snd st' = snd st"
  unfolding manual_replay_def
  by (cases st) (auto simp: db_bind_stmt_Inr db_ret_def db_fail_def split: option.splits if_splits)

lemma manual_body_Inr:
  assumes "manual_body now run a env (n, db) = (Inr x, (n', db'))"
  shows "x = Commit False \<and> db' = db \<or> x = Commit True \<and>
    \<not> list_ex (\<lambda>x. r_run_id x = RunID run) (ai_runs db) \<and>
    \<not> list_ex (\<lambda>x. ac_action_id x = ac_action_id a) (ai_actions db) \<and>
    db' = db\<lparr>ai_runs := ai_runs db @ [manual_run_row run now], ai_actions := ai_actions db @ [manual_action_row run a now]\<rparr>"
proof -
  let ?r = "manual_run_row run now" and ?a = "manual_action_row run a now"
  have ids: "r_run_id ?r = RunID run" "ac_action_id ?a = ac_action_id a"
    by (simp_all add: manual_run_row_def insert_row_def manual_action_row_def action_insert_row_def Let_def)
  obtain res db1 where r: "insert_run ?r db = (res, db1)" by fastforce
  obtain res2 db2 where a: "insert_action ?a db1 = (res2, db2)" by fastforce
  show ?thesis
  proof (cases res)
    case InsOk
    with assms r a have "res2 = InsOk" "x = Commit True" "db' = db2"
      by (auto simp: manual_body_def db_bind_stmt_Inr db_ret_def db_fail_def split: if_splits)
    with insert_run_ok [of ?r db db1] insert_action_ok [of ?a db1 db2] r a InsOk ids show ?thesis by simp
  next
    case InsDup
    then have "db1 = db" using r by (auto simp: insert_run_def split: if_splits)
    with assms r InsDup show ?thesis
      by (auto simp: manual_body_def db_bind_stmt_Inr dest: manual_replay_end)
  qed (use assms r in \<open>auto simp: manual_body_def db_bind_stmt_Inr db_fail_def\<close>)
qed

lemma CreateManualAction_cases:
  assumes "CreateManualAction now run a env (n, db) = (res, (n', db'))"
  shows "db' = db \<and> res \<noteq> Inr True \<or> res = Inr True \<and>
    \<not> list_ex (\<lambda>x. r_run_id x = RunID run) (ai_runs db) \<and>
    \<not> list_ex (\<lambda>x. ac_action_id x = ac_action_id a) (ai_actions db) \<and>
    db' = db\<lparr>ai_runs := ai_runs db @ [manual_run_row run now], ai_actions := ai_actions db @ [manual_action_row run a now]\<rparr>"
proof (cases res)
  case (Inl e)
  with assms show ?thesis
    by (auto simp: CreateManualAction_def db_conn_def db_fail_def split: if_splits dest: db_tx_error_unchanged)
next
  case (Inr y)
  with assms have "db_tx (manual_body now run a) env (n, db) = (Inr y, (n', db'))"
    by (simp add: CreateManualAction_def db_conn_def db_fail_def split: if_splits)
  with Inr show ?thesis by (auto simp: db_tx_Inr dest!: manual_body_Inr)
qed

end
