(* ===== verification/ActionProposal.thy ===== *)
theory ActionProposal
  imports ActionStore ApiBase
begin

text \<open>
  How an Action comes into being: the canonical payload and its hash
  (\<open>internal/contract/canonical_action.go\<close>), the preflight that reads the identity of the target
  (\<open>internal/api/action_preflight.go\<close>), the proposal of a user (\<open>action_proposal.go\<close>) and the appends of
  the orchestrator (\<open>control_plane_actions.go\<close>).

  \<open>hx\<close> is the hexadecimal SHA-256.  The reader of the target is an argument (\<open>ResolveTarget\<close> asks the
  Kubernetes API), and so are the clusters table and the identifiers that are drawn at random.
\<close>

unbundle bit_operations_syntax

section \<open>The canonical payload\<close>

record CanonicalActionPayloadV2 =
  cap_Version :: int
  cap_ActionType :: gostring
  cap_ResourceType :: gostring
  cap_Namespace :: gostring
  cap_TargetName :: gostring
  cap_TargetUID :: gostring
  cap_ResourceVersion :: gostring
  cap_Operation :: gostring
  cap_Params :: "json option"
  cap_PolicyVersion :: gostring

definition dec_int :: "int \<Rightarrow> gostring" where
  "dec_int v = (if v < 0 then CHR ''-'' # dec_nat (nat (- v)) else dec_nat (nat v))"

text \<open>\<open>json.Marshal\<close> of the struct: the members in the order of the fields, a nil message as \<open>null\<close>.\<close>

definition payload_json :: "CanonicalActionPayloadV2 \<Rightarrow> json" where
  "payload_json p = JObj
    [(''version'', JNum (dec_int (cap_Version p))), (''action_type'', JStr (cap_ActionType p)),
     (''resource_type'', JStr (cap_ResourceType p)), (''namespace'', JStr (cap_Namespace p)),
     (''target_name'', JStr (cap_TargetName p)), (''target_uid'', JStr (cap_TargetUID p)),
     (''resource_version'', JStr (cap_ResourceVersion p)), (''operation'', JStr (cap_Operation p)),
     (''params'', case cap_Params p of None \<Rightarrow> JNull | Some j \<Rightarrow> j),
     (''policy_version'', JStr (cap_PolicyVersion p))]"

text \<open>Marshal, decode with \<open>UseNumber\<close> and marshal again; on a JSON value none of the steps can fail.\<close>

definition NormalizeJSON :: "json \<Rightarrow> gostring" where
  "NormalizeJSON j = json_text (json_norm j)"

definition CanonicalActionHash :: "(gostring \<Rightarrow> gostring) \<Rightarrow> CanonicalActionPayloadV2 \<Rightarrow> gostring" where
  "CanonicalActionHash hx p = hx (NormalizeJSON (payload_json p))"

section \<open>Proposals\<close>

record ActionProposalRequest =
  pr_IdempotencyKey :: gostring
  pr_ClusterID :: gostring
  pr_ResourceType :: gostring
  pr_Namespace :: gostring
  pr_TargetName :: gostring
  pr_Operation :: gostring
  pr_Params :: "json option"

definition canonicalK8sActionKinds :: "(gostring \<times> gostring list) list" where
  "canonicalK8sActionKinds =
    [(''rollout_restart'', [''deployment'', ''statefulset'', ''daemonset'']),
     (''scale'', [''deployment'', ''statefulset'']),
     (''delete_pod'', [''pod'']),
     (''evict_pod'', [''pod'']),
     (''cordon'', [''node'']),
     (''uncordon'', [''node'']),
     (''drain'', [''node''])]"

definition allowed_kind :: "gostring \<Rightarrow> gostring \<Rightarrow> bool" where
  "allowed_kind op kind \<longleftrightarrow>
     (case map_of canonicalK8sActionKinds op of None \<Rightarrow> False | Some kinds \<Rightarrow> kind \<in> set kinds)"

definition normalizeActionProposalRequest :: "ActionProposalRequest \<Rightarrow> ActionProposalRequest" where
  "normalizeActionProposalRequest r = r
     \<lparr>pr_IdempotencyKey := trim_space (pr_IdempotencyKey r), pr_ClusterID := trim_space (pr_ClusterID r),
      pr_ResourceType := to_lower (trim_space (pr_ResourceType r)), pr_Namespace := trim_space (pr_Namespace r),
      pr_TargetName := trim_space (pr_TargetName r), pr_Operation := to_lower (trim_space (pr_Operation r))\<rparr>"

text \<open>\<open>strconv.ParseInt(s, 10, 64)\<close>: an optional sign and digits, within 64 bits.\<close>

definition digits_value :: "gostring \<Rightarrow> int" where
  "digits_value s = fold (\<lambda>c v. v * 10 + (int (of_char c) - 48)) s 0"

definition ParseInt :: "gostring \<Rightarrow> int option" where
  "ParseInt s =
     (let neg = (s \<noteq> [] \<and> hd s = CHR ''-'');
          ds = (if s \<noteq> [] \<and> (hd s = CHR ''-'' \<or> hd s = CHR ''+'') then tl s else s);
          v = (if neg then - digits_value ds else digits_value ds)
      in if ds = [] \<or> \<not> list_all is_digit ds \<or> v < - (2 ^ 63) \<or> 2 ^ 63 \<le> v then None else Some v)"

definition validateIntegerRange :: "json \<Rightarrow> int \<Rightarrow> int \<Rightarrow> gostring \<Rightarrow> gostring option" where
  "validateIntegerRange raw mn mx name =
     (case raw of
        JNum lit \<Rightarrow>
          (case ParseInt lit of
             None \<Rightarrow> Some (''params.'' @ name @ '' must be an integer between '' @ dec_int mn @ '' and '' @ dec_int mx)
           | Some v \<Rightarrow> if v < mn \<or> mx < v
               then Some (''params.'' @ name @ '' must be an integer between '' @ dec_int mn @ '' and '' @ dec_int mx)
               else None)
      | _ \<Rightarrow> Some (''params.'' @ name @ '' must be an integer''))"

text \<open>One parameter of a given name whose value is an integer in the range, and no other.\<close>

definition only_int_param :: "gostring \<Rightarrow> int \<Rightarrow> int \<Rightarrow> gostring \<Rightarrow> (gostring \<times> json) list \<Rightarrow> gostring + json" where
  "only_int_param name mn mx msg obj =
     (case obj of
        [(k, v)] \<Rightarrow> if k \<noteq> name then Inl msg
                    else (case validateIntegerRange v mn mx name of Some e \<Rightarrow> Inl e | None \<Rightarrow> Inr (JObj obj))
      | _ \<Rightarrow> Inl msg)"

definition restart_params :: json where
  "restart_params = JObj [(''metadata'', JObj [(''annotations'',
     JObj [(''aiops.observability.io/restartedAt'', JStr ''requested'')])])]"

text \<open>
  Absent parameters are the empty object.  The members of an object are collected in a Go map, so of
  a repeated name the last value counts; the result is the map marshalled again.
\<close>

definition canonicalizeActionParams :: "gostring \<Rightarrow> json option \<Rightarrow> gostring + json" where
  "canonicalizeActionParams op params =
     (case (case params of None \<Rightarrow> JObj [] | Some j \<Rightarrow> j) of
        JObj fs \<Rightarrow>
          (let obj = go_map fs in
           if op = ''scale''
           then only_int_param ''replicas'' 0 10000 ''scale requires only params.replicas'' obj
           else if op = ''delete_pod'' \<or> op = ''evict_pod''
           then only_int_param ''grace_period_seconds'' 0 600
                  ''pod action requires only params.grace_period_seconds'' obj
           else if op = ''drain''
           then only_int_param ''drain_timeout'' 1 3600 ''drain requires only params.drain_timeout'' obj
           else if op = ''rollout_restart''
           then (if obj \<noteq> [] then Inl ''rollout_restart does not accept params'' else Inr restart_params)
           else if obj \<noteq> [] then Inl ''this operation does not accept params''
           else Inr (JObj obj))
      | _ \<Rightarrow> Inl ''params must be a JSON object'')"

definition validateActionProposalRequest :: "ActionProposalRequest \<Rightarrow> gostring option" where
  "validateActionProposalRequest req0 =
     (let req = normalizeActionProposalRequest req0 in
      if pr_IdempotencyKey req = [] \<or> length (pr_IdempotencyKey req) > 255
      then Some ''idempotency_key is required and must be at most 255 bytes''
      else if \<not> match_classes canonicalUUID (pr_ClusterID req) then Some ''cluster_id must be a canonical UUID''
      else if pr_TargetName req = [] \<or> length (pr_TargetName req) > 253
      then Some ''target_name is required and must be at most 253 bytes''
      else if pr_ResourceType req \<noteq> ''node'' \<and> pr_Namespace req = []
      then Some ''namespace is required for namespaced targets''
      else if \<not> allowed_kind (pr_Operation req) (pr_ResourceType req)
      then Some ''operation is not allowed for resource_type''
      else (case canonicalizeActionParams (pr_Operation req) (pr_Params req) of
              Inl e \<Rightarrow> Some e | Inr _ \<Rightarrow> None))"

definition actionRiskForOperation :: "gostring \<Rightarrow> gostring" where
  "actionRiskForOperation op =
     (if op \<in> set [''delete_pod'', ''evict_pod'', ''cordon'', ''drain''] then ''R3''
      else if op \<in> set [''rollout_restart'', ''scale'', ''uncordon''] then ''R2''
      else ''R0'')"

section \<open>Preflight\<close>

record KubeObjectIdentity =
  ko_UID :: gostring
  ko_ResourceVersion :: gostring
  ko_Namespace :: gostring
  ko_Name :: gostring

record PreflightInput =
  pi_ClusterID :: gostring
  pi_ResourceType :: gostring
  pi_Namespace :: gostring
  pi_TargetName :: gostring
  pi_Operation :: gostring
  pi_Params :: "json option"

record ActionPreflightResult =
  pf_HashSchemaVersion :: int
  pf_ActionVersion :: int
  pf_ActionHash :: gostring
  pf_PolicyVersion :: gostring
  pf_PreflightStatus :: gostring
  pf_DryRun :: bool
  pf_ResourceType :: gostring
  pf_Namespace :: gostring
  pf_TargetName :: gostring
  pf_TargetUID :: gostring
  pf_ResourceVersion :: gostring
  pf_Operation :: gostring
  pf_Params :: json

type_synonym target_resolver = "gostring \<Rightarrow> gostring \<Rightarrow> gostring \<Rightarrow> gostring \<Rightarrow> KubeObjectIdentity option"

definition preflight_result ::
  "(gostring \<Rightarrow> gostring) \<Rightarrow> gostring \<Rightarrow> gostring \<Rightarrow> json \<Rightarrow> KubeObjectIdentity \<Rightarrow> ActionPreflightResult" where
  "preflight_result hx kind op params ko =
    \<lparr>pf_HashSchemaVersion = 2, pf_ActionVersion = 1,
     pf_ActionHash = CanonicalActionHash hx
       \<lparr>cap_Version = 1, cap_ActionType = ''kubernetes'', cap_ResourceType = kind,
        cap_Namespace = ko_Namespace ko, cap_TargetName = ko_Name ko, cap_TargetUID = ko_UID ko,
        cap_ResourceVersion = ko_ResourceVersion ko, cap_Operation = op, cap_Params = Some params,
        cap_PolicyVersion = ''action-policy-v1''\<rparr>,
     pf_PolicyVersion = ''action-policy-v1'', pf_PreflightStatus = ''passed'', pf_DryRun = False,
     pf_ResourceType = kind, pf_Namespace = ko_Namespace ko, pf_TargetName = ko_Name ko,
     pf_TargetUID = ko_UID ko, pf_ResourceVersion = ko_ResourceVersion ko, pf_Operation = op,
     pf_Params = params\<rparr>"

definition preflight_Resolve ::
  "(gostring \<Rightarrow> gostring) \<Rightarrow> target_resolver option \<Rightarrow> PreflightInput \<Rightarrow> gostring + ActionPreflightResult" where
  "preflight_Resolve hx resolver input =
     (case resolver of
        None \<Rightarrow> Inl ''action preflight resolver unavailable''
      | Some resolve \<Rightarrow>
        (let cluster = trim_space (pi_ClusterID input); kind = to_lower (trim_space (pi_ResourceType input));
             ns = trim_space (pi_Namespace input); name = trim_space (pi_TargetName input);
             op = to_lower (trim_space (pi_Operation input))
         in if cluster = [] \<or> name = [] then Inl ''cluster_id, namespace and target_name are required''
            else if kind \<noteq> ''node'' \<and> ns = [] then Inl ''namespace is required for namespaced targets''
            else if \<not> allowed_kind op kind then Inl ''unsupported operation for target resource type''
            else (case canonicalizeActionParams op (pi_Params input) of
               Inl e \<Rightarrow> Inl e
             | Inr params \<Rightarrow>
                 (case resolve cluster kind ns name of
                    None \<Rightarrow> Inl ''resolve target''
                  | Some ko \<Rightarrow>
                      if ko_UID ko = [] \<or> ko_ResourceVersion ko = [] then Inl ''target identity is incomplete''
                      else Inr (preflight_result hx kind op params ko)))))"

section \<open>Endpoints\<close>

text \<open>An identifier of UUID shape from the first sixteen bytes of a SHA-256 digest.\<close>

definition uuid_of_digest :: "8 word list \<Rightarrow> gostring" where
  "uuid_of_digest digest =
     (let b6 = (take 16 digest)[6 := ((digest ! 6) AND 0x0f) OR 0x50];
          b = b6[8 := ((b6 ! 8) AND 0x3f) OR 0x80]
      in hex_encode (take 4 b) @ ''-'' @ hex_encode (take 2 (drop 4 b)) @ ''-'' @
         hex_encode (take 2 (drop 6 b)) @ ''-'' @ hex_encode (take 2 (drop 8 b)) @ ''-'' @
         hex_encode (take 6 (drop 10 b)))"

definition idempotencyRequestID :: "(gostring \<Rightarrow> 8 word list) \<Rightarrow> gostring \<Rightarrow> gostring \<Rightarrow> gostring" where
  "idempotencyRequestID sha tenant key = uuid_of_digest (sha (''aiops:idempotency:'' @ tenant @ '':'' @ key))"

text \<open>The Action that a passed preflight describes, still without owner and scope.\<close>

definition preflight_action :: "ActionPreflightResult \<Rightarrow> ai_action" where
  "preflight_action pf =
    \<lparr>ac_action_id = [], ac_run_id = [], ac_tenant_id = [], ac_cluster_id = [], ac_action_type = [],
     ac_action_hash = pf_ActionHash pf, ac_hash_schema_version = pf_HashSchemaVersion pf,
     ac_action_version = pf_ActionVersion pf, ac_proposed_by = None, ac_policy_version = pf_PolicyVersion pf,
     ac_preflight_status = pf_PreflightStatus pf, ac_target_resource_type = pf_ResourceType pf,
     ac_idempotency_key = [], ac_proposed_risk = [], ac_authoritative_risk = [], ac_status = ''proposed'',
     ac_dry_run = pf_DryRun pf, ac_params = Some (pf_Params pf), ac_result = None,
     ac_target_name = pf_TargetName pf, ac_target_uid = pf_TargetUID pf,
     ac_resource_version = pf_ResourceVersion pf, ac_namespace = pf_Namespace pf,
     ac_operation = pf_Operation pf, ac_execution_status = [], ac_executed_at = None, ac_error_code = [],
     ac_created_at = 0, ac_updated_at = 0\<rparr>"

text \<open>The fields of the request body that the handler reads; the others are accepted and ignored.\<close>

record controlPlaneBodyAction =
  ba_ActionID :: gostring
  ba_ActionType :: gostring
  ba_IdempotencyKey :: gostring
  ba_ProposedRisk :: gostring
  ba_AuthoritativeRisk :: gostring
  ba_Params :: "json option"
  ba_TargetName :: gostring
  ba_Namespace :: gostring
  ba_Operation :: gostring
  ba_ResourceType :: gostring

definition internalControlPlaneActionAppend ::
  "trust \<Rightarrow> (gostring \<Rightarrow> gostring) \<Rightarrow> target_resolver option \<Rightarrow> gostring \<Rightarrow> controlPlaneBodyAction option \<Rightarrow>
     millis \<Rightarrow> (store_db, (gostring \<times> bool) reply) dbm" where
  "internalControlPlaneActionAppend trust hx resolver rid decoded now =
     db_bind (authorizeControlPlaneForRun trust ''control_plane.runs.mutate'' ''ai-orchestrator'' rid)
      (\<lambda>auth. case auth of
         Inl code \<Rightarrow> db_ret (respondInternalQueryError code)
       | Inr (_, run) \<Rightarrow>
        (case decoded of
           None \<Rightarrow> db_ret (Refuse 400 ''VALIDATION_FAILED'')
         | Some body \<Rightarrow>
             if ba_ActionID body = [] \<or> ba_IdempotencyKey body = [] then db_ret (Refuse 400 ''VALIDATION_FAILED'')
             else (case preflight_Resolve hx resolver
                  \<lparr>pi_ClusterID = PrimaryClusterID run,
                   pi_ResourceType = or_default (ba_ResourceType body) ''deployment'',
                   pi_Namespace = ba_Namespace body, pi_TargetName = ba_TargetName body,
                   pi_Operation = ba_Operation body, pi_Params = ba_Params body\<rparr> of
                Inl _ \<Rightarrow> db_ret (Refuse 422 ''ACTION_PREFLIGHT_FAILED'')
              | Inr pf \<Rightarrow>
                  db_bind (db_try (AIActionDAO_Create now ((preflight_action pf)
                      \<lparr>ac_action_id := ba_ActionID body, ac_run_id := rid, ac_tenant_id := TenantID run,
                       ac_cluster_id := PrimaryClusterID run,
                       ac_action_type := or_default (ba_ActionType body) ''kubernetes'',
                       ac_proposed_by := nullable_str (Principal run),
                       ac_idempotency_key := ba_IdempotencyKey body, ac_proposed_risk := ba_ProposedRisk body,
                       ac_authoritative_risk := ba_AuthoritativeRisk body\<rparr>)))
                   (\<lambda>res. case res of
                      Inl _ \<Rightarrow> db_ret (Refuse 500 ''action_persist_failed'')
                    | Inr created \<Rightarrow> db_ret (Reply (ba_ActionID body, created))))))"

record controlPlaneBodyApproval =
  bp_ApprovalID :: gostring
  bp_ActionID :: gostring
  bp_ActionHash :: gostring
  bp_Decision :: gostring
  bp_Approver :: gostring
  bp_Reason :: gostring

definition appended_approval :: "gostring \<Rightarrow> AIRun \<Rightarrow> controlPlaneBodyApproval \<Rightarrow> millis \<Rightarrow> approval_decision" where
  "appended_approval rid run body now =
    \<lparr>ap_approval_id = bp_ApprovalID body, ap_run_id = rid, ap_action_id = bp_ActionID body,
     ap_action_hash = bp_ActionHash body, ap_action_version = None, ap_decision_key = None,
     ap_tenant_id = TenantID run, ap_cluster_id = PrimaryClusterID run,
     ap_decision = or_default (bp_Decision body) ''pending'', ap_approver = bp_Approver body,
     ap_reason = nullable_str (bp_Reason body), ap_decided_at = Some now, ap_created_at = now\<rparr>"

definition internalControlPlaneApprovalAppend ::
  "trust \<Rightarrow> gostring \<Rightarrow> controlPlaneBodyApproval option \<Rightarrow> millis \<Rightarrow> (store_db, (gostring \<times> bool) reply) dbm" where
  "internalControlPlaneApprovalAppend trust rid decoded now =
     db_bind (authorizeControlPlaneForRun trust ''control_plane.runs.mutate'' ''ai-orchestrator'' rid)
      (\<lambda>auth. case auth of
         Inl code \<Rightarrow> db_ret (respondInternalQueryError code)
       | Inr (_, run) \<Rightarrow>
        (case decoded of
           None \<Rightarrow> db_ret (Refuse 400 ''VALIDATION_FAILED'')
         | Some body \<Rightarrow>
             if bp_ApprovalID body = [] \<or> bp_ActionID body = [] \<or> bp_Approver body = []
             then db_ret (Refuse 400 ''VALIDATION_FAILED'')
             else db_bind (db_try (AIApprovalDecisionDAO_Create now (appended_approval rid run body now)))
               (\<lambda>res. case res of
                  Inl _ \<Rightarrow> db_ret (Refuse 500 ''approval_persist_failed'')
                | Inr created \<Rightarrow> db_ret (Reply (bp_ApprovalID body, created)))))"

definition proposal_run :: "AuthorizationContext \<Rightarrow> gostring \<Rightarrow> gostring \<Rightarrow> ActionProposalRequest \<Rightarrow> millis \<Rightarrow> AIRun" where
  "proposal_run auth rid reqid req now =
    \<lparr>RunID = rid, RequestID = reqid, TenantID = au_TenantID auth, Principal = au_UserID auth,
     PrincipalType = ''user'', SessionID = au_SessionID auth, ScopeKind = ''single_cluster'',
     PrimaryClusterID = pr_ClusterID req,
     Intent = ''K8s '' @ pr_Operation req @ (if pr_ResourceType req = ''node'' then '' node/'' else '' '' @ pr_Namespace req @ ''/'') @
       pr_TargetName req,
     ActionMode = ''manual'', TargetType = pr_ResourceType req, TargetResourceID = pr_TargetName req,
     TimeRangeStart = None, TimeRangeEnd = None, Status = ''awaiting_approval'', StateVersion = 0,
     ParentRunID = [], CreatedAt = now, UpdatedAt = now, FinishedAt = None, LastEventSeq = 0,
     LeaseOwnerID = [], LeaseEpoch = 0, LeaseClaimID = [], LeaseTokenHash = [], LeaseExpiresAt = None,
     HeartbeatAt = None, RuntimeWaitKind = [], RetryNotBefore = None, RetryAttempt = 0,
     LastFailureCode = [], RuntimeMetadata = []\<rparr>"

definition proposal_action ::
  "AuthorizationContext \<Rightarrow> gostring \<Rightarrow> gostring \<Rightarrow> ActionProposalRequest \<Rightarrow> ActionPreflightResult \<Rightarrow> ai_action" where
  "proposal_action auth rid aid req pf = (preflight_action pf)
    \<lparr>ac_action_id := aid, ac_run_id := rid, ac_tenant_id := au_TenantID auth, ac_cluster_id := pr_ClusterID req,
     ac_action_type := ''kubernetes'', ac_proposed_by := nullable_str (au_UserID auth),
     ac_idempotency_key := pr_IdempotencyKey req,
     ac_proposed_risk := actionRiskForOperation (pr_Operation req),
     ac_authoritative_risk := actionRiskForOperation (pr_Operation req)\<rparr>"

text \<open>
  The checks of the public proposal, up to the preflight; \<open>clusters\<close> gives the tenant of a registered
  cluster.
\<close>

definition proposal_checks ::
  "AuthorizationContext option \<Rightarrow> (gostring \<Rightarrow> gostring) \<Rightarrow> target_resolver option \<Rightarrow> (gostring \<Rightarrow> gostring option) \<Rightarrow>
     ActionProposalRequest option \<Rightarrow>
     (int \<times> gostring) + (AuthorizationContext \<times> ActionProposalRequest \<times> ActionPreflightResult)" where
  "proposal_checks session hx resolver clusters decoded =
     (case session of
        None \<Rightarrow> Inl (403, ''permission_denied'')
      | Some auth \<Rightarrow>
        if au_UserID auth = [] \<or> au_TenantID auth = [] then Inl (403, ''permission_denied'')
        else (case decoded of
           None \<Rightarrow> Inl (400, ''VALIDATION_FAILED'')
         | Some raw \<Rightarrow>
           (let req = normalizeActionProposalRequest raw in
            if validateActionProposalRequest req \<noteq> None then Inl (422, ''VALIDATION_FAILED'')
            else (case clusters (trim_space (pr_ClusterID req)) of
               None \<Rightarrow> Inl (400, ''INVALID_CLUSTER'')
             | Some tenant \<Rightarrow>
               if tenant \<noteq> au_TenantID auth then Inl (403, ''TENANT_ACCESS_DENIED'')
               else (case preflight_Resolve hx resolver
                    \<lparr>pi_ClusterID = pr_ClusterID req, pi_ResourceType = pr_ResourceType req,
                     pi_Namespace = pr_Namespace req, pi_TargetName = pr_TargetName req,
                     pi_Operation = pr_Operation req, pi_Params = pr_Params req\<rparr> of
                  Inl _ \<Rightarrow> Inl (422, ''ACTION_PREFLIGHT_FAILED'')
                | Inr pf \<Rightarrow> Inr (auth, req, pf))))))"

text \<open>The answer to a repeated proposal: the Run and the first Action that are there.\<close>

definition proposal_existing :: "gostring \<Rightarrow> gostring \<Rightarrow> (store_db, (gostring \<times> gostring \<times> bool) reply) dbm" where
  "proposal_existing tenant reqid =
     db_bind (db_try (GetByTenantRequestID tenant reqid))
       (\<lambda>got. case got of
          Inl _ \<Rightarrow> db_ret (Refuse 409 ''ACTION_ALREADY_EXISTS'')
        | Inr existing \<Rightarrow>
            db_bind (db_try (AIActionDAO_ListByRun (RunID existing)))
              (\<lambda>acts. case acts of
                 Inr (a # _) \<Rightarrow> db_ret (Reply (RunID existing, ac_action_id a, False))
               | _ \<Rightarrow> db_ret (Refuse 409 ''ACTION_ALREADY_EXISTS'')))"

text \<open>The reply names the Run and the Action and says whether they were created now.\<close>

definition ActionProposalPublicHandler ::
  "AuthorizationContext option \<Rightarrow> (gostring \<Rightarrow> gostring) \<Rightarrow> (gostring \<Rightarrow> 8 word list) \<Rightarrow> target_resolver option \<Rightarrow>
     (gostring \<Rightarrow> gostring option) \<Rightarrow> gostring \<Rightarrow> gostring \<Rightarrow> ActionProposalRequest option \<Rightarrow> millis \<Rightarrow>
     (store_db, (gostring \<times> gostring \<times> bool) reply) dbm" where
  "ActionProposalPublicHandler session hx sha resolver clusters rid aid decoded now =
     (case proposal_checks session hx resolver clusters decoded of
        Inl (code, msg) \<Rightarrow> db_ret (Refuse code msg)
      | Inr (auth, req, pf) \<Rightarrow>
        (let reqid = idempotencyRequestID sha (au_TenantID auth) (pr_IdempotencyKey req) in
         db_bind (db_try (CreateManualAction now (proposal_run auth rid reqid req now)
             (proposal_action auth rid aid req pf)))
          (\<lambda>res. case res of
             Inl err \<Rightarrow> db_ret (if err = ErrIdempotencyPayloadMismatch
                              then Refuse 409 ''IDEMPOTENCY_KEY_REUSED''
                              else Refuse 500 ''action_proposal_persist_failed'')
           | Inr created \<Rightarrow> if created then db_ret (Reply (rid, aid, True))
                            else proposal_existing (au_TenantID auth) reqid)))"

section \<open>The hash determines the payload\<close>

lemma digit_of_char: "n < 10 \<Longrightarrow> of_char (char_of (48 + n :: nat)) = 48 + n"
  by simp

lemma digits_value_snoc: "digits_value (s @ [c]) = digits_value s * 10 + (int (of_char c) - 48)"
  by (simp add: digits_value_def)

lemma digits_value_dec_nat: "digits_value (dec_nat n) = int n"
proof (induction n rule: dec_nat.induct)
  case (1 n)
  show ?case
  proof (cases "n < 10")
    case True
    then show ?thesis by (subst dec_nat.simps) (simp add: digits_value_def)
  next
    case False
    with 1 show ?thesis
      by (subst dec_nat.simps) (simp add: digits_value_snoc, presburger)
  qed
qed

lemma digits_dec_nat: "list_all is_digit (dec_nat n) \<and> dec_nat n \<noteq> []"
proof (induction n rule: dec_nat.induct)
  case (1 n)
  have d: "is_digit (char_of (48 + k))" if "k < 10" for k :: nat
    using that by (simp add: is_digit_def)
  show ?case
    using 1 d [of n] d [of "n mod 10"] by (subst (1 2) dec_nat.simps) simp
qed

lemma dec_nat_inj: "dec_nat m = dec_nat n \<longleftrightarrow> m = n"
  by (metis digits_value_dec_nat of_nat_eq_iff)

lemma is_digit_num: "is_digit c \<Longrightarrow> num_char c \<and> num_start c \<and> c \<noteq> CHR ''-''"
  by (auto simp: is_digit_def num_char_def num_start_def)

lemma dec_int_literal: "num_literal (dec_int v)"
proof -
  have "num_literal (dec_nat n)" and "list_all num_char (dec_nat n)" for n
    using digits_dec_nat [of n] is_digit_num by (cases "dec_nat n"; auto simp: num_literal_def list_all_iff)+
  then show ?thesis by (auto simp: dec_int_def num_literal_def num_start_def num_char_def)
qed

lemma dec_int_inj: "dec_int v = dec_int w \<longleftrightarrow> v = w"
proof -
  have "dec_nat n \<noteq> CHR ''-'' # s" for n s
    using digits_dec_nat [of n] is_digit_num [of "CHR ''-''"] by (cases "dec_nat n") auto
  then show ?thesis by (auto simp: dec_int_def dec_nat_inj dest: sym)
qed

definition params_json :: "json option \<Rightarrow> json" where
  "params_json params = (case params of None \<Rightarrow> JNull | Some j \<Rightarrow> json_norm j)"

lemma payload_norm: "json_norm (payload_json p) = JObj
    [(''action_type'', JStr (cap_ActionType p)), (''namespace'', JStr (cap_Namespace p)),
     (''operation'', JStr (cap_Operation p)), (''params'', params_json (cap_Params p)),
     (''policy_version'', JStr (cap_PolicyVersion p)), (''resource_type'', JStr (cap_ResourceType p)),
     (''resource_version'', JStr (cap_ResourceVersion p)), (''target_name'', JStr (cap_TargetName p)),
     (''target_uid'', JStr (cap_TargetUID p)), (''version'', JNum (dec_int (cap_Version p)))]"
  by (simp add: payload_json_def go_map_def less_char_def params_json_def split: option.splits)

lemma payload_ok: "\<forall>j\<in>set_option (cap_Params p). json_ok j \<Longrightarrow> json_ok (json_norm (payload_json p))"
  by (rule json_ok_norm) (auto simp: payload_json_def dec_int_literal split: option.splits)

text \<open>
  C37.  The hash that a human approves stands for the whole payload: two payloads have the same hash
  exactly when every field is the same and the parameters are the same JSON value, whatever the order
  and repetition of object members, unless SHA-256 collides on the two canonical texts.
\<close>

theorem action_hash_binds_payload:
  assumes "\<forall>j\<in>set_option (cap_Params p) \<union> set_option (cap_Params q). json_ok j"
    and "hx (NormalizeJSON (payload_json p)) = hx (NormalizeJSON (payload_json q)) \<Longrightarrow>
      NormalizeJSON (payload_json p) = NormalizeJSON (payload_json q)"
  shows "CanonicalActionHash hx p = CanonicalActionHash hx q \<longleftrightarrow>
    p\<lparr>cap_Params := None\<rparr> = q\<lparr>cap_Params := None\<rparr> \<and> params_json (cap_Params p) = params_json (cap_Params q)"
proof -
  have "CanonicalActionHash hx p = CanonicalActionHash hx q \<longleftrightarrow> json_norm (payload_json p) = json_norm (payload_json q)"
    using assms json_text_inj [OF payload_ok payload_ok, of p q] by (auto simp: CanonicalActionHash_def NormalizeJSON_def)
  then show ?thesis
    by (cases p; cases q) (auto simp: payload_norm dec_int_inj)
qed

definition sample_payload :: "gostring \<Rightarrow> CanonicalActionPayloadV2" where
  "sample_payload replicas =
    \<lparr>cap_Version = 1, cap_ActionType = ''kubernetes'', cap_ResourceType = ''deployment'', cap_Namespace = ''shop'',
     cap_TargetName = ''cart'', cap_TargetUID = ''u1'', cap_ResourceVersion = ''7'', cap_Operation = ''scale'',
     cap_Params = Some (JObj [(''replicas'', JNum replicas)]), cap_PolicyVersion = ''action-policy-v1''\<rparr>"

theorem action_hash_binds_payload_witness:
  "CanonicalActionHash (\<lambda>x. x) (sample_payload ''3'') \<noteq> CanonicalActionHash (\<lambda>x. x) (sample_payload ''30'')"
  by (subst action_hash_binds_payload)
    (simp_all add: sample_payload_def num_literal_def num_start_def num_char_def is_digit_def params_json_def go_map_def)

section \<open>What a preflight passes\<close>

lemma preflight_Resolve_Inr:
  assumes "preflight_Resolve hx resolver input = Inr pf"
  shows "\<exists>kind op params ko. pf = preflight_result hx kind op params ko \<and> ko_UID ko \<noteq> [] \<and> ko_ResourceVersion ko \<noteq> [] \<and>
    allowed_kind op kind \<and> canonicalizeActionParams op (pi_Params input) = Inr params"
  using assms by (auto simp: preflight_Resolve_def Let_def split: option.splits if_splits sum.splits)

lemma allowed_kind_nonempty: "allowed_kind op kind \<Longrightarrow> kind \<noteq> [] \<and> op \<noteq> []"
  by (auto simp: allowed_kind_def canonicalK8sActionKinds_def split: if_splits option.splits)

end
