(* ===== verification/Outbox.thy ===== *)
theory Outbox
  imports Fencing AIRuns "HOL-Library.Word"
begin

text \<open>
  Durable dispatch: \<open>internal/store/ai_run_outbox.go\<close>, \<open>internal/store/ai_action_outbox.go\<close> and the
  dispatcher \<open>internal/api/run_dispatch.go\<close>.

  A record is pending, claimed or delivered.  A claim takes a pending record, or a claimed one whose
  lease is over, and raises its dispatch epoch; Deliver and Retry take effect only for the owner,
  epoch and token of the current claim.  The two tables have the same life cycle; what follows from
  it is proved once, in the locale \<open>dispatch_rows\<close>, which both tables instantiate.

  A row stands for the scanned struct as well.  \<open>NOW()\<close> is \<open>sql_now\<close> of the database clock.
\<close>

section \<open>DispatchFence\<close>

record DispatchFence =
  df_OwnerID :: gostring
  df_Epoch :: int
  df_TokenHash :: gostring

text \<open>\<open>token\<close> is the value of \<open>randomHash()\<close>, drawn for each claim.\<close>

definition NewDispatchFence :: "gostring \<Rightarrow> gostring \<Rightarrow> DispatchFence" where
  "NewDispatchFence token owner = \<lparr>df_OwnerID = owner, df_Epoch = 0, df_TokenHash = token\<rparr>"

section \<open>AIRunOutboxDAO\<close>

definition claimable_outbox :: "millis \<Rightarrow> run_outbox \<Rightarrow> bool" where
  "claimable_outbox now ob \<longleftrightarrow> ob_status ob = ''pending'' \<or>
     (ob_status ob = ''claimed'' \<and> (case ob_expires_at ob of None \<Rightarrow> False | Some e \<Rightarrow> e \<le> now))"

definition fence_outbox :: "DispatchFence \<Rightarrow> run_outbox \<Rightarrow> bool" where
  "fence_outbox f ob \<longleftrightarrow> ob_owner ob = Some (df_OwnerID f) \<and> ob_epoch ob = df_Epoch f \<and>
     ob_token ob = Some (df_TokenHash f)"

definition set_outbox_claim :: "gostring \<Rightarrow> gostring \<Rightarrow> int \<Rightarrow> millis \<Rightarrow> run_outbox \<Rightarrow> run_outbox" where
  "set_outbox_claim owner token secs now ob = ob
     \<lparr>ob_status := ''claimed'', ob_dispatch_count := ob_dispatch_count ob + 1, ob_owner := Some owner,
      ob_epoch := ob_epoch ob + 1, ob_token := Some token, ob_expires_at := Some (now + 1000 * secs),
      ob_next_retry_at := Some (now + 1000 * secs), ob_updated_at := now\<rparr>"

definition set_outbox_delivered :: "millis \<Rightarrow> run_outbox \<Rightarrow> run_outbox" where
  "set_outbox_delivered now ob = ob
     \<lparr>ob_status := ''delivered'', ob_delivered_at := Some now, ob_updated_at := now\<rparr>"

definition set_outbox_retry :: "millis \<Rightarrow> millis \<Rightarrow> run_outbox \<Rightarrow> run_outbox" where
  "set_outbox_retry next_retry now ob = ob
     \<lparr>ob_status := ''pending'', ob_next_retry_at := Some next_retry, ob_updated_at := now\<rparr>"

text \<open>
  \<open>Insert\<close> writes the six columns of the statement, the others get their defaults; a duplicate key
  leaves the row that is there.
\<close>

definition outbox_insert_row :: "run_outbox \<Rightarrow> run_outbox" where
  "outbox_insert_row ob = ob
     \<lparr>ob_status := or_default (ob_status ob) ''pending'', ob_next_retry_at := None, ob_owner := None,
      ob_epoch := 0, ob_token := None, ob_expires_at := None, ob_delivered_at := None\<rparr>"

definition AIRunOutboxDAO_Insert :: "run_outbox \<Rightarrow> (store_db, unit) dbm" where
  "AIRunOutboxDAO_Insert ob = db_conn (db_stmt (\<lambda>t db. ((), snd (insert_outbox (outbox_insert_row ob) db))))"

text \<open>
  \<open>Claim\<close>: the statement reports the number of rows and, through \<open>LAST_INSERT_ID(dispatch_epoch + 1)\<close>,
  the new epoch.  \<open>secs\<close> is \<open>int64(lease.Seconds())\<close>.
\<close>

definition claim_outbox_row ::
  "gostring \<Rightarrow> gostring \<Rightarrow> gostring \<Rightarrow> int \<Rightarrow> millis \<Rightarrow> store_db \<Rightarrow> (nat \<times> int) \<times> store_db" where
  "claim_outbox_row token iid owner secs now db =
     (let p = \<lambda>ob. ob_invocation_id ob = iid \<and> claimable_outbox now ob;
          f = set_outbox_claim owner token secs now
      in ((sql_affected p f (ai_run_outbox db),
           case sql_first p (ai_run_outbox db) of None \<Rightarrow> 0 | Some ob \<Rightarrow> ob_epoch ob + 1),
          db\<lparr>ai_run_outbox := sql_update p f (ai_run_outbox db)\<rparr>))"

definition AIRunOutboxDAO_Claim ::
  "gostring \<Rightarrow> gostring \<Rightarrow> gostring \<Rightarrow> int \<Rightarrow> (store_db, DispatchFence \<times> bool) dbm" where
  "AIRunOutboxDAO_Claim token iid owner secs = db_conn
     (db_bind (db_stmt (\<lambda>t. claim_outbox_row token iid owner (lease_or_30 secs) (sql_now t)))
       (\<lambda>(n, epoch).
          if n \<noteq> 1 then db_ret (NewDispatchFence token owner, False)
          else if epoch \<le> 0 then db_fail DispatchEpochUnavailable
          else db_ret ((NewDispatchFence token owner)\<lparr>df_Epoch := epoch\<rparr>, True)))"

definition AIRunOutboxDAO_Deliver :: "gostring \<Rightarrow> DispatchFence \<Rightarrow> (store_db, unit) dbm" where
  "AIRunOutboxDAO_Deliver iid f = db_conn (db_stmt (\<lambda>t db. ((),
     db\<lparr>ai_run_outbox := sql_update (\<lambda>ob. ob_invocation_id ob = iid \<and> fence_outbox f ob)
          (set_outbox_delivered (sql_now t)) (ai_run_outbox db)\<rparr>)))"

definition AIRunOutboxDAO_Retry :: "gostring \<Rightarrow> DispatchFence \<Rightarrow> millis \<Rightarrow> (store_db, unit) dbm" where
  "AIRunOutboxDAO_Retry iid f next_retry = db_conn (db_stmt (\<lambda>t db. ((),
     db\<lparr>ai_run_outbox := sql_update (\<lambda>ob. ob_invocation_id ob = iid \<and> fence_outbox f ob)
          (set_outbox_retry next_retry (sql_now t)) (ai_run_outbox db)\<rparr>)))"

definition due_outbox :: "millis \<Rightarrow> run_outbox \<Rightarrow> bool" where
  "due_outbox now ob \<longleftrightarrow>
     (ob_status ob = ''pending'' \<and> (case ob_next_retry_at ob of None \<Rightarrow> True | Some r \<Rightarrow> r \<le> now)) \<or>
     (ob_status ob = ''claimed'' \<and> (case ob_expires_at ob of None \<Rightarrow> False | Some e \<Rightarrow> e \<le> now))"

definition AIRunOutboxDAO_ScanPending :: "int \<Rightarrow> (store_db, run_outbox list) dbm" where
  "AIRunOutboxDAO_ScanPending limit = db_conn (db_stmt (\<lambda>t db.
     (sql_order_limit ob_created_at (nat (if limit \<le> 0 then 50 else limit))
        (filter (due_outbox (sql_now t)) (ai_run_outbox db)), db)))"

section \<open>AIActionOutboxDAO\<close>

definition claimable_action_outbox :: "millis \<Rightarrow> action_outbox \<Rightarrow> bool" where
  "claimable_action_outbox now ao \<longleftrightarrow> ao_status ao = ''pending'' \<or>
     (ao_status ao = ''claimed'' \<and> (case ao_expires_at ao of None \<Rightarrow> False | Some e \<Rightarrow> e \<le> now))"

definition fence_action_outbox :: "DispatchFence \<Rightarrow> action_outbox \<Rightarrow> bool" where
  "fence_action_outbox f ao \<longleftrightarrow> ao_owner ao = Some (df_OwnerID f) \<and> ao_epoch ao = df_Epoch f \<and>
     ao_token ao = Some (df_TokenHash f)"

definition set_action_outbox_claim :: "gostring \<Rightarrow> gostring \<Rightarrow> int \<Rightarrow> millis \<Rightarrow> action_outbox \<Rightarrow> action_outbox" where
  "set_action_outbox_claim owner token secs now ao = ao
     \<lparr>ao_status := ''claimed'', ao_dispatch_count := ao_dispatch_count ao + 1, ao_owner := Some owner,
      ao_epoch := ao_epoch ao + 1, ao_token := Some token, ao_expires_at := Some (now + 1000 * secs),
      ao_next_retry_at := Some (now + 1000 * secs), ao_updated_at := now\<rparr>"

definition set_action_outbox_delivered :: "millis \<Rightarrow> action_outbox \<Rightarrow> action_outbox" where
  "set_action_outbox_delivered now ao = ao
     \<lparr>ao_status := ''delivered'', ao_delivered_at := Some now, ao_updated_at := now\<rparr>"

definition set_action_outbox_retry :: "millis \<Rightarrow> millis \<Rightarrow> action_outbox \<Rightarrow> action_outbox" where
  "set_action_outbox_retry next_retry now ao = ao
     \<lparr>ao_status := ''pending'', ao_next_retry_at := Some next_retry, ao_updated_at := now\<rparr>"

text \<open>\<open>now\<close> is the \<open>time.Now()\<close> of the caller, which replaces a zero time.\<close>

definition action_outbox_insert_row :: "millis \<Rightarrow> action_outbox \<Rightarrow> action_outbox" where
  "action_outbox_insert_row now ao = ao
     \<lparr>ao_status := or_default (ao_status ao) ''pending'', ao_next_retry_at := None, ao_owner := None,
      ao_epoch := 0, ao_token := None, ao_expires_at := None, ao_delivered_at := None,
      ao_created_at := (if ao_created_at ao = 0 then now else ao_created_at ao),
      ao_updated_at := (if ao_updated_at ao = 0 then now else ao_updated_at ao)\<rparr>"

definition AIActionOutboxDAO_Insert :: "action_outbox \<Rightarrow> millis \<Rightarrow> (store_db, unit) dbm" where
  "AIActionOutboxDAO_Insert ao now = db_conn (db_stmt (\<lambda>t db. ((),
     if list_ex (\<lambda>x. ao_command_id x = ao_command_id ao) (ai_action_outbox db) then db
     else db\<lparr>ai_action_outbox := ai_action_outbox db @ [action_outbox_insert_row now ao]\<rparr>)))"

definition claim_action_outbox_row ::
  "gostring \<Rightarrow> gostring \<Rightarrow> gostring \<Rightarrow> int \<Rightarrow> millis \<Rightarrow> store_db \<Rightarrow> (nat \<times> int) \<times> store_db" where
  "claim_action_outbox_row token cid owner secs now db =
     (let p = \<lambda>ao. ao_command_id ao = cid \<and> claimable_action_outbox now ao;
          f = set_action_outbox_claim owner token secs now
      in ((sql_affected p f (ai_action_outbox db),
           case sql_first p (ai_action_outbox db) of None \<Rightarrow> 0 | Some ao \<Rightarrow> ao_epoch ao + 1),
          db\<lparr>ai_action_outbox := sql_update p f (ai_action_outbox db)\<rparr>))"

definition AIActionOutboxDAO_Claim ::
  "gostring \<Rightarrow> gostring \<Rightarrow> gostring \<Rightarrow> int \<Rightarrow> (store_db, DispatchFence \<times> bool) dbm" where
  "AIActionOutboxDAO_Claim token cid owner secs = db_conn
     (db_bind (db_stmt (\<lambda>t. claim_action_outbox_row token cid owner (lease_or_30 secs) (sql_now t)))
       (\<lambda>(n, epoch).
          if n \<noteq> 1 then db_ret (NewDispatchFence token owner, False)
          else if epoch \<le> 0 then db_fail DispatchEpochUnavailable
          else db_ret ((NewDispatchFence token owner)\<lparr>df_Epoch := epoch\<rparr>, True)))"

definition AIActionOutboxDAO_Deliver :: "gostring \<Rightarrow> DispatchFence \<Rightarrow> (store_db, unit) dbm" where
  "AIActionOutboxDAO_Deliver cid f = db_conn (db_stmt (\<lambda>t db. ((),
     db\<lparr>ai_action_outbox := sql_update (\<lambda>ao. ao_command_id ao = cid \<and> fence_action_outbox f ao)
          (set_action_outbox_delivered (sql_now t)) (ai_action_outbox db)\<rparr>)))"

definition AIActionOutboxDAO_Retry :: "gostring \<Rightarrow> DispatchFence \<Rightarrow> millis \<Rightarrow> (store_db, unit) dbm" where
  "AIActionOutboxDAO_Retry cid f next_retry = db_conn (db_stmt (\<lambda>t db. ((),
     db\<lparr>ai_action_outbox := sql_update (\<lambda>ao. ao_command_id ao = cid \<and> fence_action_outbox f ao)
          (set_action_outbox_retry next_retry (sql_now t)) (ai_action_outbox db)\<rparr>)))"

definition due_action_outbox :: "millis \<Rightarrow> action_outbox \<Rightarrow> bool" where
  "due_action_outbox now ao \<longleftrightarrow>
     (ao_status ao = ''pending'' \<and> (case ao_next_retry_at ao of None \<Rightarrow> True | Some r \<Rightarrow> r \<le> now)) \<or>
     (ao_status ao = ''claimed'' \<and> (case ao_expires_at ao of None \<Rightarrow> False | Some e \<Rightarrow> e \<le> now))"

definition AIActionOutboxDAO_ScanPending :: "int \<Rightarrow> (store_db, action_outbox list) dbm" where
  "AIActionOutboxDAO_ScanPending limit = db_conn (db_stmt (\<lambda>t db.
     (sql_order_limit ao_created_at (nat (if limit \<le> 0 then 50 else limit))
        (filter (due_action_outbox (sql_now t)) (ai_action_outbox db)), db)))"

section \<open>The dispatcher\<close>

text \<open>
  \<open>backoff\<close>: the shift and the product are on \<open>time.Duration\<close>, a signed 64-bit integer; the result is in
  nanoseconds.
\<close>

definition backoff :: "int \<Rightarrow> int" where
  "backoff dispatchCount =
     (let c = (if dispatchCount < 0 then 0 else dispatchCount);
          d = push_bit (nat c) (1 :: 64 word);
          d = (if sint d > 60 then 60 else d)
      in sint (d * 1000000000))"

text \<open>The body of the invocation; the times are sent in RFC 3339 form.\<close>

record run_invocation =
  ri_invocation_id :: gostring
  ri_run_id :: gostring
  ri_request_id :: gostring
  ri_tenant_id :: gostring
  ri_cluster_id :: gostring
  ri_intent :: gostring
  ri_action_mode :: gostring
  ri_target_type :: gostring
  ri_resource_id :: gostring
  ri_service :: gostring
  ri_message :: gostring
  ri_principal_type :: gostring
  ri_principal_id :: gostring
  ri_original_principal_type :: gostring
  ri_original_principal_id :: gostring
  ri_time_range_start :: "millis option"
  ri_time_range_end :: "millis option"
  ri_symptom_time :: "millis option"

definition systemDispatchPrincipalID :: gostring where
  "systemDispatchPrincipalID = ''f4a4b8c2-3d5e-4f6a-8b9c-0d1e2f3a4b5c''"

definition invocation_body :: "gostring \<Rightarrow> AIRun \<Rightarrow> run_invocation" where
  "invocation_body iid run =
    \<lparr>ri_invocation_id = iid, ri_run_id = RunID run, ri_request_id = RequestID run,
     ri_tenant_id = TenantID run, ri_cluster_id = PrimaryClusterID run, ri_intent = Intent run,
     ri_action_mode = ActionMode run, ri_target_type = TargetType run,
     ri_resource_id = TargetResourceID run, ri_service = TargetResourceID run,
     ri_message = Intent run, ri_principal_type = ''system'',
     ri_principal_id = systemDispatchPrincipalID, ri_original_principal_type = PrincipalType run,
     ri_original_principal_id = Principal run, ri_time_range_start = TimeRangeStart run,
     ri_time_range_end = TimeRangeEnd run, ri_symptom_time = TimeRangeEnd run\<rparr>"

text \<open>
  The environment of a dispatch: the process identity, the token drawn for a claim, the issuer if one
  is configured (it signs Run, invocation, request, tenant and cluster scope, or fails), and the
  orchestrator, which answers a signed invocation with a status code or not at all.
\<close>

record dispatch_env =
  de_owner :: gostring
  de_token :: "gostring \<Rightarrow> gostring"
  de_issuer :: "(gostring \<Rightarrow> gostring \<Rightarrow> gostring \<Rightarrow> gostring \<Rightarrow> gostring list \<Rightarrow> gostring option) option"
  de_http :: "gostring \<Rightarrow> run_invocation \<Rightarrow> int option"
  de_now :: millis

definition postRunInvocation :: "dispatch_env \<Rightarrow> gostring \<Rightarrow> run_invocation \<Rightarrow> bool" where
  "postRunInvocation de ctx body = (case de_http de ctx body of None \<Rightarrow> False | Some code \<Rightarrow> code = 200 \<or> code = 202)"

text \<open>What is sent for a Run, if the issuer is there and signs; \<open>True\<close> when the orchestrator took it.\<close>

definition send_invocation :: "dispatch_env \<Rightarrow> gostring \<Rightarrow> AIRun \<Rightarrow> bool" where
  "send_invocation de iid run =
     (case de_issuer de of
        None \<Rightarrow> False
      | Some sign \<Rightarrow>
          (case sign (RunID run) iid (RequestID run) (TenantID run)
                  (if PrimaryClusterID run \<noteq> [] then [PrimaryClusterID run] else []) of
             None \<Rightarrow> False
           | Some ctx \<Rightarrow> postRunInvocation de ctx (invocation_body iid run)))"

definition dispatch_retry :: "dispatch_env \<Rightarrow> run_outbox \<Rightarrow> DispatchFence \<Rightarrow> (store_db, unit) dbm" where
  "dispatch_retry de ob fence =
     db_bind (db_try (AIRunOutboxDAO_Retry (ob_invocation_id ob) fence
         (de_now de + backoff (ob_dispatch_count ob) div 1000000)))
       (\<lambda>_. db_ret ())"

definition dispatchOne :: "dispatch_env \<Rightarrow> run_outbox \<Rightarrow> (store_db, unit) dbm" where
  "dispatchOne de ob =
     db_bind (db_try (AIRunOutboxDAO_Claim (de_token de (ob_invocation_id ob)) (ob_invocation_id ob) (de_owner de) 30))
       (\<lambda>res. case res of
          Inl _ \<Rightarrow> db_ret ()
        | Inr (fence, claimed) \<Rightarrow>
            if \<not> claimed then db_ret ()
            else db_bind (db_try (AIRunDAO_Get (ob_run_id ob)))
              (\<lambda>got. case got of
                 Inl _ \<Rightarrow> dispatch_retry de ob fence
               | Inr run \<Rightarrow>
                   if \<not> send_invocation de (ob_invocation_id ob) run then dispatch_retry de ob fence
                   else db_bind (db_try (AIRunOutboxDAO_Deliver (ob_invocation_id ob) fence))
                     (\<lambda>_. db_ret ())))"

fun dispatch_all :: "dispatch_env \<Rightarrow> run_outbox list \<Rightarrow> (store_db, unit) dbm" where
  "dispatch_all de [] = db_ret ()"
| "dispatch_all de (ob # obs) = db_bind (dispatchOne de ob) (\<lambda>_. dispatch_all de obs)"

definition dispatchPending :: "dispatch_env \<Rightarrow> (store_db, unit) dbm" where
  "dispatchPending de =
     db_bind (db_try (AIRunOutboxDAO_ScanPending 50))
       (\<lambda>res. case res of Inl _ \<Rightarrow> db_ret () | Inr pending \<Rightarrow> dispatch_all de pending)"

section \<open>The life cycle of a record\<close>

locale dispatch_rows =
  fixes key :: "'r \<Rightarrow> gostring"
    and epoch :: "'r \<Rightarrow> int"
    and fence :: "DispatchFence \<Rightarrow> 'r \<Rightarrow> bool"
    and claimable :: "millis \<Rightarrow> 'r \<Rightarrow> bool"
    and set_claim :: "gostring \<Rightarrow> gostring \<Rightarrow> int \<Rightarrow> millis \<Rightarrow> 'r \<Rightarrow> 'r"
    and set_delivered :: "millis \<Rightarrow> 'r \<Rightarrow> 'r"
    and set_retry :: "millis \<Rightarrow> millis \<Rightarrow> 'r \<Rightarrow> 'r"
    and recoverable :: "'r \<Rightarrow> bool"
  assumes keys: "key (set_claim owner token secs now r) = key r" "key (set_delivered now r) = key r"
      "key (set_retry next_retry now r) = key r"
    and epochs: "epoch (set_claim owner token secs now r) = epoch r + 1" "epoch (set_delivered now r) = epoch r"
      "epoch (set_retry next_retry now r) = epoch r"
    and fence_epoch: "fence f r \<Longrightarrow> epoch r = df_Epoch f"
    and claim_fence: "fence f (set_claim owner token secs now r) \<longleftrightarrow>
      f = \<lparr>df_OwnerID = owner, df_Epoch = epoch r + 1, df_TokenHash = token\<rparr>"
    and claim_excludes: "claimable t (set_claim owner token secs now r) \<longleftrightarrow> now + 1000 * secs \<le> t"
    and recoverables: "recoverable (set_claim owner token secs now r)" "recoverable (set_delivered now r)"
      "recoverable (set_retry next_retry now r)"
begin

definition row :: "gostring \<Rightarrow> 'r list \<Rightarrow> 'r option" where
  "row k t = sql_first (\<lambda>r. key r = k) t"

inductive tbl_step :: "'r list \<Rightarrow> 'r list \<Rightarrow> bool" where
  insert: "key r \<notin> key ` set t \<Longrightarrow> recoverable r \<Longrightarrow> tbl_step t (t @ [r])"
| claim: "tbl_step t (sql_update (\<lambda>r. key r = k \<and> claimable now r) (set_claim owner token secs now) t)"
| deliver: "tbl_step t (sql_update (\<lambda>r. key r = k \<and> fence f r) (set_delivered now) t)"
| retry: "tbl_step t (sql_update (\<lambda>r. key r = k \<and> fence f r) (set_retry next_retry now) t)"

definition row_epoch :: "gostring \<Rightarrow> 'r list \<Rightarrow> int option" where
  "row_epoch k t = map_option epoch (row k t)"

definition accepts :: "gostring \<Rightarrow> DispatchFence \<Rightarrow> 'r list \<Rightarrow> bool" where
  "accepts k f t \<longleftrightarrow> (\<exists>r. row k t = Some r \<and> fence f r)"

lemma tbl_step_row: "tbl_step t t' \<Longrightarrow> row k t = Some r \<Longrightarrow> \<exists>r'. row k t' = Some r' \<and> epoch r \<le> epoch r'"
  by (induction rule: tbl_step.induct) (auto simp: row_def sql_first_key_update keys epochs)

lemma tbl_step_uniq: "tbl_step t t' \<Longrightarrow> uniq_key key t \<Longrightarrow> uniq_key key t'"
  by (induction rule: tbl_step.induct) (simp_all add: uniq_key_append_one uniq_key_update keys)

lemma tbl_steps_uniq: "tbl_step\<^sup>*\<^sup>* t t' \<Longrightarrow> uniq_key key t \<Longrightarrow> uniq_key key t'"
  by (induction rule: rtranclp_induct) (auto intro: tbl_step_uniq)

lemma tbl_step_recoverable: "tbl_step t t' \<Longrightarrow> \<forall>r\<in>set t. recoverable r \<Longrightarrow> \<forall>r\<in>set t'. recoverable r"
  by (induction rule: tbl_step.induct) (auto simp: set_sql_update recoverables)

lemma tbl_steps_recoverable: "tbl_step\<^sup>*\<^sup>* t t' \<Longrightarrow> \<forall>r\<in>set t. recoverable r \<Longrightarrow> \<forall>r\<in>set t'. recoverable r"
  by (induction rule: rtranclp_induct) (auto dest: tbl_step_recoverable)

lemma fenced_update_id:
  assumes "uniq_key key t" and "\<not> accepts k f t"
  shows "sql_update (\<lambda>r. key r = k \<and> fence f r) g t = t"
proof (rule sql_update_id)
  fix r assume "r \<in> set t"
  then show "\<not> (key r = k \<and> fence f r)"
    using assms sql_first_uniq [OF assms(1), of r k] by (auto simp: accepts_def row_def)
qed

end

sublocale dispatch_rows \<subseteq> fnc: epoch_fencing tbl_step row_epoch accepts df_Epoch
proof
  fix s s' k e
  assume "tbl_step s s'" and "row_epoch k s = Some e"
  then show "\<exists>e'. row_epoch k s' = Some e' \<and> e \<le> e'"
    using tbl_step_row by (fastforce simp: row_epoch_def)
next
  fix k c s
  assume "accepts k c s"
  then show "row_epoch k s = Some (df_Epoch c)" by (auto simp: accepts_def row_epoch_def fence_epoch)
qed

context dispatch_rows begin

text \<open>A claim that took effect: the record, its new fence, and the fence of every later state.\<close>

lemma claimed_row:
  assumes u: "uniq_key key t"
    and n: "sql_affected (\<lambda>r. key r = k \<and> claimable now r) (set_claim owner token secs now) t = 1"
  shows "\<exists>r. row k t = Some r \<and> claimable now r \<and>
    row k (sql_update (\<lambda>r. key r = k \<and> claimable now r) (set_claim owner token secs now) t) =
      Some (set_claim owner token secs now r) \<and>
    sql_first (\<lambda>r. key r = k \<and> claimable now r) t = Some r"
  using sql_affected_key_eq_1 [OF u n] unfolding row_def sql_first_key_and [OF u]
  by (auto simp: sql_first_key_update keys)

lemma superseded:
  assumes u: "uniq_key key t" and r: "row k t = Some r" and e: "df_Epoch f < epoch r" and st: "tbl_step\<^sup>*\<^sup>* t t'"
  shows "sql_update (\<lambda>r. key r = k \<and> fence f r) g t' = t'"
proof (rule fenced_update_id)
  show "uniq_key key t'" using tbl_steps_uniq [OF st u] .
  show "\<not> accepts k f t'" using fnc.fenced_forever [OF st, of k "epoch r" f] r e by (simp add: row_epoch_def)
qed

end

definition outbox_recoverable :: "run_outbox \<Rightarrow> bool" where
  "outbox_recoverable ob \<longleftrightarrow> ob_status ob \<in> {''pending'', ''delivered''} \<or>
     (ob_status ob = ''claimed'' \<and> ob_expires_at ob \<noteq> None)"

interpretation run_rows: dispatch_rows ob_invocation_id ob_epoch fence_outbox claimable_outbox set_outbox_claim
  set_outbox_delivered set_outbox_retry outbox_recoverable
  by unfold_locales
    (auto simp: set_outbox_claim_def set_outbox_delivered_def set_outbox_retry_def fence_outbox_def claimable_outbox_def
      outbox_recoverable_def)

definition action_recoverable :: "action_outbox \<Rightarrow> bool" where
  "action_recoverable ao \<longleftrightarrow> ao_status ao \<in> {''pending'', ''delivered''} \<or>
     (ao_status ao = ''claimed'' \<and> ao_expires_at ao \<noteq> None)"

interpretation action_rows: dispatch_rows ao_command_id ao_epoch fence_action_outbox claimable_action_outbox
  set_action_outbox_claim set_action_outbox_delivered set_action_outbox_retry action_recoverable
  by unfold_locales
    (auto simp: set_action_outbox_claim_def set_action_outbox_delivered_def set_action_outbox_retry_def
      fence_action_outbox_def claimable_action_outbox_def action_recoverable_def)

section \<open>Histories\<close>

text \<open>One call on the Run outbox, with any arguments and whatever the driver does.\<close>

inductive outbox_op :: "store_db \<Rightarrow> store_db \<Rightarrow> bool" where
  create: "CreateWithOutbox a ob env (n, db) = (r, (n', db')) \<Longrightarrow> ob_status ob \<in> {[], ''pending''} \<Longrightarrow> outbox_op db db'"
| insert: "AIRunOutboxDAO_Insert ob env (n, db) = (r, (n', db')) \<Longrightarrow> ob_status ob \<in> {[], ''pending''} \<Longrightarrow> outbox_op db db'"
| claim: "AIRunOutboxDAO_Claim token iid owner secs env (n, db) = (rc, (n', db')) \<Longrightarrow> outbox_op db db'"
| deliver: "AIRunOutboxDAO_Deliver iid f env (n, db) = (ru, (n', db')) \<Longrightarrow> outbox_op db db'"
| retry: "AIRunOutboxDAO_Retry iid f next_retry env (n, db) = (ru, (n', db')) \<Longrightarrow> outbox_op db db'"

lemma tbl_insert_outbox:
  assumes "insert_outbox ob db = (res, db')" and "outbox_recoverable ob"
  shows "run_rows.tbl_step\<^sup>*\<^sup>* (ai_run_outbox db) (ai_run_outbox db')"
proof (cases "ob_invocation_id ob \<in> ob_invocation_id ` set (ai_run_outbox db)")
  case True
  then have "db' = db" using assms(1) by (auto simp: insert_outbox_def list_ex_iff split: if_splits)
  then show ?thesis by simp
next
  case False
  then have "db' = db\<lparr>ai_run_outbox := ai_run_outbox db @ [ob]\<rparr>"
    using assms(1) by (auto simp: insert_outbox_def list_ex_iff image_iff split: if_splits)
  with run_rows.tbl_step.insert [OF False assms(2)] show ?thesis by auto
qed

lemma Claim_outbox_cases:
  assumes "AIRunOutboxDAO_Claim token iid owner secs env (n, db) = (rc, (n', db'))"
  shows "(db' = db \<and> (\<forall>f. rc \<noteq> Inr (f, True))) \<or>
    (\<exists>t. db' = snd (claim_outbox_row token iid owner (lease_or_30 secs) (sql_now t) db) \<and> stmt_now env n = t \<and>
      (\<forall>f. rc = Inr (f, True) \<longrightarrow> fst (fst (claim_outbox_row token iid owner (lease_or_30 secs) (sql_now t) db)) = 1 \<and>
         f = (NewDispatchFence token owner)\<lparr>df_Epoch := snd (fst (claim_outbox_row token iid owner (lease_or_30 secs) (sql_now t) db))\<rparr>))"
  using assms by (auto simp: AIRunOutboxDAO_Claim_def dbm_defs case_prod_beta Let_def split: if_splits)

lemma claim_outbox_row_db:
  "snd (claim_outbox_row token iid owner secs now db) = db\<lparr>ai_run_outbox :=
     sql_update (\<lambda>ob. ob_invocation_id ob = iid \<and> claimable_outbox now ob) (set_outbox_claim owner token secs now) (ai_run_outbox db)\<rparr>"
  by (simp add: claim_outbox_row_def Let_def)

lemma outbox_op_tbl: "outbox_op db db' \<Longrightarrow> run_rows.tbl_step\<^sup>*\<^sup>* (ai_run_outbox db) (ai_run_outbox db')"
proof (induction rule: outbox_op.induct)
  case (create a ob env n db r n' db')
  from CreateWithOutbox_cases [OF create(1)] show ?case
  proof (elim disjE conjE exE)
    fix db1
    assume r: "insert_run (insert_row a) db = (InsOk, db1)" and db': "db' = db1\<lparr>ai_run_outbox := ai_run_outbox db @ [outbox_row a ob]\<rparr>"
    have "outbox_recoverable (outbox_row a ob)"
      using create(2) by (auto simp: outbox_recoverable_def outbox_row_def or_default_def)
    moreover assume "ob_invocation_id ob \<notin> ob_invocation_id ` set (ai_run_outbox db)"
    ultimately show ?thesis
      using run_rows.tbl_step.insert [of "outbox_row a ob" "ai_run_outbox db"] by (auto simp: db' outbox_row_def)
  qed simp
next
  case (insert ob env n db r n' db')
  have "outbox_recoverable (outbox_insert_row ob)"
    using insert(2) by (auto simp: outbox_recoverable_def outbox_insert_row_def or_default_def)
  with insert(1) show ?case
    by (auto simp: AIRunOutboxDAO_Insert_def dbm_defs split: if_splits intro: tbl_insert_outbox [OF prod.collapse [symmetric]])
next
  case (claim token iid owner secs env n db rc n' db')
  from Claim_outbox_cases [OF claim] show ?case
    by (elim disjE conjE exE) (simp, auto simp: claim_outbox_row_db intro!: r_into_rtranclp run_rows.tbl_step.claim)
next
  case (deliver iid f env n db ru n' db')
  then show ?case
    by (auto simp: AIRunOutboxDAO_Deliver_def dbm_defs split: if_splits intro!: r_into_rtranclp run_rows.tbl_step.deliver)
next
  case (retry iid f next_retry env n db ru n' db')
  then show ?case
    by (auto simp: AIRunOutboxDAO_Retry_def dbm_defs split: if_splits intro!: r_into_rtranclp run_rows.tbl_step.retry)
qed

lemma outbox_ops_tbl: "outbox_op\<^sup>*\<^sup>* db db' \<Longrightarrow> run_rows.tbl_step\<^sup>*\<^sup>* (ai_run_outbox db) (ai_run_outbox db')"
  by (induction rule: rtranclp_induct) (auto dest: outbox_op_tbl)

lemma claimed_outbox:
  assumes u: "uniq_key ob_invocation_id (ai_run_outbox db)"
    and c: "AIRunOutboxDAO_Claim token iid owner secs env (n, db) = (Inr (g, True), (n', db'))"
  shows "\<exists>ob. sql_first (\<lambda>ob. ob_invocation_id ob = iid) (ai_run_outbox db) = Some ob \<and>
    claimable_outbox (sql_now (stmt_now env n)) ob \<and>
    g = \<lparr>df_OwnerID = owner, df_Epoch = ob_epoch ob + 1, df_TokenHash = token\<rparr> \<and>
    sql_first (\<lambda>ob. ob_invocation_id ob = iid) (ai_run_outbox db') =
      Some (set_outbox_claim owner token (lease_or_30 secs) (sql_now (stmt_now env n)) ob)"
proof -
  let ?t = "sql_now (stmt_now env n)"
  let ?c = "claim_outbox_row token iid owner (lease_or_30 secs) ?t db"
  have d: "db' = snd ?c" "fst (fst ?c) = 1" "g = (NewDispatchFence token owner)\<lparr>df_Epoch := snd (fst ?c)\<rparr>"
    using Claim_outbox_cases [OF c] by auto
  from run_rows.claimed_row [OF u, of iid ?t owner token "lease_or_30 secs"] d(2)
  obtain ob where "run_rows.row iid (ai_run_outbox db) = Some ob" "claimable_outbox ?t ob"
    "run_rows.row iid (ai_run_outbox (snd ?c)) = Some (set_outbox_claim owner token (lease_or_30 secs) ?t ob)"
    "sql_first (\<lambda>r. ob_invocation_id r = iid \<and> claimable_outbox ?t r) (ai_run_outbox db) = Some ob"
    by (auto simp: claim_outbox_row_def Let_def)
  with d(1,3) show ?thesis
    by (auto simp: run_rows.row_def claim_outbox_row_def Let_def NewDispatchFence_def)
qed

lemma Deliver_outbox_id:
  "sql_update (\<lambda>ob. ob_invocation_id ob = iid \<and> fence_outbox f ob) (set_outbox_delivered (sql_now (stmt_now env n)))
     (ai_run_outbox db) = ai_run_outbox db \<Longrightarrow> snd (snd (AIRunOutboxDAO_Deliver iid f env (n, db))) = db"
  by (simp add: AIRunOutboxDAO_Deliver_def dbm_defs)

lemma Retry_outbox_id:
  "sql_update (\<lambda>ob. ob_invocation_id ob = iid \<and> fence_outbox f ob) (set_outbox_retry x (sql_now (stmt_now env n)))
     (ai_run_outbox db) = ai_run_outbox db \<Longrightarrow> snd (snd (AIRunOutboxDAO_Retry iid f x env (n, db))) = db"
  by (simp add: AIRunOutboxDAO_Retry_def dbm_defs)

definition sample_outbox :: run_outbox where
  "sample_outbox =
    \<lparr>ob_invocation_id = ''i1'', ob_run_id = ''r1'', ob_status = ''claimed'', ob_dispatch_count = 1, ob_next_retry_at = Some 30000,
     ob_owner = Some ''h1'', ob_epoch = 1, ob_token = Some ''t1'', ob_expires_at = Some 30000, ob_delivered_at = None,
     ob_created_at = 5, ob_updated_at = 5\<rparr>"

definition sample_outbox_db :: store_db where
  "sample_outbox_db = empty_db\<lparr>ai_run_outbox := [sample_outbox], ai_runs := [insert_row sample_new_run\<lparr>r_run_id := ''r1''\<rparr>]\<rparr>"

definition sample_dispatch :: dispatch_env where
  "sample_dispatch = \<lparr>de_owner = ''h2'', de_token = (\<lambda>_. ''t2''), de_issuer = Some (\<lambda>r i q t cs. Some ''ctx''),
     de_http = (\<lambda>ctx body. if ri_run_id body = ''r1'' then Some 202 else None), de_now = 40000\<rparr>"

text \<open>
  C27.  A dispatcher whose claim was taken over is out for good: once a record was claimed with a later
  epoch, then after any further calls on the outbox Deliver and Retry with the old fence change
  nothing, whatever the driver does.
\<close>

theorem superseded_dispatcher_fenced:
  assumes u: "uniq_key ob_invocation_id (ai_run_outbox db)"
    and c: "AIRunOutboxDAO_Claim token iid owner secs env (n, db) = (Inr (g, True), (n', db'))"
    and old: "df_Epoch f < df_Epoch g" and ops: "outbox_op\<^sup>*\<^sup>* db' db''"
  shows "(\<forall>env m. snd (snd (AIRunOutboxDAO_Deliver iid f env (m, db''))) = db'') \<and>
    (\<forall>next_retry env m. snd (snd (AIRunOutboxDAO_Retry iid f next_retry env (m, db''))) = db'')"
proof -
  obtain ob where ob: "run_rows.row iid (ai_run_outbox db') = Some ob" "df_Epoch f < ob_epoch ob"
    using claimed_outbox [OF u c] old by (auto simp: run_rows.row_def set_outbox_claim_def)
  have u': "uniq_key ob_invocation_id (ai_run_outbox db')"
    using run_rows.tbl_steps_uniq [OF outbox_op_tbl [OF outbox_op.claim [OF c]] u] .
  show ?thesis
    using run_rows.superseded [OF u' ob outbox_ops_tbl [OF ops]] by (auto intro: Deliver_outbox_id Retry_outbox_id)
qed

theorem superseded_dispatcher_fenced_witness:
  "let db' = snd (snd (AIRunOutboxDAO_Claim ''t2'' ''i1'' ''h2'' 30 (calm 40000) (0, sample_outbox_db)));
       old = \<lparr>df_OwnerID = ''h1'', df_Epoch = 1, df_TokenHash = ''t1''\<rparr>
   in db' \<noteq> sample_outbox_db \<and> snd (snd (AIRunOutboxDAO_Deliver ''i1'' old (calm 41000) (0, db'))) = db' \<and>
      snd (snd (AIRunOutboxDAO_Deliver ''i1'' old (calm 41000) (0, sample_outbox_db))) \<noteq> sample_outbox_db"
proof -
  let ?c = "AIRunOutboxDAO_Claim ''t2'' ''i1'' ''h2'' 30 (calm 40000) (0, sample_outbox_db)"
  let ?g = "\<lparr>df_OwnerID = ''h2'', df_Epoch = 2, df_TokenHash = ''t2''\<rparr>"
  let ?old = "\<lparr>df_OwnerID = ''h1'', df_Epoch = 1, df_TokenHash = ''t1''\<rparr>"
  have "fst ?c = Inr (?g, True)" by code_simp
  then have c: "?c = (Inr (?g, True), (fst (snd ?c), snd (snd ?c)))" by (metis prod.collapse)
  have u: "uniq_key ob_invocation_id (ai_run_outbox sample_outbox_db)" by (simp add: sample_outbox_db_def uniq_key_def)
  have 1: "map ob_epoch (ai_run_outbox (snd (snd ?c))) \<noteq> map ob_epoch (ai_run_outbox sample_outbox_db)"
    "map ob_status (ai_run_outbox (snd (snd (AIRunOutboxDAO_Deliver ''i1'' ?old (calm 41000) (0, sample_outbox_db))))) \<noteq>
     map ob_status (ai_run_outbox sample_outbox_db)" by code_simp+
  have "df_Epoch ?old < df_Epoch ?g" by simp
  from superseded_dispatcher_fenced [OF u c this rtranclp.rtrancl_refl] 1 show ?thesis unfolding Let_def by metis
qed





lemma sint_shift: "k < 63 \<Longrightarrow> sint (push_bit k (1 :: 64 word)) = 2 ^ k"
proof -
  assume "k < 63"
  then have "(2::int) ^ k < 2 ^ 63" by (rule power_strict_increasing) simp
  moreover have "push_bit k (1 :: 64 word) = word_of_int (2 ^ k)" by (simp add: push_bit_eq_mult)
  moreover have "- (2 ^ 63) \<le> (2::int) ^ k" by (rule order_trans [of _ 0]) simp_all
  ultimately show ?thesis
    by (simp only: sint_sbintrunc' signed_take_bit_int_eq_self) (simp add: signed_take_bit_int_eq_self)
qed

text \<open>
  C30.  The backoff of a dispatch, in nanoseconds: \<open>2^n\<close> seconds up to \<open>n = 5\<close>, sixty seconds up to
  \<open>n = 62\<close>; from there on the 64-bit shift has lost its bit and the delay is zero.
\<close>

theorem backoff_exact:
  "backoff c = (if c < 0 then 1 else if c \<le> 5 then 2 ^ nat c else if c \<le> 62 then 60 else 0) * 1000000000"
proof -
  consider "c < 0" | "0 \<le> c" "c \<le> 5" | "6 \<le> c" "c \<le> 62" | "c = 63" | "64 \<le> c" by linarith
  then show ?thesis
  proof cases
    case 1
    then show ?thesis by (simp add: backoff_def)
  next
    case 2
    then have "c \<in> {0, 1, 2, 3, 4, 5}" by auto
    then show ?thesis by (auto simp: backoff_def)
  next
    case 3
    then have "(2::int) ^ 6 \<le> 2 ^ nat c" by (intro power_increasing) simp_all
    with 3 sint_shift [of "nat c"] show ?thesis by (simp add: backoff_def Let_def)
  next
    case 4
    then show ?thesis by (simp add: backoff_def)
  next
    case 5
    then have "push_bit (nat c) (1 :: 64 word) = 0" by (simp add: push_bit_eq_mult exp_eq_zero_iff)
    with 5 show ?thesis by (simp add: backoff_def Let_def del: push_bit_of_1)
  qed
qed

section \<open>One dispatch\<close>

abbreviation outbox_lookup :: "gostring \<Rightarrow> store_db \<Rightarrow> run_outbox option" where
  "outbox_lookup iid db \<equiv> sql_first (\<lambda>ob. ob_invocation_id ob = iid) (ai_run_outbox db)"

lemma Claim_outbox_lookup:
  assumes "AIRunOutboxDAO_Claim token iid owner secs env (n, db) = (rc, (n', db'))"
  shows "ai_runs db' = ai_runs db \<and> (\<exists>now. outbox_lookup k db' = map_option (\<lambda>ob. if k = iid \<and> claimable_outbox now ob
    then set_outbox_claim owner token (lease_or_30 secs) now ob else ob) (outbox_lookup k db) \<or> db' = db)"
  using Claim_outbox_cases [OF assms]
proof (elim disjE conjE exE)
  fix t
  assume "db' = snd (claim_outbox_row token iid owner (lease_or_30 secs) (sql_now t) db)"
  then show ?thesis
    unfolding claim_outbox_row_db
    by (auto simp: sql_first_key_update [where key = ob_invocation_id] set_outbox_claim_def intro!: exI [of _ "sql_now t"])
qed simp

lemma Retry_outbox_lookup:
  assumes "AIRunOutboxDAO_Retry iid f x env (n, db) = (ru, (n', db'))"
  shows "ai_runs db' = ai_runs db \<and> (\<exists>now. outbox_lookup k db' = map_option (\<lambda>ob. if k = iid \<and> fence_outbox f ob
    then set_outbox_retry x now ob else ob) (outbox_lookup k db) \<or> db' = db)"
  using assms
  by (auto simp: AIRunOutboxDAO_Retry_def dbm_defs sql_first_key_update [where key = ob_invocation_id] set_outbox_retry_def split: if_splits)

lemma Deliver_outbox_runs:
  assumes "AIRunOutboxDAO_Deliver iid f env (n, db) = (ru, (n', db'))"
  shows "ai_runs db' = ai_runs db"
  using assms by (auto simp: AIRunOutboxDAO_Deliver_def dbm_defs split: if_splits)

lemma dispatch_retry_eq:
  "dispatch_retry de ob f env st = (Inr (), snd (AIRunOutboxDAO_Retry (ob_invocation_id ob) f
     (de_now de + backoff (ob_dispatch_count ob) div 1000000) env st))"
  by (simp add: dispatch_retry_def db_bind_def db_try_def db_ret_def case_prod_beta)

lemma Get_eq:
  "AIRunDAO_Get rid env (n, db) =
    (if \<not> db_up env then (Inl MysqlUnavailable, (n, db)) else if \<not> stmt_ok env n then (Inl DriverError, (Suc n, db))
     else (case get_run rid db of None \<Rightarrow> Inl SqlErrNoRows | Some r \<Rightarrow> Inr (scanAIRunRow r), (Suc n, db)))"
  by (cases "get_run rid db") (simp_all add: AIRunDAO_Get_def AIRunDAO_GetTx_def dbm_defs)

lemma dispatchOne_cases:
  assumes "dispatchOne de ob env (n, db) = (r, (n', db'))"
  obtains (claim) rc m where "AIRunOutboxDAO_Claim (de_token de (ob_invocation_id ob)) (ob_invocation_id ob) (de_owner de) 30 env (n, db) = (rc, (m, db'))"
    | (retry) rc m db1 f k x where "AIRunOutboxDAO_Claim (de_token de (ob_invocation_id ob)) (ob_invocation_id ob) (de_owner de) 30 env (n, db) = (rc, (m, db1))"
       "AIRunOutboxDAO_Retry (ob_invocation_id ob) f (de_now de + backoff (ob_dispatch_count ob) div 1000000) env (k, db1) = (x, (n', db'))"
    | (deliver) f m db1 k run x where "AIRunOutboxDAO_Claim (de_token de (ob_invocation_id ob)) (ob_invocation_id ob) (de_owner de) 30 env (n, db) = (Inr (f, True), (m, db1))"
       "get_run (ob_run_id ob) db1 = Some run" "send_invocation de (ob_invocation_id ob) (scanAIRunRow run)"
       "AIRunOutboxDAO_Deliver (ob_invocation_id ob) f env (k, db1) = (x, (n', db'))"
proof -
  let ?C = "AIRunOutboxDAO_Claim (de_token de (ob_invocation_id ob)) (ob_invocation_id ob) (de_owner de) 30 env (n, db)"
  obtain rc m db1 where c: "?C = (rc, (m, db1))" by (metis prod_cases3)
  show ?thesis
  proof (cases "\<exists>f. rc = Inr (f, True)")
    case False
    then have "db' = db1" using assms c
      by (cases rc) (auto simp: dispatchOne_def db_bind_def db_try_def db_ret_def)
    with c claim show ?thesis by blast
  next
    case True
    then obtain f where f: "rc = Inr (f, True)" by blast
    obtain g k d where "AIRunDAO_Get (ob_run_id ob) env (m, db1) = (g, (k, d))" by (metis prod_cases3)
    with readsD [OF reads_AIRunDAO_Get this] have g: "AIRunDAO_Get (ob_run_id ob) env (m, db1) = (g, (k, db1))" by simp
    show ?thesis
    proof (cases "\<exists>run. g = Inr (scanAIRunRow run) \<and> get_run (ob_run_id ob) db1 = Some run \<and>
        send_invocation de (ob_invocation_id ob) (scanAIRunRow run)")
      case True
      then obtain run where run: "g = Inr (scanAIRunRow run)" "get_run (ob_run_id ob) db1 = Some run"
        "send_invocation de (ob_invocation_id ob) (scanAIRunRow run)" by blast
      obtain x k' d where d: "AIRunOutboxDAO_Deliver (ob_invocation_id ob) f env (k, db1) = (x, (k', d))" by (metis prod_cases3)
      with assms c f g run have "n' = k'" "db' = d"
        by (simp_all add: dispatchOne_def db_bind_def db_try_def db_ret_def)
      with deliver c f run d show ?thesis by blast
    next
      case False
      have "dispatch_retry de ob f env (k, db1) = (r, (n', db'))"
        using assms c f g False
        by (cases "get_run (ob_run_id ob) db1")
          (auto simp: dispatchOne_def db_bind_def db_try_def db_ret_def Get_eq split: if_splits)
      then have "snd (AIRunOutboxDAO_Retry (ob_invocation_id ob) f (de_now de + backoff (ob_dispatch_count ob) div 1000000) env (k, db1)) = (n', db')"
        by (simp add: dispatch_retry_eq)
      with retry c show ?thesis by (metis prod.collapse)
    qed
  qed
qed

lemma send_invocation_accepted:
  assumes "send_invocation de iid (scanAIRunRow run)"
  shows "\<exists>sign ctx code. de_issuer de = Some sign \<and>
    sign (r_run_id run) iid (r_request_id run) (r_tenant_id run)
      (if null_string (r_primary_cluster_id run) = [] then [] else [null_string (r_primary_cluster_id run)]) = Some ctx \<and>
    de_http de ctx (invocation_body iid (scanAIRunRow run)) = Some code \<and> code \<in> {200, 202}"
  using assms
  by (auto simp: send_invocation_def postRunInvocation_def scanAIRunRow_def split: option.splits if_splits)

text \<open>
  C29.  A record becomes delivered by a dispatch only if the orchestrator answered 200 or 202 to an
  invocation that was signed for, and carries, the Run stored under the record's run id; the dispatch
  leaves the Runs as they are.
\<close>

theorem delivered_only_if_accepted:
  assumes run: "dispatchOne de ob env (n, db) = (r, (n', db'))"
    and new: "map_option ob_status (sql_first (\<lambda>ob. ob_invocation_id ob = iid) (ai_run_outbox db')) = Some ''delivered''"
      "map_option ob_status (sql_first (\<lambda>ob. ob_invocation_id ob = iid) (ai_run_outbox db)) \<noteq> Some ''delivered''"
  shows "iid = ob_invocation_id ob \<and> ai_runs db' = ai_runs db \<and>
    (\<exists>run sign ctx code. get_run (ob_run_id ob) db = Some run \<and> de_issuer de = Some sign \<and>
      sign (r_run_id run) iid (r_request_id run) (r_tenant_id run)
        (if null_string (r_primary_cluster_id run) = [] then [] else [null_string (r_primary_cluster_id run)]) = Some ctx \<and>
      de_http de ctx (invocation_body iid (scanAIRunRow run)) = Some code \<and> code \<in> {200, 202})"
proof -
  have claimed: "map_option ob_status (outbox_lookup iid db1) \<noteq> Some ''delivered''" "ai_runs db1 = ai_runs db"
    if "AIRunOutboxDAO_Claim token k owner secs env (n, db) = (rc, (m, db1))" for token k owner secs rc m db1
    using Claim_outbox_lookup [OF that, of iid] new(2)
    by (auto simp: set_outbox_claim_def split: if_splits)
  from run show ?thesis
  proof (cases rule: dispatchOne_cases)
    case (claim rc m)
    show ?thesis using claimed(1) [OF claim] new(1) by blast
  next
    case (retry rc m db1 f k x)
    show ?thesis using claimed [OF retry(1)] Retry_outbox_lookup [OF retry(2), of iid] new(1)
      by (auto simp: set_outbox_retry_def split: if_splits)
  next
    case (deliver f m db1 k run x)
    have e: "iid = ob_invocation_id ob"
    proof (rule ccontr)
      assume "iid \<noteq> ob_invocation_id ob"
      with deliver(4) have "outbox_lookup iid db' = outbox_lookup iid db1"
        by (auto simp: AIRunOutboxDAO_Deliver_def dbm_defs sql_first_key_update [where key = ob_invocation_id]
            set_outbox_delivered_def option.map_ident split: if_splits)
      with claimed(1) [OF deliver(1)] new(1) show False by (metis (no_types, lifting))
    qed
    have "get_run (ob_run_id ob) db = Some run" using deliver(2) claimed(2) [OF deliver(1)] by (simp add: get_run_def)
    with send_invocation_accepted [OF deliver(3)] Deliver_outbox_runs [OF deliver(4)] claimed(2) [OF deliver(1)] e
    show ?thesis by metis
  qed
qed

theorem delivered_only_if_accepted_witness:
  "let db' = snd (snd (dispatchOne sample_dispatch sample_outbox (calm 40000) (0, sample_outbox_db)))
   in map ob_status (ai_run_outbox db') = [''delivered''] \<and> ai_runs db' = ai_runs sample_outbox_db"
proof -
  let ?d = "dispatchOne sample_dispatch sample_outbox (calm 40000) (0, sample_outbox_db)"
  have e: "?d = (fst ?d, (fst (snd ?d), snd (snd ?d)))" by simp
  have 1: "map ob_status (ai_run_outbox (snd (snd ?d))) = [''delivered'']"
    "map_option ob_status (sql_first (\<lambda>ob. ob_invocation_id ob = ''i1'') (ai_run_outbox (snd (snd ?d)))) = Some ''delivered''"
    "map_option ob_status (sql_first (\<lambda>ob. ob_invocation_id ob = ''i1'') (ai_run_outbox sample_outbox_db)) \<noteq> Some ''delivered''"
    by code_simp+
  from delivered_only_if_accepted [OF e 1(2,3)] 1(1) show ?thesis by simp
qed

end
