(* ===== verification/ActionDecision.thy ===== *)
theory ActionDecision
  imports ActionProposal Outbox
begin

text \<open>
  The human decision on an Action: \<open>internal/api/action_decision.go\<close>.

  One transaction records the decision, moves Action and Run, and for an approval enqueues the command
  for the dispatcher.  The decision is bound to the version and to the canonical hash of the stored
  fields, the proposer cannot decide, and a repeated request with the same key is a replay.
\<close>

section \<open>Requests and errors\<close>

record ActionDecisionRequest =
  dr_Decision :: gostring
  dr_Reason :: gostring
  dr_IdempotencyKey :: gostring
  dr_ActionVersion :: int

record ActionDecisionResult =
  ds_ApprovalID :: gostring
  ds_ActionID :: gostring
  ds_ActionVersion :: int
  ds_Decision :: gostring
  ds_RunStatus :: gostring
  ds_CommandID :: gostring
  ds_Replay :: bool

datatype decision_error = ActionDecisionConflict | ActionDecisionScope | ActionDecisionIdempotency

definition validateActionDecision :: "ActionDecisionRequest \<Rightarrow> gostring option" where
  "validateActionDecision req =
     (let decision = to_lower (trim_space (dr_Decision req)) in
      if decision \<noteq> ''approved'' \<and> decision \<noteq> ''rejected'' then Some ''decision must be approved or rejected''
      else if dr_ActionVersion req < 1 \<or> trim_space (dr_IdempotencyKey req) = []
      then Some ''action_version and idempotency_key are required''
      else if decision = ''rejected'' \<and> trim_space (dr_Reason req) = [] then Some ''reason is required for rejection''
      else None)"

section \<open>decideAction\<close>

text \<open>
  The transaction returns the result or one of the named errors; every failing statement is the error
  \<open>errActionDecisionUnavailable\<close>, a failure of the monad here.
\<close>

type_synonym decision_end = "(decision_error + ActionDecisionResult) tx_end"

definition decide_refuse :: "decision_error \<Rightarrow> (store_db, decision_end) dbm" where
  "decide_refuse e = db_ret (Rollback (Inl e))"

text \<open>The statements whose errors the replay drops leave the field empty.\<close>

definition decide_replay ::
  "gostring \<Rightarrow> AuthorizationContext \<Rightarrow> ActionDecisionRequest \<Rightarrow> approval_decision \<Rightarrow> (store_db, decision_end) dbm" where
  "decide_replay aid auth req p =
     (if ap_approver p \<noteq> au_UserID auth \<or> null_int (ap_action_version p) \<noteq> dr_ActionVersion req \<or>
         ap_decision p \<noteq> dr_Decision req \<or> null_string (ap_reason p) \<noteq> dr_Reason req
      then decide_refuse ActionDecisionIdempotency
      else db_bind (db_try (db_stmt (\<lambda>t db. (case get_action aid db of None \<Rightarrow> []
             | Some a \<Rightarrow> (case get_run (ac_run_id a) db of None \<Rightarrow> [] | Some r \<Rightarrow> r_status r), db))))
        (\<lambda>rs. db_bind (if ap_decision p = ''approved''
             then db_try (db_stmt (\<lambda>t db. (case sql_first (\<lambda>ao. ao_action_id ao = aid \<and>
                    ao_action_version ao = null_int (ap_action_version p)) (ai_action_outbox db) of
                  None \<Rightarrow> [] | Some ao \<Rightarrow> ao_command_id ao, db)))
             else db_ret (Inr []))
          (\<lambda>cmd. db_ret (Rollback (Inr
            \<lparr>ds_ApprovalID = ap_approval_id p, ds_ActionID = ap_action_id p,
             ds_ActionVersion = null_int (ap_action_version p), ds_Decision = ap_decision p,
             ds_RunStatus = (case rs of Inl _ \<Rightarrow> [] | Inr s \<Rightarrow> s),
             ds_CommandID = (case cmd of Inl _ \<Rightarrow> [] | Inr c \<Rightarrow> c), ds_Replay = True\<rparr>)))))"

text \<open>The canonical hash of the stored fields.\<close>

definition stored_hash :: "(gostring \<Rightarrow> gostring) \<Rightarrow> ai_action \<Rightarrow> gostring" where
  "stored_hash hx a = CanonicalActionHash hx
     \<lparr>cap_Version = 1, cap_ActionType = ''kubernetes'', cap_ResourceType = ac_target_resource_type a,
      cap_Namespace = ac_namespace a, cap_TargetName = ac_target_name a, cap_TargetUID = ac_target_uid a,
      cap_ResourceVersion = ac_resource_version a, cap_Operation = ac_operation a, cap_Params = ac_params a,
      cap_PolicyVersion = ''action-policy-v1''\<rparr>"

definition decidable_action ::
  "(gostring \<Rightarrow> gostring) \<Rightarrow> AuthorizationContext \<Rightarrow> ActionDecisionRequest \<Rightarrow> ai_action \<Rightarrow> bool" where
  "decidable_action hx auth req a \<longleftrightarrow>
     ac_tenant_id a = au_TenantID auth \<and> ac_action_version a = dr_ActionVersion req \<and>
     ac_hash_schema_version a = 2 \<and> ac_preflight_status a = ''passed'' \<and> \<not> ac_dry_run a \<and>
     ac_status a = ''proposed'' \<and> ac_target_resource_type a \<noteq> [] \<and> ac_target_uid a \<noteq> [] \<and>
     ac_resource_version a \<noteq> [] \<and> stored_hash hx a = ac_action_hash a \<and>
     ac_proposed_by a \<noteq> Some (au_UserID auth)"

definition decidable_run :: "AuthorizationContext \<Rightarrow> ai_action \<Rightarrow> ai_run \<Rightarrow> bool" where
  "decidable_run auth a r \<longleftrightarrow> r_tenant_id r = au_TenantID auth \<and> r_tenant_id r = ac_tenant_id a \<and>
     null_string (r_primary_cluster_id r) = ac_cluster_id a \<and> r_status r = ''awaiting_approval''"

definition decision_row ::
  "gostring \<Rightarrow> AuthorizationContext \<Rightarrow> ActionDecisionRequest \<Rightarrow> ai_action \<Rightarrow> millis \<Rightarrow> approval_decision" where
  "decision_row approvalID auth req a now =
    \<lparr>ap_approval_id = approvalID, ap_run_id = ac_run_id a, ap_action_id = ac_action_id a,
     ap_action_hash = ac_action_hash a, ap_action_version = Some (ac_action_version a),
     ap_decision_key = Some (dr_IdempotencyKey req), ap_tenant_id = ac_tenant_id a,
     ap_cluster_id = ac_cluster_id a, ap_decision = dr_Decision req, ap_approver = au_UserID auth,
     ap_reason = (if trim_space (dr_Reason req) = [] then None else Some (dr_Reason req)),
     ap_decided_at = Some now, ap_created_at = now\<rparr>"

definition command_outbox_row :: "gostring \<Rightarrow> ai_action \<Rightarrow> millis \<Rightarrow> action_outbox" where
  "command_outbox_row commandID a now =
    \<lparr>ao_command_id = commandID, ao_action_id = ac_action_id a, ao_action_version = ac_action_version a,
     ao_action_hash = ac_action_hash a, ao_run_id = ac_run_id a, ao_tenant_id = ac_tenant_id a,
     ao_cluster_id = ac_cluster_id a, ao_status = ''pending'', ao_dispatch_count = 0, ao_next_retry_at = None,
     ao_owner = None, ao_epoch = 0, ao_token = None, ao_expires_at = None, ao_delivered_at = None,
     ao_created_at = now, ao_updated_at = now\<rparr>"

text \<open>The insert, under the primary key \<open>command_id\<close> and the unique key \<open>(action_id, action_version)\<close>.\<close>

definition insert_command_outbox :: "action_outbox \<Rightarrow> store_db \<Rightarrow> ins_result \<times> store_db" where
  "insert_command_outbox ao db =
     (if list_ex (\<lambda>x. ao_command_id x = ao_command_id ao \<or>
            (ao_action_id x = ao_action_id ao \<and> ao_action_version x = ao_action_version ao)) (ai_action_outbox db)
      then (InsDup, db)
      else (InsOk, db\<lparr>ai_action_outbox := ai_action_outbox db @ [ao]\<rparr>))"

definition set_decided :: "gostring \<Rightarrow> millis \<Rightarrow> ai_action \<Rightarrow> ai_action" where
  "set_decided decision now a = a
     \<lparr>ac_status := (if decision = ''approved'' then ''approved'' else ''rejected''),
      ac_execution_status := (if decision = ''approved'' then ''queued'' else ''rejected''), ac_updated_at := now\<rparr>"

definition set_run_decided :: "gostring \<Rightarrow> millis \<Rightarrow> ai_run \<Rightarrow> ai_run" where
  "set_run_decided decision now r = r
     \<lparr>r_status := (if decision = ''approved'' then ''executing'' else ''cancelled''),
      r_state_version := r_state_version r + 1, r_updated_at := now,
      r_finished_at := (if decision = ''approved'' then None else Some now)\<rparr>"

definition decide_finish ::
  "gostring \<Rightarrow> gostring \<Rightarrow> ActionDecisionRequest \<Rightarrow> ai_action \<Rightarrow> ai_run \<Rightarrow> millis \<Rightarrow> (store_db, decision_end) dbm" where
  "decide_finish approvalID commandID req a r now =
     db_bind (db_stmt (\<lambda>t db. ((), update_actions (\<lambda>x. ac_action_id x = ac_action_id a \<and> ac_status x = ''proposed'')
        (set_decided (dr_Decision req) now) db)))
      (\<lambda>_. db_bind (db_stmt (\<lambda>t. update_run (ac_run_id a)
            (\<lambda>x. r_status x = ''awaiting_approval'' \<and> r_state_version x = r_state_version r)
            (set_run_decided (dr_Decision req) now)))
        (\<lambda>n. if n \<noteq> 1 then decide_refuse ActionDecisionConflict
             else db_ret (Commit (Inr
               \<lparr>ds_ApprovalID = approvalID, ds_ActionID = ac_action_id a, ds_ActionVersion = ac_action_version a,
                ds_Decision = dr_Decision req,
                ds_RunStatus = (if dr_Decision req = ''approved'' then ''executing'' else ''cancelled''),
                ds_CommandID = (if dr_Decision req = ''approved'' then commandID else []), ds_Replay = False\<rparr>))))"

definition decide_record ::
  "gostring \<Rightarrow> gostring \<Rightarrow> AuthorizationContext \<Rightarrow> ActionDecisionRequest \<Rightarrow> ai_action \<Rightarrow> ai_run \<Rightarrow> millis \<Rightarrow>
     (store_db, decision_end) dbm" where
  "decide_record approvalID commandID auth req a r now =
     db_bind (db_stmt (\<lambda>t. insert_approval (decision_row approvalID auth req a now)))
      (\<lambda>res. if res \<noteq> InsOk then decide_refuse ActionDecisionIdempotency
        else if dr_Decision req = ''approved''
        then db_bind (db_stmt (\<lambda>t. insert_command_outbox (command_outbox_row commandID a now)))
               (\<lambda>res2. if res2 \<noteq> InsOk then db_fail DuplicateEntry
                       else decide_finish approvalID commandID req a r now)
        else decide_finish approvalID commandID req a r now)"

definition decide_fresh ::
  "(gostring \<Rightarrow> gostring) \<Rightarrow> gostring \<Rightarrow> gostring \<Rightarrow> gostring \<Rightarrow> AuthorizationContext \<Rightarrow> ActionDecisionRequest \<Rightarrow>
     millis \<Rightarrow> (store_db, decision_end) dbm" where
  "decide_fresh hx approvalID commandID aid auth req now =
     db_bind (db_stmt (\<lambda>t db. (get_action aid db, db)))
      (\<lambda>row. case row of
         None \<Rightarrow> decide_refuse ActionDecisionConflict
       | Some a \<Rightarrow>
           if \<not> decidable_action hx auth req a then decide_refuse ActionDecisionConflict
           else db_bind (db_stmt (\<lambda>t db. (get_run (ac_run_id a) db, db)))
             (\<lambda>rrow. case rrow of
                None \<Rightarrow> decide_refuse ActionDecisionConflict
              | Some r \<Rightarrow>
                  if \<not> decidable_run auth a r then decide_refuse ActionDecisionConflict
                  else decide_record approvalID commandID auth req a r now))"

definition decide_body ::
  "(gostring \<Rightarrow> gostring) \<Rightarrow> gostring \<Rightarrow> gostring \<Rightarrow> gostring \<Rightarrow> AuthorizationContext \<Rightarrow> ActionDecisionRequest \<Rightarrow>
     millis \<Rightarrow> (store_db, decision_end) dbm" where
  "decide_body hx approvalID commandID aid auth req now =
     db_bind (db_stmt (\<lambda>t db. (get_action aid db, db)))
      (\<lambda>row. case row of
         None \<Rightarrow> decide_refuse ActionDecisionConflict
       | Some a \<Rightarrow>
           if ac_tenant_id a \<noteq> au_TenantID auth then decide_refuse ActionDecisionConflict
           else if au_ActiveClusterID auth \<noteq> [] \<and> ac_cluster_id a \<noteq> [] \<and> au_ActiveClusterID auth \<noteq> ac_cluster_id a
           then decide_refuse ActionDecisionScope
           else db_bind (db_stmt (\<lambda>t db. (sql_first (\<lambda>p. ap_action_id p = aid \<and>
                    ap_decision_key p = Some (dr_IdempotencyKey req)) (ai_approval_decisions db), db)))
             (\<lambda>existing. case existing of
                Some p \<Rightarrow> decide_replay aid auth req p
              | None \<Rightarrow> decide_fresh hx approvalID commandID aid auth req now))"

definition normal_decision :: "ActionDecisionRequest \<Rightarrow> ActionDecisionRequest" where
  "normal_decision req = req\<lparr>dr_Decision := to_lower (trim_space (dr_Decision req)),
     dr_IdempotencyKey := trim_space (dr_IdempotencyKey req), dr_Reason := trim_space (dr_Reason req)\<rparr>"

text \<open>\<open>approvalID\<close> and \<open>commandID\<close> are the values of \<open>randomUUID()\<close>.\<close>

definition decideAction ::
  "(gostring \<Rightarrow> gostring) \<Rightarrow> gostring \<Rightarrow> gostring \<Rightarrow> gostring \<Rightarrow> AuthorizationContext \<Rightarrow> ActionDecisionRequest \<Rightarrow>
     millis \<Rightarrow> (store_db, decision_error + ActionDecisionResult) dbm" where
  "decideAction hx approvalID commandID aid auth req now =
     db_conn (db_tx (decide_body hx approvalID commandID aid auth (normal_decision req) now))"

definition decision_reply :: "store_error + (decision_error + ActionDecisionResult) \<Rightarrow> ActionDecisionResult reply" where
  "decision_reply res =
     (case res of
        Inl _ \<Rightarrow> Refuse 503 ''PERSISTENCE_UNAVAILABLE''
      | Inr (Inl e) \<Rightarrow> Refuse 409 (case e of
            ActionDecisionConflict \<Rightarrow> ''ACTION_DECISION_CONFLICT''
          | ActionDecisionScope \<Rightarrow> ''CONTEXT_SCOPE_MISMATCH''
          | ActionDecisionIdempotency \<Rightarrow> ''IDEMPOTENCY_KEY_REUSED'')
      | Inr (Inr ds) \<Rightarrow> Reply ds)"

definition decideActionPublic ::
  "(gostring \<Rightarrow> gostring) \<Rightarrow> gostring \<Rightarrow> gostring \<Rightarrow> gostring \<Rightarrow> AuthorizationContext option \<Rightarrow>
     ActionDecisionRequest option \<Rightarrow> millis \<Rightarrow> (store_db, ActionDecisionResult reply) dbm" where
  "decideActionPublic hx approvalID commandID aid session decoded now =
     (case session of
        None \<Rightarrow> db_ret (Refuse 403 ''permission_denied'')
      | Some auth \<Rightarrow>
        if au_UserID auth = [] then db_ret (Refuse 403 ''permission_denied'')
        else (case decoded of
           None \<Rightarrow> db_ret (Refuse 400 ''VALIDATION_FAILED'')
         | Some req \<Rightarrow>
             if validateActionDecision req \<noteq> None then db_ret (Refuse 400 ''VALIDATION_FAILED'')
             else db_bind (db_try (decideAction hx approvalID commandID aid auth req now))
               (\<lambda>res. db_ret (decision_reply res))))"

section \<open>What a decision does\<close>

text \<open>The database after a decision on Action \<open>a\<close> of Run \<open>r\<close>.\<close>

definition decided_db ::
  "gostring \<Rightarrow> gostring \<Rightarrow> AuthorizationContext \<Rightarrow> ActionDecisionRequest \<Rightarrow> ai_action \<Rightarrow> ai_run \<Rightarrow> millis \<Rightarrow>
     store_db \<Rightarrow> store_db" where
  "decided_db approvalID commandID auth req a r now db = db
    \<lparr>ai_approval_decisions := ai_approval_decisions db @ [decision_row approvalID auth req a now],
     ai_action_outbox := (if dr_Decision req = ''approved''
       then ai_action_outbox db @ [command_outbox_row commandID a now] else ai_action_outbox db),
     ai_actions := sql_update (\<lambda>x. ac_action_id x = ac_action_id a \<and> ac_status x = ''proposed'')
       (set_decided (dr_Decision req) now) (ai_actions db),
     ai_runs := sql_update (\<lambda>x. r_run_id x = ac_run_id a \<and> r_status x = ''awaiting_approval'' \<and>
         r_state_version x = r_state_version r) (set_run_decided (dr_Decision req) now) (ai_runs db)\<rparr>"

definition decision_result :: "gostring \<Rightarrow> gostring \<Rightarrow> ActionDecisionRequest \<Rightarrow> ai_action \<Rightarrow> ActionDecisionResult" where
  "decision_result approvalID commandID req a =
    \<lparr>ds_ApprovalID = approvalID, ds_ActionID = ac_action_id a, ds_ActionVersion = ac_action_version a,
     ds_Decision = dr_Decision req,
     ds_RunStatus = (if dr_Decision req = ''approved'' then ''executing'' else ''cancelled''),
     ds_CommandID = (if dr_Decision req = ''approved'' then commandID else []), ds_Replay = False\<rparr>"

lemma decide_refuse_Inr [simp]:
  "decide_refuse e env st = (Inr x, st') \<longleftrightarrow> x = Rollback (Inl e) \<and> st' = st"
  by (auto simp: decide_refuse_def db_ret_def)

lemma decide_finish_Inr:
  assumes "decide_finish approvalID commandID req a r now env (n, db) = (Inr x, (n', db'))"
  shows "x = Rollback (Inl ActionDecisionConflict) \<or>
    x = Commit (Inr (decision_result approvalID commandID req a)) \<and> db' = db
      \<lparr>ai_actions := sql_update (\<lambda>x. ac_action_id x = ac_action_id a \<and> ac_status x = ''proposed'')
         (set_decided (dr_Decision req) now) (ai_actions db),
       ai_runs := sql_update (\<lambda>x. r_run_id x = ac_run_id a \<and> r_status x = ''awaiting_approval'' \<and>
           r_state_version x = r_state_version r) (set_run_decided (dr_Decision req) now) (ai_runs db)\<rparr>"
  using assms unfolding decide_finish_def decision_result_def
  by (auto simp: db_bind_stmt_Inr update_actions_def update_run_def db_ret_def split: if_splits)

lemma decide_record_Inr:
  assumes "decide_record approvalID commandID auth req a r now env (n, db) = (Inr x, (n', db'))"
  shows "(\<exists>e. x = Rollback (Inl e)) \<or>
    x = Commit (Inr (decision_result approvalID commandID req a)) \<and>
    db' = decided_db approvalID commandID auth req a r now db \<and>
    \<not> list_ex (approval_clash (decision_row approvalID auth req a now)) (ai_approval_decisions db) \<and>
    (dr_Decision req = ''approved'' \<longrightarrow> \<not> list_ex (\<lambda>x. ao_command_id x = commandID) (ai_action_outbox db))"
proof -
  have fin: "(\<exists>e. x = Rollback (Inl e)) \<or> x = Commit (Inr (decision_result approvalID commandID req a)) \<and> db' =
      db2\<lparr>ai_actions := sql_update (\<lambda>x. ac_action_id x = ac_action_id a \<and> ac_status x = ''proposed'')
         (set_decided (dr_Decision req) now) (ai_actions db2),
       ai_runs := sql_update (\<lambda>x. r_run_id x = ac_run_id a \<and> r_status x = ''awaiting_approval'' \<and>
           r_state_version x = r_state_version r) (set_run_decided (dr_Decision req) now) (ai_runs db2)\<rparr>"
    if "decide_finish approvalID commandID req a r now env (m, db2) = (Inr x, (n', db'))" for m db2
    using decide_finish_Inr [OF that] by auto
  show ?thesis
    using assms unfolding decide_record_def db_bind_stmt_Inr insert_approval_def insert_command_outbox_def
    by (auto simp: db_bind_stmt_Inr db_fail_def decided_db_def command_outbox_row_def list_ex_iff
        split: if_splits dest!: fin)
qed

lemma decide_fresh_Inr:
  assumes "decide_fresh hx approvalID commandID aid auth req now env (n, db) = (Inr x, (n', db'))"
  shows "(\<exists>e. x = Rollback (Inl e)) \<or>
    (\<exists>a r. get_action aid db = Some a \<and> decidable_action hx auth req a \<and> get_run (ac_run_id a) db = Some r \<and>
      decidable_run auth a r \<and> x = Commit (Inr (decision_result approvalID commandID req a)) \<and>
      db' = decided_db approvalID commandID auth req a r now db \<and>
      \<not> list_ex (approval_clash (decision_row approvalID auth req a now)) (ai_approval_decisions db) \<and>
      (dr_Decision req = ''approved'' \<longrightarrow> \<not> list_ex (\<lambda>x. ao_command_id x = commandID) (ai_action_outbox db)))"
  using assms unfolding decide_fresh_def db_bind_stmt_Inr
  by (auto simp: db_bind_stmt_Inr split: option.splits if_splits dest!: decide_record_Inr)

lemma decide_replay_Inr:
  assumes "decide_replay aid auth req p env (n, db) = (Inr x, (n', db'))"
  shows "(\<exists>e. x = Rollback (Inl e)) \<or>
    (\<exists>ds. x = Rollback (Inr ds) \<and> ds_Replay ds \<and> ds_ApprovalID ds = ap_approval_id p \<and> ds_Decision ds = dr_Decision req \<and>
      ap_approver p = au_UserID auth \<and> null_int (ap_action_version p) = dr_ActionVersion req \<and>
      ap_decision p = dr_Decision req \<and> null_string (ap_reason p) = dr_Reason req)"
  using assms unfolding decide_replay_def
  by (auto simp: db_bind_Inr db_ret_def split: if_splits)

lemma decide_body_Inr:
  assumes "decide_body hx approvalID commandID aid auth req now env (n, db) = (Inr x, (n', db'))"
  shows "(\<exists>e. x = Rollback (Inl e)) \<or>
    (\<exists>ds p. x = Rollback (Inr ds) \<and> ds_Replay ds \<and> p \<in> set (ai_approval_decisions db) \<and> ap_action_id p = aid \<and>
      ds_ApprovalID ds = ap_approval_id p \<and> ap_approver p = au_UserID auth \<and>
      null_int (ap_action_version p) = dr_ActionVersion req \<and> ap_decision p = dr_Decision req \<and> ds_Decision ds = dr_Decision req) \<or>
    (\<exists>a r. get_action aid db = Some a \<and> decidable_action hx auth req a \<and> get_run (ac_run_id a) db = Some r \<and>
      decidable_run auth a r \<and> x = Commit (Inr (decision_result approvalID commandID req a)) \<and>
      (au_ActiveClusterID auth = [] \<or> ac_cluster_id a = [] \<or> au_ActiveClusterID auth = ac_cluster_id a) \<and>
      db' = decided_db approvalID commandID auth req a r now db \<and>
      \<not> list_ex (approval_clash (decision_row approvalID auth req a now)) (ai_approval_decisions db) \<and>
      (dr_Decision req = ''approved'' \<longrightarrow> \<not> list_ex (\<lambda>x. ao_command_id x = commandID) (ai_action_outbox db)))"
  using assms unfolding decide_body_def db_bind_stmt_Inr
  by (auto simp: db_bind_stmt_Inr split: option.splits if_splits
      dest!: decide_fresh_Inr decide_replay_Inr sql_first_SomeD)

lemma decideAction_cases:
  assumes "decideAction hx approvalID commandID aid auth req now env (n, db) = (res, (n', db'))"
  shows "db' = db \<and> (\<forall>ds. res = Inr (Inr ds) \<longrightarrow> ds_Replay ds \<and> (\<exists>p\<in>set (ai_approval_decisions db).
      ap_action_id p = aid \<and> ap_approver p = au_UserID auth \<and> ap_decision p = ds_Decision ds \<and>
      ds_ApprovalID ds = ap_approval_id p \<and> null_int (ap_action_version p) = dr_ActionVersion req)) \<or>
    (\<exists>a r. get_action aid db = Some a \<and> decidable_action hx auth (normal_decision req) a \<and>
      get_run (ac_run_id a) db = Some r \<and> decidable_run auth a r \<and>
      (au_ActiveClusterID auth = [] \<or> ac_cluster_id a = [] \<or> au_ActiveClusterID auth = ac_cluster_id a) \<and>
      res = Inr (Inr (decision_result approvalID commandID (normal_decision req) a)) \<and>
      db' = decided_db approvalID commandID auth (normal_decision req) a r now db \<and>
      \<not> list_ex (approval_clash (decision_row approvalID auth (normal_decision req) a now)) (ai_approval_decisions db) \<and>
      (dr_Decision (normal_decision req) = ''approved'' \<longrightarrow>
        \<not> list_ex (\<lambda>x. ao_command_id x = commandID) (ai_action_outbox db)))"
proof (cases res)
  case (Inl e)
  with assms show ?thesis
    by (auto simp: decideAction_def db_conn_def split: if_splits dest: db_tx_error_unchanged)
next
  case (Inr y)
  have v: "dr_ActionVersion (normal_decision req) = dr_ActionVersion req" by (simp add: normal_decision_def)
  from assms Inr have tx: "db_tx (decide_body hx approvalID commandID aid auth (normal_decision req) now) env (n, db) = (Inr y, (n', db'))"
    by (simp add: decideAction_def db_conn_def split: if_splits)
  then show ?thesis
    unfolding db_tx_Inr using Inr v by (elim conjE disjE exE) (auto dest!: decide_body_Inr)
qed


section \<open>From proposal to approval\<close>

lemma sql_first_fresh: "\<not> list_ex p xs \<Longrightarrow> p x \<Longrightarrow> sql_first p (xs @ [x]) = Some x"
  by (induction xs) auto

lemma proposal_created:
  assumes "ActionProposalPublicHandler session hx sha resolver clusters rid aid decoded now env (n, db) =
      (Inr (Reply (rid', aid', True)), (n', db'))"
  shows "\<exists>auth req pf reqid. rid' = rid \<and> aid' = aid \<and> proposal_checks session hx resolver clusters decoded = Inr (auth, req, pf) \<and>
    \<not> list_ex (\<lambda>x. r_run_id x = rid) (ai_runs db) \<and> \<not> list_ex (\<lambda>x. ac_action_id x = aid) (ai_actions db) \<and>
    db' = db\<lparr>ai_runs := ai_runs db @ [manual_run_row (proposal_run auth rid reqid req now) now],
       ai_actions := ai_actions db @ [manual_action_row (proposal_run auth rid reqid req now) (proposal_action auth rid aid req pf) now]\<rparr>"
proof -
  obtain auth req pf where c: "proposal_checks session hx resolver clusters decoded = Inr (auth, req, pf)"
    using assms by (auto simp: ActionProposalPublicHandler_def db_ret_def split: sum.splits)
  let ?reqid = "idempotencyRequestID sha (au_TenantID auth) (pr_IdempotencyKey req)"
  have ex: "proposal_existing t q env st \<noteq> (Inr (Reply (rid', aid', True)), st')" for t q st st'
    by (auto simp: proposal_existing_def db_bind_try_Inr db_ret_def split: sum.splits list.splits)
  have "CreateManualAction now (proposal_run auth rid ?reqid req now) (proposal_action auth rid aid req pf) env (n, db) =
      (Inr True, (n', db')) \<and> rid' = rid \<and> aid' = aid"
  proof -
    obtain res st where m: "CreateManualAction now (proposal_run auth rid ?reqid req now)
        (proposal_action auth rid aid req pf) env (n, db) = (res, st)" by (metis surj_pair)
    with assms c have "(case res of
        Inl err \<Rightarrow> db_ret (if err = ErrIdempotencyPayloadMismatch then Refuse 409 ''IDEMPOTENCY_KEY_REUSED''
                         else Refuse 500 ''action_proposal_persist_failed'')
      | Inr created \<Rightarrow> if created then db_ret (Reply (rid, aid, True))
                       else proposal_existing (au_TenantID auth) ?reqid) env st =
        (Inr (Reply (rid', aid', True)), (n', db'))"
      unfolding ActionProposalPublicHandler_def Let_def by (simp add: db_bind_try_Inr)
    with m ex show ?thesis by (cases res) (simp_all add: db_ret_def split: if_splits)
  qed
  with CreateManualAction_cases [of now "proposal_run auth rid ?reqid req now" "proposal_action auth rid aid req pf" env n db "Inr True" n' db'] c
  show ?thesis by (auto simp: proposal_run_def proposal_action_def)
qed

lemma db_bind_stmt_calm: "db_bind (db_stmt f) k (calm t) (n, s) = k (fst (f t s)) (calm t) (Suc n, snd (f t s))"
  by (simp add: db_bind_def case_prod_beta Let_def)

lemma set_run_decided_key [key_simps, simp]: "r_run_id (set_run_decided d now r) = r_run_id r"
  by (simp add: set_run_decided_def)

lemma set_decided_key [key_simps, simp]: "ac_action_id (set_decided d now a) = ac_action_id a"
  by (simp add: set_decided_def)

lemma set_run_decided_changes: "set_run_decided d now r \<noteq> r"
  by (rule neq_by_field [of r_state_version]) (simp add: set_run_decided_def)

lemma decide_finish_calm:
  assumes "uniq_key r_run_id (ai_runs db)" and "get_run (ac_run_id a) db = Some r" and "r_status r = ''awaiting_approval''"
  shows "\<exists>m. decide_finish approvalID commandID req a r now (calm t) (n, db) =
    (Inr (Commit (Inr (decision_result approvalID commandID req a))), (m,
      db\<lparr>ai_actions := sql_update (\<lambda>x. ac_action_id x = ac_action_id a \<and> ac_status x = ''proposed'')
         (set_decided (dr_Decision req) now) (ai_actions db),
       ai_runs := sql_update (\<lambda>x. r_run_id x = ac_run_id a \<and> r_status x = ''awaiting_approval'' \<and>
           r_state_version x = r_state_version r) (set_run_decided (dr_Decision req) now) (ai_runs db)\<rparr>))"
proof -
  let ?db = "update_actions (\<lambda>x. ac_action_id x = ac_action_id a \<and> ac_status x = ''proposed'') (set_decided (dr_Decision req) now) db"
  have db: "ai_runs ?db = ai_runs db" "get_run (ac_run_id a) ?db = Some r"
    using assms(2) by (simp_all add: update_actions_def get_run_def)
  have "fst (update_run (ac_run_id a) (\<lambda>x. r_status x = ''awaiting_approval'' \<and> r_state_version x = r_state_version r)
      (set_run_decided (dr_Decision req) now) ?db) = 1"
    using assms db affected_update_run [of ?db] by (simp add: set_run_decided_changes)
  then show ?thesis
    by (simp add: decide_finish_def db_bind_stmt_calm db_ret_def decision_result_def update_run_snd)
      (simp add: update_actions_def)
qed

lemma decide_record_calm:
  assumes "uniq_key r_run_id (ai_runs db)" and "get_run (ac_run_id a) db = Some r" and "r_status r = ''awaiting_approval''"
    and "\<not> list_ex (approval_clash (decision_row approvalID auth req a now)) (ai_approval_decisions db)"
    and "\<forall>ao\<in>set (ai_action_outbox db). ao_command_id ao \<noteq> commandID \<and> ao_action_id ao \<noteq> ac_action_id a"
  shows "\<exists>m. decide_record approvalID commandID auth req a r now (calm t) (n, db) =
    (Inr (Commit (Inr (decision_result approvalID commandID req a))), (m, decided_db approvalID commandID auth req a r now db))"
proof -
  let ?db1 = "db\<lparr>ai_approval_decisions := ai_approval_decisions db @ [decision_row approvalID auth req a now]\<rparr>"
  let ?db2 = "?db1\<lparr>ai_action_outbox := ai_action_outbox db @ [command_outbox_row commandID a now]\<rparr>"
  have 1: "insert_approval (decision_row approvalID auth req a now) db = (InsOk, ?db1)"
    using assms(4) by (simp add: insert_approval_def)
  have 2: "insert_command_outbox (command_outbox_row commandID a now) ?db1 = (InsOk, ?db2)"
    using assms(5) by (auto simp: insert_command_outbox_def command_outbox_row_def list_ex_iff)
  have g: "get_run (ac_run_id a) ?db1 = Some r" "get_run (ac_run_id a) ?db2 = Some r" using assms(2) by (simp_all add: get_run_def)
  show ?thesis
  proof (cases "dr_Decision req = ''approved''")
    case True
    with decide_finish_calm [of ?db2 a r approvalID commandID req now t "Suc (Suc n)"] assms(1,3) g 1 2 show ?thesis
      by (simp add: decide_record_def db_bind_stmt_calm decided_db_def)
  next
    case False
    with decide_finish_calm [of ?db1 a r approvalID commandID req now t "Suc n"] assms(1,3) g 1 show ?thesis
      by (simp add: decide_record_def db_bind_stmt_calm decided_db_def)
  qed
qed

lemma decideAction_calm:
  assumes "uniq_key r_run_id (ai_runs db)" and "get_action aid db = Some a"
    and "decidable_action hx auth (normal_decision req) a"
    and "get_run (ac_run_id a) db = Some r" and "decidable_run auth a r"
    and "au_ActiveClusterID auth = [] \<or> au_ActiveClusterID auth = ac_cluster_id a"
    and "\<forall>p\<in>set (ai_approval_decisions db). ap_action_id p \<noteq> aid \<and> ap_approval_id p \<noteq> approvalID"
    and "\<forall>ao\<in>set (ai_action_outbox db). ao_command_id ao \<noteq> commandID \<and> ao_action_id ao \<noteq> aid"
  shows "\<exists>m. decideAction hx approvalID commandID aid auth req now (calm t) (n, db) =
    (Inr (Inr (decision_result approvalID commandID (normal_decision req) a)),
     (m, decided_db approvalID commandID auth (normal_decision req) a r now db))"
proof -
  let ?req = "normal_decision req"
  have aid: "ac_action_id a = aid" using assms(2) by (auto simp: get_action_def dest: sql_first_SomeD)
  have none: "sql_first (\<lambda>p. ap_action_id p = aid \<and> ap_decision_key p = Some (dr_IdempotencyKey ?req)) (ai_approval_decisions db) = None"
    using assms(7) by (auto simp: sql_first_None)
  have nc: "\<not> list_ex (approval_clash (decision_row approvalID auth ?req a now)) (ai_approval_decisions db)"
    using assms(7) aid by (auto simp: list_ex_iff approval_clash_def decision_row_def)
  have st: "r_status r = ''awaiting_approval''" using assms(5) by (simp add: decidable_run_def)
  obtain m where "decide_record approvalID commandID auth ?req a r now (calm t) (Suc (Suc (Suc (Suc (Suc n)))), db) =
    (Inr (Commit (Inr (decision_result approvalID commandID ?req a))), (m, decided_db approvalID commandID auth ?req a r now db))"
    using decide_record_calm [OF assms(1,4) st nc] assms(8) aid by blast
  moreover have "ac_tenant_id a = au_TenantID auth" using assms(3) by (simp add: decidable_action_def)
  ultimately show ?thesis
    using assms(2-6) none
    by (auto simp: decideAction_def db_conn_def db_tx_def decide_body_def decide_fresh_def db_bind_stmt_calm)
qed

lemma proposal_checks_Inr:
  assumes "proposal_checks session hx resolver clusters decoded = Inr (auth, req, pf)"
  shows "session = Some auth \<and> au_UserID auth \<noteq> [] \<and> au_TenantID auth \<noteq> [] \<and>
    (\<exists>input. preflight_Resolve hx resolver input = Inr pf)"
  using assms by (auto simp: proposal_checks_def Let_def split: option.splits if_splits sum.splits)

lemma proposed_row_decidable:
  assumes "preflight_Resolve hx resolver input = Inr pf"
    and "au_TenantID auth' = au_TenantID auth" and "au_UserID auth' \<noteq> au_UserID auth" and "dr_ActionVersion dreq = 1"
  shows "decidable_action hx auth' dreq
    (manual_action_row (proposal_run auth rid reqid req now) (proposal_action auth rid aid req pf) now)"
proof -
  obtain kind op params ko where pf: "pf = preflight_result hx kind op params ko" and "ko_UID ko \<noteq> []"
    and "ko_ResourceVersion ko \<noteq> []" and "allowed_kind op kind"
    using preflight_Resolve_Inr [OF assms(1)] by blast
  with allowed_kind_nonempty [of op kind] assms(2-) show ?thesis
    by (auto simp: decidable_action_def stored_hash_def manual_action_row_def action_insert_row_def proposal_action_def
        proposal_run_def preflight_action_def preflight_result_def or_default_def nullable_str_def)
qed

lemma proposed_run_decidable:
  assumes "au_TenantID auth' = au_TenantID auth"
  shows "decidable_run auth' (manual_action_row (proposal_run auth rid reqid req now) (proposal_action auth rid aid req pf) now)
    (manual_run_row (proposal_run auth rid reqid req now) now)"
  using assms by (auto simp: decidable_run_def manual_run_row_def manual_action_row_def proposal_run_def proposal_action_def
      insert_row_def action_insert_row_def or_default_def nullable_str_def null_string_def)

lemma decided_db_views:
  assumes "get_action aid db = Some a" "ac_status a = ''proposed''" "get_run (ac_run_id a) db = Some r" "r_status r = ''awaiting_approval''"
  shows "get_action aid (decided_db p c auth req a r now db) = Some (set_decided (dr_Decision req) now a)"
    and "get_run (ac_run_id a) (decided_db p c auth req a r now db) = Some (set_run_decided (dr_Decision req) now r)"
proof -
  have aid: "ac_action_id a = aid" using assms(1) by (auto simp: get_action_def dest: sql_first_SomeD)
  show "get_action aid (decided_db p c auth req a r now db) = Some (set_decided (dr_Decision req) now a)"
    using assms(1,2) aid sql_first_key_update [where key = ac_action_id and f = "set_decided (dr_Decision req) now" and k = aid and k' = aid]
    by (simp add: get_action_def decided_db_def)
  show "get_run (ac_run_id a) (decided_db p c auth req a r now db) = Some (set_run_decided (dr_Decision req) now r)"
    using assms(3,4) sql_first_key_update [where key = r_run_id and f = "set_run_decided (dr_Decision req) now" and k = "ac_run_id a" and k' = "ac_run_id a"]
    by (simp add: get_run_def decided_db_def)
qed

lemma proposal_decided:
  assumes uniq: "uniq_key r_run_id (ai_runs db)"
    and created: "ActionProposalPublicHandler (Some auth) hx sha resolver clusters rid aid decoded now env (n, db) =
      (Inr (Reply (rid, aid, True)), (n', db'))"
    and other: "au_TenantID auth' = au_TenantID auth" "au_UserID auth' \<noteq> au_UserID auth" "au_UserID auth' \<noteq> []" "au_ActiveClusterID auth' = []"
    and req: "validateActionDecision dreq = None" "dr_Decision (normal_decision dreq) = ''approved''" "dr_ActionVersion dreq = 1"
    and fresh: "\<forall>p\<in>set (ai_approval_decisions db). ap_action_id p \<noteq> aid \<and> ap_approval_id p \<noteq> approvalID"
      "\<forall>ao\<in>set (ai_action_outbox db). ao_command_id ao \<noteq> commandID \<and> ao_action_id ao \<noteq> aid"
  shows "\<exists>m a r. decideActionPublic hx approvalID commandID aid (Some auth') (Some dreq) now' (calm t) (k, db') =
      (Inr (Reply (decision_result approvalID commandID (normal_decision dreq) a)),
       (m, decided_db approvalID commandID auth' (normal_decision dreq) a r now' db')) \<and>
    get_action aid db' = Some a \<and> ac_run_id a = rid \<and> ac_status a = ''proposed'' \<and>
    get_run rid db' = Some r \<and> r_status r = ''awaiting_approval''"
proof -
  obtain rq pf reqid where checks: "proposal_checks (Some auth) hx resolver clusters decoded = Inr (auth, rq, pf)"
    and new: "\<not> list_ex (\<lambda>x. r_run_id x = rid) (ai_runs db)" "\<not> list_ex (\<lambda>x. ac_action_id x = aid) (ai_actions db)"
    and db': "db' = db\<lparr>ai_runs := ai_runs db @ [manual_run_row (proposal_run auth rid reqid rq now) now],
       ai_actions := ai_actions db @ [manual_action_row (proposal_run auth rid reqid rq now) (proposal_action auth rid aid rq pf) now]\<rparr>"
    using proposal_created [OF created] proposal_checks_Inr by (metis option.inject)
  define a where "a = manual_action_row (proposal_run auth rid reqid rq now) (proposal_action auth rid aid rq pf) now"
  define r where "r = manual_run_row (proposal_run auth rid reqid rq now) now"
  obtain input where pf: "preflight_Resolve hx resolver input = Inr pf" using proposal_checks_Inr [OF checks] by blast
  have ids: "ac_action_id a = aid" "ac_run_id a = rid" "r_run_id r = rid" "ac_status a = ''proposed''" "r_status r = ''awaiting_approval''"
    by (simp_all add: a_def r_def manual_action_row_def manual_run_row_def action_insert_row_def insert_row_def
        proposal_action_def proposal_run_def preflight_action_def or_default_def)
  have dec: "decidable_action hx auth' (normal_decision dreq) a" and drun: "decidable_run auth' a r"
    unfolding a_def r_def using proposed_row_decidable [OF pf other(1,2)] proposed_run_decidable [OF other(1)] req(3)
    by (simp_all add: normal_decision_def)
  have ga: "get_action aid db' = Some a" and gr: "get_run rid db' = Some r"
    using new ids sql_first_fresh [of "\<lambda>x. ac_action_id x = aid" "ai_actions db" a] sql_first_fresh [of "\<lambda>x. r_run_id x = rid" "ai_runs db" r]
    by (simp_all add: db' get_action_def get_run_def a_def r_def)
  have u: "uniq_key r_run_id (ai_runs db')"
    using uniq new ids unfolding db' by (auto simp: uniq_key_append_one list_ex_iff r_def)
  obtain m where "decideAction hx approvalID commandID aid auth' dreq now' (calm t) (k, db') =
    (Inr (Inr (decision_result approvalID commandID (normal_decision dreq) a)),
     (m, decided_db approvalID commandID auth' (normal_decision dreq) a r now' db'))"
    using decideAction_calm [OF u ga dec _ drun] gr ids other(4) fresh db' by fastforce
  then have "decideActionPublic hx approvalID commandID aid (Some auth') (Some dreq) now' (calm t) (k, db') =
    (Inr (Reply (decision_result approvalID commandID (normal_decision dreq) a)),
     (m, decided_db approvalID commandID auth' (normal_decision dreq) a r now' db'))"
    using req(1) other(3) by (simp add: decideActionPublic_def db_bind_def db_try_def db_ret_def decision_reply_def)
  with ga gr ids show ?thesis by blast
qed

text \<open>
  C13.  A proposal can be approved.  When the proposal endpoint has created a Run and an Action, then a
  different user of the same tenant, with no other cluster active, who approves version 1 with a new
  decision key is answered with the Run in \<open>executing\<close>, and Action, Run and command queue are as the
  decision says: preflight, hash and decision agree with each other.
\<close>

theorem proposal_is_approvable:
  assumes uniq: "uniq_key r_run_id (ai_runs db)"
    and created: "ActionProposalPublicHandler (Some auth) hx sha resolver clusters rid aid decoded now env (n, db) =
      (Inr (Reply (rid, aid, True)), (n', db'))"
    and other: "au_TenantID auth' = au_TenantID auth" "au_UserID auth' \<noteq> au_UserID auth" "au_UserID auth' \<noteq> []" "au_ActiveClusterID auth' = []"
    and req: "validateActionDecision dreq = None" "dr_Decision (normal_decision dreq) = ''approved''" "dr_ActionVersion dreq = 1"
    and fresh: "\<forall>p\<in>set (ai_approval_decisions db). ap_action_id p \<noteq> aid \<and> ap_approval_id p \<noteq> approvalID"
      "\<forall>ao\<in>set (ai_action_outbox db). ao_command_id ao \<noteq> commandID \<and> ao_action_id ao \<noteq> aid"
  shows "\<exists>ds m db'' a r. decideActionPublic hx approvalID commandID aid (Some auth') (Some dreq) now' (calm t) (k, db') =
      (Inr (Reply ds), (m, db'')) \<and> ds_RunStatus ds = ''executing'' \<and> ds_CommandID ds = commandID \<and>
    get_action aid db'' = Some a \<and> ac_status a = ''approved'' \<and> ac_execution_status a = ''queued'' \<and>
    get_run rid db'' = Some r \<and> r_status r = ''executing'' \<and>
    command_outbox_row commandID a now' \<in> set (ai_action_outbox db'')"
proof -
  obtain m a r where d: "decideActionPublic hx approvalID commandID aid (Some auth') (Some dreq) now' (calm t) (k, db') =
      (Inr (Reply (decision_result approvalID commandID (normal_decision dreq) a)),
       (m, decided_db approvalID commandID auth' (normal_decision dreq) a r now' db'))"
    and ga: "get_action aid db' = Some a" "ac_status a = ''proposed''"
    and gr: "get_run (ac_run_id a) db' = Some r" "r_status r = ''awaiting_approval''" and rid: "ac_run_id a = rid"
    using proposal_decided [OF assms, of now' t k] by auto
  have "command_outbox_row commandID (set_decided ''approved'' now' a) now' \<in>
      set (ai_action_outbox (decided_db approvalID commandID auth' (normal_decision dreq) a r now' db'))"
    using req(2) by (simp add: decided_db_def command_outbox_row_def set_decided_def)
  with d decided_db_views [OF ga gr] req(2) rid show ?thesis
    by (auto simp: decision_result_def set_decided_def set_run_decided_def)
qed

section \<open>A proposal and its approval\<close>

definition sample_user :: "gostring \<Rightarrow> AuthorizationContext" where
  "sample_user u = \<lparr>au_UserID = u, au_SessionID = ''s'', au_TenantID = ''t1'', au_ActiveClusterID = [],
     au_AuthorizationVersion = 1, au_MustChangePassword = False\<rparr>"

definition sample_cluster :: gostring where
  "sample_cluster = ''11111111-1111-4111-8111-111111111111''"

definition sample_resolver :: target_resolver where
  "sample_resolver cluster kind ns name = Some \<lparr>ko_UID = ''uid'', ko_ResourceVersion = ''7'', ko_Namespace = ns, ko_Name = name\<rparr>"

definition sample_proposal :: ActionProposalRequest where
  "sample_proposal =
    \<lparr>pr_IdempotencyKey = ''k1'', pr_ClusterID = sample_cluster, pr_ResourceType = ''deployment'', pr_Namespace = ''shop'',
     pr_TargetName = ''cart'', pr_Operation = ''scale'', pr_Params = Some (JObj [(''replicas'', JNum ''3'')])\<rparr>"

definition sample_decision :: ActionDecisionRequest where
  "sample_decision = \<lparr>dr_Decision = ''Approved'', dr_Reason = [], dr_IdempotencyKey = ''d1'', dr_ActionVersion = 1\<rparr>"

lemma sample_checks: "\<exists>pf. proposal_checks (Some (sample_user ''u1'')) (\<lambda>x. x) (Some sample_resolver) (\<lambda>_. Some ''t1'') (Some sample_proposal) =
    Inr (sample_user ''u1'', sample_proposal, pf)"
proof -
  have n: "normalizeActionProposalRequest sample_proposal = sample_proposal" by code_simp
  have v: "validateActionProposalRequest sample_proposal = None" by code_simp
  have "\<exists>pf. preflight_Resolve (\<lambda>x. x) (Some sample_resolver)
      \<lparr>pi_ClusterID = pr_ClusterID sample_proposal, pi_ResourceType = pr_ResourceType sample_proposal,
       pi_Namespace = pr_Namespace sample_proposal, pi_TargetName = pr_TargetName sample_proposal,
       pi_Operation = pr_Operation sample_proposal, pi_Params = pr_Params sample_proposal\<rparr> = Inr pf"
  proof -
    have "\<not> isl (preflight_Resolve (\<lambda>x. x) (Some sample_resolver)
      \<lparr>pi_ClusterID = pr_ClusterID sample_proposal, pi_ResourceType = pr_ResourceType sample_proposal,
       pi_Namespace = pr_Namespace sample_proposal, pi_TargetName = pr_TargetName sample_proposal,
       pi_Operation = pr_Operation sample_proposal, pi_Params = pr_Params sample_proposal\<rparr>)"
      by code_simp
    then show ?thesis by (auto simp: isl_def split: sum.splits) (metis sum.exhaust_sel isl_def)
  qed
  with n v show ?thesis by (auto simp: proposal_checks_def sample_user_def)
qed

lemma sample_created: "\<exists>n' db'. ActionProposalPublicHandler (Some (sample_user ''u1'')) (\<lambda>x. x) sha (Some sample_resolver) (\<lambda>_. Some ''t1'')
    ''r1'' ''a1'' (Some sample_proposal) 5 (calm 5) (0, empty_db) = (Inr (Reply (''r1'', ''a1'', True)), (n', db')) \<and>
    ai_approval_decisions db' = [] \<and> ai_action_outbox db' = []"
proof -
  obtain pf where c: "proposal_checks (Some (sample_user ''u1'')) (\<lambda>x. x) (Some sample_resolver) (\<lambda>_. Some ''t1'') (Some sample_proposal) =
      Inr (sample_user ''u1'', sample_proposal, pf)" using sample_checks by blast
  have q: "idempotencyRequestID sha t k \<noteq> []" for t k
    by (simp add: idempotencyRequestID_def uuid_of_digest_def Let_def)
  obtain input where "preflight_Resolve (\<lambda>x. x) (Some sample_resolver) input = Inr pf" using proposal_checks_Inr [OF c] by blast
  then have h: "pf_ActionHash pf \<noteq> []"
    by (auto simp: CanonicalActionHash_def NormalizeJSON_def payload_norm preflight_result_def dest!: preflight_Resolve_Inr)
  show ?thesis
    unfolding ActionProposalPublicHandler_def c
    by (simp add: Let_def db_bind_def db_try_def CreateManualAction_def db_conn_def db_tx_def
        manual_body_def db_stmt_def db_ret_def insert_run_def insert_action_def empty_db_def proposal_run_def proposal_action_def
        manual_run_row_def insert_row_def or_default_def preflight_action_def sample_user_def q h)
qed

lemma sample_valid: "validateActionDecision sample_decision = None" "dr_Decision (normal_decision sample_decision) = ''approved''"
  by code_simp+

theorem proposal_is_approvable_witness:
  "\<exists>n' db' ds m db''. ActionProposalPublicHandler (Some (sample_user ''u1'')) (\<lambda>x. x) (\<lambda>_. []) (Some sample_resolver)
      (\<lambda>_. Some ''t1'') ''r1'' ''a1'' (Some sample_proposal) 5 (calm 5) (0, empty_db) = (Inr (Reply (''r1'', ''a1'', True)), (n', db')) \<and>
    decideActionPublic (\<lambda>x. x) ''p1'' ''c1'' ''a1'' (Some (sample_user ''u2'')) (Some sample_decision) 9 (calm 9) (0, db') =
      (Inr (Reply ds), (m, db'')) \<and> ds_RunStatus ds = ''executing''"
proof -
  obtain n' db' where c: "ActionProposalPublicHandler (Some (sample_user ''u1'')) (\<lambda>x. x) (\<lambda>_. []) (Some sample_resolver)
      (\<lambda>_. Some ''t1'') ''r1'' ''a1'' (Some sample_proposal) 5 (calm 5) (0, empty_db) = (Inr (Reply (''r1'', ''a1'', True)), (n', db'))"
    using sample_created by blast
  show ?thesis
    using proposal_is_approvable [OF _ c, of "sample_user ''u2''" sample_decision "''p1''" "''c1''" 9 9 0] c sample_valid
    by (auto simp: sample_user_def sample_decision_def empty_db_def uniq_key_def)
qed

lemma sample_decided:
  "\<exists>n' db' ds m db''. ActionProposalPublicHandler (Some (sample_user ''u1'')) (\<lambda>x. x) (\<lambda>_. []) (Some sample_resolver)
      (\<lambda>_. Some ''t1'') ''r1'' ''a1'' (Some sample_proposal) 5 (calm 5) (0, empty_db) = (Inr (Reply (''r1'', ''a1'', True)), (n', db')) \<and>
    decideActionPublic (\<lambda>x. x) ''p1'' ''c1'' ''a1'' (Some (sample_user ''u2'')) (Some sample_decision) 9 (calm 9) (0, db') =
      (Inr (Reply ds), (m, db''))"
proof -
  obtain n' db' where c: "ActionProposalPublicHandler (Some (sample_user ''u1'')) (\<lambda>x. x) (\<lambda>_. []) (Some sample_resolver)
      (\<lambda>_. Some ''t1'') ''r1'' ''a1'' (Some sample_proposal) 5 (calm 5) (0, empty_db) = (Inr (Reply (''r1'', ''a1'', True)), (n', db'))"
    using sample_created by blast
  with proposal_decided [OF _ c, of "sample_user ''u2''" sample_decision "''p1''" "''c1''" 9 9 0] sample_valid show ?thesis
    by (fastforce simp: sample_user_def sample_decision_def empty_db_def uniq_key_def)
qed


end
