(* ===== verification/ActionDispatch.thy ===== *)
theory ActionDispatch
  imports ActionDecision RunEvents
begin

text \<open>
  Execution of approved Actions: the client of the action executor
  (\<open>internal/api/action_executor_client.go\<close>), the dispatcher of the Action queue
  (\<open>internal/api/action_dispatch.go\<close>) and the compatibility endpoint of \<open>action_control.go\<close>.

  The executor is a separate service: what it answers to a call is an argument.  Every call of
  \<open>Execute\<close> is also returned, as the list of contexts that crossed the mutation boundary, so that the
  theorems can speak about what was asked of the executor.  All statements here run outside of a
  transaction, and a failing one ends the pass at that point, as the end of the process would.
\<close>

section \<open>Results and their JSON\<close>

record ActionResult =
  ar_ActionID :: gostring
  ar_Status :: gostring
  ar_ObservedUID :: gostring
  ar_ObservedVersion :: gostring
  ar_Message :: gostring
  ar_ExecutedAt :: gostring

definition zero_result :: ActionResult where
  "zero_result = \<lparr>ar_ActionID = [], ar_Status = [], ar_ObservedUID = [], ar_ObservedVersion = [],
     ar_Message = [], ar_ExecutedAt = []\<rparr>"

definition result_json :: "ActionResult \<Rightarrow> json" where
  "result_json r = JObj
    [(''action_id'', JStr (ar_ActionID r)), (''status'', JStr (ar_Status r)),
     (''observed_uid'', JStr (ar_ObservedUID r)), (''observed_version'', JStr (ar_ObservedVersion r)),
     (''message'', JStr (ar_Message r)), (''executed_at'', JStr (ar_ExecutedAt r))]"

text \<open>Unmarshalling a stored result: the string members of the object, zero values for the others.\<close>

definition str_member :: "json \<Rightarrow> gostring \<Rightarrow> gostring" where
  "str_member j k = (case j of
      JObj fs \<Rightarrow> (case map_of (rev fs) k of Some (JStr s) \<Rightarrow> s | _ \<Rightarrow> [])
    | _ \<Rightarrow> [])"

definition result_of_json :: "json \<Rightarrow> ActionResult" where
  "result_of_json j = \<lparr>ar_ActionID = str_member j ''action_id'', ar_Status = str_member j ''status'',
     ar_ObservedUID = str_member j ''observed_uid'', ar_ObservedVersion = str_member j ''observed_version'',
     ar_Message = str_member j ''message'', ar_ExecutedAt = str_member j ''executed_at''\<rparr>"

definition context_json :: "ActionExecutionContext \<Rightarrow> json" where
  "context_json c = JObj
    [(''action_id'', JStr (aec_ActionID c)), (''action_hash'', JStr (aec_ActionHash c)),
     (''approval_id'', JStr (aec_ApprovalID c)), (''target_uid'', JStr (aec_TargetUID c)),
     (''target_name'', JStr (aec_TargetName c)), (''resource_version'', JStr (aec_ResourceVersion c)),
     (''cluster_id'', JStr (aec_ClusterID c)), (''resource_type'', JStr (aec_ResourceType c)),
     (''namespace'', JStr (aec_Namespace c)), (''operation'', JStr (aec_Operation c)),
     (''target_spec'', aec_TargetSpec c), (''credential_ref'', JStr (aec_CredentialRef c)),
     (''approved_at'', JStr (aec_ApprovedAt c)), (''executed_by'', JStr (aec_ExecutedBy c))]"

section \<open>The executor client\<close>

text \<open>An HTTP exchange: no answer, or a status code with a body that is a result or some other text.\<close>

datatype http_answer = Unreachable | Answered int "gostring + ActionResult"

record executor_client =
  ex_execute :: "ActionExecutionContext \<Rightarrow> http_answer"
  ex_reconcile :: "ActionExecutionContext \<Rightarrow> http_answer"

definition nonJSONExecutionStatus :: "int \<Rightarrow> gostring" where
  "nonJSONExecutionStatus code = (if code = 403 \<or> code = 409 then ''rejected'' else ''execution_unknown'')"

text \<open>\<open>Execute\<close> and \<open>Reconcile\<close> return the result, whether the executor was reached, and whether there was an error.\<close>

definition Execute :: "executor_client \<Rightarrow> ActionExecutionContext \<Rightarrow> ActionResult \<times> bool \<times> bool" where
  "Execute cl c =
     (case ex_execute cl c of
        Unreachable \<Rightarrow> (zero_result, False, True)
      | Answered code (Inr res) \<Rightarrow> (res, True, False)
      | Answered code (Inl body) \<Rightarrow>
          (zero_result\<lparr>ar_ActionID := aec_ActionID c, ar_Status := nonJSONExecutionStatus code,
             ar_Message := ''executor returned non-JSON: '' @ trim_space body\<rparr>, True, False))"

definition Reconcile :: "executor_client \<Rightarrow> ActionExecutionContext \<Rightarrow> ActionResult \<times> bool \<times> bool" where
  "Reconcile cl c =
     (case ex_reconcile cl c of
        Unreachable \<Rightarrow> (zero_result, False, True)
      | Answered code (Inr res) \<Rightarrow> (res, True, False)
      | Answered code (Inl body) \<Rightarrow>
          (zero_result\<lparr>ar_ActionID := aec_ActionID c, ar_Status := ''execution_unknown'',
             ar_Message := ''executor returned non-JSON reconciliation response''\<rparr>, True, False))"

definition normalizeReconcileActionStatus :: "gostring \<Rightarrow> gostring" where
  "normalizeReconcileActionStatus s =
     (if s \<in> set [''applied'', ''success''] then ''success''
      else if s \<in> set [''not_applied'', ''failed'', ''reconcile_required''] then ''failed''
      else if s \<in> set [''drift'', ''rejected''] then ''rejected''
      else ''execution_unknown'')"

definition normalizeReconcileOutcomeStatus :: "gostring \<Rightarrow> gostring" where
  "normalizeReconcileOutcomeStatus s =
     (if s \<in> set [''applied'', ''success''] then ''applied''
      else if s \<in> set [''not_applied'', ''failed'', ''reconcile_required''] then ''not_applied''
      else if s \<in> set [''drift'', ''rejected''] then ''drift''
      else ''unknown'')"

text \<open>
  \<open>time.RFC3339\<close> in UTC of a number of milliseconds since 1970: the civil date of the day number, then
  the time of day.
\<close>

definition civil_date :: "int \<Rightarrow> int \<times> int \<times> int" where
  "civil_date days =
     (let z = days + 719468; era = z div 146097; doe = z - era * 146097;
          yoe = (doe - doe div 1460 + doe div 36524 - doe div 146096) div 365;
          doy = doe - (365 * yoe + yoe div 4 - yoe div 100);
          mp = (5 * doy + 2) div 153; d = doy - (153 * mp + 2) div 5 + 1;
          m = (if mp < 10 then mp + 3 else mp - 9); y = yoe + era * 400
      in (if m \<le> 2 then y + 1 else y, m, d))"

definition pad_int :: "nat \<Rightarrow> int \<Rightarrow> gostring" where
  "pad_int w v = (let s = dec_nat (nat v) in replicate (w - length s) (CHR ''0'') @ s)"

definition rfc3339 :: "millis \<Rightarrow> gostring" where
  "rfc3339 ms =
     (let secs = ms div 1000; tod = secs mod 86400
      in case civil_date (secs div 86400) of (y, m, d) \<Rightarrow>
        pad_int 4 y @ ''-'' @ pad_int 2 m @ ''-'' @ pad_int 2 d @ ''T'' @ pad_int 2 (tod div 3600) @ '':'' @
        pad_int 2 (tod div 60 mod 60) @ '':'' @ pad_int 2 (tod mod 60) @ ''Z'')"

definition formatApprovedAt :: "millis option \<Rightarrow> gostring" where
  "formatApprovedAt t = (case t of None \<Rightarrow> [] | Some ms \<Rightarrow> rfc3339 ms)"

definition actionVersion :: "ai_action \<Rightarrow> int" where
  "actionVersion a = (if ac_action_version a > 0 then ac_action_version a else 1)"

text \<open>\<open>sha\<close> is SHA-256.\<close>

definition deterministicActionAttemptID :: "(gostring \<Rightarrow> 8 word list) \<Rightarrow> gostring \<Rightarrow> int \<Rightarrow> gostring" where
  "deterministicActionAttemptID sha aid version =
     uuid_of_digest (sha (''aiops-action-attempt:'' @ aid @ '':'' @ dec_int (if version \<le> 0 then 1 else version)))"

definition deterministicActionReconciliationID :: "(gostring \<Rightarrow> 8 word list) \<Rightarrow> gostring \<Rightarrow> int \<Rightarrow> gostring" where
  "deterministicActionReconciliationID sha aid version = deterministicActionAttemptID sha (''reconcile:'' @ aid) version"

definition deterministicActionEventID :: "(gostring \<Rightarrow> 8 word list) \<Rightarrow> gostring \<Rightarrow> gostring \<Rightarrow> gostring" where
  "deterministicActionEventID sha aid status = deterministicActionAttemptID sha (''event:'' @ aid @ '':'' @ status) 1"

section \<open>executeApprovedAction\<close>

text \<open>
  The environment of a dispatch: the identity of the dispatcher, the tokens and identifiers it draws,
  its clock, SHA-256 as bytes and in hexadecimal, whether the process runs in production, the
  \<open>credential_ref\<close> of a registered cluster, and the executor client if one is configured.
\<close>

record action_env =
  ae_owner :: gostring
  ae_token :: "gostring \<Rightarrow> gostring"
  ae_uuid :: gostring
  ae_now :: millis
  ae_sha :: "gostring \<Rightarrow> 8 word list"
  ae_hx :: "gostring \<Rightarrow> gostring"
  ae_production :: bool
  ae_credential :: "gostring \<Rightarrow> gostring option"
  ae_executor :: "executor_client option"

text \<open>The result that Go returns together with an error, and whether there is one.\<close>

type_synonym exec_result = "ActionResult \<times> bool"

definition attempt_id :: "action_env \<Rightarrow> ai_action \<Rightarrow> gostring" where
  "attempt_id ae a = deterministicActionAttemptID (ae_sha ae) (ac_action_id a) (ac_action_version a)"

definition action_spec :: "ai_action \<Rightarrow> json" where
  "action_spec a = (case ac_params a of None \<Rightarrow> JObj [] | Some j \<Rightarrow> j)"

definition execution_context :: "gostring \<Rightarrow> ai_action \<Rightarrow> approval_decision \<Rightarrow> ActionExecutionContext" where
  "execution_context cred a p =
    \<lparr>aec_ActionID = ac_action_id a, aec_ActionHash = ac_action_hash a, aec_ApprovalID = ap_approval_id p,
     aec_TargetUID = ac_target_uid a, aec_TargetName = ac_target_name a,
     aec_ResourceVersion = ac_resource_version a, aec_ClusterID = ac_cluster_id a,
     aec_ResourceType = or_default (ac_target_resource_type a) ''deployment'', aec_Namespace = ac_namespace a,
     aec_Operation = ac_operation a, aec_TargetSpec = action_spec a, aec_CredentialRef = cred,
     aec_ApprovedAt = formatApprovedAt (ap_decided_at p), aec_ExecutedBy = ''query-api''\<rparr>"

text \<open>What happens before the attempt is recorded: an early return, or the context to execute.\<close>

datatype exec_plan = PlanReturn ActionResult bool | PlanExecute executor_client ActionExecutionContext

definition exec_plan_of :: "action_env \<Rightarrow> ai_action \<Rightarrow> approval_decision \<Rightarrow> exec_plan" where
  "exec_plan_of ae a p =
     (case ae_executor ae of
        None \<Rightarrow> PlanReturn zero_result True
      | Some cl \<Rightarrow>
        if ac_dry_run a then PlanReturn zero_result True
        else if isTerminalExecutionStatus (ac_execution_status a)
        then PlanReturn (case ac_result a of None \<Rightarrow> zero_result | Some j \<Rightarrow> result_of_json j) False
        else (case (if ae_production ae
                    then (case ae_credential ae (ac_cluster_id a) of
                            None \<Rightarrow> None | Some c \<Rightarrow> if trim_space c = [] then None else Some c)
                    else Some ''query-api:signed'') of
           None \<Rightarrow> PlanReturn zero_result True
         | Some cred \<Rightarrow>
             if ActionExecutionContext_Validate (execution_context cred a p) \<noteq> None then PlanReturn zero_result True
             else PlanExecute cl (execution_context cred a p)))"

definition attempt_row :: "action_env \<Rightarrow> ai_action \<Rightarrow> ActionExecutionContext \<Rightarrow> action_attempt" where
  "attempt_row ae a c =
    \<lparr>at_attempt_id = attempt_id ae a, at_action_id = ac_action_id a, at_run_id = ac_run_id a,
     at_tenant_id = ac_tenant_id a, at_cluster_id = ac_cluster_id a,
     at_idempotency_key = ac_action_id a @ '':'' @ dec_int (actionVersion a),
     at_action_hash = ac_action_hash a, at_request_digest = ae_hx ae (json_text (context_json c)),
     at_status = ''running'', at_executor_id = ''ai-action-executor'', at_request = Some (context_json c),
     at_result = None, at_error_code = [], at_started_at = Some (ae_now ae), at_finished_at = None,
     at_completed_at = None, at_created_at = ae_now ae\<rparr>"

text \<open>
  \<open>recordAttempt\<close> and then \<open>UpdateExecution\<close>, each a hard stop when it fails; \<open>out\<close> is what is returned
  when both succeed.
\<close>

definition exec_persist ::
  "action_env \<Rightarrow> ai_action \<Rightarrow> gostring \<Rightarrow> json option \<Rightarrow> gostring \<Rightarrow> exec_result \<Rightarrow> (store_db, exec_result) dbm" where
  "exec_persist ae a status result code out =
     db_bind (db_try (AIActionAttemptDAO_Update (attempt_id ae a) status result code (Some (ae_now ae))))
      (\<lambda>r. case r of
         Inl _ \<Rightarrow> db_ret (fst out, True)
       | Inr _ \<Rightarrow>
           db_bind (db_try (UpdateExecution (ac_action_id a) status result code (ae_now ae)))
             (\<lambda>u. case u of Inl _ \<Rightarrow> db_ret (fst out, True) | Inr _ \<Rightarrow> db_ret out))"

definition reconciliation_row ::
  "action_env \<Rightarrow> ai_action \<Rightarrow> gostring \<Rightarrow> gostring \<Rightarrow> ActionResult \<Rightarrow> action_reconciliation" where
  "reconciliation_row ae a rcid status res =
    \<lparr>rc_reconciliation_id = rcid, rc_action_id = ac_action_id a, rc_attempt_id = attempt_id ae a,
     rc_action_hash = ac_action_hash a, rc_status = status, rc_observed_uid = ar_ObservedUID res,
     rc_observed_version = ar_ObservedVersion res, rc_observed = Some (result_json res), rc_error_code = [],
     rc_created_at = ae_now ae\<rparr>"

definition exec_unknown ::
  "action_env \<Rightarrow> executor_client \<Rightarrow> ai_action \<Rightarrow> ActionExecutionContext \<Rightarrow> ActionResult \<Rightarrow> (store_db, exec_result) dbm" where
  "exec_unknown ae cl a c res =
     (case Reconcile cl c of (rec, reached, err) \<Rightarrow>
        if \<not> reached \<or> err then exec_persist ae a ''execution_unknown'' None ''EXECUTION_UNKNOWN'' (res, False)
        else db_bind (db_try (AIActionReconciliationDAO_Create (reconciliation_row ae a (ae_uuid ae) (ar_Status rec) rec)))
          (\<lambda>r. case r of
             Inl _ \<Rightarrow> db_ret (res, True)
           | Inr _ \<Rightarrow> exec_persist ae a (normalizeReconcileActionStatus (ar_Status rec)) (Some (result_json rec))
                        ''EXECUTION_UNKNOWN'' (rec, False)))"

definition exec_call ::
  "action_env \<Rightarrow> executor_client \<Rightarrow> ai_action \<Rightarrow> ActionExecutionContext \<Rightarrow> (store_db, exec_result) dbm" where
  "exec_call ae cl a c =
     (case Execute cl c of (res, reached, err) \<Rightarrow>
        let status = ar_Status res; rj = Some (result_json res) in
        if err then exec_persist ae a ''execution_unknown'' None ''EXECUTOR_UNAVAILABLE'' (zero_result, True)
        else if \<not> reached
        then exec_persist ae a ''execution_unknown'' None ''EXECUTOR_UNAVAILABLE''
               (zero_result\<lparr>ar_ActionID := ac_action_id a, ar_Status := ''execution_unknown''\<rparr>, False)
        else if status = ''success'' then exec_persist ae a ''success'' rj [] (res, False)
        else if status = ''rejected'' then exec_persist ae a ''rejected'' rj ''EXECUTOR_REJECTED'' (res, False)
        else if status = ''failed'' \<or> status = ''rollback_required'' then exec_persist ae a status rj (ar_Message res) (res, False)
        else if status = ''execution_unknown'' then exec_unknown ae cl a c res
        else exec_persist ae a ''failed'' rj (ar_Message res) (res, False))"

definition reconcileAfterDuplicateAttempt ::
  "action_env \<Rightarrow> executor_client \<Rightarrow> ai_action \<Rightarrow> ActionExecutionContext \<Rightarrow> (store_db, exec_result) dbm" where
  "reconcileAfterDuplicateAttempt ae cl a c =
     (case Reconcile cl c of (rec, reached, err) \<Rightarrow>
        if err \<or> \<not> reached
        then db_ret (zero_result\<lparr>ar_ActionID := ac_action_id a, ar_Status := ''execution_unknown''\<rparr>, err)
        else let status = normalizeReconcileActionStatus (ar_Status rec); rec' = rec\<lparr>ar_Status := status\<rparr> in
          db_bind (db_try (UpdateExecution (ac_action_id a) status (Some (result_json rec')) [] (ae_now ae)))
            (\<lambda>u. case u of Inl _ \<Rightarrow> db_ret (rec', True) | Inr _ \<Rightarrow> db_ret (rec', False)))"

text \<open>The second component is the list of contexts sent to \<open>Execute\<close>.\<close>

definition executeApprovedAction ::
  "action_env \<Rightarrow> ai_action \<Rightarrow> approval_decision \<Rightarrow> (store_db, exec_result \<times> ActionExecutionContext list) dbm" where
  "executeApprovedAction ae a p =
     (case exec_plan_of ae a p of
        PlanReturn res err \<Rightarrow> db_ret ((res, err), [])
      | PlanExecute cl c \<Rightarrow>
          db_bind (db_try (AIActionAttemptDAO_Create (ae_now ae) (attempt_row ae a c)))
            (\<lambda>r. case r of
               Inl _ \<Rightarrow> db_ret ((zero_result, True), [])
             | Inr created \<Rightarrow>
                 if \<not> created
                 then db_bind (reconcileAfterDuplicateAttempt ae cl a c) (\<lambda>out. db_ret (out, []))
                 else db_bind (exec_call ae cl a c) (\<lambda>out. db_ret (out, [c]))))"

section \<open>The dispatcher\<close>

definition reconcile_context :: "ai_action \<Rightarrow> json \<Rightarrow> ActionExecutionContext" where
  "reconcile_context a spec =
    \<lparr>aec_ActionID = ac_action_id a, aec_ActionHash = ac_action_hash a, aec_ApprovalID = [],
     aec_TargetUID = ac_target_uid a, aec_TargetName = ac_target_name a,
     aec_ResourceVersion = ac_resource_version a, aec_ClusterID = ac_cluster_id a,
     aec_ResourceType = or_default (ac_target_resource_type a) ''deployment'', aec_Namespace = ac_namespace a,
     aec_Operation = ac_operation a, aec_TargetSpec = spec, aec_CredentialRef = [], aec_ApprovedAt = [],
     aec_ExecutedBy = []\<rparr>"

definition reconcile_settle :: "action_env \<Rightarrow> ai_action \<Rightarrow> ActionResult \<Rightarrow> (store_db, exec_result) dbm" where
  "reconcile_settle ae a res =
     (if ar_Status res = ''execution_unknown'' then db_ret (res, False)
      else db_bind (db_try (UpdateExecution (ac_action_id a) (ar_Status res) (Some (result_json res)) [] (ae_now ae)))
        (\<lambda>u. case u of
           Inl _ \<Rightarrow> db_ret (res, True)
         | Inr _ \<Rightarrow>
             db_bind (db_try (AIActionAttemptDAO_Update
                 (deterministicActionAttemptID (ae_sha ae) (ac_action_id a) (actionVersion a))
                 (ar_Status res) (Some (result_json res)) [] None))
               (\<lambda>_. db_ret (res, False))))"

definition reconcileAction :: "action_env \<Rightarrow> ai_action \<Rightarrow> (store_db, exec_result) dbm" where
  "reconcileAction ae a =
     (case ae_executor ae of
        None \<Rightarrow> db_ret (zero_result, True)
      | Some cl \<Rightarrow>
        (case ac_params a of
           None \<Rightarrow> db_ret (zero_result\<lparr>ar_ActionID := ac_action_id a, ar_Status := ''unknown''\<rparr>, True)
         | Some spec \<Rightarrow>
           (case Reconcile cl (reconcile_context a spec) of (res, reached, err) \<Rightarrow>
              if err \<or> \<not> reached then db_ret (res, True)
              else let outcome = normalizeReconcileOutcomeStatus (ar_Status res);
                       res' = res\<lparr>ar_Status := normalizeReconcileActionStatus outcome\<rparr> in
                db_bind (db_try (AIActionReconciliationDAO_Create (reconciliation_row ae a
                    (deterministicActionReconciliationID (ae_sha ae) (ac_action_id a) (actionVersion a)) outcome res')))
                  (\<lambda>r. case r of Inl _ \<Rightarrow> db_ret (res', True) | Inr _ \<Rightarrow> reconcile_settle ae a res'))))"

text \<open>The status that the end of an execution gives to the Run, and the event that reports it.\<close>

definition final_run_status :: "gostring \<Rightarrow> gostring" where
  "final_run_status s = (if s = ''success'' then ''verifying'' else if s = ''rollback_required'' then ''regressed'' else ''failed'')"

definition set_run_final :: "gostring \<Rightarrow> millis \<Rightarrow> millis \<Rightarrow> ai_run \<Rightarrow> ai_run" where
  "set_run_final status now t r = r
     \<lparr>r_status := status, r_state_version := r_state_version r + 1, r_updated_at := t,
      r_finished_at := (if status = ''verifying'' then None else Some now)\<rparr>"

definition completed_event :: "action_env \<Rightarrow> ai_action \<Rightarrow> gostring \<Rightarrow> run_event" where
  "completed_event ae a s =
    \<lparr>ev_event_id = deterministicActionEventID (ae_sha ae) (ac_action_id a) s, ev_run_id = ac_run_id a,
     ev_sequence = 0, ev_event_type = ''action.execution.completed'',
     ev_payload = json_text (JObj [(''action_id'', JStr (ac_action_id a)),
       (''run_status'', JStr (final_run_status s)), (''status'', JStr s)]),
     ev_created_at = 0\<rparr>"

definition finalizeActionRun :: "action_env \<Rightarrow> ai_action \<Rightarrow> gostring \<Rightarrow> (store_db, unit) dbm" where
  "finalizeActionRun ae a s =
     db_bind (db_try (db_conn (db_stmt (\<lambda>t. update_run (ac_run_id a) (\<lambda>r. r_status r = ''executing'')
         (set_run_final (final_run_status s) (ae_now ae) (sql_now t))))))
      (\<lambda>_. db_bind (db_try (AIRunEventDAO_Append (completed_event ae a s) (ae_now ae))) (\<lambda>_. db_ret ()))"

definition action_retry :: "action_env \<Rightarrow> action_outbox \<Rightarrow> DispatchFence \<Rightarrow> (store_db, unit) dbm" where
  "action_retry ae row fence =
     db_bind (db_try (AIActionOutboxDAO_Retry (ao_command_id row) fence
         (ae_now ae + backoff (ao_dispatch_count row) div 1000000))) (\<lambda>_. db_ret ())"

text \<open>The end of a pass: what the result of the executor does to the command.\<close>

definition action_settle ::
  "action_env \<Rightarrow> action_outbox \<Rightarrow> DispatchFence \<Rightarrow> ai_action \<Rightarrow> exec_result \<Rightarrow> (store_db, unit) dbm" where
  "action_settle ae row fence a out =
     (if snd out \<or> ar_Status (fst out) \<in> set [''execution_unknown'', ''reconcile_required'', ''unknown'']
      then action_retry ae row fence
      else if isTerminalExecutionStatus (ar_Status (fst out))
      then db_bind (finalizeActionRun ae a (ar_Status (fst out)))
             (\<lambda>_. db_bind (db_try (AIActionOutboxDAO_Deliver (ao_command_id row) fence)) (\<lambda>_. db_ret ()))
      else action_retry ae row fence)"

definition outbox_matches :: "action_outbox \<Rightarrow> ai_action \<Rightarrow> bool" where
  "outbox_matches row a \<longleftrightarrow> ac_action_hash a = ao_action_hash row \<and> ac_tenant_id a = ao_tenant_id row \<and>
     ac_cluster_id a = ao_cluster_id row \<and> ac_status a = ''approved'' \<and> \<not> ac_dry_run a"

definition integrity_error :: json where
  "integrity_error = JObj [(''error'', JStr ''ACTION_OUTBOX_INTEGRITY_FAILURE'')]"

definition dispatch_action_body ::
  "action_env \<Rightarrow> action_outbox \<Rightarrow> DispatchFence \<Rightarrow> ai_action \<Rightarrow> (store_db, ActionExecutionContext list) dbm" where
  "dispatch_action_body ae row fence a =
     db_bind (db_try (GetApprovedApproval (ac_action_id a)))
      (\<lambda>got. case got of
         Inr (Some p) \<Rightarrow>
           if ap_action_hash p \<noteq> ao_action_hash row then db_bind (action_retry ae row fence) (\<lambda>_. db_ret [])
           else if ac_execution_status a = ''execution_unknown''
           then db_bind (reconcileAction ae a)
                  (\<lambda>out. db_bind (action_settle ae row fence a out) (\<lambda>_. db_ret []))
           else db_bind (executeApprovedAction ae a p)
                  (\<lambda>(out, calls). db_bind (action_settle ae row fence a out) (\<lambda>_. db_ret calls))
       | _ \<Rightarrow> db_bind (action_retry ae row fence) (\<lambda>_. db_ret []))"

definition dispatch_action_claimed :: "action_env \<Rightarrow> action_outbox \<Rightarrow> DispatchFence \<Rightarrow> (store_db, ActionExecutionContext list) dbm" where
  "dispatch_action_claimed ae row fence =
     db_bind (db_try (AIActionDAO_GetByID (ao_action_id row)))
      (\<lambda>got. case got of
         Inr (Some a) \<Rightarrow>
           if \<not> outbox_matches row a
           then db_bind (db_try (UpdateByIdemKey (ac_run_id a) (ac_idempotency_key a) ''rejected''
                    (Some integrity_error) (ae_now ae)))
                  (\<lambda>_. db_bind (db_try (AIActionOutboxDAO_Deliver (ao_command_id row) fence)) (\<lambda>_. db_ret []))
           else dispatch_action_body ae row fence a
       | _ \<Rightarrow> db_bind (action_retry ae row fence) (\<lambda>_. db_ret []))"

definition dispatchActionOne :: "action_env \<Rightarrow> action_outbox \<Rightarrow> (store_db, ActionExecutionContext list) dbm" where
  "dispatchActionOne ae row =
     db_bind (db_try (AIActionOutboxDAO_Claim (ae_token ae (ao_command_id row)) (ao_command_id row) (ae_owner ae) 30))
      (\<lambda>res. case res of
         Inl _ \<Rightarrow> db_ret []
       | Inr (fence, claimed) \<Rightarrow> if \<not> claimed then db_ret [] else dispatch_action_claimed ae row fence)"

fun dispatch_actions :: "action_env \<Rightarrow> action_outbox list \<Rightarrow> (store_db, ActionExecutionContext list) dbm" where
  "dispatch_actions ae [] = db_ret []"
| "dispatch_actions ae (row # rows) =
     db_bind (dispatchActionOne ae row) (\<lambda>c. db_bind (dispatch_actions ae rows) (\<lambda>cs. db_ret (c @ cs)))"

definition dispatchActionPending :: "action_env \<Rightarrow> (store_db, ActionExecutionContext list) dbm" where
  "dispatchActionPending ae =
     db_bind (db_try (AIActionOutboxDAO_ScanPending 50))
       (\<lambda>res. case res of Inl _ \<Rightarrow> db_ret [] | Inr rows \<Rightarrow> dispatch_actions ae rows)"

section \<open>The compatibility endpoint\<close>

definition actionScopeDenied :: "AuthorizationContext option \<Rightarrow> gostring \<Rightarrow> gostring \<Rightarrow> (int \<times> gostring) option" where
  "actionScopeDenied session tenant cluster =
     (case session of
        None \<Rightarrow> None
      | Some auth \<Rightarrow>
        if au_TenantID auth \<noteq> [] \<and> au_TenantID auth \<noteq> tenant then Some (403, ''TENANT_ACCESS_DENIED'')
        else if au_ActiveClusterID auth \<noteq> [] \<and> cluster \<noteq> [] \<and> au_ActiveClusterID auth \<noteq> cluster
        then Some (409, ''CONTEXT_SCOPE_MISMATCH'')
        else None)"

text \<open>The reply is the status and, for a queued Action, the newest command.\<close>

definition executeActionPublic ::
  "AuthorizationContext option \<Rightarrow> gostring \<Rightarrow> (store_db, (gostring \<times> gostring) reply) dbm" where
  "executeActionPublic session aid =
     db_bind (db_try (AIActionDAO_GetByID aid))
      (\<lambda>got. case got of
         Inl _ \<Rightarrow> db_ret (Refuse 500 ''action_read_failed'')
       | Inr None \<Rightarrow> db_ret (Refuse 404 ''RESOURCE_NOT_FOUND'')
       | Inr (Some a) \<Rightarrow>
        (case actionScopeDenied session (ac_tenant_id a) (ac_cluster_id a) of
           Some (code, msg) \<Rightarrow> db_ret (Refuse code msg)
         | None \<Rightarrow>
           db_bind (db_try (GetApprovedApproval aid))
            (\<lambda>ap. case ap of
               Inl _ \<Rightarrow> db_ret (Refuse 500 ''approval_read_failed'')
             | Inr None \<Rightarrow> db_ret (Refuse 422 ''ACTION_NOT_APPROVED'')
             | Inr (Some p) \<Rightarrow>
               if ap_decision p \<noteq> ''approved'' then db_ret (Refuse 422 ''ACTION_NOT_APPROVED'')
               else if isTerminalExecutionStatus (ac_execution_status a)
               then db_ret (Reply (ac_execution_status a, []))
               else db_bind (db_try (db_conn (db_stmt (\<lambda>t db. (sort_key (\<lambda>ao. - ao_created_at ao)
                        (filter (\<lambda>ao. ao_action_id ao = aid) (ai_action_outbox db)), db)))))
                 (\<lambda>rows. case rows of
                    Inr (ao # _) \<Rightarrow> db_ret (Reply (''queued'', ao_command_id ao))
                  | _ \<Rightarrow> db_ret (Refuse 503 ''ACTION_OUTBOX_MISSING'')))))"

end
