(* ===== verification/ActionSafety.thy ===== *)
theory ActionSafety
  imports ActionDispatch
begin

text \<open>
  What reaches the executor.  A step relation covers every operation that writes the tables of
  Actions, approvals and attempts; over every history of such steps, with any failures of the
  database and any answers of the executor, an Action is executed at most once, and only with the
  approval of somebody other than its proposer for exactly the payload that is sent.

  The proofs are assertions about the database monad: \<open>triple P m Q E\<close> says that \<open>m\<close>, started where
  \<open>P\<close> holds, ends in \<open>Q\<close> with its result or in \<open>E\<close> with an error.
\<close>

section \<open>Assertions\<close>

definition triple :: "('s \<Rightarrow> bool) \<Rightarrow> ('s, 'a) dbm \<Rightarrow> ('a \<Rightarrow> 's \<Rightarrow> bool) \<Rightarrow> ('s \<Rightarrow> bool) \<Rightarrow> bool" where
  "triple P m Q E \<longleftrightarrow> (\<forall>env n s r n' s'. P s \<longrightarrow> m env (n, s) = (r, (n', s')) \<longrightarrow>
     (case r of Inl _ \<Rightarrow> E s' | Inr x \<Rightarrow> Q x s'))"

lemma tripleD: "triple P m Q E \<Longrightarrow> P s \<Longrightarrow> m env (n, s) = (Inr x, (n', s')) \<Longrightarrow> Q x s'"
  by (auto simp: triple_def split: sum.splits)

lemma triple_errD: "triple P m Q E \<Longrightarrow> P s \<Longrightarrow> m env (n, s) = (Inl e, (n', s')) \<Longrightarrow> E s'"
  by (fastforce simp: triple_def)

lemma triple_conseq: "triple P m Q E \<Longrightarrow> (\<And>s. P' s \<Longrightarrow> P s) \<Longrightarrow> (\<And>x s. Q x s \<Longrightarrow> Q' x s) \<Longrightarrow> (\<And>s. E s \<Longrightarrow> E' s) \<Longrightarrow>
    triple P' m Q' E'"
  unfolding triple_def by (fastforce split: sum.splits)

lemma triple_ret: "(\<And>s. P s \<Longrightarrow> Q x s) \<Longrightarrow> triple P (db_ret x) Q E"
  by (auto simp: triple_def db_ret_def)

lemma triple_stmt: "(\<And>t s. P s \<Longrightarrow> Q (fst (f t s)) (snd (f t s))) \<Longrightarrow> (\<And>s. P s \<Longrightarrow> E s) \<Longrightarrow> triple P (db_stmt f) Q E"
  by (auto simp: triple_def db_stmt_def Let_def case_prod_beta split: if_splits)

lemma triple_bind:
  assumes m: "triple P m R E" and k: "\<And>x. triple (R x) (k x) Q E"
  shows "triple P (db_bind m k) Q E"
proof (unfold triple_def, intro allI impI)
  fix env n s r n' s'
  assume P: "P s" and run: "db_bind m k env (n, s) = (r, n', s')"
  obtain x n1 s1 where mr: "m env (n, s) = (x, (n1, s1))" by (metis prod_cases3)
  show "case r of Inl _ \<Rightarrow> E s' | Inr x \<Rightarrow> Q x s'"
  proof (cases x)
    case (Inl e)
    with triple_errD [OF m P] mr run show ?thesis by (auto simp: db_bind_def)
  next
    case (Inr y)
    with m P mr have "R y s1" by (auto dest: tripleD)
    with k [of y] Inr mr run show ?thesis by (simp add: triple_def db_bind_def)
  qed
qed

lemma triple_try: "triple P m Q E \<Longrightarrow> triple P (db_try m) (\<lambda>r s. case r of Inl _ \<Rightarrow> E s | Inr x \<Rightarrow> Q x s) F"
  unfolding triple_def db_try_def by (auto split: prod.splits)

lemma triple_conn: "triple P m Q E \<Longrightarrow> (\<And>s. P s \<Longrightarrow> E s) \<Longrightarrow> triple P (db_conn m) Q E"
  by (auto simp: triple_def db_conn_def)

lemma triple_keeps: "keeps P m \<Longrightarrow> triple P m (\<lambda>_. P) P"
  by (auto simp: triple_def keeps_def split: sum.splits)

lemma triple_keeps_try: "keeps P m \<Longrightarrow> triple P (db_try m) (\<lambda>_. P) F"
  by (auto simp: triple_def keeps_def db_try_def split: sum.splits prod.splits)

section \<open>The tables of Actions\<close>

type_synonym act_tables = "ai_action list \<times> approval_decision list \<times> action_attempt list"

definition tables_of :: "store_db \<Rightarrow> act_tables" where
  "tables_of db = (ai_actions db, ai_approval_decisions db, ai_action_attempts db)"

text \<open>Operations on other tables keep every assertion about these.\<close>

definition elsewhere :: "(store_db, 'a) dbm \<Rightarrow> bool" where
  "elsewhere m \<longleftrightarrow> (\<forall>P. keeps (\<lambda>db. P (tables_of db)) m)"

lemma elsewhereD: "elsewhere m \<Longrightarrow> keeps (\<lambda>db. P (tables_of db)) m"
  by (simp add: elsewhere_def)

lemma elsewhere_stmt: "(\<And>t s. tables_of (snd (f t s)) = tables_of s) \<Longrightarrow> elsewhere (db_stmt f)"
  unfolding elsewhere_def by (intro allI keeps_stmt) simp

lemma elsewhere_comb:
  "elsewhere (db_ret x)" "elsewhere (db_fail e)"
  "elsewhere m \<Longrightarrow> (\<And>x. elsewhere (k x)) \<Longrightarrow> elsewhere (db_bind m k)"
  "elsewhere m \<Longrightarrow> elsewhere (db_try m)" "elsewhere m \<Longrightarrow> elsewhere (db_conn m)"
  "elsewhere m'' \<Longrightarrow> elsewhere (db_tx m'')"
  unfolding elsewhere_def by (auto intro: keeps_rules)

lemma elsewhere_cases:
  "elsewhere m \<Longrightarrow> elsewhere m' \<Longrightarrow> elsewhere (if b then m else m')"
  "(\<And>e. elsewhere (f e)) \<Longrightarrow> (\<And>x. elsewhere (g x)) \<Longrightarrow> elsewhere (case_sum f g r)"
  "elsewhere m \<Longrightarrow> (\<And>x. elsewhere (h x)) \<Longrightarrow> elsewhere (case_option m h q)"
  by (simp, cases r, auto, cases q, auto)

lemma update_run_tables [simp]: "tables_of (snd (update_run rid p f db)) = tables_of db"
  by (simp add: tables_of_def)

lemma Append_elsewhere: "elsewhere (AIRunEventDAO_Append ev now)"
  unfolding AIRunEventDAO_Append_def append_body_def
  by (intro elsewhere_comb elsewhere_stmt)
    (auto intro!: elsewhere_comb elsewhere_stmt simp: insert_event_def tables_of_def split: option.splits ins_result.splits)

lemma outbox_elsewhere:
  "elsewhere (AIActionOutboxDAO_Claim token cid owner secs)"
  "elsewhere (AIActionOutboxDAO_Deliver cid f)" "elsewhere (AIActionOutboxDAO_Retry cid f next)"
  unfolding AIActionOutboxDAO_Claim_def AIActionOutboxDAO_Deliver_def AIActionOutboxDAO_Retry_def
  by (auto intro!: elsewhere_comb elsewhere_stmt simp: tables_of_def claim_action_outbox_row_def Let_def split: prod.splits)

lemma reads_elsewhere: "elsewhere (AIActionDAO_GetByID aid)" "elsewhere (GetApprovedApproval aid)"
  "elsewhere (AIActionReconciliationDAO_Create rc)" "elsewhere (AIRunDAO_Get rid)"
  unfolding AIActionDAO_GetByID_def GetApprovedApproval_def AIActionReconciliationDAO_Create_def AIRunDAO_Get_def AIRunDAO_GetTx_def
  by (auto intro!: elsewhere_comb elsewhere_stmt simp: tables_of_def split: option.splits)

lemma settle_elsewhere: "elsewhere (finalizeActionRun ae a s)" "elsewhere (action_retry ae row fence)" "elsewhere (action_settle ae row fence a out)"
proof -
  show 1: "elsewhere (finalizeActionRun ae a s)" for s
    unfolding finalizeActionRun_def by (auto intro!: elsewhere_comb elsewhere_stmt Append_elsewhere)
  show 2: "elsewhere (action_retry ae row fence)"
    unfolding action_retry_def by (auto intro!: elsewhere_comb outbox_elsewhere)
  show "elsewhere (action_settle ae row fence a out)"
    unfolding action_settle_def by (auto intro!: elsewhere_comb outbox_elsewhere 1 2)
qed

section \<open>Approved means seconded\<close>

text \<open>The part of an Action that no operation changes.\<close>

definition imm :: "ai_action \<Rightarrow> ai_action" where
  "imm a = a\<lparr>ac_status := [], ac_execution_status := [], ac_result := None, ac_error_code := [],
     ac_executed_at := None, ac_updated_at := 0\<rparr>"

text \<open>Somebody other than the proposer approved this version of the Action, and the hash is that of its fields.\<close>

definition seconded :: "(gostring \<Rightarrow> gostring) \<Rightarrow> approval_decision list \<Rightarrow> ai_action \<Rightarrow> bool" where
  "seconded hx ps a \<longleftrightarrow> stored_hash hx a = ac_action_hash a \<and>
     (\<exists>p\<in>set ps. ap_action_id p = ac_action_id a \<and> ap_decision p = ''approved'' \<and> ap_action_hash p = ac_action_hash a \<and>
        ap_action_version p = Some (ac_action_version a) \<and> ac_proposed_by a \<noteq> Some (ap_approver p))"

fun good :: "(gostring \<Rightarrow> gostring) \<Rightarrow> act_tables \<Rightarrow> bool" where
  "good hx (as, ps, ts) \<longleftrightarrow> uniq_key ac_action_id as \<and> (\<forall>a\<in>set as. ac_status a = ''approved'' \<longrightarrow> seconded hx ps a)"

fun grows :: "act_tables \<Rightarrow> act_tables \<Rightarrow> bool" where
  "grows (as, ps, ts) (as', ps', ts') \<longleftrightarrow> imm ` set as \<subseteq> imm ` set as' \<and> set ps \<subseteq> set ps' \<and>
     at_attempt_id ` set ts \<subseteq> at_attempt_id ` set ts'"

lemma grows_refl: "grows T T"
  by (cases T) simp

lemma grows_trans: "grows T T' \<Longrightarrow> grows T' T'' \<Longrightarrow> grows T T''"
  by (cases T; cases T'; cases T'', simp only: grows.simps, elim conjE, intro conjI; erule (1) subset_trans)

lemma seconded_imm: "imm a = imm b \<Longrightarrow> seconded hx ps a = seconded hx ps b"
proof -
  have "seconded hx ps (imm a) = seconded hx ps a" for a by (simp add: seconded_def imm_def stored_hash_def)
  then show "imm a = imm b \<Longrightarrow> seconded hx ps a = seconded hx ps b" by metis
qed

lemma seconded_mono: "seconded hx ps a \<Longrightarrow> set ps \<subseteq> set ps' \<Longrightarrow> seconded hx ps' a"
  by (auto simp: seconded_def)

text \<open>
  \<open>safe\<close>: whatever fails on the way, the operation keeps \<open>good\<close> and only adds rows or changes the mutable
  part of an Action.
\<close>

definition safe :: "(gostring \<Rightarrow> gostring) \<Rightarrow> (store_db, 'a) dbm \<Rightarrow> bool" where
  "safe hx m \<longleftrightarrow> (\<forall>env n db r n' db'. m env (n, db) = (r, (n', db')) \<longrightarrow> good hx (tables_of db) \<longrightarrow>
     good hx (tables_of db') \<and> grows (tables_of db) (tables_of db'))"

definition stable :: "(act_tables \<Rightarrow> bool) \<Rightarrow> bool" where
  "stable P \<longleftrightarrow> (\<forall>T T'. grows T T' \<longrightarrow> P T \<longrightarrow> P T')"

lemma safe_iff: "safe hx m \<longleftrightarrow> (\<forall>T. keeps (\<lambda>db. good hx (tables_of db) \<and> grows T (tables_of db)) m)"
proof
  assume "safe hx m"
  then show "\<forall>T. keeps (\<lambda>db. good hx (tables_of db) \<and> grows T (tables_of db)) m"
    unfolding safe_def keeps_def by (blast intro: grows_trans)
next
  assume k: "\<forall>T. keeps (\<lambda>db. good hx (tables_of db) \<and> grows T (tables_of db)) m"
  show "safe hx m"
  proof (unfold safe_def, intro allI impI)
    fix env n db r n' db'
    assume m: "m env (n, db) = (r, n', db')" and g: "good hx (tables_of db)"
    show "good hx (tables_of db') \<and> grows (tables_of db) (tables_of db')"
      by (rule keepsD [OF k [rule_format, of "tables_of db"] _ m]) (use g grows_refl in blast)
  qed
qed

lemma safe_keeps: "safe hx m \<Longrightarrow> stable P \<Longrightarrow> keeps (\<lambda>db. good hx (tables_of db) \<and> P (tables_of db)) m"
  unfolding safe_def stable_def keeps_def by blast

lemma safe_comb:
  "safe hx (db_ret x)" "safe hx (db_fail e)"
  "safe hx m \<Longrightarrow> (\<And>x. safe hx (k x)) \<Longrightarrow> safe hx (db_bind m k)"
  "safe hx m \<Longrightarrow> safe hx (db_try m)" "safe hx m \<Longrightarrow> safe hx (db_conn m)" "safe hx m'' \<Longrightarrow> safe hx (db_tx m'')"
  unfolding safe_iff by (auto intro: keeps_rules)

lemma safe_stmt: "(\<And>t s. good hx (tables_of s) \<Longrightarrow>
    good hx (tables_of (snd (f t s))) \<and> grows (tables_of s) (tables_of (snd (f t s)))) \<Longrightarrow> safe hx (db_stmt f)"
  unfolding safe_iff by (intro allI keeps_stmt) (blast intro: grows_trans)

lemma elsewhere_safe: "elsewhere m \<Longrightarrow> safe hx m"
  unfolding safe_iff using elsewhereD [where P = "\<lambda>T. good hx T \<and> grows T' T" for T'] by blast

lemma good_other: "good hx (as, ps, ts) \<Longrightarrow> good hx (as, ps, ts')"
  by simp

section \<open>The operations are safe\<close>

lemma image_sql_update: "(\<And>x. g (f x) = g x) \<Longrightarrow> g ` set (sql_update p f t) = g ` set t"
  by (induction t) auto

text \<open>An update of Actions that keeps the immutable part and approves nothing.\<close>

lemma update_actions_safe:
  assumes "\<And>a. imm (f a) = imm a" and "\<And>a. ac_status (f a) = ''approved'' \<Longrightarrow> ac_status a = ''approved''"
    and "good hx (tables_of db)"
  shows "good hx (tables_of (update_actions p f db)) \<and> grows (tables_of db) (tables_of (update_actions p f db))"
proof -
  let ?as = "sql_update p f (ai_actions db)"
  have key: "ac_action_id (f a) = ac_action_id a" for a
    using arg_cong [OF assms(1) [of a], of ac_action_id] by (simp add: imm_def)
  have "uniq_key ac_action_id ?as" using assms(3) key by (simp add: tables_of_def uniq_key_update)
  moreover have "seconded hx (ai_approval_decisions db) a" if a: "a \<in> set ?as" "ac_status a = ''approved''" for a
  proof -
    from a(1) obtain b where "b \<in> set (ai_actions db)" and b: "a = b \<or> a = f b" by (auto simp: set_sql_update)
    moreover from a(2) b assms(2) have "ac_status b = ''approved''" by auto
    ultimately have "seconded hx (ai_approval_decisions db) b" using assms(3) by (auto simp: tables_of_def)
    with b assms(1) [of b] seconded_imm [of "f b" b] show ?thesis by auto
  qed
  moreover have "imm ` set (ai_actions db) \<subseteq> imm ` set ?as" using assms(1) by (simp only: image_sql_update subset_refl)
  ultimately show ?thesis by (simp add: tables_of_def update_actions_def)
qed

lemma UpdateExecution_safe: "safe hx (UpdateExecution aid status result code now)"
  unfolding UpdateExecution_def
  by (intro safe_comb safe_stmt, unfold snd_conv, rule update_actions_safe) (simp_all add: set_execution_def imm_def)

lemma UpdateByIdemKey_safe: "status \<noteq> ''approved'' \<Longrightarrow> safe hx (UpdateByIdemKey rid key status result now)"
  unfolding UpdateByIdemKey_def
  by (intro safe_comb safe_stmt, unfold snd_conv, rule update_actions_safe) (simp_all add: imm_def)

lemma AttemptUpdate_safe: "safe hx (AIActionAttemptDAO_Update atid status result code finished)"
proof -
  have k: "at_attempt_id ` set (sql_update p (set_attempt status result code finished) ts) = at_attempt_id ` set ts" for p ts
    by (rule image_sql_update) (simp add: set_attempt_def)
  show ?thesis
    unfolding AIActionAttemptDAO_Update_def by (intro safe_comb safe_stmt) (simp add: tables_of_def k)
qed

lemma insert_action_safe:
  assumes "ac_status a \<noteq> ''approved''" and "good hx (tables_of db)" and "\<not> list_ex (\<lambda>x. ac_action_id x = ac_action_id a) (ai_actions db)"
  shows "good hx (ai_actions db @ [a], ai_approval_decisions db, ai_action_attempts db) \<and>
    grows (tables_of db) (ai_actions db @ [a], ai_approval_decisions db, ai_action_attempts db)"
  using assms by (auto simp: tables_of_def uniq_key_append_one list_ex_iff)

lemma ActionCreate_safe: "ac_status a \<noteq> ''approved'' \<Longrightarrow> safe hx (AIActionDAO_Create now a)"
  unfolding AIActionDAO_Create_def
proof (intro safe_comb safe_stmt, goal_cases)
  case (1 t db)
  let ?a = "action_insert_row now a"
  have st: "ac_status ?a \<noteq> ''approved''" using 1(1) by (simp add: action_insert_row_def or_default_def)
  obtain res db' where ins: "insert_action ?a db = (res, db')" by fastforce
  show ?case
  proof (cases "res = InsOk")
    case True
    with insert_action_ok [of ?a db db'] ins insert_action_safe [OF st 1(2)] show ?thesis by (simp add: tables_of_def)
  next
    case False
    with ins have "db' = db" by (auto simp: insert_action_def split: if_splits)
    with ins 1(2) grows_refl show ?thesis by simp
  qed
next
  case (2 x)
  then show ?case
    by (cases x) (auto intro!: elsewhere_safe elsewhere_comb elsewhere_cases elsewhere_stmt)
qed

lemma insert_approval_safe: "good hx (tables_of db) \<Longrightarrow>
    good hx (tables_of (snd (insert_approval p db))) \<and> grows (tables_of db) (tables_of (snd (insert_approval p db)))"
  using seconded_mono [where ps = "ai_approval_decisions db" and ps' = "ai_approval_decisions db @ [p]"]
  by (auto simp: insert_approval_def tables_of_def)

lemma ApprovalCreate_safe: "safe hx (AIApprovalDecisionDAO_Create now p)"
  unfolding AIApprovalDecisionDAO_Create_def
  by (intro safe_comb safe_stmt insert_approval_safe)
    (auto intro!: elsewhere_safe elsewhere_comb elsewhere_cases elsewhere_stmt split: ins_result.splits)

lemma manual_row_status: "ac_status (manual_action_row run a now) = or_default (ac_status a) ''proposed''"
  "ac_action_id (manual_action_row run a now) = ac_action_id a"
  by (simp_all add: manual_action_row_def action_insert_row_def Let_def)

lemma CreateManualAction_safe:
  assumes "ac_status a \<noteq> ''approved''"
  shows "safe hx (CreateManualAction now run a)"
proof (unfold safe_def, intro allI impI)
  fix env n db r n' db'
  assume m: "CreateManualAction now run a env (n, db) = (r, n', db')" and g: "good hx (tables_of db)"
  let ?a = "manual_action_row run a now"
  have st: "ac_status ?a \<noteq> ''approved''" using assms by (simp add: manual_row_status or_default_def)
  from CreateManualAction_cases [OF m] show "good hx (tables_of db') \<and> grows (tables_of db) (tables_of db')"
    using g grows_refl insert_action_safe [OF st g] by (auto simp: manual_row_status tables_of_def)
qed

text \<open>The decision is the one operation that approves, and it records the approval that \<open>seconded\<close> asks for.\<close>

lemma decided_safe:
  assumes "good hx (tables_of db)" and "get_action aid db = Some a" and "decidable_action hx auth req a"
  shows "good hx (tables_of (decided_db p c auth req a r now db)) \<and> grows (tables_of db) (tables_of (decided_db p c auth req a r now db))"
proof -
  let ?ps = "ai_approval_decisions db @ [decision_row p auth req a now]"
  let ?as = "sql_update (\<lambda>x. ac_action_id x = ac_action_id a \<and> ac_status x = ''proposed'') (set_decided (dr_Decision req) now) (ai_actions db)"
  have inset: "a \<in> set (ai_actions db)" using assms(2) by (auto simp: get_action_def dest: sql_first_SomeD)
  have imm: "imm (set_decided (dr_Decision req) now x) = imm x" for x by (simp add: imm_def set_decided_def)
  have u: "uniq_key ac_action_id (ai_actions db)" using assms(1) by (simp add: tables_of_def)
  have "seconded hx ?ps b" if b: "b \<in> set ?as" "ac_status b = ''approved''" for b
  proof -
    from b(1) obtain x where x: "x \<in> set (ai_actions db)"
      and xb: "b = (if ac_action_id x = ac_action_id a \<and> ac_status x = ''proposed'' then set_decided (dr_Decision req) now x else x)"
      by (auto simp: set_sql_update)
    show ?thesis
    proof (cases "ac_action_id x = ac_action_id a \<and> ac_status x = ''proposed''")
      case True
      with u x inset have "x = a" by (auto dest: uniq_key_eq)
      with True xb b(2) have "dr_Decision req = ''approved''" "b = set_decided (dr_Decision req) now a"
        by (auto simp: set_decided_def split: if_splits)
      moreover from this assms(3) have "seconded hx ?ps a"
        by (auto simp: seconded_def decidable_action_def decision_row_def)
      ultimately show ?thesis using imm [of a] seconded_imm [of b a] by simp
    next
      case False
      with x xb b(2) assms(1) have "seconded hx (ai_approval_decisions db) b" by (auto simp: tables_of_def)
      then show ?thesis by (rule seconded_mono) auto
    qed
  qed
  moreover have "imm ` set (ai_actions db) \<subseteq> imm ` set ?as"
    using imm by (simp only: image_sql_update subset_refl)
  ultimately show ?thesis using u by (simp add: tables_of_def decided_db_def uniq_key_update subset_insertI)
qed

lemma decideAction_safe: "safe hx (decideAction hx p c aid auth req now)"
proof (unfold safe_def, intro allI impI)
  fix env n db r n' db'
  assume m: "decideAction hx p c aid auth req now env (n, db) = (r, n', db')" and g: "good hx (tables_of db)"
  from decideAction_cases [OF m] consider "db' = db"
    | a ra where "get_action aid db = Some a" "decidable_action hx auth (normal_decision req) a"
        "db' = decided_db p c auth (normal_decision req) a ra now db" by blast
  then show "good hx (tables_of db') \<and> grows (tables_of db) (tables_of db')"
  proof cases
    case 1
    with g grows_refl show ?thesis by simp
  next
    case 2
    with decided_safe [OF g 2(1,2)] show ?thesis by simp
  qed
qed

lemma safe_cases:
  "safe hx m \<Longrightarrow> safe hx m' \<Longrightarrow> safe hx (if b then m else m')"
  "(\<And>e. safe hx (f e)) \<Longrightarrow> (\<And>x. safe hx (g x)) \<Longrightarrow> safe hx (case_sum f g r)"
  "safe hx m \<Longrightarrow> (\<And>x. safe hx (h x)) \<Longrightarrow> safe hx (case_option m h q)"
  "(\<And>x y. safe hx (k x y)) \<Longrightarrow> safe hx (case_prod k pr)"
  by (simp, cases r, auto, cases q, auto, cases pr, auto)

lemma executor_safe:
  "safe hx (exec_persist ae a status result code out)" "safe hx (exec_unknown ae cl a c res)"
  "safe hx (exec_call ae cl a c)" "safe hx (reconcileAfterDuplicateAttempt ae cl a c)" "safe hx (reconcileAction ae a)"
proof -
  show 1: "safe hx (exec_persist ae a status result code out)" for status result code out
    unfolding exec_persist_def by (intro safe_comb safe_cases UpdateExecution_safe AttemptUpdate_safe)
  show 2: "safe hx (exec_unknown ae cl a c res)" for res
    unfolding exec_unknown_def by (intro safe_comb safe_cases 1 elsewhere_safe [OF reads_elsewhere(3)])
  show "safe hx (exec_call ae cl a c)"
    unfolding exec_call_def Let_def by (intro safe_comb safe_cases 1 2)
  show "safe hx (reconcileAfterDuplicateAttempt ae cl a c)"
    unfolding reconcileAfterDuplicateAttempt_def Let_def by (intro safe_comb safe_cases UpdateExecution_safe)
  have "safe hx (reconcile_settle ae a res)" for res
    unfolding reconcile_settle_def by (intro safe_comb safe_cases UpdateExecution_safe AttemptUpdate_safe)
  then show "safe hx (reconcileAction ae a)"
    unfolding reconcileAction_def Let_def by (intro safe_comb safe_cases elsewhere_safe [OF reads_elsewhere(3)])
qed

section \<open>What a pass of the dispatcher sends\<close>

text \<open>An Action as \<open>GetByID\<close> returned it, of which the stored row is seconded.\<close>

fun vouched :: "(gostring \<Rightarrow> gostring) \<Rightarrow> ai_action \<Rightarrow> act_tables \<Rightarrow> bool" where
  "vouched hx a (as, ps, ts) \<longleftrightarrow> (\<exists>b\<in>set as. imm (action_view b) = imm a \<and> seconded hx ps b)"

fun attempted :: "gostring \<Rightarrow> act_tables \<Rightarrow> bool" where
  "attempted atid (as, ps, ts) \<longleftrightarrow> atid \<in> at_attempt_id ` set ts"

text \<open>The context carries the fields of the Action that the hash covers, except for the resource type.\<close>

definition context_of :: "ai_action \<Rightarrow> ActionExecutionContext \<Rightarrow> bool" where
  "context_of b c \<longleftrightarrow> aec_ActionID c = ac_action_id b \<and> aec_ActionHash c = ac_action_hash b \<and>
     aec_TargetUID c = ac_target_uid b \<and> aec_TargetName c = ac_target_name b \<and>
     aec_ResourceVersion c = ac_resource_version b \<and> aec_ClusterID c = ac_cluster_id b \<and>
     aec_Namespace c = ac_namespace b \<and> aec_Operation c = ac_operation b \<and> aec_TargetSpec c = action_spec b \<and>
     aec_ResourceType c = ''deployment''"

fun backed :: "(gostring \<Rightarrow> gostring) \<Rightarrow> ActionExecutionContext \<Rightarrow> act_tables \<Rightarrow> bool" where
  "backed hx c (as, ps, ts) \<longleftrightarrow> (\<exists>b\<in>set as. seconded hx ps b \<and> context_of b c)"

definition sanctioned ::
  "(gostring \<Rightarrow> gostring) \<Rightarrow> (gostring \<Rightarrow> 8 word list) \<Rightarrow> act_tables \<Rightarrow> act_tables \<Rightarrow> ActionExecutionContext \<Rightarrow> bool" where
  "sanctioned hx sha T T' c \<longleftrightarrow> backed hx c T' \<and>
     \<not> attempted (deterministicActionAttemptID sha (aec_ActionID c) 1) T \<and>
     attempted (deterministicActionAttemptID sha (aec_ActionID c) 1) T'"

lemma imm_view_cong: "imm a = imm b \<Longrightarrow> imm (action_view a) = imm (action_view b)"
proof -
  have "imm (action_view a) = action_view (imm a)" for a by (simp add: imm_def action_view_def)
  then show "imm a = imm b \<Longrightarrow> imm (action_view a) = imm (action_view b)" by simp
qed

lemma context_of_imm: "imm a = imm b \<Longrightarrow> context_of a c = context_of b c"
proof -
  have "context_of (imm a) c = context_of a c" for a by (simp add: context_of_def imm_def action_spec_def)
  then show "imm a = imm b \<Longrightarrow> context_of a c = context_of b c" by metis
qed

lemma stable_rules:
  "stable (grows T)" "stable (vouched hx a)" "stable (attempted atid)" "stable (backed hx c)"
  "stable P \<Longrightarrow> stable Q \<Longrightarrow> stable (\<lambda>T. P T \<and> Q T)" "stable (\<lambda>T. b)"
proof -
  show "stable (grows T)" by (auto simp: stable_def intro: grows_trans)
  have ex: "\<exists>b'\<in>set as'. imm b = imm b' \<and> (seconded hx ps b \<longrightarrow> seconded hx ps' b')"
    if g: "grows (as, ps, ts) (as', ps', ts')" and b: "b \<in> set as" for as ps ts as' ps' ts' b hx
  proof -
    from g b have "imm b \<in> imm ` set as'" by (simp only: grows.simps) blast
    then obtain b' where b': "b' \<in> set as'" "imm b = imm b'" by auto
    have "set ps \<subseteq> set ps'" using g by simp
    then have "seconded hx ps b \<longrightarrow> seconded hx ps' b'"
      using seconded_imm [OF b'(2), of hx ps] seconded_mono [of hx ps b' ps'] by blast
    with b' show ?thesis by blast
  qed
  show "stable (vouched hx a)"
    unfolding stable_def
  proof (intro allI impI)
    fix T T' assume g: "grows T T'" and v: "vouched hx a T"
    obtain as ps ts as' ps' ts' where T: "T = (as, ps, ts)" "T' = (as', ps', ts')" by (metis prod_cases3)
    with v obtain b where b: "b \<in> set as" "imm (action_view b) = imm a" "seconded hx ps b" by auto
    obtain b' where b': "b' \<in> set as'" "imm b = imm b'" "seconded hx ps' b'"
      using ex [OF g [unfolded T] b(1), of hx] b(3) by blast
    then have "imm (action_view b') = imm a" using imm_view_cong [OF b'(2)] b(2) by simp
    with b' show "vouched hx a T'" unfolding T by auto
  qed
  show "stable (backed hx c)"
    unfolding stable_def
  proof (intro allI impI)
    fix T T' assume g: "grows T T'" and v: "backed hx c T"
    obtain as ps ts as' ps' ts' where T: "T = (as, ps, ts)" "T' = (as', ps', ts')" by (metis prod_cases3)
    with v obtain b where b: "b \<in> set as" "context_of b c" "seconded hx ps b" by auto
    obtain b' where b': "b' \<in> set as'" "imm b = imm b'" "seconded hx ps' b'"
      using ex [OF g [unfolded T] b(1), of hx] b(3) by blast
    then have "context_of b' c" using context_of_imm [OF b'(2)] b(2) by simp
    with b' show "backed hx c T'" unfolding T by auto
  qed
  show "stable (attempted atid)"
    unfolding stable_def
  proof (intro allI impI)
    fix T T' assume "grows T T'" "attempted atid T"
    then show "attempted atid T'" by (cases T; cases T') (simp only: grows.simps attempted.simps, blast)
  qed
qed (auto simp: stable_def)

lemma safe_triple: "safe hx m \<Longrightarrow> stable P \<Longrightarrow>
    triple (\<lambda>db. good hx (tables_of db) \<and> P (tables_of db)) m (\<lambda>_ db. good hx (tables_of db) \<and> P (tables_of db))
      (\<lambda>db. good hx (tables_of db) \<and> P (tables_of db))"
  by (intro triple_keeps safe_keeps)

lemma safe_triple_try: "safe hx m \<Longrightarrow> stable P \<Longrightarrow>
    triple (\<lambda>db. good hx (tables_of db) \<and> P (tables_of db)) (db_try m) (\<lambda>_ db. good hx (tables_of db) \<and> P (tables_of db)) F"
  by (intro triple_keeps_try safe_keeps)

lemma AttemptCreate_triple:
  assumes "stable P"
  shows "triple (\<lambda>db. good hx (tables_of db) \<and> P (tables_of db) \<and> grows T (tables_of db)) (AIActionAttemptDAO_Create now att)
    (\<lambda>created db. good hx (tables_of db) \<and> P (tables_of db) \<and> grows T (tables_of db) \<and>
       (created \<longrightarrow> \<not> attempted (at_attempt_id att) T \<and> attempted (at_attempt_id att) (tables_of db)))
    (\<lambda>db. good hx (tables_of db) \<and> P (tables_of db) \<and> grows T (tables_of db))"
proof -
  let ?P = "\<lambda>db. good hx (tables_of db) \<and> P (tables_of db) \<and> grows T (tables_of db)"
  let ?at = "attempt_insert_row now att"
  have id: "at_attempt_id ?at = at_attempt_id att" by (simp add: attempt_insert_row_def)
  have 1: "triple ?P (db_stmt (\<lambda>t. insert_attempt ?at))
      (\<lambda>r db. ?P db \<and> (r = InsOk \<longrightarrow> \<not> attempted (at_attempt_id att) T \<and> attempted (at_attempt_id att) (tables_of db))) ?P"
  proof (rule triple_stmt)
    fix t db assume P: "?P db"
    show "?P (snd (insert_attempt ?at db)) \<and> (fst (insert_attempt ?at db) = InsOk \<longrightarrow>
        \<not> attempted (at_attempt_id att) T \<and> attempted (at_attempt_id att) (tables_of (snd (insert_attempt ?at db))))"
    proof (cases "fst (insert_attempt ?at db) = InsOk")
      case True
      let ?db = "db\<lparr>ai_action_attempts := ai_action_attempts db @ [?at]\<rparr>"
      from True have ins: "insert_attempt ?at db = (InsOk, ?db)"
        and new: "\<not> attempted (at_attempt_id att) (tables_of db)"
        by (auto simp: insert_attempt_def tables_of_def list_ex_iff id split: if_splits)
      have g: "grows (tables_of db) (tables_of ?db)" and good: "good hx (tables_of ?db)"
        using P by (auto simp: tables_of_def)
      have "attempted (at_attempt_id att) T \<Longrightarrow> attempted (at_attempt_id att) (tables_of db)"
        using stable_rules(3) P unfolding stable_def by blast
      with new have "\<not> attempted (at_attempt_id att) T" by blast
      moreover have "P (tables_of ?db)" using assms g P unfolding stable_def by blast
      moreover have "grows T (tables_of ?db)" using P g grows_trans by blast
      moreover have "attempted (at_attempt_id att) (tables_of ?db)" by (simp add: tables_of_def id)
      ultimately show ?thesis using ins good by simp
    next
      case False
      then have "snd (insert_attempt ?at db) = db" by (auto simp: insert_attempt_def split: if_splits)
      with False P show ?thesis by simp
    qed
  qed
  have 2: "triple ?P (db_bind (db_stmt (\<lambda>t db. (sql_first (\<lambda>x. at_attempt_id x = at_attempt_id att) (ai_action_attempts db), db)))
      (\<lambda>row. case row of None \<Rightarrow> db_fail SqlErrNoRows
        | Some x \<Rightarrow> if at_action_hash x \<noteq> at_action_hash att \<or> at_request_digest x \<noteq> or_default (at_request_digest att) (at_action_hash att)
                    then db_fail ErrIdempotencyPayloadMismatch else db_ret False))
      (\<lambda>r db. ?P db \<and> \<not> r) ?P"
  proof (rule triple_bind [where R = "\<lambda>_. ?P"])
    show "triple ?P (db_stmt (\<lambda>t db. (sql_first (\<lambda>x. at_attempt_id x = at_attempt_id att) (ai_action_attempts db), db))) (\<lambda>_. ?P) ?P"
      by (rule triple_stmt) simp_all
  qed (auto simp: triple_def db_fail_def db_ret_def split: option.splits)
  have "triple ?P (AIActionAttemptDAO_Create now att)
      (\<lambda>created db. ?P db \<and> (created \<longrightarrow> \<not> attempted (at_attempt_id att) T \<and> attempted (at_attempt_id att) (tables_of db))) ?P"
    unfolding AIActionAttemptDAO_Create_def
  proof (rule triple_conn, rule triple_bind [OF 1])
    fix r :: ins_result
    show "triple (\<lambda>db. ?P db \<and> (r = InsOk \<longrightarrow> \<not> attempted (at_attempt_id att) T \<and> attempted (at_attempt_id att) (tables_of db)))
      (case r of InsOk \<Rightarrow> db_ret True
        | InsDup \<Rightarrow> db_bind (db_stmt (\<lambda>t db. (sql_first (\<lambda>x. at_attempt_id x = at_attempt_id att) (ai_action_attempts db), db)))
          (\<lambda>row. case row of None \<Rightarrow> db_fail SqlErrNoRows
            | Some x \<Rightarrow> if at_action_hash x \<noteq> at_action_hash att \<or> at_request_digest x \<noteq> or_default (at_request_digest att) (at_action_hash att)
                        then db_fail ErrIdempotencyPayloadMismatch else db_ret False)
        | InsBad \<Rightarrow> db_fail DriverError)
      (\<lambda>created db. ?P db \<and> (created \<longrightarrow> \<not> attempted (at_attempt_id att) T \<and> attempted (at_attempt_id att) (tables_of db))) ?P"
    proof (cases r)
      case InsDup
      show ?thesis unfolding InsDup ins_result.case by (rule triple_conseq [OF 2]) simp_all
    qed (auto simp: triple_def db_ret_def db_fail_def)
  qed simp
  then show ?thesis by (rule triple_conseq) simp_all
qed

lemma attempt_id_view: "ac_action_version a = 0 \<Longrightarrow> attempt_id ae a = deterministicActionAttemptID (ae_sha ae) (ac_action_id a) 1"
  by (simp add: attempt_id_def deterministicActionAttemptID_def)

lemma exec_plan_context:
  assumes "exec_plan_of ae a p = PlanExecute cl c"
  shows "\<exists>cred. c = execution_context cred a p"
  using assms by (auto simp: exec_plan_of_def split: option.splits if_splits)

lemma vouched_backed:
  assumes "vouched hx a T" and "ac_target_resource_type a = []"
  shows "backed hx (execution_context cred a p) T"
proof -
  obtain as ps ts b where T: "T = (as, ps, ts)" and b: "b \<in> set as" "imm (action_view b) = imm a" "seconded hx ps b"
    using assms(1) by (cases T) auto
  have "context_of (imm a) (execution_context cred a p)"
    using assms(2) by (simp add: context_of_def imm_def execution_context_def action_spec_def or_default_def)
  moreover have "context_of (imm (action_view b)) c = context_of b c" for c
    by (simp add: context_of_def imm_def action_view_def action_spec_def)
  ultimately show ?thesis using b unfolding T by auto
qed

abbreviation pass_post ::
  "(gostring \<Rightarrow> gostring) \<Rightarrow> (gostring \<Rightarrow> 8 word list) \<Rightarrow> act_tables \<Rightarrow> ActionExecutionContext list \<Rightarrow> store_db \<Rightarrow> bool" where
  "pass_post hx sha T calls db \<equiv> good hx (tables_of db) \<and> grows T (tables_of db) \<and>
     (calls = [] \<or> (\<exists>c. calls = [c] \<and> sanctioned hx sha T (tables_of db) c))"

lemma execute_triple:
  assumes "ac_action_version a = 0" and "ac_target_resource_type a = []"
  shows "triple (\<lambda>db. good hx (tables_of db) \<and> vouched hx a (tables_of db) \<and> grows T (tables_of db)) (executeApprovedAction ae a p)
    (\<lambda>(out, calls). pass_post hx (ae_sha ae) T calls) (\<lambda>_. True)"
proof (cases "exec_plan_of ae a p")
  case (PlanReturn res err)
  then show ?thesis by (auto simp: executeApprovedAction_def intro!: triple_ret)
next
  case (PlanExecute cl c)
  then obtain cred where c: "c = execution_context cred a p" using exec_plan_context by blast
  let ?V = "\<lambda>T'. vouched hx a T' \<and> grows T T'"
  let ?id = "attempt_id ae a"
  let ?W = "\<lambda>T'. vouched hx a T' \<and> grows T T' \<and> \<not> attempted ?id T \<and> attempted ?id T'"
  have id: "?id = deterministicActionAttemptID (ae_sha ae) (aec_ActionID c) 1"
    using attempt_id_view [OF assms(1)] by (simp add: c execution_context_def)
  have row: "at_attempt_id (attempt_row ae a c) = ?id" by (simp add: attempt_row_def)
  have call: "triple (\<lambda>db. good hx (tables_of db) \<and> ?W (tables_of db)) (db_bind (exec_call ae cl a c) (\<lambda>out. db_ret (out, [c])))
      (\<lambda>(out, calls). pass_post hx (ae_sha ae) T calls) (\<lambda>_. True)"
  proof (rule triple_bind)
    show "triple (\<lambda>db. good hx (tables_of db) \<and> ?W (tables_of db)) (exec_call ae cl a c)
        (\<lambda>_ db. good hx (tables_of db) \<and> ?W (tables_of db)) (\<lambda>_. True)"
      by (rule triple_conseq [OF safe_triple [OF executor_safe(3), where P = ?W]]) (intro stable_rules, auto)
    show "triple (\<lambda>db. good hx (tables_of db) \<and> ?W (tables_of db)) (db_ret (out, [c]))
        (\<lambda>(out, calls). pass_post hx (ae_sha ae) T calls) (\<lambda>_. True)" for out
      using vouched_backed [OF _ assms(2), of hx _ cred p] id c by (intro triple_ret) (auto simp: sanctioned_def)
  qed
  have dup: "triple (\<lambda>db. good hx (tables_of db) \<and> ?V (tables_of db))
      (db_bind (reconcileAfterDuplicateAttempt ae cl a c) (\<lambda>out. db_ret (out, [])))
      (\<lambda>(out, calls). pass_post hx (ae_sha ae) T calls) (\<lambda>_. True)"
  proof (rule triple_bind)
    show "triple (\<lambda>db. good hx (tables_of db) \<and> ?V (tables_of db)) (reconcileAfterDuplicateAttempt ae cl a c)
        (\<lambda>_ db. good hx (tables_of db) \<and> ?V (tables_of db)) (\<lambda>_. True)"
      by (rule triple_conseq [OF safe_triple [OF executor_safe(4), where P = ?V]]) (intro stable_rules, auto)
  qed (auto intro!: triple_ret)
  show ?thesis
    unfolding executeApprovedAction_def PlanExecute exec_plan.case
  proof (rule triple_bind)
    show "triple (\<lambda>db. good hx (tables_of db) \<and> vouched hx a (tables_of db) \<and> grows T (tables_of db))
        (db_try (AIActionAttemptDAO_Create (ae_now ae) (attempt_row ae a c)))
        (\<lambda>r db. case r of Inl _ \<Rightarrow> good hx (tables_of db) \<and> ?V (tables_of db)
           | Inr created \<Rightarrow> good hx (tables_of db) \<and> ?V (tables_of db) \<and>
               (created \<longrightarrow> \<not> attempted ?id T \<and> attempted ?id (tables_of db))) (\<lambda>_. True)"
      by (rule triple_try [OF AttemptCreate_triple [where P = "vouched hx a" and att = "attempt_row ae a c",
            OF stable_rules(2), unfolded row], THEN triple_conseq]) (auto split: sum.splits)
  next
    fix r :: "store_error + bool"
    show "triple (\<lambda>db. case r of Inl _ \<Rightarrow> good hx (tables_of db) \<and> ?V (tables_of db)
           | Inr created \<Rightarrow> good hx (tables_of db) \<and> ?V (tables_of db) \<and>
               (created \<longrightarrow> \<not> attempted ?id T \<and> attempted ?id (tables_of db)))
        (case r of Inl _ \<Rightarrow> db_ret ((zero_result, True), [])
         | Inr created \<Rightarrow> if \<not> created then db_bind (reconcileAfterDuplicateAttempt ae cl a c) (\<lambda>out. db_ret (out, []))
             else db_bind (exec_call ae cl a c) (\<lambda>out. db_ret (out, [c])))
        (\<lambda>(out, calls). pass_post hx (ae_sha ae) T calls) (\<lambda>_. True)"
    proof (cases r)
      case (Inr created)
      then show ?thesis
        by (cases created) (auto intro: triple_conseq [OF call] triple_conseq [OF dup])
    qed (auto intro!: triple_ret)
  qed
qed

lemma silent_triple:
  assumes "safe hx m"
  shows "triple (\<lambda>db. good hx (tables_of db) \<and> grows T (tables_of db)) (db_bind m (\<lambda>_. db_ret [])) (\<lambda>calls. pass_post hx sha T calls) (\<lambda>_. True)"
proof (rule triple_bind)
  show "triple (\<lambda>db. good hx (tables_of db) \<and> grows T (tables_of db)) m (\<lambda>_ db. good hx (tables_of db) \<and> grows T (tables_of db)) (\<lambda>_. True)"
    by (rule triple_conseq [OF safe_triple [OF assms stable_rules(1)]]) simp_all
qed (auto intro!: triple_ret)

lemma settle_triple:
  assumes "triple P m (\<lambda>(out, calls). pass_post hx sha T calls) (\<lambda>_. True)"
  shows "triple P (db_bind m (\<lambda>(out, calls). db_bind (action_settle ae row fence a out) (\<lambda>_. db_ret calls)))
    (\<lambda>calls. pass_post hx sha T calls) (\<lambda>_. True)"
proof (rule triple_bind [OF assms], simp only: split_paired_all split_conv)
  fix out calls
  let ?Q = "\<lambda>T'. good hx T' \<and> grows T T' \<and> (calls = [] \<or> (\<exists>c. calls = [c] \<and> sanctioned hx sha T T' c))"
  show "triple (\<lambda>db. ?Q (tables_of db)) (db_bind (action_settle ae row fence a out) (\<lambda>_. db_ret calls)) (\<lambda>calls. pass_post hx sha T calls) (\<lambda>_. True)"
  proof (rule triple_bind)
    show "triple (\<lambda>db. ?Q (tables_of db)) (action_settle ae row fence a out) (\<lambda>_ db. ?Q (tables_of db)) (\<lambda>_. True)"
      by (rule triple_conseq [OF triple_keeps [OF elsewhereD [OF settle_elsewhere(3), where P = ?Q]]]) simp_all
  qed (auto intro!: triple_ret)
qed

lemma body_triple:
  assumes "ac_action_version a = 0" and "ac_target_resource_type a = []"
  shows "triple (\<lambda>db. good hx (tables_of db) \<and> vouched hx a (tables_of db) \<and> grows T (tables_of db)) (dispatch_action_body ae row fence a)
    (\<lambda>calls. pass_post hx (ae_sha ae) T calls) (\<lambda>_. True)"
  unfolding dispatch_action_body_def
proof (rule triple_bind)
  let ?P = "\<lambda>T'. good hx T' \<and> vouched hx a T' \<and> grows T T'"
  show "triple (\<lambda>db. ?P (tables_of db)) (db_try (GetApprovedApproval (ac_action_id a))) (\<lambda>_ db. ?P (tables_of db)) (\<lambda>_. True)"
    by (rule triple_keeps_try [OF elsewhereD [OF reads_elsewhere(2), where P = ?P]])
  fix got :: "store_error + approval_decision option"
  have weak: "triple (\<lambda>db. good hx (tables_of db) \<and> grows T (tables_of db)) m Q E \<Longrightarrow> triple (\<lambda>db. ?P (tables_of db)) m Q E" for m Q E
    by (erule triple_conseq) simp_all
  have retry: "triple (\<lambda>db. ?P (tables_of db)) (db_bind (action_retry ae row fence) (\<lambda>_. db_ret []))
      (\<lambda>calls. pass_post hx (ae_sha ae) T calls) (\<lambda>_. True)"
    by (rule weak, rule silent_triple, rule elsewhere_safe, rule settle_elsewhere(2))
  have assoc: "db_bind (reconcileAction ae a) (\<lambda>out. db_bind (action_settle ae row fence a out) (\<lambda>_. db_ret [])) =
      db_bind (db_bind (reconcileAction ae a) (\<lambda>out. db_ret (out, []))) (\<lambda>(out, calls). db_bind (action_settle ae row fence a out) (\<lambda>_. db_ret calls))"
    by (auto simp: db_bind_def db_ret_def fun_eq_iff split: prod.splits sum.splits)
  have rec: "triple (\<lambda>db. ?P (tables_of db)) (db_bind (reconcileAction ae a) (\<lambda>out. db_bind (action_settle ae row fence a out) (\<lambda>_. db_ret [])))
      (\<lambda>calls. pass_post hx (ae_sha ae) T calls) (\<lambda>_. True)"
  proof (unfold assoc, rule settle_triple, rule weak, rule triple_bind)
    show "triple (\<lambda>db. good hx (tables_of db) \<and> grows T (tables_of db)) (reconcileAction ae a) (\<lambda>_ db. good hx (tables_of db) \<and> grows T (tables_of db)) (\<lambda>_. True)"
      by (rule triple_conseq [OF safe_triple [OF executor_safe(5) stable_rules(1)]]) simp_all
  qed (auto intro!: triple_ret)
  show "triple (\<lambda>db. ?P (tables_of db))
      (case got of Inr (Some p) \<Rightarrow>
           if ap_action_hash p \<noteq> ao_action_hash row then db_bind (action_retry ae row fence) (\<lambda>_. db_ret [])
           else if ac_execution_status a = ''execution_unknown''
           then db_bind (reconcileAction ae a) (\<lambda>out. db_bind (action_settle ae row fence a out) (\<lambda>_. db_ret []))
           else db_bind (executeApprovedAction ae a p) (\<lambda>(out, calls). db_bind (action_settle ae row fence a out) (\<lambda>_. db_ret calls))
       | _ \<Rightarrow> db_bind (action_retry ae row fence) (\<lambda>_. db_ret []))
      (\<lambda>calls. pass_post hx (ae_sha ae) T calls) (\<lambda>_. True)"
    using retry rec settle_triple [OF execute_triple [OF assms, of hx T ae]]
    by (simp split: sum.split option.split)
qed

text \<open>What \<open>GetByID\<close> hands to the dispatcher is vouched for, because the status \<open>approved\<close> is.\<close>

lemma read_vouched:
  assumes "good hx (tables_of db)" and "get_action aid db = Some b" and "outbox_matches row (action_view b)"
  shows "vouched hx (action_view b) (tables_of db)"
proof -
  have "b \<in> set (ai_actions db)" using assms(2) by (auto simp: get_action_def dest: sql_first_SomeD)
  moreover have "ac_status b = ''approved''" using assms(3) by (simp add: outbox_matches_def action_view_def)
  ultimately show ?thesis using assms(1) by (auto simp: tables_of_def)
qed

lemma view_fields: "ac_action_version (action_view b) = 0" "ac_target_resource_type (action_view b) = []"
  by (simp_all add: action_view_def)

lemma claimed_triple:
  "triple (\<lambda>db. good hx (tables_of db) \<and> grows T (tables_of db)) (dispatch_action_claimed ae row fence)
    (\<lambda>calls. pass_post hx (ae_sha ae) T calls) (\<lambda>_. True)"
  unfolding dispatch_action_claimed_def
proof (rule triple_bind)
  let ?P = "\<lambda>T'. good hx T' \<and> grows T T'"
  let ?R = "\<lambda>got db. ?P (tables_of db) \<and> (\<forall>a. got = Inr (Some a) \<and> outbox_matches row a \<longrightarrow>
      vouched hx a (tables_of db) \<and> ac_action_version a = 0 \<and> ac_target_resource_type a = [])"
  have "triple (\<lambda>db. ?P (tables_of db)) (AIActionDAO_GetByID (ao_action_id row)) (\<lambda>x. ?R (Inr x)) (\<lambda>db. ?P (tables_of db))"
    unfolding AIActionDAO_GetByID_def
    by (intro triple_conn triple_stmt) (auto simp: view_fields intro: read_vouched)
  then show "triple (\<lambda>db. ?P (tables_of db)) (db_try (AIActionDAO_GetByID (ao_action_id row))) ?R (\<lambda>_. True)"
    by (rule triple_try [THEN triple_conseq]) (auto split: sum.splits)
  fix got :: "store_error + ai_action option"
  have silent: "safe hx m \<Longrightarrow> triple (?R got) (db_bind m (\<lambda>_. db_ret [])) (\<lambda>calls. pass_post hx (ae_sha ae) T calls) (\<lambda>_. True)"
    for m :: "(store_db, unit) dbm"
    by (rule silent_triple [THEN triple_conseq]) simp_all
  have assoc: "db_bind m (\<lambda>_. db_bind m' (\<lambda>_. db_ret [])) = db_bind (db_bind m (\<lambda>_. db_bind m' (\<lambda>_. db_ret ()))) (\<lambda>_. db_ret [])"
    for m :: "(store_db, 'b) dbm" and m' :: "(store_db, 'c) dbm"
    by (auto simp: db_bind_def db_ret_def fun_eq_iff split: prod.splits sum.splits)
  have body: "triple (?R (Inr (Some a))) (dispatch_action_body ae row fence a) (\<lambda>calls. pass_post hx (ae_sha ae) T calls) (\<lambda>_. True)"
    if "outbox_matches row a" for a
  proof (cases "ac_action_version a = 0 \<and> ac_target_resource_type a = []")
    case True
    then show ?thesis by (intro triple_conseq [OF body_triple]) (use that in simp_all)
  next
    case False
    with that show ?thesis by (auto simp: triple_def)
  qed
  have "safe hx (db_bind (db_try (UpdateByIdemKey rid key ''rejected'' (Some integrity_error) (ae_now ae)))
      (\<lambda>_. db_bind (db_try (AIActionOutboxDAO_Deliver (ao_command_id row) fence)) (\<lambda>_. db_ret ())))" for rid key
    by (intro safe_comb elsewhere_safe [OF outbox_elsewhere(2)] UpdateByIdemKey_safe) simp
  then show "triple (?R got)
     (case got of
       Inr (Some a) \<Rightarrow>
         if \<not> outbox_matches row a
         then db_bind (db_try (UpdateByIdemKey (ac_run_id a) (ac_idempotency_key a) ''rejected'' (Some integrity_error) (ae_now ae)))
                (\<lambda>_. db_bind (db_try (AIActionOutboxDAO_Deliver (ao_command_id row) fence)) (\<lambda>_. db_ret []))
         else dispatch_action_body ae row fence a
     | _ \<Rightarrow> db_bind (action_retry ae row fence) (\<lambda>_. db_ret [])) (\<lambda>calls. pass_post hx (ae_sha ae) T calls) (\<lambda>_. True)"
    using silent [OF elsewhere_safe [OF settle_elsewhere(2)]] silent body unfolding assoc by (auto split: sum.split option.split)
qed

lemma pass_triple:
  "triple (\<lambda>db. good hx (tables_of db) \<and> grows T (tables_of db)) (dispatchActionOne ae row) (\<lambda>calls. pass_post hx (ae_sha ae) T calls) (\<lambda>_. True)"
  unfolding dispatchActionOne_def
proof (rule triple_bind)
  let ?P = "\<lambda>T'. good hx T' \<and> grows T T'"
  show "triple (\<lambda>db. ?P (tables_of db)) (db_try (AIActionOutboxDAO_Claim (ae_token ae (ao_command_id row)) (ao_command_id row) (ae_owner ae) 30))
      (\<lambda>_ db. ?P (tables_of db)) (\<lambda>_. True)"
    by (rule triple_keeps_try [OF elsewhereD [OF outbox_elsewhere(1), where P = ?P]])
  fix res :: "store_error + DispatchFence \<times> bool"
  have "triple (\<lambda>db. ?P (tables_of db)) (db_ret []) (\<lambda>calls. pass_post hx (ae_sha ae) T calls) (\<lambda>_. True)"
    by (auto intro!: triple_ret)
  with claimed_triple show "triple (\<lambda>db. ?P (tables_of db))
      (case res of Inl _ \<Rightarrow> db_ret [] | Inr (fence, claimed) \<Rightarrow> if \<not> claimed then db_ret [] else dispatch_action_claimed ae row fence)
      (\<lambda>calls. pass_post hx (ae_sha ae) T calls) (\<lambda>_. True)"
    by (cases res) (auto split: prod.split)
qed

lemma total_case_prod: "(\<And>x y. total (f x y)) \<Longrightarrow> total (case_prod f p)"
  by (cases p) simp

lemma pass_total: "total (dispatch_action_body ae row fence a)" "total (dispatchActionOne ae row)"
proof -
  note ti = total_intros total_case_prod
  have p: "total (exec_persist ae a status result code out)" for a status result code out
    unfolding exec_persist_def by (intro ti)
  have e: "total (executeApprovedAction ae a p)" for a p
    unfolding executeApprovedAction_def exec_call_def exec_unknown_def reconcileAfterDuplicateAttempt_def Let_def
    by (cases "exec_plan_of ae a p") (simp_all, (intro ti p)+)
  have r: "total (reconcileAction ae a)" for a
    unfolding reconcileAction_def reconcile_settle_def Let_def by (intro ti)
  have s: "total (action_settle ae row fence a out)" "total (action_retry ae row fence)" for row fence a out
    unfolding action_settle_def action_retry_def finalizeActionRun_def by (intro ti)+
  show b: "total (dispatch_action_body ae row fence a)" for row fence a
    unfolding dispatch_action_body_def by (intro ti e r s)
  show "total (dispatchActionOne ae row)"
    unfolding dispatchActionOne_def dispatch_action_claimed_def by (intro ti b s)
qed

section \<open>Histories\<close>

text \<open>
  One operation on the tables of Actions, with any failures of the database: the requests of the
  orchestrator, the public endpoints, and anything that leaves these tables alone.
\<close>

inductive act_write :: "(gostring \<Rightarrow> gostring) \<Rightarrow> store_db \<Rightarrow> store_db \<Rightarrow> bool" for hx where
  act_append: "internalControlPlaneActionAppend trust hx resolver rid body now env (n, db) = (r, (n', db')) \<Longrightarrow> act_write hx db db'"
| act_propose: "ActionProposalPublicHandler session hx sha resolver clusters rid aid prop now env (n, db) = (r, (n', db')) \<Longrightarrow> act_write hx db db'"
| act_approval: "internalControlPlaneApprovalAppend trust rid appr now env (n, db) = (r, (n', db')) \<Longrightarrow> act_write hx db db'"
| act_decide: "decideActionPublic hx approvalID commandID aid session req now env (n, db) = (r, (n', db')) \<Longrightarrow> act_write hx db db'"
| act_other: "tables_of db' = tables_of db \<Longrightarrow> act_write hx db db'"

text \<open>
  Histories from empty tables.  \<open>seen\<close> are the Actions that some dispatcher has read and accepted for a
  command, \<open>calls\<close> the contexts sent to the executor, in order.  A pass of the dispatcher is one step; it
  may also be interrupted after its read, and go on at any later time with what it read then, so that
  any number of dispatchers work on the same command.
\<close>

inductive act_reach ::
  "(gostring \<Rightarrow> gostring) \<Rightarrow> (gostring \<Rightarrow> 8 word list) \<Rightarrow> (action_outbox \<times> ai_action) set \<Rightarrow> ActionExecutionContext list \<Rightarrow>
     store_db \<Rightarrow> bool" for hx sha where
  reach_start: "tables_of db = ([], [], []) \<Longrightarrow> act_reach hx sha {} [] db"
| reach_write: "act_reach hx sha seen calls db \<Longrightarrow> act_write hx db db' \<Longrightarrow> act_reach hx sha seen calls db'"
| reach_pass: "act_reach hx sha seen calls db \<Longrightarrow> ae_sha ae = sha \<Longrightarrow>
    dispatchActionOne ae row env (n, db) = (Inr cs, (n', db')) \<Longrightarrow> act_reach hx sha seen (calls @ cs) db'"
| reach_read: "act_reach hx sha seen calls db \<Longrightarrow> get_action (ao_action_id row) db = Some b \<Longrightarrow> outbox_matches row (action_view b) \<Longrightarrow>
    act_reach hx sha (insert (row, action_view b) seen) calls db"
| reach_resume: "act_reach hx sha seen calls db \<Longrightarrow> (row, a) \<in> seen \<Longrightarrow> ae_sha ae = sha \<Longrightarrow>
    dispatch_action_body ae row fence a env (n, db) = (Inr cs, (n', db')) \<Longrightarrow> act_reach hx sha seen (calls @ cs) db'"

lemma safeD: "safe hx m \<Longrightarrow> m env (n, db) = (r, (n', db')) \<Longrightarrow> good hx (tables_of db) \<Longrightarrow>
    good hx (tables_of db') \<and> grows (tables_of db) (tables_of db')"
  by (simp add: safe_def)

lemma authorize_elsewhere: "elsewhere (authorizeControlPlaneForRun trust op caller rid)"
  unfolding authorizeControlPlaneForRun_def
  by (auto intro!: elsewhere_comb elsewhere_cases elsewhere_stmt reads_elsewhere split: option.split sum.split prod.split)

lemma endpoints_safe:
  "safe hx (internalControlPlaneActionAppend trust hx resolver rid body now)"
  "safe hx (ActionProposalPublicHandler session hx sha resolver clusters rid aid prop now)"
  "safe hx (internalControlPlaneApprovalAppend trust rid appr now)"
  "safe hx (decideActionPublic hx approvalID commandID aid session req now)"
proof -
  have st: "ac_status (preflight_action pf) = ''proposed''" for pf by (simp add: preflight_action_def)
  show "safe hx (internalControlPlaneActionAppend trust hx resolver rid body now)"
    unfolding internalControlPlaneActionAppend_def
    by (intro safe_comb safe_cases elsewhere_safe [OF authorize_elsewhere] ActionCreate_safe) (simp add: st)
  have ex: "elsewhere (proposal_existing tid reqid)" for tid reqid
    unfolding proposal_existing_def GetByTenantRequestID_def AIActionDAO_ListByRun_def
    by (auto intro!: elsewhere_comb elsewhere_stmt split: option.split sum.split list.split)
  show "safe hx (ActionProposalPublicHandler session hx sha resolver clusters rid aid prop now)"
    unfolding ActionProposalPublicHandler_def Let_def
    by (intro safe_comb safe_cases CreateManualAction_safe elsewhere_safe [OF ex]) (simp add: st proposal_action_def)
  show "safe hx (internalControlPlaneApprovalAppend trust rid appr now)"
    unfolding internalControlPlaneApprovalAppend_def
    by (intro safe_comb safe_cases elsewhere_safe [OF authorize_elsewhere] ApprovalCreate_safe)
  show "safe hx (decideActionPublic hx approvalID commandID aid session req now)"
    unfolding decideActionPublic_def by (intro safe_comb safe_cases decideAction_safe)
qed

lemma act_write_safe: "act_write hx db db' \<Longrightarrow> good hx (tables_of db) \<Longrightarrow> good hx (tables_of db') \<and> grows (tables_of db) (tables_of db')"
  by (erule act_write.cases) (auto dest: safeD [OF endpoints_safe(1)] safeD [OF endpoints_safe(2)] safeD [OF endpoints_safe(3)]
      safeD [OF endpoints_safe(4)] simp: grows_refl)

fun call_ok :: "(gostring \<Rightarrow> gostring) \<Rightarrow> (gostring \<Rightarrow> 8 word list) \<Rightarrow> act_tables \<Rightarrow> ActionExecutionContext \<Rightarrow> bool" where
  "call_ok hx sha T c \<longleftrightarrow> backed hx c T \<and> attempted (deterministicActionAttemptID sha (aec_ActionID c) 1) T"

definition history_ok ::
  "(gostring \<Rightarrow> gostring) \<Rightarrow> (gostring \<Rightarrow> 8 word list) \<Rightarrow> (action_outbox \<times> ai_action) set \<Rightarrow> ActionExecutionContext list \<Rightarrow>
     act_tables \<Rightarrow> bool" where
  "history_ok hx sha seen calls T \<longleftrightarrow> good hx T \<and> distinct (map aec_ActionID calls) \<and> (\<forall>c\<in>set calls. call_ok hx sha T c) \<and>
     (\<forall>(row, a)\<in>seen. vouched hx a T \<and> ac_action_version a = 0 \<and> ac_target_resource_type a = [])"

lemma history_grows:
  assumes "history_ok hx sha seen calls T" and "good hx T'" and g: "grows T T'"
    and cs: "cs = [] \<or> (\<exists>c. cs = [c] \<and> sanctioned hx sha T T' c)"
  shows "history_ok hx sha seen (calls @ cs) T'"
proof -
  have up: "stable P \<Longrightarrow> P T \<Longrightarrow> P T'" for P using g unfolding stable_def by blast
  have old: "call_ok hx sha T' c" if "c \<in> set calls" for c
    using assms(1) that up [OF stable_rules(4)] up [OF stable_rules(3)] by (simp add: history_ok_def)
  have seen: "\<forall>(row, a)\<in>seen. vouched hx a T' \<and> ac_action_version a = 0 \<and> ac_target_resource_type a = []"
    using assms(1) up [OF stable_rules(2)] unfolding history_ok_def by blast
  have new: "aec_ActionID c \<notin> aec_ActionID ` set calls \<and> call_ok hx sha T' c" if c: "sanctioned hx sha T T' c" for c
  proof -
    have "attempted (deterministicActionAttemptID sha (aec_ActionID d) 1) T" if "d \<in> set calls" for d
      using assms(1) that by (simp add: history_ok_def)
    with c show ?thesis by (force simp: sanctioned_def)
  qed
  from cs show ?thesis
  proof (elim disjE exE conjE)
    assume "cs = []"
    with assms(1,2) old seen show ?thesis by (auto simp: history_ok_def)
  next
    fix c assume "cs = [c]" "sanctioned hx sha T T' c"
    with assms(1,2) old seen new [of c] show ?thesis by (simp add: history_ok_def)
  qed
qed

lemma reach_ok: "act_reach hx sha seen calls db \<Longrightarrow> history_ok hx sha seen calls (tables_of db)"
proof (induction rule: act_reach.induct)
  case (reach_start db)
  then show ?case by (simp add: history_ok_def uniq_key_def)
next
  case (reach_write seen calls db db')
  have "good hx (tables_of db)" using reach_write.IH by (simp add: history_ok_def)
  with act_write_safe [OF reach_write.hyps(2)] history_grows [OF reach_write.IH, of "tables_of db'" "[]"] show ?case by simp
next
  case (reach_pass seen calls db ae row env n cs n' db')
  have "good hx (tables_of db)" using reach_pass.IH by (simp add: history_ok_def)
  then have "pass_post hx sha (tables_of db) cs db'"
    using tripleD [OF pass_triple _ reach_pass.hyps(3), of hx "tables_of db"] grows_refl reach_pass.hyps(2) by simp
  then show ?case by (intro history_grows [OF reach_pass.IH]) simp_all
next
  case (reach_read seen calls db row b)
  with read_vouched [OF _ reach_read.hyps(2,3), of hx] show ?case by (simp add: history_ok_def view_fields)
next
  case (reach_resume seen calls db row a ae fence env n cs n' db')
  have a: "good hx (tables_of db)" "vouched hx a (tables_of db)" "ac_action_version a = 0" "ac_target_resource_type a = []"
    using reach_resume.IH reach_resume.hyps(2) by (auto simp: history_ok_def)
  have "pass_post hx sha (tables_of db) cs db'"
    using tripleD [OF body_triple [OF a(3,4)] _ reach_resume.hyps(4), of hx "tables_of db"] a(1,2) grows_refl reach_resume.hyps(3) by simp
  then show ?case by (intro history_grows [OF reach_resume.IH]) simp_all
qed

text \<open>
  C3.  An Action is executed at most once.  In every history of proposals, approvals and decisions, and
  of dispatchers that may be interrupted after reading an Action and resume at any time, with any
  failures of the database and any answers of the executor, no two of the contexts sent to \<open>Execute\<close> name
  the same Action; and every pass of a dispatcher comes to an end without an error of its own.
\<close>

theorem executed_at_most_once:
  assumes "act_reach hx sha seen calls db"
  shows "distinct (map aec_ActionID calls) \<and>
    (\<exists>cs n' db'. dispatchActionOne ae row env (n, db) = (Inr cs, (n', db')) \<and>
      (ae_sha ae = sha \<longrightarrow> distinct (map aec_ActionID (calls @ cs))))"
proof -
  obtain cs n' db' where run: "dispatchActionOne ae row env (n, db) = (Inr cs, (n', db'))"
    using pass_total(2) [of ae row] unfolding total_def by (metis surj_pair)
  have "distinct (map aec_ActionID (calls @ cs))" if "ae_sha ae = sha"
    using reach_ok [OF reach_pass [OF assms that run]] by (simp only: history_ok_def)
  with run reach_ok [OF assms] show ?thesis by (auto simp: history_ok_def)
qed

text \<open>
  C1.  What is executed was approved by somebody else.  Every context that reaches the executor in such
  a history carries the identifier, hash, target, cluster, namespace, operation and parameters of a
  stored Action whose hash is the canonical hash of these fields, and of which somebody other than the
  proposer has approved exactly this hash and version.  The resource type is always \<open>deployment\<close>.
\<close>

theorem executed_only_seconded:
  assumes "act_reach hx sha seen calls db" and "c \<in> set calls"
  shows "\<exists>b\<in>set (ai_actions db). \<exists>p\<in>set (ai_approval_decisions db).
    aec_ActionID c = ac_action_id b \<and> aec_ActionHash c = ac_action_hash b \<and> stored_hash hx b = ac_action_hash b \<and>
    aec_TargetUID c = ac_target_uid b \<and> aec_TargetName c = ac_target_name b \<and> aec_ResourceVersion c = ac_resource_version b \<and>
    aec_ClusterID c = ac_cluster_id b \<and> aec_Namespace c = ac_namespace b \<and> aec_Operation c = ac_operation b \<and>
    aec_TargetSpec c = action_spec b \<and> aec_ResourceType c = ''deployment'' \<and>
    ap_action_id p = ac_action_id b \<and> ap_decision p = ''approved'' \<and> ap_action_hash p = ac_action_hash b \<and>
    ap_action_version p = Some (ac_action_version b) \<and> ac_proposed_by b \<noteq> Some (ap_approver p)"
proof -
  have "backed hx c (tables_of db)" using reach_ok [OF assms(1)] assms(2) by (simp add: history_ok_def)
  then obtain b where b: "b \<in> set (ai_actions db)" "seconded hx (ai_approval_decisions db) b" "context_of b c"
    by (auto simp: tables_of_def)
  with b(2,3) show ?thesis unfolding seconded_def context_of_def by blast
qed

section \<open>A proposal, its approval and its execution\<close>

definition sample_env :: action_env where
  "sample_env =
    \<lparr>ae_owner = ''d1'', ae_token = (\<lambda>c. ''t'' @ c), ae_uuid = ''u'', ae_now = 12, ae_sha = (\<lambda>_. []), ae_hx = (\<lambda>_. ''h''),
     ae_production = False, ae_credential = (\<lambda>_. None),
     ae_executor = Some \<lparr>ex_execute = (\<lambda>c. Answered 200 (Inr (zero_result\<lparr>ar_ActionID := aec_ActionID c, ar_Status := ''success''\<rparr>))),
       ex_reconcile = (\<lambda>_. Unreachable)\<rparr>\<rparr>"

definition proposed_db :: store_db where
  "proposed_db = snd (snd (ActionProposalPublicHandler (Some (sample_user ''u1'')) (\<lambda>_. ''h'') (\<lambda>_. []) (Some sample_resolver)
      (\<lambda>_. Some ''t1'') ''r1'' ''a1'' (Some sample_proposal) 5 (calm 5) (0, empty_db)))"

definition approved_db :: store_db where
  "approved_db = snd (snd (decideActionPublic (\<lambda>_. ''h'') ''p1'' ''c1'' ''a1'' (Some (sample_user ''u2'')) (Some sample_decision) 9
      (calm 9) (0, proposed_db)))"

definition sample_row :: action_outbox where
  "sample_row =
    \<lparr>ao_command_id = ''c1'', ao_action_id = ''a1'', ao_action_version = 1, ao_action_hash = ''h'', ao_run_id = ''r1'',
     ao_tenant_id = ''t1'', ao_cluster_id = sample_cluster, ao_status = ''pending'', ao_dispatch_count = 0, ao_next_retry_at = None,
     ao_owner = None, ao_epoch = 0, ao_token = None, ao_expires_at = None, ao_delivered_at = None,
     ao_created_at = 9, ao_updated_at = 9\<rparr>"

lemma sample_executed: "(case dispatchActionOne sample_env sample_row (calm 12) (0, approved_db) of
    (Inr cs, _, db') \<Rightarrow> map aec_ActionID cs = [''a1''] \<and> map ac_execution_status (ai_actions db') = [''success''] \<and>
      map r_status (ai_runs db') = [''verifying''] | _ \<Rightarrow> False)"
  by code_simp

lemma approved_reach: "act_reach (\<lambda>_. ''h'') (\<lambda>_. []) {} [] approved_db"
proof -
  have "act_reach (\<lambda>_. ''h'') (\<lambda>_. []) {} [] empty_db" by (rule reach_start) (simp add: tables_of_def empty_db_def)
  moreover have "act_write (\<lambda>_. ''h'') empty_db proposed_db"
    by (rule act_propose, unfold proposed_db_def, rule prod.collapse [symmetric, THEN trans], rule arg_cong [OF prod.collapse [symmetric]])
  moreover have "act_write (\<lambda>_. ''h'') proposed_db approved_db"
    by (rule act_decide, unfold approved_db_def, rule prod.collapse [symmetric, THEN trans], rule arg_cong [OF prod.collapse [symmetric]])
  ultimately show ?thesis using reach_write by blast
qed

lemma sample_history: "\<exists>c n db. act_reach (\<lambda>_. ''h'') (\<lambda>_. []) {} [c] db \<and> aec_ActionID c = ''a1'' \<and>
    dispatchActionOne sample_env sample_row (calm 12) (0, approved_db) = (Inr [c], (n, db))"
proof -
  obtain cs n db where run: "dispatchActionOne sample_env sample_row (calm 12) (0, approved_db) = (Inr cs, (n, db))"
    and cs: "map aec_ActionID cs = [''a1'']"
    using sample_executed by (auto split: prod.splits sum.splits)
  from cs obtain c where c: "cs = [c]" "aec_ActionID c = ''a1''" by auto
  have "act_reach (\<lambda>_. ''h'') (\<lambda>_. []) {} ([] @ cs) db"
    by (rule reach_pass [OF approved_reach _ run]) (simp add: sample_env_def)
  with run c show ?thesis by auto
qed

theorem executed_at_most_once_witness:
  "\<exists>c db cs n' db'. act_reach (\<lambda>_. ''h'') (\<lambda>_. []) {} [c] db \<and> aec_ActionID c = ''a1'' \<and>
    dispatchActionOne sample_env sample_row (calm 60000) (0, db) = (Inr cs, (n', db')) \<and>
    distinct (map aec_ActionID (c # cs))"
proof -
  obtain c n db where h: "act_reach (\<lambda>_. ''h'') (\<lambda>_. []) {} [c] db" "aec_ActionID c = ''a1''" using sample_history by blast
  have "ae_sha sample_env = (\<lambda>_. [])" by (simp add: sample_env_def)
  with executed_at_most_once [OF h(1), of sample_env sample_row "calm 60000" 0] h show ?thesis by fastforce
qed

theorem executed_only_seconded_witness:
  "\<exists>c db. act_reach (\<lambda>_. ''h'') (\<lambda>_. []) {} [c] db \<and> aec_ActionID c = ''a1'' \<and>
    (\<exists>b\<in>set (ai_actions db). \<exists>p\<in>set (ai_approval_decisions db). ac_action_id b = ''a1'' \<and> ap_decision p = ''approved'' \<and>
       ac_proposed_by b \<noteq> Some (ap_approver p))"
proof -
  obtain c n db where h: "act_reach (\<lambda>_. ''h'') (\<lambda>_. []) {} [c] db" "aec_ActionID c = ''a1''" using sample_history by blast
  with executed_only_seconded [OF h(1), of c] show ?thesis by fastforce
qed

end
