(* ===== verification/TrustedContext.thy ===== *)
theory TrustedContext
  imports ApiBase
begin

text \<open>
  Signed contexts between the services: \<open>internal/auth/trusted_context.go\<close> and \<open>issuer.go\<close>, with the two
  replay caches (\<open>InMemoryReplayCache\<close> and \<open>internal/api/mysql_replay_cache.go\<close>) and the endpoint of
  \<open>internal/api/security_replay.go\<close>.

  Bytes are characters.  Base64 and the splitting of a token are written out; Ed25519, SHA-256 and the
  translation of the structs to and from JSON text are arguments (\<open>jws_env\<close>, \<open>json_codec\<close>), and where a
  theorem needs one of their laws it is a hypothesis.  Times are nanoseconds, as in \<open>Contract\<close>.
\<close>

section \<open>base64.RawURLEncoding\<close>

definition b64_char :: "nat \<Rightarrow> char" where
  "b64_char v = char_of
     (if v < 26 then 65 + v else if v < 52 then 71 + v else if v < 62 then v - 4 else if v = 62 then 45 else 95 :: nat)"

definition b64_val :: "char \<Rightarrow> nat option" where
  "b64_val c = (let n = of_char c in
     if 65 \<le> n \<and> n \<le> 90 then Some (n - 65)
     else if 97 \<le> n \<and> n \<le> 122 then Some (n - 71)
     else if 48 \<le> n \<and> n \<le> 57 then Some (n + 4)
     else if n = 45 then Some 62
     else if n = 95 then Some 63
     else None)"

fun b64_digits :: "nat list \<Rightarrow> nat list" where
  "b64_digits [] = []"
| "b64_digits [a] = [a div 4, a mod 4 * 16]"
| "b64_digits [a, b] = [a div 4, a mod 4 * 16 + b div 16, b mod 16 * 4]"
| "b64_digits (a # b # c # rest) =
     a div 4 # (a mod 4 * 16 + b div 16) # (b mod 16 * 4 + c div 64) # c mod 64 # b64_digits rest"

text \<open>
  Decoding without padding and not in strict mode: line breaks are skipped, the unused low bits of the
  last digit are ignored, and a single digit at the end is an error.
\<close>

fun b64_bytes :: "nat list \<Rightarrow> nat list option" where
  "b64_bytes [] = Some []"
| "b64_bytes [v] = None"
| "b64_bytes [v, w] = Some [v * 4 + w div 16]"
| "b64_bytes [v, w, x] = Some [v * 4 + w div 16, w mod 16 * 16 + x div 4]"
| "b64_bytes (v # w # x # y # rest) =
     map_option (\<lambda>bs. (v * 4 + w div 16) # (w mod 16 * 16 + x div 4) # (x mod 4 * 64 + y) # bs) (b64_bytes rest)"

fun all_some :: "'a option list \<Rightarrow> 'a list option" where
  "all_some [] = Some []"
| "all_some (None # rest) = None"
| "all_some (Some x # rest) = map_option ((#) x) (all_some rest)"

definition b64_encode :: "gostring \<Rightarrow> gostring" where
  "b64_encode s = map b64_char (b64_digits (map of_char s))"

definition b64_decode :: "gostring \<Rightarrow> gostring option" where
  "b64_decode s =
     (case all_some (map b64_val (filter (\<lambda>c. c \<noteq> CHR 0x0A \<and> c \<noteq> CHR 0x0D) s)) of
        None \<Rightarrow> None
      | Some vs \<Rightarrow> map_option (map char_of) (b64_bytes vs))"

text \<open>\<open>strings.Split\<close> at a single character.\<close>

fun split_on :: "char \<Rightarrow> gostring \<Rightarrow> gostring list" where
  "split_on d [] = [[]]"
| "split_on d (c # s) = (if c = d then [] # split_on d s else (c # hd (split_on d s)) # tl (split_on d s))"

section \<open>Errors, keys and configuration\<close>

text \<open>
  The errors of the package.  \<open>ErrInvalidContext\<close> is returned bare by the checks of the claims and wrapped
  with a cause elsewhere; only the bare one is recognized by \<open>mapTrustedContextVerifyError\<close>.
\<close>

datatype auth_error =
    AuthInvalidService
  | AuthInvalidSignature
  | AuthInvalidContext
  | AuthInvalidContextCause
  | AuthExpiredContext
  | AuthReplayedContext
  | AuthReplayCacheFull
  | AuthWrongAudience
  | AuthWrongContextType
  | AuthDecodeFailure
  | AuthCacheFailure

record protectedHeader =
  ph_Algorithm :: gostring
  ph_KeyID :: gostring
  ph_Type :: gostring

text \<open>Ed25519 (keys and signatures as bytes), SHA-256, and the JSON text of the protected header.\<close>

record jws_env =
  je_sign :: "gostring \<Rightarrow> gostring \<Rightarrow> gostring"
  je_public :: "gostring \<Rightarrow> gostring"
  je_verify :: "gostring \<Rightarrow> gostring \<Rightarrow> gostring \<Rightarrow> bool"
  je_sha :: "gostring \<Rightarrow> gostring"
  je_header :: "protectedHeader \<Rightarrow> gostring"
  je_header_decode :: "gostring \<Rightarrow> protectedHeader option"

text \<open>
  The JSON text of a struct: \<open>json.Marshal\<close>, the strict decoder, and the value of \<open>context_type\<close> that the
  lenient decoder finds.
\<close>

record 'c json_codec =
  jc_marshal :: "'c \<Rightarrow> gostring"
  jc_decode :: "gostring \<Rightarrow> 'c option"
  jc_type :: "gostring \<Rightarrow> gostring option"

text \<open>A replay cache takes nonce, end of the window and current time; its state is threaded.\<close>

type_synonym 's replay_cache = "gostring \<Rightarrow> int \<Rightarrow> int \<Rightarrow> 's \<Rightarrow> (auth_error + unit) \<times> 's"

record 's VerifyConfig =
  vc_Audience :: gostring
  vc_Issuer :: gostring
  vc_PublicKeys :: "gostring \<Rightarrow> gostring option"
  vc_ServiceToken :: gostring
  vc_ReplayCache :: "'s replay_cache option"
  vc_ClockSkew :: int

definition KeyID :: "jws_env \<Rightarrow> gostring \<Rightarrow> gostring" where
  "KeyID je publicKey = b64_encode (je_sha je publicKey)"

definition VerifyServiceToken :: "jws_env \<Rightarrow> gostring \<Rightarrow> 's VerifyConfig \<Rightarrow> auth_error option" where
  "VerifyServiceToken je provided cfg =
     (if vc_ServiceToken cfg = [] \<or> je_sha je provided \<noteq> je_sha je (vc_ServiceToken cfg)
      then Some AuthInvalidService else None)"

section \<open>Tokens\<close>

definition signJWS :: "jws_env \<Rightarrow> ('c \<Rightarrow> gostring) \<Rightarrow> 'c \<Rightarrow> gostring \<Rightarrow> auth_error + gostring" where
  "signJWS je marshal payload privateKey =
     (if length privateKey \<noteq> 64 then Inl AuthInvalidSignature
      else let header = je_header je
             \<lparr>ph_Algorithm = ''EdDSA'', ph_KeyID = KeyID je (je_public je privateKey), ph_Type = ''AIOPS-CONTEXT''\<rparr>;
               signingInput = b64_encode header @ ''.'' @ b64_encode (marshal payload)
           in Inr (signingInput @ ''.'' @ b64_encode (je_sign je privateKey signingInput)))"

definition header_key :: "jws_env \<Rightarrow> 's VerifyConfig \<Rightarrow> gostring \<Rightarrow> gostring option" where
  "header_key je cfg part =
     (case b64_decode part of
        None \<Rightarrow> None
      | Some bytes \<Rightarrow>
        (case je_header_decode je bytes of
           None \<Rightarrow> None
         | Some h \<Rightarrow>
             if ph_Algorithm h \<noteq> ''EdDSA'' \<or> ph_Type h \<noteq> ''AIOPS-CONTEXT'' \<or> ph_KeyID h = [] then None
             else (case vc_PublicKeys cfg (ph_KeyID h) of
                     None \<Rightarrow> None
                   | Some key \<Rightarrow> if length key \<noteq> 32 then None else Some key)))"

definition signature_ok :: "jws_env \<Rightarrow> gostring \<Rightarrow> gostring \<Rightarrow> gostring \<Rightarrow> bool" where
  "signature_ok je key input part =
     (case b64_decode part of
        None \<Rightarrow> False
      | Some sg \<Rightarrow> length sg = 64 \<and> je_verify je key input sg)"

text \<open>The payload that could not be decoded comes back with the error of the decoder, which is none of the named ones.\<close>

definition verifyJWSPayload :: "jws_env \<Rightarrow> gostring \<Rightarrow> 's VerifyConfig \<Rightarrow> auth_error + gostring" where
  "verifyJWSPayload je token cfg =
     (if vc_Audience cfg = [] \<or> vc_Issuer cfg = [] \<or> vc_ReplayCache cfg = None \<or> vc_ClockSkew cfg < 0
      then Inl AuthInvalidContextCause
      else (case split_on (CHR ''.'') token of
         [p0, p1, p2] \<Rightarrow>
           if p0 = [] \<or> p1 = [] \<or> p2 = [] then Inl AuthInvalidSignature
           else (case header_key je cfg p0 of
              None \<Rightarrow> Inl AuthInvalidSignature
            | Some key \<Rightarrow>
                if \<not> signature_ok je key (p0 @ ''.'' @ p1) p2 then Inl AuthInvalidSignature
                else (case b64_decode p1 of None \<Rightarrow> Inl AuthDecodeFailure | Some payload \<Rightarrow> Inr payload))
       | _ \<Rightarrow> Inl AuthInvalidSignature))"

definition verifyCommonClaims ::
  "'a commonContext_scheme \<Rightarrow> 's VerifyConfig \<Rightarrow> int \<Rightarrow> 's \<Rightarrow> (auth_error + unit) \<times> 's" where
  "verifyCommonClaims c cfg now s =
     (if cx_Issuer c \<noteq> vc_Issuer cfg then (Inl AuthInvalidContext, s)
      else if cx_Audience c \<noteq> vc_Audience cfg then (Inl AuthWrongAudience, s)
      else if cx_ExpiresAt c < now - vc_ClockSkew cfg then (Inl AuthExpiredContext, s)
      else if cx_IssuedAt c > now + vc_ClockSkew cfg then (Inl AuthInvalidContext, s)
      else (case vc_ReplayCache cfg of
              None \<Rightarrow> (Inl AuthInvalidContextCause, s)
            | Some check \<Rightarrow> check (cx_Nonce c) (cx_ExpiresAt c + vc_ClockSkew cfg) now s))"

text \<open>
  The three \<open>Sign\<close> and the three \<open>Verify\<close> functions differ in the struct and its \<open>Validate\<close> method only.
\<close>

definition sign_typed ::
  "jws_env \<Rightarrow> 'a commonContext_scheme json_codec \<Rightarrow> gostring \<Rightarrow> ('a commonContext_scheme \<Rightarrow> gostring option) \<Rightarrow>
     'a commonContext_scheme \<Rightarrow> gostring \<Rightarrow> auth_error + gostring" where
  "sign_typed je jc ctype validate c privateKey =
     (if cx_ContextType c \<noteq> ctype then Inl AuthWrongContextType
      else if validate c \<noteq> None then Inl AuthInvalidContextCause
      else signJWS je (jc_marshal jc) c privateKey)"

definition SignRunInvocationContext ::
  "jws_env \<Rightarrow> RunInvocationContext json_codec \<Rightarrow> RunInvocationContext \<Rightarrow> gostring \<Rightarrow> auth_error + gostring" where
  "SignRunInvocationContext je jc c key = sign_typed je jc ''run_invocation'' RunInvocationContext_Validate c key"

definition SignRunControlContext ::
  "jws_env \<Rightarrow> RunControlContext json_codec \<Rightarrow> RunControlContext \<Rightarrow> gostring \<Rightarrow> auth_error + gostring" where
  "SignRunControlContext je jc c key = sign_typed je jc ''run_control'' RunControlContext_Validate c key"

definition SignTrustedRequestContextV2 ::
  "jws_env \<Rightarrow> TrustedRequestContext json_codec \<Rightarrow> TrustedRequestContext \<Rightarrow> gostring \<Rightarrow> auth_error + gostring" where
  "SignTrustedRequestContextV2 je jc c key = sign_typed je jc ''trusted_request'' TrustedRequestContext_Validate c key"

definition verify_typed ::
  "jws_env \<Rightarrow> 'a commonContext_scheme json_codec \<Rightarrow> gostring \<Rightarrow> ('a commonContext_scheme \<Rightarrow> gostring option) \<Rightarrow>
     gostring \<Rightarrow> 's VerifyConfig \<Rightarrow> int \<Rightarrow> 's \<Rightarrow> (auth_error + 'a commonContext_scheme) \<times> 's" where
  "verify_typed je jc ctype validate token cfg now s =
     (case verifyJWSPayload je token cfg of
        Inl e \<Rightarrow> (Inl e, s)
      | Inr payload \<Rightarrow>
          if jc_type jc payload \<noteq> Some ctype then (Inl AuthWrongContextType, s)
          else (case jc_decode jc payload of
             None \<Rightarrow> (Inl AuthInvalidContextCause, s)
           | Some c \<Rightarrow>
               if validate c \<noteq> None then (Inl AuthInvalidContextCause, s)
               else (case verifyCommonClaims c cfg now s of
                       (Inl e, s') \<Rightarrow> (Inl e, s')
                     | (Inr _, s') \<Rightarrow> (Inr c, s'))))"

definition VerifyRunInvocationContext ::
  "jws_env \<Rightarrow> RunInvocationContext json_codec \<Rightarrow> gostring \<Rightarrow> 's VerifyConfig \<Rightarrow> int \<Rightarrow> 's \<Rightarrow>
     (auth_error + RunInvocationContext) \<times> 's" where
  "VerifyRunInvocationContext je jc token cfg now s =
     verify_typed je jc ''run_invocation'' RunInvocationContext_Validate token cfg now s"

definition VerifyRunControlContext ::
  "jws_env \<Rightarrow> RunControlContext json_codec \<Rightarrow> gostring \<Rightarrow> 's VerifyConfig \<Rightarrow> int \<Rightarrow> 's \<Rightarrow>
     (auth_error + RunControlContext) \<times> 's" where
  "VerifyRunControlContext je jc token cfg now s =
     verify_typed je jc ''run_control'' RunControlContext_Validate token cfg now s"

definition VerifyTrustedRequestContextV2 ::
  "jws_env \<Rightarrow> TrustedRequestContext json_codec \<Rightarrow> gostring \<Rightarrow> 's VerifyConfig \<Rightarrow> int \<Rightarrow> 's \<Rightarrow>
     (auth_error + TrustedRequestContext) \<times> 's" where
  "VerifyTrustedRequestContextV2 je jc token cfg now s =
     verify_typed je jc ''trusted_request'' TrustedRequestContext_Validate token cfg now s"

section \<open>The issuer of the query API\<close>

record RunInvocationIssuer =
  ri_privateKey :: gostring
  ri_serviceToken :: gostring

definition NewRunInvocationIssuer :: "gostring \<Rightarrow> gostring \<Rightarrow> gostring + RunInvocationIssuer" where
  "NewRunInvocationIssuer privateKey serviceToken =
     (if length privateKey \<noteq> 64 then Inl ''invalid Ed25519 private key size''
      else if serviceToken = [] then Inl ''query-to-orchestrator service token is required''
      else Inr \<lparr>ri_privateKey = privateKey, ri_serviceToken = serviceToken\<rparr>)"

definition dispatchPrincipalID :: gostring where
  "dispatchPrincipalID = ''f4a4b8c2-3d5e-4f6a-8b9c-0d1e2f3a4b5c''"

text \<open>\<open>nonce\<close> and \<open>reqid\<close> are what \<open>randomUUID\<close> draws.\<close>

definition SignExistingRunInvocation ::
  "jws_env \<Rightarrow> RunInvocationContext json_codec \<Rightarrow> RunInvocationIssuer \<Rightarrow> gostring \<Rightarrow> gostring \<Rightarrow> gostring \<Rightarrow> gostring \<Rightarrow>
     gostring list \<Rightarrow> int \<Rightarrow> gostring \<Rightarrow> auth_error + gostring" where
  "SignExistingRunInvocation je jc i runID invocationID requestID tenantID clusterScope now nonce =
     SignRunInvocationContext je jc
       ((NewRunInvocationContext ''query-api'' ''ai-orchestrator'' requestID ''system'' dispatchPrincipalID [] tenantID ''run''
           clusterScope now (now + 60 * second_ns) nonce)
         \<lparr>ric_Capability := ''ai.investigate'', ric_RunID := runID, ric_InvocationID := invocationID\<rparr>) (ri_privateKey i)"

definition SignChatInvocation ::
  "jws_env \<Rightarrow> RunInvocationContext json_codec \<Rightarrow> RunInvocationIssuer \<Rightarrow> gostring \<Rightarrow> gostring \<Rightarrow> gostring \<Rightarrow> gostring \<Rightarrow>
     gostring \<Rightarrow> gostring list \<Rightarrow> int \<Rightarrow> gostring \<Rightarrow> gostring \<Rightarrow> auth_error + gostring" where
  "SignChatInvocation je jc i principalType principalID sessionID tenantID source clusterScope now reqid nonce =
     SignRunInvocationContext je jc
       ((NewRunInvocationContext ''query-api'' ''ai-orchestrator'' reqid principalType principalID sessionID tenantID source
           clusterScope now (now + 60 * second_ns) nonce)\<lparr>ric_Capability := ''ai.chat''\<rparr>) (ri_privateKey i)"

definition SignRunControl ::
  "jws_env \<Rightarrow> RunControlContext json_codec \<Rightarrow> RunInvocationIssuer \<Rightarrow> gostring \<Rightarrow> gostring \<Rightarrow> gostring \<Rightarrow> gostring \<Rightarrow>
     gostring \<Rightarrow> gostring \<Rightarrow> int \<Rightarrow> gostring \<Rightarrow> gostring \<Rightarrow> auth_error + gostring" where
  "SignRunControl je jc i principalType principalID sessionID tenantID runID operation now reqid nonce =
     SignRunControlContext je jc
       (NewRunControlContext ''query-api'' ''ai-orchestrator'' reqid principalType principalID sessionID tenantID
          runID operation now (now + 60 * second_ns) nonce) (ri_privateKey i)"

definition DecodePrivateKey :: "gostring \<Rightarrow> gostring + gostring" where
  "DecodePrivateKey encoded =
     (case b64_decode encoded of
        None \<Rightarrow> Inl ''decode Ed25519 private key''
      | Some raw \<Rightarrow> if length raw \<noteq> 64 then Inl ''invalid Ed25519 private key size'' else Inr raw)"

section \<open>The replay caches\<close>

text \<open>The bounded cache of one process.  The nonces are a Go map: unique keys, in no particular order.\<close>

record InMemoryReplayCache =
  im_maxItems :: nat
  im_nonces :: "(gostring \<times> int) list"

definition NewReplayCache :: "int \<Rightarrow> InMemoryReplayCache" where
  "NewReplayCache maxItems = \<lparr>im_maxItems = (if maxItems < 1 then 1 else nat maxItems), im_nonces = []\<rparr>"

definition InMemoryReplayCache_CheckAndStore :: "InMemoryReplayCache replay_cache" where
  "InMemoryReplayCache_CheckAndStore nonce expiresAt now cache =
     (let live = filter (\<lambda>(n, e). \<not> e < now) (im_nonces cache); cache' = cache\<lparr>im_nonces := live\<rparr> in
      if nonce \<in> fst ` set live then (Inl AuthReplayedContext, cache')
      else if im_maxItems cache \<le> length live then (Inl AuthReplayCacheFull, cache')
      else (Inr (), cache'\<lparr>im_nonces := live @ [(nonce, expiresAt)]\<rparr>))"

text \<open>
  The cache in MySQL.  \<open>expires_at\<close> is a \<open>DATETIME(3)\<close>: the driver sends the time, the server rounds it to
  milliseconds.
\<close>

record replay_row =
  rg_issuer :: gostring
  rg_audience :: gostring
  rg_nonce :: gostring
  rg_request_hash :: gostring
  rg_consumed_at :: millis
  rg_expires_at :: millis

definition ms_round :: "int \<Rightarrow> millis" where
  "ms_round ns = (ns + 500000) div 1000000"

text \<open>\<open>INSERT IGNORE\<close> under the primary key \<open>(issuer, audience, nonce)\<close>; whether a row was inserted.\<close>

definition insert_ignore :: "replay_row \<Rightarrow> replay_row list \<Rightarrow> bool \<times> replay_row list" where
  "insert_ignore row t =
     (if list_ex (\<lambda>x. rg_issuer x = rg_issuer row \<and> rg_audience x = rg_audience row \<and> rg_nonce x = rg_nonce row) t
      then (False, t) else (True, t @ [row]))"

definition MySQLReplayCache_CheckAndStore ::
  "(gostring \<Rightarrow> gostring) \<Rightarrow> gostring \<Rightarrow> gostring \<Rightarrow> gostring \<Rightarrow> int \<Rightarrow> int \<Rightarrow> (replay_row list, bool) dbm" where
  "MySQLReplayCache_CheckAndStore hx issuer audience nonce expiresAt now = db_conn (db_stmt (\<lambda>t. insert_ignore
     \<lparr>rg_issuer = issuer, rg_audience = audience, rg_nonce = nonce, rg_request_hash = hx nonce,
      rg_consumed_at = ms_round now, rg_expires_at = ms_round expiresAt\<rparr>))"

text \<open>The deletion that a goroutine runs after a successful check, at some later database time.\<close>

definition replay_cleanup :: "millis \<Rightarrow> replay_row list \<Rightarrow> replay_row list" where
  "replay_cleanup t rows = filter (\<lambda>x. \<not> rg_expires_at x < t) rows"

definition ConsumeReplayNonce ::
  "(gostring \<Rightarrow> gostring) \<Rightarrow> gostring \<Rightarrow> gostring \<Rightarrow> gostring \<Rightarrow> int \<Rightarrow> (replay_row list, bool) dbm" where
  "ConsumeReplayNonce hx issuer audience nonce ttlSeconds = db_conn (db_stmt (\<lambda>t. insert_ignore
     \<lparr>rg_issuer = issuer, rg_audience = audience, rg_nonce = nonce, rg_request_hash = hx nonce,
      rg_consumed_at = t, rg_expires_at = t + ttlSeconds * 1000\<rparr>))"

text \<open>The cache as the verifier sees it, on a connection that behaves as \<open>env\<close> says.\<close>

definition mysql_cache :: "(gostring \<Rightarrow> gostring) \<Rightarrow> gostring \<Rightarrow> gostring \<Rightarrow> db_env \<Rightarrow> replay_row list replay_cache" where
  "mysql_cache hx issuer audience env nonce expiresAt now rows =
     (case MySQLReplayCache_CheckAndStore hx issuer audience nonce expiresAt now env (0, rows) of
        (Inl _, (_, rows')) \<Rightarrow> (Inl AuthCacheFailure, rows')
      | (Inr False, (_, rows')) \<Rightarrow> (Inl AuthCacheFailure, rows')
      | (Inr True, (_, rows')) \<Rightarrow> (Inr (), rows'))"

record replayBody =
  rb_Issuer :: gostring
  rb_Audience :: gostring
  rb_Nonce :: gostring
  rb_TTLSeconds :: int

definition SecurityReplayConsume ::
  "trust \<Rightarrow> (gostring \<Rightarrow> gostring) \<Rightarrow> replayBody option \<Rightarrow> (replay_row list, bool reply) dbm" where
  "SecurityReplayConsume trust hx decoded =
     (case authorizeInternalControlPlane trust ''control_plane.replay.consume'' ''ai-orchestrator'' of
        Inl code \<Rightarrow> db_ret (respondInternalQueryError code)
      | Inr _ \<Rightarrow>
        (case decoded of
           None \<Rightarrow> db_ret (Refuse 400 ''INVALID_BODY'')
         | Some body \<Rightarrow>
             if rb_Issuer body = [] \<or> rb_Audience body = [] \<or> rb_Nonce body = []
             then db_ret (Refuse 400 ''MISSING_REPLAY_FIELDS'')
             else db_bind (db_try (ConsumeReplayNonce hx (rb_Issuer body) (rb_Audience body) (rb_Nonce body)
                    (if rb_TTLSeconds body \<le> 0 \<or> rb_TTLSeconds body > 3600 then 60 else rb_TTLSeconds body)))
               (\<lambda>r. case r of
                  Inl _ \<Rightarrow> db_ret (Refuse 500 ''replay_consume_failed'')
                | Inr created \<Rightarrow> if created then db_ret (Reply True) else db_ret (Refuse 409 ''CONTEXT_REPLAYED''))))"

section \<open>What the handlers see\<close>

definition verify_error_of :: "auth_error \<Rightarrow> verify_error" where
  "verify_error_of e = (case e of
      AuthExpiredContext \<Rightarrow> ErrExpiredContext
    | AuthReplayedContext \<Rightarrow> ErrReplayedContext
    | AuthWrongAudience \<Rightarrow> ErrWrongAudience
    | AuthWrongContextType \<Rightarrow> ErrWrongContextType
    | AuthInvalidContext \<Rightarrow> ErrInvalidContext
    | _ \<Rightarrow> OtherVerifyError)"

text \<open>The verification at the start of every internal request, with the two headers it reads.\<close>

definition internal_trust ::
  "jws_env \<Rightarrow> TrustedRequestContext json_codec \<Rightarrow> 's VerifyConfig option \<Rightarrow> gostring \<Rightarrow> gostring \<Rightarrow> int \<Rightarrow> 's \<Rightarrow> trust \<times> 's" where
  "internal_trust je jc configured serviceHeader contextHeader now s =
     (case configured of
        None \<Rightarrow> (NoVerifier, s)
      | Some cfg \<Rightarrow>
        (case VerifyServiceToken je serviceHeader cfg of
           Some _ \<Rightarrow> (BadServiceToken, s)
         | None \<Rightarrow>
           (case VerifyTrustedRequestContextV2 je jc contextHeader cfg now s of
              (Inl e, s') \<Rightarrow> (BadContext (verify_error_of e), s')
            | (Inr c, s') \<Rightarrow> (Verified c, s'))))"

section \<open>Tokens can be taken apart again\<close>

lemma b64_val_char: "v < 64 \<Longrightarrow> b64_val (b64_char v) = Some v"
  by (auto simp: b64_val_def b64_char_def Let_def)

lemma b64_char_plain: "v < 64 \<Longrightarrow> b64_char v \<noteq> CHR 0x0A \<and> b64_char v \<noteq> CHR 0x0D \<and> b64_char v \<noteq> CHR ''.''"
  using b64_val_char [of v] by (auto simp: b64_val_def)

lemma b64_digits_bound: "\<forall>a\<in>set as. a < 256 \<Longrightarrow> \<forall>v\<in>set (b64_digits as). v < 64"
  by (induction as rule: b64_digits.induct) (auto simp: less_mult_imp_div_less)

lemma b64_parts: "b < 256 \<Longrightarrow> b div 16 div 16 = 0" "b < 256 \<Longrightarrow> b div 16 mod 16 = b div 16"
  "b < 256 \<Longrightarrow> b div 64 div 4 = 0" "b < 256 \<Longrightarrow> b div 64 mod 4 = b div 64" for b :: nat
  by (simp_all add: less_mult_imp_div_less)

lemma b64_bytes_digits: "\<forall>a\<in>set as. a < 256 \<Longrightarrow> b64_bytes (b64_digits as) = Some as"
  by (induction as rule: b64_digits.induct) (simp_all add: b64_parts)

lemma all_some_map: "\<forall>v\<in>set vs. f v = Some (g v) \<Longrightarrow> all_some (map f vs) = Some (map g vs)"
  by (induction vs) auto

lemma b64_roundtrip: "b64_decode (b64_encode s) = Some s"
proof -
  let ?vs = "b64_digits (map of_char s)"
  have lt: "\<forall>v\<in>set ?vs. v < 64" by (rule b64_digits_bound) (auto simp: nat_of_char_less_256)
  have f: "filter (\<lambda>c. c \<noteq> CHR 0x0A \<and> c \<noteq> CHR 0x0D) (map b64_char ?vs) = map b64_char ?vs"
    using lt b64_char_plain by (intro filter_True) auto
  have a: "all_some (map b64_val (map b64_char ?vs)) = Some ?vs"
    using all_some_map [of ?vs "b64_val \<circ> b64_char" "\<lambda>v. v"] lt by (simp add: b64_val_char comp_def)
  have b: "b64_bytes ?vs = Some (map of_char s)" by (rule b64_bytes_digits) (auto simp: nat_of_char_less_256)
  show ?thesis unfolding b64_decode_def b64_encode_def f a by (simp add: b comp_def)
qed

lemma b64_no_dot: "CHR ''.'' \<notin> set (b64_encode s)"
proof -
  have "\<forall>v\<in>set (b64_digits (map of_char s)). v < 64" by (rule b64_digits_bound) (auto simp: nat_of_char_less_256)
  then show ?thesis using b64_char_plain by (force simp: b64_encode_def)
qed

lemma b64_encode_Nil: "b64_encode s = [] \<longleftrightarrow> s = []"
  by (cases "map of_char s :: nat list" rule: b64_digits.cases) (auto simp: b64_encode_def)

lemma split_on_plain: "d \<notin> set s \<Longrightarrow> split_on d s = [s]"
  by (induction s) auto

lemma split_on_append: "d \<notin> set s \<Longrightarrow> split_on d (s @ d # r) = s # split_on d r"
  by (induction s) auto

lemma verifyJWSPayload_Inr:
  assumes "verifyJWSPayload je token cfg = Inr payload"
  shows "\<exists>p0 p1 p2 key. split_on (CHR ''.'') token = [p0, p1, p2] \<and> header_key je cfg p0 = Some key \<and>
    signature_ok je key (p0 @ ''.'' @ p1) p2 \<and> b64_decode p1 = Some payload"
  using assms by (auto simp: verifyJWSPayload_def split: if_splits list.splits option.splits)

lemma header_key_Some:
  assumes "header_key je cfg part = Some key"
  shows "\<exists>kid. kid \<noteq> [] \<and> vc_PublicKeys cfg kid = Some key \<and> length key = 32"
  using assms by (auto simp: header_key_def split: option.splits if_splits)

lemma verify_typed_Inr:
  assumes "verify_typed je jc ctype validate token cfg now s = (Inr c, s')"
  shows "\<exists>payload check. verifyJWSPayload je token cfg = Inr payload \<and> jc_type jc payload = Some ctype \<and>
    jc_decode jc payload = Some c \<and> validate c = None \<and> cx_Issuer c = vc_Issuer cfg \<and> cx_Audience c = vc_Audience cfg \<and>
    now \<le> cx_ExpiresAt c + vc_ClockSkew cfg \<and> cx_IssuedAt c \<le> now + vc_ClockSkew cfg \<and>
    vc_ReplayCache cfg = Some check \<and> check (cx_Nonce c) (cx_ExpiresAt c + vc_ClockSkew cfg) now s = (Inr (), s')"
  using assms
  by (auto simp: verify_typed_def verifyCommonClaims_def split: sum.splits if_splits option.splits prod.splits)

lemma verify_typed_Inl:
  assumes "verify_typed je jc ctype validate token cfg now s = (Inl e, s')"
  shows "s' = s \<or> (\<exists>n ex check. vc_ReplayCache cfg = Some check \<and> check n ex now s = (Inl e, s'))"
  using assms
  by (auto simp: verify_typed_def verifyCommonClaims_def split: sum.splits if_splits option.splits prod.splits)

section \<open>A context is accepted once\<close>

text \<open>
  A history of the requests that verifiers with a common state have served.  \<open>cfg e\<close> is the configuration
  under the circumstances \<open>e\<close> of one request, \<open>other now s s'\<close> what else happens to the state at time \<open>now\<close>;
  the time never goes back.  \<open>acc\<close> are the contexts accepted so far.
\<close>

inductive served ::
  "jws_env \<Rightarrow> TrustedRequestContext json_codec \<Rightarrow> ('e \<Rightarrow> 's VerifyConfig) \<Rightarrow> (int \<Rightarrow> 's \<Rightarrow> 's \<Rightarrow> bool) \<Rightarrow>
     int \<Rightarrow> TrustedRequestContext list \<Rightarrow> 's \<Rightarrow> bool"
  for je jc cfg other where
  served_start: "served je jc cfg other now [] s"
| served_accept: "served je jc cfg other t acc s \<Longrightarrow> t \<le> now \<Longrightarrow>
    VerifyTrustedRequestContextV2 je jc token (cfg e) now s = (Inr c, s') \<Longrightarrow> served je jc cfg other now (acc @ [c]) s'"
| served_refuse: "served je jc cfg other t acc s \<Longrightarrow> t \<le> now \<Longrightarrow>
    VerifyTrustedRequestContextV2 je jc token (cfg e) now s = (Inl err, s') \<Longrightarrow> served je jc cfg other now acc s'"
| served_other: "served je jc cfg other t acc s \<Longrightarrow> t \<le> now \<Longrightarrow> other now s s' \<Longrightarrow> served je jc cfg other now acc s'"

text \<open>
  What the verifier needs of a replay cache: a nonce that is held and whose window is open is refused,
  an accepted nonce is held, and nothing is forgotten before its window has closed.
\<close>

locale replay_guard =
  fixes cache :: "'e \<Rightarrow> 's replay_cache"
    and other :: "int \<Rightarrow> 's \<Rightarrow> 's \<Rightarrow> bool"
    and holds :: "'s \<Rightarrow> gostring \<Rightarrow> int \<Rightarrow> bool"
  assumes accept_new: "cache e n ex now s = (Inr (), s') \<Longrightarrow> now \<le> ex' \<Longrightarrow> \<not> holds s n ex'"
    and accept_holds: "cache e n ex now s = (Inr (), s') \<Longrightarrow> holds s' n ex"
    and cache_keeps: "cache e n ex now s = (r, s') \<Longrightarrow> holds s m ex' \<Longrightarrow> now \<le> ex' \<Longrightarrow> holds s' m ex'"
    and other_keeps: "other now s s' \<Longrightarrow> holds s m ex' \<Longrightarrow> now \<le> ex' \<Longrightarrow> holds s' m ex'"
begin

abbreviation guarded :: "'s VerifyConfig \<Rightarrow> 'e \<Rightarrow> 's VerifyConfig" where
  "guarded cfg e \<equiv> cfg\<lparr>vc_ReplayCache := Some (cache e)\<rparr>"

lemma served_held:
  assumes "served je jc (guarded cfg) other now acc s"
  shows "distinct acc \<and> (\<forall>c\<in>set acc. now \<le> cx_ExpiresAt c + vc_ClockSkew cfg \<longrightarrow>
    holds s (cx_Nonce c) (cx_ExpiresAt c + vc_ClockSkew cfg))"
  using assms
proof (induction rule: served.induct)
  case (served_start now s)
  show ?case by simp
next
  case (served_accept t acc s now token e c s')
  from verify_typed_Inr [OF served_accept.hyps(3) [unfolded VerifyTrustedRequestContextV2_def]]
  have now: "now \<le> cx_ExpiresAt c + vc_ClockSkew cfg"
    and chk: "cache e (cx_Nonce c) (cx_ExpiresAt c + vc_ClockSkew cfg) now s = (Inr (), s')" by auto
  have old: "now \<le> cx_ExpiresAt d + vc_ClockSkew cfg \<Longrightarrow> holds s (cx_Nonce d) (cx_ExpiresAt d + vc_ClockSkew cfg)"
    if "d \<in> set acc" for d
    using served_accept.IH served_accept.hyps(2) that by force
  have "c \<notin> set acc" using old [of c] accept_new [OF chk now] now by blast
  moreover have "holds s' (cx_Nonce d) (cx_ExpiresAt d + vc_ClockSkew cfg)"
    if "d \<in> set acc" "now \<le> cx_ExpiresAt d + vc_ClockSkew cfg" for d
    using cache_keeps [OF chk] old that by blast
  ultimately show ?case using served_accept.IH accept_holds [OF chk] by auto
next
  case (served_refuse t acc s now token e err s')
  have keep: "holds s m ex \<Longrightarrow> now \<le> ex \<Longrightarrow> holds s' m ex" for m ex
    using verify_typed_Inl [OF served_refuse.hyps(3) [unfolded VerifyTrustedRequestContextV2_def]] cache_keeps by auto
  with served_refuse show ?case by force
next
  case (served_other t acc s now s')
  with other_keeps [OF served_other.hyps(3)] show ?case by force
qed

lemma accepted_once: "served je jc (guarded cfg) other now acc s \<Longrightarrow> distinct acc"
  using served_held by blast

end

text \<open>The cache of one process, to which nothing happens but the requests.\<close>

interpretation mem_guard: replay_guard "\<lambda>_ :: unit. InMemoryReplayCache_CheckAndStore" "\<lambda>_ s s'. s' = s"
  "\<lambda>s n ex. (n, ex) \<in> set (im_nonces s)"
proof
  fix e :: unit and n ex now s s' ex'
  assume "InMemoryReplayCache_CheckAndStore n ex now s = (Inr (), s')"
  then show "now \<le> ex' \<Longrightarrow> (n, ex') \<notin> set (im_nonces s)" and "(n, ex) \<in> set (im_nonces s')"
    by (force simp: InMemoryReplayCache_CheckAndStore_def Let_def split: if_splits)+
qed (auto simp: InMemoryReplayCache_CheckAndStore_def Let_def split: if_splits)

text \<open>
  The table, shared by all processes of the query API.  Besides the requests there are the deletions,
  at the millisecond of the database clock, and explicit consumption through the endpoint.
\<close>

definition guard_table_step :: "(gostring \<Rightarrow> gostring) \<Rightarrow> int \<Rightarrow> replay_row list \<Rightarrow> replay_row list \<Rightarrow> bool" where
  "guard_table_step hx now s s' \<longleftrightarrow> s' = replay_cleanup (now div 1000000) s \<or>
     (\<exists>tr body env n r n'. SecurityReplayConsume tr hx body env (n, s) = (r, (n', s')))"

definition row_held :: "gostring \<Rightarrow> gostring \<Rightarrow> replay_row list \<Rightarrow> gostring \<Rightarrow> int \<Rightarrow> bool" where
  "row_held issuer audience rows n ex \<longleftrightarrow> (\<exists>x\<in>set rows. rg_issuer x = issuer \<and> rg_audience x = audience \<and> rg_nonce x = n \<and>
     ms_round ex \<le> rg_expires_at x)"

lemma insert_ignore_mono: "row_held i a s m ex \<Longrightarrow> row_held i a (snd (insert_ignore row s)) m ex"
  by (auto simp: insert_ignore_def row_held_def)

lemma consume_mono:
  assumes "SecurityReplayConsume tr hx body env (n, s) = (r, (n', s'))" and "row_held i a s m ex"
  shows "row_held i a s' m ex"
proof -
  have "keeps (\<lambda>rows. row_held i a rows m ex) (SecurityReplayConsume tr hx body)"
    unfolding SecurityReplayConsume_def ConsumeReplayNonce_def
    by (auto intro!: keeps_ret keeps_bind keeps_try keeps_conn keeps_stmt insert_ignore_mono split: sum.split option.split)
  from keepsD [OF this assms(2,1)] show ?thesis .
qed

lemma mysql_cache_Inr:
  assumes "mysql_cache hx i a env n ex now s = (Inr (), s')"
  shows "(\<forall>x\<in>set s. rg_issuer x = i \<longrightarrow> rg_audience x = a \<longrightarrow> rg_nonce x \<noteq> n) \<and>
    s' = s @ [\<lparr>rg_issuer = i, rg_audience = a, rg_nonce = n, rg_request_hash = hx n, rg_consumed_at = ms_round now,
      rg_expires_at = ms_round ex\<rparr>]"
  using assms
  by (auto simp: mysql_cache_def MySQLReplayCache_CheckAndStore_def db_conn_def db_stmt_def insert_ignore_def Let_def list_ex_iff
      split: if_splits sum.splits bool.splits)

lemma mysql_cache_keeps: "mysql_cache hx i a env n ex now s = (r, s') \<Longrightarrow> row_held i a s m ex' \<Longrightarrow> row_held i a s' m ex'"
  using insert_ignore_mono [of i a s m ex']
  by (auto simp: mysql_cache_def MySQLReplayCache_CheckAndStore_def db_conn_def db_stmt_def Let_def case_prod_beta
      split: if_splits sum.splits bool.splits)

interpretation sql_guard: replay_guard "mysql_cache hx i a" "guard_table_step hx" "row_held i a" for hx i a
proof
  fix env n ex now s s' ex'
  assume "mysql_cache hx i a env n ex now s = (Inr (), s')"
  from mysql_cache_Inr [OF this] show "\<not> row_held i a s n ex'" and "row_held i a s' n ex"
    by (auto simp: row_held_def)
next
  fix now s s' m ex'
  assume step: "guard_table_step hx now s s'" and h: "row_held i a s m ex'" and le: "now \<le> ex'"
  have "now div 1000000 \<le> ms_round ex'"
    using zdiv_mono1 [of now "ex' + 500000" 1000000] le by (simp add: ms_round_def)
  then have "row_held i a (replay_cleanup (now div 1000000) s) m ex'"
    using h by (force simp: row_held_def replay_cleanup_def)
  with step h show "row_held i a s' m ex'" unfolding guard_table_step_def using consume_mono by blast
qed (rule mysql_cache_keeps)


text \<open>
  C18.  A control plane request is authorized only by a fresh context that was signed for it.  The service
  header has the digest of the configured token, and the context header consists of three parts, the
  last of which is a valid signature of the first two under a configured key; the second part decodes to a valid
  context of a system principal for exactly this capability, issuer and audience, within its lifetime of
  at most a minute, and tenant, cluster and Run are those of that context.
\<close>

theorem control_plane_request_authentic:
  assumes "internal_trust je jc configured serviceHeader contextHeader now s = (tr, s')"
    and "authorizeInternalControlPlane tr capability expectedIssuer = Inr ictx"
  shows "\<exists>cfg c p0 p1 p2 kid key payload. configured = Some cfg \<and>
    vc_ServiceToken cfg \<noteq> [] \<and> je_sha je serviceHeader = je_sha je (vc_ServiceToken cfg) \<and>
    split_on (CHR ''.'') contextHeader = [p0, p1, p2] \<and> vc_PublicKeys cfg kid = Some key \<and>
    signature_ok je key (p0 @ ''.'' @ p1) p2 \<and> b64_decode p1 = Some payload \<and> jc_decode jc payload = Some c \<and>
    TrustedRequestContext_Validate c = None \<and> cx_ContextType c = ''trusted_request'' \<and> cx_PrincipalType c = ''system'' \<and>
    trc_Capability c = capability \<and> (expectedIssuer \<noteq> [] \<longrightarrow> cx_Issuer c = expectedIssuer) \<and>
    cx_Issuer c = vc_Issuer cfg \<and> cx_Audience c = vc_Audience cfg \<and>
    cx_IssuedAt c - vc_ClockSkew cfg \<le> now \<and> now \<le> cx_ExpiresAt c + vc_ClockSkew cfg \<and>
    cx_ExpiresAt c - cx_IssuedAt c \<le> 60 * second_ns \<and>
    ictx = \<lparr>iq_TenantID = cx_TenantID c, iq_ClusterID = trc_ClusterID c, iq_Capability = capability, iq_RunID = trc_RunID c\<rparr>"
proof -
  obtain c where tr: "tr = Verified c" and c: "cx_PrincipalType c = ''system''" "trc_Capability c = capability"
      "expectedIssuer \<noteq> [] \<longrightarrow> cx_Issuer c = expectedIssuer"
      "ictx = \<lparr>iq_TenantID = cx_TenantID c, iq_ClusterID = trc_ClusterID c, iq_Capability = capability, iq_RunID = trc_RunID c\<rparr>"
    using assms(2) by (cases tr) (auto simp: authorizeInternalControlPlane_def split: if_splits)
  obtain cfg where cfg: "configured = Some cfg" "VerifyServiceToken je serviceHeader cfg = None"
      "VerifyTrustedRequestContextV2 je jc contextHeader cfg now s = (Inr c, s')"
    using assms(1) tr by (auto simp: internal_trust_def split: option.splits sum.splits prod.splits)
  obtain payload where p: "verifyJWSPayload je contextHeader cfg = Inr payload" "jc_decode jc payload = Some c"
      "TrustedRequestContext_Validate c = None" "cx_Issuer c = vc_Issuer cfg" "cx_Audience c = vc_Audience cfg"
      "now \<le> cx_ExpiresAt c + vc_ClockSkew cfg" "cx_IssuedAt c \<le> now + vc_ClockSkew cfg"
    using verify_typed_Inr [OF cfg(3) [unfolded VerifyTrustedRequestContextV2_def]] by blast
  obtain p0 p1 p2 key where t: "split_on (CHR ''.'') contextHeader = [p0, p1, p2]" "header_key je cfg p0 = Some key"
      "signature_ok je key (p0 @ ''.'' @ p1) p2" "b64_decode p1 = Some payload"
    using verifyJWSPayload_Inr [OF p(1)] by blast
  obtain kid where kid: "vc_PublicKeys cfg kid = Some key" using header_key_Some [OF t(2)] by blast
  have v: "cx_ContextType c = ''trusted_request''" "cx_ExpiresAt c - cx_IssuedAt c \<le> 60 * second_ns"
    using p(3) by (auto simp: TrustedRequestContext_Validate_def first_error_None validateCommon_def Let_def)
  have tok: "vc_ServiceToken cfg \<noteq> []" "je_sha je serviceHeader = je_sha je (vc_ServiceToken cfg)"
    using cfg(2) by (auto simp: VerifyServiceToken_def split: if_splits)
  have "cx_IssuedAt c - vc_ClockSkew cfg \<le> now" using p(7) by simp
  then show ?thesis using c cfg(1) p t kid v tok by blast
qed

text \<open>
  What the standard library promises of Ed25519 and of the JSON text of the structs: signatures of a key
  verify, sizes are as documented, and decoding what was encoded gives the value back.
\<close>

definition jws_laws :: "jws_env \<Rightarrow> gostring \<Rightarrow> bool" where
  "jws_laws je key \<longleftrightarrow> (\<forall>m. je_verify je (je_public je key) m (je_sign je key m) \<and> length (je_sign je key m) = 64) \<and>
     length (je_public je key) = 32 \<and> je_sha je (je_public je key) \<noteq> [] \<and>
     (\<forall>h. je_header_decode je (je_header je h) = Some h \<and> je_header je h \<noteq> [])"

definition codec_laws :: "'a commonContext_scheme json_codec \<Rightarrow> 'a commonContext_scheme \<Rightarrow> bool" where
  "codec_laws jc c \<longleftrightarrow> jc_decode jc (jc_marshal jc c) = Some c \<and> jc_type jc (jc_marshal jc c) = Some (cx_ContextType c) \<and>
     jc_marshal jc c \<noteq> []"

lemma signed_payload:
  assumes laws: "jws_laws je key" and m: "marshal c \<noteq> []"
    and signed: "signJWS je marshal c key = Inr token"
    and cfg: "vc_Audience cfg \<noteq> []" "vc_Issuer cfg \<noteq> []" "vc_ReplayCache cfg \<noteq> None" "0 \<le> vc_ClockSkew cfg"
      "vc_PublicKeys cfg (KeyID je (je_public je key)) = Some (je_public je key)"
  shows "verifyJWSPayload je token cfg = Inr (marshal c)"
proof -
  let ?h = "\<lparr>ph_Algorithm = ''EdDSA'', ph_KeyID = KeyID je (je_public je key), ph_Type = ''AIOPS-CONTEXT''\<rparr>"
  let ?p0 = "b64_encode (je_header je ?h)"
  let ?p1 = "b64_encode (marshal c)"
  let ?in = "?p0 @ ''.'' @ ?p1"
  let ?p2 = "b64_encode (je_sign je key ?in)"
  have token: "token = ?p0 @ CHR ''.'' # ?p1 @ CHR ''.'' # ?p2"
    using signed by (simp add: signJWS_def Let_def split: if_splits)
  have parts: "split_on (CHR ''.'') token = [?p0, ?p1, ?p2]"
    unfolding token by (simp add: split_on_append b64_no_dot split_on_plain)
  have kid: "KeyID je (je_public je key) \<noteq> []" using laws by (simp add: KeyID_def jws_laws_def b64_encode_Nil)
  have key: "header_key je cfg ?p0 = Some (je_public je key)"
    using laws cfg(5) kid by (simp add: header_key_def b64_roundtrip jws_laws_def)
  have sig: "signature_ok je (je_public je key) ?in ?p2"
    using laws by (simp add: signature_ok_def b64_roundtrip jws_laws_def)
  have "je_sign je key ?in \<noteq> []" using laws unfolding jws_laws_def by (metis list.size(3) zero_neq_numeral)
  then have "?p0 \<noteq> []" "?p1 \<noteq> []" "?p2 \<noteq> []" using laws m by (simp_all add: b64_encode_Nil jws_laws_def)
  then show ?thesis unfolding verifyJWSPayload_def parts using cfg key sig by (simp add: b64_roundtrip)
qed

lemma signed_verifies:
  assumes laws: "jws_laws je key" "codec_laws jc c"
    and signed: "SignTrustedRequestContextV2 je jc c key = Inr token"
    and cfg: "vc_Issuer cfg = cx_Issuer c" "vc_Audience cfg = cx_Audience c" "vc_ReplayCache cfg = Some check" "0 \<le> vc_ClockSkew cfg"
      "vc_PublicKeys cfg (KeyID je (je_public je key)) = Some (je_public je key)"
  shows "verifyJWSPayload je token cfg = Inr (jc_marshal jc c) \<and> cx_ContextType c = ''trusted_request'' \<and>
    (cx_IssuedAt c - vc_ClockSkew cfg \<le> now \<longrightarrow> now \<le> cx_ExpiresAt c + vc_ClockSkew cfg \<longrightarrow>
      VerifyTrustedRequestContextV2 je jc token cfg now s =
      (case check (cx_Nonce c) (cx_ExpiresAt c + vc_ClockSkew cfg) now s of (Inl e, s') \<Rightarrow> (Inl e, s') | (Inr _, s') \<Rightarrow> (Inr c, s')))"
proof -
  have t: "cx_ContextType c = ''trusted_request''" and v: "TrustedRequestContext_Validate c = None"
    and sg: "signJWS je (jc_marshal jc) c key = Inr token"
    using signed by (auto simp: SignTrustedRequestContextV2_def sign_typed_def split: if_splits)
  have ne: "cx_Issuer c \<noteq> []" "cx_Audience c \<noteq> []"
    using v by (auto simp: TrustedRequestContext_Validate_def first_error_None validateCommon_def Let_def)
  have p: "verifyJWSPayload je token cfg = Inr (jc_marshal jc c)"
    by (rule signed_payload [OF laws(1) _ sg]) (use laws(2) cfg ne in \<open>simp_all add: codec_laws_def\<close>)
  then show ?thesis
    using laws(2) t v cfg
    by (simp add: VerifyTrustedRequestContextV2_def verify_typed_def codec_laws_def verifyCommonClaims_def)
qed

text \<open>
  C21.  What is signed verifies.  A context that \<open>SignTrustedRequestContextV2\<close> signs is returned unchanged by
  a verifier for its issuer and audience that knows the public key, at every time of the lifetime
  extended by the clock skew, provided that the replay cache takes the nonce; and the same token is
  refused as a context of the wrong type by the two other verifiers.
\<close>

theorem signed_context_verifies:
  assumes laws: "jws_laws je key" "codec_laws jc c"
    and signed: "SignTrustedRequestContextV2 je jc c key = Inr token"
    and cfg: "vc_Issuer cfg = cx_Issuer c" "vc_Audience cfg = cx_Audience c" "vc_ReplayCache cfg = Some check" "0 \<le> vc_ClockSkew cfg"
      "vc_PublicKeys cfg (KeyID je (je_public je key)) = Some (je_public je key)"
    and time: "cx_IssuedAt c - vc_ClockSkew cfg \<le> now" "now \<le> cx_ExpiresAt c + vc_ClockSkew cfg"
    and other: "jc_type jci (jc_marshal jc c) = jc_type jc (jc_marshal jc c)" "jc_type jcc (jc_marshal jc c) = jc_type jc (jc_marshal jc c)"
  shows "VerifyTrustedRequestContextV2 je jc token cfg now s =
      (case check (cx_Nonce c) (cx_ExpiresAt c + vc_ClockSkew cfg) now s of (Inl e, s') \<Rightarrow> (Inl e, s') | (Inr _, s') \<Rightarrow> (Inr c, s')) \<and>
    VerifyRunInvocationContext je jci token cfg now s = (Inl AuthWrongContextType, s) \<and>
    VerifyRunControlContext je jcc token cfg now s = (Inl AuthWrongContextType, s)"
proof -
  note sv = signed_verifies [OF laws signed cfg, of now s]
  have "VerifyRunInvocationContext je jci token cfg now s = (Inl AuthWrongContextType, s)"
    "VerifyRunControlContext je jcc token cfg now s = (Inl AuthWrongContextType, s)"
    using sv laws(2) other
    by (simp_all add: VerifyRunInvocationContext_def VerifyRunControlContext_def verify_typed_def codec_laws_def)
  with sv time show ?thesis by blast
qed

section \<open>A signed request\<close>

definition sample_header :: "protectedHeader \<Rightarrow> gostring" where
  "sample_header h = b64_encode (ph_Algorithm h) @ ''.'' @ b64_encode (ph_KeyID h) @ ''.'' @ b64_encode (ph_Type h)"

definition sample_header_decode :: "gostring \<Rightarrow> protectedHeader option" where
  "sample_header_decode t = (case map b64_decode (split_on (CHR ''.'') t) of
     [Some a, Some k, Some y] \<Rightarrow> Some \<lparr>ph_Algorithm = a, ph_KeyID = k, ph_Type = y\<rparr> | _ \<Rightarrow> None)"

definition sample_jws :: jws_env where
  "sample_jws = \<lparr>je_sign = (\<lambda>k m. replicate 64 (CHR ''s'')), je_public = (\<lambda>k. replicate 32 (CHR ''p'')),
     je_verify = (\<lambda>k m sg. k = replicate 32 (CHR ''p'') \<and> sg = replicate 64 (CHR ''s'')), je_sha = (\<lambda>x. ''d'' @ x),
     je_header = sample_header, je_header_decode = sample_header_decode\<rparr>"

definition sample_uuid :: gostring where
  "sample_uuid = ''11111111-1111-4111-8111-111111111111''"

definition sample_context :: TrustedRequestContext where
  "sample_context = NewTrustedRequestContext ''ai-orchestrator'' ''query-api'' ''req'' ''system'' sample_uuid [] sample_uuid
     sample_uuid ''run'' [] ''control_plane.runs.mutate'' ''worker'' (100 * second_ns) (150 * second_ns) sample_uuid"

definition sample_codec :: "TrustedRequestContext json_codec" where
  "sample_codec = \<lparr>jc_marshal = (\<lambda>_. ''context''), jc_decode = (\<lambda>_. Some sample_context), jc_type = (\<lambda>_. Some ''trusted_request'')\<rparr>"

definition sample_config :: "'s replay_cache \<Rightarrow> 's VerifyConfig" where
  "sample_config check = \<lparr>vc_Audience = ''query-api'', vc_Issuer = ''ai-orchestrator'',
     vc_PublicKeys = (\<lambda>kid. if kid = KeyID sample_jws (replicate 32 (CHR ''p'')) then Some (replicate 32 (CHR ''p'')) else None),
     vc_ServiceToken = ''secret'', vc_ReplayCache = Some check, vc_ClockSkew = 0\<rparr>"

definition sample_key :: gostring where
  "sample_key = replicate 64 (CHR ''k'')"

lemma sample_header_roundtrip: "sample_header_decode (sample_header h) = Some h"
  by (simp add: sample_header_def sample_header_decode_def split_on_append split_on_plain b64_no_dot b64_roundtrip)

lemma sample_laws: "jws_laws sample_jws sample_key" "codec_laws sample_codec sample_context"
  by (simp_all add: jws_laws_def sample_jws_def sample_header_roundtrip codec_laws_def sample_codec_def sample_context_def
      NewTrustedRequestContext_def) (simp add: sample_header_def)

lemma sample_context_valid: "TrustedRequestContext_Validate sample_context = None"
  by code_simp

lemma sample_signed: "\<exists>token. SignTrustedRequestContextV2 sample_jws sample_codec sample_context sample_key = Inr token"
  by (simp add: SignTrustedRequestContextV2_def sign_typed_def sample_context_valid signJWS_def sample_key_def Let_def)
    (simp add: sample_context_def NewTrustedRequestContext_def)

lemma sample_fields: "cx_Issuer sample_context = ''ai-orchestrator''" "cx_Audience sample_context = ''query-api''"
  "cx_IssuedAt sample_context = 100 * second_ns" "cx_ExpiresAt sample_context = 150 * second_ns"
  "cx_Nonce sample_context = sample_uuid" "cx_PrincipalType sample_context = ''system''"
  "trc_Capability sample_context = ''control_plane.runs.mutate''"
  by (simp_all add: sample_context_def NewTrustedRequestContext_def)

lemma sample_config_fields: "vc_Issuer (sample_config check) = ''ai-orchestrator''" "vc_Audience (sample_config check) = ''query-api''"
  "vc_ReplayCache (sample_config check) = Some check" "vc_ClockSkew (sample_config check) = 0"
  "vc_PublicKeys (sample_config check) (KeyID sample_jws (je_public sample_jws key)) = Some (je_public sample_jws key)"
  by (simp_all add: sample_config_def sample_jws_def)

theorem signed_context_verifies_witness:
  "\<exists>token s'. SignTrustedRequestContextV2 sample_jws sample_codec sample_context sample_key = Inr token \<and>
    VerifyTrustedRequestContextV2 sample_jws sample_codec token (sample_config InMemoryReplayCache_CheckAndStore) (120 * second_ns) (NewReplayCache 10) =
      (Inr sample_context, s')"
proof -
  obtain token where token: "SignTrustedRequestContextV2 sample_jws sample_codec sample_context sample_key = Inr token"
    using sample_signed by blast
  have "VerifyTrustedRequestContextV2 sample_jws sample_codec token (sample_config InMemoryReplayCache_CheckAndStore) (120 * second_ns) (NewReplayCache 10) =
      (case InMemoryReplayCache_CheckAndStore (cx_Nonce sample_context) (150 * second_ns) (120 * second_ns) (NewReplayCache 10) of
         (Inl e, s') \<Rightarrow> (Inl e, s') | (Inr _, s') \<Rightarrow> (Inr sample_context, s'))"
    using signed_context_verifies [OF sample_laws token, of "sample_config InMemoryReplayCache_CheckAndStore" InMemoryReplayCache_CheckAndStore
        "120 * second_ns" "\<lparr>jc_marshal = \<lambda>_. [], jc_decode = \<lambda>_. None, jc_type = \<lambda>_. Some ''trusted_request''\<rparr>"
        "\<lparr>jc_marshal = \<lambda>_. [], jc_decode = \<lambda>_. None, jc_type = \<lambda>_. Some ''trusted_request''\<rparr>"]
    by (simp add: sample_config_fields sample_fields second_ns_def sample_codec_def)
  with token show ?thesis by (simp add: InMemoryReplayCache_CheckAndStore_def NewReplayCache_def)
qed

lemma sample_verified:
  assumes "check sample_uuid (150 * second_ns) (120 * second_ns) s = (Inr (), s')"
  shows "\<exists>token. VerifyTrustedRequestContextV2 sample_jws sample_codec token (sample_config check) (120 * second_ns) s = (Inr sample_context, s')"
proof -
  obtain token where token: "SignTrustedRequestContextV2 sample_jws sample_codec sample_context sample_key = Inr token"
    using sample_signed by blast
  have "VerifyTrustedRequestContextV2 sample_jws sample_codec token (sample_config check) (120 * second_ns) s = (Inr sample_context, s')"
    using signed_verifies [OF sample_laws token, of "sample_config check" check "120 * second_ns" s] assms
    by (simp add: sample_config_fields sample_fields second_ns_def)
  then show ?thesis by blast
qed


theorem control_plane_request_authentic_witness:
  "\<exists>token tr s' ictx p0 p1 p2. internal_trust sample_jws sample_codec (Some (sample_config InMemoryReplayCache_CheckAndStore)) ''secret'' token
      (120 * second_ns) (NewReplayCache 10) = (tr, s') \<and>
    authorizeInternalControlPlane tr ''control_plane.runs.mutate'' ''ai-orchestrator'' = Inr ictx \<and>
    split_on (CHR ''.'') token = [p0, p1, p2] \<and> signature_ok sample_jws (replicate 32 (CHR ''p'')) (p0 @ ''.'' @ p1) p2"
proof -
  obtain s' where chk: "InMemoryReplayCache_CheckAndStore sample_uuid (150 * second_ns) (120 * second_ns) (NewReplayCache 10) = (Inr (), s')"
    by (simp add: InMemoryReplayCache_CheckAndStore_def NewReplayCache_def)
  obtain token where t: "VerifyTrustedRequestContextV2 sample_jws sample_codec token (sample_config InMemoryReplayCache_CheckAndStore)
      (120 * second_ns) (NewReplayCache 10) = (Inr sample_context, s')"
    using sample_verified [where check = InMemoryReplayCache_CheckAndStore, OF chk] by blast
  have tr: "internal_trust sample_jws sample_codec (Some (sample_config InMemoryReplayCache_CheckAndStore)) ''secret'' token
      (120 * second_ns) (NewReplayCache 10) = (Verified sample_context, s')"
    using t by (simp add: internal_trust_def VerifyServiceToken_def) (simp add: sample_config_def)
  obtain ictx where a: "authorizeInternalControlPlane (Verified sample_context) ''control_plane.runs.mutate'' ''ai-orchestrator'' = Inr ictx"
    by (simp add: authorizeInternalControlPlane_def sample_fields)
  have one: "vc_PublicKeys (sample_config InMemoryReplayCache_CheckAndStore) kid = Some key \<Longrightarrow> key = replicate 32 (CHR ''p'')" for kid key
    by (simp add: sample_config_def split: if_splits)
  have "\<exists>p0 p1 p2. split_on (CHR ''.'') token = [p0, p1, p2] \<and> signature_ok sample_jws (replicate 32 (CHR ''p'')) (p0 @ ''.'' @ p1) p2"
    using control_plane_request_authentic [OF tr a] one by blast
  with tr a show ?thesis by blast
qed

end
