(* ===== verification/JsonParse.thy ===== *)
theory JsonParse
  imports Json
begin

text \<open>
  Decoding JSON text, as \<open>encoding/json\<close> does it for \<open>json.Unmarshal\<close> and for a \<open>json.Decoder\<close>: the grammar
  of the scanner (with its limit of 10,000 nested values), the unquoting of strings, and the
  assignment of members to the fields of a struct.  Text is a list of bytes; sequences that are not
  UTF-8 are outside of the model.

  The parser is a total function: every call is on a shorter text.  \<open>json_parse_text\<close> shows that it
  reads back every text that the printer of theory \<open>Json\<close> writes.
\<close>

section \<open>Tokens\<close>

definition json_ws :: "char \<Rightarrow> bool" where
  "json_ws c \<longleftrightarrow> c \<in> set [CHR '' '', CHR 0x09, CHR 0x0A, CHR 0x0D]"

definition skip_ws :: "gostring \<Rightarrow> gostring" where
  "skip_ws s = dropWhile json_ws s"

definition expect :: "char \<Rightarrow> gostring \<Rightarrow> gostring option" where
  "expect c s = (case s of [] \<Rightarrow> None | x # r \<Rightarrow> if x = c then Some r else None)"

definition hex_val :: "char \<Rightarrow> nat option" where
  "hex_val c =
     (let n = of_char c in
      if 48 \<le> n \<and> n \<le> 57 then Some (n - 48)
      else if 97 \<le> n \<and> n \<le> 102 then Some (n - 87)
      else if 65 \<le> n \<and> n \<le> 70 then Some (n - 55)
      else None)"

definition hex4 :: "gostring \<Rightarrow> nat option" where
  "hex4 s = (case s of
      a # b # c # d # _ \<Rightarrow>
        (case (hex_val a, hex_val b, hex_val c, hex_val d) of
           (Some x, Some y, Some z, Some w) \<Rightarrow> Some (((x * 16 + y) * 16 + z) * 16 + w)
         | _ \<Rightarrow> None)
    | _ \<Rightarrow> None)"

text \<open>The UTF-8 encoding of a code point.\<close>

definition utf8 :: "nat \<Rightarrow> gostring" where
  "utf8 n =
     (if n < 0x80 then [char_of n]
      else if n < 0x800 then [char_of (0xC0 + n div 64), char_of (0x80 + n mod 64)]
      else if n < 0x10000
      then [char_of (0xE0 + n div 4096), char_of (0x80 + n div 64 mod 64), char_of (0x80 + n mod 64)]
      else [char_of (0xF0 + n div 262144), char_of (0x80 + n div 4096 mod 64),
            char_of (0x80 + n div 64 mod 64), char_of (0x80 + n mod 64)])"

definition unescape :: "char \<Rightarrow> char option" where
  "unescape e =
     (if e \<in> set [CHR 0x22, CHR 0x5C, CHR ''/''] then Some e
      else if e = CHR ''b'' then Some CHR 0x08
      else if e = CHR ''f'' then Some CHR 0x0C
      else if e = CHR ''n'' then Some CHR 0x0A
      else if e = CHR ''r'' then Some CHR 0x0D
      else if e = CHR ''t'' then Some CHR 0x09
      else None)"

text \<open>
  The digits after an escaped \<open>u\<close>: the text they stand for and how many further characters they take.  A
  pair of surrogates is one code point; a surrogate without its partner becomes U+FFFD.
\<close>

definition low_surrogate :: "gostring \<Rightarrow> nat option" where
  "low_surrogate s =
     (case expect CHR 0x5C s of
        None \<Rightarrow> None
      | Some t \<Rightarrow> (case expect CHR ''u'' t of
          None \<Rightarrow> None
        | Some r \<Rightarrow> (case hex4 r of
            None \<Rightarrow> None
          | Some v \<Rightarrow> if 0xDC00 \<le> v \<and> v < 0xE000 then Some v else None)))"

definition unicode_escape :: "gostring \<Rightarrow> (gostring \<times> nat) option" where
  "unicode_escape s =
     (case hex4 s of
        None \<Rightarrow> None
      | Some u \<Rightarrow>
          if 0xD800 \<le> u \<and> u < 0xE000
          then (case (if u < 0xDC00 then low_surrogate (drop 4 s) else None) of
                  None \<Rightarrow> Some (utf8 0xFFFD, 4)
                | Some v \<Rightarrow> Some (utf8 (0x10000 + (u - 0xD800) * 1024 + (v - 0xDC00)), 10))
          else Some (utf8 u, 4))"

text \<open>The rest of a string literal after its opening quote: the value, and the text after the closing quote.\<close>

fun str_lit :: "gostring \<Rightarrow> (gostring \<times> gostring) option" where
  "str_lit [] = None"
| "str_lit (c # s) =
     (if c = CHR 0x22 then Some ([], s)
      else if c = CHR 0x5C
      then (case s of
              [] \<Rightarrow> None
            | e # r \<Rightarrow>
                if e = CHR ''u''
                then (case unicode_escape r of
                        None \<Rightarrow> None
                      | Some (x, n) \<Rightarrow> map_option (apfst ((@) x)) (str_lit (drop n r)))
                else (case unescape e of
                        None \<Rightarrow> None
                      | Some x \<Rightarrow> map_option (apfst ((#) x)) (str_lit r)))
      else if of_char c < (32 :: nat) then None
      else map_option (apfst ((#) c)) (str_lit s))"

text \<open>
  Number literals: an optional sign, an integer without leading zeros, an optional fraction, an
  optional exponent.
\<close>

definition take_digits :: "gostring \<Rightarrow> (gostring \<times> gostring) option" where
  "take_digits s = (let ds = takeWhile is_digit s in if ds = [] then None else Some (ds, dropWhile is_digit s))"

definition num_sign :: "char list \<Rightarrow> gostring \<Rightarrow> gostring \<times> gostring" where
  "num_sign signs s = (case s of [] \<Rightarrow> ([], []) | c # r \<Rightarrow> if c \<in> set signs then ([c], r) else ([], s))"

definition num_int :: "gostring \<Rightarrow> (gostring \<times> gostring) option" where
  "num_int s = (case expect CHR ''0'' s of Some r \<Rightarrow> Some (''0'', r) | None \<Rightarrow> take_digits s)"

definition num_frac :: "gostring \<Rightarrow> (gostring \<times> gostring) option" where
  "num_frac s = (case expect CHR ''.'' s of
      None \<Rightarrow> Some ([], s)
    | Some r \<Rightarrow> map_option (apfst ((#) CHR ''.'')) (take_digits r))"

definition num_exp :: "gostring \<Rightarrow> (gostring \<times> gostring) option" where
  "num_exp s = (case num_sign ''eE'' s of
      ([], _) \<Rightarrow> Some ([], s)
    | (e, r) \<Rightarrow> (case num_sign ''+-'' r of
        (sg, t) \<Rightarrow> map_option (apfst (\<lambda>ds. e @ sg @ ds)) (take_digits t)))"

definition num_lit :: "gostring \<Rightarrow> (gostring \<times> gostring) option" where
  "num_lit s =
     (case num_sign ''-'' s of
        (sg, a) \<Rightarrow> (case num_int a of
           None \<Rightarrow> None
         | Some (i, b) \<Rightarrow> (case num_frac b of
             None \<Rightarrow> None
           | Some (f, c) \<Rightarrow> (case num_exp c of
               None \<Rightarrow> None
             | Some (e, d) \<Rightarrow> Some (sg @ i @ f @ e, d)))))"

text \<open>The literals \<open>true\<close>, \<open>false\<close> and \<open>null\<close>.\<close>

definition keyword :: "gostring \<Rightarrow> gostring \<Rightarrow> gostring option" where
  "keyword w s = (if take (length w) s = w then Some (drop (length w) s) else None)"

definition word_lit :: "gostring \<Rightarrow> (json \<times> gostring) option" where
  "word_lit s =
     (case keyword ''true'' s of Some r \<Rightarrow> Some (JBool True, r) | None \<Rightarrow>
      (case keyword ''false'' s of Some r \<Rightarrow> Some (JBool False, r) | None \<Rightarrow>
       (case keyword ''null'' s of Some r \<Rightarrow> Some (JNull, r) | None \<Rightarrow> None)))"

definition scalar :: "gostring \<Rightarrow> (json \<times> gostring) option" where
  "scalar s =
     (case expect CHR 0x22 s of
        Some r \<Rightarrow> map_option (apfst JStr) (str_lit r)
      | None \<Rightarrow> (case word_lit s of Some p \<Rightarrow> Some p | None \<Rightarrow> map_option (apfst JNum) (num_lit s)))"

section \<open>Values\<close>

text \<open>
  \<open>member_head\<close> reads a name and its colon.  The tests on lengths in the two loops always succeed
  (\<open>jvalue_shorter\<close>); they make the recursion evidently end.
\<close>

definition member_head :: "gostring \<Rightarrow> (gostring \<times> gostring) option" where
  "member_head s =
     (case expect CHR 0x22 s of
        None \<Rightarrow> None
      | Some r \<Rightarrow> (case str_lit r of
          None \<Rightarrow> None
        | Some (k, t) \<Rightarrow> (case expect CHR '':'' (skip_ws t) of
            None \<Rightarrow> None
          | Some u \<Rightarrow> Some (k, skip_ws u))))"

lemma skip_ws_length: "length (skip_ws s) \<le> length s"
  by (simp add: skip_ws_def length_dropWhile_le)

lemma expect_Cons [simp]: "expect c (x # r) = (if x = c then Some r else None)" "expect c [] = None"
  by (simp_all add: expect_def)

lemma expect_Some [simp]: "expect c s = Some r \<longleftrightarrow> s = c # r"
  by (cases s) (auto simp: expect_def)

lemma str_lit_shorter: "str_lit s = Some (x, r) \<Longrightarrow> length r < length s"
proof (induction s arbitrary: x rule: str_lit.induct)
  case (2 c s)
  then show ?case
    by (fastforce split: if_splits list.splits option.splits)
qed simp

lemma member_head_shorter: "member_head s = Some (k, t) \<Longrightarrow> length t < length s"
proof -
  assume "member_head s = Some (k, t)"
  then obtain r u v where s: "s = CHR 0x22 # r" and u: "str_lit r = Some (k, u)"
    and v: "skip_ws u = CHR '':'' # v" and t: "t = skip_ws v"
    by (auto simp: member_head_def split: option.splits)
  then show ?thesis
    using str_lit_shorter [OF u] skip_ws_length [of u] skip_ws_length [of v] by simp
qed

function jvalue :: "nat \<Rightarrow> gostring \<Rightarrow> (json \<times> gostring) option"
  and jelems :: "nat \<Rightarrow> gostring \<Rightarrow> (json list \<times> gostring) option"
  and jmembers :: "nat \<Rightarrow> gostring \<Rightarrow> ((gostring \<times> gostring \<times> json) list \<times> gostring) option" where
  "jvalue d s =
     (case expect CHR ''{'' s of
        Some r \<Rightarrow>
          if d = 0 then None
          else (case expect CHR ''}'' (skip_ws r) of
                  Some t \<Rightarrow> Some (JObj [], t)
                | None \<Rightarrow> map_option (apfst (\<lambda>ms. JObj (map (apsnd snd) ms))) (jmembers (d - 1) (skip_ws r)))
      | None \<Rightarrow>
     (case expect CHR ''['' s of
        Some r \<Rightarrow>
          if d = 0 then None
          else (case expect CHR '']'' (skip_ws r) of
                  Some t \<Rightarrow> Some (JArr [], t)
                | None \<Rightarrow> map_option (apfst JArr) (jelems (d - 1) (skip_ws r)))
      | None \<Rightarrow> scalar s))"
| "jelems d s =
     (case jvalue d s of
        None \<Rightarrow> None
      | Some (v, r) \<Rightarrow>
     (case expect CHR '']'' (skip_ws r) of
        Some t \<Rightarrow> Some ([v], t)
      | None \<Rightarrow>
     (case expect CHR '','' (skip_ws r) of
        None \<Rightarrow> None
      | Some t \<Rightarrow>
          if length t < length s then map_option (apfst ((#) v)) (jelems d (skip_ws t)) else None)))"
| "jmembers d s =
     (case member_head s of
        None \<Rightarrow> None
      | Some (k, w) \<Rightarrow>
     (case jvalue d w of
        None \<Rightarrow> None
      | Some (v, r) \<Rightarrow>
     (let m = (k, take (length w - length r) w, v) in
      case expect CHR ''}'' (skip_ws r) of
        Some t \<Rightarrow> Some ([m], t)
      | None \<Rightarrow>
     (case expect CHR '','' (skip_ws r) of
        None \<Rightarrow> None
      | Some t \<Rightarrow>
          if length t < length s then map_option (apfst ((#) m)) (jmembers d (skip_ws t)) else None))))"
  by pat_completeness auto

termination
proof (relation "measure (case_sum (\<lambda>(d, s). 2 * length s) (case_sum (\<lambda>(d, s). 2 * length s + 1) (\<lambda>(d, s). 2 * length s + 1)))",
    goal_cases)
qed (use skip_ws_length member_head_shorter in \<open>fastforce simp: less_Suc_eq_le dest: le_less_trans [OF skip_ws_length]\<close>)+

declare jvalue.simps [simp del] jelems.simps [simp del] jmembers.simps [simp del]

lemma num_lit_shorter:
  assumes "num_lit s = Some (n, r)" shows "length r < length s"
proof -
  have ds: "length t < length s" if "take_digits s = Some (d, t)" for s d t
  proof -
    from that have "takeWhile is_digit s \<noteq> []" "t = dropWhile is_digit s"
      by (auto simp: take_digits_def Let_def split: if_splits)
    then show ?thesis using arg_cong [OF takeWhile_dropWhile_id [of is_digit s], of length] by (cases "takeWhile is_digit s") auto
  qed
  have sg: "length t \<le> length s" if "num_sign cs s = (x, t)" for cs s x t
    using that by (auto simp: num_sign_def split: list.splits if_splits)
  from assms obtain x a i b f c e where
    x: "num_sign ''-'' s = (x, a)" and i: "num_int a = Some (i, b)" and f: "num_frac b = Some (f, c)"
    and e: "num_exp c = Some (e, r)"
    by (auto simp: num_lit_def split: prod.splits option.splits)
  have "length b < length a" using i ds by (auto simp: num_int_def split: option.splits)
  moreover have "length c \<le> length b" using f ds by (fastforce simp: num_frac_def split: option.splits)
  moreover have "length r \<le> length c"
    using e by (auto simp: num_exp_def split: prod.splits list.splits dest!: ds sg)
  ultimately show ?thesis using sg [OF x] by simp
qed

lemma keyword_shorter: "keyword w s = Some r \<Longrightarrow> w \<noteq> [] \<Longrightarrow> length r < length s"
  by (cases s) (auto simp: keyword_def split: if_splits)

lemma scalar_shorter: "scalar s = Some (v, r) \<Longrightarrow> length r < length s"
  by (auto simp: scalar_def word_lit_def dest!: keyword_shorter dest!: str_lit_shorter num_lit_shorter split: option.splits if_splits)

lemma jvalue_shorter:
  "jvalue d s = Some (v, r) \<Longrightarrow> length r < length s"
  "jelems d s = Some (vs, r) \<Longrightarrow> length r < length s"
  "jmembers d s = Some (ms, r) \<Longrightarrow> length r < length s"
proof (induction d s and d s and d s arbitrary: v r and vs r and ms r rule: jvalue_jelems_jmembers.induct)
  case (1 d s)
  consider u where "s = CHR ''{'' # u" | u where "s = CHR ''['' # u"
    | "expect CHR ''{'' s = None" "expect CHR ''['' s = None"
    by (cases "expect CHR ''{'' s"; cases "expect CHR ''['' s") auto
  then show ?case
  proof cases
    case (1 u)
    have "d \<noteq> 0" using "1.prems" 1 by (auto simp: jvalue.simps [of d "CHR ''{'' # u"] split: if_splits)
    with "1.prems" 1 consider "skip_ws u = CHR ''}'' # r"
      | ms where "expect CHR ''}'' (skip_ws u) = None" "jmembers (d - 1) (skip_ws u) = Some (ms, r)"
      by (auto simp: jvalue.simps [of d "CHR ''{'' # u"] split: option.splits)
    then have "length r < length (skip_ws u)"
    proof cases
      case 2
      then show ?thesis using "1.IH"(2) [of u ms r] 1 \<open>d \<noteq> 0\<close> by simp
    qed simp
    with skip_ws_length [of u] 1 show ?thesis by simp
  next
    case (2 u)
    have "d \<noteq> 0" using "1.prems" 2 by (auto simp: jvalue.simps [of d "CHR ''['' # u"] split: if_splits)
    with "1.prems" 2 consider "skip_ws u = CHR '']'' # r"
      | vs where "expect CHR '']'' (skip_ws u) = None" "jelems (d - 1) (skip_ws u) = Some (vs, r)"
      by (auto simp: jvalue.simps [of d "CHR ''['' # u"] split: option.splits)
    then have "length r < length (skip_ws u)"
    proof cases
      case 2
      then show ?thesis using "1.IH"(1) [of u vs r] \<open>s = _\<close> \<open>d \<noteq> 0\<close> by simp
    qed simp
    with skip_ws_length [of u] 2 show ?thesis by simp
  next
    case 3
    with "1.prems" scalar_shorter show ?thesis by (simp add: jvalue.simps [of d s])
  qed
next
  case (2 d s)
  then obtain v u where v: "jvalue d s = Some (v, u)" by (auto simp: jelems.simps [of d s] split: option.splits)
  have u: "length (skip_ws u) < length s" using "2.IH"(1) [OF v] skip_ws_length [of u] by simp
  from "2.prems" v consider "skip_ws u = CHR '']'' # r"
    | t ws where "skip_ws u = CHR '','' # t" "jelems d (skip_ws t) = Some (ws, r)"
    by (auto simp: jelems.simps [of d s] split: option.splits if_splits)
  then show ?case
  proof cases
    case (2 t ws)
    then have "length r < length (skip_ws t)" using "2.IH"(2) [OF v refl, of t ws r] u by simp
    with skip_ws_length [of t] u 2 show ?thesis by simp
  qed (use u in simp)
next
  case (3 d s)
  then obtain k w v u where k: "member_head s = Some (k, w)" and v: "jvalue d w = Some (v, u)"
    by (auto simp: jmembers.simps [of d s] split: option.splits)
  have u: "length (skip_ws u) < length s"
    using "3.IH"(1) [OF k refl v] skip_ws_length [of u] member_head_shorter [OF k] by simp
  from "3.prems" k v consider "skip_ws u = CHR ''}'' # r"
    | t ms' where "skip_ws u = CHR '','' # t" "jmembers d (skip_ws t) = Some (ms', r)"
    by (auto simp: jmembers.simps [of d s] Let_def split: option.splits if_splits)
  then show ?case
  proof cases
    case (2 t ms')
    then have "length r < length (skip_ws t)" using "3.IH"(2) [OF k refl v refl refl, of t ms' r] u by simp
    with skip_ws_length [of t] u 2 show ?thesis by simp
  qed (use u in simp)
qed

text \<open>\<open>json.Unmarshal\<close> takes the whole text; a \<open>json.Decoder\<close> takes the first value and leaves the rest.\<close>

definition max_depth :: nat where
  "max_depth = 10000"

definition json_first :: "gostring \<Rightarrow> json option" where
  "json_first s = map_option fst (jvalue max_depth (skip_ws s))"

definition json_parse :: "gostring \<Rightarrow> json option" where
  "json_parse s = (case jvalue max_depth (skip_ws s) of
      None \<Rightarrow> None
    | Some (v, r) \<Rightarrow> if skip_ws r = [] then Some v else None)"

text \<open>The members of an object with the raw text of their values (\<open>json.RawMessage\<close>).\<close>

definition json_members :: "gostring \<Rightarrow> (gostring \<times> gostring \<times> json) list option" where
  "json_members s =
     (case expect CHR ''{'' (skip_ws s) of
        None \<Rightarrow> None
      | Some r \<Rightarrow>
     (case expect CHR ''}'' (skip_ws r) of
        Some t \<Rightarrow> if skip_ws t = [] then Some [] else None
      | None \<Rightarrow>
     (case jmembers (max_depth - 1) (skip_ws r) of
        None \<Rightarrow> None
      | Some (ms, t) \<Rightarrow> if skip_ws t = [] then Some ms else None)))"

section \<open>Reading back what was printed\<close>

primrec json_depth :: "json \<Rightarrow> nat" where
  "json_depth JNull = 0"
| "json_depth (JBool b) = 0"
| "json_depth (JNum n) = 0"
| "json_depth (JStr s) = 0"
| "json_depth (JArr xs) = Suc (fold max (map json_depth xs) 0)"
| "json_depth (JObj fs) = Suc (fold max (map snd (map (map_prod id json_depth) fs)) 0)"

definition json_number :: "gostring \<Rightarrow> bool" where
  "json_number n \<longleftrightarrow> num_lit n = Some (n, [])"

primrec json_wf :: "json \<Rightarrow> bool" where
  "json_wf JNull \<longleftrightarrow> True"
| "json_wf (JBool b) \<longleftrightarrow> True"
| "json_wf (JNum n) \<longleftrightarrow> json_number n"
| "json_wf (JStr s) \<longleftrightarrow> True"
| "json_wf (JArr xs) \<longleftrightarrow> list_all (\<lambda>b. b) (map json_wf xs)"
| "json_wf (JObj fs) \<longleftrightarrow> list_all snd (map (map_prod id json_wf) fs)"

subsection \<open>Strings\<close>

lemma hex_val_char: "n < 16 \<Longrightarrow> hex_val (hex_char n) = Some n"
proof -
  assume "n < 16"
  then have "n \<in> set [0..<16]" by simp
  moreover have "\<forall>n\<in>set [0..<16]. hex_val (hex_char n) = Some n" by code_simp
  ultimately show ?thesis by blast
qed

lemma hex4_low: "n < 256 \<Longrightarrow> hex4 (CHR ''0'' # CHR ''0'' # hex_char (n div 16) # hex_char (n mod 16) # r) = Some n"
proof -
  assume "n < 256"
  moreover have "hex_val CHR ''0'' = Some 0" by code_simp
  ultimately show ?thesis
    using hex_val_char [of "n div 16"] hex_val_char [of "n mod 16"] by (simp add: hex4_def)
qed

lemma str_lit_u [simp]:
  "str_lit (CHR 0x5C # CHR ''u'' # r) = (case unicode_escape r of
     None \<Rightarrow> None | Some (x, n) \<Rightarrow> map_option (apfst ((@) x)) (str_lit (drop n r)))"
  by simp

lemma str_lit_short [simp]:
  "unescape e = Some x \<Longrightarrow> str_lit (CHR 0x5C # e # r) = map_option (apfst ((#) x)) (str_lit r)"
  by (cases "e = CHR ''u''") (simp_all add: unescape_def)

lemma str_lit_plain:
  assumes "c \<noteq> CHR 0x22" "c \<noteq> CHR 0x5C" "\<not> of_char c < (32 :: nat)"
  shows "str_lit (c # r) = map_option (apfst ((#) c)) (str_lit r)"
  using assms by simp

lemma str_lit_close [simp]: "str_lit (CHR 0x22 # r) = Some ([], r)"
  by simp

declare str_lit.simps(2) [simp del]

lemma Cons_append [simp]: "(@) [c] = (#) c"
  by (rule ext) simp

lemma str_lit_esc_u:
  assumes "of_char c < (128 :: nat)"
  shows "str_lit (esc_u (of_char c) @ r) = map_option (apfst ((#) c)) (str_lit r)"
proof -
  have "utf8 (of_char c) = [c]" using assms by (simp add: utf8_def)
  moreover have "hex4 (CHR ''0'' # CHR ''0'' # hex_char (of_char c div 16) # hex_char (of_char c mod 16) # r) = Some (of_char c)"
    using assms by (intro hex4_low) simp
  ultimately show ?thesis using assms by (simp add: esc_u_def unicode_escape_def)
qed

lemma esc_char_class:
  "esc_char c = esc_u (of_char c) \<and> of_char c < (128 :: nat) \<or>
   (\<exists>e. esc_char c = [CHR 0x5C, e] \<and> unescape e = Some c) \<or>
   esc_char c = [c] \<and> c \<noteq> CHR 0x22 \<and> c \<noteq> CHR 0x5C \<and> \<not> of_char c < (32 :: nat)"
  by (simp add: esc_char_def unescape_def)

lemma str_lit_esc_char: "str_lit (esc_char c @ r) = map_option (apfst ((#) c)) (str_lit r)"
  using esc_char_class [of c] by (elim disjE conjE exE) (simp_all add: str_lit_esc_u str_lit_plain)

lemma hex_digits:
  "hex_val CHR ''2'' = Some 2" "hex_val CHR ''0'' = Some 0" "hex_val CHR ''8'' = Some 8" "hex_val CHR ''9'' = Some 9"
  by code_simp+

lemma utf8_seps: "utf8 8232 = [CHR 0xE2, CHR 0x80, CHR 0xA8]" "utf8 8233 = [CHR 0xE2, CHR 0x80, CHR 0xA9]"
  by (simp_all add: utf8_def char_of_eq_iff)

lemma unicode_sep:
  "unicode_escape (CHR ''2'' # CHR ''0'' # CHR ''2'' # CHR ''8'' # r) = Some ([CHR 0xE2, CHR 0x80, CHR 0xA8], 4)"
  "unicode_escape (CHR ''2'' # CHR ''0'' # CHR ''2'' # CHR ''9'' # r) = Some ([CHR 0xE2, CHR 0x80, CHR 0xA9], 4)"
  by (simp_all add: unicode_escape_def hex4_def hex_digits utf8_seps)

lemma str_lit_sep:
  assumes "c = CHR 0xA8 \<or> c = CHR 0xA9"
  shows "str_lit ([CHR 0x5C, CHR ''u'', CHR ''2'', CHR ''0'', CHR ''2'', if c = CHR 0xA8 then CHR ''8'' else CHR ''9''] @ r) =
    map_option (apfst ((@) [CHR 0xE2, CHR 0x80, c])) (str_lit r)"
  using assms by (elim disjE) (simp_all add: unicode_sep)

lemma str_lit_escape: "str_lit (json_escape s @ CHR 0x22 # r) = Some (s, r)"
proof (induction s rule: json_escape.induct)
  case (2 c s)
  show ?case
  proof (cases "line_sep (c # s)")
    case True
    then obtain x u where s: "c # s = CHR 0xE2 # CHR 0x80 # x # u" and x: "x = CHR 0xA8 \<or> x = CHR 0xA9"
      by (auto simp: line_sep_iff)
    with 2(1) [OF True] have "str_lit (json_escape u @ CHR 0x22 # r) = Some (u, r)" by simp
    moreover have "json_escape (c # s) = [CHR 0x5C, CHR ''u'', CHR ''2'', CHR ''0'', CHR ''2'',
        if x = CHR 0xA8 then CHR ''8'' else CHR ''9''] @ json_escape u"
      unfolding s using x by (rule json_escape_sep)
    ultimately show ?thesis using str_lit_sep [OF x, of "json_escape u @ CHR 0x22 # r"] by (simp add: s)
  next
    case False
    with 2(2) [OF False] show ?thesis by (simp add: str_lit_esc_char)
  qed
qed simp

subsection \<open>Numbers\<close>

lemma delim_take_digits:
  assumes "take_digits s = Some (ds, t)" "delim r"
  shows "take_digits (s @ r) = Some (ds, t @ r)"
proof -
  have r: "takeWhile is_digit r = []" "dropWhile is_digit r = r"
    using delim_not_num [OF assms(2)] by (cases r; simp add: num_char_def)+
  have ds: "ds = takeWhile is_digit s" "ds \<noteq> []" "t = dropWhile is_digit s"
    using assms(1) by (auto simp: take_digits_def Let_def split: if_splits)
  show ?thesis
  proof (cases "list_all is_digit s")
    case True
    with ds r show ?thesis by (simp add: take_digits_def Let_def list_all_iff takeWhile_append2 dropWhile_append2)
        (metis takeWhile.simps(1) takeWhile_eq_all_conv)
  next
    case False
    then obtain c where c: "c \<in> set s" "\<not> is_digit c" by (auto simp: list_all_iff)
    with ds show ?thesis
      by (simp add: take_digits_def Let_def takeWhile_append1 [where x = c] dropWhile_append1 [where x = c])
  qed
qed

lemma delim_expect:
  assumes "delim r" "c \<notin> {CHR '','', CHR '']'', CHR ''}''}"
  shows "expect c (s @ r) = (case expect c s of None \<Rightarrow> None | Some t \<Rightarrow> Some (t @ r))"
  using assms by (cases s; cases r) (auto simp: expect_def)

lemma delim_sign:
  assumes "delim r" "set cs \<inter> {CHR '','', CHR '']'', CHR ''}''} = {}"
  shows "num_sign cs (s @ r) = apsnd (\<lambda>t. t @ r) (num_sign cs s)"
  using assms by (cases s; cases r) (auto simp: num_sign_def)

lemma num_lit_append:
  assumes "num_lit s = Some (n, t)" and r: "delim r"
  shows "num_lit (s @ r) = Some (n, t @ r)"
proof -
  from assms(1) obtain sg a i b f c e where
    sg: "num_sign ''-'' s = (sg, a)" and i: "num_int a = Some (i, b)" and f: "num_frac b = Some (f, c)"
    and e: "num_exp c = Some (e, t)" and n: "n = sg @ i @ f @ e"
    by (auto simp: num_lit_def split: prod.splits option.splits)
  have "num_sign ''-'' (s @ r) = (sg, a @ r)" using r sg by (simp add: delim_sign)
  moreover have "num_int (a @ r) = Some (i, b @ r)"
    using i r by (auto simp: num_int_def delim_expect delim_take_digits split: option.splits)
  moreover have "num_frac (b @ r) = Some (f, c @ r)"
    using f r by (auto simp: num_frac_def delim_expect delim_take_digits split: option.splits)
  moreover have "num_exp (c @ r) = Some (e, t @ r)"
    using e r by (auto simp: num_exp_def delim_sign delim_take_digits split: prod.splits list.splits)
  ultimately show ?thesis by (simp add: num_lit_def n)
qed

lemma num_lit_literal:
  assumes "num_lit s = Some (n, t)"
  shows "num_literal n"
proof -
  have ds: "list_all num_char ds \<and> ds \<noteq> [] \<and> num_start (hd ds)" if "take_digits s = Some (ds, t)" for s ds t
    using that set_takeWhileD [of _ is_digit s]
    by (auto simp: take_digits_def Let_def list_all_iff num_char_def num_start_def split: if_splits)
  from assms obtain sg a i b f c e where
    sg: "num_sign ''-'' s = (sg, a)" and i: "num_int a = Some (i, b)" and f: "num_frac b = Some (f, c)"
    and e: "num_exp c = Some (e, t)" and n: "n = sg @ i @ f @ e"
    by (auto simp: num_lit_def split: prod.splits option.splits)
  have "sg = [] \<or> sg = ''-''" using sg by (auto simp: num_sign_def split: list.splits if_splits)
  moreover have "list_all num_char i \<and> i \<noteq> [] \<and> num_start (hd i)"
    using i ds by (auto simp: num_int_def num_char_def num_start_def is_digit_def split: option.splits)
  moreover have "list_all num_char f"
    using f ds by (auto simp: num_frac_def num_char_def split: option.splits)
  moreover have "list_all num_char e"
    using e ds by (auto simp: num_exp_def num_sign_def num_char_def split: option.splits prod.splits list.splits if_splits)
  ultimately show ?thesis by (auto simp: n num_literal_def num_char_def num_start_def)
qed

lemma json_wf_ok: "json_wf j \<Longrightarrow> json_ok j"
proof (induction j)
  case (JNum n)
  then show ?case using num_lit_literal [of n n "[]"] by (simp add: json_number_def)
next
  case (JArr xs)
  then show ?case by (auto simp: list_all_iff)
next
  case (JObj fs)
  then show ?case unfolding json_ok_Obj by (fastforce simp: list_all_iff)
qed simp_all

subsection \<open>Values\<close>

lemma fold_max_le: "fold max ns m \<le> d \<longleftrightarrow> m \<le> d \<and> (\<forall>n\<in>set ns. n \<le> (d :: nat))"
  by (induction ns arbitrary: m) auto

lemma text_no_ws:
  assumes "json_ok j"
  shows "skip_ws (json_text j @ r) = json_text j @ r"
proof -
  have "head_kind c = 7" if "json_ws c" for c
    using that by (auto simp: json_ws_def head_kind_def num_start_def is_digit_def)
  moreover have "json_kind j < 7" by (cases j) (simp_all add: json_kind_def)
  ultimately show ?thesis
    using json_text_head [OF assms] by (cases "json_text j") (auto simp: skip_ws_def)
qed

lemma delim_no_ws: "delim r \<Longrightarrow> skip_ws r = r"
  by (cases r) (auto simp: skip_ws_def json_ws_def)

lemma scalar_text:
  assumes "json_wf j" "json_kind j < 5" "delim r"
  shows "scalar (json_text j @ r) = Some (j, r)"
proof (cases j)
  case (JNum n)
  have n: "num_literal n" and "num_lit (n @ r) = Some (n, r)"
    using assms num_lit_literal [of n n "[]"] num_lit_append [of n n "[]" r] by (simp_all add: JNum json_number_def)
  moreover have "expect CHR 0x22 (n @ r) = None" "word_lit (n @ r) = None"
    using n by (cases n; force simp: num_literal_def num_start_def is_digit_def word_lit_def keyword_def)+
  ultimately show ?thesis by (simp add: JNum scalar_def)
qed (use assms in \<open>simp_all add: scalar_def word_lit_def keyword_def json_quote_def json_kind_def str_lit_escape\<close>)

lemma jvalue_scalar:
  assumes "json_ok j" "json_kind j < 5"
  shows "jvalue d (json_text j @ r) = scalar (json_text j @ r)"
proof -
  have "hd (json_text j) \<noteq> CHR ''{''" "hd (json_text j) \<noteq> CHR ''[''" and ne: "json_text j \<noteq> []"
    using json_text_head [OF assms(1)] assms(2) by (auto simp: head_kind_def)
  then have "expect CHR ''{'' (json_text j @ r) = None" "expect CHR ''['' (json_text j @ r) = None"
    by (cases "json_text j"; simp)+
  then show ?thesis by (simp add: jvalue.simps)
qed

lemma ws_Cons [simp]:
  "skip_ws (CHR '','' # t) = CHR '','' # t" "skip_ws (CHR '']'' # t) = CHR '']'' # t"
  "skip_ws (CHR ''}'' # t) = CHR ''}'' # t" "skip_ws (CHR '':'' # t) = CHR '':'' # t"
  "skip_ws (CHR 0x22 # t) = CHR 0x22 # t" "skip_ws (CHR ''{'' # t) = CHR ''{'' # t"
  by (simp_all add: skip_ws_def json_ws_def)

lemma jvalue_scalar_text:
  "json_wf j \<Longrightarrow> json_kind j < 5 \<Longrightarrow> delim r \<Longrightarrow> jvalue d (json_text j @ r) = Some (j, r)"
  using jvalue_scalar [of j d r] scalar_text [of j r] json_wf_ok [of j] by simp

lemma jelems_step:
  "jvalue d s = Some (v, CHR '']'' # t) \<Longrightarrow> jelems d s = Some ([v], t)"
  "jvalue d s = Some (v, CHR '','' # t) \<Longrightarrow> length t < length s \<Longrightarrow>
     jelems d s = map_option (apfst ((#) v)) (jelems d (skip_ws t))"
  by (simp_all add: jelems.simps [of d s])

lemma jmembers_step:
  "member_head s = Some (k, w) \<Longrightarrow> jvalue d w = Some (v, CHR ''}'' # t) \<Longrightarrow>
     jmembers d s = Some ([(k, take (length w - Suc (length t)) w, v)], t)"
  "member_head s = Some (k, w) \<Longrightarrow> jvalue d w = Some (v, CHR '','' # t) \<Longrightarrow> length t < length s \<Longrightarrow>
     jmembers d s = map_option (apfst ((#) (k, take (length w - Suc (length t)) w, v))) (jmembers d (skip_ws t))"
  by (simp_all add: jmembers.simps [of d s])

lemma jelems_text:
  assumes "xs \<noteq> []" "\<forall>x\<in>set xs. json_ok x"
    and "\<And>x r. x \<in> set xs \<Longrightarrow> delim r \<Longrightarrow> jvalue d (json_text x @ r) = Some (x, r)"
  shows "jelems d (commas (map json_text xs) @ CHR '']'' # r) = Some (xs, r)"
  using assms
proof (induction xs)
  case (Cons x xs)
  show ?case
  proof (cases "xs = []")
    case True
    then show ?thesis using Cons.prems(3) [of x "CHR '']'' # r"] by (simp add: jelems_step)
  next
    case False
    define s where "s = commas (map json_text xs) @ CHR '']'' # r"
    have ws: "skip_ws s = s"
      using False Cons.prems(2) by (cases xs) (simp_all add: s_def commas_Cons text_no_ws)
    have "jvalue d (json_text x @ CHR '','' # s) = Some (x, CHR '','' # s)"
      by (rule Cons.prems(3)) simp_all
    from jelems_step(2) [OF this] have "jelems d (json_text x @ CHR '','' # s) = map_option (apfst ((#) x)) (jelems d s)"
      by (simp add: ws)
    moreover have "jelems d s = Some (xs, r)"
      unfolding s_def by (rule Cons.IH [OF False]) (use Cons.prems(2,3) in auto)
    ultimately show ?thesis using False by (simp add: commas_Cons s_def)
  qed
qed simp

lemma member_head_text:
  "json_ok v \<Longrightarrow> member_head (json_quote k @ CHR '':'' # json_text v @ r) = Some (k, json_text v @ r)"
  by (simp add: member_head_def json_quote_def str_lit_escape text_no_ws)

definition member_text :: "gostring \<times> json \<Rightarrow> gostring" where
  "member_text p = json_quote (fst p) @ CHR '':'' # json_text (snd p)"

lemma json_text_Obj: "json_text (JObj fs) = CHR ''{'' # commas (map member_text fs) @ ''}''"
  by (simp add: member_text_def [abs_def] map_prod_def comp_def case_prod_beta)

lemma member_text_ws: "skip_ws (member_text p @ r) = member_text p @ r"
  by (simp add: member_text_def json_quote_def)

definition with_raw :: "gostring \<times> json \<Rightarrow> gostring \<times> gostring \<times> json" where
  "with_raw p = (fst p, json_text (snd p), snd p)"

lemma jmembers_text:
  assumes "fs \<noteq> []" "\<forall>p\<in>set fs. json_ok (snd p)"
    and "\<And>p r. p \<in> set fs \<Longrightarrow> delim r \<Longrightarrow> jvalue d (json_text (snd p) @ r) = Some (snd p, r)"
  shows "jmembers d (commas (map member_text fs) @ CHR ''}'' # r) = Some (map with_raw fs, r)"
  using assms
proof (induction fs)
  case (Cons p fs)
  have head: "member_head (member_text p @ u) = Some (fst p, json_text (snd p) @ u)" for u
    using Cons.prems(2) by (simp add: member_text_def member_head_text)
  show ?case
  proof (cases "fs = []")
    case True
    then show ?thesis
      using jmembers_step(1) [OF head] Cons.prems(3) [of p "CHR ''}'' # r"] by (simp add: with_raw_def)
  next
    case False
    define s where "s = commas (map member_text fs) @ CHR ''}'' # r"
    have ws: "skip_ws s = s"
      using False by (cases fs) (simp_all add: s_def commas_Cons member_text_ws)
    have "jvalue d (json_text (snd p) @ CHR '','' # s) = Some (snd p, CHR '','' # s)"
      by (rule Cons.prems(3)) simp_all
    from jmembers_step(2) [OF head this]
    have "jmembers d (member_text p @ CHR '','' # s) = map_option (apfst ((#) (with_raw p))) (jmembers d s)"
      by (simp add: ws with_raw_def)
    moreover have "jmembers d s = Some (map with_raw fs, r)"
      unfolding s_def by (rule Cons.IH [OF False]) (use Cons.prems(2,3) in auto)
    ultimately show ?thesis using False by (simp add: commas_Cons s_def)
  qed
qed simp

lemma jvalue_step:
  "d \<noteq> 0 \<Longrightarrow> skip_ws s = s \<Longrightarrow> expect CHR '']'' s = None \<Longrightarrow> jelems (d - 1) s = Some (xs, r) \<Longrightarrow>
     jvalue d (CHR ''['' # s) = Some (JArr xs, r)"
  "d \<noteq> 0 \<Longrightarrow> skip_ws s = s \<Longrightarrow> expect CHR ''}'' s = None \<Longrightarrow> jmembers (d - 1) s = Some (ms, r) \<Longrightarrow>
     jvalue d (CHR ''{'' # s) = Some (JObj (map (apsnd snd) ms), r)"
  by (simp_all add: jvalue.simps)

lemma json_depth_le:
  "json_depth (JArr xs) \<le> d \<Longrightarrow> x \<in> set xs \<Longrightarrow> json_depth x \<le> d - 1"
  "json_depth (JObj fs) \<le> d \<Longrightarrow> p \<in> set fs \<Longrightarrow> json_depth (snd p) \<le> d - 1"
  by (cases d; auto simp: fold_max_le)+

lemma jvalue_text:
  "json_wf j \<Longrightarrow> json_depth j \<le> d \<Longrightarrow> delim r \<Longrightarrow> jvalue d (json_text j @ r) = Some (j, r)"
proof (induction j arbitrary: d r)
  case (JArr xs)
  have ok: "\<forall>x\<in>set xs. json_ok x" using JArr.prems(1) json_wf_ok by (auto simp: list_all_iff)
  have d: "d \<noteq> 0" using JArr.prems(2) by auto
  show ?case
  proof (cases "xs = []")
    case True
    then show ?thesis using d by (simp add: jvalue.simps)
  next
    case False
    define s where "s = commas (map json_text xs) @ CHR '']'' # r"
    obtain y ys where y: "xs = y # ys" using False by (cases xs) auto
    have "skip_ws s = s" "expect CHR '']'' s = None"
      using ok y text_no_ws [of y] json_text_not_close [of y "CHR '']''"]
      by (auto simp: s_def commas_Cons expect_def split: list.splits)
    moreover have "jelems (d - 1) s = Some (xs, r)"
      unfolding s_def
    proof (rule jelems_text [OF False ok])
      show "jvalue (d - 1) (json_text x @ u) = Some (x, u)" if "x \<in> set xs" "delim u" for x u
        using JArr.IH [OF that(1) _ _ that(2)] JArr.prems(1) json_depth_le(1) [OF JArr.prems(2) that(1)] that(1)
        by (simp add: list_all_iff)
    qed
    ultimately show ?thesis using jvalue_step(1) [OF d, of s xs r] by (simp add: s_def)
  qed
next
  case (JObj fs)
  have ok: "\<forall>p\<in>set fs. json_ok (snd p)" using JObj.prems(1) json_wf_ok by (auto simp: list_all_iff)
  have d: "d \<noteq> 0" using JObj.prems(2) by auto
  show ?case
  proof (cases "fs = []")
    case True
    then show ?thesis using d by (simp add: jvalue.simps)
  next
    case False
    define s where "s = commas (map member_text fs) @ CHR ''}'' # r"
    obtain y ys where y: "fs = y # ys" using False by (cases fs) auto
    have "skip_ws s = s" "expect CHR ''}'' s = None"
      by (simp_all add: s_def y commas_Cons member_text_ws) (simp add: member_text_def json_quote_def)
    moreover have "jmembers (d - 1) s = Some (map with_raw fs, r)"
      unfolding s_def
    proof (rule jmembers_text [OF False ok])
      show "jvalue (d - 1) (json_text (snd p) @ u) = Some (snd p, u)" if "p \<in> set fs" "delim u" for p u
        using JObj.IH [OF that(1) _ _ _ that(2)] JObj.prems(1) json_depth_le(2) [OF JObj.prems(2) that(1)] that(1)
        by (auto simp: list_all_iff snds.simps)
    qed
    moreover have "map (apsnd snd) (map with_raw fs) = fs" by (simp add: with_raw_def comp_def apsnd_def)
    ultimately show ?thesis using jvalue_step(2) [OF d, of s "map with_raw fs" r]
      by (simp add: json_text_Obj s_def del: json_text.simps(6))
  qed
qed (rule jvalue_scalar_text; simp add: json_kind_def)+

lemma json_parse_text: "json_wf j \<Longrightarrow> json_depth j \<le> max_depth \<Longrightarrow> json_parse (json_text j) = Some j"
  using jvalue_text [of j max_depth "[]"] text_no_ws [of j "[]"] json_wf_ok [of j]
  by (simp add: json_parse_def delim_def skip_ws_def)

lemma json_first_text: "json_wf j \<Longrightarrow> json_depth j \<le> max_depth \<Longrightarrow> json_first (json_text j) = Some j"
  using jvalue_text [of j max_depth "[]"] text_no_ws [of j "[]"] json_wf_ok [of j]
  by (simp add: json_first_def delim_def)

lemma json_members_text:
  assumes "json_wf (JObj fs)" "json_depth (JObj fs) \<le> max_depth"
  shows "json_members (json_text (JObj fs)) = Some (map with_raw fs)"
proof (cases fs)
  case Nil
  then show ?thesis by (simp add: json_members_def) (simp add: skip_ws_def)
next
  case (Cons p ps)
  have "jmembers (max_depth - 1) (commas (map member_text fs) @ ''}'') = Some (map with_raw fs, [])"
  proof (rule jmembers_text)
    show "jvalue (max_depth - 1) (json_text (snd q) @ u) = Some (snd q, u)" if "q \<in> set fs" "delim u" for q u
      by (rule jvalue_text) (use assms json_depth_le(2) [OF assms(2) that(1)] that in \<open>auto simp: list_all_iff\<close>)
  qed (use Cons assms json_wf_ok in \<open>auto simp: list_all_iff\<close>)
  moreover have "skip_ws (commas (map member_text fs) @ ''}'') = commas (map member_text fs) @ ''}''"
    by (simp add: Cons commas_Cons member_text_ws)
  moreover have "expect CHR ''}'' (commas (map member_text fs) @ ''}'') = None"
    by (simp add: Cons commas_Cons) (simp add: member_text_def json_quote_def)
  ultimately show ?thesis
    by (simp add: json_text_Obj json_members_def skip_ws_def [of "[]"] del: json_text.simps(6))
qed

end
