(* ===== verification/Executor.thy ===== *)
theory Executor
  imports ActionDispatch TrustedContext JsonParse
begin

text \<open>
  The action executor (\<open>ai-action-executor/main.go\<close> and \<open>mtls.go\<close>): the only process that changes
  objects of a Kubernetes cluster.  It accepts an execution context that the query API has signed,
  reads the target again, and applies one whitelisted operation with preconditions on the identity
  and the version of the target.

  The Kubernetes API and the credential broker are other services: what they answer to a request is
  an argument (an answer of the Kubernetes API may depend on the requests before it).  Every handler
  returns the requests it sent to Kubernetes in their order.  A handler is one step: two handlers
  interleave at the Kubernetes API only, which is why a write carries preconditions.  The gate of
  \<open>waitForDispatchGate\<close> only delays a handler: it is modelled by itself, and \<open>dispatch_gate_ends\<close> shows
  that it always returns.  Texts of the errors of the JSON decoder are one text,
  \<open>json_error\<close>.
\<close>

section \<open>Strings\<close>

text \<open>\<open>strconv.Quote\<close>, on text whose characters above 127 are printable.\<close>

definition go_quote_char :: "char \<Rightarrow> gostring" where
  "go_quote_char c =
     (if c = CHR 0x22 \<or> c = CHR 0x5C then [CHR 0x5C, c]
      else if c = CHR 0x07 then [CHR 0x5C, CHR ''a'']
      else if c = CHR 0x08 then [CHR 0x5C, CHR ''b'']
      else if c = CHR 0x0C then [CHR 0x5C, CHR ''f'']
      else if c = CHR 0x0A then [CHR 0x5C, CHR ''n'']
      else if c = CHR 0x0D then [CHR 0x5C, CHR ''r'']
      else if c = CHR 0x09 then [CHR 0x5C, CHR ''t'']
      else if c = CHR 0x0B then [CHR 0x5C, CHR ''v'']
      else if of_char c < (32 :: nat) \<or> c = CHR 0x7F
      then [CHR 0x5C, CHR ''x'', hex_char (of_char c div 16), hex_char (of_char c mod 16)]
      else [c])"

definition go_quote :: "gostring \<Rightarrow> gostring" where
  "go_quote s = CHR 0x22 # concat (map go_quote_char s) @ [CHR 0x22]"

text \<open>\<open>url.PathEscape\<close> and \<open>url.QueryEscape\<close>.\<close>

definition url_plain :: "char \<Rightarrow> bool" where
  "url_plain c \<longleftrightarrow>
     (let n = of_char c in (48 \<le> n \<and> n \<le> (57 :: nat)) \<or> (65 \<le> n \<and> n \<le> 90) \<or> (97 \<le> n \<and> n \<le> 122)) \<or> c \<in> set ''-_.~''"

definition percent :: "char \<Rightarrow> gostring" where
  "percent c = CHR 0x25 # map upper_char [hex_char (of_char c div 16), hex_char (of_char c mod 16)]"

definition PathEscape :: "gostring \<Rightarrow> gostring" where
  "PathEscape s = concat (map (\<lambda>c. if url_plain c \<or> c \<in> set ''$&+=:@'' then [c] else percent c) s)"

definition QueryEscape :: "gostring \<Rightarrow> gostring" where
  "QueryEscape s = concat (map (\<lambda>c. if url_plain c then [c] else if c = CHR '' '' then ''+'' else percent c) s)"

text \<open>\<open>strings.Replace(s, old, new, 1)\<close> for a nonempty \<open>old\<close>, and \<open>strings.TrimRight(s, "/")\<close>.\<close>

fun replace_first :: "gostring \<Rightarrow> gostring \<Rightarrow> gostring \<Rightarrow> gostring" where
  "replace_first old new [] = []"
| "replace_first old new (c # s) =
     (if take (length old) (c # s) = old then new @ drop (length old) (c # s) else c # replace_first old new s)"

definition trim_slashes :: "gostring \<Rightarrow> gostring" where
  "trim_slashes s = rev (dropWhile (\<lambda>c. c = CHR ''/'') (rev s))"

definition has_prefix :: "gostring \<Rightarrow> gostring \<Rightarrow> bool" where
  "has_prefix s p \<longleftrightarrow> take (length p) s = p"

fun hex_decode :: "gostring \<Rightarrow> gostring option" where
  "hex_decode [] = Some []"
| "hex_decode [c] = None"
| "hex_decode (a # b # s) =
     (case (hex_val a, hex_val b, hex_decode s) of
        (Some x, Some y, Some r) \<Rightarrow> Some (char_of (x * 16 + y) # r)
      | _ \<Rightarrow> None)"

definition hex_string :: "gostring \<Rightarrow> gostring" where
  "hex_string s = concat (map (\<lambda>c. [hex_char (of_char c div 16), hex_char (of_char c mod 16)]) s)"

section \<open>HTTP\<close>

record http_request =
  hq_method :: gostring
  hq_url :: gostring
  hq_body :: gostring
  hq_contentType :: gostring
  hq_ifMatch :: gostring
  hq_authorization :: gostring

datatype http_response = NetError gostring | Response int gostring gostring

datatype kube_error = KubeNotFound gostring gostring | KubeError gostring

definition kube_error_text :: "kube_error \<Rightarrow> gostring" where
  "kube_error_text e = (case e of
      KubeNotFound rt name \<Rightarrow> ''kubernetes '' @ rt @ '' '' @ go_quote name @ '' not found''
    | KubeError m \<Rightarrow> m)"

text \<open>A computation that talks to Kubernetes: the answers, the requests so far, a result and the requests.\<close>

type_synonym kube_api = "http_request list \<Rightarrow> http_request \<Rightarrow> http_response"
type_synonym 'a kube = "kube_api \<Rightarrow> http_request list \<Rightarrow> (kube_error + 'a) \<times> http_request list"

definition kret :: "'a \<Rightarrow> 'a kube" where
  "kret x = (\<lambda>api log. (Inr x, log))"

definition kfail :: "kube_error \<Rightarrow> 'a kube" where
  "kfail e = (\<lambda>api log. (Inl e, log))"

definition kbind :: "'a kube \<Rightarrow> ('a \<Rightarrow> 'b kube) \<Rightarrow> 'b kube" where
  "kbind m f = (\<lambda>api log. case m api log of (Inl e, log') \<Rightarrow> (Inl e, log') | (Inr x, log') \<Rightarrow> f x api log')"

definition ksend :: "http_request \<Rightarrow> http_response kube" where
  "ksend q = (\<lambda>api log. (Inr (api log q), log @ [q]))"

definition klift :: "gostring + 'a \<Rightarrow> 'a kube" where
  "klift r = (case r of Inl e \<Rightarrow> kfail (KubeError e) | Inr x \<Rightarrow> kret x)"

definition json_error :: gostring where
  "json_error = ''invalid JSON''"

section \<open>Data\<close>

datatype ExecutionMode = ModeDisabled | ModeManual | ModeApproved

text \<open>The execution context; \<open>target_spec\<close> stays raw text, empty when it is absent.\<close>

record executor_context =
  xc_ActionID :: gostring
  xc_ActionHash :: gostring
  xc_ApprovalID :: gostring
  xc_TargetUID :: gostring
  xc_TargetName :: gostring
  xc_ResourceVersion :: gostring
  xc_ClusterID :: gostring
  xc_ResourceType :: gostring
  xc_Namespace :: gostring
  xc_Operation :: gostring
  xc_TargetSpec :: gostring
  xc_CredentialRef :: gostring
  xc_ApprovedAt :: gostring
  xc_ExecutedBy :: gostring

record ReconcileRequest =
  rr_ActionID :: gostring
  rr_ActionHash :: gostring
  rr_ClusterID :: gostring
  rr_TargetUID :: gostring
  rr_TargetName :: gostring
  rr_ResourceVersion :: gostring
  rr_Namespace :: gostring
  rr_ResourceType :: gostring
  rr_Operation :: gostring
  rr_TargetSpec :: gostring
  rr_CredentialRef :: gostring

record reconcileObserved =
  ob_UID :: gostring
  ob_ResourceVersion :: gostring
  ob_Replicas :: int
  ob_Annotations :: "(gostring \<times> gostring) list option"
  ob_Unschedulable :: bool
  ob_PodsRemaining :: nat

definition zero_observed :: reconcileObserved where
  "zero_observed = \<lparr>ob_UID = [], ob_ResourceVersion = [], ob_Replicas = 0, ob_Annotations = None,
     ob_Unschedulable = False, ob_PodsRemaining = 0\<rparr>"

record server =
  sv_mode :: ExecutionMode
  sv_token :: gostring
  sv_brokerToken :: gostring
  sv_results :: "gostring \<Rightarrow> ActionResult option"
  sv_credBrokerURL :: gostring
  sv_verifyKeyB64 :: gostring
  sv_k8sEnabled :: bool
  sv_k8sToken :: gostring
  sv_k8sHost :: gostring
  sv_dispatchGateActionID :: gostring
  sv_dispatchGateFile :: gostring
  sv_dropResponse :: "gostring option"

text \<open>A request to the executor, with the outcome of reading its body and of the TLS handshake.\<close>

record exec_request =
  er_path :: gostring
  er_body :: "gostring option"
  er_signature :: gostring
  er_token :: gostring
  er_verified :: bool

datatype exec_reply = TextReply int gostring | JsonReply int ActionResult | Dropped

record exec_env =
  xe_jws :: jws_env
  xe_kube :: kube_api
  xe_broker :: "http_request \<Rightarrow> http_response"
  xe_now :: millis

section \<open>Decoding\<close>

text \<open>Members are matched with fields without regard to case; a later member overwrites an earlier one.\<close>

fun dec_members :: "(gostring \<Rightarrow> json \<Rightarrow> 'a \<Rightarrow> 'a option) \<Rightarrow> (gostring \<times> json) list \<Rightarrow> 'a \<Rightarrow> 'a option" where
  "dec_members f [] a = Some a"
| "dec_members f ((k, v) # fs) a = (case f (to_lower k) v a of None \<Rightarrow> None | Some b \<Rightarrow> dec_members f fs b)"

definition dec_struct :: "(gostring \<Rightarrow> json \<Rightarrow> 'a \<Rightarrow> 'a option) \<Rightarrow> json \<Rightarrow> 'a \<Rightarrow> 'a option" where
  "dec_struct f j a = (case j of JNull \<Rightarrow> Some a | JObj fs \<Rightarrow> dec_members f fs a | _ \<Rightarrow> None)"

definition dec_str :: "json \<Rightarrow> gostring \<Rightarrow> gostring option" where
  "dec_str j old = (case j of JStr s \<Rightarrow> Some s | JNull \<Rightarrow> Some old | _ \<Rightarrow> None)"

definition dec_bool :: "json \<Rightarrow> bool \<Rightarrow> bool option" where
  "dec_bool j old = (case j of JBool b \<Rightarrow> Some b | JNull \<Rightarrow> Some old | _ \<Rightarrow> None)"

definition int32_lit :: "gostring \<Rightarrow> int option" where
  "int32_lit lit = (case ParseInt lit of
      None \<Rightarrow> None
    | Some v \<Rightarrow> if v < - (2 ^ 31) \<or> 2 ^ 31 \<le> v then None else Some v)"

definition dec_int32 :: "json \<Rightarrow> int \<Rightarrow> int option" where
  "dec_int32 j old = (case j of JNum lit \<Rightarrow> int32_lit lit | JNull \<Rightarrow> Some old | _ \<Rightarrow> None)"

text \<open>\<open>map[string]string\<close>: \<open>null\<close> gives the nil map, a \<open>null\<close> value the empty string.\<close>

definition dec_strmap ::
  "json \<Rightarrow> (gostring \<times> gostring) list option \<Rightarrow> (gostring \<times> gostring) list option option" where
  "dec_strmap j old = (case j of
      JNull \<Rightarrow> Some None
    | JObj fs \<Rightarrow>
        map_option Some
          (fold (\<lambda>(k, v) acc. case acc of None \<Rightarrow> None | Some m \<Rightarrow> map_option (\<lambda>s. obj_put k s m) (dec_str v []))
             fs (Some (case old of None \<Rightarrow> [] | Some m \<Rightarrow> m)))
    | _ \<Rightarrow> None)"

text \<open>A struct of strings with one raw member.\<close>

fun unmarshal_strings ::
  "gostring list \<Rightarrow> (gostring \<times> gostring \<times> json) list \<Rightarrow> (gostring \<Rightarrow> gostring) \<Rightarrow> (gostring \<Rightarrow> gostring) option" where
  "unmarshal_strings names [] f = Some f"
| "unmarshal_strings names ((k, raw, v) # ms) f =
     (if to_lower k \<in> set names
      then (case dec_str v (f (to_lower k)) of None \<Rightarrow> None | Some s \<Rightarrow> unmarshal_strings names ms (f(to_lower k := s)))
      else unmarshal_strings names ms f)"

definition last_raw :: "gostring \<Rightarrow> (gostring \<times> gostring \<times> json) list \<Rightarrow> gostring" where
  "last_raw name ms = fold (\<lambda>(k, raw, v) r. if to_lower k = name then raw else r) ms []"

definition struct_members :: "gostring \<Rightarrow> (gostring \<times> gostring \<times> json) list option" where
  "struct_members body = (case json_members body of
      Some ms \<Rightarrow> Some ms
    | None \<Rightarrow> if json_parse body = Some JNull then Some [] else None)"

definition reconcile_names :: "gostring list" where
  "reconcile_names = [''action_id'', ''action_hash'', ''cluster_id'', ''target_uid'', ''target_name'',
     ''resource_version'', ''namespace'', ''resource_type'', ''operation'', ''credential_ref'']"

definition context_names :: "gostring list" where
  "context_names = reconcile_names @ [''approval_id'', ''approved_at'', ''executed_by'']"

definition decodeContext :: "gostring \<Rightarrow> executor_context option" where
  "decodeContext body =
     (case struct_members body of
        None \<Rightarrow> None
      | Some ms \<Rightarrow> (case unmarshal_strings context_names ms (\<lambda>_. []) of
          None \<Rightarrow> None
        | Some f \<Rightarrow> Some
            \<lparr>xc_ActionID = f ''action_id'', xc_ActionHash = f ''action_hash'', xc_ApprovalID = f ''approval_id'',
             xc_TargetUID = f ''target_uid'', xc_TargetName = f ''target_name'',
             xc_ResourceVersion = f ''resource_version'', xc_ClusterID = f ''cluster_id'',
             xc_ResourceType = f ''resource_type'', xc_Namespace = f ''namespace'', xc_Operation = f ''operation'',
             xc_TargetSpec = last_raw ''target_spec'' ms, xc_CredentialRef = f ''credential_ref'',
             xc_ApprovedAt = f ''approved_at'', xc_ExecutedBy = f ''executed_by''\<rparr>))"

definition decodeReconcile :: "gostring \<Rightarrow> ReconcileRequest option" where
  "decodeReconcile body =
     (case struct_members body of
        None \<Rightarrow> None
      | Some ms \<Rightarrow> (case unmarshal_strings reconcile_names ms (\<lambda>_. []) of
          None \<Rightarrow> None
        | Some f \<Rightarrow> Some
            \<lparr>rr_ActionID = f ''action_id'', rr_ActionHash = f ''action_hash'', rr_ClusterID = f ''cluster_id'',
             rr_TargetUID = f ''target_uid'', rr_TargetName = f ''target_name'',
             rr_ResourceVersion = f ''resource_version'', rr_Namespace = f ''namespace'',
             rr_ResourceType = f ''resource_type'', rr_Operation = f ''operation'',
             rr_TargetSpec = last_raw ''target_spec'' ms, rr_CredentialRef = f ''credential_ref''\<rparr>))"

text \<open>The object that \<open>k8sReadObjectState\<close> decodes.\<close>

definition dec_metadata :: "gostring \<Rightarrow> json \<Rightarrow> reconcileObserved \<Rightarrow> reconcileObserved option" where
  "dec_metadata k v ob =
     (if k = ''uid'' then map_option (\<lambda>s. ob\<lparr>ob_UID := s\<rparr>) (dec_str v (ob_UID ob))
      else if k = ''resourceversion'' then map_option (\<lambda>s. ob\<lparr>ob_ResourceVersion := s\<rparr>) (dec_str v (ob_ResourceVersion ob))
      else if k = ''annotations'' then map_option (\<lambda>m. ob\<lparr>ob_Annotations := m\<rparr>) (dec_strmap v (ob_Annotations ob))
      else Some ob)"

definition dec_spec :: "gostring \<Rightarrow> json \<Rightarrow> reconcileObserved \<Rightarrow> reconcileObserved option" where
  "dec_spec k v ob =
     (if k = ''replicas'' then map_option (\<lambda>i. ob\<lparr>ob_Replicas := i\<rparr>) (dec_int32 v (ob_Replicas ob))
      else if k = ''unschedulable'' then map_option (\<lambda>b. ob\<lparr>ob_Unschedulable := b\<rparr>) (dec_bool v (ob_Unschedulable ob))
      else Some ob)"

definition decode_object :: "gostring \<Rightarrow> reconcileObserved option" where
  "decode_object body =
     (case json_first body of
        None \<Rightarrow> None
      | Some j \<Rightarrow> dec_struct
          (\<lambda>k v. if k = ''metadata'' then dec_struct dec_metadata v
                 else if k = ''spec'' then dec_struct dec_spec v else Some) j zero_observed)"

section \<open>Configuration\<close>

definition validateExecutionConfig :: "ExecutionMode \<Rightarrow> bool \<Rightarrow> gostring \<Rightarrow> gostring option" where
  "validateExecutionConfig mode k8sEnabled verifyKeyB64 =
     (if mode \<noteq> ModeApproved then None
      else if trim_space verifyKeyB64 = [] then Some ''EXECUTION_MODE=approved requires EXECUTOR_VERIFY_KEYS''
      else if \<not> k8sEnabled then Some ''EXECUTION_MODE=approved requires a Kubernetes mutation client''
      else None)"

text \<open>
  What the process reads at its start: environment variables (an unset one is empty) and the token
  of the service account, if its file can be read.
\<close>

record exec_environment =
  ev_EXECUTION_MODE :: gostring
  ev_EXECUTOR_TOKEN :: gostring
  ev_BROKER_TOKEN :: gostring
  ev_CREDENTIAL_BROKER_URL :: gostring
  ev_EXECUTOR_VERIFY_KEYS :: gostring
  ev_AIOPS_ENV :: gostring
  ev_AIOPS_DEPLOYMENT_MODE :: gostring
  ev_POD_SA_ACCESS :: gostring
  ev_LOCAL_VALIDATION_ENABLED :: gostring
  ev_FAULT_ACTION_ID :: gostring
  ev_DISPATCH_GATE_FILE :: gostring
  ev_DROP_RESPONSE :: gostring
  ev_KUBERNETES_SERVICE_HOST :: gostring
  ev_KUBERNETES_SERVICE_PORT :: gostring
  ev_sa_token :: "gostring option"

definition parse_mode :: "gostring \<Rightarrow> ExecutionMode option" where
  "parse_mode m =
     (if m = ''disabled'' then Some ModeDisabled else if m = ''manual'' then Some ModeManual
      else if m = ''approved'' then Some ModeApproved else None)"

definition newK8sClient :: "exec_environment \<Rightarrow> server \<Rightarrow> server" where
  "newK8sClient ev sv =
     (let host = ev_KUBERNETES_SERVICE_HOST ev in
      if host \<noteq> [] \<and> ((case ev_sa_token ev of None \<Rightarrow> False | Some t \<Rightarrow> t \<noteq> []) \<or> trim_space (sv_credBrokerURL sv) \<noteq> [])
      then sv\<lparr>sv_k8sToken := (case ev_sa_token ev of None \<Rightarrow> sv_k8sToken sv | Some t \<Rightarrow> trim_space t),
              sv_k8sHost := ''https://'' @ host @ '':'' @ or_default (ev_KUBERNETES_SERVICE_PORT ev) ''443'',
              sv_k8sEnabled := True\<rparr>
      else sv)"

definition production :: "exec_environment \<Rightarrow> bool" where
  "production ev \<longleftrightarrow> to_lower (trim_space (ev_AIOPS_ENV ev)) = ''production'' \<or>
     to_lower (trim_space (ev_AIOPS_DEPLOYMENT_MODE ev)) = ''production''"

definition production_error :: "exec_environment \<Rightarrow> ExecutionMode \<Rightarrow> server \<Rightarrow> gostring option" where
  "production_error ev mode sv =
     (if \<not> production ev then None
      else if to_lower (trim_space (ev_POD_SA_ACCESS ev)) = ''true''
      then Some ''production executor refuses long-lived POD_SA_ACCESS; use Credential Broker TokenRequest''
      else if mode = ModeApproved \<and> trim_space (sv_credBrokerURL sv) = []
      then Some ''EXECUTION_MODE=approved in production requires CREDENTIAL_BROKER_URL''
      else if mode = ModeApproved \<and> trim_space (sv_credBrokerURL sv) \<noteq> [] \<and> sv_brokerToken sv = []
      then Some ''EXECUTION_MODE=approved in production requires BROKER_TOKEN''
      else None)"

text \<open>\<open>main\<close> up to the start of the server: the text of a fatal error or the state of the server.\<close>

definition executor_main :: "exec_environment \<Rightarrow> gostring + server" where
  "executor_main ev =
     (case parse_mode (or_default (ev_EXECUTION_MODE ev) ''disabled'') of
        None \<Rightarrow> Inl (''invalid EXECUTION_MODE='' @ go_quote (ev_EXECUTION_MODE ev) @ '' (allowed: disabled|manual|approved)'')
      | Some mode \<Rightarrow>
          (let faults = (ev_LOCAL_VALIDATION_ENABLED ev = ''true'' \<and> mode \<noteq> ModeDisabled);
               sv = \<lparr>sv_mode = mode, sv_token = ev_EXECUTOR_TOKEN ev, sv_brokerToken = trim_space (ev_BROKER_TOKEN ev),
                 sv_results = (\<lambda>_. None), sv_credBrokerURL = ev_CREDENTIAL_BROKER_URL ev,
                 sv_verifyKeyB64 = ev_EXECUTOR_VERIFY_KEYS ev, sv_k8sEnabled = False, sv_k8sToken = [], sv_k8sHost = [],
                 sv_dispatchGateActionID = (if faults then trim_space (ev_FAULT_ACTION_ID ev) else []),
                 sv_dispatchGateFile = (if faults then trim_space (ev_DISPATCH_GATE_FILE ev) else []),
                 sv_dropResponse = (if faults \<and> ev_DROP_RESPONSE ev = ''true'' then Some (trim_space (ev_FAULT_ACTION_ID ev)) else None)\<rparr>
           in case production_error ev mode sv of
                Some e \<Rightarrow> Inl e
              | None \<Rightarrow>
                  (let sv' = (if mode = ModeApproved \<and> trim_space (sv_credBrokerURL sv) \<noteq> [] then newK8sClient ev sv
                              else if ev_POD_SA_ACCESS ev = ''true'' then newK8sClient ev sv else sv)
                   in case validateExecutionConfig (sv_mode sv') (sv_k8sEnabled sv') (sv_verifyKeyB64 sv') of
                        Some e \<Rightarrow> Inl (''invalid execution configuration: '' @ e)
                      | None \<Rightarrow> Inr sv')))"

section \<open>Targets\<close>

definition validateResourceScope :: "gostring \<Rightarrow> gostring \<Rightarrow> gostring option" where
  "validateResourceScope resourceType namespace =
     (let rt = to_lower (trim_space resourceType); ns = trim_space namespace in
      if rt = [] then Some ''resource_type is required''
      else if rt \<in> set [''deployment'', ''statefulset'', ''daemonset'', ''pod'']
      then (if ns = [] then Some ''namespace is required for namespaced resource'' else None)
      else if rt = ''node'' then (if ns \<noteq> [] then Some ''node must not include namespace'' else None)
      else Some (''unsupported resource_type: '' @ rt))"

definition validateCanonicalTarget :: "gostring \<Rightarrow> gostring \<Rightarrow> gostring \<Rightarrow> gostring option" where
  "validateCanonicalTarget resourceType namespace targetName =
     (case validateResourceScope resourceType namespace of
        Some e \<Rightarrow> Some e
      | None \<Rightarrow> if trim_space targetName = [] then Some ''target_name is required'' else None)"

definition k8sObjectURL :: "gostring \<Rightarrow> gostring \<Rightarrow> gostring \<Rightarrow> gostring \<Rightarrow> gostring + gostring" where
  "k8sObjectURL host resourceType namespace name =
     (let rt = to_lower (trim_space resourceType) in
      if name = [] then Inl ''target name is empty''
      else if rt \<in> set [''deployment'', ''statefulset'', ''daemonset'']
      then (if namespace = [] then Inl ''namespace is required for workload''
            else Inr (host @ ''/apis/apps/v1/namespaces/'' @ PathEscape namespace @ ''/'' @ rt @ ''s/'' @ PathEscape name))
      else if rt = ''pod''
      then (if namespace = [] then Inl ''namespace is required for pod''
            else Inr (host @ ''/api/v1/namespaces/'' @ PathEscape namespace @ ''/pods/'' @ PathEscape name))
      else if rt = ''node''
      then (if namespace \<noteq> [] then Inl ''node must not include a namespace''
            else Inr (host @ ''/api/v1/nodes/'' @ PathEscape name))
      else Inl (''unsupported resource type: '' @ rt))"

section \<open>Reading Kubernetes\<close>

definition get_request :: "server \<Rightarrow> gostring \<Rightarrow> http_request" where
  "get_request sv endpoint = \<lparr>hq_method = ''GET'', hq_url = endpoint, hq_body = [], hq_contentType = [],
     hq_ifMatch = [], hq_authorization = ''Bearer '' @ sv_k8sToken sv\<rparr>"

definition k8sReadObjectState :: "server \<Rightarrow> gostring \<Rightarrow> gostring \<Rightarrow> gostring \<Rightarrow> reconcileObserved kube" where
  "k8sReadObjectState sv resourceType namespace name =
     (if \<not> sv_k8sEnabled sv then kfail (KubeError ''k8s client not configured'')
      else kbind (klift (k8sObjectURL (sv_k8sHost sv) resourceType namespace name)) (\<lambda>endpoint.
           kbind (ksend (get_request sv endpoint)) (\<lambda>resp. case resp of
               NetError e \<Rightarrow> kfail (KubeError e)
             | Response code status body \<Rightarrow>
                 if code = 404 then kfail (KubeNotFound resourceType name)
                 else if code \<noteq> 200 then kfail (KubeError (''k8s read failed: '' @ status @ '' '' @ body))
                 else (case decode_object body of
                         None \<Rightarrow> kfail (KubeError json_error)
                       | Some ob \<Rightarrow> kret ob))))"

text \<open>The pods of a node, without mirror pods and pods of daemon sets.\<close>

record pod_item =
  pi_Name :: gostring
  pi_Namespace :: gostring
  pi_UID :: gostring
  pi_ResourceVersion :: gostring
  pi_Annotations :: "(gostring \<times> gostring) list option"
  pi_Owners :: "gostring list"

definition zero_pod :: pod_item where
  "zero_pod = \<lparr>pi_Name = [], pi_Namespace = [], pi_UID = [], pi_ResourceVersion = [], pi_Annotations = None, pi_Owners = []\<rparr>"

definition dec_list :: "(json \<Rightarrow> 'a option) \<Rightarrow> json \<Rightarrow> 'a list option" where
  "dec_list f j = (case j of JNull \<Rightarrow> Some [] | JArr xs \<Rightarrow> all_some (map f xs) | _ \<Rightarrow> None)"

definition dec_owner :: "json \<Rightarrow> gostring option" where
  "dec_owner j = dec_struct (\<lambda>k v kind. if k = ''kind'' then dec_str v kind else Some kind) j []"

definition dec_pod_metadata :: "gostring \<Rightarrow> json \<Rightarrow> pod_item \<Rightarrow> pod_item option" where
  "dec_pod_metadata k v p =
     (if k = ''name'' then map_option (\<lambda>s. p\<lparr>pi_Name := s\<rparr>) (dec_str v (pi_Name p))
      else if k = ''namespace'' then map_option (\<lambda>s. p\<lparr>pi_Namespace := s\<rparr>) (dec_str v (pi_Namespace p))
      else if k = ''uid'' then map_option (\<lambda>s. p\<lparr>pi_UID := s\<rparr>) (dec_str v (pi_UID p))
      else if k = ''resourceversion'' then map_option (\<lambda>s. p\<lparr>pi_ResourceVersion := s\<rparr>) (dec_str v (pi_ResourceVersion p))
      else if k = ''annotations'' then map_option (\<lambda>m. p\<lparr>pi_Annotations := m\<rparr>) (dec_strmap v (pi_Annotations p))
      else if k = ''ownerreferences'' then map_option (\<lambda>os. p\<lparr>pi_Owners := os\<rparr>) (dec_list dec_owner v)
      else Some p)"

definition dec_pod :: "json \<Rightarrow> pod_item option" where
  "dec_pod j = dec_struct (\<lambda>k v p. if k = ''metadata'' then dec_struct dec_pod_metadata v p else Some p) j zero_pod"

definition decode_pods :: "gostring \<Rightarrow> pod_item list option" where
  "decode_pods body =
     (case json_first body of
        None \<Rightarrow> None
      | Some j \<Rightarrow> dec_struct (\<lambda>k v ps. if k = ''items'' then dec_list dec_pod v else Some ps) j [])"

definition str_lookup :: "(gostring \<times> gostring) list option \<Rightarrow> gostring \<Rightarrow> gostring" where
  "str_lookup m k = (case m of None \<Rightarrow> [] | Some fs \<Rightarrow> (case map_of fs k of None \<Rightarrow> [] | Some v \<Rightarrow> v))"

definition evictable :: "pod_item \<Rightarrow> bool" where
  "evictable p \<longleftrightarrow> str_lookup (pi_Annotations p) ''kubernetes.io/config.mirror'' = [] \<and>
     ''DaemonSet'' \<notin> set (pi_Owners p) \<and> pi_Name p \<noteq> [] \<and> pi_Namespace p \<noteq> []"

definition pods_url :: "server \<Rightarrow> gostring \<Rightarrow> gostring" where
  "pods_url sv nodeName = sv_k8sHost sv @ ''/api/v1/pods?fieldSelector='' @ QueryEscape (''spec.nodeName='' @ nodeName)"

definition listDrainPods :: "server \<Rightarrow> gostring \<Rightarrow> pod_item list kube" where
  "listDrainPods sv nodeName =
     (if nodeName = [] then kfail (KubeError ''node name is empty'')
      else kbind (ksend (get_request sv (pods_url sv nodeName))) (\<lambda>resp. case resp of
               NetError e \<Rightarrow> kfail (KubeError e)
             | Response code status body \<Rightarrow>
                 if code \<noteq> 200 then kfail (KubeError (''k8s pod list failed: '' @ status @ '' '' @ body))
                 else (case decode_pods body of
                         None \<Rightarrow> kfail (KubeError json_error)
                       | Some ps \<Rightarrow> kret (filter evictable ps))))"

definition k8sReadDrainState :: "server \<Rightarrow> gostring \<Rightarrow> reconcileObserved kube" where
  "k8sReadDrainState sv name =
     kbind (k8sReadObjectState sv ''node'' [] name) (\<lambda>state.
     kbind (listDrainPods sv name) (\<lambda>pods. kret (state\<lparr>ob_PodsRemaining := length pods\<rparr>)))"

text \<open>\<open>readCurrentState\<close>: identity and version of the target, and whether they differ from the approved ones.\<close>

definition readCurrentState :: "server \<Rightarrow> executor_context \<Rightarrow> (gostring \<times> gostring \<times> bool) kube" where
  "readCurrentState sv ctx =
     (if sv_k8sEnabled sv
      then (case validateCanonicalTarget (xc_ResourceType ctx) (xc_Namespace ctx) (xc_TargetName ctx) of
              Some e \<Rightarrow> kfail (KubeError e)
            | None \<Rightarrow>
                if xc_TargetName ctx = [] then kfail (KubeError ''cannot resolve target name for real K8s reread'')
                else kbind (k8sReadObjectState sv (to_lower (trim_space (xc_ResourceType ctx)))
                              (trim_space (xc_Namespace ctx)) (xc_TargetName ctx)) (\<lambda>ob.
                       kret (ob_UID ob, ob_ResourceVersion ob,
                         ob_UID ob \<noteq> xc_TargetUID ctx \<or>
                         (xc_ResourceVersion ctx \<noteq> [] \<and> ob_ResourceVersion ob \<noteq> xc_ResourceVersion ctx))))
      else kret (xc_TargetUID ctx, xc_ResourceVersion ctx, False))"

section \<open>Parameters of the operations\<close>

text \<open>\<open>decodeStrictObject\<close> into a struct with one optional integer: no other member is accepted.\<close>

definition strict_int :: "gostring \<Rightarrow> gostring \<Rightarrow> int option" where
  "strict_int name raw =
     (case (if raw = [] then None else json_parse raw) of
        None \<Rightarrow> None
      | Some j \<Rightarrow>
          (case dec_struct (\<lambda>k v p. if k \<noteq> name then None
                else (case v of JNull \<Rightarrow> Some None | JNum lit \<Rightarrow> map_option Some (ParseInt lit) | _ \<Rightarrow> None)) j None of
             None \<Rightarrow> None | Some p \<Rightarrow> p))"

definition buildGracePeriod :: "executor_context \<Rightarrow> gostring + int" where
  "buildGracePeriod ctx =
     (if to_lower (trim_space (xc_Operation ctx)) \<noteq> ''delete_pod'' \<and> to_lower (trim_space (xc_Operation ctx)) \<noteq> ''evict_pod''
      then Inl ''pod deletion requires delete_pod or evict_pod''
      else (case strict_int ''grace_period_seconds'' (xc_TargetSpec ctx) of
              None \<Rightarrow> Inl ''grace_period_seconds must be an integer between 0 and 600''
            | Some v \<Rightarrow> if v < 0 \<or> 600 < v then Inl ''grace_period_seconds must be an integer between 0 and 600'' else Inr v))"

definition buildDrainTimeout :: "executor_context \<Rightarrow> gostring + int" where
  "buildDrainTimeout ctx =
     (if to_lower (trim_space (xc_ResourceType ctx)) \<noteq> ''node'' \<or> to_lower (trim_space (xc_Operation ctx)) \<noteq> ''drain''
      then Inl ''drain requires node''
      else (case strict_int ''drain_timeout'' (xc_TargetSpec ctx) of
              None \<Rightarrow> Inl ''drain_timeout must be an integer between 1 and 3600''
            | Some v \<Rightarrow> if v < 1 \<or> 3600 < v then Inl ''drain_timeout must be an integer between 1 and 3600'' else Inr v))"

definition parseResourceVersion :: "gostring \<Rightarrow> gostring + int" where
  "parseResourceVersion raw =
     (case ParseInt (trim_space raw) of
        None \<Rightarrow> Inl ''resourceVersion must be a non-negative integer''
      | Some v \<Rightarrow> if v < 0 then Inl ''resourceVersion must be a non-negative integer'' else Inr v)"

text \<open>The payloads are those of this file, objects whose \<open>metadata\<close> is absent or an object.\<close>

definition addResourceVersionPrecondition :: "gostring \<Rightarrow> gostring \<Rightarrow> gostring + gostring" where
  "addResourceVersionPrecondition payload resourceVersion =
     (if trim_space resourceVersion = [] then Inr payload
      else (case parseResourceVersion resourceVersion of
              Inl e \<Rightarrow> Inl e
            | Inr _ \<Rightarrow>
                (case json_parse payload of
                   Some (JObj fs) \<Rightarrow>
                     (case (case map_of (go_map fs) ''metadata'' of
                              None \<Rightarrow> Some [] | Some (JObj ms) \<Rightarrow> Some (go_map ms) | Some _ \<Rightarrow> None) of
                        None \<Rightarrow> Inl json_error
                      | Some md \<Rightarrow> Inr (json_text (JObj (obj_put ''metadata''
                          (JObj (obj_put ''resourceVersion'' (JStr (trim_space resourceVersion)) md)) (go_map fs)))))
                 | _ \<Rightarrow> Inl json_error)))"

definition delete_options :: "executor_context \<Rightarrow> int \<Rightarrow> int \<Rightarrow> json" where
  "delete_options ctx grace observedVersion =
     JObj ((''gracePeriodSeconds'', JNum (dec_int grace)) #
       (if xc_TargetUID ctx = [] \<and> observedVersion \<le> 0 then []
        else [(''preconditions'', JObj
          ((if xc_TargetUID ctx = [] then [] else [(''uid'', JStr (xc_TargetUID ctx))]) @
           (if observedVersion \<le> 0 then [] else [(''resourceVersion'', JStr (dec_int observedVersion))])))]))"

definition deleteOptionsPayload :: "executor_context \<Rightarrow> int \<Rightarrow> int \<Rightarrow> gostring" where
  "deleteOptionsPayload ctx grace observedVersion = json_text (delete_options ctx grace observedVersion)"

definition spec_annotations :: "gostring \<Rightarrow> (gostring \<times> gostring) list option" where
  "spec_annotations raw =
     (case json_parse raw of
        None \<Rightarrow> None
      | Some j \<Rightarrow>
          (case dec_struct (\<lambda>k v a. if k = ''metadata''
                  then dec_struct (\<lambda>k v a. if k = ''annotations'' then dec_strmap v a else Some a) v a
                  else Some a) j None of
             None \<Rightarrow> None
           | Some None \<Rightarrow> Some []
           | Some (Some m) \<Rightarrow> Some m))"

text \<open>
  The replicas of a \<open>scale\<close>: the error of the decoder is ignored, but a member of a wrong type or range
  has already made the pointer point to a number, zero unless an earlier member has set it.
\<close>

definition dec_replicas :: "gostring \<Rightarrow> json \<Rightarrow> int option \<Rightarrow> int option option" where
  "dec_replicas k v p =
     (if k \<noteq> ''replicas'' then Some p
      else (case v of
              JNull \<Rightarrow> Some None
            | JNum lit \<Rightarrow> (case int32_lit lit of Some i \<Rightarrow> Some (Some i) | None \<Rightarrow> Some (Some (null_int p)))
            | _ \<Rightarrow> Some (Some (null_int p))))"

definition scale_replicas :: "gostring \<Rightarrow> int" where
  "scale_replicas raw =
     (case (if raw = [] then None else json_parse raw) of
        Some (JObj fs) \<Rightarrow> (case dec_members dec_replicas fs None of Some (Some i) \<Rightarrow> i | _ \<Rightarrow> 1)
      | _ \<Rightarrow> 1)"

definition annotations_json :: "(gostring \<times> gostring) list \<Rightarrow> json" where
  "annotations_json m = JObj [(''metadata'', JObj [(''annotations'', JObj (map (apsnd JStr) m))])]"

definition annotation_allowed :: "gostring \<times> gostring \<Rightarrow> bool" where
  "annotation_allowed a \<longleftrightarrow>
     (has_prefix (fst a) ''aiops.observability.io/'' \<or> has_prefix (fst a) ''aio-action-executor/'') \<and> length (snd a) \<le> 256"

definition unschedulable_json :: "bool \<Rightarrow> json" where
  "unschedulable_json b = JObj [(''spec'', JObj [(''unschedulable'', JBool b)])]"

definition buildPatchPayload :: "executor_context \<Rightarrow> gostring + gostring" where
  "buildPatchPayload ctx =
     (let op = xc_Operation ctx; spec = xc_TargetSpec ctx; rt = xc_ResourceType ctx in
      if op = ''patch'' \<or> op = ''rollout_restart''
      then (if op = ''rollout_restart'' \<and> (spec = [] \<or> spec = ''{}'')
            then Inr (json_text (annotations_json [(''aiops.observability.io/restartedAt'', ''requested'')]))
            else if spec = [] \<or> spec = ''null''
            then Inr (json_text (annotations_json [(''aio-action-executor/verified'', ''true'')]))
            else (case spec_annotations spec of
                    None \<Rightarrow> Inl ''patch target_spec must contain metadata.annotations''
                  | Some m \<Rightarrow>
                      if m = [] then Inl ''patch target_spec must contain metadata.annotations''
                      else if \<not> list_all annotation_allowed m
                      then Inl ''patch target_spec contains an annotation outside the allowlist''
                      else Inr (json_text (annotations_json m))))
      else if op = ''scale''
      then (if rt \<noteq> [] \<and> rt \<noteq> ''deployment'' \<and> rt \<noteq> ''statefulset'' then Inl ''scale requires deployment or statefulset''
            else Inr (json_text (JObj [(''spec'', JObj [(''replicas'', JNum (dec_int (scale_replicas spec)))])])))
      else if op = ''cordon''
      then (if rt \<noteq> [] \<and> rt \<noteq> ''node'' then Inl ''cordon requires node'' else Inr (json_text (unschedulable_json True)))
      else if op = ''uncordon''
      then (if rt \<noteq> [] \<and> rt \<noteq> ''node'' then Inl ''uncordon requires node'' else Inr (json_text (unschedulable_json False)))
      else Inl (''unsupported operation: '' @ op))"

section \<open>Changing Kubernetes\<close>

definition if_match :: "gostring \<Rightarrow> gostring" where
  "if_match v = (if v = [] then [] else CHR 0x22 # v @ [CHR 0x22])"

definition mutation :: "server \<Rightarrow> gostring \<Rightarrow> gostring \<Rightarrow> gostring \<Rightarrow> gostring \<Rightarrow> gostring \<Rightarrow> http_request" where
  "mutation sv method endpoint payload contentType observedVersion =
     \<lparr>hq_method = method, hq_url = endpoint, hq_body = payload, hq_contentType = contentType,
      hq_ifMatch = if_match observedVersion, hq_authorization = ''Bearer '' @ sv_k8sToken sv\<rparr>"

definition doK8sMutation ::
  "server \<Rightarrow> gostring \<Rightarrow> gostring \<Rightarrow> gostring \<Rightarrow> gostring \<Rightarrow> gostring \<Rightarrow> unit kube" where
  "doK8sMutation sv method endpoint payload contentType observedVersion =
     kbind (ksend (mutation sv method endpoint payload contentType observedVersion)) (\<lambda>resp. case resp of
         NetError e \<Rightarrow> kfail (KubeError e)
       | Response code status body \<Rightarrow>
           if code \<noteq> 200 \<and> code \<noteq> 201 \<and> code \<noteq> 202 then kfail (KubeError (''k8s mutation failed: '' @ status @ '' '' @ body))
           else kret ())"

definition merge_patch :: gostring where
  "merge_patch = ''application/strategic-merge-patch+json''"

definition version_or_zero :: "gostring \<Rightarrow> gostring + int" where
  "version_or_zero v = (if v = [] then Inr 0 else parseResourceVersion v)"

definition deletePod :: "server \<Rightarrow> executor_context \<Rightarrow> gostring \<Rightarrow> gostring \<Rightarrow> gostring \<Rightarrow> unit kube" where
  "deletePod sv ctx namespace name observedVersion =
     kbind (klift (buildGracePeriod ctx)) (\<lambda>grace.
       if to_lower (trim_space (xc_ResourceType ctx)) \<noteq> ''pod'' then kfail (KubeError ''delete_pod requires pod'')
       else kbind (klift (k8sObjectURL (sv_k8sHost sv) ''pod'' namespace name)) (\<lambda>endpoint.
            kbind (klift (version_or_zero observedVersion)) (\<lambda>version.
              doK8sMutation sv ''DELETE'' endpoint (deleteOptionsPayload ctx grace version) ''application/json'' [])))"

definition quoted_member :: "gostring \<Rightarrow> gostring \<Rightarrow> gostring" where
  "quoted_member k raw = json_quote k @ CHR '':'' # raw"

definition raw_object :: "(gostring \<times> gostring) list \<Rightarrow> gostring" where
  "raw_object ms = CHR ''{'' # commas (map (\<lambda>(k, raw). quoted_member k raw) ms) @ ''}''"

definition eviction_payload :: "gostring \<Rightarrow> gostring \<Rightarrow> gostring \<Rightarrow> gostring" where
  "eviction_payload options namespace name =
     raw_object [(''apiVersion'', json_quote ''policy/v1''), (''deleteOptions'', options), (''kind'', json_quote ''Eviction''),
       (''metadata'', raw_object [(''name'', go_quote name), (''namespace'', go_quote namespace)])]"

definition eviction_url :: "server \<Rightarrow> gostring \<Rightarrow> gostring \<Rightarrow> gostring" where
  "eviction_url sv namespace name =
     sv_k8sHost sv @ ''/apis/policy/v1/namespaces/'' @ PathEscape namespace @ ''/pods/'' @ PathEscape name @ ''/eviction''"

definition evictPod :: "server \<Rightarrow> executor_context \<Rightarrow> gostring \<Rightarrow> gostring \<Rightarrow> gostring \<Rightarrow> unit kube" where
  "evictPod sv ctx namespace name observedVersion =
     kbind (klift (buildGracePeriod ctx)) (\<lambda>grace.
       if to_lower (trim_space (xc_ResourceType ctx)) \<noteq> ''pod'' then kfail (KubeError ''evict_pod requires pod'')
       else if namespace = [] then kfail (KubeError ''namespace is required for pod eviction'')
       else kbind (klift (version_or_zero observedVersion)) (\<lambda>version.
              doK8sMutation sv ''POST'' (eviction_url sv namespace name)
                (eviction_payload (deleteOptionsPayload ctx grace version) namespace name) ''application/json'' []))"

definition policy_url :: "gostring \<Rightarrow> gostring" where
  "policy_url endpoint = replace_first ''/api/v1/'' ''/apis/policy/v1/'' (endpoint @ ''/eviction'')"

definition evictPodWithContext :: "server \<Rightarrow> executor_context \<Rightarrow> unit kube" where
  "evictPodWithContext sv ctx =
     kbind (klift (buildGracePeriod ctx)) (\<lambda>grace.
     kbind (klift (k8sObjectURL (sv_k8sHost sv) ''pod'' (xc_Namespace ctx) (xc_TargetName ctx))) (\<lambda>endpoint.
     kbind (klift (version_or_zero (xc_ResourceVersion ctx))) (\<lambda>version.
       doK8sMutation sv ''POST'' (policy_url endpoint)
         (eviction_payload (deleteOptionsPayload ctx grace version) (xc_Namespace ctx) (xc_TargetName ctx))
         ''application/json'' [])))"

definition pod_context :: "pod_item \<Rightarrow> executor_context" where
  "pod_context p = \<lparr>xc_ActionID = [], xc_ActionHash = [], xc_ApprovalID = [], xc_TargetUID = pi_UID p,
     xc_TargetName = pi_Name p, xc_ResourceVersion = pi_ResourceVersion p, xc_ClusterID = [], xc_ResourceType = ''pod'',
     xc_Namespace = pi_Namespace p, xc_Operation = ''evict_pod'',
     xc_TargetSpec = json_text (JObj [(''grace_period_seconds'', JNum ''30'')]),
     xc_CredentialRef = [], xc_ApprovedAt = [], xc_ExecutedBy = []\<rparr>"

text \<open>The error of a failed eviction is wrapped with the name of the pod.\<close>

definition kwrap :: "gostring \<Rightarrow> 'a kube \<Rightarrow> 'a kube" where
  "kwrap pre m = (\<lambda>api log. case m api log of
      (Inl e, log') \<Rightarrow> (Inl (KubeError (pre @ kube_error_text e)), log')
    | r \<Rightarrow> r)"

fun drain_pods :: "server \<Rightarrow> pod_item list \<Rightarrow> unit kube" where
  "drain_pods sv [] = kret ()"
| "drain_pods sv (p # ps) =
     kbind (kwrap (''drain pod '' @ pi_Namespace p @ ''/'' @ pi_Name p @ '': '') (evictPodWithContext sv (pod_context p)))
       (\<lambda>_. drain_pods sv ps)"

definition drainNode :: "server \<Rightarrow> executor_context \<Rightarrow> gostring \<Rightarrow> gostring \<Rightarrow> unit kube" where
  "drainNode sv ctx observedVersion name =
     (if to_lower (trim_space (xc_ResourceType ctx)) \<noteq> ''node'' then kfail (KubeError ''drain requires node'')
      else kbind (klift (buildDrainTimeout ctx)) (\<lambda>_.
           kbind (listDrainPods sv name) (\<lambda>pods.
           kbind (klift (addResourceVersionPrecondition (json_text (unschedulable_json True)) observedVersion)) (\<lambda>payload.
           kbind (klift (k8sObjectURL (sv_k8sHost sv) ''node'' [] name)) (\<lambda>endpoint.
           kbind (doK8sMutation sv ''PATCH'' endpoint payload merge_patch observedVersion) (\<lambda>_.
             drain_pods sv pods))))))"

definition patch_object :: "server \<Rightarrow> executor_context \<Rightarrow> gostring \<Rightarrow> unit kube" where
  "patch_object sv ctx observedVersion =
     kbind (klift (buildPatchPayload ctx)) (\<lambda>payload.
     kbind (klift (addResourceVersionPrecondition payload observedVersion)) (\<lambda>payload'.
     kbind (klift (k8sObjectURL (sv_k8sHost sv) (to_lower (trim_space (xc_ResourceType ctx)))
             (trim_space (xc_Namespace ctx)) (xc_TargetName ctx))) (\<lambda>endpoint.
     kbind (ksend (mutation sv ''PATCH'' endpoint payload' merge_patch observedVersion)) (\<lambda>resp. case resp of
         NetError e \<Rightarrow> kfail (KubeError e)
       | Response code status body \<Rightarrow>
           if code \<noteq> 200 \<and> code \<noteq> 201 then kfail (KubeError (''k8s patch failed: '' @ status @ '' '' @ body)) else kret ()))))"

definition patchTarget :: "server \<Rightarrow> executor_context \<Rightarrow> gostring \<Rightarrow> unit kube" where
  "patchTarget sv ctx observedVersion =
     (if \<not> sv_k8sEnabled sv then kfail (KubeError ''k8s client not configured'')
      else (case validateCanonicalTarget (xc_ResourceType ctx) (xc_Namespace ctx) (xc_TargetName ctx) of
              Some e \<Rightarrow> kfail (KubeError e)
            | None \<Rightarrow>
                (let ns = trim_space (xc_Namespace ctx); name = xc_TargetName ctx in
                 if name = [] then kfail (KubeError ''cannot resolve target name'')
                 else if xc_Operation ctx = ''delete_pod'' then deletePod sv ctx ns name observedVersion
                 else if xc_Operation ctx = ''evict_pod'' then evictPod sv ctx ns name observedVersion
                 else if xc_Operation ctx = ''drain'' then drainNode sv ctx observedVersion name
                 else patch_object sv ctx observedVersion)))"

section \<open>Authentication\<close>

text \<open>
  \<open>readBody\<close> takes at most \<open>2 ^ 20\<close> bytes.  \<open>ed25519.Verify\<close> panics when the configured key does not have 32
  bytes; the HTTP server then drops the connection.
\<close>

definition readBody :: "exec_request \<Rightarrow> gostring option" where
  "readBody r = (case er_body r of
      None \<Rightarrow> None
    | Some b \<Rightarrow> if b = [] then None else Some (take (2 ^ 20) b))"

datatype sig_check = SigValid | SigInvalid gostring | SigPanic

definition verifySignedContext :: "jws_env \<Rightarrow> exec_request \<Rightarrow> gostring \<Rightarrow> gostring \<Rightarrow> sig_check" where
  "verifySignedContext je r body verifyKeyB64 =
     (if er_signature r = [] then SigInvalid ''missing X-Executor-Signature''
      else (case hex_decode (er_signature r) of
              None \<Rightarrow> SigInvalid ''invalid signature encoding''
            | Some sg \<Rightarrow>
                (case b64_decode verifyKeyB64 of
                   None \<Rightarrow> SigInvalid ''invalid verify key''
                 | Some pub \<Rightarrow>
                     if length pub \<noteq> 32 then SigPanic
                     else if je_verify je pub (je_sha je body) sg then SigValid
                     else SigInvalid ''Ed25519 signature invalid'')))"

definition rejected :: "gostring \<Rightarrow> gostring \<Rightarrow> ActionResult" where
  "rejected action_id msg = zero_result\<lparr>ar_ActionID := action_id, ar_Status := ''rejected'', ar_Message := msg\<rparr>"

definition executor_auth :: "gostring \<Rightarrow> gostring \<Rightarrow> exec_env \<Rightarrow> server \<Rightarrow> exec_request \<Rightarrow> gostring \<Rightarrow> exec_reply option" where
  "executor_auth what denied env sv r body =
     (if sv_verifyKeyB64 sv \<noteq> []
      then (case verifySignedContext (xe_jws env) r body (sv_verifyKeyB64 sv) of
              SigValid \<Rightarrow> None
            | SigPanic \<Rightarrow> Some Dropped
            | SigInvalid e \<Rightarrow> Some (JsonReply 403 (rejected [] (what @ '' context verification failed: '' @ e))))
      else if sv_token sv \<noteq> [] \<and> er_token r \<noteq> sv_token sv then Some (TextReply 403 denied)
      else None)"

text \<open>The query API's side of the signature (\<open>signBody\<close>).\<close>

definition signBody :: "jws_env \<Rightarrow> gostring \<Rightarrow> gostring \<Rightarrow> gostring" where
  "signBody je privateKey body = hex_string (je_sign je privateKey (je_sha je body))"

section \<open>Credentials\<close>

definition broker_request :: "server \<Rightarrow> executor_context \<Rightarrow> http_request" where
  "broker_request sv ctx =
     \<lparr>hq_method = ''POST'', hq_url = trim_slashes (sv_credBrokerURL sv) @ ''/v1/credentials/token'',
      hq_body = json_text (JObj (go_map
        [(''credential_ref'', JStr (xc_CredentialRef ctx)), (''cluster_id'', JStr (xc_ClusterID ctx)),
         (''namespace'', JStr (xc_Namespace ctx)), (''resource'', JStr (xc_ResourceType ctx @ '':'' @ xc_TargetName ctx)),
         (''operation'', JStr (xc_Operation ctx)), (''audience'', JStr ''ai-action-executor''),
         (''ttl_seconds'', JNum ''300'')])),
      hq_contentType = ''application/json'', hq_ifMatch = [],
      hq_authorization = (if sv_brokerToken sv \<noteq> [] then ''Bearer '' @ sv_brokerToken sv
        else if sv_token sv \<noteq> [] then ''Bearer '' @ sv_token sv else [])\<rparr>"

definition decode_token :: "gostring \<Rightarrow> gostring option" where
  "decode_token body =
     (case json_first body of
        None \<Rightarrow> None
      | Some j \<Rightarrow> map_option fst (dec_struct (\<lambda>k v p.
          if k = ''access_token'' then map_option (\<lambda>s. (s, snd p)) (dec_str v (fst p))
          else if k = ''expires_at'' then map_option (\<lambda>s. (fst p, s)) (dec_str v (snd p))
          else Some p) j ([], [])))"

definition issueCredential :: "exec_env \<Rightarrow> server \<Rightarrow> executor_context \<Rightarrow> gostring + gostring" where
  "issueCredential env sv ctx =
     (if trim_space (xc_CredentialRef ctx) = [] then Inl ''credential_ref is empty''
      else (case xe_broker env (broker_request sv ctx) of
              NetError e \<Rightarrow> Inl e
            | Response code status body \<Rightarrow>
                if code < 200 \<or> 300 \<le> code
                then Inl (''broker returned '' @ status @ '': '' @ trim_space (take 4096 body))
                else (case decode_token body of
                        None \<Rightarrow> Inl json_error
                      | Some t \<Rightarrow> if trim_space t = [] then Inl ''broker response missing access_token'' else Inr t)))"

text \<open>With a broker, a handler runs with the token of its own request and clears it at the end.\<close>

definition with_credential :: "exec_env \<Rightarrow> server \<Rightarrow> executor_context \<Rightarrow> gostring + server" where
  "with_credential env sv ctx =
     (if sv_credBrokerURL sv = [] then Inr sv
      else (case issueCredential env sv ctx of Inl e \<Rightarrow> Inl e | Inr t \<Rightarrow> Inr (sv\<lparr>sv_k8sToken := t\<rparr>)))"

definition clear_credential :: "server \<Rightarrow> server" where
  "clear_credential sv = (if sv_credBrokerURL sv = [] then sv else sv\<lparr>sv_k8sToken := []\<rparr>)"

section \<open>Handlers\<close>

text \<open>A handler returns its reply, the requests it has sent to Kubernetes and the new state.\<close>

type_synonym handled = "exec_reply \<times> http_request list \<times> server"

definition observed_result :: "executor_context \<Rightarrow> gostring \<Rightarrow> gostring \<Rightarrow> gostring \<Rightarrow> gostring \<Rightarrow> ActionResult" where
  "observed_result ctx status uid version msg =
     \<lparr>ar_ActionID = xc_ActionID ctx, ar_Status = status, ar_ObservedUID = uid, ar_ObservedVersion = version,
      ar_Message = msg, ar_ExecutedAt = []\<rparr>"

definition applied_message :: "executor_context \<Rightarrow> gostring" where
  "applied_message ctx = ''real K8s mutation applied (verified): action='' @ xc_ActionID ctx @ '' target='' @
     xc_TargetUID ctx @ '' op='' @ xc_Operation ctx @ '' ns='' @ xc_Namespace ctx"

definition execute_mutation :: "exec_env \<Rightarrow> server \<Rightarrow> executor_context \<Rightarrow> gostring \<Rightarrow> gostring \<Rightarrow> http_request list \<Rightarrow> handled" where
  "execute_mutation env sv ctx uid version log =
     (if sv_mode sv = ModeApproved \<and> sv_k8sEnabled sv
      then (case patchTarget sv ctx version (xe_kube env) log of
              (Inl e, log') \<Rightarrow>
                (JsonReply 500 (observed_result ctx ''failed'' uid version (''real K8s mutation failed: '' @ kube_error_text e)), log', sv)
            | (Inr _, log') \<Rightarrow>
                if sv_dropResponse sv = Some (xc_ActionID ctx) then (Dropped, log', sv)
                else (let res = (observed_result ctx ''success'' uid version (applied_message ctx))\<lparr>ar_ExecutedAt := rfc3339 (xe_now env)\<rparr>
                      in (JsonReply 200 res, log', sv\<lparr>sv_results := (sv_results sv)(xc_ActionID ctx := Some res)\<rparr>)))
      else (let res = (observed_result ctx ''dry_run'' uid version ''manual mode; mutation not applied'')
                        \<lparr>ar_ExecutedAt := rfc3339 (xe_now env)\<rparr>
            in (JsonReply 200 res, log, sv\<lparr>sv_results := (sv_results sv)(xc_ActionID ctx := Some res)\<rparr>)))"

definition execute_target :: "exec_env \<Rightarrow> server \<Rightarrow> executor_context \<Rightarrow> handled" where
  "execute_target env sv ctx =
     (case validateExecutionConfig (sv_mode sv) (sv_k8sEnabled sv) (sv_verifyKeyB64 sv) of
        Some e \<Rightarrow> (JsonReply 503 (rejected (xc_ActionID ctx) (''Kubernetes mutation capability unavailable: '' @ e)), [], sv)
      | None \<Rightarrow>
          (case readCurrentState sv ctx (xe_kube env) [] of
             (Inl e, log) \<Rightarrow>
               (JsonReply 500 (zero_result\<lparr>ar_ActionID := xc_ActionID ctx, ar_Status := ''failed'',
                  ar_Message := ''state read failed: '' @ kube_error_text e\<rparr>), log, sv)
           | (Inr (uid, version, drift), log) \<Rightarrow>
               if drift
               then (JsonReply 409 (observed_result ctx ''rejected'' uid version
                       ''TOCTOU drift: target resourceVersion/UID changed since approval''), log, sv)
               else execute_mutation env sv ctx uid version log))"

definition execute_context :: "exec_env \<Rightarrow> server \<Rightarrow> executor_context \<Rightarrow> handled" where
  "execute_context env sv ctx =
     (case validateCanonicalTarget (xc_ResourceType ctx) (xc_Namespace ctx) (xc_TargetName ctx) of
        Some e \<Rightarrow> (JsonReply 400 (rejected (xc_ActionID ctx) e), [], sv)
      | None \<Rightarrow>
          if xc_ActionID ctx = [] \<or> xc_ActionHash ctx = [] \<or> xc_TargetUID ctx = []
          then (JsonReply 400 (rejected (xc_ActionID ctx) ''missing action_id/action_hash/target_uid''), [], sv)
          else (case with_credential env sv ctx of
                  Inl e \<Rightarrow> (JsonReply 503 (rejected (xc_ActionID ctx) (''credential broker unavailable: '' @ e)), [], sv)
                | Inr sv' \<Rightarrow> (case execute_target env sv' ctx of (rep, log, sv'') \<Rightarrow> (rep, log, clear_credential sv''))))"

definition handleExecute :: "exec_env \<Rightarrow> server \<Rightarrow> exec_request \<Rightarrow> handled" where
  "handleExecute env sv r =
     (case readBody r of
        None \<Rightarrow> (TextReply 400 ''bad body'', [], sv)
      | Some body \<Rightarrow>
     (case executor_auth ''signed execution'' ''unauthorized executor token'' env sv r body of
        Some rep \<Rightarrow> (rep, [], sv)
      | None \<Rightarrow>
          if sv_mode sv = ModeDisabled
          then (JsonReply 403 (rejected [] ''EXECUTION_MODE=disabled; real mutation not permitted''), [], sv)
          else if sv_mode sv = ModeApproved \<and> sv_verifyKeyB64 sv = []
          then (JsonReply 503 (rejected []
                  ''EXECUTION_MODE=approved requires EXECUTOR_VERIFY_KEYS (signed context); not configured''), [], sv)
          else (case decodeContext body of
                  None \<Rightarrow> (TextReply 400 ''bad body'', [], sv)
                | Some ctx \<Rightarrow> execute_context env sv ctx)))"

definition handleStatus :: "server \<Rightarrow> exec_request \<Rightarrow> exec_reply" where
  "handleStatus sv r =
     (if sv_token sv \<noteq> [] \<and> er_token r \<noteq> sv_token sv then TextReply 403 ''unauthorized''
      else (case sv_results sv
              (if has_prefix (er_path r) ''/v1/executor/status/'' then drop (length ''/v1/executor/status/'') (er_path r) else er_path r) of
              None \<Rightarrow> TextReply 404 ''not found''
            | Some res \<Rightarrow> JsonReply 200 res))"

section \<open>The dispatch gate\<close>

text \<open>
  A handler may be held until a file is removed, for ten minutes at most.  \<open>exists i\<close> tells whether the
  file is there at the poll \<open>i\<close>, \<open>now i\<close> the time then.  The loop may not end for arbitrary clocks.
\<close>

datatype gate_end = GatePassed | GateTimedOut

partial_function (option) gate_loop :: "(nat \<Rightarrow> bool) \<Rightarrow> (nat \<Rightarrow> millis) \<Rightarrow> millis \<Rightarrow> nat \<Rightarrow> gate_end option" where
  "gate_loop exists now deadline i =
     (if \<not> exists i then Some GatePassed
      else if now i > deadline then Some GateTimedOut
      else gate_loop exists now deadline (Suc i))"

definition waitForDispatchGate :: "server \<Rightarrow> (nat \<Rightarrow> bool) \<Rightarrow> (nat \<Rightarrow> millis) \<Rightarrow> millis \<Rightarrow> gostring \<Rightarrow> gate_end option" where
  "waitForDispatchGate sv exists now start actionID =
     (if sv_dispatchGateActionID sv = [] \<or> sv_dispatchGateActionID sv \<noteq> actionID then Some GatePassed
      else if sv_dispatchGateFile sv = [] then Some GatePassed
      else gate_loop exists now (start + 10 * 60 * 1000) 0)"

section \<open>Reconciliation\<close>

definition strict_replicas :: "gostring \<Rightarrow> int option" where
  "strict_replicas raw =
     (case json_parse raw of
        None \<Rightarrow> None
      | Some j \<Rightarrow>
          (case dec_struct (\<lambda>k v p. if k \<noteq> ''replicas'' then Some p
                else (case v of JNull \<Rightarrow> Some None | JNum lit \<Rightarrow> map_option Some (int32_lit lit) | _ \<Rightarrow> None)) j None of
             None \<Rightarrow> None | Some p \<Rightarrow> p))"

definition desiredStateMatches :: "ReconcileRequest \<Rightarrow> reconcileObserved \<Rightarrow> gostring + bool" where
  "desiredStateMatches req ob =
     (let rt = to_lower (trim_space (rr_ResourceType req)); op = rr_Operation req in
      case validateResourceScope rt (rr_Namespace req) of
        Some e \<Rightarrow> Inl e
      | None \<Rightarrow>
          if op = ''scale''
          then (if rt \<noteq> ''deployment'' \<and> rt \<noteq> ''statefulset''
                then Inl ''scale reconciliation requires deployment or statefulset''
                else (case strict_replicas (rr_TargetSpec req) of
                        None \<Rightarrow> Inl ''scale reconciliation requires target_spec.replicas''
                      | Some i \<Rightarrow> Inr (ob_Replicas ob = i)))
          else if op = ''patch'' \<or> op = ''rollout_restart''
          then (if op = ''rollout_restart'' \<and> rt \<noteq> ''deployment'' \<and> rt \<noteq> ''statefulset'' \<and> rt \<noteq> ''daemonset''
                then Inl ''rollout_restart reconciliation requires a workload''
                else (case spec_annotations (rr_TargetSpec req) of
                        None \<Rightarrow> Inl ''patch reconciliation requires target_spec.metadata.annotations''
                      | Some m \<Rightarrow>
                          if m = [] then Inl ''patch reconciliation requires target_spec.metadata.annotations''
                          else Inr (ob_Annotations ob \<noteq> None \<and> list_all (\<lambda>(k, v). str_lookup (ob_Annotations ob) k = v) m)))
          else if op = ''cordon''
          then (if rt \<noteq> ''node'' then Inl ''cordon reconciliation requires node'' else Inr (ob_Unschedulable ob))
          else if op = ''uncordon''
          then (if rt \<noteq> ''node'' then Inl ''uncordon reconciliation requires node'' else Inr (\<not> ob_Unschedulable ob))
          else if op = ''drain''
          then (if rt \<noteq> ''node'' then Inl ''drain reconciliation requires node''
                else Inr (ob_Unschedulable ob \<and> ob_PodsRemaining ob = 0))
          else if op = ''delete_pod'' \<or> op = ''evict_pod''
          then (if rt \<noteq> ''pod'' then Inl ''pod deletion reconciliation requires pod'' else Inr False)
          else Inl (''unsupported reconciliation operation: '' @ op))"

definition reconcile_credential_context :: "ReconcileRequest \<Rightarrow> executor_context" where
  "reconcile_credential_context req =
     \<lparr>xc_ActionID = rr_ActionID req, xc_ActionHash = rr_ActionHash req, xc_ApprovalID = [], xc_TargetUID = rr_TargetUID req,
      xc_TargetName = rr_TargetName req, xc_ResourceVersion = rr_ResourceVersion req, xc_ClusterID = rr_ClusterID req,
      xc_ResourceType = rr_ResourceType req, xc_Namespace = rr_Namespace req, xc_Operation = rr_Operation req,
      xc_TargetSpec = rr_TargetSpec req, xc_CredentialRef = rr_CredentialRef req, xc_ApprovedAt = [], xc_ExecutedBy = []\<rparr>"

definition reconcile_read :: "server \<Rightarrow> ReconcileRequest \<Rightarrow> reconcileObserved kube" where
  "reconcile_read sv req =
     (let rt = to_lower (trim_space (rr_ResourceType req)) in
      if rt = ''node'' \<and> rr_Operation req = ''drain'' then k8sReadDrainState sv (rr_TargetName req)
      else k8sReadObjectState sv rt (trim_space (rr_Namespace req)) (rr_TargetName req))"

definition reconcile_result :: "ReconcileRequest \<Rightarrow> gostring \<Rightarrow> gostring \<Rightarrow> gostring \<Rightarrow> gostring \<Rightarrow> gostring \<Rightarrow> ActionResult" where
  "reconcile_result req status uid version msg executedAt =
     \<lparr>ar_ActionID = rr_ActionID req, ar_Status = status, ar_ObservedUID = uid, ar_ObservedVersion = version,
      ar_Message = msg, ar_ExecutedAt = executedAt\<rparr>"

definition store_result :: "gostring \<Rightarrow> ActionResult \<Rightarrow> server \<Rightarrow> server" where
  "store_result k res sv = sv\<lparr>sv_results := (sv_results sv)(k := Some res)\<rparr>"

definition reconcile_observed :: "exec_env \<Rightarrow> server \<Rightarrow> ReconcileRequest \<Rightarrow> kube_error + reconcileObserved \<Rightarrow> exec_reply \<times> server" where
  "reconcile_observed env sv req r =
     (case r of
        Inl e \<Rightarrow>
          (if (case e of KubeNotFound _ _ \<Rightarrow> True | KubeError _ \<Rightarrow> False) \<and>
              (rr_Operation req = ''delete_pod'' \<or> rr_Operation req = ''evict_pod'')
           then let res = reconcile_result req ''applied'' [] []
                  ''target pod is absent; the approved pod deletion is already reflected, no retry was issued'' (rfc3339 (xe_now env))
                in (JsonReply 200 res, store_result (rr_ActionID req) res sv)
           else (JsonReply 503 (reconcile_result req ''execution_unknown'' [] []
                   (''reconciliation state read failed: '' @ kube_error_text e) []), sv))
      | Inr ob \<Rightarrow>
          if ob_UID ob \<noteq> rr_TargetUID req
          then (JsonReply 409 (reconcile_result req ''drift'' (ob_UID ob) (ob_ResourceVersion ob)
                  ''reconciliation target UID drifted; no retry is permitted'' []), sv)
          else (case desiredStateMatches req ob of
                  Inl e \<Rightarrow> (JsonReply 422 (reconcile_result req ''execution_unknown'' (ob_UID ob) (ob_ResourceVersion ob) e []), sv)
                | Inr b \<Rightarrow>
                    let res = reconcile_result req (if b then ''applied'' else ''not_applied'') (ob_UID ob) (ob_ResourceVersion ob)
                          (if b then ''target state already matches the approved Action; no retry was issued''
                           else ''target state does not prove the requested mutation; operator review is required before retry'')
                          (rfc3339 (xe_now env))
                    in (JsonReply 200 res, store_result (rr_ActionID req) res sv)))"

definition reconcile_target :: "exec_env \<Rightarrow> server \<Rightarrow> ReconcileRequest \<Rightarrow> handled" where
  "reconcile_target env sv req =
     (if \<not> sv_k8sEnabled sv
      then (JsonReply 503 (reconcile_result req ''execution_unknown'' [] []
              ''reconciliation requires a Kubernetes read capability'' []), [], sv)
      else (case reconcile_read sv req (xe_kube env) [] of
              (r, log) \<Rightarrow> (case reconcile_observed env sv req r of (rep, sv') \<Rightarrow> (rep, log, sv'))))"

definition reconcile_request :: "exec_env \<Rightarrow> server \<Rightarrow> ReconcileRequest \<Rightarrow> handled" where
  "reconcile_request env sv req =
     (if rr_ActionID req = [] \<or> rr_ActionHash req = [] \<or> rr_TargetUID req = [] \<or> rr_TargetName req = [] \<or>
         rr_Operation req = [] \<or> rr_TargetSpec req = []
      then (TextReply 400 ''missing action context'', [], sv)
      else (case validateCanonicalTarget (rr_ResourceType req) (rr_Namespace req) (rr_TargetName req) of
              Some e \<Rightarrow> (TextReply 400 e, [], sv)
            | None \<Rightarrow>
                (case with_credential env sv (reconcile_credential_context req) of
                   Inl e \<Rightarrow> (JsonReply 503 (reconcile_result req ''execution_unknown'' [] []
                              (''credential broker unavailable: '' @ e) []), [], sv)
                 | Inr sv' \<Rightarrow> (case reconcile_target env sv' req of (rep, log, sv'') \<Rightarrow> (rep, log, clear_credential sv'')))))"

definition handleReconcile :: "exec_env \<Rightarrow> server \<Rightarrow> exec_request \<Rightarrow> handled" where
  "handleReconcile env sv r =
     (case readBody r of
        None \<Rightarrow> (TextReply 400 ''bad reconcile body'', [], sv)
      | Some body \<Rightarrow>
     (case executor_auth ''signed reconciliation'' ''unauthorized'' env sv r body of
        Some rep \<Rightarrow> (rep, [], sv)
      | None \<Rightarrow>
     (case decodeReconcile body of
        None \<Rightarrow> (TextReply 400 ''bad reconcile body'', [], sv)
      | Some req \<Rightarrow> reconcile_request env sv req)))"

section \<open>The server\<close>

definition requireMTLS :: "(exec_request \<Rightarrow> handled) \<Rightarrow> server \<Rightarrow> exec_request \<Rightarrow> handled" where
  "requireMTLS nxt sv r =
     (if has_prefix (er_path r) ''/v1/'' \<and> \<not> er_verified r then (TextReply 401 ''client certificate required'', [], sv) else nxt r)"

definition executor_mux :: "exec_env \<Rightarrow> server \<Rightarrow> exec_request \<Rightarrow> handled" where
  "executor_mux env sv r =
     (if er_path r = ''/healthz'' then (TextReply 200 ''ok'', [], sv)
      else if er_path r = ''/v1/executor/execute'' then handleExecute env sv r
      else if er_path r = ''/v1/executor/reconcile'' then handleReconcile env sv r
      else if has_prefix (er_path r) ''/v1/executor/status/'' then (handleStatus sv r, [], sv)
      else (TextReply 404 ''404 page not found'', [], sv))"

definition executor_serve :: "exec_env \<Rightarrow> server \<Rightarrow> exec_request \<Rightarrow> handled" where
  "executor_serve env sv r = requireMTLS (executor_mux env sv) sv r"

text \<open>\<open>verifyClientSAN\<close>: a certificate is accepted when one of its names is in the configured list.\<close>

definition verifyClientSAN :: "gostring \<Rightarrow> (gostring list \<times> gostring list) option \<Rightarrow> bool" where
  "verifyClientSAN configured cert =
     (case cert of
        None \<Rightarrow> True
      | Some (dns, uris) \<Rightarrow>
          trim_space configured = [] \<or>
          list_ex (\<lambda>a. trim_space a \<noteq> [] \<and> trim_space a \<in> set (dns @ uris)) (split_on (CHR '','') (trim_space configured)))"

end
