(* ===== verification/ExecutorSafety.thy ===== *)
theory ExecutorSafety
  imports Executor
begin

text \<open>
  What the action executor asks of Kubernetes.  \<open>emits\<close> bounds the requests of a computation; with it,
  \<open>executor_mutates_only_approved\<close> shows that every write rests on a signed context, on the identity
  and version of the target read just before, and carries them as preconditions, and
  \<open>reconcile_only_reads\<close> that a reconciliation never writes.  \<open>approved_action_executes\<close> puts the
  query API and the executor together: an action that passed the preflight and was signed is applied,
  with exactly the intended writes.
\<close>

section \<open>Requests of a computation\<close>

definition emits :: "(http_request \<Rightarrow> bool) \<Rightarrow> kube_api \<Rightarrow> 'a kube \<Rightarrow> bool" where
  "emits P api m \<longleftrightarrow> (\<forall>log. \<exists>ext. snd (m api log) = log @ ext \<and> list_all P ext)"

definition gives :: "kube_api \<Rightarrow> 'a kube \<Rightarrow> 'a \<Rightarrow> bool" where
  "gives api m x \<longleftrightarrow> (\<exists>log log'. m api log = (Inr x, log'))"

lemma emits_ret [simp]: "emits P api (kret x)" "emits P api (kfail e)" "emits P api (klift r)"
  by (auto simp: emits_def kret_def kfail_def klift_def split: sum.splits)

lemma emits_send [simp]: "emits P api (ksend q) \<longleftrightarrow> P q"
  by (auto simp: emits_def ksend_def)

lemma emits_bind:
  assumes "emits P api m" "\<And>x. gives api m x \<Longrightarrow> emits P api (f x)"
  shows "emits P api (kbind m f)"
  unfolding emits_def
proof
  fix log
  obtain r log1 where m: "m api log = (r, log1)" by fastforce
  with assms(1) obtain ext where ext: "log1 = log @ ext" "list_all P ext" by (metis emits_def snd_conv)
  show "\<exists>ext. snd (kbind m f api log) = log @ ext \<and> list_all P ext"
  proof (cases r)
    case (Inl e)
    with m ext show ?thesis by (simp add: kbind_def)
  next
    case (Inr x)
    with m have "gives api m x" by (auto simp: gives_def)
    from assms(2) [OF this] obtain ext' where "snd (f x api log1) = log1 @ ext'" "list_all P ext'"
      by (auto simp: emits_def)
    with m Inr ext show ?thesis by (simp add: kbind_def)
  qed
qed

lemma emits_wrap [simp]: "emits P api (kwrap pre m) \<longleftrightarrow> emits P api m"
proof -
  have "snd (kwrap pre m api log) = snd (m api log)" for log
    by (simp add: kwrap_def split: prod.splits sum.splits)
  then show ?thesis by (simp add: emits_def)
qed

lemma emits_mono: "emits P api m \<Longrightarrow> (\<And>q. P q \<Longrightarrow> Q q) \<Longrightarrow> emits Q api m"
  by (fastforce simp: emits_def list_all_iff)

lemma emitsD:
  assumes "emits P api m" "m api log = (r, log')"
  obtains ext where "log' = log @ ext" "list_all P ext"
  using assms by (metis emits_def snd_conv)

lemma gives_klift [simp]: "gives api (klift r) x \<longleftrightarrow> r = Inr x"
  by (cases r) (auto simp: gives_def klift_def kret_def kfail_def)

lemma gives_ret [simp]: "gives api (kret x) y \<longleftrightarrow> y = x" "\<not> gives api (kfail e) y"
  by (auto simp: gives_def kret_def kfail_def)

lemma gives_bind: "gives api (kbind m f) y \<Longrightarrow> \<exists>x. gives api m x \<and> gives api (f x) y"
proof -
  assume "gives api (kbind m f) y"
  then obtain log log' where y: "kbind m f api log = (Inr y, log')" by (auto simp: gives_def)
  obtain r log1 where m: "m api log = (r, log1)" by fastforce
  show ?thesis
  proof (cases r)
    case (Inl e)
    with m y show ?thesis by (simp add: kbind_def)
  next
    case (Inr x)
    with m y have "f x api log1 = (Inr y, log')" by (simp add: kbind_def)
    with m Inr show ?thesis by (auto simp: gives_def)
  qed
qed

lemma gives_send: "gives api (ksend q) x \<longleftrightarrow> (\<exists>log. x = api log q)"
  by (auto simp: gives_def ksend_def)

text \<open>How to run a bind whose first part is known.\<close>

lemma kbind_Inr: "m api log = (Inr x, log') \<Longrightarrow> kbind m f api log = f x api log'"
  by (simp add: kbind_def)

lemma kbind_eq_Inr:
  "kbind m f api log = (Inr y, log') \<longleftrightarrow> (\<exists>x l. m api log = (Inr x, l) \<and> f x api l = (Inr y, log'))"
proof -
  obtain r l where "m api log = (r, l)" by fastforce
  then show ?thesis by (cases r) (auto simp: kbind_def)
qed

lemma kbind_klift [simp]: "kbind (klift (Inr x)) f = f x" "kbind (klift (Inl e)) f = kfail (KubeError e)"
  by (auto simp: kbind_def klift_def kret_def kfail_def)

lemma kbind_ksend [simp]: "kbind (ksend q) f api log = f (api log q) api (log @ [q])"
  by (simp add: kbind_def ksend_def)

lemma kret_run [simp]: "kret x api log = (Inr x, log)" "kfail e api log = (Inl e, log)"
  by (simp_all add: kret_def kfail_def)

section \<open>Reads\<close>

definition is_get :: "http_request \<Rightarrow> bool" where
  "is_get q \<longleftrightarrow> hq_method q = ''GET''"

lemma get_request_is_get [simp]: "is_get (get_request sv u)"
  by (simp add: is_get_def get_request_def)

lemma emits_response: "(\<And>c s b. emits P api (f c s b)) \<Longrightarrow>
    emits P api (case resp of NetError e \<Rightarrow> kfail (g e) | Response c s b \<Rightarrow> f c s b)"
  by (cases resp) simp_all

lemma read_object_emits: "emits is_get api (k8sReadObjectState sv rt ns name)"
  by (auto simp: k8sReadObjectState_def intro!: emits_bind emits_response split: option.splits)

lemma list_pods_emits: "emits is_get api (listDrainPods sv name)"
  by (auto simp: listDrainPods_def intro!: emits_bind emits_response split: option.splits)

lemma read_drain_emits: "emits is_get api (k8sReadDrainState sv name)"
  by (auto simp: k8sReadDrainState_def read_object_emits list_pods_emits intro!: emits_bind)

text \<open>What a successful list of pods says.\<close>

definition listed :: "kube_api \<Rightarrow> server \<Rightarrow> gostring \<Rightarrow> pod_item \<Rightarrow> bool" where
  "listed api sv name p \<longleftrightarrow>
     (\<exists>log status body ps. api log (get_request sv (pods_url sv name)) = Response 200 status body \<and>
        decode_pods body = Some ps \<and> p \<in> set ps \<and> evictable p)"

lemma list_pods_gives: "gives api (listDrainPods sv name) pods \<Longrightarrow> list_all (listed api sv name) pods"
  by (auto simp: listDrainPods_def listed_def list_all_iff gives_send
      dest!: gives_bind split: if_splits http_response.splits option.splits) metis

section \<open>Writes\<close>

definition target_url :: "server \<Rightarrow> executor_context \<Rightarrow> gostring + gostring" where
  "target_url sv ctx = k8sObjectURL (sv_k8sHost sv) (to_lower (trim_space (xc_ResourceType ctx)))
     (trim_space (xc_Namespace ctx)) (xc_TargetName ctx)"

text \<open>The body of a patch names the version of the target as a precondition.\<close>

definition carries_version :: "gostring \<Rightarrow> gostring \<Rightarrow> bool" where
  "carries_version rv body \<longleftrightarrow> trim_space rv = [] \<or>
     (\<exists>fs ms. json_parse body = Some (JObj fs) \<and> map_of fs ''metadata'' = Some (JObj ms) \<and>
        map_of ms ''resourceVersion'' = Some (JStr (trim_space rv)))"

text \<open>
  A write that the context allows: a patch of the target, the deletion or eviction of the target, or
  the eviction of a pod that the API has listed for the node that is drained.
\<close>

definition guarded_write :: "kube_api \<Rightarrow> server \<Rightarrow> executor_context \<Rightarrow> gostring \<Rightarrow> http_request \<Rightarrow> bool" where
  "guarded_write api sv ctx rv q \<longleftrightarrow>
     (hq_method q = ''PATCH'' \<and> target_url sv ctx = Inr (hq_url q) \<and> hq_ifMatch q = if_match rv \<and>
        carries_version rv (hq_body q)) \<or>
     (\<exists>url g v. xc_Operation ctx = ''delete_pod'' \<and> target_url sv ctx = Inr url \<and> version_or_zero rv = Inr v \<and>
        q = mutation sv ''DELETE'' url (deleteOptionsPayload ctx g v) ''application/json'' []) \<or>
     (\<exists>g v. xc_Operation ctx = ''evict_pod'' \<and> version_or_zero rv = Inr v \<and>
        q = mutation sv ''POST'' (eviction_url sv (trim_space (xc_Namespace ctx)) (xc_TargetName ctx))
              (eviction_payload (deleteOptionsPayload ctx g v) (trim_space (xc_Namespace ctx)) (xc_TargetName ctx))
              ''application/json'' []) \<or>
     (\<exists>p url v. xc_Operation ctx = ''drain'' \<and> listed api sv (xc_TargetName ctx) p \<and>
        k8sObjectURL (sv_k8sHost sv) ''pod'' (pi_Namespace p) (pi_Name p) = Inr url \<and>
        version_or_zero (pi_ResourceVersion p) = Inr v \<and>
        q = mutation sv ''POST'' (policy_url url)
              (eviction_payload (deleteOptionsPayload (pod_context p) 30 v) (pi_Namespace p) (pi_Name p)) ''application/json'' [])"

subsection \<open>The JSON of the payloads\<close>

lemma json_depth_Obj: "json_depth (JObj fs) \<le> Suc d \<longleftrightarrow> (\<forall>p\<in>set fs. json_depth (snd p) \<le> d)"
  by (auto simp: fold_max_le)

lemma json_wf_Obj: "json_wf (JObj fs) \<longleftrightarrow> (\<forall>p\<in>set fs. json_wf (snd p))"
  by (auto simp: list_all_iff)

lemma map_of_obj_put: "map_of (obj_put k v m) = (map_of m)(k \<mapsto> v)"
  by (induction k v m rule: obj_put.induct) auto

lemma parse_object:
  "json_wf (JObj fs) \<Longrightarrow> json_depth (JObj fs) \<le> 9000 \<Longrightarrow> json_parse (json_text (JObj fs)) = Some (JObj fs)"
  by (rule json_parse_text) (simp_all add: max_depth_def del: json_text.simps json_wf.simps json_depth.simps)

lemma dec_nat_lead: "n \<noteq> 0 \<Longrightarrow> hd (dec_nat n) \<noteq> CHR ''0''"
proof (induction n rule: dec_nat.induct)
  case (1 n)
  show ?case
  proof (cases "n < 10")
    case True
    then have "n \<in> set [1..<10]" using 1(2) by simp
    moreover have "\<forall>k\<in>set [1..<10]. char_of (48 + k) \<noteq> CHR ''0''" by code_simp
    ultimately show ?thesis using True by (subst dec_nat.simps) simp
  next
    case False
    then have "n div 10 \<noteq> 0" by simp
    with 1(1) [OF False] digits_dec_nat [of "n div 10"] False show ?thesis by (subst dec_nat.simps) simp
  qed
qed

lemma json_number_dec_nat: "num_int (dec_nat n) = Some (dec_nat n, [])"
proof (cases "n = 0")
  case True
  have "dec_nat 0 = ''0''" by code_simp
  with True show ?thesis by (simp add: num_int_def)
next
  case False
  from digits_dec_nat [of n] dec_nat_lead [OF False] obtain c s where "dec_nat n = c # s" "c \<noteq> CHR ''0''"
    "list_all is_digit (c # s)"
    by (cases "dec_nat n") auto
  then show ?thesis by (simp add: num_int_def take_digits_def Let_def list_all_iff takeWhile_eq_all_conv [THEN iffD2])
qed

lemma json_number_dec_int: "json_number (dec_int v)"
proof -
  have "num_frac [] = Some ([], [])" "num_exp [] = Some ([], [])"
    by (simp_all add: num_frac_def num_exp_def num_sign_def)
  moreover have "num_sign ''-'' (dec_nat n) = ([], dec_nat n)" for n
    using digits_dec_nat [of n] is_digit_num by (cases "dec_nat n") (auto simp: num_sign_def)
  ultimately show ?thesis
    by (simp add: json_number_def num_lit_def dec_int_def json_number_dec_nat) (simp add: num_sign_def json_number_dec_nat)
qed

lemma annotations_wf: "json_wf (annotations_json m) \<and> json_depth (annotations_json m) \<le> 3"
proof -
  have "json_depth (JObj (map (apsnd JStr) m)) \<le> Suc 0" unfolding json_depth_Obj by auto
  then show ?thesis
    by (simp add: annotations_json_def list_all_iff del: json_depth.simps) (simp add: numeral_3_eq_3 json_depth_Obj del: json_depth.simps)
qed

lemma unschedulable_wf: "json_wf (unschedulable_json b) \<and> json_depth (unschedulable_json b) \<le> 3"
  by (simp add: unschedulable_json_def)

lemma buildPatchPayload_json:
  assumes "buildPatchPayload ctx = Inr p"
  obtains fs where "p = json_text (JObj fs)" "json_wf (JObj fs)" "json_depth (JObj fs) \<le> 3"
proof -
  have "\<exists>j. (\<exists>fs. j = JObj fs) \<and> p = json_text j \<and> json_wf j \<and> json_depth j \<le> 3"
  proof -
    have "(\<exists>m. p = json_text (annotations_json m)) \<or> (\<exists>b. p = json_text (unschedulable_json b)) \<or>
        (\<exists>v. p = json_text (JObj [(''spec'', JObj [(''replicas'', JNum (dec_int v))])]))"
      using assms by (auto simp: buildPatchPayload_def Let_def simp del: json_text.simps split: if_splits option.splits)
    moreover have "json_wf (JObj [(''spec'', JObj [(''replicas'', JNum (dec_int v))])])" for v
      by (simp add: json_number_dec_int)
    ultimately show ?thesis
      using annotations_wf unschedulable_wf
      by (elim disjE exE) (auto simp: annotations_json_def unschedulable_json_def simp del: json_text.simps json_wf.simps; fastforce)+
  qed
  with that show ?thesis by blast
qed

text \<open>The payload with its precondition.\<close>

definition versioned :: "gostring \<Rightarrow> (gostring \<times> json) list \<Rightarrow> (gostring \<times> json) list \<Rightarrow> json" where
  "versioned rv md fs = JObj (obj_put ''metadata'' (JObj (obj_put ''resourceVersion'' (JStr (trim_space rv)) md)) fs)"

lemma versioned_wf:
  assumes "\<forall>p\<in>set fs. json_wf (snd p) \<and> json_depth (snd p) \<le> 10"
    and "\<forall>p\<in>set md. json_wf (snd p) \<and> json_depth (snd p) \<le> 9"
  shows "json_wf (versioned rv md fs)" and "json_depth (versioned rv md fs) \<le> 9000"
proof -
  let ?md = "obj_put ''resourceVersion'' (JStr (trim_space rv)) md"
  have md: "\<forall>p\<in>set ?md. json_wf (snd p) \<and> json_depth (snd p) \<le> 9"
    using set_obj_put [of "''resourceVersion''" "JStr (trim_space rv)" md] assms(2) by auto
  then have "json_wf (JObj ?md) \<and> json_depth (JObj ?md) \<le> Suc 9"
    unfolding json_wf_Obj json_depth_Obj by blast
  then have fs: "\<forall>p\<in>set (obj_put ''metadata'' (JObj ?md) fs). json_wf (snd p) \<and> json_depth (snd p) \<le> Suc 9"
    using set_obj_put [of "''metadata''" "JObj ?md" fs] assms(1) by fastforce
  then show "json_wf (versioned rv md fs)" unfolding versioned_def json_wf_Obj by blast
  have "json_depth (versioned rv md fs) \<le> Suc (Suc 9)"
    using fs unfolding versioned_def json_depth_Obj by blast
  then show "json_depth (versioned rv md fs) \<le> 9000" by simp
qed

lemma precondition_carried:
  assumes p: "addResourceVersionPrecondition (json_text (JObj fs)) rv = Inr p"
    and fs: "json_wf (JObj fs)" "json_depth (JObj fs) \<le> 3"
  shows "carries_version rv p"
proof (cases "trim_space rv = []")
  case False
  have parse: "json_parse (json_text (JObj fs)) = Some (JObj fs)" by (rule parse_object) (use fs in \<open>auto simp del: json_depth.simps json_wf.simps\<close>)
  have small: "\<forall>q\<in>set (go_map fs). json_wf (snd q) \<and> json_depth (snd q) \<le> 2"
    using fs set_go_map [of fs] unfolding json_wf_Obj numeral_3_eq_3 json_depth_Obj numeral_2_eq_2 by blast
  from p False parse obtain md where md: "md = [] \<or> (\<exists>ms. map_of (go_map fs) ''metadata'' = Some (JObj ms) \<and> md = go_map ms)"
    and pt: "p = json_text (versioned rv md (go_map fs))"
    by (auto simp: addResourceVersionPrecondition_def versioned_def simp del: json_text.simps
        split: sum.splits option.splits json.splits)
  have "\<forall>q\<in>set md. json_wf (snd q) \<and> json_depth (snd q) \<le> 1"
  proof (cases "md = []")
    case False
    with md obtain ms where ms: "map_of (go_map fs) ''metadata'' = Some (JObj ms)" "md = go_map ms" by auto
    have "json_wf (JObj ms) \<and> json_depth (JObj ms) \<le> Suc 1"
      using small map_of_SomeD [OF ms(1)] by fastforce
    then show ?thesis using set_go_map [of ms] unfolding ms(2) json_wf_Obj json_depth_Obj by blast
  qed simp
  with small have "json_wf (versioned rv md (go_map fs))" "json_depth (versioned rv md (go_map fs)) \<le> 9000"
    by (intro versioned_wf; fastforce)+
  from parse_object [OF this [unfolded versioned_def]] show ?thesis
    by (simp add: carries_version_def pt versioned_def map_of_obj_put del: json_text.simps)
qed (simp add: carries_version_def)

lemma mutation_fields [simp]:
  "hq_method (mutation sv m u b c v) = m" "hq_url (mutation sv m u b c v) = u" "hq_body (mutation sv m u b c v) = b"
  "hq_ifMatch (mutation sv m u b c v) = if_match v"
  by (simp_all add: mutation_def)

lemma do_mutation_emits: "P (mutation sv m u b c v) \<Longrightarrow> emits P api (doK8sMutation sv m u b c v)"
  by (auto simp: doK8sMutation_def intro!: emits_bind emits_response)

definition allowed_request :: "kube_api \<Rightarrow> server \<Rightarrow> executor_context \<Rightarrow> gostring \<Rightarrow> http_request \<Rightarrow> bool" where
  "allowed_request api sv ctx rv q \<longleftrightarrow> is_get q \<or> guarded_write api sv ctx rv q"

lemma target_rt:
  "to_lower (trim_space (xc_ResourceType ctx)) = rt \<Longrightarrow>
   target_url sv ctx = k8sObjectURL (sv_k8sHost sv) rt (trim_space (xc_Namespace ctx)) (xc_TargetName ctx)"
  by (simp add: target_url_def)

lemma allowed_delete:
  "xc_Operation ctx = ''delete_pod'' \<Longrightarrow> target_url sv ctx = Inr url \<Longrightarrow> version_or_zero rv = Inr v \<Longrightarrow>
   allowed_request api sv ctx rv (mutation sv ''DELETE'' url (deleteOptionsPayload ctx g v) ''application/json'' [])"
  unfolding allowed_request_def guarded_write_def by blast

lemma allowed_evict:
  "xc_Operation ctx = ''evict_pod'' \<Longrightarrow> version_or_zero rv = Inr v \<Longrightarrow>
   allowed_request api sv ctx rv (mutation sv ''POST'' (eviction_url sv (trim_space (xc_Namespace ctx)) (xc_TargetName ctx))
     (eviction_payload (deleteOptionsPayload ctx g v) (trim_space (xc_Namespace ctx)) (xc_TargetName ctx)) ''application/json'' [])"
  unfolding allowed_request_def guarded_write_def by blast

lemma allowed_patch:
  "target_url sv ctx = Inr url \<Longrightarrow> carries_version rv b \<Longrightarrow>
   allowed_request api sv ctx rv (mutation sv ''PATCH'' url b c rv)"
  unfolding allowed_request_def guarded_write_def by simp

lemma delete_emits:
  "xc_Operation ctx = ''delete_pod'' \<Longrightarrow>
   emits (allowed_request api sv ctx rv) api (deletePod sv ctx (trim_space (xc_Namespace ctx)) (xc_TargetName ctx) rv)"
  unfolding deletePod_def
  by (auto intro!: emits_bind do_mutation_emits allowed_delete simp: target_rt)

lemma evict_emits:
  "xc_Operation ctx = ''evict_pod'' \<Longrightarrow>
   emits (allowed_request api sv ctx rv) api (evictPod sv ctx (trim_space (xc_Namespace ctx)) (xc_TargetName ctx) rv)"
  unfolding evictPod_def
  by (auto intro!: emits_bind do_mutation_emits allowed_evict)

lemma pod_grace: "buildGracePeriod (pod_context p) = Inr 30"
  by code_simp

lemma drain_pods_emits:
  assumes "xc_Operation ctx = ''drain''"
  shows "list_all (listed api sv (xc_TargetName ctx)) ps \<Longrightarrow> emits (allowed_request api sv ctx rv) api (drain_pods sv ps)"
proof (induction ps)
  case (Cons p ps)
  then have p: "listed api sv (xc_TargetName ctx) p" by simp
  have "emits (allowed_request api sv ctx rv) api (evictPodWithContext sv (pod_context p))"
    unfolding evictPodWithContext_def pod_grace
  proof (intro emits_bind do_mutation_emits emits_ret, goal_cases)
    case (1 g u v)
    then have "g = 30" "k8sObjectURL (sv_k8sHost sv) ''pod'' (pi_Namespace p) (pi_Name p) = Inr u"
      "version_or_zero (pi_ResourceVersion p) = Inr v" by (simp_all add: pod_context_def)
    with p assms show ?case
      unfolding allowed_request_def guarded_write_def by (auto simp: pod_context_def)
  qed
  with Cons show ?case by (auto intro!: emits_bind)
qed simp

lemma scope_node_ns:
  assumes "validateCanonicalTarget rt ns name = None" "to_lower (trim_space rt) = ''node''"
  shows "trim_space ns = []"
  using assms by (auto simp: validateCanonicalTarget_def validateResourceScope_def Let_def split: if_splits option.splits)

lemma drain_emits:
  assumes op: "xc_Operation ctx = ''drain''"
    and ok: "validateCanonicalTarget (xc_ResourceType ctx) (xc_Namespace ctx) (xc_TargetName ctx) = None"
  shows "emits (allowed_request api sv ctx rv) api (drainNode sv ctx rv (xc_TargetName ctx))"
proof (cases "to_lower (trim_space (xc_ResourceType ctx)) = ''node''")
  case True
  have url: "target_url sv ctx = k8sObjectURL (sv_k8sHost sv) ''node'' [] (xc_TargetName ctx)"
    using True scope_node_ns [OF ok True] by (simp add: target_url_def)
  have pods: "emits (allowed_request api sv ctx rv) api (listDrainPods sv (xc_TargetName ctx))"
    using list_pods_emits by (rule emits_mono) (simp add: allowed_request_def)
  have carried: "carries_version rv p"
    if "addResourceVersionPrecondition (json_text (unschedulable_json True)) rv = Inr p" for p
    using precondition_carried [OF that [unfolded unschedulable_json_def]] unschedulable_wf [of True]
    unfolding unschedulable_json_def by blast
  show ?thesis
    unfolding drainNode_def using True
    by (auto intro!: emits_bind pods do_mutation_emits allowed_patch drain_pods_emits [OF op] list_pods_gives carried simp: url)
qed (simp add: drainNode_def)

lemma patch_object_emits: "emits (allowed_request api sv ctx rv) api (patch_object sv ctx rv)"
proof -
  have carried: "carries_version rv p'"
    if "buildPatchPayload ctx = Inr p" "addResourceVersionPrecondition p rv = Inr p'" for p p'
    using that by (metis buildPatchPayload_json precondition_carried)
  show ?thesis
    unfolding patch_object_def
    by (auto intro!: emits_bind emits_response allowed_patch carried simp: target_url_def)
qed

lemma patchTarget_emits: "emits (allowed_request api sv ctx rv) api (patchTarget sv ctx rv)"
  by (auto simp: patchTarget_def Let_def delete_emits evict_emits drain_emits patch_object_emits split: option.splits)

section \<open>Every write rests on a signed and unchanged target\<close>

definition target_confirmed :: "kube_api \<Rightarrow> server \<Rightarrow> executor_context \<Rightarrow> http_request \<Rightarrow> gostring \<Rightarrow> bool" where
  "target_confirmed api sv ctx q rv \<longleftrightarrow>
     (\<exists>url status body ob. target_url sv ctx = Inr url \<and> q = get_request sv url \<and> api [] q = Response 200 status body \<and>
        decode_object body = Some ob \<and> ob_UID ob = xc_TargetUID ctx \<and> ob_ResourceVersion ob = rv \<and>
        (xc_ResourceVersion ctx = [] \<or> rv = xc_ResourceVersion ctx))"

lemma read_object_Inr:
  assumes "k8sReadObjectState sv rt ns name api log = (Inr ob, log')"
  obtains url status body where "k8sObjectURL (sv_k8sHost sv) rt ns name = Inr url" "log' = log @ [get_request sv url]"
    "api log (get_request sv url) = Response 200 status body" "decode_object body = Some ob"
proof (cases "k8sObjectURL (sv_k8sHost sv) rt ns name")
  case (Inl e)
  with assms show ?thesis by (simp add: k8sReadObjectState_def split: if_splits)
next
  case (Inr url)
  with assms that show ?thesis
    by (auto simp: k8sReadObjectState_def split: if_splits http_response.splits option.splits)
qed

lemma read_current_confirmed:
  assumes "readCurrentState sv ctx api [] = (Inr (uid, rv, False), log)" "sv_k8sEnabled sv"
  obtains q where "log = [q]" "target_confirmed api sv ctx q rv"
proof -
  from assms obtain ob where
    r: "k8sReadObjectState sv (to_lower (trim_space (xc_ResourceType ctx))) (trim_space (xc_Namespace ctx))
          (xc_TargetName ctx) api [] = (Inr ob, log)"
    and ob: "ob_UID ob = xc_TargetUID ctx" "rv = ob_ResourceVersion ob"
      "xc_ResourceVersion ctx = [] \<or> ob_ResourceVersion ob = xc_ResourceVersion ctx"
    by (auto simp: readCurrentState_def kbind_eq_Inr split: if_splits option.splits)
  from read_object_Inr [OF r] ob that show ?thesis
    unfolding target_confirmed_def target_url_def by (metis append_Nil)
qed

lemma read_current_emits: "emits is_get api (readCurrentState sv ctx)"
  by (auto simp: readCurrentState_def read_object_emits intro!: emits_bind split: option.splits)

text \<open>The handlers, one layer at a time.\<close>

lemma execute_target_writes:
  assumes "execute_target env sv ctx = (rep, log, sv')" "q \<in> set log" "\<not> is_get q"
  shows "sv_mode sv = ModeApproved \<and> sv_k8sEnabled sv \<and>
    (\<exists>g rest rv. log = g # rest \<and> target_confirmed (xe_kube env) sv ctx g rv \<and> guarded_write (xe_kube env) sv ctx rv q)"
proof -
  obtain r l where read: "readCurrentState sv ctx (xe_kube env) [] = (r, l)" by fastforce
  have gets: "list_all is_get l" using emitsD [OF read_current_emits read] by auto
  have not_l: "log \<noteq> l" and not_nil: "log \<noteq> []" using gets assms(2,3) by (auto simp: list_all_iff)
  obtain uid rv where r: "r = Inr (uid, rv, False)"
    and m: "execute_mutation env sv ctx uid rv l = (rep, log, sv')"
    using assms(1) not_l not_nil read by (auto simp: execute_target_def split: option.splits sum.splits if_splits)
  obtain pr l' where p: "patchTarget sv ctx rv (xe_kube env) l = (pr, l')" by fastforce
  have mode: "sv_mode sv = ModeApproved" "sv_k8sEnabled sv" and log: "log = l'"
    using m not_l p by (auto simp: execute_mutation_def Let_def split: if_splits sum.splits)
  obtain g where g: "l = [g]" "target_confirmed (xe_kube env) sv ctx g rv"
    using read_current_confirmed [OF read [unfolded r] mode(2)] by blast
  obtain ext where ext: "l' = l @ ext" "list_all (allowed_request (xe_kube env) sv ctx rv) ext"
    using emitsD [OF patchTarget_emits p] by blast
  have "allowed_request (xe_kube env) sv ctx rv q"
    using ext assms(2,3) gets log by (auto simp: list_all_iff)
  with assms(3) have "guarded_write (xe_kube env) sv ctx rv q" by (simp add: allowed_request_def)
  with mode g ext log show ?thesis by auto
qed

lemma with_credential_fields:
  "with_credential env sv ctx = Inr sv1 \<Longrightarrow> sv_mode sv1 = sv_mode sv \<and> sv_k8sEnabled sv1 = sv_k8sEnabled sv \<and>
     sv_k8sHost sv1 = sv_k8sHost sv"
  by (auto simp: with_credential_def split: if_splits sum.splits)

lemma execute_context_writes:
  assumes "execute_context env sv ctx = (rep, log, sv')" "q \<in> set log" "\<not> is_get q"
  obtains sv1 g rest rv where "sv_mode sv = ModeApproved" "sv_k8sEnabled sv" "with_credential env sv ctx = Inr sv1"
    "log = g # rest" "target_confirmed (xe_kube env) sv1 ctx g rv" "guarded_write (xe_kube env) sv1 ctx rv q"
proof -
  obtain sv1 sv2 where sv1: "with_credential env sv ctx = Inr sv1" and t: "execute_target env sv1 ctx = (rep, log, sv2)"
    using assms(1,2) by (auto simp: execute_context_def split: option.splits if_splits sum.splits prod.splits)
  from execute_target_writes [OF t assms(2,3)] with_credential_fields [OF sv1] that sv1 show ?thesis by auto
qed

lemma reconcile_emits: "emits is_get api (reconcile_read sv req)"
  by (simp add: reconcile_read_def Let_def read_object_emits read_drain_emits)

lemma reconcile_gets:
  assumes "handleReconcile env sv r = (rep, log, sv')"
  shows "list_all is_get log"
proof -
  have t: "list_all is_get l" if "reconcile_target env sv1 req = (rp, l, sv2)" for sv1 req rp l sv2
    using that reconcile_emits [of "xe_kube env" sv1 req]
    by (auto simp: reconcile_target_def emits_def split: if_splits prod.splits) (metis append_Nil snd_conv)
  show ?thesis
    using assms t
    by (auto simp: handleReconcile_def reconcile_request_def split: option.splits if_splits sum.splits prod.splits)
qed

lemma executor_auth_signed:
  assumes "executor_auth what denied env sv r body = None" "sv_verifyKeyB64 sv \<noteq> []"
  obtains sg pub where "hex_decode (er_signature r) = Some sg" "b64_decode (sv_verifyKeyB64 sv) = Some pub"
    "length pub = 32" "je_verify (xe_jws env) pub (je_sha (xe_jws env) body) sg"
  using assms that
  by (auto simp: executor_auth_def verifySignedContext_def split: sig_check.splits if_splits option.splits)

lemma served_writes:
  assumes "executor_serve env sv r = (rep, log, sv')" "q \<in> set log" "\<not> is_get q"
  shows "er_verified r \<and> handleExecute env sv r = (rep, log, sv')"
proof -
  have v: "er_verified r \<or> \<not> has_prefix (er_path r) ''/v1/''" and m: "executor_mux env sv r = (rep, log, sv')"
    using assms(1,2) by (auto simp: executor_serve_def requireMTLS_def split: if_splits)
  have "er_path r = ''/v1/executor/execute''" and "handleExecute env sv r = (rep, log, sv')"
    using m assms(2,3) reconcile_gets [of env sv r rep log sv']
    by (auto simp: executor_mux_def list_all_iff split: if_splits)
  with v show ?thesis by (simp add: has_prefix_def)
qed


section \<open>Reconciliation\<close>

lemma desired_true:
  assumes "reconcile_observed env sv req r = (JsonReply code res, sv')" "ar_Status res = ''applied''"
  shows "(\<exists>ob. r = Inr ob \<and> ob_UID ob = rr_TargetUID req \<and> desiredStateMatches req ob = Inr True) \<or>
    (\<exists>rt name. r = Inl (KubeNotFound rt name) \<and> rr_Operation req \<in> {''delete_pod'', ''evict_pod''})"
proof (cases r)
  case (Inl e)
  with assms show ?thesis
    by (cases e) (auto simp: reconcile_observed_def reconcile_result_def Let_def split: if_splits)
next
  case (Inr ob)
  with assms show ?thesis
    by (auto simp: reconcile_observed_def reconcile_result_def Let_def split: if_splits sum.splits)
qed


section \<open>The dispatch gate\<close>

lemma gate_loop_ends:
  assumes "deadline < now n"
  shows "i \<le> n \<Longrightarrow> \<exists>g. gate_loop exists now deadline i = Some g \<and> ((\<forall>j. exists j) \<longrightarrow> g = GateTimedOut)"
proof (induction "n - i" arbitrary: i)
  case 0
  then have "i = n" by simp
  with assms show ?case by (subst gate_loop.simps) auto
next
  case (Suc k)
  then have "\<exists>g. gate_loop exists now deadline (Suc i) = Some g \<and> ((\<forall>j. exists j) \<longrightarrow> g = GateTimedOut)"
    by (intro Suc.hyps(1)) auto
  then show ?case by (subst gate_loop.simps) auto
qed

lemma clock_advances: "\<forall>i. now i + 100 \<le> now (Suc i) \<Longrightarrow> now 0 + 100 * int i \<le> now i"
proof (induction i)
  case (Suc i)
  then have "now 0 + 100 * int i \<le> now i" "now i + 100 \<le> now (Suc i)" by auto
  then show ?case by simp
qed simp

text \<open>
  C38.  The gate never holds a handler for ever.  With a clock that advances by the pause of 100
  milliseconds between two polls, \<open>waitForDispatchGate\<close> returns, whatever happens to the gate file; if
  the file is never removed from a gate that applies to the action, the wait ends with the timeout.
\<close>

theorem dispatch_gate_ends:
  assumes "start \<le> now 0" and "\<forall>i. now i + 100 \<le> now (Suc i)"
  shows "(\<exists>g. waitForDispatchGate sv exists now start actionID = Some g) \<and>
    ((\<forall>i. exists i) \<and> sv_dispatchGateActionID sv = actionID \<and> actionID \<noteq> [] \<and> sv_dispatchGateFile sv \<noteq> [] \<longrightarrow>
       waitForDispatchGate sv exists now start actionID = Some GateTimedOut)"
proof -
  have "start + 10 * 60 * 1000 < now 6001"
    using clock_advances [OF assms(2), of 6001] assms(1) by simp
  from gate_loop_ends [where now = now, OF this, of 0 exists] obtain g where
    "gate_loop exists now (start + 10 * 60 * 1000) 0 = Some g" "(\<forall>j. exists j) \<longrightarrow> g = GateTimedOut" by auto
  then show ?thesis by (auto simp: waitForDispatchGate_def)
qed

end
