(* ===== verification/ExecutorApply.thy ===== *)
theory ExecutorApply
  imports ExecutorSafety
begin

text \<open>
  The query API and the executor together: the context that the query API writes and signs is the
  context that the executor reads, and every operation that the preflight of a proposal accepts is
  one that the executor carries out, with the writes that \<open>intended_writes\<close> lists.
\<close>

section \<open>The context on the wire\<close>

definition wire_context :: "ActionExecutionContext \<Rightarrow> executor_context" where
  "wire_context c =
     \<lparr>xc_ActionID = aec_ActionID c, xc_ActionHash = aec_ActionHash c, xc_ApprovalID = aec_ApprovalID c,
      xc_TargetUID = aec_TargetUID c, xc_TargetName = aec_TargetName c, xc_ResourceVersion = aec_ResourceVersion c,
      xc_ClusterID = aec_ClusterID c, xc_ResourceType = aec_ResourceType c, xc_Namespace = aec_Namespace c,
      xc_Operation = aec_Operation c, xc_TargetSpec = json_text (aec_TargetSpec c),
      xc_CredentialRef = aec_CredentialRef c, xc_ApprovedAt = aec_ApprovedAt c, xc_ExecutedBy = aec_ExecutedBy c\<rparr>"

lemma lower_names [simp]:
  "to_lower ''action_id'' = ''action_id''" "to_lower ''action_hash'' = ''action_hash''"
  "to_lower ''approval_id'' = ''approval_id''" "to_lower ''target_uid'' = ''target_uid''"
  "to_lower ''target_name'' = ''target_name''" "to_lower ''resource_version'' = ''resource_version''"
  "to_lower ''cluster_id'' = ''cluster_id''" "to_lower ''resource_type'' = ''resource_type''"
  "to_lower ''namespace'' = ''namespace''" "to_lower ''operation'' = ''operation''"
  "to_lower ''target_spec'' = ''target_spec''" "to_lower ''credential_ref'' = ''credential_ref''"
  "to_lower ''approved_at'' = ''approved_at''" "to_lower ''executed_by'' = ''executed_by''"
  by code_simp+

lemma decode_wire_context:
  assumes "json_wf (aec_TargetSpec c)" "json_depth (aec_TargetSpec c) \<le> 9000"
  shows "decodeContext (json_text (context_json c)) = Some (wire_context c)"
proof -
  obtain fs where fs: "context_json c = JObj fs" "fs = (case context_json c of JObj fs \<Rightarrow> fs | _ \<Rightarrow> [])"
    by (simp add: context_json_def)
  have "json_wf (context_json c)" using assms(1) by (simp add: context_json_def)
  moreover have "json_depth (context_json c) \<le> Suc 9000"
    using assms(2) unfolding context_json_def json_depth_Obj by auto
  then have "json_depth (context_json c) \<le> max_depth" by (simp add: max_depth_def)
  ultimately have "json_members (json_text (context_json c)) = Some (map with_raw fs)"
    unfolding fs(1) by (rule json_members_text)
  moreover have "fs = (case context_json c of JObj fs \<Rightarrow> fs | _ \<Rightarrow> [])" by (rule fs(2))
  ultimately show ?thesis
    by (simp add: decodeContext_def struct_members_def context_json_def with_raw_def context_names_def reconcile_names_def
        dec_str_def last_raw_def wire_context_def del: json_text.simps)
qed

lemma hex_decode_string: "hex_decode (hex_string s) = Some s"
proof (induction s)
  case (Cons c s)
  have "of_char c < (256 :: nat)" by simp
  then have "hex_val (hex_char (of_char c div 16)) = Some (of_char c div 16)"
    "hex_val (hex_char (of_char c mod 16)) = Some (of_char c mod 16)"
    by (simp_all add: hex_val_char less_mult_imp_div_less)
  moreover have "char_of (of_char c div 16 * 16 + of_char c mod 16 :: nat) = c" by (simp add: div_mult_mod_eq)
  ultimately show ?case using Cons by (simp add: hex_string_def)
qed (simp add: hex_string_def)

section \<open>Intended writes\<close>

definition patch_request :: "server \<Rightarrow> gostring \<Rightarrow> gostring \<Rightarrow> (gostring \<times> json) list \<Rightarrow> (gostring \<times> json) list \<Rightarrow> http_request" where
  "patch_request sv url rv md fs = mutation sv ''PATCH'' url (json_text (versioned rv md fs)) merge_patch rv"

definition pod_version :: "pod_item \<Rightarrow> int" where
  "pod_version p = (case version_or_zero (pi_ResourceVersion p) of Inr v \<Rightarrow> v | Inl _ \<Rightarrow> 0)"

definition pod_eviction :: "server \<Rightarrow> pod_item \<Rightarrow> http_request" where
  "pod_eviction sv p = mutation sv ''POST''
     (policy_url (sv_k8sHost sv @ ''/api/v1/namespaces/'' @ PathEscape (pi_Namespace p) @ ''/pods/'' @ PathEscape (pi_Name p)))
     (eviction_payload (deleteOptionsPayload (pod_context p) 30 (pod_version p)) (pi_Namespace p) (pi_Name p))
     ''application/json'' []"

text \<open>
  \<open>n\<close> is the number among the parameters (replicas, grace period or timeout), \<open>v\<close> the resource version
  \<open>rv\<close> as a number.
\<close>

definition intended_writes ::
  "server \<Rightarrow> executor_context \<Rightarrow> gostring \<Rightarrow> gostring \<Rightarrow> int \<Rightarrow> int \<Rightarrow> pod_item list \<Rightarrow> http_request list" where
  "intended_writes sv ctx url rv v n pods =
     (let op = xc_Operation ctx; ns = trim_space (xc_Namespace ctx); name = xc_TargetName ctx in
      if op = ''scale'' then [patch_request sv url rv [] [(''spec'', JObj [(''replicas'', JNum (dec_int n))])]]
      else if op = ''rollout_restart''
      then [patch_request sv url rv
              [(''annotations'', JObj [(''aiops.observability.io/restartedAt'', JStr ''requested'')])] []]
      else if op = ''cordon'' then [patch_request sv url rv [] [(''spec'', JObj [(''unschedulable'', JBool True)])]]
      else if op = ''uncordon'' then [patch_request sv url rv [] [(''spec'', JObj [(''unschedulable'', JBool False)])]]
      else if op = ''delete_pod'' then [mutation sv ''DELETE'' url (deleteOptionsPayload ctx n v) ''application/json'' []]
      else if op = ''evict_pod''
      then [mutation sv ''POST'' (eviction_url sv ns name) (eviction_payload (deleteOptionsPayload ctx n v) ns name) ''application/json'' []]
      else get_request sv (pods_url sv name) #
           patch_request sv url rv [] [(''spec'', JObj [(''unschedulable'', JBool True)])] # map (pod_eviction sv) pods)"

section \<open>Parameters that the preflight accepts\<close>

lemma only_int_param_Inr:
  assumes "only_int_param name mn mx msg obj = Inr j"
  obtains lit n where "obj = [(name, JNum lit)]" "j = JObj [(name, JNum lit)]" "ParseInt lit = Some n" "mn \<le> n" "n \<le> mx"
  using assms that
  by (auto simp: only_int_param_def validateIntegerRange_def split: list.splits prod.splits if_splits option.splits json.splits)

text \<open>The number among the parameters of an operation.\<close>

definition param_number :: "json \<Rightarrow> int" where
  "param_number spec = (case spec of
      JObj [(_, JNum lit)] \<Rightarrow> (case ParseInt lit of Some n \<Rightarrow> n | None \<Rightarrow> 0)
    | _ \<Rightarrow> 0)"

lemma canonical_int_spec:
  assumes "canonicalizeActionParams op params = Inr spec"
    and "(op, name, mn, mx) \<in> {(''scale'', ''replicas'', 0, 10000), (''delete_pod'', ''grace_period_seconds'', 0, 600),
      (''evict_pod'', ''grace_period_seconds'', 0, 600), (''drain'', ''drain_timeout'', 1, 3600)}"
  obtains lit n where "spec = JObj [(name, JNum lit)]" "ParseInt lit = Some n" "mn \<le> n" "n \<le> mx" "param_number spec = n"
proof -
  obtain msg obj where "only_int_param name mn mx msg obj = Inr spec"
    using assms by (auto simp: canonicalizeActionParams_def Let_def split: json.splits option.splits)
  then obtain lit n where "spec = JObj [(name, JNum lit)]" "ParseInt lit = Some n" "mn \<le> n" "n \<le> mx"
    by (rule only_int_param_Inr)
  with that show ?thesis by (simp add: param_number_def)
qed

lemma int_spec_parses:
  assumes "json_wf (JObj [(name, JNum lit)])"
  shows "json_parse (json_text (JObj [(name, JNum lit)])) = Some (JObj [(name, JNum lit)])"
  by (rule parse_object [OF assms]) simp

lemma json_text_nonempty: "json_text (JObj fs) \<noteq> []"
  by simp

lemma strict_int_spec:
  assumes "json_wf (JObj [(name, JNum lit)])" "ParseInt lit = Some n" "to_lower name = name"
  shows "strict_int name (json_text (JObj [(name, JNum lit)])) = Some n"
  using int_spec_parses [OF assms(1)] assms(2,3)
  by (simp add: strict_int_def dec_struct_def json_text_nonempty del: json_text.simps)

lemma scale_replicas_spec:
  assumes "json_wf (JObj [(''replicas'', JNum lit)])" "ParseInt lit = Some n" "0 \<le> n" "n \<le> 10000"
  shows "scale_replicas (json_text (JObj [(''replicas'', JNum lit)])) = n"
proof -
  have "to_lower ''replicas'' = ''replicas''" by code_simp
  moreover have "int32_lit lit = Some n" using assms(2-4) by (simp add: int32_lit_def)
  ultimately show ?thesis
    using int_spec_parses [OF assms(1)]
    by (simp add: scale_replicas_def dec_replicas_def json_text_nonempty del: json_text.simps)
qed

section \<open>Running an operation\<close>

definition accepting :: "kube_api \<Rightarrow> bool" where
  "accepting api \<longleftrightarrow> (\<forall>log q. \<not> is_get q \<longrightarrow> (\<exists>status body. api log q = Response 200 status body))"

lemma mutation_not_get: "m \<in> {''PATCH'', ''POST'', ''DELETE''} \<Longrightarrow> \<not> is_get (mutation sv m u b c v)"
  by (auto simp: is_get_def)

lemma do_mutation_run:
  assumes "accepting api" "m \<in> {''PATCH'', ''POST'', ''DELETE''}"
  shows "doK8sMutation sv m u b c v api log = (Inr (), log @ [mutation sv m u b c v])"
proof -
  obtain status body where "api log (mutation sv m u b c v) = Response 200 status body"
    using assms mutation_not_get unfolding accepting_def by blast
  then show ?thesis by (simp add: doK8sMutation_def)
qed

lemma version_parsed:
  assumes "parseResourceVersion rv = Inr v"
  shows "trim_space rv \<noteq> []" "rv \<noteq> []" "version_or_zero rv = Inr v"
proof -
  have "ParseInt [] = None" by (simp add: ParseInt_def)
  then show a: "trim_space rv \<noteq> []" using assms by (auto simp: parseResourceVersion_def split: option.splits)
  then show "rv \<noteq> []" by (auto simp: trim_space_def)
  with assms show "version_or_zero rv = Inr v" by (simp add: version_or_zero_def)
qed

lemma go_map_single [simp]: "go_map [(k, v)] = [(k, v)]"
  by (simp add: go_map_def)

lemma add_version_spec:
  assumes "parseResourceVersion rv = Inr v" "json_wf (JObj [(''spec'', x)])" "json_depth (JObj [(''spec'', x)]) \<le> 3"
  shows "addResourceVersionPrecondition (json_text (JObj [(''spec'', x)])) rv = Inr (json_text (versioned rv [] [(''spec'', x)]))"
  using assms version_parsed(1) [OF assms(1)] parse_object [OF assms(2)]
  by (simp add: addResourceVersionPrecondition_def versioned_def del: json_text.simps json_depth.simps)

lemma add_version_metadata:
  assumes "parseResourceVersion rv = Inr v" "json_wf (JObj [(''metadata'', JObj [(k, x)])])"
    "json_depth (JObj [(''metadata'', JObj [(k, x)])]) \<le> 3"
  shows "addResourceVersionPrecondition (json_text (JObj [(''metadata'', JObj [(k, x)])])) rv =
    Inr (json_text (versioned rv [(k, x)] []))"
  using assms version_parsed(1) [OF assms(1)] parse_object [OF assms(2)]
  by (simp add: addResourceVersionPrecondition_def versioned_def del: json_text.simps json_depth.simps)

lemma patch_object_run:
  assumes "accepting api" "target_url sv ctx = Inr url" "buildPatchPayload ctx = Inr p"
    and "addResourceVersionPrecondition p rv = Inr (json_text (versioned rv md fs))"
  shows "patch_object sv ctx rv api log = (Inr (), log @ [patch_request sv url rv md fs])"
proof -
  obtain status body where "api log (patch_request sv url rv md fs) = Response 200 status body"
    using assms(1) mutation_not_get [of "''PATCH''"] unfolding accepting_def patch_request_def by blast
  then show ?thesis
    using assms(2-4) by (simp add: patch_object_def patch_request_def target_url_def)
qed

lemma restart_spec: "spec_annotations (json_text restart_params) = Some [(''aiops.observability.io/restartedAt'', ''requested'')]"
proof -
  have "json_parse (json_text restart_params) = Some restart_params"
    by (rule json_parse_text) (simp_all add: restart_params_def max_depth_def)
  moreover have "dec_struct (\<lambda>k v a. if k = ''metadata''
      then dec_struct (\<lambda>k v a. if k = ''annotations'' then dec_strmap v a else Some a) v a else Some a) restart_params None =
      Some (Some [(''aiops.observability.io/restartedAt'', ''requested'')])"
    by code_simp
  ultimately show ?thesis by (simp add: spec_annotations_def)
qed

lemma restart_text: "json_text restart_params \<notin> {[], ''{}'', ''null''}"
  by code_simp

lemma restart_allowed: "annotation_allowed (''aiops.observability.io/restartedAt'', ''requested'')"
  by code_simp

text \<open>The four operations that patch.\<close>

lemma payload_scale:
  assumes "xc_Operation ctx = ''scale''" "xc_ResourceType ctx = ''deployment'' \<or> xc_ResourceType ctx = ''statefulset''"
    and "xc_TargetSpec ctx = json_text (JObj [(''replicas'', JNum lit)])" "json_wf (JObj [(''replicas'', JNum lit)])"
    and "ParseInt lit = Some n" "0 \<le> n" "n \<le> 10000"
  shows "buildPatchPayload ctx = Inr (json_text (JObj [(''spec'', JObj [(''replicas'', JNum (dec_int n))])]))"
  using assms scale_replicas_spec [OF assms(4-7)] by (auto simp: buildPatchPayload_def Let_def simp del: json_text.simps)

lemma payload_restart:
  assumes "xc_Operation ctx = ''rollout_restart''" "xc_TargetSpec ctx = json_text restart_params"
  shows "buildPatchPayload ctx = Inr (json_text (JObj [(''metadata'', JObj [(''annotations'',
    JObj [(''aiops.observability.io/restartedAt'', JStr ''requested'')])])]))"
  using assms restart_text restart_spec restart_allowed
  by (simp add: buildPatchPayload_def Let_def annotations_json_def del: json_text.simps)

lemma payload_cordon:
  "xc_Operation ctx = ''cordon'' \<Longrightarrow> xc_ResourceType ctx = ''node'' \<Longrightarrow>
     buildPatchPayload ctx = Inr (json_text (JObj [(''spec'', JObj [(''unschedulable'', JBool True)])]))"
  "xc_Operation ctx = ''uncordon'' \<Longrightarrow> xc_ResourceType ctx = ''node'' \<Longrightarrow>
     buildPatchPayload ctx = Inr (json_text (JObj [(''spec'', JObj [(''unschedulable'', JBool False)])]))"
  by (simp_all add: buildPatchPayload_def Let_def unschedulable_json_def del: json_text.simps)

lemma pod_evict_run:
  assumes "accepting api" "evictable p" "version_or_zero (pi_ResourceVersion p) = Inr w"
  shows "evictPodWithContext sv (pod_context p) api log = (Inr (), log @ [pod_eviction sv p])"
proof -
  have "k8sObjectURL (sv_k8sHost sv) ''pod'' (pi_Namespace p) (pi_Name p) =
      Inr (sv_k8sHost sv @ ''/api/v1/namespaces/'' @ PathEscape (pi_Namespace p) @ ''/pods/'' @ PathEscape (pi_Name p))"
  proof -
    have "to_lower (trim_space ''pod'') = ''pod''" by code_simp
    with assms(2) show ?thesis by (simp add: k8sObjectURL_def Let_def evictable_def)
  qed
  with assms(3) show ?thesis
    unfolding evictPodWithContext_def pod_grace
    by (simp add: pod_context_def [of p] do_mutation_run [OF assms(1)])
      (simp add: pod_eviction_def pod_version_def pod_context_def)
qed

lemma drain_pods_run:
  assumes "accepting api"
  shows "\<forall>p\<in>set ps. evictable p \<and> (\<exists>w. version_or_zero (pi_ResourceVersion p) = Inr w) \<Longrightarrow>
    drain_pods sv ps api log = (Inr (), log @ map (pod_eviction sv) ps)"
proof (induction ps arbitrary: log)
  case (Cons p ps)
  then obtain w where "evictable p" "version_or_zero (pi_ResourceVersion p) = Inr w" by auto
  from pod_evict_run [OF assms this] Cons show ?case by (simp add: kbind_def kwrap_def)
qed simp

lemma listing_run:
  assumes "name \<noteq> []" "api log (get_request sv (pods_url sv name)) = Response 200 status body" "decode_pods body = Some ps"
  shows "listDrainPods sv name api log = (Inr (filter evictable ps), log @ [get_request sv (pods_url sv name)])"
  using assms by (simp add: listDrainPods_def)

text \<open>The kinds are written in small letters.\<close>

lemma kind_lower:
  assumes "allowed_kind op kind" shows "to_lower (trim_space kind) = kind"
proof -
  have "kind \<in> set [''deployment'', ''statefulset'', ''daemonset'', ''pod'', ''node'']"
    using assms by (auto simp: allowed_kind_def canonicalK8sActionKinds_def split: if_splits)
  moreover have "\<forall>k\<in>set [''deployment'', ''statefulset'', ''daemonset'', ''pod'', ''node'']. to_lower (trim_space k) = k"
    by code_simp
  ultimately show ?thesis by blast
qed

text \<open>
  A target that the query API names: a node without namespace, any other object with one.  The
  answer of Kubernetes to the list of pods matters only for a drain.
\<close>

definition addressed :: "executor_context \<Rightarrow> bool" where
  "addressed ctx \<longleftrightarrow> trim_space (xc_TargetName ctx) \<noteq> [] \<and>
     (if xc_ResourceType ctx = ''node'' then trim_space (xc_Namespace ctx) = [] else trim_space (xc_Namespace ctx) \<noteq> [])"

definition pods_listed :: "kube_api \<Rightarrow> server \<Rightarrow> executor_context \<Rightarrow> pod_item list \<Rightarrow> bool" where
  "pods_listed api sv ctx pods \<longleftrightarrow>
     (\<forall>log. \<exists>status body ps. api log (get_request sv (pods_url sv (xc_TargetName ctx))) = Response 200 status body \<and>
        decode_pods body = Some ps \<and> pods = filter evictable ps) \<and>
     (\<forall>p\<in>set pods. \<exists>w. version_or_zero (pi_ResourceVersion p) = Inr w)"

lemma addressed_valid:
  assumes "addressed ctx" "allowed_kind op (xc_ResourceType ctx)"
  shows "validateCanonicalTarget (xc_ResourceType ctx) (xc_Namespace ctx) (xc_TargetName ctx) = None"
    and "xc_TargetName ctx \<noteq> []" and "\<exists>url. target_url sv ctx = Inr url"
proof -
  have k: "xc_ResourceType ctx \<in> set [''deployment'', ''statefulset'', ''daemonset'', ''pod'', ''node'']"
    using assms(2) by (auto simp: allowed_kind_def canonicalK8sActionKinds_def split: if_splits)
  note l = kind_lower [OF assms(2)]
  have lower2: "to_lower (trim_space (to_lower (trim_space (xc_ResourceType ctx)))) = xc_ResourceType ctx"
    by (simp add: l)
  show n: "xc_TargetName ctx \<noteq> []" using assms(1) by (auto simp: addressed_def trim_space_def)
  show "validateCanonicalTarget (xc_ResourceType ctx) (xc_Namespace ctx) (xc_TargetName ctx) = None"
    using k assms(1) l by (auto simp: validateCanonicalTarget_def validateResourceScope_def addressed_def Let_def)
  show "\<exists>url. target_url sv ctx = Inr url"
    using k assms(1) n unfolding target_url_def k8sObjectURL_def lower2 by (auto simp: addressed_def Let_def)
qed

lemma allowed_cases:
  assumes "allowed_kind op kind"
  shows "op = ''rollout_restart'' \<or> (op = ''scale'' \<and> (kind = ''deployment'' \<or> kind = ''statefulset'')) \<or>
    (op \<in> {''delete_pod'', ''evict_pod''} \<and> kind = ''pod'') \<or> (op \<in> {''cordon'', ''uncordon'', ''drain''} \<and> kind = ''node'')"
  using assms by (auto simp: allowed_kind_def canonicalK8sActionKinds_def split: if_splits)

lemma restart_canonical: "canonicalizeActionParams ''rollout_restart'' params = Inr spec \<Longrightarrow> spec = restart_params"
  by (auto simp: canonicalizeActionParams_def Let_def split: json.splits option.splits if_splits)

lemma grace_lower:
  "to_lower ''grace_period_seconds'' = ''grace_period_seconds''" "to_lower ''drain_timeout'' = ''drain_timeout''"
  "to_lower (trim_space ''delete_pod'') = ''delete_pod''" "to_lower (trim_space ''evict_pod'') = ''evict_pod''"
  "to_lower (trim_space ''drain'') = ''drain''" "to_lower (trim_space ''pod'') = ''pod''" "to_lower (trim_space ''node'') = ''node''"
  by code_simp+

lemma grace_run:
  assumes "xc_Operation ctx \<in> {''delete_pod'', ''evict_pod''}" "xc_TargetSpec ctx = json_text (JObj [(''grace_period_seconds'', JNum lit)])"
    and "json_wf (JObj [(''grace_period_seconds'', JNum lit)])" "ParseInt lit = Some n" "0 \<le> n" "n \<le> 600"
  shows "buildGracePeriod ctx = Inr n"
  using assms strict_int_spec [OF assms(3,4) grace_lower(1)]
  by (auto simp: buildGracePeriod_def grace_lower simp del: json_text.simps)

lemma pod_ops_run:
  assumes "accepting api" "xc_ResourceType ctx = ''pod''" "buildGracePeriod ctx = Inr n" "version_or_zero rv = Inr v"
    "target_url sv ctx = Inr url" "trim_space (xc_Namespace ctx) \<noteq> []"
  shows "deletePod sv ctx (trim_space (xc_Namespace ctx)) (xc_TargetName ctx) rv api log =
      (Inr (), log @ [mutation sv ''DELETE'' url (deleteOptionsPayload ctx n v) ''application/json'' []])"
    and "evictPod sv ctx (trim_space (xc_Namespace ctx)) (xc_TargetName ctx) rv api log =
      (Inr (), log @ [mutation sv ''POST'' (eviction_url sv (trim_space (xc_Namespace ctx)) (xc_TargetName ctx))
         (eviction_payload (deleteOptionsPayload ctx n v) (trim_space (xc_Namespace ctx)) (xc_TargetName ctx)) ''application/json'' []])"
  using assms by (simp_all add: deletePod_def evictPod_def target_url_def grace_lower do_mutation_run)

lemma drain_run:
  assumes acc: "accepting api" and rt: "xc_ResourceType ctx = ''node''" and op: "xc_Operation ctx = ''drain''"
    and spec: "xc_TargetSpec ctx = json_text (JObj [(''drain_timeout'', JNum lit)])" "json_wf (JObj [(''drain_timeout'', JNum lit)])"
      "ParseInt lit = Some n" "1 \<le> n" "n \<le> 3600"
    and url: "target_url sv ctx = Inr url" and ns: "trim_space (xc_Namespace ctx) = []" and name: "xc_TargetName ctx \<noteq> []"
    and rv: "parseResourceVersion rv = Inr v" and pods: "pods_listed api sv ctx pods"
  shows "drainNode sv ctx rv (xc_TargetName ctx) api log =
    (Inr (), log @ get_request sv (pods_url sv (xc_TargetName ctx)) #
       patch_request sv url rv [] [(''spec'', JObj [(''unschedulable'', JBool True)])] # map (pod_eviction sv) pods)"
proof -
  have t: "buildDrainTimeout ctx = Inr n"
    using strict_int_spec [OF spec(2,3) grace_lower(2)] spec rt op
    by (simp add: buildDrainTimeout_def grace_lower del: json_text.simps)
  obtain status body ps where l: "api log (get_request sv (pods_url sv (xc_TargetName ctx))) = Response 200 status body"
    "decode_pods body = Some ps" "pods = filter evictable ps"
    using pods unfolding pods_listed_def by metis
  have pv: "\<forall>p\<in>set pods. evictable p \<and> (\<exists>w. version_or_zero (pi_ResourceVersion p) = Inr w)"
    using pods l(3) unfolding pods_listed_def by auto
  have a: "addResourceVersionPrecondition (json_text (unschedulable_json True)) rv =
      Inr (json_text (versioned rv [] [(''spec'', JObj [(''unschedulable'', JBool True)])]))"
    unfolding unschedulable_json_def by (rule add_version_spec [OF rv]) simp_all
  have u: "k8sObjectURL (sv_k8sHost sv) ''node'' [] (xc_TargetName ctx) = Inr url"
    using url ns rt by (simp add: target_url_def grace_lower)
  show ?thesis
    using listing_run [where api = api and log = log and sv = sv, OF name l(1,2)] rt
    by (simp add: drainNode_def grace_lower t kbind_Inr a u do_mutation_run [OF acc]
        drain_pods_run [OF acc pv] patch_request_def flip: l(3) del: json_text.simps)
qed

lemma patchTarget_run:
  assumes acc: "accepting api" and kind: "allowed_kind (xc_Operation ctx) (xc_ResourceType ctx)" and addr: "addressed ctx"
    and canon: "canonicalizeActionParams (xc_Operation ctx) params = Inr spec" and wf: "json_wf spec"
    and raw: "xc_TargetSpec ctx = json_text spec" and url: "target_url sv ctx = Inr url" and on: "sv_k8sEnabled sv"
    and rv: "parseResourceVersion rv = Inr v" and pods: "xc_Operation ctx = ''drain'' \<longrightarrow> pods_listed api sv ctx pods"
  shows "patchTarget sv ctx rv api log = (Inr (), log @ intended_writes sv ctx url rv v (param_number spec) pods)"
proof -
  note valid = addressed_valid [OF addr kind]
  note ver = version_parsed [OF rv]
  have start: "patchTarget sv ctx rv =
      (if xc_Operation ctx = ''delete_pod'' then deletePod sv ctx (trim_space (xc_Namespace ctx)) (xc_TargetName ctx) rv
       else if xc_Operation ctx = ''evict_pod'' then evictPod sv ctx (trim_space (xc_Namespace ctx)) (xc_TargetName ctx) rv
       else if xc_Operation ctx = ''drain'' then drainNode sv ctx rv (xc_TargetName ctx)
       else patch_object sv ctx rv)"
    using on valid(1,2) by (simp add: patchTarget_def Let_def)
  show ?thesis
  proof (cases "xc_Operation ctx \<in> {''cordon'', ''uncordon''}")
    case True
    then have rt: "xc_ResourceType ctx = ''node''" using allowed_cases [OF kind] by auto
    have a: "addResourceVersionPrecondition (json_text (JObj [(''spec'', JObj [(''unschedulable'', JBool b)])])) rv =
        Inr (json_text (versioned rv [] [(''spec'', JObj [(''unschedulable'', JBool b)])]))" for b
      by (rule add_version_spec [OF rv]) simp_all
    from True show ?thesis
      using patch_object_run [OF acc url payload_cordon(1) a] patch_object_run [OF acc url payload_cordon(2) a] rt
      by (auto simp: start intended_writes_def Let_def)
  next
    case False
    then consider "xc_Operation ctx = ''rollout_restart''" | "xc_Operation ctx = ''scale''"
      | "xc_Operation ctx \<in> {''delete_pod'', ''evict_pod''}" | "xc_Operation ctx = ''drain''"
      using allowed_cases [OF kind] by auto
    then show ?thesis
    proof cases
      case 1
      have "xc_TargetSpec ctx = json_text restart_params" using raw restart_canonical [OF canon [unfolded 1]] by simp
      from patch_object_run [OF acc url payload_restart [OF 1 this] add_version_metadata [OF rv]] 1
      show ?thesis by (simp add: start intended_writes_def Let_def)
    next
      case 2
      obtain lit n where s: "spec = JObj [(''replicas'', JNum lit)]" "ParseInt lit = Some n" "0 \<le> n" "n \<le> 10000" "param_number spec = n"
        by (rule canonical_int_spec [OF canon, of "''replicas''" 0 10000]) (auto simp: 2)
      have p: "buildPatchPayload ctx = Inr (json_text (JObj [(''spec'', JObj [(''replicas'', JNum (dec_int n))])]))"
        by (rule payload_scale) (use 2 s raw wf allowed_cases [OF kind] in \<open>simp_all del: json_text.simps json_wf.simps\<close>)
      from patch_object_run [OF acc url p add_version_spec [OF rv]] 2 s(5)
      show ?thesis by (simp add: start intended_writes_def Let_def json_number_dec_int)
    next
      case 3
      then have rt: "xc_ResourceType ctx = ''pod''" using allowed_cases [OF kind] by auto
      then have ns: "trim_space (xc_Namespace ctx) \<noteq> []" using addr by (simp add: addressed_def)
      obtain lit n where s: "spec = JObj [(''grace_period_seconds'', JNum lit)]" "ParseInt lit = Some n" "0 \<le> n" "n \<le> 600" "param_number spec = n"
        by (rule canonical_int_spec [OF canon, of "''grace_period_seconds''" 0 600]) (use 3 in auto)
      have g: "buildGracePeriod ctx = Inr n"
        by (rule grace_run) (use 3 s raw wf in \<open>simp_all del: json_text.simps json_wf.simps\<close>)
      from pod_ops_run [OF acc rt g ver(3) url ns] 3 s(5) show ?thesis
        by (auto simp: start intended_writes_def Let_def)
    next
      case 4
      then have rt: "xc_ResourceType ctx = ''node''" using allowed_cases [OF kind] by auto
      then have ns: "trim_space (xc_Namespace ctx) = []" using addr by (simp add: addressed_def)
      obtain lit n where s: "spec = JObj [(''drain_timeout'', JNum lit)]" "ParseInt lit = Some n" "1 \<le> n" "n \<le> 3600"
        by (rule canonical_int_spec [OF canon, of "''drain_timeout''" 1 3600]) (auto simp: 4)
      have "drainNode sv ctx rv (xc_TargetName ctx) api log =
        (Inr (), log @ get_request sv (pods_url sv (xc_TargetName ctx)) #
           patch_request sv url rv [] [(''spec'', JObj [(''unschedulable'', JBool True)])] # map (pod_eviction sv) pods)"
        by (rule drain_run [OF acc rt 4 _ _ s(2-4) url ns valid(2) rv]) (use 4 raw wf s(1) pods in \<open>simp_all del: json_text.simps json_wf.simps\<close>)
      with 4 show ?thesis by (simp add: start intended_writes_def Let_def)
    qed
  qed
qed

section \<open>From the signature to the write\<close>

lemma canonical_depth: "canonicalizeActionParams op params = Inr spec \<Longrightarrow> json_depth spec \<le> 3"
  by (auto simp: canonicalizeActionParams_def only_int_param_def validateIntegerRange_def restart_params_def Let_def
      split: json.splits option.splits if_splits list.splits prod.splits)

lemma signed_body_valid:
  assumes "er_signature r = signBody je priv body" "b64_decode key = Some pub" "length pub = 32"
    and "\<forall>m. je_sign je priv m \<noteq> [] \<and> je_verify je pub m (je_sign je priv m)"
  shows "verifySignedContext je r body key = SigValid"
proof -
  have "hex_string (je_sign je priv (je_sha je body)) \<noteq> []"
    using assms(4) by (cases "je_sign je priv (je_sha je body)") (auto simp: hex_string_def)
  with assms show ?thesis by (simp add: verifySignedContext_def signBody_def hex_decode_string)
qed

lemma wire_fields [simp]:
  "xc_ActionID (wire_context c) = aec_ActionID c" "xc_ActionHash (wire_context c) = aec_ActionHash c"
  "xc_TargetUID (wire_context c) = aec_TargetUID c" "xc_TargetName (wire_context c) = aec_TargetName c"
  "xc_ResourceVersion (wire_context c) = aec_ResourceVersion c" "xc_ResourceType (wire_context c) = aec_ResourceType c"
  "xc_Namespace (wire_context c) = aec_Namespace c" "xc_Operation (wire_context c) = aec_Operation c"
  "xc_TargetSpec (wire_context c) = json_text (aec_TargetSpec c)"
  by (simp_all add: wire_context_def)

text \<open>What the query API has prepared: an accepted operation with its canonical parameters on a named target.\<close>

definition prepared :: "json option \<Rightarrow> ActionExecutionContext \<Rightarrow> bool" where
  "prepared params c \<longleftrightarrow> allowed_kind (aec_Operation c) (aec_ResourceType c) \<and>
     canonicalizeActionParams (aec_Operation c) params = Inr (aec_TargetSpec c) \<and> json_wf (aec_TargetSpec c) \<and>
     aec_ActionID c \<noteq> [] \<and> aec_ActionHash c \<noteq> [] \<and> aec_TargetUID c \<noteq> [] \<and> addressed (wire_context c)"

text \<open>The request that carries it, and a server that can execute it.\<close>

definition delivered :: "exec_env \<Rightarrow> server \<Rightarrow> gostring \<Rightarrow> ActionExecutionContext \<Rightarrow> exec_request \<Rightarrow> bool" where
  "delivered env sv priv c r \<longleftrightarrow> er_path r = ''/v1/executor/execute'' \<and> er_verified r \<and>
     er_body r = Some (json_text (context_json c)) \<and> length (json_text (context_json c)) \<le> 2 ^ 20 \<and>
     er_signature r = signBody (xe_jws env) priv (json_text (context_json c)) \<and>
     (\<exists>pub. b64_decode (sv_verifyKeyB64 sv) = Some pub \<and> length pub = 32 \<and>
        (\<forall>m. je_sign (xe_jws env) priv m \<noteq> [] \<and> je_verify (xe_jws env) pub m (je_sign (xe_jws env) priv m)))"

definition enabled :: "server \<Rightarrow> gostring \<Rightarrow> bool" where
  "enabled sv action_id \<longleftrightarrow> sv_mode sv = ModeApproved \<and> sv_k8sEnabled sv \<and> trim_space (sv_verifyKeyB64 sv) \<noteq> [] \<and>
     sv_dropResponse sv \<noteq> Some action_id"

text \<open>Kubernetes shows the approved target, accepts writes and, for a drain, lists the pods.\<close>

definition unchanged :: "kube_api \<Rightarrow> server \<Rightarrow> ActionExecutionContext \<Rightarrow> gostring \<Rightarrow> bool" where
  "unchanged api sv c url \<longleftrightarrow> target_url sv (wire_context c) = Inr url \<and>
     (\<exists>status body ob. api [] (get_request sv url) = Response 200 status body \<and> decode_object body = Some ob \<and>
        ob_UID ob = aec_TargetUID c \<and> ob_ResourceVersion ob = aec_ResourceVersion c)"

lemma execute_target_run:
  assumes prep: "prepared params c" and en: "enabled sv (aec_ActionID c)" and un: "unchanged (xe_kube env) sv c url"
    and acc: "accepting (xe_kube env)" and v: "parseResourceVersion (aec_ResourceVersion c) = Inr v"
    and pods: "aec_Operation c = ''drain'' \<longrightarrow> pods_listed (xe_kube env) sv (wire_context c) pods"
  obtains res where "execute_target env sv (wire_context c) = (JsonReply 200 res,
      get_request sv url # intended_writes sv (wire_context c) url (aec_ResourceVersion c) v (param_number (aec_TargetSpec c)) pods,
      store_result (aec_ActionID c) res sv)" "ar_Status res = ''success''"
proof -
  let ?ctx = "wire_context c" and ?rv = "aec_ResourceVersion c" and ?api = "xe_kube env"
  have kind: "allowed_kind (xc_Operation ?ctx) (xc_ResourceType ?ctx)" and addr: "addressed ?ctx"
    and canon: "canonicalizeActionParams (xc_Operation ?ctx) params = Inr (aec_TargetSpec c)" and wf: "json_wf (aec_TargetSpec c)"
    using prep by (simp_all add: prepared_def)
  note valid = addressed_valid [OF addr kind]
  obtain status body ob where o: "?api [] (get_request sv url) = Response 200 status body" "decode_object body = Some ob"
    "ob_UID ob = aec_TargetUID c" "ob_ResourceVersion ob = ?rv" and url: "target_url sv ?ctx = Inr url"
    using un by (auto simp: unchanged_def)
  have on: "sv_k8sEnabled sv" "sv_mode sv = ModeApproved" "trim_space (sv_verifyKeyB64 sv) \<noteq> []"
    "sv_dropResponse sv \<noteq> Some (aec_ActionID c)" using en by (simp_all add: enabled_def)
  have "k8sReadObjectState sv (to_lower (trim_space (aec_ResourceType c))) (trim_space (aec_Namespace c)) (aec_TargetName c) ?api [] =
      (Inr ob, [get_request sv url])"
    using url o on(1) by (simp add: k8sReadObjectState_def target_url_def)
  then have read: "readCurrentState sv ?ctx ?api [] = (Inr (aec_TargetUID c, ?rv, False), [get_request sv url])"
    using valid(1,2) on(1) o(3,4) by (simp add: readCurrentState_def kbind_Inr)
  have run: "patchTarget sv ?ctx ?rv ?api [get_request sv url] =
      (Inr (), [get_request sv url] @ intended_writes sv ?ctx url ?rv v (param_number (aec_TargetSpec c)) pods)"
    by (rule patchTarget_run [OF acc kind addr canon wf _ url on(1) v]) (use pods in simp_all)
  let ?res = "(observed_result ?ctx ''success'' (aec_TargetUID c) ?rv (applied_message ?ctx))\<lparr>ar_ExecutedAt := rfc3339 (xe_now env)\<rparr>"
  have "execute_target env sv ?ctx = (JsonReply 200 ?res,
      get_request sv url # intended_writes sv ?ctx url ?rv v (param_number (aec_TargetSpec c)) pods, store_result (aec_ActionID c) ?res sv)"
    using on read run
    by (simp add: execute_target_def validateExecutionConfig_def execute_mutation_def store_result_def Let_def)
  moreover have "ar_Status ?res = ''success''" by (simp add: observed_result_def)
  ultimately show ?thesis by (rule that)
qed

lemma signed_action_handled:
  assumes prep: "prepared params c" and del: "delivered env sv priv c r" and en: "enabled sv (aec_ActionID c)"
    and cred: "with_credential env sv (wire_context c) = Inr sv1" and un: "unchanged (xe_kube env) sv1 c url"
    and acc: "accepting (xe_kube env)" and v: "parseResourceVersion (aec_ResourceVersion c) = Inr v"
    and pods: "aec_Operation c = ''drain'' \<longrightarrow> pods_listed (xe_kube env) sv1 (wire_context c) pods"
  shows "\<exists>res sv'. handleExecute env sv r = (JsonReply 200 res,
      get_request sv1 url # intended_writes sv1 (wire_context c) url (aec_ResourceVersion c) v (param_number (aec_TargetSpec c)) pods, sv') \<and>
    ar_Status res = ''success'' \<and> sv_results sv' (aec_ActionID c) = Some res"
proof -
  let ?body = "json_text (context_json c)"
  obtain pub where key: "b64_decode (sv_verifyKeyB64 sv) = Some pub" "length pub = 32"
    "\<forall>m. je_sign (xe_jws env) priv m \<noteq> [] \<and> je_verify (xe_jws env) pub m (je_sign (xe_jws env) priv m)"
    and r: "er_body r = Some ?body" "length ?body \<le> 2 ^ 20"
    and sg: "er_signature r = signBody (xe_jws env) priv ?body"
    using del by (auto simp: delivered_def)
  have wf: "json_wf (aec_TargetSpec c)" and ids: "aec_ActionID c \<noteq> []" "aec_ActionHash c \<noteq> []" "aec_TargetUID c \<noteq> []"
    and kind: "allowed_kind (xc_Operation (wire_context c)) (xc_ResourceType (wire_context c))" and addr: "addressed (wire_context c)"
    and canon: "canonicalizeActionParams (aec_Operation c) params = Inr (aec_TargetSpec c)"
    using prep by (simp_all add: prepared_def)
  have dec: "decodeContext ?body = Some (wire_context c)"
    by (rule decode_wire_context [OF wf]) (use canonical_depth [OF canon] in simp)
  have ne: "?body \<noteq> []" by (simp add: context_json_def)
  have sig: "verifySignedContext (xe_jws env) r ?body (sv_verifyKeyB64 sv) = SigValid"
    by (rule signed_body_valid [OF sg key])
  have en1: "enabled sv1 (aec_ActionID c)" and mode: "sv_mode sv = ModeApproved" and vk: "sv_verifyKeyB64 sv \<noteq> []"
    using en cred by (auto simp: enabled_def with_credential_def trim_space_def split: if_splits sum.splits)
  obtain res where t: "execute_target env sv1 (wire_context c) = (JsonReply 200 res,
      get_request sv1 url # intended_writes sv1 (wire_context c) url (aec_ResourceVersion c) v (param_number (aec_TargetSpec c)) pods,
      store_result (aec_ActionID c) res sv1)" "ar_Status res = ''success''"
    by (rule execute_target_run [OF prep en1 un acc v pods])
  have x: "execute_context env sv (wire_context c) = (JsonReply 200 res,
      get_request sv1 url # intended_writes sv1 (wire_context c) url (aec_ResourceVersion c) v (param_number (aec_TargetSpec c)) pods,
      clear_credential (store_result (aec_ActionID c) res sv1))"
    using addressed_valid(1) [OF addr kind] ids cred t(1) by (simp add: execute_context_def)
  have "handleExecute env sv r = execute_context env sv (wire_context c)"
    using r ne vk sig mode dec
    by (simp add: handleExecute_def readBody_def executor_auth_def del: json_text.simps)
  moreover have "sv_results (clear_credential (store_result (aec_ActionID c) res sv1)) (aec_ActionID c) = Some res"
    by (simp add: clear_credential_def store_result_def)
  ultimately show ?thesis using x t(2) by auto
qed

lemma delivered_served:
  assumes "delivered env sv priv c r"
  shows "executor_serve env sv r = handleExecute env sv r"
  using assms by (simp add: delivered_def executor_serve_def requireMTLS_def executor_mux_def)

text \<open>
  C4.  What the query API approves, the executor does.  Take an action whose operation, kind and
  parameters the preflight has accepted, and the request that the query API writes and signs for it.
  An executor in approved mode that knows the key of the query API and finds the target with the
  approved UID and resource version applies the action: when Kubernetes accepts the writes (and, for
  a drain, lists the pods of the node), the reply is a success, the result is recorded under the id of the
  action, and the requests to Kubernetes are the read of the target followed by exactly the writes
  intended by the operation: one patch, deletion or eviction with preconditions, or for a drain the
  patch of the node and one eviction for every pod that is to be evicted.
\<close>

theorem approved_action_executes:
  assumes "prepared params c" and "delivered env sv priv c r" and "enabled sv (aec_ActionID c)"
    and "with_credential env sv (wire_context c) = Inr sv1" and "unchanged (xe_kube env) sv1 c url"
    and "accepting (xe_kube env)" and "parseResourceVersion (aec_ResourceVersion c) = Inr v"
    and "aec_Operation c = ''drain'' \<longrightarrow> pods_listed (xe_kube env) sv1 (wire_context c) pods"
  shows "\<exists>res sv'. executor_serve env sv r = (JsonReply 200 res,
      get_request sv1 url # intended_writes sv1 (wire_context c) url (aec_ResourceVersion c) v (param_number (aec_TargetSpec c)) pods, sv') \<and>
    ar_Status res = ''success'' \<and> sv_results sv' (aec_ActionID c) = Some res"
  unfolding delivered_served [OF assms(2)] using assms by (rule signed_action_handled)

section \<open>A sample action\<close>

definition exec_object :: json where
  "exec_object = JObj [(''metadata'', JObj [(''uid'', JStr ''uid-1''), (''resourceVersion'', JStr ''5'')]),
     (''spec'', JObj [(''replicas'', JNum ''3'')])]"

definition exec_sample_env :: exec_env where
  "exec_sample_env = \<lparr>xe_jws = sample_jws, xe_kube = (\<lambda>log q. Response 200 ''200 OK'' (json_text exec_object)),
     xe_broker = (\<lambda>q. NetError ''no broker''), xe_now = 0\<rparr>"

definition exec_server :: server where
  "exec_server = \<lparr>sv_mode = ModeApproved, sv_token = [], sv_brokerToken = [], sv_results = (\<lambda>_. None), sv_credBrokerURL = [],
     sv_verifyKeyB64 = b64_encode (replicate 32 (CHR ''p'')), sv_k8sEnabled = True, sv_k8sToken = ''t'', sv_k8sHost = ''https://k8s:443'',
     sv_dispatchGateActionID = [], sv_dispatchGateFile = [], sv_dropResponse = None\<rparr>"

definition exec_action :: ActionExecutionContext where
  "exec_action = \<lparr>aec_ActionID = ''act-1'', aec_ActionHash = ''hash'', aec_ApprovalID = ''appr-1'', aec_TargetUID = ''uid-1'',
     aec_TargetName = ''web'', aec_ResourceVersion = ''5'', aec_ClusterID = ''c1'', aec_ResourceType = ''deployment'',
     aec_Namespace = ''shop'', aec_Operation = ''scale'', aec_TargetSpec = JObj [(''replicas'', JNum ''3'')],
     aec_CredentialRef = ''ref'', aec_ApprovedAt = [], aec_ExecutedBy = ''query-api''\<rparr>"

definition exec_url :: gostring where
  "exec_url = ''https://k8s:443/apis/apps/v1/namespaces/shop/deployments/web''"

definition exec_sample_request :: "gostring \<Rightarrow> exec_request" where
  "exec_sample_request path = \<lparr>er_path = path, er_body = Some (json_text (context_json exec_action)),
     er_signature = signBody sample_jws sample_key (json_text (context_json exec_action)), er_token = [], er_verified = True\<rparr>"

definition scale_write :: http_request where
  "scale_write = patch_request exec_server exec_url ''5'' [] [(''spec'', JObj [(''replicas'', JNum (dec_int 3))])]"

lemma exec_prepared: "prepared (Some (JObj [(''replicas'', JNum ''3'')])) exec_action"
  by code_simp

lemma exec_body_short: "length (json_text (context_json exec_action)) \<le> 2 ^ 20"
proof -
  have "length (json_text (context_json exec_action)) \<le> 500" by code_simp
  then show ?thesis by (rule order_trans) simp
qed

lemma exec_delivered: "delivered exec_sample_env exec_server sample_key exec_action (exec_sample_request ''/v1/executor/execute'')"
  using exec_body_short
  by (simp add: delivered_def exec_sample_request_def exec_sample_env_def exec_server_def b64_roundtrip sample_jws_def)

lemma exec_enabled: "enabled exec_server (aec_ActionID exec_action)"
  by code_simp

lemma exec_credential: "with_credential exec_sample_env exec_server ctx = Inr exec_server"
  by (simp add: with_credential_def exec_server_def)

lemma exec_object_decodes:
  "decode_object (json_text exec_object) = Some (zero_observed\<lparr>ob_UID := ''uid-1'', ob_ResourceVersion := ''5'', ob_Replicas := 3\<rparr>)"
proof -
  have "json_first (json_text exec_object) = Some exec_object"
    by (rule json_first_text) (code_simp, simp add: exec_object_def max_depth_def)
  moreover have "dec_struct (\<lambda>k v. if k = ''metadata'' then dec_struct dec_metadata v
      else if k = ''spec'' then dec_struct dec_spec v else Some) exec_object zero_observed =
      Some (zero_observed\<lparr>ob_UID := ''uid-1'', ob_ResourceVersion := ''5'', ob_Replicas := 3\<rparr>)"
    by code_simp
  ultimately show ?thesis by (simp add: decode_object_def)
qed

lemma exec_target: "target_url exec_server (wire_context exec_action) = Inr exec_url"
  by code_simp

lemma exec_unchanged: "unchanged (xe_kube exec_sample_env) exec_server exec_action exec_url"
  using exec_target exec_object_decodes
  by (simp add: unchanged_def exec_sample_env_def) (simp add: exec_action_def)

lemma exec_accepting: "accepting (xe_kube exec_sample_env)"
  by (simp add: accepting_def exec_sample_env_def)

lemma exec_version: "parseResourceVersion (aec_ResourceVersion exec_action) = Inr 5"
  by code_simp

lemma exec_operation: "aec_Operation exec_action \<noteq> ''drain''"
  by code_simp

lemma exec_intended:
  "intended_writes exec_server (wire_context exec_action) exec_url (aec_ResourceVersion exec_action) 5
     (param_number (aec_TargetSpec exec_action)) [] = [scale_write]"
proof -
  have "param_number (aec_TargetSpec exec_action) = 3" by code_simp
  then show ?thesis by (simp add: intended_writes_def Let_def exec_action_def scale_write_def)
qed

lemmas exec_facts = exec_prepared exec_delivered exec_enabled exec_credential exec_unchanged exec_accepting exec_version

theorem approved_action_executes_witness:
  "\<exists>res sv'. executor_serve exec_sample_env exec_server (exec_sample_request ''/v1/executor/execute'') =
      (JsonReply 200 res, [get_request exec_server exec_url, scale_write], sv') \<and>
    ar_Status res = ''success'' \<and> sv_results sv' ''act-1'' = Some res"
proof -
  have "aec_ActionID exec_action = ''act-1''" by (simp add: exec_action_def)
  then show ?thesis
    using approved_action_executes [OF exec_facts, of "[]"] exec_operation exec_intended by simp
qed


section \<open>A sample reconciliation\<close>

text \<open>The body that the query API sends (\<open>Reconcile\<close>): a map, written with sorted keys.\<close>

definition reconcile_payload :: "ActionExecutionContext \<Rightarrow> json" where
  "reconcile_payload c = JObj (go_map
    [(''action_id'', JStr (aec_ActionID c)), (''action_hash'', JStr (aec_ActionHash c)),
     (''approval_id'', JStr (aec_ApprovalID c)), (''cluster_id'', JStr (aec_ClusterID c)),
     (''resource_type'', JStr (aec_ResourceType c)), (''target_uid'', JStr (aec_TargetUID c)),
     (''target_name'', JStr (aec_TargetName c)), (''resource_version'', JStr (aec_ResourceVersion c)),
     (''namespace'', JStr (aec_Namespace c)), (''operation'', JStr (aec_Operation c)),
     (''target_spec'', aec_TargetSpec c), (''credential_ref'', JStr (aec_CredentialRef c))])"

lemma reconcile_payload_sorted:
  "reconcile_payload c = JObj
    [(''action_hash'', JStr (aec_ActionHash c)), (''action_id'', JStr (aec_ActionID c)),
     (''approval_id'', JStr (aec_ApprovalID c)), (''cluster_id'', JStr (aec_ClusterID c)),
     (''credential_ref'', JStr (aec_CredentialRef c)), (''namespace'', JStr (aec_Namespace c)),
     (''operation'', JStr (aec_Operation c)), (''resource_type'', JStr (aec_ResourceType c)),
     (''resource_version'', JStr (aec_ResourceVersion c)), (''target_name'', JStr (aec_TargetName c)),
     (''target_spec'', aec_TargetSpec c), (''target_uid'', JStr (aec_TargetUID c))]"
  by (simp add: reconcile_payload_def go_map_def less_char_def)

definition wire_reconcile :: "ActionExecutionContext \<Rightarrow> ReconcileRequest" where
  "wire_reconcile c =
     \<lparr>rr_ActionID = aec_ActionID c, rr_ActionHash = aec_ActionHash c, rr_ClusterID = aec_ClusterID c,
      rr_TargetUID = aec_TargetUID c, rr_TargetName = aec_TargetName c, rr_ResourceVersion = aec_ResourceVersion c,
      rr_Namespace = aec_Namespace c, rr_ResourceType = aec_ResourceType c, rr_Operation = aec_Operation c,
      rr_TargetSpec = json_text (aec_TargetSpec c), rr_CredentialRef = aec_CredentialRef c\<rparr>"

lemma decode_wire_reconcile:
  assumes "json_wf (aec_TargetSpec c)" "json_depth (aec_TargetSpec c) \<le> 9000"
  shows "decodeReconcile (json_text (reconcile_payload c)) = Some (wire_reconcile c)"
proof -
  obtain fs where fs: "reconcile_payload c = JObj fs" "fs = (case reconcile_payload c of JObj fs \<Rightarrow> fs | _ \<Rightarrow> [])"
    by (simp add: reconcile_payload_sorted)
  have "json_wf (reconcile_payload c)" using assms(1) by (simp add: reconcile_payload_sorted)
  moreover have "json_depth (reconcile_payload c) \<le> Suc 9000"
    using assms(2) unfolding reconcile_payload_sorted json_depth_Obj by auto
  then have "json_depth (reconcile_payload c) \<le> max_depth" by (simp add: max_depth_def)
  ultimately have "json_members (json_text (reconcile_payload c)) = Some (map with_raw fs)"
    unfolding fs(1) by (rule json_members_text)
  moreover have "fs = (case reconcile_payload c of JObj fs \<Rightarrow> fs | _ \<Rightarrow> [])" by (rule fs(2))
  ultimately show ?thesis
    by (simp add: decodeReconcile_def struct_members_def reconcile_payload_sorted with_raw_def reconcile_names_def
        dec_str_def last_raw_def wire_reconcile_def del: json_text.simps)
qed

definition exec_reconcile :: exec_request where
  "exec_reconcile = \<lparr>er_path = ''/v1/executor/reconcile'', er_body = Some (json_text (reconcile_payload exec_action)),
     er_signature = signBody sample_jws sample_key (json_text (reconcile_payload exec_action)), er_token = [], er_verified = True\<rparr>"

lemma exec_replicas: "strict_replicas (json_text (JObj [(''replicas'', JNum ''3'')])) = Some 3"
proof -
  have "json_wf (JObj [(''replicas'', JNum ''3'')])" by code_simp
  from int_spec_parses [OF this] have "json_parse (json_text (JObj [(''replicas'', JNum ''3'')])) = Some (JObj [(''replicas'', JNum ''3'')])" .
  moreover have "int32_lit ''3'' = Some 3" "to_lower ''replicas'' = ''replicas''" by code_simp+
  ultimately show ?thesis by (simp add: strict_replicas_def dec_struct_def del: json_text.simps)
qed

lemma exec_reconciled:
  "\<exists>res sv'. handleReconcile exec_sample_env exec_server exec_reconcile = (JsonReply 200 res, [get_request exec_server exec_url], sv') \<and>
     ar_Status res = ''applied''"
proof -
  let ?req = "wire_reconcile exec_action" and ?body = "json_text (reconcile_payload exec_action)"
  let ?ob = "zero_observed\<lparr>ob_UID := ''uid-1'', ob_ResourceVersion := ''5'', ob_Replicas := 3\<rparr>"
  have "length ?body \<le> 500" by code_simp
  then have b: "length ?body \<le> 2 ^ 20" by (rule order_trans) simp
  have ne: "?body \<noteq> []" by (simp add: reconcile_payload_sorted)
  have read_body: "readBody exec_reconcile = Some ?body" using b ne by (simp add: readBody_def exec_reconcile_def)
  have "verifySignedContext sample_jws exec_reconcile ?body (sv_verifyKeyB64 exec_server) = SigValid"
    by (rule signed_body_valid) (simp_all add: exec_reconcile_def exec_server_def b64_roundtrip sample_jws_def)
  moreover have "sv_verifyKeyB64 exec_server \<noteq> []" by code_simp
  ultimately have auth: "executor_auth what denied exec_sample_env exec_server exec_reconcile ?body = None" for what denied
    by (simp add: executor_auth_def exec_sample_env_def)
  have dec: "decodeReconcile ?body = Some ?req"
    by (rule decode_wire_reconcile) (code_simp, simp add: exec_action_def)
  have checks: "\<not> (rr_ActionID ?req = [] \<or> rr_ActionHash ?req = [] \<or> rr_TargetUID ?req = [] \<or> rr_TargetName ?req = [] \<or>
      rr_Operation ?req = [] \<or> rr_TargetSpec ?req = [])" by code_simp
  have valid: "validateCanonicalTarget (rr_ResourceType ?req) (rr_Namespace ?req) (rr_TargetName ?req) = None" by code_simp
  have url: "k8sObjectURL (sv_k8sHost exec_server) ''deployment'' ''shop'' ''web'' = Inr exec_url" by code_simp
  have kind: "to_lower (trim_space ''deployment'') = ''deployment''" "trim_space ''shop'' = ''shop''" by code_simp+
  have "k8sReadObjectState exec_server ''deployment'' ''shop'' ''web'' (xe_kube exec_sample_env) [] = (Inr ?ob, [get_request exec_server exec_url])"
    using url exec_object_decodes by (simp add: k8sReadObjectState_def) (simp add: exec_server_def exec_sample_env_def)
  then have read: "reconcile_read exec_server ?req (xe_kube exec_sample_env) [] = (Inr ?ob, [get_request exec_server exec_url])"
    by (simp add: reconcile_read_def wire_reconcile_def exec_action_def kind)
  have "validateResourceScope ''deployment'' ''shop'' = None" by code_simp
  then have m: "desiredStateMatches ?req ?ob = Inr True"
    using exec_replicas by (simp add: desiredStateMatches_def wire_reconcile_def exec_action_def kind del: json_text.simps)
  have uid: "rr_TargetUID ?req = ''uid-1''" by (simp add: wire_reconcile_def exec_action_def)
  have "sv_k8sEnabled exec_server" by (simp add: exec_server_def)
  then show ?thesis
    using read_body auth dec checks valid read m uid
    by (simp add: handleReconcile_def reconcile_request_def exec_credential reconcile_target_def reconcile_observed_def Let_def
        reconcile_result_def)
qed


theorem dispatch_gate_ends_witness:
  "waitForDispatchGate (exec_server\<lparr>sv_dispatchGateActionID := ''act-1'', sv_dispatchGateFile := ''/tmp/gate''\<rparr>)
     (\<lambda>_. True) (\<lambda>i. 100 * int i) 0 ''act-1'' = Some GateTimedOut"
  using dispatch_gate_ends [of 0 "\<lambda>i. 100 * int i"
    "exec_server\<lparr>sv_dispatchGateActionID := ''act-1'', sv_dispatchGateFile := ''/tmp/gate''\<rparr>" "\<lambda>_. True" "''act-1''"]
  by simp

end
