(* ===== verification/Broker.thy ===== *)
theory Broker
  imports ExecutorApply
begin

text \<open>
  The credential broker (\<open>ai-credential-broker/main.go\<close> and \<open>mtls.go\<close>): it exchanges a registered
  \<open>credential_ref\<close> for a short-lived token of a Kubernetes service account.  The theory models the
  start of the process, the registry of profiles and the three endpoints, and then puts the broker
  where the executor's model has the parameter \<open>xe_broker\<close>: the request that the executor writes is
  the request that the broker reads, and the token that the executor uses is one that Kubernetes has
  issued for the service account of the registered profile.

  What Kubernetes answers to a TokenRequest and whether \<open>http.NewRequest\<close> accepts an address are
  arguments.  The broker keeps no state between requests (\<open>requestMu\<close> only serialises them), so a
  handler returns its reply and the requests that it has sent.
\<close>

section \<open>Data\<close>

record profile =
  prof_Ref :: gostring
  prof_Namespace :: gostring
  prof_ServiceAcct :: gostring
  prof_Operations :: "gostring set"

record tokenRequest =
  tq_CredentialRef :: gostring
  tq_ClusterID :: gostring
  tq_Namespace :: gostring
  tq_Resource :: gostring
  tq_Operation :: gostring
  tq_Audience :: gostring
  tq_TTLSeconds :: int

record tokenResponse =
  tp_AccessToken :: gostring
  tp_ExpiresAt :: gostring
  tp_Profile :: gostring

text \<open>The profiles are a Go map: an association list with one entry for each key.\<close>

record broker_server =
  bs_token :: gostring
  bs_profiles :: "(gostring \<times> profile) list"
  bs_apiURL :: gostring
  bs_apiToken :: gostring
  bs_production :: bool

record broker_http =
  bq_method :: gostring
  bq_path :: gostring
  bq_authorization :: gostring
  bq_body :: "gostring option"
  bq_verified :: bool

datatype broker_reply = BrokerStatus int | BrokerText int gostring | BrokerToken tokenResponse

record broker_env =
  be_kube :: "http_request \<Rightarrow> http_response"
  be_accepts :: "gostring \<Rightarrow> bool"

section \<open>The registry of profiles\<close>

definition profile_operations :: "gostring \<Rightarrow> gostring set" where
  "profile_operations s = set (filter (\<lambda>op. op \<noteq> []) (map (\<lambda>op. to_lower (trim_space op)) (split_on (CHR '','') s)))"

definition parse_profile :: "gostring \<Rightarrow> gostring + profile" where
  "parse_profile item =
     (let parts = split_on (CHR ''|'') item in
      if length parts \<noteq> 4 \<or> parts ! 0 = [] \<or> parts ! 1 = [] \<or> parts ! 2 = []
      then Inl (''profile must be ref|namespace|serviceaccount|operations: '' @ go_quote item)
      else if profile_operations (parts ! 3) = {}
      then Inl (''profile '' @ go_quote (parts ! 0) @ '' has no operations'')
      else Inr \<lparr>prof_Ref = parts ! 0, prof_Namespace = parts ! 1, prof_ServiceAcct = parts ! 2,
                prof_Operations = profile_operations (parts ! 3)\<rparr>)"

fun parse_items :: "gostring list \<Rightarrow> (gostring \<times> profile) list \<Rightarrow> gostring + (gostring \<times> profile) list" where
  "parse_items [] out = Inr out"
| "parse_items (raw # items) out =
     (if trim_space raw = [] then parse_items items out
      else (case parse_profile (trim_space raw) of
              Inl e \<Rightarrow> Inl e
            | Inr p \<Rightarrow> parse_items items (obj_put (prof_Ref p) p out)))"

definition parseProfiles :: "gostring \<Rightarrow> gostring + (gostring \<times> profile) list" where
  "parseProfiles raw = parse_items (split_on (CHR '';'') raw) []"

section \<open>The start of the process\<close>

definition firstNonEmpty :: "gostring list \<Rightarrow> gostring" where
  "firstNonEmpty values = (case find (\<lambda>v. trim_space v \<noteq> []) values of None \<Rightarrow> [] | Some v \<Rightarrow> v)"

record broker_environment =
  bv_CREDENTIAL_PROFILES :: gostring
  bv_SERVICEACCOUNT_TOKEN :: gostring
  bv_sa_token :: "gostring option"
  bv_BROKER_TOKEN :: gostring
  bv_KUBERNETES_API_URL :: gostring
  bv_KUBERNETES_SERVICE_HOST :: gostring
  bv_KUBERNETES_SERVICE_PORT :: gostring
  bv_AIOPS_ENV :: gostring

definition api_token :: "broker_environment \<Rightarrow> gostring" where
  "api_token ev =
     (if trim_space (bv_SERVICEACCOUNT_TOKEN ev) \<noteq> [] then trim_space (bv_SERVICEACCOUNT_TOKEN ev)
      else (case bv_sa_token ev of None \<Rightarrow> [] | Some raw \<Rightarrow> trim_space raw))"

definition api_url :: "broker_environment \<Rightarrow> gostring" where
  "api_url ev =
     (let configured = trim_slashes (trim_space (bv_KUBERNETES_API_URL ev)); host = bv_KUBERNETES_SERVICE_HOST ev in
      if configured = [] \<and> host \<noteq> []
      then ''https://'' @ host @ '':'' @ firstNonEmpty [bv_KUBERNETES_SERVICE_PORT ev, ''443'']
      else configured)"

text \<open>\<open>main\<close> up to the start of the server: the text of a fatal error or the state of the server.\<close>

definition broker_main :: "broker_environment \<Rightarrow> gostring + broker_server" where
  "broker_main ev =
     (case parseProfiles (bv_CREDENTIAL_PROFILES ev) of
        Inl e \<Rightarrow> Inl (''invalid CREDENTIAL_PROFILES: '' @ e)
      | Inr profiles \<Rightarrow>
          (let s = \<lparr>bs_token = trim_space (bv_BROKER_TOKEN ev), bs_profiles = profiles, bs_apiURL = api_url ev,
                    bs_apiToken = api_token ev, bs_production = (to_lower (bv_AIOPS_ENV ev) = ''production'')\<rparr>
           in if bs_production s \<and> (bs_token s = [] \<or> bs_apiToken s = [] \<or> bs_apiURL s = [] \<or> bs_profiles s = [])
              then Inl ''production broker requires BROKER_TOKEN, Kubernetes API credentials and at least one profile''
              else Inr s))"

text \<open>
  \<open>configureMTLSServer\<close>, which the broker and the executor share word for word: the error that stops
  the process, or whether the server listens with TLS.  The outcomes of loading the key pair and of
  reading the certificates of the authority are fields of the environment.
\<close>

record tls_environment =
  te_CERT_FILE :: gostring
  te_KEY_FILE :: gostring
  te_CLIENT_CA_FILE :: gostring
  te_MTLS_REQUIRED :: gostring
  te_CLIENT_SAN :: gostring
  te_key_pair_error :: "gostring option"
  te_ca_read_error :: "gostring option"
  te_ca_has_certificate :: bool

definition configureMTLSServer :: "tls_environment \<Rightarrow> gostring + bool" where
  "configureMTLSServer te =
     (let required = (to_lower (trim_space (te_MTLS_REQUIRED te)) = ''true'') in
      if trim_space (te_CERT_FILE te) = [] \<or> trim_space (te_KEY_FILE te) = [] \<or> trim_space (te_CLIENT_CA_FILE te) = []
      then (if required then Inl ''mTLS is required but certificate/key/client CA are not configured'' else Inr False)
      else if required \<and> trim_space (te_CLIENT_SAN te) = []
      then Inl ''AIOPS_MTLS_REQUIRED=true requires AIOPS_TLS_CLIENT_SAN''
      else (case te_key_pair_error te of
              Some e \<Rightarrow> Inl (''load mTLS certificate: '' @ e)
            | None \<Rightarrow>
                (case te_ca_read_error te of
                   Some e \<Rightarrow> Inl (''read mTLS client CA: '' @ e)
                 | None \<Rightarrow> if te_ca_has_certificate te then Inr True
                           else Inl ''mTLS client CA contains no certificate'')))"

section \<open>Requests\<close>

definition trim_prefix :: "gostring \<Rightarrow> gostring \<Rightarrow> gostring" where
  "trim_prefix s p = (if has_prefix s p then drop (length p) s else s)"

definition authorized :: "broker_server \<Rightarrow> broker_http \<Rightarrow> bool" where
  "authorized s r \<longleftrightarrow>
     bs_token s \<noteq> [] \<and>
     (let got = trim_space (trim_prefix (bq_authorization r) ''Bearer '') in got \<noteq> [] \<and> got = bs_token s)"

definition dec_int64 :: "json \<Rightarrow> int \<Rightarrow> int option" where
  "dec_int64 j old = (case j of JNum lit \<Rightarrow> ParseInt lit | JNull \<Rightarrow> Some old | _ \<Rightarrow> None)"

definition zero_token_request :: tokenRequest where
  "zero_token_request = \<lparr>tq_CredentialRef = [], tq_ClusterID = [], tq_Namespace = [], tq_Resource = [],
     tq_Operation = [], tq_Audience = [], tq_TTLSeconds = 0\<rparr>"

definition dec_token_request :: "gostring \<Rightarrow> json \<Rightarrow> tokenRequest \<Rightarrow> tokenRequest option" where
  "dec_token_request k v q =
     (if k = ''credential_ref'' then map_option (\<lambda>s. q\<lparr>tq_CredentialRef := s\<rparr>) (dec_str v (tq_CredentialRef q))
      else if k = ''cluster_id'' then map_option (\<lambda>s. q\<lparr>tq_ClusterID := s\<rparr>) (dec_str v (tq_ClusterID q))
      else if k = ''namespace'' then map_option (\<lambda>s. q\<lparr>tq_Namespace := s\<rparr>) (dec_str v (tq_Namespace q))
      else if k = ''resource'' then map_option (\<lambda>s. q\<lparr>tq_Resource := s\<rparr>) (dec_str v (tq_Resource q))
      else if k = ''operation'' then map_option (\<lambda>s. q\<lparr>tq_Operation := s\<rparr>) (dec_str v (tq_Operation q))
      else if k = ''audience'' then map_option (\<lambda>s. q\<lparr>tq_Audience := s\<rparr>) (dec_str v (tq_Audience q))
      else if k = ''ttl_seconds'' then map_option (\<lambda>i. q\<lparr>tq_TTLSeconds := i\<rparr>) (dec_int64 v (tq_TTLSeconds q))
      else Some q)"

definition decode_token_request :: "gostring \<Rightarrow> tokenRequest option" where
  "decode_token_request body =
     (case json_parse body of None \<Rightarrow> None | Some j \<Rightarrow> dec_struct dec_token_request j zero_token_request)"

text \<open>The condition of the handler, on the entry that the map has for the reference.\<close>

definition profile_grants :: "profile \<Rightarrow> tokenRequest \<Rightarrow> bool" where
  "profile_grants p q \<longleftrightarrow>
     match_classes canonicalUUID (to_lower (tq_ClusterID q)) \<and> tq_Namespace q = prof_Namespace p \<and>
     tq_Resource q \<noteq> [] \<and> to_lower (tq_Operation q) \<in> prof_Operations p"

definition granted_ttl :: "tokenRequest \<Rightarrow> int" where
  "granted_ttl q = (if tq_TTLSeconds q \<le> 0 \<or> 300 < tq_TTLSeconds q then 300 else tq_TTLSeconds q)"

definition token_url :: "broker_server \<Rightarrow> profile \<Rightarrow> gostring" where
  "token_url s p = bs_apiURL s @ ''/api/v1/namespaces/'' @ PathEscape (prof_Namespace p) @ ''/serviceaccounts/'' @
     PathEscape (prof_ServiceAcct p) @ ''/token''"

definition kube_token_request :: "broker_server \<Rightarrow> profile \<Rightarrow> gostring \<Rightarrow> int \<Rightarrow> http_request" where
  "kube_token_request s p audience ttl =
     \<lparr>hq_method = ''POST'', hq_url = token_url s p,
      hq_body = json_text (JObj (go_map
        [(''apiVersion'', JStr ''authentication.k8s.io/v1''), (''kind'', JStr ''TokenRequest''),
         (''spec'', JObj (go_map [(''audiences'', JArr [JStr audience]), (''expirationSeconds'', JNum (dec_int ttl))]))])),
      hq_contentType = ''application/json'', hq_ifMatch = [], hq_authorization = ''Bearer '' @ bs_apiToken s\<rparr>"

definition dec_token_status :: "gostring \<Rightarrow> json \<Rightarrow> gostring \<times> gostring \<Rightarrow> (gostring \<times> gostring) option" where
  "dec_token_status k v t =
     (if k = ''token'' then map_option (\<lambda>s. (s, snd t)) (dec_str v (fst t))
      else if k = ''expirationtimestamp'' then map_option (\<lambda>s. (fst t, s)) (dec_str v (snd t))
      else Some t)"

definition decode_token_status :: "gostring \<Rightarrow> (gostring \<times> gostring) option" where
  "decode_token_status body =
     (case json_first body of
        None \<Rightarrow> None
      | Some j \<Rightarrow> dec_struct (\<lambda>k v. if k = ''status'' then dec_struct dec_token_status v else Some) j ([], []))"

section \<open>The endpoints\<close>

type_synonym brokered = "broker_reply \<times> http_request list"

definition ready :: "broker_server \<Rightarrow> broker_reply" where
  "ready s = (if bs_production s \<and> (bs_apiURL s = [] \<or> bs_apiToken s = [])
              then BrokerText 503 ''credential broker is not configured'' else BrokerStatus 200)"

definition token_reply :: "profile \<Rightarrow> http_response \<Rightarrow> broker_reply" where
  "token_reply p resp = (case resp of
      NetError _ \<Rightarrow> BrokerText 503 ''credential broker unavailable''
    | Response code _ body \<Rightarrow>
        if 300 \<le> code then BrokerText 403 ''credential request denied''
        else (case decode_token_status body of
                None \<Rightarrow> BrokerText 502 ''credential response invalid''
              | Some (tok, expires) \<Rightarrow>
                  if tok = [] then BrokerText 502 ''credential response invalid''
                  else BrokerToken \<lparr>tp_AccessToken = tok, tp_ExpiresAt = expires, tp_Profile = prof_Ref p\<rparr>))"

definition exchange :: "broker_env \<Rightarrow> broker_server \<Rightarrow> profile \<Rightarrow> tokenRequest \<Rightarrow> brokered" where
  "exchange env s p q =
     (if bs_apiURL s = [] \<or> bs_apiToken s = [] then (BrokerText 503 ''credential broker unavailable'', [])
      else if \<not> be_accepts env (token_url s p) then (BrokerText 502 ''credential request failed'', [])
      else (let hq = kube_token_request s p (or_default (tq_Audience q) ''https://kubernetes.default.svc'') (granted_ttl q)
            in (token_reply p (be_kube env hq), [hq])))"

definition issue_decoded :: "broker_env \<Rightarrow> broker_server \<Rightarrow> tokenRequest \<Rightarrow> brokered" where
  "issue_decoded env s q =
     (case map_of (bs_profiles s) (tq_CredentialRef q) of
        None \<Rightarrow> (BrokerText 403 ''credential profile denied'', [])
      | Some p \<Rightarrow> if profile_grants p q then exchange env s p q else (BrokerText 403 ''credential profile denied'', []))"

definition issue :: "broker_env \<Rightarrow> broker_server \<Rightarrow> broker_http \<Rightarrow> brokered" where
  "issue env s r =
     (if bq_method r \<noteq> ''POST'' then (BrokerText 405 ''method not allowed'', [])
      else if \<not> authorized s r then (BrokerText 401 ''unauthorized'', [])
      else (case bq_body r of
              None \<Rightarrow> (BrokerText 400 ''invalid body'', [])
            | Some body \<Rightarrow>
                (case decode_token_request (take (2 ^ 16) body) of
                   None \<Rightarrow> (BrokerText 400 ''invalid body'', [])
                 | Some q \<Rightarrow> issue_decoded env s q)))"

definition broker_mux :: "broker_env \<Rightarrow> broker_server \<Rightarrow> broker_http \<Rightarrow> brokered" where
  "broker_mux env s r =
     (if bq_path r = ''/healthz'' then (BrokerStatus 200, [])
      else if bq_path r = ''/readyz'' then (ready s, [])
      else if bq_path r = ''/v1/credentials/token'' then issue env s r
      else (BrokerText 404 ''404 page not found'', []))"

definition broker_requireMTLS :: "(broker_http \<Rightarrow> brokered) \<Rightarrow> broker_http \<Rightarrow> brokered" where
  "broker_requireMTLS nxt r =
     (if bq_path r \<noteq> ''/healthz'' \<and> bq_path r \<noteq> ''/readyz'' \<and> \<not> bq_verified r
      then (BrokerText 401 ''client certificate required'', []) else nxt r)"

definition broker_serve :: "broker_env \<Rightarrow> broker_server \<Rightarrow> broker_http \<Rightarrow> brokered" where
  "broker_serve env s r = broker_requireMTLS (broker_mux env s) r"

text \<open>What the client sees of a reply: \<open>http.Error\<close> and the JSON encoder end the body with a newline.\<close>

definition status_text :: "int \<Rightarrow> gostring" where
  "status_text code =
     (if code = 200 then ''200 OK'' else if code = 400 then ''400 Bad Request''
      else if code = 401 then ''401 Unauthorized'' else if code = 403 then ''403 Forbidden''
      else if code = 404 then ''404 Not Found'' else if code = 405 then ''405 Method Not Allowed''
      else if code = 502 then ''502 Bad Gateway'' else ''503 Service Unavailable'')"

definition token_json :: "tokenResponse \<Rightarrow> json" where
  "token_json t = JObj [(''access_token'', JStr (tp_AccessToken t)), (''expires_at'', JStr (tp_ExpiresAt t)),
     (''profile'', JStr (tp_Profile t))]"

definition wire_reply :: "broker_reply \<Rightarrow> http_response" where
  "wire_reply rep = (case rep of
      BrokerStatus code \<Rightarrow> Response code (status_text code) []
    | BrokerText code msg \<Rightarrow> Response code (status_text code) (msg @ [CHR 0x0A])
    | BrokerToken t \<Rightarrow> Response 200 (status_text 200) (json_text (token_json t) @ [CHR 0x0A]))"

section \<open>What is registered\<close>

text \<open>A registered profile: its key is its reference, and no part of it is empty.\<close>

definition registered :: "gostring \<Rightarrow> profile \<Rightarrow> bool" where
  "registered ref p \<longleftrightarrow> prof_Ref p = ref \<and> ref \<noteq> [] \<and> prof_Namespace p \<noteq> [] \<and> prof_ServiceAcct p \<noteq> [] \<and> prof_Operations p \<noteq> {}"

lemma parse_profile_registered: "parse_profile item = Inr p \<Longrightarrow> registered (prof_Ref p) p"
  by (auto simp: parse_profile_def registered_def Let_def split: if_splits)

lemma parse_items_registered:
  "parse_items items out = Inr ps \<Longrightarrow> \<forall>(ref, p)\<in>set out. registered ref p \<Longrightarrow> \<forall>(ref, p)\<in>set ps. registered ref p"
proof (induction items out rule: parse_items.induct)
  case (2 raw items out)
  show ?case
  proof (cases "trim_space raw = []")
    case True
    with 2 show ?thesis by simp
  next
    case False
    with 2(3) obtain p where p: "parse_profile (trim_space raw) = Inr p" "parse_items items (obj_put (prof_Ref p) p out) = Inr ps"
      by (auto split: sum.splits)
    have "\<forall>(ref, q)\<in>set (obj_put (prof_Ref p) p out). registered ref q"
      using 2(4) set_obj_put [of "prof_Ref p" p out] parse_profile_registered [OF p(1)] by auto
    with False p 2(2) show ?thesis by simp
  qed
qed simp

lemma main_registered:
  assumes "broker_main ev = Inr s" "map_of (bs_profiles s) ref = Some p"
  shows "registered ref p"
proof -
  obtain ps where "parseProfiles (bv_CREDENTIAL_PROFILES ev) = Inr ps" "bs_profiles s = ps"
    using assms(1) by (auto simp: broker_main_def Let_def split: sum.splits if_splits)
  then have "\<forall>(ref, p)\<in>set (bs_profiles s). registered ref p"
    unfolding parseProfiles_def by (auto dest: parse_items_registered)
  with map_of_SomeD [OF assms(2)] show ?thesis by auto
qed

lemma trim_space_ends: "t \<noteq> [] \<Longrightarrow> t = trim_space s \<Longrightarrow> \<not> go_space (hd t) \<and> \<not> go_space (last t)"
proof -
  assume t: "t \<noteq> []" "t = trim_space s"
  define u where "u = dropWhile go_space s"
  have r: "rev t = dropWhile go_space (rev u)" using t(2) by (simp add: trim_space_def u_def)
  have "\<not> go_space (hd (rev t))" using hd_dropWhile [of go_space "rev u"] t(1) unfolding r [symmetric] by simp
  moreover obtain v where "u = t @ v"
    using takeWhile_dropWhile_id [of go_space "rev u"] r by (metis rev_append rev_rev_ident)
  then have "hd u = hd t" "u \<noteq> []" using t(1) by auto
  then have "\<not> go_space (hd t)" using hd_dropWhile [of go_space s] unfolding u_def [symmetric] by simp
  ultimately show ?thesis using t(1) by (simp add: hd_rev)
qed

lemma trim_space_id: "t = [] \<or> \<not> go_space (hd t) \<and> \<not> go_space (last t) \<Longrightarrow> trim_space t = t"
proof (cases t)
  case (Cons c u)
  assume "t = [] \<or> \<not> go_space (hd t) \<and> \<not> go_space (last t)"
  then have "dropWhile go_space t = t" "dropWhile go_space (rev t) = rev t"
    using Cons hd_rev [of t] by (auto simp: dropWhile_eq_self_iff)
  then show ?thesis by (simp add: trim_space_def)
qed (simp add: trim_space_def)

lemma trim_space_idem [simp]: "trim_space (trim_space s) = trim_space s"
  using trim_space_id trim_space_ends by blast

lemma main_token: "broker_main ev = Inr s \<Longrightarrow> trim_space (bs_token s) = bs_token s"
  by (auto simp: broker_main_def Let_def split: sum.splits if_splits)

section \<open>What the broker does\<close>

lemma granted_ttl_bounds: "1 \<le> granted_ttl q \<and> granted_ttl q \<le> 300"
  by (auto simp: granted_ttl_def)

lemma token_reply_token:
  assumes "token_reply p resp = BrokerToken t"
  obtains code st body where "resp = Response code st body" "code < 300"
    "decode_token_status body = Some (tp_AccessToken t, tp_ExpiresAt t)" "tp_AccessToken t \<noteq> []" "tp_Profile t = prof_Ref p"
  using assms by (auto simp: token_reply_def split: http_response.splits option.splits prod.splits if_splits)

lemma exchange_sends:
  assumes "exchange env s p q = (rep, hqs)" "hqs \<noteq> [] \<or> rep = BrokerToken t"
  shows "\<exists>aud. hqs = [kube_token_request s p aud (granted_ttl q)] \<and>
    rep = token_reply p (be_kube env (kube_token_request s p aud (granted_ttl q)))"
  using assms by (auto simp: exchange_def Let_def split: if_splits)

lemma issue_decoded_sends:
  assumes "issue_decoded env s q = (rep, hqs)" "hqs \<noteq> [] \<or> rep = BrokerToken t"
  shows "\<exists>p. map_of (bs_profiles s) (tq_CredentialRef q) = Some p \<and> profile_grants p q \<and> exchange env s p q = (rep, hqs)"
  using assms by (auto simp: issue_decoded_def split: option.splits if_splits)

lemma serve_sends:
  assumes "broker_serve env s r = (rep, hqs)" "hqs \<noteq> [] \<or> rep = BrokerToken t"
  shows "\<exists>body q. bq_path r = ''/v1/credentials/token'' \<and> bq_verified r \<and> authorized s r \<and> bq_body r = Some body \<and>
    decode_token_request (take (2 ^ 16) body) = Some q \<and> issue_decoded env s q = (rep, hqs)"
  using assms
  by (auto simp: broker_serve_def broker_requireMTLS_def broker_mux_def issue_def ready_def split: option.splits if_splits)

text \<open>
  C11. The broker asks Kubernetes for a token only on behalf of a caller that presented a verified
  client certificate and the broker's own token, only for the service account of the profile that is
  registered under the requested reference, and only when the profile covers the requested namespace
  and operation; the token lives between 1 and 300 seconds.  A token that the broker returns is the
  one that Kubernetes answered to that single request.
\<close>

theorem broker_issues_only_registered:
  assumes "broker_serve env s r = (rep, hqs)" and "hqs \<noteq> [] \<or> rep = BrokerToken t"
  shows "\<exists>q p aud ttl. authorized s r \<and> bq_verified r \<and>
    decode_token_request (take (2 ^ 16) (the (bq_body r))) = Some q \<and>
    map_of (bs_profiles s) (tq_CredentialRef q) = Some p \<and>
    tq_Namespace q = prof_Namespace p \<and> to_lower (tq_Operation q) \<in> prof_Operations p \<and>
    hqs = [kube_token_request s p aud ttl] \<and> 1 \<le> ttl \<and> ttl \<le> 300 \<and>
    (rep = BrokerToken t \<longrightarrow> (\<exists>code st body. be_kube env (kube_token_request s p aud ttl) = Response code st body \<and> code < 300 \<and>
       decode_token_status body = Some (tp_AccessToken t, tp_ExpiresAt t)))"
proof -
  obtain body q where q: "bq_verified r" "authorized s r" "bq_body r = Some body"
    "decode_token_request (take (2 ^ 16) body) = Some q" "issue_decoded env s q = (rep, hqs)"
    using serve_sends [OF assms] by blast
  obtain p where p: "map_of (bs_profiles s) (tq_CredentialRef q) = Some p" "profile_grants p q" "exchange env s p q = (rep, hqs)"
    using issue_decoded_sends [OF q(5) assms(2)] by blast
  obtain aud where a: "hqs = [kube_token_request s p aud (granted_ttl q)]"
    "rep = token_reply p (be_kube env (kube_token_request s p aud (granted_ttl q)))"
    using exchange_sends [OF p(3) assms(2)] by blast
  have "\<exists>code st body. be_kube env (kube_token_request s p aud (granted_ttl q)) = Response code st body \<and> code < 300 \<and>
      decode_token_status body = Some (tp_AccessToken t, tp_ExpiresAt t)" if "rep = BrokerToken t"
    using that a(2) token_reply_token [of p _ t] by metis
  with q p a granted_ttl_bounds [of q] show ?thesis
    unfolding profile_grants_def by (intro exI [of _ q] exI [of _ p] exI [of _ aud] exI [of _ "granted_ttl q"]) simp
qed

section \<open>The executor's exchange\<close>

lemma json_first_object:
  assumes "json_wf (JObj (y # ys))" "json_depth (JObj (y # ys)) \<le> max_depth"
  shows "json_first (json_text (JObj (y # ys)) @ r) = Some (JObj (y # ys))"
proof -
  define s where "s = commas (map member_text (y # ys)) @ CHR ''}'' # r"
  have "skip_ws s = s" "expect CHR ''}'' s = None"
    by (simp_all add: s_def commas_Cons member_text_ws) (simp add: member_text_def json_quote_def)
  moreover have "jmembers (max_depth - 1) s = Some (map with_raw (y # ys), r)"
    unfolding s_def
  proof (rule jmembers_text)
    show "\<forall>p\<in>set (y # ys). json_ok (snd p)" using assms(1) json_wf_ok by (auto simp: list_all_iff)
    show "jvalue (max_depth - 1) (json_text (snd p) @ u) = Some (snd p, u)" if "p \<in> set (y # ys)" "delim u" for p u
      by (rule jvalue_text) (use assms(1) json_depth_le(2) [OF assms(2) that(1)] that in \<open>auto simp: list_all_iff\<close>)
  qed simp
  moreover have "map (apsnd snd) (map with_raw (y # ys)) = y # ys" by (simp add: with_raw_def comp_def apsnd_def)
  moreover have "max_depth \<noteq> 0" by (simp add: max_depth_def)
  ultimately have "jvalue max_depth (CHR ''{'' # s) = Some (JObj (y # ys), r)"
    using jvalue_step(2) [of max_depth s "map with_raw (y # ys)" r] by simp
  then show ?thesis by (simp add: json_first_def json_text_Obj s_def del: json_text.simps(6))
qed

lemma decode_wire_token: "decode_token (json_text (token_json t) @ r) = Some (tp_AccessToken t)"
proof -
  have "json_first (json_text (token_json t) @ r) = Some (token_json t)"
    unfolding token_json_def by (rule json_first_object) (simp_all add: max_depth_def)
  moreover have "to_lower ''access_token'' = ''access_token''" "to_lower ''expires_at'' = ''expires_at''"
    "to_lower ''profile'' = ''profile''" by code_simp+
  ultimately show ?thesis by (simp add: decode_token_def token_json_def dec_struct_def dec_str_def del: json_text.simps)
qed

text \<open>The request of the executor as the broker reads it.\<close>

definition wire_token_request :: "executor_context \<Rightarrow> tokenRequest" where
  "wire_token_request ctx =
     \<lparr>tq_CredentialRef = xc_CredentialRef ctx, tq_ClusterID = xc_ClusterID ctx, tq_Namespace = xc_Namespace ctx,
      tq_Resource = xc_ResourceType ctx @ '':'' @ xc_TargetName ctx, tq_Operation = xc_Operation ctx,
      tq_Audience = ''ai-action-executor'', tq_TTLSeconds = 300\<rparr>"

definition token_request_members :: "executor_context \<Rightarrow> (gostring \<times> json) list" where
  "token_request_members ctx =
     [(''audience'', JStr ''ai-action-executor''), (''cluster_id'', JStr (xc_ClusterID ctx)),
      (''credential_ref'', JStr (xc_CredentialRef ctx)), (''namespace'', JStr (xc_Namespace ctx)),
      (''operation'', JStr (xc_Operation ctx)),
      (''resource'', JStr (xc_ResourceType ctx @ '':'' @ xc_TargetName ctx)), (''ttl_seconds'', JNum ''300'')]"

lemma broker_body: "hq_body (broker_request sv ctx) = json_text (JObj (token_request_members ctx))"
  by (simp add: broker_request_def token_request_members_def go_map_def less_char_def del: json_text.simps)

lemma decode_wire_request: "decode_token_request (hq_body (broker_request sv ctx)) = Some (wire_token_request ctx)"
proof -
  have lit: "json_number ''300''" "ParseInt ''300'' = Some 300" by code_simp+
  have low: "to_lower ''audience'' = ''audience''" "to_lower ''resource'' = ''resource''"
    "to_lower ''ttl_seconds'' = ''ttl_seconds''" by code_simp+
  have "json_parse (json_text (JObj (token_request_members ctx))) = Some (JObj (token_request_members ctx))"
    by (rule json_parse_text) (simp_all add: token_request_members_def max_depth_def lit)
  then show ?thesis
    by (simp add: broker_body decode_token_request_def token_request_members_def dec_struct_def dec_token_request_def dec_str_def
        dec_int64_def zero_token_request_def wire_token_request_def lit low del: json_text.simps)
qed
text \<open>The broker in the place of the executor's parameter: a request arrives at the broker's path, over a
  connection whose client certificate was verified or not.\<close>

definition deliver :: "gostring \<Rightarrow> bool \<Rightarrow> http_request \<Rightarrow> broker_http" where
  "deliver base verified q =
     \<lparr>bq_method = hq_method q, bq_path = drop (length base) (hq_url q), bq_authorization = hq_authorization q,
      bq_body = Some (hq_body q), bq_verified = verified\<rparr>"

definition exchange_request :: "server \<Rightarrow> bool \<Rightarrow> executor_context \<Rightarrow> broker_http" where
  "exchange_request sv verified ctx = deliver (trim_slashes (sv_credBrokerURL sv)) verified (broker_request sv ctx)"

definition wired :: "exec_env \<Rightarrow> server \<Rightarrow> bool \<Rightarrow> broker_env \<Rightarrow> broker_server \<Rightarrow> bool" where
  "wired env sv verified benv s \<longleftrightarrow>
     (\<forall>q. xe_broker env q = wire_reply (fst (broker_serve benv s (deliver (trim_slashes (sv_credBrokerURL sv)) verified q))))"

text \<open>The body stays within what the broker reads.\<close>

definition short_request :: "executor_context \<Rightarrow> bool" where
  "short_request ctx \<longleftrightarrow> length (json_text (JObj (token_request_members ctx))) \<le> 2 ^ 16"

lemma exchange_fields [simp]:
  "bq_method (exchange_request sv v ctx) = ''POST''" "bq_path (exchange_request sv v ctx) = ''/v1/credentials/token''"
  "bq_body (exchange_request sv v ctx) = Some (hq_body (broker_request sv ctx))" "bq_verified (exchange_request sv v ctx) = v"
  "bq_authorization (exchange_request sv v ctx) = hq_authorization (broker_request sv ctx)"
  by (simp_all add: exchange_request_def deliver_def) (simp_all add: broker_request_def)

lemma exchange_serve:
  assumes "short_request ctx"
  shows "broker_serve benv s (exchange_request sv v ctx) =
    (if \<not> v then (BrokerText 401 ''client certificate required'', [])
     else if \<not> authorized s (exchange_request sv v ctx) then (BrokerText 401 ''unauthorized'', [])
     else issue_decoded benv s (wire_token_request ctx))"
proof -
  have "take (2 ^ 16) (hq_body (broker_request sv ctx)) = hq_body (broker_request sv ctx)"
    using assms by (simp only: short_request_def broker_body take_all_iff)
  then show ?thesis by (simp add: broker_serve_def broker_requireMTLS_def broker_mux_def issue_def decode_wire_request)
qed

lemma issue_decoded_reply:
  assumes "issue_decoded benv s q = (rep, hqs)"
  shows "(\<exists>c m. rep = BrokerText c m \<and> 400 \<le> c) \<or> (\<exists>t. rep = BrokerToken t)"
  using assms
  by (auto simp: issue_decoded_def exchange_def token_reply_def Let_def
      split: option.splits if_splits http_response.splits prod.splits)

lemma exchange_reply:
  assumes "short_request ctx" "broker_serve benv s (exchange_request sv v ctx) = (rep, hqs)"
  shows "(\<exists>c m. rep = BrokerText c m \<and> 400 \<le> c) \<or> (\<exists>t. rep = BrokerToken t)"
  using assms(2) issue_decoded_reply unfolding exchange_serve [OF assms(1)] by (auto split: if_splits)

lemma credential_from_broker:
  assumes "wired env sv v benv s" "short_request ctx" "issueCredential env sv ctx = Inr tok"
  shows "\<exists>t hqs. broker_serve benv s (exchange_request sv v ctx) = (BrokerToken t, hqs) \<and> tok = tp_AccessToken t"
proof -
  obtain rep hqs where r: "broker_serve benv s (exchange_request sv v ctx) = (rep, hqs)" by fastforce
  then have x: "xe_broker env (broker_request sv ctx) = wire_reply rep"
    using assms(1) unfolding wired_def exchange_request_def by simp
  from exchange_reply [OF assms(2) r] show ?thesis
  proof (elim disjE exE conjE)
    fix c m assume "rep = BrokerText c m" "400 \<le> c"
    with x assms(3) show ?thesis by (simp add: issueCredential_def wire_reply_def split: if_splits)
  next
    fix t assume "rep = BrokerToken t"
    with x assms(3) r show ?thesis by (auto simp: issueCredential_def wire_reply_def decode_wire_token split: if_splits)
  qed
qed

lemma wire_request_fields [simp]:
  "tq_CredentialRef (wire_token_request ctx) = xc_CredentialRef ctx" "tq_Namespace (wire_token_request ctx) = xc_Namespace ctx"
  "tq_Operation (wire_token_request ctx) = xc_Operation ctx" "tq_ClusterID (wire_token_request ctx) = xc_ClusterID ctx"
  "tq_Audience (wire_token_request ctx) = ''ai-action-executor''" "granted_ttl (wire_token_request ctx) = 300"
  "tq_Resource (wire_token_request ctx) \<noteq> []"
  by (simp_all add: wire_token_request_def granted_ttl_def)

lemma credential_scope:
  assumes "broker_main ev = Inr s" "wired env sv v benv s" "short_request ctx" "issueCredential env sv ctx = Inr tok"
  shows "\<exists>p. map_of (bs_profiles s) (xc_CredentialRef ctx) = Some p \<and> registered (xc_CredentialRef ctx) p \<and>
    profile_grants p (wire_token_request ctx) \<and>
    (\<exists>code st body expires. be_kube benv (kube_token_request s p ''ai-action-executor'' 300) = Response code st body \<and>
      code < 300 \<and> decode_token_status body = Some (tok, expires))"
proof -
  obtain t hqs where t: "broker_serve benv s (exchange_request sv v ctx) = (BrokerToken t, hqs)" "tok = tp_AccessToken t"
    using credential_from_broker [OF assms(2-4)] by blast
  then have d: "issue_decoded benv s (wire_token_request ctx) = (BrokerToken t, hqs)"
    unfolding exchange_serve [OF assms(3)] by (auto split: if_splits)
  then obtain p where p: "map_of (bs_profiles s) (xc_CredentialRef ctx) = Some p" "profile_grants p (wire_token_request ctx)"
      "exchange benv s p (wire_token_request ctx) = (BrokerToken t, hqs)"
    using issue_decoded_sends [OF d] by auto
  then have "token_reply p (be_kube benv (kube_token_request s p ''ai-action-executor'' 300)) = BrokerToken t"
    by (auto simp: exchange_def or_default_def Let_def split: if_splits)
  then obtain code st body where "be_kube benv (kube_token_request s p ''ai-action-executor'' 300) = Response code st body"
      "code < 300" "decode_token_status body = Some (tok, tp_ExpiresAt t)"
    unfolding t(2) by (rule token_reply_token)
  with p main_registered [OF assms(1) p(1)] show ?thesis by blast
qed

text \<open>
  C10. The executor and the broker together: whenever the executor obtains a credential from the broker,
  the broker holds a profile under the credential reference of the signed context, the profile names the
  namespace of the target and allows the operation, and the token that the executor will use is the one
  that Kubernetes issued, for 300 seconds, to the service account of that profile.
\<close>

theorem executor_credential_scoped:
  assumes "broker_main ev = Inr s" "wired env sv v benv s" "short_request ctx"
    and "sv_credBrokerURL sv \<noteq> []" "with_credential env sv ctx = Inr sv'"
  shows "\<exists>p. map_of (bs_profiles s) (xc_CredentialRef ctx) = Some p \<and> prof_Ref p = xc_CredentialRef ctx \<and>
    prof_Namespace p = xc_Namespace ctx \<and> to_lower (xc_Operation ctx) \<in> prof_Operations p \<and>
    (\<exists>code st body expires. be_kube benv (kube_token_request s p ''ai-action-executor'' 300) = Response code st body \<and>
      code < 300 \<and> decode_token_status body = Some (sv_k8sToken sv', expires))"
proof -
  obtain tok where "issueCredential env sv ctx = Inr tok" "sv_k8sToken sv' = tok"
    using assms(4,5) by (auto simp: with_credential_def split: sum.splits)
  with credential_scope [OF assms(1-3)] show ?thesis
    unfolding profile_grants_def registered_def by fastforce
qed


text \<open>
  The broker serves the executor: with the broker's token, a verified certificate, a registered profile
  that covers the request, and a Kubernetes API that answers with a token, the executor's exchange
  succeeds and hands over exactly that token.
\<close>

theorem registered_exchange_succeeds:
  assumes "broker_main ev = Inr s" "wired env sv True benv s" "short_request ctx" "sv_credBrokerURL sv \<noteq> []"
    and "sv_brokerToken sv = bs_token s" "bs_token s \<noteq> []" "bs_apiURL s \<noteq> []" "bs_apiToken s \<noteq> []"
    and "map_of (bs_profiles s) (xc_CredentialRef ctx) = Some p" "trim_space (xc_CredentialRef ctx) \<noteq> []"
    and "match_classes canonicalUUID (to_lower (xc_ClusterID ctx))" "xc_Namespace ctx = prof_Namespace p"
    and "to_lower (xc_Operation ctx) \<in> prof_Operations p" "be_accepts benv (token_url s p)"
    and "be_kube benv (kube_token_request s p ''ai-action-executor'' 300) = Response code st body" "code < 300"
    and "decode_token_status body = Some (tok, expires)" "trim_space tok \<noteq> []"
  shows "with_credential env sv ctx = Inr (sv\<lparr>sv_k8sToken := tok\<rparr>)"
proof -
  have tok: "tok \<noteq> []" using assms(18) by (auto simp: trim_space_def)
  have "hq_authorization (broker_request sv ctx) = ''Bearer '' @ bs_token s" using assms(5,6) by (simp add: broker_request_def)
  then have auth: "authorized s (exchange_request sv True ctx)"
    using assms(6) main_token [OF assms(1)] by (simp add: authorized_def trim_prefix_def has_prefix_def)
  have "profile_grants p (wire_token_request ctx)" using assms(11-13) by (simp add: profile_grants_def)
  then have "fst (issue_decoded benv s (wire_token_request ctx)) =
      BrokerToken \<lparr>tp_AccessToken = tok, tp_ExpiresAt = expires, tp_Profile = prof_Ref p\<rparr>"
    using assms(7-9,14-17) tok by (simp add: issue_decoded_def exchange_def or_default_def token_reply_def Let_def)
  then have "xe_broker env (broker_request sv ctx) =
      wire_reply (BrokerToken \<lparr>tp_AccessToken = tok, tp_ExpiresAt = expires, tp_Profile = prof_Ref p\<rparr>)"
    using assms(2) exchange_serve [OF assms(3), of benv s sv True] auth
    unfolding wired_def exchange_request_def by simp
  then show ?thesis using assms(4,10,18)
    by (simp add: with_credential_def issueCredential_def wire_reply_def decode_wire_token)
qed

section \<open>A sample exchange\<close>

text \<open>An equation for \<open>split_on\<close> that evaluates in linear time.\<close>

lemma split_on_code [code]:
  "split_on d s = (case dropWhile (\<lambda>c. c \<noteq> d) s of [] \<Rightarrow> [takeWhile (\<lambda>c. c \<noteq> d) s] | _ # r \<Rightarrow> takeWhile (\<lambda>c. c \<noteq> d) s # split_on d r)"
proof (induction s)
  case (Cons c s)
  then show ?case by (cases "c = d"; cases "dropWhile (\<lambda>c. c \<noteq> d) s") (simp_all del: dropWhile_eq_Nil_conv)
qed simp

definition sample_broker_environment :: broker_environment where
  "sample_broker_environment =
     \<lparr>bv_CREDENTIAL_PROFILES = ''ref|shop|action|scale, Rollout_Restart; '', bv_SERVICEACCOUNT_TOKEN = [], bv_sa_token = Some ''kt '',
      bv_BROKER_TOKEN = '' bt'', bv_KUBERNETES_API_URL = [], bv_KUBERNETES_SERVICE_HOST = ''k8s'', bv_KUBERNETES_SERVICE_PORT = [],
      bv_AIOPS_ENV = ''Production''\<rparr>"

definition sample_profile :: profile where
  "sample_profile = \<lparr>prof_Ref = ''ref'', prof_Namespace = ''shop'', prof_ServiceAcct = ''action'',
     prof_Operations = {''scale'', ''rollout_restart''}\<rparr>"

definition sample_broker :: broker_server where
  "sample_broker = \<lparr>bs_token = ''bt'', bs_profiles = [(''ref'', sample_profile)], bs_apiURL = ''https://k8s:443'',
     bs_apiToken = ''kt'', bs_production = True\<rparr>"

definition sample_grant :: json where
  "sample_grant = JObj [(''status'', JObj [(''token'', JStr ''short-lived''), (''expirationTimestamp'', JStr ''soon'')])]"

definition sample_broker_env :: broker_env where
  "sample_broker_env = \<lparr>be_kube = (\<lambda>q. Response 201 ''201 Created'' (json_text sample_grant)), be_accepts = (\<lambda>_. True)\<rparr>"

definition brokered_server :: server where
  "brokered_server = exec_server\<lparr>sv_credBrokerURL := ''https://broker/'', sv_brokerToken := ''bt''\<rparr>"

definition brokered_env :: exec_env where
  "brokered_env = exec_sample_env\<lparr>xe_broker := (\<lambda>q. wire_reply (fst (broker_serve sample_broker_env sample_broker
     (deliver (trim_slashes (sv_credBrokerURL brokered_server)) True q))))\<rparr>"

definition brokered_context :: "gostring \<Rightarrow> executor_context" where
  "brokered_context ns = (wire_context exec_action)
     \<lparr>xc_ClusterID := ''3f3c3b3a-0000-4000-8000-000000000001'', xc_Namespace := ns\<rparr>"

lemma sample_operations: "profile_operations ''scale, Rollout_Restart'' = {''scale'', ''rollout_restart''}"
proof -
  have ops: "filter (\<lambda>op. op \<noteq> []) (map (\<lambda>op. to_lower (trim_space op)) (split_on (CHR '','') ''scale, Rollout_Restart'')) =
      [''scale'', ''rollout_restart'']" by code_simp
  show ?thesis unfolding profile_operations_def ops by simp
qed

lemma sample_profiles: "parseProfiles ''ref|shop|action|scale, Rollout_Restart; '' = Inr [(''ref'', sample_profile)]"
proof -
  have items: "split_on (CHR '';'') ''ref|shop|action|scale, Rollout_Restart; '' = [''ref|shop|action|scale, Rollout_Restart'', '' '']"
    "trim_space ''ref|shop|action|scale, Rollout_Restart'' = ''ref|shop|action|scale, Rollout_Restart''" "trim_space '' '' = []"
    "split_on (CHR ''|'') ''ref|shop|action|scale, Rollout_Restart'' = [''ref'', ''shop'', ''action'', ''scale, Rollout_Restart'']"
    by code_simp+
  have "parse_profile ''ref|shop|action|scale, Rollout_Restart'' = Inr sample_profile"
    by (simp add: parse_profile_def items sample_operations sample_profile_def Let_def del: split_on.simps)
  then show ?thesis
    by (simp add: parseProfiles_def items del: split_on.simps) (simp add: sample_profile_def)
qed

lemma sample_broker_starts: "broker_main sample_broker_environment = Inr sample_broker"
proof -
  have "api_url sample_broker_environment = ''https://k8s:443''" "api_token sample_broker_environment = ''kt''"
    "trim_space (bv_BROKER_TOKEN sample_broker_environment) = ''bt''"
    "to_lower (bv_AIOPS_ENV sample_broker_environment) = ''production''" by code_simp+
  moreover have "parseProfiles (bv_CREDENTIAL_PROFILES sample_broker_environment) = Inr [(''ref'', sample_profile)]"
    by (simp add: sample_broker_environment_def sample_profiles del: split_on.simps)
  ultimately show ?thesis by (simp add: broker_main_def sample_broker_def Let_def)
qed

lemma sample_wired: "wired brokered_env brokered_server True sample_broker_env sample_broker"
  by (simp add: wired_def brokered_env_def)

lemma sample_short: "short_request (brokered_context ''shop'')" "short_request (brokered_context [])"
proof -
  have "length (json_text (JObj (token_request_members (brokered_context ''shop'')))) \<le> 500" by code_simp
  then show "short_request (brokered_context ''shop'')" unfolding short_request_def by (rule order_trans) simp
  have "length (json_text (JObj (token_request_members (brokered_context [])))) \<le> 500" by code_simp
  then show "short_request (brokered_context [])" unfolding short_request_def by (rule order_trans) simp
qed

lemma sample_granted: "decode_token_status (json_text sample_grant) = Some (''short-lived'', ''soon'')"
proof -
  have "json_first (json_text sample_grant) = Some sample_grant"
    by (rule json_first_text) (code_simp, simp add: sample_grant_def max_depth_def)
  moreover have "dec_struct (\<lambda>k v. if k = ''status'' then dec_struct dec_token_status v else Some) sample_grant ([], []) =
      Some (''short-lived'', ''soon'')" by code_simp
  ultimately show ?thesis by (simp add: decode_token_status_def)
qed

lemma sample_broker_url: "sv_credBrokerURL brokered_server \<noteq> []" "sv_brokerToken brokered_server = bs_token sample_broker"
  by (simp_all add: brokered_server_def sample_broker_def)

lemma sample_broker_fields: "bs_token sample_broker \<noteq> []" "bs_apiURL sample_broker \<noteq> []" "bs_apiToken sample_broker \<noteq> []"
  by (simp_all add: sample_broker_def)

lemma sample_context_fields:
  "map_of (bs_profiles sample_broker) (xc_CredentialRef (brokered_context ''shop'')) = Some sample_profile"
  "trim_space (xc_CredentialRef (brokered_context ''shop'')) \<noteq> []"
  "match_classes canonicalUUID (to_lower (xc_ClusterID (brokered_context ''shop'')))"
  "xc_Namespace (brokered_context ''shop'') = prof_Namespace sample_profile"
  "to_lower (xc_Operation (brokered_context ''shop'')) \<in> prof_Operations sample_profile"
  by code_simp+

lemma sample_kube: "be_kube sample_broker_env q = Response 201 ''201 Created'' (json_text sample_grant)"
  "be_accepts sample_broker_env u" "(201 :: int) < 300" "trim_space ''short-lived'' \<noteq> []"
  by (simp_all add: sample_broker_env_def) code_simp

theorem registered_exchange_succeeds_witness:
  "with_credential brokered_env brokered_server (brokered_context ''shop'') = Inr (brokered_server\<lparr>sv_k8sToken := ''short-lived''\<rparr>)"
  by (rule registered_exchange_succeeds [OF sample_broker_starts sample_wired sample_short(1) sample_broker_url sample_broker_fields
      sample_context_fields sample_kube(2,1,3) sample_granted sample_kube(4)])

text \<open>The exchange of the sample, computed from the definitions.\<close>

lemma sample_decoded:
  "issue_decoded sample_broker_env sample_broker (wire_token_request (brokered_context ''shop'')) =
    (BrokerToken \<lparr>tp_AccessToken = ''short-lived'', tp_ExpiresAt = ''soon'', tp_Profile = ''ref''\<rparr>,
     [kube_token_request sample_broker sample_profile ''ai-action-executor'' 300])"
proof -
  have "profile_grants sample_profile (wire_token_request (brokered_context ''shop''))"
    using sample_context_fields by (simp add: profile_grants_def)
  moreover have "prof_Ref sample_profile = ''ref''" by (simp add: sample_profile_def)
  ultimately show ?thesis
    using sample_context_fields(1) sample_broker_fields sample_kube sample_granted
    by (simp add: issue_decoded_def exchange_def or_default_def token_reply_def Let_def)
qed

lemma sample_served:
  "broker_serve sample_broker_env sample_broker (exchange_request brokered_server True (brokered_context ''shop'')) =
    (BrokerToken \<lparr>tp_AccessToken = ''short-lived'', tp_ExpiresAt = ''soon'', tp_Profile = ''ref''\<rparr>,
     [kube_token_request sample_broker sample_profile ''ai-action-executor'' 300])"
proof -
  have "authorized sample_broker (exchange_request brokered_server True (brokered_context ''shop''))" by code_simp
  then show ?thesis by (simp add: exchange_serve [OF sample_short(1)] sample_decoded)
qed

lemma sample_credential:
  "with_credential brokered_env brokered_server (brokered_context ''shop'') = Inr (brokered_server\<lparr>sv_k8sToken := ''short-lived''\<rparr>)"
proof -
  have "xe_broker brokered_env (broker_request brokered_server (brokered_context ''shop'')) =
      wire_reply (BrokerToken \<lparr>tp_AccessToken = ''short-lived'', tp_ExpiresAt = ''soon'', tp_Profile = ''ref''\<rparr>)"
    using sample_served by (simp add: brokered_env_def exchange_request_def)
  then show ?thesis using sample_broker_url(1) sample_context_fields(2) sample_kube(4)
    by (simp add: with_credential_def issueCredential_def wire_reply_def decode_wire_token)
qed

theorem executor_credential_scoped_witness:
  "\<exists>p. map_of (bs_profiles sample_broker) (xc_CredentialRef (brokered_context ''shop'')) = Some p \<and>
    prof_Namespace p = xc_Namespace (brokered_context ''shop'')"
  using executor_credential_scoped [OF sample_broker_starts sample_wired sample_short(1) sample_broker_url(1) sample_credential] by blast

theorem broker_issues_only_registered_witness:
  "\<exists>(q :: tokenRequest) p aud ttl. map_of (bs_profiles sample_broker) (tq_CredentialRef q) = Some p \<and>
     tq_Namespace q = prof_Namespace p \<and> ttl \<le> 300 \<and>
     [kube_token_request sample_broker sample_profile ''ai-action-executor'' 300] = [kube_token_request sample_broker p aud ttl]"
proof -
  have "[kube_token_request sample_broker sample_profile ''ai-action-executor'' 300] \<noteq> []" by simp
  from broker_issues_only_registered [OF sample_served disjI1 [OF this], of undefined] show ?thesis by blast
qed


section \<open>Mutual TLS\<close>

text \<open>A server that requires mutual TLS starts with TLS and accepts a client certificate only when it
  carries one of the configured names.\<close>

lemma mtls_required_pins_clients:
  assumes "configureMTLSServer te = Inr tls" "to_lower (trim_space (te_MTLS_REQUIRED te)) = ''true''"
    and "verifyClientSAN (te_CLIENT_SAN te) (Some (dns, uris))"
  shows "tls \<and> (\<exists>a\<in>set (split_on (CHR '','') (trim_space (te_CLIENT_SAN te))). trim_space a \<noteq> [] \<and> trim_space a \<in> set (dns @ uris))"
proof -
  have "tls \<and> trim_space (te_CLIENT_SAN te) \<noteq> []"
    using assms(1,2) by (simp add: configureMTLSServer_def Let_def split: if_splits option.splits)
  with assms(3) show ?thesis by (simp add: verifyClientSAN_def list_ex_iff del: set_append)
qed

end
