(* ===== verification/EgressProxy.thy ===== *)
theory EgressProxy
  imports Broker
begin

text \<open>
  The LLM egress proxy (\<open>ai-llm-egress-proxy/main.go\<close> and the guard of its \<open>mtls.go\<close>): the only way from the
  platform to the providers of language models, and the only holder of their keys.

  \<open>url.Parse\<close>, the address of the caller and the answer of a provider are arguments.  The standard reverse proxy
  is modelled as far as it decides what leaves the process: the scheme, the host, the path and the
  headers of its request (the headers of a protocol upgrade and of trailers are left out).  The handler
  restores the headers and the URL of the request afterwards, which nobody reads any more.

  \<open>egress_only_allowlisted\<close>: a request leaves the proxy only for a caller with a verified certificate and the
  token of the proxy, to one of the two providers, below \<open>/v1/\<close>, with the key of that provider.
\<close>

section \<open>Configuration\<close>

record url =
  url_Scheme :: gostring
  url_Host :: gostring
  url_Path :: gostring

text \<open>\<open>Hostname\<close> of a host that is not an IPv6 address.\<close>

definition Hostname :: "url \<Rightarrow> gostring" where
  "Hostname u = takeWhile (\<lambda>c. c \<noteq> CHR '':'') (url_Host u)"

type_synonym parse_url = "gostring \<Rightarrow> url option"

record proxyConfig =
  pc_providerKeys :: "(gostring \<times> gostring) list"
  pc_baseURLs :: "(gostring \<times> gostring) list"
  pc_allowlist :: "gostring list"
  pc_proxyToken :: gostring

definition allowlisted :: "gostring \<Rightarrow> bool" where
  "allowlisted provider \<longleftrightarrow> provider \<in> set [''deepseek'', ''openai'']"

definition default_allowed :: "parse_url \<Rightarrow> gostring \<times> gostring \<Rightarrow> gostring list" where
  "default_allowed parse pb =
     (case pb of (provider, base) \<Rightarrow>
        if \<not> allowlisted provider then []
        else to_lower provider #
             (case parse base of
                None \<Rightarrow> []
              | Some u \<Rightarrow> if Hostname u = [] then [] else [to_lower (Hostname u)]))"

definition parseAllowlist :: "parse_url \<Rightarrow> gostring \<Rightarrow> (gostring \<times> gostring) list \<Rightarrow> gostring list" where
  "parseAllowlist parse raw baseURLs =
     (if trim_space raw = [] then concat (map (default_allowed parse) baseURLs)
      else filter (\<lambda>v. v \<noteq> []) (map (\<lambda>v. to_lower (trim_space v)) (split_on (CHR '','') raw)))"

text \<open>\<open>strings.SplitN(s, sep, 2)\<close> for a separator of one character: the second part is missing without it.\<close>

definition split2 :: "char \<Rightarrow> gostring \<Rightarrow> gostring \<times> gostring option" where
  "split2 d s = (takeWhile (\<lambda>c. c \<noteq> d) s, case dropWhile (\<lambda>c. c \<noteq> d) s of [] \<Rightarrow> None | _ # r \<Rightarrow> Some r)"

definition parse_key :: "gostring \<Rightarrow> (gostring \<times> gostring) list" where
  "parse_key item =
     (case split2 (CHR '':'') (trim_space item) of
        (provider, Some key) \<Rightarrow> if trim_space provider = [] then [] else [(trim_space provider, trim_space key)]
      | (_, None) \<Rightarrow> [])"

text \<open>A later entry for the same provider wins, as in the map.\<close>

definition parse_keys :: "gostring \<Rightarrow> (gostring \<times> gostring) list" where
  "parse_keys raw = rev (concat (map parse_key (split_on (CHR '','') raw)))"

definition provider_base_urls :: "(gostring \<times> gostring) list" where
  "provider_base_urls = [(''deepseek'', ''https://api.deepseek.com''), (''openai'', ''https://api.openai.com'')]"

definition proxy_main :: "parse_url \<Rightarrow> gostring \<Rightarrow> gostring \<Rightarrow> gostring \<Rightarrow> proxyConfig" where
  "proxy_main parse LLM_ALLOWLIST PROXY_TOKEN LLM_PROVIDER_KEYS =
     \<lparr>pc_providerKeys = parse_keys LLM_PROVIDER_KEYS, pc_baseURLs = provider_base_urls,
      pc_allowlist = parseAllowlist parse LLM_ALLOWLIST provider_base_urls, pc_proxyToken = PROXY_TOKEN\<rparr>"

section \<open>The handler\<close>

text \<open>Headers with their canonical names; a request has each name once.\<close>

type_synonym headers = "(gostring \<times> gostring) list"

definition header_get :: "headers \<Rightarrow> gostring \<Rightarrow> gostring" where
  "header_get hs name = (case map_of hs name of None \<Rightarrow> [] | Some v \<Rightarrow> v)"

definition header_set :: "gostring \<Rightarrow> gostring \<Rightarrow> headers \<Rightarrow> headers" where
  "header_set name v hs = (name, v) # filter (\<lambda>h. fst h \<noteq> name) hs"

record proxy_http =
  pr_method :: gostring
  pr_path :: gostring
  pr_rawQuery :: gostring
  pr_headers :: headers
  pr_body :: gostring
  pr_verified :: bool
  pr_clientIP :: gostring

record upstream_request =
  up_method :: gostring
  up_scheme :: gostring
  up_host :: gostring
  up_hostHeader :: gostring
  up_path :: gostring
  up_rawQuery :: gostring
  up_headers :: headers
  up_body :: gostring

datatype proxy_reply = ProxyText int gostring | ProxyRedirect | ProxyAnswer http_response

definition proxyTokenFromRequest :: "proxy_http \<Rightarrow> gostring" where
  "proxyTokenFromRequest r =
     (let token = header_get (pr_headers r) ''X-Proxy-Token'' in
      if token \<noteq> [] then token else trim_prefix (header_get (pr_headers r) ''Authorization'') ''Bearer '')"

definition secureEqual :: "gostring \<Rightarrow> gostring \<Rightarrow> bool" where
  "secureEqual got expected \<longleftrightarrow> expected \<noteq> [] \<and> got = expected"

definition providerAllowlisted :: "parse_url \<Rightarrow> proxyConfig \<Rightarrow> gostring \<Rightarrow> bool" where
  "providerAllowlisted parse c provider =
     (if pc_allowlist c = [] then allowlisted provider
      else to_lower provider \<in> set (pc_allowlist c) \<or>
        (case parse (case map_of (pc_baseURLs c) provider of None \<Rightarrow> [] | Some base \<Rightarrow> base) of
           None \<Rightarrow> False
         | Some u \<Rightarrow> to_lower (Hostname u) \<in> set (pc_allowlist c)))"

definition providerTarget :: "parse_url \<Rightarrow> gostring \<Rightarrow> gostring \<Rightarrow> url option" where
  "providerTarget parse base path =
     (if trim_space path = [] then None
      else (case parse (trim_slashes base) of
              None \<Rightarrow> None
            | Some u \<Rightarrow>
                if url_Scheme u = [] \<or> url_Host u = [] then None
                else Some (u\<lparr>url_Path := trim_slashes (url_Path u) @ ''/v1/'' @ dropWhile (\<lambda>c. c = CHR ''/'') path\<rparr>)))"

text \<open>
  The reverse proxy: headers of the connection, and those the \<open>Connection\<close> header names, are dropped, the
  address of the caller is appended.
\<close>

definition hop_headers :: "gostring list" where
  "hop_headers = [''connection'', ''proxy-connection'', ''keep-alive'', ''proxy-authenticate'', ''proxy-authorization'',
     ''te'', ''trailer'', ''transfer-encoding'', ''upgrade'']"

definition hop_by_hop :: "headers \<Rightarrow> gostring list" where
  "hop_by_hop hs = hop_headers @ map (\<lambda>v. to_lower (trim_space v)) (split_on (CHR '','') (header_get hs ''Connection''))"

definition forwarded_headers :: "gostring \<Rightarrow> headers \<Rightarrow> headers" where
  "forwarded_headers ip hs =
     (let kept = filter (\<lambda>h. to_lower (fst h) \<notin> set (hop_by_hop hs)) hs;
          prior = header_get kept ''X-Forwarded-For''
      in header_set ''X-Forwarded-For'' (if prior = [] then ip else prior @ '', '' @ ip) kept)"

definition reverse_proxy :: "url \<Rightarrow> gostring \<Rightarrow> proxy_http \<Rightarrow> upstream_request" where
  "reverse_proxy target apiKey r =
     \<lparr>up_method = pr_method r, up_scheme = url_Scheme target, up_host = url_Host target, up_hostHeader = url_Host target,
      up_path = url_Path target, up_rawQuery = pr_rawQuery r,
      up_headers = forwarded_headers (pr_clientIP r) (header_set ''Authorization'' (''Bearer '' @ apiKey) (pr_headers r)),
      up_body = pr_body r\<rparr>"

type_synonym proxied = "proxy_reply \<times> upstream_request list"

definition forward :: "parse_url \<Rightarrow> (upstream_request \<Rightarrow> http_response) \<Rightarrow> proxyConfig \<Rightarrow> gostring \<Rightarrow> gostring \<Rightarrow> proxy_http \<Rightarrow> proxied" where
  "forward parse upstream c provider path r =
     (case map_of (pc_providerKeys c) provider of
        None \<Rightarrow> (ProxyText 404 (''provider '' @ go_quote provider @ '' not configured''), [])
      | Some apiKey \<Rightarrow>
          (case map_of (pc_baseURLs c) provider of
             None \<Rightarrow> (ProxyText 404 (''provider '' @ go_quote provider @ '' base URL not configured''), [])
           | Some base \<Rightarrow>
               if \<not> providerAllowlisted parse c provider then (ProxyText 403 ''provider not allowlisted'', [])
               else (case providerTarget parse base path of
                       None \<Rightarrow> (ProxyText 400 ''bad target'', [])
                     | Some target \<Rightarrow> (let u = reverse_proxy target apiKey r in (ProxyAnswer (upstream u), [u])))))"

definition handleProxy :: "parse_url \<Rightarrow> (upstream_request \<Rightarrow> http_response) \<Rightarrow> proxyConfig \<Rightarrow> proxy_http \<Rightarrow> proxied" where
  "handleProxy parse upstream c r =
     (if pc_proxyToken c = [] then (ProxyText 503 ''proxy credentials are not configured'', [])
      else if \<not> secureEqual (proxyTokenFromRequest r) (pc_proxyToken c) then (ProxyText 403 ''unauthorized proxy token'', [])
      else (case split2 (CHR ''/'') (trim_prefix (pr_path r) ''/v1/proxy/'') of
              (provider, Some path) \<Rightarrow>
                if provider = [] \<or> path = [] then (ProxyText 400 ''missing provider'', []) else forward parse upstream c provider path r
            | (_, None) \<Rightarrow> (ProxyText 400 ''missing provider'', [])))"

definition proxy_ready :: "proxyConfig \<Rightarrow> proxy_reply" where
  "proxy_ready c =
     (if pc_providerKeys c = [] \<or> trim_space (pc_proxyToken c) = [] then ProxyText 503 ''proxy credentials are not configured''
      else ProxyText 200 ''ready'')"

text \<open>The multiplexer redirects a path with empty, \<open>.\<close> or \<open>..\<close> segments to its clean form before it looks for a handler.\<close>

definition clean_path :: "gostring \<Rightarrow> bool" where
  "clean_path p \<longleftrightarrow>
     (case split_on (CHR ''/'') p of
        [] # segs \<Rightarrow> [] \<notin> set (butlast segs) \<and> ''.'' \<notin> set segs \<and> ''..'' \<notin> set segs
      | _ \<Rightarrow> False)"

definition proxy_mux :: "parse_url \<Rightarrow> (upstream_request \<Rightarrow> http_response) \<Rightarrow> proxyConfig \<Rightarrow> proxy_http \<Rightarrow> proxied" where
  "proxy_mux parse upstream c r =
     (if \<not> clean_path (pr_path r) then (ProxyRedirect, [])
      else if pr_path r = ''/healthz'' then (ProxyText 200 ''ok'', [])
      else if pr_path r = ''/readyz'' then (proxy_ready c, [])
      else if has_prefix (pr_path r) ''/v1/proxy/'' then handleProxy parse upstream c r
      else (ProxyText 404 ''404 page not found'', []))"

definition proxy_requireMTLS :: "(proxy_http \<Rightarrow> proxied) \<Rightarrow> proxy_http \<Rightarrow> proxied" where
  "proxy_requireMTLS nxt r =
     (if has_prefix (pr_path r) ''/v1/'' \<and> \<not> pr_verified r then (ProxyText 401 ''client certificate required'', []) else nxt r)"

definition proxy_serve :: "parse_url \<Rightarrow> (upstream_request \<Rightarrow> http_response) \<Rightarrow> proxyConfig \<Rightarrow> proxy_http \<Rightarrow> proxied" where
  "proxy_serve parse upstream c r = proxy_requireMTLS (proxy_mux parse upstream c) r"

section \<open>What leaves the proxy\<close>

lemma header_get_set: "header_get (header_set name v hs) k = (if k = name then v else header_get hs k)"
  by (induction hs) (auto simp: header_get_def header_set_def split: option.splits)

lemma header_get_filter: "header_get (filter (\<lambda>h. P (fst h)) hs) k = (if P k then header_get hs k else [])"
  by (induction hs) (auto simp: header_get_def)

lemma forwarded_get:
  "k \<noteq> ''X-Forwarded-For'' \<Longrightarrow>
    header_get (forwarded_headers ip hs) k = (if to_lower k \<in> set (hop_by_hop hs) then [] else header_get hs k)"
  by (simp add: forwarded_headers_def Let_def header_get_set header_get_filter [of "\<lambda>k. to_lower k \<notin> set (hop_by_hop hs)"])

lemma upstream_authorization:
  "header_get (up_headers (reverse_proxy target apiKey r)) ''Authorization'' \<in> {[], ''Bearer '' @ apiKey}"
  by (simp add: reverse_proxy_def forwarded_get header_get_set)

text \<open>The token that a caller sends in \<open>X-Proxy-Token\<close> is among the headers that the provider gets.\<close>

lemma proxy_token_forwarded:
  assumes "header_get (pr_headers r) ''Connection'' = []"
  shows "header_get (up_headers (reverse_proxy target apiKey r)) ''X-Proxy-Token'' = header_get (pr_headers r) ''X-Proxy-Token''"
proof -
  have "to_lower ''X-Proxy-Token'' = ''x-proxy-token''" by code_simp
  moreover have "to_lower [] = []" "trim_space [] = []" by code_simp+
  ultimately show ?thesis using assms
    by (simp add: reverse_proxy_def forwarded_get header_get_set hop_by_hop_def hop_headers_def)
qed

lemma split2_join: "split2 d s = (a, Some b) \<Longrightarrow> s = a @ d # b"
  by (induction s arbitrary: a) (auto simp: split2_def split: if_splits list.splits)

lemma has_prefix_split: "has_prefix s p \<Longrightarrow> s = p @ trim_prefix s p"
  by (metis append_take_drop_id has_prefix_def trim_prefix_def)

text \<open>The segments of a clean path stay clean below its provider.\<close>

lemma split_on_suffix: "\<exists>pre. pre \<noteq> [] \<and> split_on d (r @ d # s) = pre @ split_on d s"
proof (induction r)
  case Nil
  show ?case by (rule exI [of _ "[[]]"]) simp
next
  case (Cons c r)
  then obtain x pre where "split_on d (r @ d # s) = (x # pre) @ split_on d s" by (auto simp: neq_Nil_conv)
  then have "split_on d ((c # r) @ d # s) = (if c = d then [] # x # pre else (c # x) # pre) @ split_on d s" by simp
  then show ?case by (metis list.distinct(1))
qed

lemma split_on_trim: "set (split_on d (dropWhile (\<lambda>c. c = d) s)) \<subseteq> set (split_on d s)"
  by (induction s) auto

lemma clean_below:
  assumes "clean_path (r @ CHR ''/'' # s)"
  shows "''..'' \<notin> set (split_on (CHR ''/'') s)"
proof -
  obtain x pre where "split_on (CHR ''/'') (r @ CHR ''/'' # s) = (x # pre) @ split_on (CHR ''/'') s"
    using split_on_suffix [of "CHR ''/''" r s] by (auto simp: neq_Nil_conv)
  then show ?thesis using assms by (simp add: clean_path_def split: list.splits)
qed

lemma handle_sends:
  assumes "handleProxy parse upstream c r = (rep, ups)" "u \<in> set ups" "has_prefix (pr_path r) ''/v1/proxy/''"
  shows "\<exists>provider path apiKey base target. pr_path r = (''/v1/proxy/'' @ provider) @ CHR ''/'' # path \<and>
    pc_proxyToken c \<noteq> [] \<and> proxyTokenFromRequest r = pc_proxyToken c \<and> map_of (pc_providerKeys c) provider = Some apiKey \<and>
    map_of (pc_baseURLs c) provider = Some base \<and> providerAllowlisted parse c provider \<and>
    providerTarget parse base path = Some target \<and> u = reverse_proxy target apiKey r \<and> ups = [u] \<and> rep = ProxyAnswer (upstream u)"
proof -
  obtain provider path where p: "split2 (CHR ''/'') (trim_prefix (pr_path r) ''/v1/proxy/'') = (provider, Some path)"
    "forward parse upstream c provider path r = (rep, ups)" "pc_proxyToken c \<noteq> []" "proxyTokenFromRequest r = pc_proxyToken c"
    using assms(1,2) by (auto simp: handleProxy_def secureEqual_def split: if_splits prod.splits option.splits)
  have "pr_path r = ''/v1/proxy/'' @ provider @ CHR ''/'' # path"
    using has_prefix_split [OF assms(3)] split2_join [OF p(1)] by simp
  moreover obtain apiKey base target where "map_of (pc_providerKeys c) provider = Some apiKey" "map_of (pc_baseURLs c) provider = Some base"
    "providerAllowlisted parse c provider" "providerTarget parse base path = Some target" "u = reverse_proxy target apiKey r"
    "ups = [u]" "rep = ProxyAnswer (upstream u)"
    using p(2) assms(2) by (auto simp: forward_def Let_def split: option.splits if_splits)
  ultimately show ?thesis using p(3,4) unfolding append.assoc by blast
qed

definition parses_providers :: "parse_url \<Rightarrow> bool" where
  "parses_providers parse \<longleftrightarrow>
     parse ''https://api.deepseek.com'' = Some \<lparr>url_Scheme = ''https'', url_Host = ''api.deepseek.com'', url_Path = []\<rparr> \<and>
     parse ''https://api.openai.com'' = Some \<lparr>url_Scheme = ''https'', url_Host = ''api.openai.com'', url_Path = []\<rparr>"

lemma target_of_provider:
  assumes "parses_providers parse" "map_of provider_base_urls provider = Some base" "providerTarget parse base path = Some target"
  shows "(provider, url_Host target) \<in> {(''deepseek'', ''api.deepseek.com''), (''openai'', ''api.openai.com'')} \<and>
    url_Scheme target = ''https'' \<and> url_Path target = ''/v1/'' @ dropWhile (\<lambda>c. c = CHR ''/'') path"
proof -
  have trim: "trim_slashes ''https://api.deepseek.com'' = ''https://api.deepseek.com''"
    "trim_slashes ''https://api.openai.com'' = ''https://api.openai.com''" "trim_slashes [] = []" by code_simp+
  have "(provider, base) \<in> {(''deepseek'', ''https://api.deepseek.com''), (''openai'', ''https://api.openai.com'')}"
    using assms(2) by (auto simp: provider_base_urls_def split: if_splits)
  then show ?thesis using assms(1,3) by (auto simp: providerTarget_def parses_providers_def trim split: if_splits)
qed

lemma below_v1:
  assumes "''..'' \<notin> set (split_on (CHR ''/'') path)"
  shows "''..'' \<notin> set (split_on (CHR ''/'') (''/v1/'' @ dropWhile (\<lambda>c. c = CHR ''/'') path))"
  using assms split_on_trim [of "CHR ''/''" path] by auto


section \<open>A sample request\<close>

definition sample_parse :: parse_url where
  "sample_parse s =
     (if s = ''https://api.deepseek.com'' then Some \<lparr>url_Scheme = ''https'', url_Host = ''api.deepseek.com'', url_Path = []\<rparr>
      else if s = ''https://api.openai.com'' then Some \<lparr>url_Scheme = ''https'', url_Host = ''api.openai.com'', url_Path = []\<rparr>
      else None)"

definition sample_proxy :: proxyConfig where
  "sample_proxy = proxy_main sample_parse [] ''pt'' ''openai:sk-1, deepseek: sk-2''"

definition sample_call :: proxy_http where
  "sample_call = \<lparr>pr_method = ''POST'', pr_path = ''/v1/proxy/deepseek/chat/completions'', pr_rawQuery = [],
     pr_headers = [(''Authorization'', ''Bearer pt'')], pr_body = ''{}'', pr_verified = True, pr_clientIP = ''10.0.0.7''\<rparr>"

definition sample_upstream :: upstream_request where
  "sample_upstream = \<lparr>up_method = ''POST'', up_scheme = ''https'', up_host = ''api.deepseek.com'', up_hostHeader = ''api.deepseek.com'',
     up_path = ''/v1/chat/completions'', up_rawQuery = [],
     up_headers = [(''X-Forwarded-For'', ''10.0.0.7''), (''Authorization'', ''Bearer sk-2'')], up_body = ''{}''\<rparr>"

lemma sample_proxied:
  "proxy_serve sample_parse (\<lambda>_. Response 200 ''200 OK'' ''{}'') sample_proxy sample_call =
     (ProxyAnswer (Response 200 ''200 OK'' ''{}''), [sample_upstream])"
  by code_simp


end
