(* ===== verification/ToolStore.thy ===== *)
theory ToolStore
  imports LeaseSafety RunEvents
begin

text \<open>
  The store of tool runs and evidence: \<open>internal/store/ai_tool_runs.go\<close> and \<open>ai_evidence.go\<close>.

  A tool run is the durable record of one query that an investigation makes.  Its idempotency key is
  unique within its Run, its result is written with a late check against the lease of the Run, and its
  result becomes evidence at most once.  A column of type JSON is taken to return the stored text; a
  nil slice of bytes is the empty text.
\<close>

section \<open>Rows\<close>

record AIToolRun =
  T_ToolRunID :: gostring
  T_RunID :: gostring
  T_StepID :: gostring
  T_TenantID :: gostring
  T_ClusterID :: gostring
  T_ToolName :: gostring
  T_Status :: gostring
  T_Input :: gostring
  T_Result :: gostring
  T_ErrorCode :: gostring
  T_ErrorMessage :: gostring
  T_DurationMS :: int
  T_StartedAt :: "millis option"
  T_CompletedAt :: "millis option"
  T_CreatedAt :: millis
  T_IdempotencyKey :: gostring
  T_ArgsHash :: gostring
  T_ExecutorID :: gostring
  T_LeaseEpochAtStart :: int
  T_DeadlineAt :: "millis option"
  T_ObservedAt :: "millis option"
  T_QueryWindowStart :: "millis option"
  T_QueryWindowEnd :: "millis option"
  T_ResultQuality :: gostring
  T_ResultComplete :: bool
  T_ResultTruncated :: bool
  T_ResultCount :: int
  T_ResultDigestSHA256 :: gostring
  T_EligibleForEvidence :: bool
  T_EvidenceConsumedAt :: "millis option"

definition zero_tool :: AIToolRun where
  "zero_tool = \<lparr>T_ToolRunID = [], T_RunID = [], T_StepID = [], T_TenantID = [], T_ClusterID = [], T_ToolName = [],
     T_Status = [], T_Input = [], T_Result = [], T_ErrorCode = [], T_ErrorMessage = [], T_DurationMS = 0,
     T_StartedAt = None, T_CompletedAt = None, T_CreatedAt = 0, T_IdempotencyKey = [], T_ArgsHash = [],
     T_ExecutorID = [], T_LeaseEpochAtStart = 0, T_DeadlineAt = None, T_ObservedAt = None,
     T_QueryWindowStart = None, T_QueryWindowEnd = None, T_ResultQuality = [], T_ResultComplete = False,
     T_ResultTruncated = False, T_ResultCount = 0, T_ResultDigestSHA256 = [], T_EligibleForEvidence = False,
     T_EvidenceConsumedAt = None\<rparr>"

text \<open>The row that \<open>Create\<close> stores: the columns of migration 0004 get their defaults.\<close>

definition create_row :: "AIToolRun \<Rightarrow> millis \<Rightarrow> tool_run" where
  "create_row t now =
     \<lparr>tr_tool_run_id = T_ToolRunID t, tr_run_id = T_RunID t, tr_step_id = nullable_str (T_StepID t),
      tr_tenant_id = T_TenantID t, tr_cluster_id = T_ClusterID t, tr_tool_name = T_ToolName t,
      tr_status = or_default (T_Status t) ''pending'', tr_input = T_Input t, tr_result = T_Result t,
      tr_error_code = nullable_str (T_ErrorCode t), tr_error_message = nullable_str (T_ErrorMessage t),
      tr_duration_ms = T_DurationMS t, tr_started_at = T_StartedAt t, tr_completed_at = T_CompletedAt t,
      tr_created_at = now, tr_idempotency_key = T_IdempotencyKey t, tr_args_hash = None, tr_executor_id = None,
      tr_lease_epoch_at_start = None, tr_deadline_at = None, tr_observed_at = None, tr_window_start = None,
      tr_window_end = None, tr_result_quality = ''none'', tr_result_complete = False,
      tr_result_truncated = False, tr_result_count = 0, tr_result_digest = None, tr_eligible = False,
      tr_evidence_consumed_at = None\<rparr>"

definition quality_row :: "AIToolRun \<Rightarrow> millis \<Rightarrow> tool_run" where
  "quality_row t now = (create_row t now)
     \<lparr>tr_args_hash := nullable_str (T_ArgsHash t), tr_executor_id := nullable_str (T_ExecutorID t),
      tr_lease_epoch_at_start := Some (T_LeaseEpochAtStart t), tr_deadline_at := T_DeadlineAt t,
      tr_observed_at := T_ObservedAt t, tr_window_start := T_QueryWindowStart t, tr_window_end := T_QueryWindowEnd t,
      tr_result_quality := or_default (T_ResultQuality t) ''none'', tr_result_complete := T_ResultComplete t,
      tr_result_truncated := T_ResultTruncated t, tr_result_count := T_ResultCount t,
      tr_result_digest := nullable_str (T_ResultDigestSHA256 t), tr_eligible := T_EligibleForEvidence t\<rparr>"

text \<open>The primary key is \<open>tool_run_id\<close>; \<open>(run_id, idempotency_key)\<close> is unique.\<close>

definition insert_tool :: "tool_run \<Rightarrow> store_db \<Rightarrow> ins_result \<times> store_db" where
  "insert_tool r db =
     (if list_ex (\<lambda>x. tr_tool_run_id x = tr_tool_run_id r \<or>
            (tr_run_id x = tr_run_id r \<and> tr_idempotency_key x = tr_idempotency_key r)) (ai_tool_runs db)
      then (InsDup, db)
      else (InsOk, db\<lparr>ai_tool_runs := ai_tool_runs db @ [r]\<rparr>))"

definition get_tool :: "gostring \<Rightarrow> store_db \<Rightarrow> tool_run option" where
  "get_tool tid db = sql_first (\<lambda>r. tr_tool_run_id r = tid) (ai_tool_runs db)"

definition update_tools :: "(tool_run \<Rightarrow> bool) \<Rightarrow> (tool_run \<Rightarrow> tool_run) \<Rightarrow> store_db \<Rightarrow> store_db" where
  "update_tools p f db = db\<lparr>ai_tool_runs := sql_update p f (ai_tool_runs db)\<rparr>"

definition boolean_insert :: "ins_result \<Rightarrow> (store_db, bool) dbm" where
  "boolean_insert res = (case res of InsOk \<Rightarrow> db_ret True | InsDup \<Rightarrow> db_ret False | InsBad \<Rightarrow> db_fail DriverError)"

section \<open>Operations of AIToolRunDAO\<close>

definition AIToolRunDAO_Create :: "AIToolRun \<Rightarrow> millis \<Rightarrow> (store_db, bool) dbm" where
  "AIToolRunDAO_Create t now = db_conn (db_bind (db_stmt (\<lambda>_. insert_tool (create_row t now))) boolean_insert)"

definition CreateWithQuality :: "AIToolRun \<Rightarrow> millis \<Rightarrow> (store_db, bool) dbm" where
  "CreateWithQuality t now = db_conn (db_bind (db_stmt (\<lambda>_. insert_tool (quality_row t now))) boolean_insert)"

definition set_outcome :: "AIToolRun \<Rightarrow> tool_run \<Rightarrow> tool_run" where
  "set_outcome t r = r
     \<lparr>tr_status := T_Status t, tr_result := T_Result t, tr_error_code := nullable_str (T_ErrorCode t),
      tr_error_message := nullable_str (T_ErrorMessage t), tr_duration_ms := T_DurationMS t,
      tr_completed_at := T_CompletedAt t\<rparr>"

definition AIToolRunDAO_UpdateByIdemKey :: "AIToolRun \<Rightarrow> (store_db, unit) dbm" where
  "AIToolRunDAO_UpdateByIdemKey t = db_conn (db_stmt (\<lambda>_ db.
     ((), update_tools (\<lambda>r. tr_run_id r = T_RunID t \<and> tr_idempotency_key r = T_IdempotencyKey t) (set_outcome t) db)))"

definition set_quality :: "AIToolRun \<Rightarrow> bool \<Rightarrow> tool_run \<Rightarrow> tool_run" where
  "set_quality t eligible r = (set_outcome t r)
     \<lparr>tr_observed_at := T_ObservedAt t, tr_result_quality := T_ResultQuality t, tr_result_complete := T_ResultComplete t,
      tr_result_truncated := T_ResultTruncated t, tr_result_count := T_ResultCount t,
      tr_result_digest := nullable_str (T_ResultDigestSHA256 t), tr_eligible := eligible\<rparr>"

text \<open>
  The statement that \<open>UpdateQuality\<close> and \<open>FinishToolRunWithFencing\<close> share.  \<open>result_quality\<close> is
  \<open>NOT NULL\<close>, and an empty quality is sent as NULL: the statement fails when there is a row to change.
\<close>

definition write_quality :: "AIToolRun \<Rightarrow> bool \<Rightarrow> (store_db, unit) dbm" where
  "write_quality t eligible =
     db_bind (db_stmt (\<lambda>_ db.
       if T_ResultQuality t = [] \<and> get_tool (T_ToolRunID t) db \<noteq> None then (False, db)
       else (True, update_tools (\<lambda>r. tr_tool_run_id r = T_ToolRunID t) (set_quality t eligible) db)))
      (\<lambda>ok. if ok then db_ret () else db_fail DriverError)"

definition UpdateQuality :: "AIToolRun \<Rightarrow> (store_db, unit) dbm" where
  "UpdateQuality t = db_conn (write_quality t (T_EligibleForEvidence t))"

text \<open>A result is late when its Run is missing or has ended, or when the lease has moved to another epoch.\<close>

definition result_late :: "ai_run option \<Rightarrow> tool_run \<Rightarrow> bool" where
  "result_late run tool = (case run of
      None \<Rightarrow> True
    | Some r \<Rightarrow>
        r_status r \<in> {''success'', ''partial'', ''failed'', ''regressed'', ''cancelled'', []} \<or>
        (case tr_lease_epoch_at_start tool of None \<Rightarrow> False | Some e \<Rightarrow> r_lease_epoch r \<noteq> e))"

definition FinishToolRunWithFencing :: "AIToolRun \<Rightarrow> (store_db, bool) dbm" where
  "FinishToolRunWithFencing t =
     db_bind (db_stmt (\<lambda>_ db. (get_run (T_RunID t) db, db)))
      (\<lambda>run. db_bind (db_stmt (\<lambda>_ db. (get_tool (T_ToolRunID t) db, db)))
       (\<lambda>row. case row of
          None \<Rightarrow> db_fail SqlErrNoRows
        | Some tool \<Rightarrow>
            db_bind (write_quality t (\<not> result_late run tool \<and> T_ResultQuality t = ''complete''))
              (\<lambda>_. db_ret (result_late run tool))))"

text \<open>
  The driver delivers times, so that the deadline is read into a string that the layout of the parser
  never matches: the field stays empty.  The reconciler does not use it.
\<close>

definition scan_tool :: "tool_run \<Rightarrow> AIToolRun" where
  "scan_tool r = zero_tool
     \<lparr>T_ToolRunID := tr_tool_run_id r, T_RunID := tr_run_id r, T_StepID := null_string (tr_step_id r),
      T_TenantID := tr_tenant_id r, T_ClusterID := tr_cluster_id r, T_ToolName := tr_tool_name r,
      T_Status := tr_status r, T_LeaseEpochAtStart := null_int (tr_lease_epoch_at_start r), T_StartedAt := tr_started_at r\<rparr>"

definition deadline_passed :: "millis \<Rightarrow> tool_run \<Rightarrow> bool" where
  "deadline_passed t r \<longleftrightarrow> tr_status r = ''running'' \<and> (case tr_deadline_at r of None \<Rightarrow> False | Some d \<Rightarrow> d < t)"

definition ScanExpiredRunning :: "int \<Rightarrow> (store_db, AIToolRun list) dbm" where
  "ScanExpiredRunning limit = db_conn (db_stmt (\<lambda>t db.
     (let rows = filter (deadline_passed t) (ai_tool_runs db)
      in map scan_tool (if 0 < limit then sql_order_limit (\<lambda>r. null_int (tr_deadline_at r)) (nat limit) rows else rows), db)))"

definition set_converged :: "gostring \<Rightarrow> gostring \<Rightarrow> millis \<Rightarrow> tool_run \<Rightarrow> tool_run" where
  "set_converged status errMsg now r = r
     \<lparr>tr_status := status, tr_result_quality := ''failed'', tr_error_message := nullable_str errMsg,
      tr_eligible := False, tr_completed_at := Some now\<rparr>"

definition ConvergeToolRun :: "gostring \<Rightarrow> gostring \<Rightarrow> gostring \<Rightarrow> gostring \<Rightarrow> millis \<Rightarrow> (store_db, bool) dbm" where
  "ConvergeToolRun tid rid status errMsg now =
     db_bind (db_stmt (\<lambda>_ db. ((), db)))
      (\<lambda>_. db_bind (db_stmt (\<lambda>_ db. (get_tool tid db, db)))
       (\<lambda>row. case row of
          None \<Rightarrow> db_fail SqlErrNoRows
        | Some r \<Rightarrow>
            if tr_status r \<noteq> ''running'' then db_ret False
            else db_bind (db_stmt (\<lambda>_ db.
                   ((), update_tools (\<lambda>r. tr_tool_run_id r = tid) (set_converged status errMsg now) db)))
                 (\<lambda>_. db_ret True)))"

text \<open>\<open>args_hash\<close> is read into a plain string: a row without one makes the read fail.\<close>

definition idem_tool :: "tool_run \<Rightarrow> gostring \<Rightarrow> AIToolRun" where
  "idem_tool r args = zero_tool
     \<lparr>T_ToolRunID := tr_tool_run_id r, T_RunID := tr_run_id r, T_Status := tr_status r,
      T_IdempotencyKey := tr_idempotency_key r, T_ArgsHash := args, T_Result := tr_result r,
      T_ErrorCode := null_string (tr_error_code r), T_ErrorMessage := null_string (tr_error_message r),
      T_ResultQuality := tr_result_quality r, T_ResultComplete := tr_result_complete r,
      T_ResultTruncated := tr_result_truncated r, T_ResultCount := tr_result_count r,
      T_ResultDigestSHA256 := null_string (tr_result_digest r), T_EligibleForEvidence := tr_eligible r,
      T_QueryWindowStart := tr_window_start r, T_QueryWindowEnd := tr_window_end r\<rparr>"

definition find_idem :: "gostring \<Rightarrow> gostring \<Rightarrow> store_db \<Rightarrow> tool_run option" where
  "find_idem rid key db = sql_first (\<lambda>r. tr_run_id r = rid \<and> tr_idempotency_key r = key) (ai_tool_runs db)"

definition AIToolRunDAO_GetByIdemKey :: "gostring \<Rightarrow> gostring \<Rightarrow> (store_db, AIToolRun) dbm" where
  "AIToolRunDAO_GetByIdemKey rid key = db_conn
     (db_bind (db_stmt (\<lambda>_ db. (find_idem rid key db, db)))
       (\<lambda>row. case row of
          None \<Rightarrow> db_fail SqlErrNoRows
        | Some r \<Rightarrow> (case tr_args_hash r of None \<Rightarrow> db_fail DriverError | Some args \<Rightarrow> db_ret (idem_tool r args))))"

definition mark_consumed :: "gostring \<Rightarrow> millis \<Rightarrow> store_db \<Rightarrow> store_db" where
  "mark_consumed tid now =
     update_tools (\<lambda>r. tr_tool_run_id r = tid \<and> tr_evidence_consumed_at r = None) (\<lambda>r. r\<lparr>tr_evidence_consumed_at := Some now\<rparr>)"

definition MarkEvidenceConsumed :: "gostring \<Rightarrow> millis \<Rightarrow> (store_db, unit) dbm" where
  "MarkEvidenceConsumed tid now = db_conn (db_stmt (\<lambda>_ db. ((), mark_consumed tid now db)))"

definition IsEvidenceConsumed :: "gostring \<Rightarrow> (store_db, bool) dbm" where
  "IsEvidenceConsumed tid = db_conn (db_stmt (\<lambda>_ db.
     (0 < sql_count (\<lambda>r. tr_tool_run_id r = tid \<and> tr_evidence_consumed_at r \<noteq> None) (ai_tool_runs db), db)))"

definition list_tool :: "tool_run \<Rightarrow> AIToolRun" where
  "list_tool r = (scan_tool r)
     \<lparr>T_LeaseEpochAtStart := 0, T_Input := tr_input r, T_Result := tr_result r,
      T_ErrorCode := null_string (tr_error_code r), T_ErrorMessage := null_string (tr_error_message r),
      T_DurationMS := tr_duration_ms r, T_CompletedAt := tr_completed_at r, T_CreatedAt := tr_created_at r,
      T_IdempotencyKey := tr_idempotency_key r\<rparr>"

definition full_tool :: "tool_run \<Rightarrow> AIToolRun" where
  "full_tool r = (list_tool r)
     \<lparr>T_ArgsHash := null_string (tr_args_hash r), T_ExecutorID := null_string (tr_executor_id r),
      T_LeaseEpochAtStart := null_int (tr_lease_epoch_at_start r), T_DeadlineAt := tr_deadline_at r,
      T_ObservedAt := tr_observed_at r, T_QueryWindowStart := tr_window_start r, T_QueryWindowEnd := tr_window_end r,
      T_ResultQuality := tr_result_quality r, T_ResultComplete := tr_result_complete r,
      T_ResultTruncated := tr_result_truncated r, T_ResultCount := tr_result_count r,
      T_ResultDigestSHA256 := null_string (tr_result_digest r), T_EligibleForEvidence := tr_eligible r,
      T_EvidenceConsumedAt := tr_evidence_consumed_at r\<rparr>"

definition run_tools :: "gostring \<Rightarrow> store_db \<Rightarrow> tool_run list" where
  "run_tools rid db = sort_key tr_created_at (filter (\<lambda>r. tr_run_id r = rid) (ai_tool_runs db))"

definition AIToolRunDAO_ListByRunTx :: "gostring \<Rightarrow> (store_db, AIToolRun list) dbm" where
  "AIToolRunDAO_ListByRunTx rid = db_stmt (\<lambda>_ db. (map list_tool (run_tools rid db), db))"

definition AIToolRunDAO_ListByRun :: "gostring \<Rightarrow> (store_db, AIToolRun list) dbm" where
  "AIToolRunDAO_ListByRun rid = db_conn (db_stmt (\<lambda>_ db. (map full_tool (run_tools rid db), db)))"

section \<open>Operations of EvidenceDAO\<close>

definition evidence_scope :: "gostring \<Rightarrow> gostring \<Rightarrow> gostring \<Rightarrow> evidence \<Rightarrow> bool" where
  "evidence_scope rid tenant cluster e \<longleftrightarrow> evd_run_id e = rid \<and> evd_tenant_id e = tenant \<and> evd_cluster_id e = cluster"

definition EvidenceDAO_ListByRun :: "gostring \<Rightarrow> gostring \<Rightarrow> gostring \<Rightarrow> (store_db, evidence list) dbm" where
  "EvidenceDAO_ListByRun rid tenant cluster = db_conn (db_stmt (\<lambda>_ db.
     (sort_key evd_collected_at (filter (evidence_scope rid tenant cluster) (ai_evidence db)), db)))"

definition EvidenceDAO_GetByID :: "gostring \<Rightarrow> gostring \<Rightarrow> gostring \<Rightarrow> gostring \<Rightarrow> (store_db, evidence) dbm" where
  "EvidenceDAO_GetByID eid rid tenant cluster = db_conn
     (db_bind (db_stmt (\<lambda>_ db. (sql_first (\<lambda>e. evd_id e = eid \<and> evidence_scope rid tenant cluster e) (ai_evidence db), db)))
       (\<lambda>row. case row of None \<Rightarrow> db_fail SqlErrNoRows | Some e \<Rightarrow> db_ret e))"

fun splitComma_from :: "gostring \<Rightarrow> gostring \<Rightarrow> gostring list" where
  "splitComma_from cur [] = (if cur = [] then [] else [cur])"
| "splitComma_from cur (c # s) =
     (if c = CHR '','' then (if cur = [] then splitComma_from [] s else cur # splitComma_from [] s)
      else splitComma_from (cur @ [c]) s)"

definition splitComma :: "gostring \<Rightarrow> gostring list" where
  "splitComma s = splitComma_from [] s"

definition statusIn :: "gostring \<Rightarrow> gostring \<Rightarrow> bool" where
  "statusIn s list \<longleftrightarrow> list \<noteq> [] \<and> s \<in> set (splitComma list)"

text \<open>\<open>INSERT ... ON DUPLICATE KEY UPDATE provenance_fingerprint\<close>.\<close>

definition upsert_evidence :: "evidence \<Rightarrow> store_db \<Rightarrow> store_db" where
  "upsert_evidence e db =
     (if list_ex (\<lambda>x. evd_id x = evd_id e) (ai_evidence db)
      then db\<lparr>ai_evidence := sql_update (\<lambda>x. evd_id x = evd_id e) (\<lambda>x. x\<lparr>evd_fingerprint := evd_fingerprint e\<rparr>) (ai_evidence db)\<rparr>
      else db\<lparr>ai_evidence := ai_evidence db @ [e]\<rparr>)"

definition consumable :: "evidence \<Rightarrow> gostring \<Rightarrow> tool_run \<Rightarrow> bool" where
  "consumable ev allowed r \<longleftrightarrow>
     tr_eligible r \<and> tr_evidence_consumed_at r = None \<and> statusIn (tr_status r) allowed \<and>
     tr_run_id r = evd_run_id ev \<and> tr_tenant_id r = evd_tenant_id ev \<and> tr_cluster_id r = evd_cluster_id ev"

definition ConsumeToolRunAsEvidence :: "evidence \<Rightarrow> gostring \<Rightarrow> gostring \<Rightarrow> millis \<Rightarrow> (store_db, bool) dbm" where
  "ConsumeToolRunAsEvidence ev tid allowed now =
     db_bind (db_stmt (\<lambda>_ db. (get_tool tid db, db)))
      (\<lambda>row. case row of
         None \<Rightarrow> db_fail ErrEvidenceNotEligible
       | Some r \<Rightarrow>
           if \<not> consumable ev allowed r then db_fail ErrEvidenceNotEligible
           else db_bind (db_stmt (\<lambda>_ db. ((), upsert_evidence ev db)))
                 (\<lambda>_. db_bind (db_stmt (\<lambda>_ db. ((), mark_consumed tid now db)))
                 (\<lambda>_. db_ret True)))"

end
