(* ===== verification/ToolRuns.thy ===== *)
theory ToolRuns
  imports ToolStore ApiBase ActionDispatch JsonParse
begin

text \<open>
  The wrapper that every internal query of an investigation runs in: \<open>internal/api/toolrun_wrapper.go\<close>,
  \<open>tool_reconciler.go\<close>, the functions \<open>beginToolRun\<close> to \<open>execToolQuery\<close> of \<open>internal_query.go\<close>, and the
  endpoint that turns a result into evidence (\<open>control_plane_lease.go\<close>).

  \<open>time.Parse(time.RFC3339, s)\<close>, the SHA-256 digest in hexadecimal and the query itself are arguments;
  times have milliseconds.  The branch for chat queries writes to a table of its own and is an argument
  as well.  The DAOs of a handler are set by its constructor, so the branches for nil ones are left out.
\<close>

section \<open>Requests\<close>

text \<open>The arguments of a query, as \<open>toolArgsHash\<close> lists them; a nil slice is \<open>None\<close>.\<close>

record query_args =
  qa_Service :: gostring
  qa_Services :: "gostring list option"
  qa_Query :: gostring
  qa_Since :: gostring
  qa_Minutes :: int
  qa_Hours :: int
  qa_Namespace :: gostring
  qa_Limit :: int
  qa_Offset :: int
  qa_TopK :: int
  qa_GraphOperation :: gostring
  qa_EntityUID :: gostring
  qa_TargetEntityUID :: gostring
  qa_EntityType :: gostring
  qa_Name :: gostring
  qa_Direction :: gostring
  qa_RelationTypes :: "gostring list option"
  qa_RelationPolicy :: gostring
  qa_MaxDepth :: int
  qa_MaxVertices :: int
  qa_MaxEdges :: int
  qa_IncludeStale :: bool
  qa_Cursor :: gostring
  qa_ContextVersion :: int
  qa_QueryWindowStart :: gostring
  qa_QueryWindowEnd :: gostring

text \<open>The request: its arguments and the context of its tool run.\<close>

record internalQueryRequest =
  qr_args :: query_args
  qr_ToolRunID :: gostring
  qr_IdempotencyKey :: gostring
  qr_ExecutorID :: gostring
  qr_LeaseEpoch :: int
  qr_WorkloadKind :: gostring
  qr_LeaseToken :: gostring
  qr_RunID :: gostring

record toolRunContext =
  tc_ToolRunID :: gostring
  tc_IdempotencyKey :: gostring
  tc_ExecutorID :: gostring
  tc_LeaseEpoch :: int
  tc_LeaseToken :: gostring
  tc_WindowStart :: "millis option"
  tc_WindowEnd :: "millis option"
  tc_RunID :: gostring
  tc_TenantID :: gostring
  tc_ClusterID :: gostring
  tc_ArgsHash :: gostring
  tc_Existing :: "AIToolRun option"

record ToolResultEnvelope =
  en_Quality :: gostring
  en_ToolRunID :: gostring
  en_Truncated :: bool
  en_Count :: int
  en_Digest :: gostring
  en_QueryWindowStart :: gostring
  en_QueryWindowEnd :: gostring
  en_SourceErrors :: "gostring list"
  en_Replay :: bool
  en_Data :: gostring

record tool_env =
  te_parse :: "gostring \<Rightarrow> millis option"
  te_hash :: "gostring \<Rightarrow> gostring"

definition validUUID :: "gostring \<Rightarrow> bool" where
  "validUUID s \<longleftrightarrow> match_classes canonicalUUID s"

definition strings_json :: "gostring list option \<Rightarrow> json" where
  "strings_json v = (case v of None \<Rightarrow> JNull | Some xs \<Rightarrow> JArr (map JStr xs))"

definition args_json :: "query_args \<Rightarrow> json" where
  "args_json a = JObj
     [(''service'', JStr (qa_Service a)), (''services'', strings_json (qa_Services a)), (''query'', JStr (qa_Query a)),
      (''since'', JStr (qa_Since a)), (''minutes'', JNum (dec_int (qa_Minutes a))), (''hours'', JNum (dec_int (qa_Hours a))),
      (''namespace'', JStr (qa_Namespace a)), (''limit'', JNum (dec_int (qa_Limit a))), (''offset'', JNum (dec_int (qa_Offset a))),
      (''top_k'', JNum (dec_int (qa_TopK a))), (''graph_operation'', JStr (qa_GraphOperation a)),
      (''entity_uid'', JStr (qa_EntityUID a)), (''target_entity_uid'', JStr (qa_TargetEntityUID a)),
      (''entity_type'', JStr (qa_EntityType a)), (''name'', JStr (qa_Name a)), (''direction'', JStr (qa_Direction a)),
      (''relation_types'', strings_json (qa_RelationTypes a)), (''relation_policy'', JStr (qa_RelationPolicy a)),
      (''max_depth'', JNum (dec_int (qa_MaxDepth a))), (''max_vertices'', JNum (dec_int (qa_MaxVertices a))),
      (''max_edges'', JNum (dec_int (qa_MaxEdges a))), (''include_stale'', JBool (qa_IncludeStale a)),
      (''cursor'', JStr (qa_Cursor a)), (''context_version'', JNum (dec_int (qa_ContextVersion a))),
      (''query_window_start'', JStr (qa_QueryWindowStart a)), (''query_window_end'', JStr (qa_QueryWindowEnd a))]"

definition toolArgsHash :: "tool_env \<Rightarrow> internalQueryRequest \<Rightarrow> gostring" where
  "toolArgsHash te req = te_hash te (json_text (args_json (qr_args req)))"

definition parse_window :: "tool_env \<Rightarrow> gostring \<Rightarrow> millis option" where
  "parse_window te s = (if s = [] then None else te_parse te s)"

definition newToolRunFromRequest :: "tool_env \<Rightarrow> internalQueryRequest \<Rightarrow> gostring \<Rightarrow> gostring \<Rightarrow> toolRunContext option" where
  "newToolRunFromRequest te req tenant cluster =
     (if qr_ToolRunID req = [] then None
      else if qr_RunID req = [] \<or> \<not> validUUID (qr_RunID req) then None
      else if qr_LeaseToken req = [] then None
      else Some
        \<lparr>tc_ToolRunID = qr_ToolRunID req, tc_IdempotencyKey = qr_IdempotencyKey req, tc_ExecutorID = qr_ExecutorID req,
         tc_LeaseEpoch = qr_LeaseEpoch req, tc_LeaseToken = qr_LeaseToken req,
         tc_WindowStart = parse_window te (qa_QueryWindowStart (qr_args req)),
         tc_WindowEnd = parse_window te (qa_QueryWindowEnd (qr_args req)),
         tc_RunID = qr_RunID req, tc_TenantID = tenant, tc_ClusterID = cluster, tc_ArgsHash = toolArgsHash te req,
         tc_Existing = None\<rparr>)"

definition window_ordered :: "tool_env \<Rightarrow> gostring \<Rightarrow> gostring \<Rightarrow> bool" where
  "window_ordered te s e = (case (te_parse te s, te_parse te e) of (Some a, Some b) \<Rightarrow> a \<le> b | _ \<Rightarrow> False)"

definition validateToolRunRequest :: "tool_env \<Rightarrow> internalQueryRequest \<Rightarrow> gostring option" where
  "validateToolRunRequest te req =
     (let kind = qr_WorkloadKind req; s = qa_QueryWindowStart (qr_args req); e = qa_QueryWindowEnd (qr_args req) in
      if kind = [] then None
      else if kind \<notin> set [''investigation'', ''chat'', ''platform''] then Some ''invalid workload_kind''
      else if kind \<noteq> ''investigation'' then None
      else if \<not> validUUID (qr_RunID req) \<or> \<not> validUUID (qr_ToolRunID req) \<or> qr_IdempotencyKey req = [] \<or>
              qr_ExecutorID req = [] \<or> qr_LeaseEpoch req \<le> 0 \<or> qr_LeaseToken req = []
      then Some ''investigation ToolRun lease context required''
      else if s = [] \<or> e = [] then Some ''investigation ToolRun frozen query window required''
      else if \<not> window_ordered te s e then Some ''investigation ToolRun query window must be valid and ordered''
      else None)"

section \<open>Starting a tool run\<close>

definition idem_key :: "toolRunContext \<Rightarrow> gostring" where
  "idem_key trc = or_default (tc_IdempotencyKey trc) (tc_ToolRunID trc)"

definition started_tool :: "toolRunContext \<Rightarrow> millis \<Rightarrow> AIToolRun" where
  "started_tool trc now = zero_tool
     \<lparr>T_ToolRunID := tc_ToolRunID trc, T_RunID := tc_RunID trc, T_TenantID := tc_TenantID trc, T_ClusterID := tc_ClusterID trc,
      T_ToolName := ''internal_query'', T_Status := ''running'', T_IdempotencyKey := idem_key trc, T_ArgsHash := tc_ArgsHash trc,
      T_ExecutorID := tc_ExecutorID trc, T_LeaseEpochAtStart := tc_LeaseEpoch trc, T_StartedAt := Some now,
      T_QueryWindowStart := tc_WindowStart trc, T_QueryWindowEnd := tc_WindowEnd trc\<rparr>"

definition startToolRun :: "toolRunContext \<Rightarrow> millis \<Rightarrow> (store_db, bool) dbm" where
  "startToolRun trc now = CreateWithQuality (started_tool trc now) now"

datatype begin_error = BeginQuery gostring gostring | BeginReused | BeginStore store_error

type_synonym begun = "begin_error + (toolRunContext option \<times> bool)"

text \<open>An investigation reads only the window that its Run has stored, in its tenant and cluster.\<close>

definition run_window_error :: "tool_env \<Rightarrow> internalQueryRequest \<Rightarrow> gostring \<Rightarrow> gostring \<Rightarrow> AIRun \<Rightarrow> begin_error option" where
  "run_window_error te req tenant cluster run =
     (if TenantID run \<noteq> tenant then Some (BeginQuery ''TENANT_ACCESS_DENIED'' ''run tenant does not match signed tenant'')
      else if PrimaryClusterID run \<noteq> [] \<and> PrimaryClusterID run \<noteq> cluster
      then Some (BeginQuery ''CONTEXT_SCOPE_MISMATCH'' ''run cluster does not match signed cluster'')
      else if TimeRangeStart run = None \<or> TimeRangeEnd run = None
      then Some (BeginQuery ''VALIDATION_FAILED'' ''run frozen query window is missing'')
      else if te_parse te (qa_QueryWindowStart (qr_args req)) \<noteq> TimeRangeStart run \<or>
              te_parse te (qa_QueryWindowEnd (qr_args req)) \<noteq> TimeRangeEnd run
      then Some (BeginQuery ''CONTEXT_SCOPE_MISMATCH'' ''query window does not match persisted Run'')
      else None)"

definition check_run_window :: "tool_env \<Rightarrow> internalQueryRequest \<Rightarrow> gostring \<Rightarrow> gostring \<Rightarrow> (store_db, begin_error option) dbm" where
  "check_run_window te req tenant cluster =
     (if qr_WorkloadKind req \<noteq> ''investigation'' then db_ret None
      else db_bind (db_try (AIRunDAO_Get (qr_RunID req)))
        (\<lambda>got. case got of
           Inl _ \<Rightarrow> db_ret (Some (BeginQuery ''RESOURCE_NOT_FOUND'' ''run not found''))
         | Inr run \<Rightarrow> db_ret (run_window_error te req tenant cluster run)))"

text \<open>A known key: its record is replayed, unless it was used with other arguments.\<close>

definition replay_existing :: "toolRunContext \<Rightarrow> AIToolRun \<Rightarrow> begun" where
  "replay_existing trc ex =
     (if T_ArgsHash ex \<noteq> [] \<and> T_ArgsHash ex \<noteq> tc_ArgsHash trc then Inl BeginReused
      else Inr (Some (trc\<lparr>tc_Existing := Some ex\<rparr>), True))"

text \<open>The check of the lease before any read of data: a transaction that is always rolled back.\<close>

definition db_alive :: "('s, bool) dbm" where
  "db_alive = (\<lambda>env st. (Inr (db_up env), st))"

definition db_call :: "('s, unit) dbm" where
  "db_call = db_stmt (\<lambda>_ s. ((), s))"

definition fence_before :: "tool_env \<Rightarrow> toolRunContext \<Rightarrow> (store_db, begun) dbm" where
  "fence_before te trc =
     db_bind db_alive (\<lambda>up.
       if \<not> up then db_ret (Inr (Some trc, False))
       else db_bind (db_try db_call) (\<lambda>b. case b of
         Inl e \<Rightarrow> db_ret (Inl (BeginStore e))
       | Inr _ \<Rightarrow>
           db_bind (db_try (FenceToolExecutionTx (tc_RunID trc) (tc_ExecutorID trc) (tc_LeaseEpoch trc) (te_hash te (tc_LeaseToken trc))))
             (\<lambda>f. db_bind (db_try db_call) (\<lambda>r. case r of
                Inl e \<Rightarrow> db_ret (Inl (BeginStore e))
              | Inr _ \<Rightarrow> (case f of Inl e \<Rightarrow> db_ret (Inl (BeginStore e)) | Inr _ \<Rightarrow> db_ret (Inr (Some trc, False)))))))"

definition begin_created :: "tool_env \<Rightarrow> toolRunContext \<Rightarrow> millis \<Rightarrow> (store_db, begun) dbm" where
  "begin_created te trc now =
     db_bind (db_try (startToolRun trc now)) (\<lambda>c. case c of
       Inl _ \<Rightarrow> db_ret (Inl (BeginQuery ''TOOL_UNAVAILABLE'' ''ToolRun persistence unavailable''))
     | Inr True \<Rightarrow> fence_before te trc
     | Inr False \<Rightarrow>
         db_bind (db_try (AIToolRunDAO_GetByIdemKey (tc_RunID trc) (tc_IdempotencyKey trc))) (\<lambda>got. case got of
           Inl _ \<Rightarrow> db_ret (Inl (BeginQuery ''TOOL_UNAVAILABLE'' ''ToolRun idempotency record unavailable''))
         | Inr ex \<Rightarrow> db_ret (replay_existing trc ex)))"

definition begin_idempotent :: "tool_env \<Rightarrow> toolRunContext \<Rightarrow> millis \<Rightarrow> (store_db, begun) dbm" where
  "begin_idempotent te trc now =
     (if tc_IdempotencyKey trc = [] then begin_created te trc now
      else db_bind (db_try (AIToolRunDAO_GetByIdemKey (tc_RunID trc) (tc_IdempotencyKey trc))) (\<lambda>got. case got of
          Inr ex \<Rightarrow> db_ret (replay_existing trc ex)
        | Inl SqlErrNoRows \<Rightarrow> begin_created te trc now
        | Inl _ \<Rightarrow> db_ret (Inl (BeginQuery ''TOOL_UNAVAILABLE'' ''ToolRun idempotency lookup failed''))))"

definition beginToolRun ::
  "tool_env \<Rightarrow> (store_db, begun) dbm \<Rightarrow> internalQueryRequest \<Rightarrow> gostring \<Rightarrow> gostring \<Rightarrow> millis \<Rightarrow> (store_db, begun) dbm" where
  "beginToolRun te chat req tenant cluster now =
     (case validateToolRunRequest te req of
        Some msg \<Rightarrow> db_ret (Inl (BeginQuery ''VALIDATION_FAILED'' msg))
      | None \<Rightarrow>
          if qr_WorkloadKind req = ''chat'' then chat
          else (case newToolRunFromRequest te req tenant cluster of
                  None \<Rightarrow>
                    db_ret (if qr_WorkloadKind req = ''investigation''
                            then Inl (BeginQuery ''VALIDATION_FAILED'' ''investigation ToolRun context required'')
                            else Inr (None, False))
                | Some trc \<Rightarrow>
                    db_bind (check_run_window te req tenant cluster) (\<lambda>err. case err of
                      Some e \<Rightarrow> db_ret (Inl e)
                    | None \<Rightarrow> begin_idempotent te trc now)))"

section \<open>Finishing a tool run\<close>

definition finished_tool :: "tool_env \<Rightarrow> toolRunContext \<Rightarrow> gostring \<Rightarrow> gostring \<Rightarrow> gostring option \<Rightarrow> int \<Rightarrow> gostring \<Rightarrow> millis \<Rightarrow> AIToolRun" where
  "finished_tool te trc status quality result count errMsg now = zero_tool
     \<lparr>T_ToolRunID := tc_ToolRunID trc, T_RunID := tc_RunID trc, T_Status := status, T_Result := null_string result,
      T_ErrorMessage := errMsg, T_CompletedAt := Some now, T_ObservedAt := Some now, T_ResultQuality := quality,
      T_ResultComplete := (quality = ''complete''), T_ResultCount := count,
      T_ResultDigestSHA256 := (case result of None \<Rightarrow> [] | Some r \<Rightarrow> te_hash te r)\<rparr>"

definition late_event :: "toolRunContext \<Rightarrow> gostring \<Rightarrow> run_event" where
  "late_event trc eid = \<lparr>ev_event_id = eid, ev_run_id = tc_RunID trc, ev_sequence = 0, ev_event_type = ''tool_result.late'',
     ev_payload = ''{'' @ json_quote ''tool_run_id'' @ '':'' @ [CHR 0x22] @ tc_ToolRunID trc @ [CHR 0x22] @ '','' @
       json_quote ''late'' @ '':true}'', ev_created_at = 0\<rparr>"

definition finish_body :: "tool_env \<Rightarrow> toolRunContext \<Rightarrow> AIToolRun \<Rightarrow> (store_db, bool tx_end) dbm" where
  "finish_body te trc t =
     db_bind (FenceToolExecutionTx (tc_RunID trc) (tc_ExecutorID trc) (tc_LeaseEpoch trc) (te_hash te (tc_LeaseToken trc)))
       (\<lambda>_. db_bind (FinishToolRunWithFencing t) (\<lambda>late. db_ret (Commit late)))"

text \<open>Without a connection there is no transaction at all; every failure ends in the fallback.\<close>

definition finish_fenced :: "tool_env \<Rightarrow> toolRunContext \<Rightarrow> AIToolRun \<Rightarrow> (store_db, store_error + bool) dbm" where
  "finish_fenced te trc t = db_try (db_conn (db_tx (finish_body te trc t)))"

definition append_late :: "toolRunContext \<Rightarrow> gostring \<Rightarrow> millis \<Rightarrow> (store_db, unit) dbm" where
  "append_late trc eid now =
     db_bind (db_try (db_tx (db_bind (db_try (AppendTx (late_event trc eid) now)) (\<lambda>_. db_ret (Commit ()))))) (\<lambda>_. db_ret ())"

definition finishToolRun ::
  "tool_env \<Rightarrow> toolRunContext \<Rightarrow> gostring \<Rightarrow> gostring \<Rightarrow> gostring option \<Rightarrow> int \<Rightarrow> gostring \<Rightarrow> gostring \<Rightarrow> millis \<Rightarrow> (store_db, unit) dbm" where
  "finishToolRun te trc status quality result count errMsg eid now =
     (let t = finished_tool te trc status quality result count errMsg now in
      db_bind (finish_fenced te trc t) (\<lambda>res. case res of
        Inr late \<Rightarrow> if late then append_late trc eid now else db_ret ()
      | Inl _ \<Rightarrow> db_bind (db_try (UpdateQuality (t\<lparr>T_ErrorCode := ''TOOL_FENCING_FAILED''\<rparr>))) (\<lambda>_. db_ret ())))"

section \<open>Envelopes\<close>

definition MaxToolResultBytes :: nat where
  "MaxToolResultBytes = 2097152"

definition zero_envelope :: ToolResultEnvelope where
  "zero_envelope = \<lparr>en_Quality = [], en_ToolRunID = [], en_Truncated = False, en_Count = 0, en_Digest = [],
     en_QueryWindowStart = [], en_QueryWindowEnd = [], en_SourceErrors = [], en_Replay = False, en_Data = []\<rparr>"

definition array_count :: "gostring \<Rightarrow> int" where
  "array_count data = (if data \<noteq> [] \<and> hd data = CHR ''[''
     then (case json_parse data of Some (JArr xs) \<Rightarrow> int (length xs) | _ \<Rightarrow> 0) else 0)"

text \<open>A context with a start of the window and no end makes the function panic: \<open>None\<close>.\<close>

definition buildEnvelope :: "tool_env \<Rightarrow> toolRunContext option \<Rightarrow> gostring \<Rightarrow> gostring \<Rightarrow> ToolResultEnvelope option" where
  "buildEnvelope te ctx quality data =
     (let kept = take MaxToolResultBytes data;
          env = zero_envelope\<lparr>en_Quality := quality, en_Truncated := MaxToolResultBytes < length data, en_Data := kept,
            en_Digest := te_hash te kept, en_Count := array_count kept\<rparr>
      in case ctx of
           None \<Rightarrow> Some env
         | Some trc \<Rightarrow>
             (case (tc_WindowStart trc, tc_WindowEnd trc) of
                (None, _) \<Rightarrow> Some (env\<lparr>en_ToolRunID := tc_ToolRunID trc\<rparr>)
              | (Some s, Some e) \<Rightarrow> Some (env\<lparr>en_ToolRunID := tc_ToolRunID trc, en_QueryWindowStart := rfc3339 s, en_QueryWindowEnd := rfc3339 e\<rparr>)
              | (Some s, None) \<Rightarrow> None))"

definition qualityStatus :: "gostring \<Rightarrow> gostring" where
  "qualityStatus q = (if q = ''complete'' then ''success'' else if q = ''partial'' then ''partial'' else ''failed'')"

definition replay_quality :: "AIToolRun \<Rightarrow> gostring" where
  "replay_quality ex =
     (let q = (if T_ResultQuality ex = [] then qualityStatus (T_Status ex) else T_ResultQuality ex)
      in if q = ''none'' \<or> T_Status ex = ''running'' then ''partial'' else q)"

definition replay_errors :: "AIToolRun \<Rightarrow> gostring list" where
  "replay_errors ex = (if T_ErrorMessage ex \<noteq> [] then [T_ErrorMessage ex]
     else if T_Status ex = ''running'' then [''TOOL_RUNNING''] else [])"

definition format_window :: "millis option \<Rightarrow> gostring \<Rightarrow> gostring" where
  "format_window w old = (case w of None \<Rightarrow> old | Some t \<Rightarrow> rfc3339 t)"

text \<open>The replay of an investigation's tool run; the replay of a chat query is left out.\<close>

definition toolReplayEnvelope :: "tool_env \<Rightarrow> toolRunContext option \<Rightarrow> ToolResultEnvelope option" where
  "toolReplayEnvelope te ctx = (case ctx of
      None \<Rightarrow> Some (zero_envelope\<lparr>en_Quality := ''failed'', en_Data := ''null''\<rparr>)
    | Some trc \<Rightarrow> (case tc_Existing trc of
        None \<Rightarrow> Some (zero_envelope\<lparr>en_Quality := ''failed'', en_Data := ''null''\<rparr>)
      | Some ex \<Rightarrow> map_option (\<lambda>env. env
          \<lparr>en_Digest := (if T_ResultDigestSHA256 ex \<noteq> [] then T_ResultDigestSHA256 ex else en_Digest env),
           en_Truncated := T_ResultTruncated ex, en_Count := T_ResultCount ex,
           en_QueryWindowStart := format_window (T_QueryWindowStart ex) (en_QueryWindowStart env),
           en_QueryWindowEnd := format_window (T_QueryWindowEnd ex) (en_QueryWindowEnd env),
           en_SourceErrors := replay_errors ex\<rparr>)
          (buildEnvelope te (Some trc) (replay_quality ex) (T_Result ex))))"

definition respondToolReplay :: "tool_env \<Rightarrow> toolRunContext option \<Rightarrow> (int \<times> ToolResultEnvelope) option" where
  "respondToolReplay te ctx = map_option (Pair
     (case ctx of None \<Rightarrow> 202 | Some trc \<Rightarrow>
        (case tc_Existing trc of None \<Rightarrow> 202 | Some ex \<Rightarrow> if T_Status ex = ''running'' then 202 else 200)))
     (toolReplayEnvelope te ctx)"

definition investigationWindow :: "tool_env \<Rightarrow> internalQueryRequest \<Rightarrow> (millis \<times> millis) option" where
  "investigationWindow te req =
     (let s = qa_QueryWindowStart (qr_args req); e = qa_QueryWindowEnd (qr_args req) in
      if qr_WorkloadKind req \<noteq> ''investigation'' \<or> s = [] \<or> e = [] then None
      else (case (te_parse te s, te_parse te e) of (Some a, Some b) \<Rightarrow> if a \<le> b then Some (a, b) else None | _ \<Rightarrow> None))"

section \<open>The wrapper\<close>

definition finishExecutionToolRun ::
  "tool_env \<Rightarrow> toolRunContext option \<Rightarrow> gostring \<Rightarrow> gostring option \<Rightarrow> gostring \<Rightarrow> gostring \<Rightarrow> millis \<Rightarrow> (store_db, unit) dbm" where
  "finishExecutionToolRun te ctx quality data errMsg eid now = (case ctx of
      None \<Rightarrow> db_ret ()
    | Some trc \<Rightarrow> finishToolRun te trc (qualityStatus quality) quality data (int (length (null_string data))) errMsg eid now)"

definition endToolRun ::
  "tool_env \<Rightarrow> toolRunContext option \<Rightarrow> gostring \<Rightarrow> gostring \<Rightarrow> gostring \<Rightarrow> gostring \<Rightarrow> millis \<Rightarrow> (store_db, ToolResultEnvelope option) dbm" where
  "endToolRun te ctx quality data errMsg eid now =
     db_bind (finishExecutionToolRun te ctx quality (Some data) errMsg eid now) (\<lambda>_. db_ret (buildEnvelope te ctx quality data))"

text \<open>What the data source answers: data, no data, or an error with its text.\<close>

datatype query_outcome = Found gostring | NoData | QueryFailed gostring

datatype query_reply =
    Envelope int ToolResultEnvelope
  | ToolError int gostring
  | QueryErrorReply gostring
  | Panicked

definition envelope_reply :: "int \<Rightarrow> ToolResultEnvelope option \<Rightarrow> query_reply" where
  "envelope_reply code env = (case env of None \<Rightarrow> Panicked | Some e \<Rightarrow> Envelope code e)"

definition begin_error_reply :: "begin_error \<Rightarrow> query_reply" where
  "begin_error_reply err = (case err of
      BeginStore e \<Rightarrow> if e = ErrLeaseFencing \<or> e = ErrLeaseLost then ToolError 409 ''TOOL_LEASE_LOST''
                      else ToolError 500 ''toolrun_fencing_failed''
    | BeginReused \<Rightarrow> ToolError 409 ''IDEMPOTENCY_KEY_REUSED''
    | BeginQuery _ _ \<Rightarrow> ToolError 500 ''toolrun_fencing_failed'')"

text \<open>\<open>execToolQuery\<close>: the reply, and whether the data source was asked.\<close>

definition execToolQuery ::
  "tool_env \<Rightarrow> (store_db, begun) dbm \<Rightarrow> internalQueryRequest \<Rightarrow> gostring \<Rightarrow> gostring \<Rightarrow> query_outcome \<Rightarrow> gostring \<Rightarrow> millis \<Rightarrow>
     (store_db, query_reply \<times> bool) dbm" where
  "execToolQuery te chat req tenant cluster source eid now =
     db_bind (beginToolRun te chat req tenant cluster now) (\<lambda>b. case b of
       Inl err \<Rightarrow> db_ret (begin_error_reply err, False)
     | Inr (ctx, True) \<Rightarrow>
         db_ret (case respondToolReplay te ctx of None \<Rightarrow> Panicked | Some (code, env) \<Rightarrow> Envelope code env, False)
     | Inr (ctx, False) \<Rightarrow>
         (case source of
            Found data \<Rightarrow> db_bind (endToolRun te ctx ''complete'' data [] eid now) (\<lambda>env. db_ret (envelope_reply 200 env, True))
          | NoData \<Rightarrow> db_bind (endToolRun te ctx ''complete'' ''{}'' [] eid now) (\<lambda>env. db_ret (envelope_reply 200 env, True))
          | QueryFailed e \<Rightarrow>
              db_bind (finishExecutionToolRun te ctx ''failed'' None e eid now) (\<lambda>_. db_ret (QueryErrorReply e, True))))"

section \<open>The reconciler\<close>

text \<open>A transaction whose failing commit is ignored.\<close>

definition db_tx_quiet :: "('s, 'a tx_end) dbm \<Rightarrow> ('s, 'a) dbm" where
  "db_tx_quiet body = (\<lambda>env (n, s).
     if stmt_ok env n then
       (case body env (Suc n, s) of
          (Inl e, (n', s')) \<Rightarrow> (Inl e, (n', s))
        | (Inr (Rollback x), (n', s')) \<Rightarrow> (Inr x, (n', s))
        | (Inr (Commit x), (n', s')) \<Rightarrow> (Inr x, (Suc n', if stmt_ok env n' then s' else s)))
     else (Inl DriverError, (Suc n, s)))"

definition timeout_event :: "AIToolRun \<Rightarrow> gostring \<Rightarrow> run_event" where
  "timeout_event c eid = \<lparr>ev_event_id = eid, ev_run_id = T_RunID c, ev_sequence = 0, ev_event_type = ''tool_run.timeout'',
     ev_payload = ''{'' @ json_quote ''tool_run_id'' @ '':'' @ [CHR 0x22] @ T_ToolRunID c @ [CHR 0x22] @ ''}'', ev_created_at = 0\<rparr>"

definition converge_one :: "(gostring \<Rightarrow> gostring) \<Rightarrow> millis \<Rightarrow> AIToolRun \<Rightarrow> (store_db, unit) dbm" where
  "converge_one eid now c = db_tx_quiet
     (db_bind (ConvergeToolRun (T_ToolRunID c) (T_RunID c) ''timeout'' ''tool deadline exceeded'' now) (\<lambda>changed.
        if changed then db_bind (db_try (AppendTx (timeout_event c (eid (T_ToolRunID c))) now)) (\<lambda>_. db_ret (Commit ()))
        else db_ret (Rollback ())))"

fun converge_all :: "(gostring \<Rightarrow> gostring) \<Rightarrow> millis \<Rightarrow> AIToolRun list \<Rightarrow> (store_db, unit) dbm" where
  "converge_all eid now [] = db_ret ()"
| "converge_all eid now (c # cs) = db_bind (converge_one eid now c) (\<lambda>_. converge_all eid now cs)"

definition reconcileExpiredTools :: "(gostring \<Rightarrow> gostring) \<Rightarrow> millis \<Rightarrow> (store_db, unit) dbm" where
  "reconcileExpiredTools eid now =
     db_bind db_alive (\<lambda>up. if up then db_bind (ScanExpiredRunning 50) (converge_all eid now) else db_ret ())"

section \<open>Evidence\<close>

record consume_body =
  cb_RunID :: gostring
  cb_TenantID :: gostring
  cb_ClusterID :: gostring
  cb_EvidenceID :: gostring
  cb_EvidenceType :: gostring
  cb_SourceRef :: gostring
  cb_RawRef :: gostring
  cb_RawDigestSHA256 :: gostring
  cb_Summary :: gostring
  cb_Metadata :: gostring
  cb_ProvenanceFingerprint :: gostring

definition evidence_of :: "consume_body \<Rightarrow> millis \<Rightarrow> evidence" where
  "evidence_of b now = \<lparr>evd_id = cb_EvidenceID b, evd_run_id = cb_RunID b, evd_tenant_id = cb_TenantID b,
     evd_cluster_id = cb_ClusterID b, evd_type = cb_EvidenceType b, evd_source_ref = cb_SourceRef b, evd_raw_ref = cb_RawRef b,
     evd_raw_digest = cb_RawDigestSHA256 b, evd_summary = nullable_str (cb_Summary b), evd_metadata = cb_Metadata b,
     evd_fingerprint = cb_ProvenanceFingerprint b, evd_collected_at = now\<rparr>"

text \<open>
  A transaction after its Begin: a failing body is rolled back, and a commit that fails is told apart
  (\<open>None\<close>).
\<close>

definition db_open_tx :: "('s, 'a tx_end) dbm \<Rightarrow> ('s, 'a option) dbm" where
  "db_open_tx body = (\<lambda>env (n, s).
     case body env (n, s) of
       (Inl e, (n', s')) \<Rightarrow> (Inl e, (n', s))
     | (Inr (Rollback x), (n', s')) \<Rightarrow> (Inr (Some x), (n', s))
     | (Inr (Commit x), (n', s')) \<Rightarrow> if stmt_ok env n' then (Inr (Some x), (Suc n', s')) else (Inr None, (Suc n', s)))"

definition consume_body_tx :: "consume_body \<Rightarrow> gostring \<Rightarrow> millis \<Rightarrow> (store_db, bool tx_end) dbm" where
  "consume_body_tx b tid now =
     db_bind (ConsumeToolRunAsEvidence (evidence_of b now) tid ''success,partial,no_data'' now)
       (\<lambda>ok. db_ret (if ok then Commit True else Rollback False))"

definition consume_result :: "consume_body \<Rightarrow> store_error + bool option \<Rightarrow> gostring reply" where
  "consume_result b res = (case res of
      Inl e \<Rightarrow> if e = ErrEvidenceNotEligible then Refuse 409 ''EVIDENCE_NOT_ELIGIBLE'' else Refuse 500 ''evidence_consume_failed''
    | Inr None \<Rightarrow> Refuse 500 ''tx_commit_failed''
    | Inr (Some ok) \<Rightarrow> if ok then Reply (cb_EvidenceID b) else Refuse 409 ''EVIDENCE_NOT_ELIGIBLE'')"

definition consume_evidence :: "consume_body \<Rightarrow> gostring \<Rightarrow> millis \<Rightarrow> (store_db, gostring reply) dbm" where
  "consume_evidence b tid now =
     db_bind db_alive (\<lambda>up. if \<not> up then db_ret (Refuse 500 ''mysql_unavailable'')
       else db_bind (db_try db_call) (\<lambda>began. case began of
         Inl _ \<Rightarrow> db_ret (Refuse 500 ''tx_begin_failed'')
       | Inr _ \<Rightarrow> db_bind (db_try (db_open_tx (consume_body_tx b tid now))) (\<lambda>res. db_ret (consume_result b res))))"

text \<open>The endpoint; an undecodable body is \<open>None\<close>.\<close>

definition internalControlPlaneToolEvidenceConsume ::
  "trust \<Rightarrow> consume_body option \<Rightarrow> gostring \<Rightarrow> millis \<Rightarrow> (store_db, gostring reply) dbm" where
  "internalControlPlaneToolEvidenceConsume trust body tid now = (case body of
      None \<Rightarrow> db_ret (Refuse 400 ''INVALID_BODY'')
    | Some b \<Rightarrow>
        if cb_RunID b = [] \<or> cb_TenantID b = [] \<or> cb_ClusterID b = [] \<or> cb_EvidenceID b = []
        then db_ret (Refuse 400 ''MISSING_EVIDENCE_FIELDS'')
        else db_bind (authorizeControlPlaneForRun trust ''control_plane.evidence.consume'' ''ai-orchestrator'' (cb_RunID b))
          (\<lambda>auth. case auth of
             Inl code \<Rightarrow> db_ret (respondInternalQueryError code)
           | Inr _ \<Rightarrow> consume_evidence b tid now))"

end
