(* ===== verification/ToolSafety.thy ===== *)
theory ToolSafety
  imports ToolRuns
begin

text \<open>
  What the tool runs promise: a query is executed at most once for each idempotency key of a Run, a
  result becomes evidence at most once and only when it was written under the live lease of its Run,
  and what a replay returns.  The histories interleave any number of wrapped queries, reconcilers and
  consumers with failing driver calls and with arbitrary changes of the other tables.
\<close>

section \<open>What an operation does to the table\<close>

text \<open>
  \<open>kept ok ids rows db\<close>: from \<open>rows\<close> to the rows of \<open>db\<close> no row has appeared or disappeared, keys and
  consumption marks are the same, only rows with an identifier in \<open>ids\<close> have changed, and a row has
  become eligible only when \<open>ok\<close> holds of its identifier.
\<close>

definition row_kept :: "(gostring \<Rightarrow> bool) \<Rightarrow> gostring set \<Rightarrow> tool_run \<Rightarrow> tool_run \<Rightarrow> bool" where
  "row_kept ok ids r r' \<longleftrightarrow> (tr_tool_run_id r \<in> ids \<or> r' = r) \<and>
     tr_tool_run_id r' = tr_tool_run_id r \<and> tr_run_id r' = tr_run_id r \<and> tr_idempotency_key r' = tr_idempotency_key r \<and>
     tr_evidence_consumed_at r' = tr_evidence_consumed_at r \<and> (tr_eligible r' \<longrightarrow> tr_eligible r \<or> ok (tr_tool_run_id r))"

definition kept :: "(gostring \<Rightarrow> bool) \<Rightarrow> gostring set \<Rightarrow> tool_run list \<Rightarrow> store_db \<Rightarrow> bool" where
  "kept ok ids rows db \<longleftrightarrow> list_all2 (row_kept ok ids) rows (ai_tool_runs db)"

lemma row_kept_refl [simp]: "row_kept ok ids r r"
  by (simp add: row_kept_def)

lemma row_kept_trans: "row_kept ok ids r s \<Longrightarrow> row_kept ok ids s t \<Longrightarrow> row_kept ok ids r t"
  by (auto simp: row_kept_def)

lemma kept_refl: "ai_tool_runs db = rows \<Longrightarrow> kept ok ids rows db"
  by (simp add: kept_def list_all2_refl)

lemma kept_update:
  assumes "kept ok ids rows db" "\<And>r. p r \<Longrightarrow> row_kept ok ids r (f r)"
  shows "kept ok ids rows (update_tools p f db)"
proof -
  have "list_all2 (row_kept ok ids) (ai_tool_runs db) (sql_update p f (ai_tool_runs db))"
    using assms(2) by (simp add: sql_update_def list_all2_conv_all_nth)
  with assms(1) show ?thesis
    unfolding kept_def update_tools_def using list_all2_trans [OF row_kept_trans] by simp
qed

lemma kept_same_tools: "ai_tool_runs db' = ai_tool_runs db \<Longrightarrow> kept ok ids rows db' = kept ok ids rows db"
  by (simp add: kept_def)

lemma keeps_kept_reads: "reads m \<Longrightarrow> keeps P m"
  unfolding keeps_def by (metis readsD)

text \<open>Appending an event does not touch the table.\<close>

lemma update_run_tools [simp]: "kept ok ids rows (snd (update_run rid p f db)) = kept ok ids rows db"
  by (simp add: kept_def)

lemma insert_event_tools [simp]: "ai_tool_runs (snd (insert_event e db)) = ai_tool_runs db"
  by (simp add: insert_event_def)

lemma AppendTx_kept: "keeps (kept ok ids rows) (AppendTx ev now)"
  unfolding AppendTx_def by (intro keeps_rules keeps_stmt) (simp_all add: kept_def)

lemma keeps_alive [intro]: "keeps P db_alive"
  by (simp add: keeps_def db_alive_def)

lemma keeps_tx_quiet: "keeps P m \<Longrightarrow> keeps P (db_tx_quiet m)"
  by (auto simp: keeps_def db_tx_quiet_def split: if_splits prod.splits sum.splits tx_end.splits)

lemma set_converged_kept: "tr_tool_run_id r \<in> ids \<Longrightarrow> row_kept ok ids r (set_converged st e now r)"
  by (simp add: set_converged_def row_kept_def)

lemma set_quality_kept: "tr_tool_run_id r \<in> ids \<Longrightarrow> (el \<Longrightarrow> ok (tr_tool_run_id r)) \<Longrightarrow> row_kept ok ids r (set_quality t el r)"
  by (simp add: set_quality_def set_outcome_def row_kept_def)

lemma converge_kept: "tid \<in> ids \<Longrightarrow> keeps (kept ok ids rows) (ConvergeToolRun tid rid st e now)"
  unfolding ConvergeToolRun_def
  by (intro keeps_rules keeps_stmt) (auto intro!: kept_update set_converged_kept)

lemma converge_all_kept: "T_ToolRunID ` set cs \<subseteq> ids \<Longrightarrow> keeps (kept ok ids rows) (converge_all eid now cs)"
proof (induction cs)
  case (Cons c cs)
  have "keeps (kept ok ids rows) (converge_one eid now c)"
    unfolding converge_one_def
    by (intro keeps_tx_quiet keeps_bind keeps_if keeps_try keeps_ret converge_kept AppendTx_kept) (use Cons.prems in simp)
  with Cons show ?case by (simp add: keeps_bind)
qed (simp add: keeps_ret)

lemma reconcile_kept:
  assumes "reconcileExpiredTools eid now env (n, db) = (r, (n', db'))"
  shows "kept ok {tr_tool_run_id x | x. x \<in> set (ai_tool_runs db) \<and> tr_deadline_at x \<noteq> None} (ai_tool_runs db) db'"
    (is "kept ok ?ids _ _")
proof (cases "db_up env")
  case True
  obtain x n1 db1 where sc: "ScanExpiredRunning 50 env (n, db) = (x, (n1, db1))" by (metis prod_cases3)
  have run: "db_bind (ScanExpiredRunning 50) (converge_all eid now) env (n, db) = (r, (n', db'))"
    using assms True by (simp add: reconcileExpiredTools_def db_bind_def db_alive_def)
  have db1: "db1 = db" using sc by (auto simp: ScanExpiredRunning_def db_conn_def db_stmt_def Let_def split: if_splits)
  show ?thesis
  proof (cases x)
    case (Inr cs)
    have "set cs \<subseteq> scan_tool ` {x \<in> set (ai_tool_runs db). tr_deadline_at x \<noteq> None}"
      using sc Inr True
      by (auto simp: ScanExpiredRunning_def db_conn_def db_stmt_def Let_def sql_order_limit_def deadline_passed_def
          dest!: in_set_takeD split: if_splits option.splits)
    moreover have "T_ToolRunID (scan_tool x) = tr_tool_run_id x" for x by (simp add: scan_tool_def)
    ultimately have ids: "T_ToolRunID ` set cs \<subseteq> ?ids" by fastforce
    have "converge_all eid now cs env (n1, db) = (r, (n', db'))" using run sc Inr db1 by (simp add: db_bind_def)
    from keepsD [OF converge_all_kept [OF ids] kept_refl [OF refl] this] show ?thesis .
  qed (use run sc db1 in \<open>simp add: db_bind_def kept_refl\<close>)
qed (use assms in \<open>simp add: reconcileExpiredTools_def db_bind_def db_alive_def db_ret_def kept_refl\<close>)

lemma write_quality_kept:
  assumes "el \<Longrightarrow> ok (T_ToolRunID t)" "T_ToolRunID t \<in> ids"
  shows "keeps (kept ok ids rows) (write_quality t el)"
proof -
  have "kept ok ids rows (update_tools (\<lambda>r. tr_tool_run_id r = T_ToolRunID t) (set_quality t el) s)" if "kept ok ids rows s" for s
    using that by (rule kept_update) (rule set_quality_kept, use assms in simp_all)
  then show ?thesis unfolding write_quality_def by (intro keeps_rules keeps_stmt) simp
qed

section \<open>Finishing\<close>

text \<open>The lease of the context is live in the database at some time.\<close>

definition holds_lease :: "tool_env \<Rightarrow> toolRunContext \<Rightarrow> store_db \<Rightarrow> bool" where
  "holds_lease te trc db \<longleftrightarrow>
     (\<exists>r\<in>set (ai_runs db). \<exists>t. r_run_id r = tc_RunID trc \<and>
        lease_live t (tc_ExecutorID trc) (tc_LeaseEpoch trc) (te_hash te (tc_LeaseToken trc)) r)"

lemma fence_holds:
  assumes "FenceToolExecutionTx (tc_RunID trc) (tc_ExecutorID trc) (tc_LeaseEpoch trc) (te_hash te (tc_LeaseToken trc)) env (n, db) = (Inr x, (n', db'))"
  shows "holds_lease te trc db \<and> db' = db"
  using assms
  by (auto simp: FenceToolExecutionTx_def db_bind_stmt_Inr db_ret_def db_fail_def holds_lease_def dest!: sql_first_SomeD
      split: option.splits if_splits)

lemma finish_unfenced_kept:
  assumes "T_ResultQuality t = ''complete'' \<Longrightarrow> ok (T_ToolRunID t)" "T_ToolRunID t \<in> ids"
  shows "keeps (kept ok ids rows) (FinishToolRunWithFencing t)"
  unfolding FinishToolRunWithFencing_def
  by (intro keeps_rules keeps_stmt write_quality_kept) (use assms in auto)

lemma finish_fenced_kept:
  assumes "finish_fenced te trc t env (n, db) = (Inr res, (n', db'))"
  shows "kept (\<lambda>i. i = T_ToolRunID t \<and> T_ResultQuality t = ''complete'' \<and> holds_lease te trc db) {T_ToolRunID t} (ai_tool_runs db) db'"
proof -
  let ?ok = "\<lambda>i. i = T_ToolRunID t \<and> T_ResultQuality t = ''complete'' \<and> holds_lease te trc db"
  have tx: "db_conn (db_tx (finish_body te trc t)) env (n, db) = (res, (n', db'))"
    using assms by (simp add: finish_fenced_def db_try_def split: prod.splits)
  show ?thesis
  proof (cases res)
    case (Inl e)
    with tx have "db' = db" by (auto simp: db_conn_def split: if_splits dest: db_tx_error_unchanged)
    then show ?thesis by (simp add: kept_refl)
  next
    case (Inr late)
    then have "db_tx (finish_body te trc t) env (n, db) = (Inr late, (n', db'))"
      using tx by (simp add: db_conn_def split: if_splits)
    then consider "db' = db" | m where "finish_body te trc t env (Suc n, db) = (Inr (Commit late), (m, db'))"
      unfolding db_tx_Inr by blast
    then show ?thesis
    proof cases
      case 2
      then obtain x n1 db1 where f: "FenceToolExecutionTx (tc_RunID trc) (tc_ExecutorID trc) (tc_LeaseEpoch trc)
            (te_hash te (tc_LeaseToken trc)) env (Suc n, db) = (Inr x, (n1, db1))"
          and b: "db_bind (FinishToolRunWithFencing t) (\<lambda>late. db_ret (Commit late)) env (n1, db1) = (Inr (Commit late), (m, db'))"
        unfolding finish_body_def db_bind_Inr by auto
      have h: "holds_lease te trc db" "db1 = db" using fence_holds [OF f] by auto
      have "keeps (kept ?ok {T_ToolRunID t} (ai_tool_runs db)) (db_bind (FinishToolRunWithFencing t) (\<lambda>late. db_ret (Commit late)))"
        by (intro keeps_bind keeps_ret finish_unfenced_kept) (use h in simp_all)
      from keepsD [OF this _ b] show ?thesis using h(2) by (simp add: kept_refl)
    qed (simp add: kept_refl)
  qed
qed

lemma append_late_kept: "keeps (kept ok ids rows) (append_late trc eid now)"
  unfolding append_late_def by (intro keeps_rules AppendTx_kept)

lemma finished_tool_fields [simp]:
  "T_ToolRunID (finished_tool te trc st q res c e now) = tc_ToolRunID trc"
  "T_ResultQuality (finished_tool te trc st q res c e now) = q"
  "T_EligibleForEvidence (finished_tool te trc st q res c e now) = False"
  by (simp_all add: finished_tool_def zero_tool_def)

lemma finish_kept:
  assumes "finishToolRun te trc st q res c e eid now env (n, db) = (r, (n', db'))"
  shows "kept (\<lambda>i. i = tc_ToolRunID trc \<and> q = ''complete'' \<and> holds_lease te trc db) {tc_ToolRunID trc} (ai_tool_runs db) db'"
proof -
  let ?t = "finished_tool te trc st q res c e now"
  let ?ok = "\<lambda>i. i = tc_ToolRunID trc \<and> q = ''complete'' \<and> holds_lease te trc db"
  define k where "k = (\<lambda>res :: store_error + bool. case res of
        Inr late \<Rightarrow> if late then append_late trc eid now else db_ret ()
      | Inl _ \<Rightarrow> db_bind (db_try (UpdateQuality (?t\<lparr>T_ErrorCode := ''TOOL_FENCING_FAILED''\<rparr>))) (\<lambda>_. db_ret ()))"
  have "finishToolRun te trc st q res c e eid now = db_bind (finish_fenced te trc ?t) k"
    by (simp add: finishToolRun_def k_def Let_def)
  moreover have "keeps (kept ?ok {tc_ToolRunID trc} (ai_tool_runs db)) (k x)" for x
    unfolding k_def UpdateQuality_def
    by (intro keeps_case_sum keeps_if keeps_bind keeps_try keeps_conn keeps_ret append_late_kept write_quality_kept) simp_all
  moreover obtain x n1 db1 where f: "finish_fenced te trc ?t env (n, db) = (x, (n1, db1))" by (metis prod_cases3)
  moreover obtain y where "x = Inr y"
    using f by (auto simp: finish_fenced_def db_try_def split: prod.splits)
  ultimately show ?thesis
    using finish_fenced_kept [of te trc ?t env n db y n1 db1] assms by (auto simp: db_bind_def intro: keepsD)
qed

section \<open>Starting\<close>

lemma reads_alive: "reads db_alive"
  by (simp add: reads_def db_alive_def)

lemma reads_call: "reads db_call"
  by (simp add: db_call_def reads_stmt)

lemma reads_fence: "reads (FenceToolExecutionTx rid owner e th)"
  unfolding FenceToolExecutionTx_def by (intro reads_intros) auto

lemma reads_idem: "reads (AIToolRunDAO_GetByIdemKey rid key)"
  unfolding AIToolRunDAO_GetByIdemKey_def by (intro reads_intros) auto

lemma reads_get: "reads (AIRunDAO_Get rid)"
  unfolding AIRunDAO_Get_def AIRunDAO_GetTx_def by (intro reads_intros) auto

lemma reads_window: "reads (check_run_window te req tenant cluster)"
  unfolding check_run_window_def by (intro reads_intros reads_get)

lemma reads_fence_before: "reads (fence_before te trc)"
  unfolding fence_before_def by (intro reads_intros reads_alive reads_call reads_fence)

lemma fence_before_result:
  assumes "fence_before te trc env st = (r, st')"
  shows "r = Inr (Inr (Some trc, False)) \<or> (\<exists>e. r = Inr (Inl (BeginStore e)))"
  using assms
  by (auto simp: fence_before_def db_bind_def db_alive_def db_try_def db_ret_def split: if_splits prod.splits sum.splits)

definition no_tool :: "tool_run \<Rightarrow> store_db \<Rightarrow> bool" where
  "no_tool row db \<longleftrightarrow> (\<forall>x\<in>set (ai_tool_runs db). tr_tool_run_id x \<noteq> tr_tool_run_id row \<and>
     \<not> (tr_run_id x = tr_run_id row \<and> tr_idempotency_key x = tr_idempotency_key row))"

definition started_row :: "toolRunContext \<Rightarrow> millis \<Rightarrow> tool_run" where
  "started_row trc now = quality_row (started_tool trc now) now"

lemma startToolRun_run:
  assumes "startToolRun trc now env (n, db) = (x, (n1, db1))"
  shows "(x = Inr True \<and> no_tool (started_row trc now) db \<and> db1 = db\<lparr>ai_tool_runs := ai_tool_runs db @ [started_row trc now]\<rparr>) \<or>
    (x \<noteq> Inr True \<and> db1 = db)"
  using assms
  by (auto simp: startToolRun_def CreateWithQuality_def db_conn_def db_bind_def db_stmt_def insert_tool_def boolean_insert_def
      db_ret_def no_tool_def started_row_def list_ex_iff Let_def split: if_splits)

text \<open>The outcome of a start: either nothing is written and nothing granted, or the new row is there.\<close>

definition granted :: "store_error + begun \<Rightarrow> toolRunContext option" where
  "granted r = (case r of Inr (Inr (Some trc, False)) \<Rightarrow> Some trc | _ \<Rightarrow> None)"

definition refused :: "store_error + begun \<Rightarrow> bool" where
  "refused r = (case r of Inr (Inl (BeginStore _)) \<Rightarrow> True | _ \<Rightarrow> False)"

definition start_outcome :: "toolRunContext \<Rightarrow> millis \<Rightarrow> store_error + begun \<Rightarrow> store_db \<Rightarrow> store_db \<Rightarrow> bool" where
  "start_outcome trc now r db db' \<longleftrightarrow>
     (granted r = None \<and> \<not> refused r \<and> db' = db) \<or>
     ((granted r = Some trc \<and> \<not> refused r \<or> granted r = None \<and> refused r) \<and> no_tool (started_row trc now) db \<and>
      db' = db\<lparr>ai_tool_runs := ai_tool_runs db @ [started_row trc now]\<rparr>)"

lemma granted_simps [simp]: "granted (Inl e) = None" "granted (Inr (Inl b)) = None" "granted (Inr (Inr (None, f))) = None"
  "granted (Inr (Inr (Some trc, True))) = None" "granted (Inr (Inr (Some trc, False))) = Some trc"
  by (simp_all add: granted_def)

lemma refused_simps [simp]: "\<not> refused (Inl e)" "\<not> refused (Inr (Inr p))" "refused (Inr (Inl (BeginStore e)))"
  "\<not> refused (Inr (Inl (BeginQuery c m)))" "\<not> refused (Inr (Inl BeginReused))"
  by (simp_all add: refused_def)

lemma db_bind_try_run: "m env st = (x, st1) \<Longrightarrow> db_bind (db_try m) k env st = k x env st1"
  by (simp add: db_bind_def db_try_def)

lemma db_bind_run: "m env st = (Inr x, st1) \<Longrightarrow> db_bind m k env st = k x env st1"
  by (simp add: db_bind_def)

lemma db_ret_run [simp]: "db_ret x env st = (Inr x, st)"
  by (simp add: db_ret_def)

lemma replay_not_granted [simp]: "granted (Inr (replay_existing trc ex)) = None" "\<not> refused (Inr (replay_existing trc ex))"
  by (auto simp: granted_def refused_def replay_existing_def)

lemma begin_created_outcome:
  assumes "begin_created te trc now env (n, db) = (r, (n', db'))"
  shows "start_outcome trc now r db db'"
proof -
  obtain x n1 db1 where st: "startToolRun trc now env (n, db) = (x, (n1, db1))" by (metis prod_cases3)
  show ?thesis
  proof (cases "x = Inr True")
    case True
    with assms have f: "fence_before te trc env (n1, db1) = (r, (n', db'))"
      unfolding begin_created_def db_bind_try_run [where m = "startToolRun trc now", OF st] by simp
    have "db' = db1" using readsD [OF reads_fence_before f] .
    with startToolRun_run [OF st] True fence_before_result [OF f] show ?thesis
      by (auto simp: start_outcome_def)
  next
    case False
    with startToolRun_run [OF st] have db1: "db1 = db" by simp
    define k where "k = db_bind (db_try (AIToolRunDAO_GetByIdemKey (tc_RunID trc) (tc_IdempotencyKey trc))) (\<lambda>got. case got of
           Inl _ \<Rightarrow> db_ret (Inl (BeginQuery ''TOOL_UNAVAILABLE'' ''ToolRun idempotency record unavailable''))
         | Inr ex \<Rightarrow> db_ret (replay_existing trc ex))"
    have k: "reads k" unfolding k_def by (intro reads_intros reads_idem)
    have kr: "granted r' = None \<and> \<not> refused r'" if "k env s = (r', s')" for r' s s'
    proof -
      obtain y s1 where "AIToolRunDAO_GetByIdemKey (tc_RunID trc) (tc_IdempotencyKey trc) env s = (y, s1)"
        by (metis surj_pair)
      from that [unfolded k_def db_bind_try_run [where m = "AIToolRunDAO_GetByIdemKey (tc_RunID trc) (tc_IdempotencyKey trc)", OF this]] show ?thesis by (cases y) auto
    qed
    have "r = Inr (Inl (BeginQuery ''TOOL_UNAVAILABLE'' ''ToolRun persistence unavailable'')) \<and> db' = db \<or> k env (n1, db) = (r, (n', db'))"
      using assms False db1 unfolding begin_created_def db_bind_try_run [where m = "startToolRun trc now", OF st] k_def [symmetric]
      by (cases x) (auto simp: k_def [symmetric])
    then show ?thesis using readsD [OF k] kr by (auto simp: start_outcome_def)
  qed
qed

lemma begin_idempotent_outcome:
  assumes "begin_idempotent te trc now env (n, db) = (r, (n', db'))"
  shows "start_outcome trc now r db db'"
proof (cases "tc_IdempotencyKey trc = []")
  case False
  obtain x n1 db1 where g: "AIToolRunDAO_GetByIdemKey (tc_RunID trc) (tc_IdempotencyKey trc) env (n, db) = (x, (n1, db1))"
    by (metis prod_cases3)
  have db1: "db1 = db" using readsD [OF reads_idem g] .
  have run: "begin_idempotent te trc now env (n, db) = (case x of
        Inr ex \<Rightarrow> db_ret (replay_existing trc ex)
      | Inl SqlErrNoRows \<Rightarrow> begin_created te trc now
      | Inl _ \<Rightarrow> db_ret (Inl (BeginQuery ''TOOL_UNAVAILABLE'' ''ToolRun idempotency lookup failed''))) env (n1, db)"
    unfolding begin_idempotent_def
      db_bind_try_run [where m = "AIToolRunDAO_GetByIdemKey (tc_RunID trc) (tc_IdempotencyKey trc)", OF g]
    using False db1
    by (simp add: db_bind_try_run [where m = "AIToolRunDAO_GetByIdemKey (tc_RunID trc) (tc_IdempotencyKey trc)", OF g])
  have "(granted r = None \<and> \<not> refused r \<and> db' = db) \<or> begin_created te trc now env (n1, db) = (r, (n', db'))"
  proof (cases x)
    case (Inl e)
    with assms run show ?thesis by (cases e) auto
  next
    case (Inr ex)
    with assms run show ?thesis by auto
  qed
  then show ?thesis by (elim disjE conjE) (simp add: start_outcome_def, rule begin_created_outcome)
qed (use assms begin_created_outcome in \<open>simp add: begin_idempotent_def\<close>)

lemma begin_outcome:
  assumes "beginToolRun te chat req tenant cluster now env (n, db) = (r, (n', db'))" "qr_WorkloadKind req \<noteq> ''chat''"
  shows "(granted r = None \<and> \<not> refused r \<and> db' = db) \<or>
    (\<exists>trc. newToolRunFromRequest te req tenant cluster = Some trc \<and> start_outcome trc now r db db')"
proof (cases "validateToolRunRequest te req")
  case None
  show ?thesis
  proof (cases "newToolRunFromRequest te req tenant cluster")
    case (Some trc)
    obtain x n1 db1 where w: "check_run_window te req tenant cluster env (n, db) = (x, (n1, db1))" by (metis prod_cases3)
    have "db1 = db" using readsD [OF reads_window w] .
    with assms None Some w have "(\<exists>e. x = Inl e \<and> r = Inl e \<and> db' = db) \<or> (\<exists>e. x = Inr (Some e) \<and> r = Inr (Inl e) \<and> db' = db) \<or>
        begin_idempotent te trc now env (n1, db) = (r, (n', db'))"
      by (cases x; (cases "projr x")?) (auto simp: beginToolRun_def db_bind_def)
    moreover have "\<not> (\<exists>e. x = Inr (Some (BeginStore e)))"
      using w by (auto simp: check_run_window_def db_bind_def db_try_def run_window_error_def split: if_splits prod.splits sum.splits)
    ultimately show ?thesis
    proof (elim disjE exE conjE)
      fix e assume "\<not> (\<exists>e. x = Inr (Some (BeginStore e)))" "x = Inr (Some e)" "r = Inr (Inl e)" "db' = db"
      then show ?thesis by (cases e) auto
    qed (use begin_idempotent_outcome Some in auto)
  qed (use assms None in \<open>auto simp: beginToolRun_def split: if_splits\<close>)
qed (use assms in \<open>auto simp: beginToolRun_def\<close>)

section \<open>Consuming\<close>

lemma consume_body_Inr:
  assumes "consume_body_tx b tid now env (n, db) = (Inr x, (n', db'))"
  shows "x = Commit True \<and> (\<exists>r. get_tool tid db = Some r \<and> tr_eligible r \<and> tr_evidence_consumed_at r = None) \<and>
    ai_tool_runs db' = ai_tool_runs (mark_consumed tid now db)"
proof -
  obtain ok where c: "ConsumeToolRunAsEvidence (evidence_of b now) tid ''success,partial,no_data'' now env (n, db) = (Inr ok, (n', db'))"
      and x: "x = (if ok then Commit True else Rollback False)"
    using assms by (auto simp: consume_body_tx_def db_bind_Inr db_ret_def)
  have t: "ai_tool_runs (upsert_evidence e d) = ai_tool_runs d" for e d by (simp add: upsert_evidence_def)
  show ?thesis
    using c x
    by (auto simp: ConsumeToolRunAsEvidence_def db_bind_stmt_Inr db_fail_def db_ret_def consumable_def t mark_consumed_def
        update_tools_def split: option.splits if_splits)
qed

lemma consume_evidence_outcome:
  assumes "consume_evidence b tid now env (n, db) = (r, (n', db'))"
  shows "((\<nexists>x. r = Inr (Reply x)) \<and> db' = db) \<or>
    ((\<exists>x. r = Inr (Reply x)) \<and> (\<exists>t. get_tool tid db = Some t \<and> tr_eligible t \<and> tr_evidence_consumed_at t = None) \<and>
     ai_tool_runs db' = ai_tool_runs (mark_consumed tid now db))"
proof -
  obtain y n2 db2 where o: "db_open_tx (consume_body_tx b tid now) env (Suc n, db) = (y, (n2, db2))" by (metis prod_cases3)
  have "(y = Inr (Some True) \<and> (\<exists>t. get_tool tid db = Some t \<and> tr_eligible t \<and> tr_evidence_consumed_at t = None) \<and>
      ai_tool_runs db2 = ai_tool_runs (mark_consumed tid now db)) \<or> ((\<nexists>x. consume_result b y = Reply x) \<and> db2 = db)"
    using o
    by (auto simp: db_open_tx_def consume_result_def dest: consume_body_Inr split: prod.splits sum.splits tx_end.splits if_splits)
  moreover have "(r = Inr (consume_result b y) \<and> db' = db2) \<or> ((\<nexists>x. r = Inr (Reply x)) \<and> db' = db)"
    using assms o
    by (auto simp: consume_evidence_def db_bind_def db_alive_def db_try_def db_call_def db_stmt_def db_ret_def split: if_splits)
  ultimately show ?thesis by (auto simp: consume_result_def)
qed

lemma reads_authorize: "reads (authorizeControlPlaneForRun trust cap iss rid)"
  unfolding authorizeControlPlaneForRun_def by (intro reads_intros reads_get)

lemma consume_outcome:
  assumes "internalControlPlaneToolEvidenceConsume trust body tid now env (n, db) = (r, (n', db'))"
  shows "((\<nexists>x. r = Inr (Reply x)) \<and> db' = db) \<or>
    ((\<exists>x. r = Inr (Reply x)) \<and> (\<exists>t. get_tool tid db = Some t \<and> tr_eligible t \<and> tr_evidence_consumed_at t = None) \<and>
     ai_tool_runs db' = ai_tool_runs (mark_consumed tid now db))"
proof -
  have simple: "(\<exists>c m. r = Inr (Refuse c m)) \<and> db' = db \<or> (\<exists>e. r = Inl e) \<and> db' = db \<or>
      (\<exists>b m. consume_evidence b tid now env (m, db) = (r, (n', db')))"
  proof (cases body)
    case (Some b)
    obtain x n1 db1 where a: "authorizeControlPlaneForRun trust ''control_plane.evidence.consume'' ''ai-orchestrator'' (cb_RunID b) env (n, db) = (x, (n1, db1))"
      by (metis prod_cases3)
    have "db1 = db" using readsD [OF reads_authorize a] .
    with assms Some a show ?thesis
      by (auto simp: internalControlPlaneToolEvidenceConsume_def db_bind_def db_ret_def respondInternalQueryError_def
          split: if_splits sum.splits)
  qed (use assms in \<open>auto simp: internalControlPlaneToolEvidenceConsume_def db_ret_def\<close>)
  then show ?thesis using consume_evidence_outcome by blast
qed

section \<open>Histories\<close>

text \<open>
  What happened, latest first: a context was granted its query, a context was refused by the check of the
  lease after its row had been written, a complete result was written by a context that holds the live
  lease, a tool run was turned into evidence.
\<close>

datatype tool_event =
    Granted toolRunContext
  | Refused toolRunContext
  | Accepted gostring
  | Consumed gostring

definition begin_events :: "toolRunContext option \<Rightarrow> store_error + begun \<Rightarrow> tool_event list" where
  "begin_events ctx r = (case granted r of
      Some trc \<Rightarrow> [Granted trc]
    | None \<Rightarrow> (case ctx of None \<Rightarrow> [] | Some trc \<Rightarrow> if refused r then [Refused trc] else []))"

text \<open>
  Wrapped queries are begun and, when they were granted, finished; the reconciler and the consumers of
  evidence run in between; the other tables change in any way.
\<close>

inductive tool_history :: "tool_env \<Rightarrow> tool_event list \<Rightarrow> store_db \<Rightarrow> bool" for te where
  th_init: "ai_tool_runs db = [] \<Longrightarrow> tool_history te [] db"
| th_other: "tool_history te evs db \<Longrightarrow> ai_tool_runs db' = ai_tool_runs db \<Longrightarrow> tool_history te evs db'"
| th_begin: "tool_history te evs db \<Longrightarrow> qr_WorkloadKind req \<noteq> ''chat'' \<Longrightarrow>
    beginToolRun te chat req tenant cluster now env (n, db) = (r, (n', db')) \<Longrightarrow>
    tool_history te (begin_events (newToolRunFromRequest te req tenant cluster) r @ evs) db'"
| th_finish: "tool_history te evs db \<Longrightarrow> Granted trc \<in> set evs \<Longrightarrow>
    finishToolRun te trc st q res c e eid now env (n, db) = (r, (n', db')) \<Longrightarrow>
    tool_history te ((if q = ''complete'' \<and> holds_lease te trc db then [Accepted (tc_ToolRunID trc)] else []) @ evs) db'"
| th_reconcile: "tool_history te evs db \<Longrightarrow> reconcileExpiredTools uuid now env (n, db) = (r', (n', db')) \<Longrightarrow> tool_history te evs db'"
| th_consume: "tool_history te evs db \<Longrightarrow>
    internalControlPlaneToolEvidenceConsume trust body tid now env (n, db) = (r'', (n', db')) \<Longrightarrow>
    tool_history te ((if \<exists>x. r'' = Inr (Reply x) then [Consumed tid] else []) @ evs) db'"

definition row_of :: "toolRunContext \<Rightarrow> tool_run \<Rightarrow> bool" where
  "row_of trc x \<longleftrightarrow> tr_tool_run_id x = tc_ToolRunID trc \<and> tr_run_id x = tc_RunID trc \<and> tr_idempotency_key x = idem_key trc"

definition stuck :: "tool_run \<Rightarrow> bool" where
  "stuck x \<longleftrightarrow> tr_status x = ''running'' \<and> tr_deadline_at x = None \<and> \<not> tr_eligible x"

lemma started_row_fields [simp]:
  "row_of trc (started_row trc now)" "stuck (started_row trc now)" "tr_evidence_consumed_at (started_row trc now) = None"
  "tr_tool_run_id (started_row trc now) = tc_ToolRunID trc" "tr_run_id (started_row trc now) = tc_RunID trc"
  "tr_idempotency_key (started_row trc now) = idem_key trc" "\<not> tr_eligible (started_row trc now)"
  by (simp_all add: row_of_def stuck_def started_row_def quality_row_def create_row_def started_tool_def zero_tool_def or_default_def)

text \<open>The invariant: keys, grants, refusals, and eligible and consumed rows with their events.\<close>

definition same_key :: "toolRunContext \<Rightarrow> toolRunContext \<Rightarrow> bool" where
  "same_key a b \<longleftrightarrow> tc_ToolRunID a = tc_ToolRunID b \<or> (tc_RunID a = tc_RunID b \<and> idem_key a = idem_key b)"

definition granted_ctxs :: "tool_event list \<Rightarrow> toolRunContext list" where
  "granted_ctxs evs = concat (map (\<lambda>e. case e of Granted trc \<Rightarrow> [trc] | _ \<Rightarrow> []) evs)"

definition rows_inv :: "tool_event list \<Rightarrow> tool_run list \<Rightarrow> bool" where
  "rows_inv evs rows \<longleftrightarrow>
     uniq_key tr_tool_run_id rows \<and>
     (\<forall>trc. Granted trc \<in> set evs \<longrightarrow> (\<exists>x\<in>set rows. row_of trc x)) \<and>
     (\<forall>trc. Refused trc \<in> set evs \<longrightarrow> (\<exists>x\<in>set rows. row_of trc x \<and> stuck x)) \<and>
     (\<forall>x\<in>set rows. tr_eligible x \<longrightarrow> Accepted (tr_tool_run_id x) \<in> set evs) \<and>
     (\<forall>t. Consumed t \<in> set evs \<longrightarrow> (\<exists>x\<in>set rows. tr_tool_run_id x = t \<and> tr_evidence_consumed_at x \<noteq> None))"

definition events_inv :: "tool_event list \<Rightarrow> bool" where
  "events_inv evs \<longleftrightarrow>
     sorted_wrt (\<lambda>a b. \<not> same_key a b) (granted_ctxs evs) \<and>
     (\<forall>a b. Granted a \<in> set evs \<longrightarrow> Refused b \<in> set evs \<longrightarrow> \<not> same_key a b) \<and>
     (\<forall>post pre t. evs = post @ Consumed t # pre \<longrightarrow> Accepted t \<in> set pre \<and> Consumed t \<notin> set pre)"

lemma kept_row:
  assumes "kept ok ids rows db" "x \<in> set rows"
  obtains y where "y \<in> set (ai_tool_runs db)" "row_kept ok ids x y"
  using assms unfolding kept_def list_all2_conv_all_nth in_set_conv_nth by metis

lemma kept_row':
  assumes "kept ok ids rows db" "y \<in> set (ai_tool_runs db)"
  obtains x where "x \<in> set rows" "row_kept ok ids x y"
  using assms unfolding kept_def list_all2_conv_all_nth in_set_conv_nth by metis

lemma kept_keys: "kept ok ids rows db \<Longrightarrow> map tr_tool_run_id (ai_tool_runs db) = map tr_tool_run_id rows"
  unfolding kept_def by (induction rule: list_all2_induct) (auto simp: row_kept_def)

lemma rows_inv_kept:
  assumes inv: "rows_inv evs rows" and k: "kept ok ids rows db"
    and refd: "\<And>trc. Refused trc \<in> set evs \<Longrightarrow> tc_ToolRunID trc \<notin> ids"
    and acc: "\<And>i. ok i \<Longrightarrow> Accepted i \<in> set evs'" and evs': "set evs \<subseteq> set evs'"
      "\<And>trc. Granted trc \<in> set evs' \<Longrightarrow> Granted trc \<in> set evs" "\<And>trc. Refused trc \<in> set evs' \<Longrightarrow> Refused trc \<in> set evs"
      "\<And>t. Consumed t \<in> set evs' \<Longrightarrow> Consumed t \<in> set evs"
  shows "rows_inv evs' (ai_tool_runs db)"
  unfolding rows_inv_def
proof (intro conjI allI impI ballI)
  show "uniq_key tr_tool_run_id (ai_tool_runs db)"
    using inv kept_keys [OF k] by (simp add: rows_inv_def uniq_key_def)
next
  fix trc assume "Granted trc \<in> set evs'"
  then obtain x where x: "x \<in> set rows" "row_of trc x" using inv evs'(2) unfolding rows_inv_def by blast
  obtain y where "y \<in> set (ai_tool_runs db)" "row_kept ok ids x y" using kept_row [OF k x(1)] .
  with x show "\<exists>x\<in>set (ai_tool_runs db). row_of trc x" by (auto simp: row_kept_def row_of_def)
next
  fix trc assume r: "Refused trc \<in> set evs'"
  then obtain x where x: "x \<in> set rows" "row_of trc x" "stuck x" using inv evs'(3) unfolding rows_inv_def by blast
  obtain y where "y \<in> set (ai_tool_runs db)" "row_kept ok ids x y" using kept_row [OF k x(1)] .
  moreover have "tr_tool_run_id x \<notin> ids" using refd [OF evs'(3) [OF r]] x(2) by (simp add: row_of_def)
  ultimately show "\<exists>x\<in>set (ai_tool_runs db). row_of trc x \<and> stuck x" using x by (auto simp: row_kept_def)
next
  fix y assume y: "y \<in> set (ai_tool_runs db)" "tr_eligible y"
  obtain x where "x \<in> set rows" "row_kept ok ids x y" using kept_row' [OF k y(1)] .
  then show "Accepted (tr_tool_run_id y) \<in> set evs'" using y(2) inv acc evs'(1) by (auto simp: row_kept_def rows_inv_def)
next
  fix t assume "Consumed t \<in> set evs'"
  then obtain x where x: "x \<in> set rows" "tr_tool_run_id x = t" "tr_evidence_consumed_at x \<noteq> None"
    using inv evs'(4) unfolding rows_inv_def by blast
  obtain y where "y \<in> set (ai_tool_runs db)" "row_kept ok ids x y" using kept_row [OF k x(1)] .
  with x show "\<exists>x\<in>set (ai_tool_runs db). tr_tool_run_id x = t \<and> tr_evidence_consumed_at x \<noteq> None"
    by (auto simp: row_kept_def)
qed

lemma rows_inv_append:
  assumes inv: "rows_inv evs rows" and new: "\<forall>x\<in>set rows. tr_tool_run_id x \<noteq> tr_tool_run_id row"
    and row: "row_of trc row" "stuck row" and ev: "ev = Granted trc \<or> ev = Refused trc"
  shows "rows_inv (ev # evs) (rows @ [row])"
  using assms unfolding rows_inv_def uniq_key_append_one
  by (auto simp: stuck_def image_iff)

lemma rows_inv_consume:
  assumes inv: "rows_inv evs (ai_tool_runs db)" and t: "get_tool tid db = Some t"
  shows "rows_inv (Consumed tid # evs) (ai_tool_runs (mark_consumed tid now db))"
proof -
  define f where "f = (\<lambda>r :: tool_run. if tr_tool_run_id r = tid \<and> tr_evidence_consumed_at r = None then r\<lparr>tr_evidence_consumed_at := Some now\<rparr> else r)"
  have rows: "ai_tool_runs (mark_consumed tid now db) = map f (ai_tool_runs db)"
    by (simp add: mark_consumed_def update_tools_def sql_update_def f_def)
  have f: "tr_tool_run_id (f r) = tr_tool_run_id r" "row_of trc (f r) = row_of trc r" "stuck (f r) = stuck r"
      "tr_eligible (f r) = tr_eligible r" "tr_evidence_consumed_at r \<noteq> None \<Longrightarrow> tr_evidence_consumed_at (f r) \<noteq> None"
      "tr_tool_run_id r = tid \<Longrightarrow> tr_evidence_consumed_at (f r) \<noteq> None" for r trc
    by (simp_all add: row_of_def stuck_def f_def)
  have t': "t \<in> set (ai_tool_runs db)" "tr_tool_run_id t = tid" using t by (auto simp: get_tool_def dest: sql_first_SomeD)
  have "map tr_tool_run_id (map f (ai_tool_runs db)) = map tr_tool_run_id (ai_tool_runs db)" by (simp add: f(1))
  then have u: "uniq_key tr_tool_run_id (map f (ai_tool_runs db)) = uniq_key tr_tool_run_id (ai_tool_runs db)"
    by (simp only: uniq_key_def)
  show ?thesis
    unfolding rows_inv_def rows u set_map bex_simps ball_simps f(1-4)
  proof (intro conjI allI impI ballI)
    fix i assume i: "Consumed i \<in> set (Consumed tid # evs)"
    show "\<exists>x\<in>set (ai_tool_runs db). tr_tool_run_id x = i \<and> tr_evidence_consumed_at (f x) \<noteq> None"
    proof (cases "i = tid")
      case True
      with t' f(6) show ?thesis by blast
    next
      case False
      with i have "Consumed i \<in> set evs" by simp
      with inv f(5) show ?thesis unfolding rows_inv_def by blast
    qed
  qed (use inv in \<open>simp_all add: rows_inv_def\<close>)
qed

lemma events_inv_plain:
  assumes "events_inv evs" "ev = Accepted i"
  shows "events_inv (ev # evs)"
  using assms unfolding events_inv_def granted_ctxs_def by (auto simp: Cons_eq_append_conv)

lemma events_inv_consumed:
  assumes "events_inv evs" "Accepted t \<in> set evs" "Consumed t \<notin> set evs"
  shows "events_inv (Consumed t # evs)"
  using assms unfolding events_inv_def granted_ctxs_def by (auto simp: Cons_eq_append_conv)

lemma granted_ctxs_set: "trc \<in> set (granted_ctxs evs) \<longleftrightarrow> Granted trc \<in> set evs"
  by (auto simp: granted_ctxs_def split: tool_event.splits)

lemma events_inv_started:
  assumes inv: "events_inv evs" and new: "\<And>b. Granted b \<in> set evs \<or> Refused b \<in> set evs \<Longrightarrow> \<not> same_key trc b"
    and ev: "ev = Granted trc \<or> ev = Refused trc"
  shows "events_inv (ev # evs)"
proof -
  have sym: "same_key a b = same_key b a" for a b by (auto simp: same_key_def)
  show ?thesis
    using ev
  proof
    assume ev: "ev = Granted trc"
    then have "granted_ctxs (ev # evs) = trc # granted_ctxs evs" by (simp add: granted_ctxs_def)
    with inv new ev show ?thesis unfolding events_inv_def
      by (auto simp: Cons_eq_append_conv granted_ctxs_set)
  next
    assume ev: "ev = Refused trc"
    then have "granted_ctxs (ev # evs) = granted_ctxs evs" by (simp add: granted_ctxs_def)
    with inv new ev sym show ?thesis unfolding events_inv_def
      by (auto simp: Cons_eq_append_conv)
  qed
qed

lemma started_inv:
  assumes inv: "rows_inv evs (ai_tool_runs db)" "events_inv evs" and new: "no_tool (started_row trc now) db"
    and ev: "ev = Granted trc \<or> ev = Refused trc"
  shows "rows_inv (ev # evs) (ai_tool_runs (db\<lparr>ai_tool_runs := ai_tool_runs db @ [started_row trc now]\<rparr>)) \<and> events_inv (ev # evs)"
proof
  have fresh: "\<not> same_key trc b" if "Granted b \<in> set evs \<or> Refused b \<in> set evs" for b
  proof -
    obtain x where "x \<in> set (ai_tool_runs db)" "row_of b x" using inv(1) \<open>Granted b \<in> set evs \<or> Refused b \<in> set evs\<close> unfolding rows_inv_def by blast
    with new show ?thesis by (auto simp: no_tool_def row_of_def same_key_def)
  qed
  have "rows_inv (ev # evs) (ai_tool_runs db @ [started_row trc now])"
    using inv(1) by (rule rows_inv_append) (use new ev in \<open>auto simp: no_tool_def\<close>)
  then show "rows_inv (ev # evs) (ai_tool_runs (db\<lparr>ai_tool_runs := ai_tool_runs db @ [started_row trc now]\<rparr>))" by simp
  show "events_inv (ev # evs)" using inv(2) fresh ev by (rule events_inv_started)
qed

lemma history_inv: "tool_history te evs db \<Longrightarrow> rows_inv evs (ai_tool_runs db) \<and> events_inv evs"
proof (induction rule: tool_history.induct)
  case (th_init db)
  then show ?case by (simp add: rows_inv_def events_inv_def granted_ctxs_def)
next
  case (th_begin evs db req chat tenant cluster now env n r n' db')
  let ?evs = "begin_events (newToolRunFromRequest te req tenant cluster) r @ evs"
  consider "granted r = None" "\<not> refused r" "db' = db"
    | trc ev where "newToolRunFromRequest te req tenant cluster = Some trc" "no_tool (started_row trc now) db"
        "db' = db\<lparr>ai_tool_runs := ai_tool_runs db @ [started_row trc now]\<rparr>" "ev = Granted trc \<or> ev = Refused trc" "?evs = ev # evs"
    using begin_outcome [OF th_begin.hyps(3,2)] unfolding start_outcome_def begin_events_def by fastforce
  then show ?case
  proof cases
    case 1
    then have "?evs = evs" by (simp add: begin_events_def split: option.splits)
    with th_begin.IH 1 show ?thesis by simp
  next
    case 2
    show ?thesis using started_inv [OF conjunct1 [OF th_begin.IH] conjunct2 [OF th_begin.IH] 2(2,4)] by (simp add: 2(3,5))
  qed
next
  case (th_finish evs db trc st q res c e eid now env n r n' db')
  have k: "kept (\<lambda>i. i = tc_ToolRunID trc \<and> q = ''complete'' \<and> holds_lease te trc db) {tc_ToolRunID trc} (ai_tool_runs db) db'"
    using th_finish.hyps(3) by (rule finish_kept)
  have "tc_ToolRunID b \<notin> {tc_ToolRunID trc}" if "Refused b \<in> set evs" for b
    using that th_finish.hyps(2) th_finish.IH unfolding events_inv_def same_key_def by (metis singletonD)
  then have "rows_inv ((if q = ''complete'' \<and> holds_lease te trc db then [Accepted (tc_ToolRunID trc)] else []) @ evs) (ai_tool_runs db')"
    by (rule rows_inv_kept [OF conjunct1 [OF th_finish.IH] k]) (auto split: if_splits)
  then show ?case using th_finish.IH events_inv_plain by auto
next
  case (th_reconcile evs db uuid now env n r' n' db')
  let ?ids = "{tr_tool_run_id x | x. x \<in> set (ai_tool_runs db) \<and> tr_deadline_at x \<noteq> None}"
  have k: "kept (\<lambda>_. False) ?ids (ai_tool_runs db) db'" using th_reconcile.hyps(2) by (rule reconcile_kept)
  have "tc_ToolRunID b \<notin> ?ids" if b: "Refused b \<in> set evs" for b
  proof -
    obtain x where x: "x \<in> set (ai_tool_runs db)" "row_of b x" "stuck x" using th_reconcile.IH b unfolding rows_inv_def by blast
    have "uniq_key tr_tool_run_id (ai_tool_runs db)" using th_reconcile.IH by (simp add: rows_inv_def)
    from uniq_key_eq [OF this x(1)] x(2,3) show ?thesis by (auto simp: row_of_def stuck_def)
  qed
  then show ?case using rows_inv_kept [OF conjunct1 [OF th_reconcile.IH] k] th_reconcile.IH by auto
next
  case (th_consume evs db trust body tid now env n r'' n' db')
  consider "\<nexists>x. r'' = Inr (Reply x)" "db' = db"
    | t where "\<exists>x. r'' = Inr (Reply x)" "get_tool tid db = Some t" "tr_eligible t" "tr_evidence_consumed_at t = None"
      "ai_tool_runs db' = ai_tool_runs (mark_consumed tid now db)"
    using consume_outcome [OF th_consume.hyps(2)] by blast
  then show ?case
  proof cases
    case 1
    with th_consume.IH show ?thesis by simp
  next
    case 2
    have t: "t \<in> set (ai_tool_runs db)" "tr_tool_run_id t = tid" using 2(2) by (auto simp: get_tool_def dest: sql_first_SomeD)
    have u: "uniq_key tr_tool_run_id (ai_tool_runs db)" using th_consume.IH by (simp add: rows_inv_def)
    have "Accepted tid \<in> set evs" using th_consume.IH t 2(3) unfolding rows_inv_def by blast
    moreover have "Consumed tid \<notin> set evs"
      using th_consume.IH uniq_key_eq [OF u t(1)] t(2) 2(4) unfolding rows_inv_def by metis
    ultimately have "events_inv (Consumed tid # evs)" using th_consume.IH events_inv_consumed by blast
    moreover have "rows_inv (Consumed tid # evs) (ai_tool_runs db')"
      unfolding 2(5) using th_consume.IH 2(2) rows_inv_consume by blast
    ultimately show ?thesis using 2(1) by simp
  qed
qed simp

section \<open>Theorems\<close>

lemma distinct_keys:
  "sorted_wrt (\<lambda>a b. \<not> same_key a b) ctxs \<Longrightarrow>
     distinct (map (\<lambda>trc. (tc_RunID trc, idem_key trc)) ctxs) \<and> distinct (map tc_ToolRunID ctxs)"
  by (induction ctxs) (auto simp: same_key_def)



text \<open>
  C24. A start that the lease refuses blocks its key for good.  The row is written before the lease is
  checked, it has no deadline, and nobody finishes it: in every later state it is still running, the
  reconciler leaves it alone, and no request with the same key is ever granted its query, not even
  one of the executor that holds the lease.
\<close>

theorem refused_start_blocks_key:
  assumes "tool_history te evs db" "Refused trc \<in> set evs"
  shows "(\<exists>x\<in>set (ai_tool_runs db). tr_run_id x = tc_RunID trc \<and> tr_idempotency_key x = idem_key trc \<and>
      tr_status x = ''running'' \<and> (\<forall>t. \<not> deadline_passed t x)) \<and>
    (\<forall>ctx. Granted ctx \<in> set evs \<longrightarrow> (tc_RunID ctx, idem_key ctx) \<noteq> (tc_RunID trc, idem_key trc))"
proof -
  obtain x where "x \<in> set (ai_tool_runs db)" "row_of trc x" "stuck x"
    using history_inv [OF assms(1)] assms(2) unfolding rows_inv_def by blast
  moreover have "\<not> same_key ctx trc" if "Granted ctx \<in> set evs" for ctx
    using history_inv [OF assms(1)] assms(2) that unfolding events_inv_def by blast
  ultimately show ?thesis by (auto simp: row_of_def stuck_def deadline_passed_def same_key_def)
qed

section \<open>Replays\<close>

text \<open>Once the check of the lease has passed, a result is not late: the event for late results is never written.\<close>

lemma fenced_not_late:
  assumes "lease_live t owner (tc_LeaseEpoch trc) th r" "r_status r \<noteq> []" "tr_lease_epoch_at_start x = Some (tc_LeaseEpoch trc)"
  shows "\<not> result_late (Some r) x"
  using assms by (auto simp: result_late_def lease_live_def lease_matches_def isTerminalStatus_def)

lemma AppendTx_same_tools: "keeps (\<lambda>db. ai_tool_runs db = rows) (AppendTx ev now)"
  unfolding AppendTx_def by (intro keeps_rules keeps_stmt) simp_all

lemma append_late_same: "append_late trc eid now env (n, db) = (r, (n', db')) \<Longrightarrow> ai_tool_runs db' = ai_tool_runs db"
  by (rule keepsD [where P = "\<lambda>d. ai_tool_runs d = ai_tool_runs db" and m = "append_late trc eid now"])
    (auto simp: append_late_def intro!: keeps_rules AppendTx_same_tools)

lemma write_quality_calm:
  "T_ResultQuality t \<noteq> [] \<Longrightarrow> write_quality t el (calm tm) (n, db) =
     (Inr (), (Suc n, update_tools (\<lambda>r. tr_tool_run_id r = T_ToolRunID t) (set_quality t el) db))"
  by (simp add: write_quality_def db_bind_def)

lemma finish_body_calm:
  assumes "T_ResultQuality t \<noteq> []" "get_tool (T_ToolRunID t) db = Some x"
  shows "(\<exists>e m. finish_body te trc t (calm tm) (n, db) = (Inl e, (m, db))) \<or>
    (\<exists>late el m. finish_body te trc t (calm tm) (n, db) =
       (Inr (Commit late), (m, update_tools (\<lambda>r. tr_tool_run_id r = T_ToolRunID t) (set_quality t el) db)))"
proof -
  obtain f n1 db1 where f: "FenceToolExecutionTx (tc_RunID trc) (tc_ExecutorID trc) (tc_LeaseEpoch trc)
      (te_hash te (tc_LeaseToken trc)) (calm tm) (n, db) = (f, (n1, db1))" by (metis prod_cases3)
  have "db1 = db" using readsD [OF reads_fence f] .
  moreover have fin: "FinishToolRunWithFencing t (calm tm) (k, db) = (Inr (result_late (get_run (T_RunID t) db) x), (Suc (Suc (Suc k)),
      update_tools (\<lambda>r. tr_tool_run_id r = T_ToolRunID t)
        (set_quality t (\<not> result_late (get_run (T_RunID t) db) x \<and> T_ResultQuality t = ''complete'')) db))" for k
    using assms by (simp add: FinishToolRunWithFencing_def db_bind_def write_quality_calm)
  ultimately show ?thesis
    using f by (cases f) (auto simp: finish_body_def db_bind_def fin)
qed

lemma finish_calm_rows:
  assumes "q \<noteq> []" "get_tool (tc_ToolRunID trc) db = Some x"
    and "finishToolRun te trc st q res c e eid now (calm tm) (n, db) = (r, (n', db'))"
  shows "\<exists>code el. ai_tool_runs db' = sql_update (\<lambda>r. tr_tool_run_id r = tc_ToolRunID trc)
    (set_quality ((finished_tool te trc st q res c e now)\<lparr>T_ErrorCode := code\<rparr>) el) (ai_tool_runs db)"
proof -
  let ?t = "finished_tool te trc st q res c e now"
  have code: "?t\<lparr>T_ErrorCode := T_ErrorCode ?t\<rparr> = ?t" by simp
  have pre: "T_ResultQuality ?t \<noteq> []" "get_tool (T_ToolRunID ?t) db = Some x" using assms(1,2) by simp_all
  from finish_body_calm [OF pre, of te trc tm "Suc n"] show ?thesis
  proof (elim disjE exE)
    fix e' m assume "finish_body te trc ?t (calm tm) (Suc n, db) = (Inl e', (m, db))"
    then have "finish_fenced te trc ?t (calm tm) (n, db) = (Inr (Inl e'), (m, db))"
      by (simp add: finish_fenced_def db_try_def db_conn_def db_tx_def)
    with assms(1,3) have "ai_tool_runs db' = sql_update (\<lambda>r. tr_tool_run_id r = tc_ToolRunID trc)
        (set_quality (?t\<lparr>T_ErrorCode := ''TOOL_FENCING_FAILED''\<rparr>) False) (ai_tool_runs db)"
      by (auto simp: finishToolRun_def Let_def db_bind_def db_try_def UpdateQuality_def db_conn_def write_quality_calm update_tools_def)
    then show ?thesis by blast
  next
    fix late el m assume "finish_body te trc ?t (calm tm) (Suc n, db) =
       (Inr (Commit late), (m, update_tools (\<lambda>r. tr_tool_run_id r = T_ToolRunID ?t) (set_quality ?t el) db))"
    then have f: "finish_fenced te trc ?t (calm tm) (n, db) =
        (Inr (Inr late), (Suc m, update_tools (\<lambda>r. tr_tool_run_id r = tc_ToolRunID trc) (set_quality ?t el) db))"
      by (simp add: finish_fenced_def db_try_def db_conn_def db_tx_def)
    have "ai_tool_runs db' = sql_update (\<lambda>r. tr_tool_run_id r = tc_ToolRunID trc) (set_quality ?t el) (ai_tool_runs db)"
      using assms(3) f append_late_same
      by (cases late) (auto simp: finishToolRun_def Let_def db_bind_def update_tools_def dest: append_late_same)
    then show ?thesis using code by metis
  qed
qed


text \<open>The text that is hashed determines the arguments, so that a reused key is told apart unless SHA-256 collides.\<close>

lemma strings_json_inj: "strings_json v = strings_json w \<longleftrightarrow> v = w"
  by (cases v; cases w) (auto simp: strings_json_def inj_map_eq_map inj_def)

lemma args_text_injective: "json_text (args_json a) = json_text (args_json b) \<longleftrightarrow> a = b"
proof -
  have "json_ok (args_json x)" for x
    by (auto simp: args_json_def json_ok_Obj json_ok_Arr strings_json_def dec_int_literal list_all_iff split: option.splits)
  then have "json_text (args_json a) = json_text (args_json b) \<longleftrightarrow> args_json a = args_json b" by (simp add: json_text_inj)
  also have "\<dots> \<longleftrightarrow> a = b"
    by (cases a; cases b) (simp add: args_json_def strings_json_inj dec_int_inj)
  finally show ?thesis .
qed

section \<open>A sample query\<close>

definition sample_run_id :: gostring where
  "sample_run_id = ''3f3c3b3a-0000-4000-8000-000000000001''"

definition sample_args :: query_args where
  "sample_args = \<lparr>qa_Service = ''web'', qa_Services = None, qa_Query = [], qa_Since = [], qa_Minutes = 5, qa_Hours = 0,
     qa_Namespace = [], qa_Limit = 0, qa_Offset = 0, qa_TopK = 0, qa_GraphOperation = [], qa_EntityUID = [], qa_TargetEntityUID = [],
     qa_EntityType = [], qa_Name = [], qa_Direction = [], qa_RelationTypes = None, qa_RelationPolicy = [], qa_MaxDepth = 0,
     qa_MaxVertices = 0, qa_MaxEdges = 0, qa_IncludeStale = False, qa_Cursor = [], qa_ContextVersion = 0,
     qa_QueryWindowStart = [], qa_QueryWindowEnd = []\<rparr>"

definition sample_query :: internalQueryRequest where
  "sample_query = \<lparr>qr_args = sample_args, qr_ToolRunID = ''tool-1'', qr_IdempotencyKey = ''key-1'', qr_ExecutorID = ''w1'',
     qr_LeaseEpoch = 1, qr_WorkloadKind = [], qr_LeaseToken = ''tok'', qr_RunID = sample_run_id\<rparr>"

definition sample_tool_env :: tool_env where
  "sample_tool_env = \<lparr>te_parse = (\<lambda>_. None), te_hash = (\<lambda>s. ''h'')\<rparr>"

definition sample_ctx :: toolRunContext where
  "sample_ctx = \<lparr>tc_ToolRunID = ''tool-1'', tc_IdempotencyKey = ''key-1'', tc_ExecutorID = ''w1'', tc_LeaseEpoch = 1, tc_LeaseToken = ''tok'',
     tc_WindowStart = None, tc_WindowEnd = None, tc_RunID = sample_run_id, tc_TenantID = ''t1'', tc_ClusterID = ''c1'',
     tc_ArgsHash = ''h'', tc_Existing = None\<rparr>"

text \<open>A database with a Run whose lease is live until 1000, without and with the tool run and its result.\<close>

definition leased_db :: store_db where
  "leased_db = empty_db\<lparr>ai_runs := [(insert_row sample_new_run)\<lparr>r_run_id := sample_run_id, r_lease_owner_id := Some ''w1'',
     r_lease_epoch := 1, r_lease_token_hash := Some ''h'', r_lease_expires_at := Some 1000\<rparr>]\<rparr>"

definition started_db :: "store_db \<Rightarrow> store_db" where
  "started_db db = db\<lparr>ai_tool_runs := [started_row sample_ctx 7]\<rparr>"

definition finished_db :: store_db where
  "finished_db = (started_db leased_db)\<lparr>ai_tool_runs :=
     [set_quality (finished_tool sample_tool_env sample_ctx ''success'' ''complete'' (Some ''[1,2]'') 5 [] 8) True (started_row sample_ctx 7)]\<rparr>"

definition sample_consumer :: trust where
  "sample_consumer = Verified (NewTrustedRequestContext ''ai-orchestrator'' ''query-api'' ''q1'' ''system'' ''s'' []
     ''t1'' sample_run_id ''run'' [] ''control_plane.evidence.consume'' ''orchestrator'' 1 2 ''n'')"

definition sample_consume :: consume_body where
  "sample_consume = \<lparr>cb_RunID = sample_run_id, cb_TenantID = ''t1'', cb_ClusterID = ''c1'', cb_EvidenceID = ''ev-1'', cb_EvidenceType = ''metric'',
     cb_SourceRef = [], cb_RawRef = [], cb_RawDigestSHA256 = [], cb_Summary = [], cb_Metadata = [], cb_ProvenanceFingerprint = []\<rparr>"

lemma sample_context_new: "newToolRunFromRequest sample_tool_env sample_query ''t1'' ''c1'' = Some sample_ctx"
  by code_simp

lemma sample_begun: "beginToolRun sample_tool_env chat sample_query ''t1'' ''c1'' 7 (calm 100) (0, leased_db) =
    (Inr (Inr (Some sample_ctx, False)), (5, started_db leased_db))"
  by code_simp

lemma sample_refused: "beginToolRun sample_tool_env chat sample_query ''t1'' ''c1'' 7 (calm 2000) (0, leased_db) =
    (Inr (Inl (BeginStore ErrLeaseFencing)), (5, started_db leased_db))"
  by code_simp

lemma sample_finished: "finishToolRun sample_tool_env sample_ctx ''success'' ''complete'' (Some ''[1,2]'') 5 [] ''e1'' 8 (calm 100)
    (0, started_db leased_db) = (Inr (), (6, finished_db))"
  by code_simp

lemma sample_consumed: "fst (internalControlPlaneToolEvidenceConsume sample_consumer (Some sample_consume) ''tool-1'' 9 (calm 100) (0, finished_db)) =
    Inr (Reply ''ev-1'')"
  by code_simp

lemma sample_history_begun: "tool_history sample_tool_env [Granted sample_ctx] (started_db leased_db)"
proof -
  have "tool_history sample_tool_env [] leased_db" by (rule th_init) (simp add: leased_db_def empty_db_def)
  from th_begin [OF this _ sample_begun] show ?thesis by (simp add: begin_events_def sample_query_def)
qed

lemma sample_history_refused: "tool_history sample_tool_env [Refused sample_ctx] (started_db leased_db)"
proof -
  have "tool_history sample_tool_env [] leased_db" by (rule th_init) (simp add: leased_db_def empty_db_def)
  moreover have "qr_WorkloadKind sample_query \<noteq> ''chat''" by (simp add: sample_query_def)
  ultimately have "tool_history sample_tool_env (begin_events (newToolRunFromRequest sample_tool_env sample_query ''t1'' ''c1'')
      (Inr (Inl (BeginStore ErrLeaseFencing))) @ []) (started_db leased_db)" by (rule th_begin [OF _ _ sample_refused])
  then show ?thesis by (simp add: begin_events_def sample_context_new)
qed

lemma sample_history_consumed:
  "tool_history sample_tool_env [Consumed ''tool-1'', Accepted ''tool-1'', Granted sample_ctx]
     (snd (snd (internalControlPlaneToolEvidenceConsume sample_consumer (Some sample_consume) ''tool-1'' 9 (calm 100) (0, finished_db))))"
proof -
  have id: "tc_ToolRunID sample_ctx = ''tool-1''" by (simp add: sample_ctx_def)
  have "holds_lease sample_tool_env sample_ctx (started_db leased_db)"
    unfolding holds_lease_def by (intro bexI [of _ "hd (ai_runs leased_db)"] exI [of _ 100])
      (code_simp, simp add: started_db_def leased_db_def)
  with th_finish [OF sample_history_begun _ sample_finished]
  have h: "tool_history sample_tool_env [Accepted ''tool-1'', Granted sample_ctx] finished_db" by (simp add: id)
  obtain r n' db' where c: "internalControlPlaneToolEvidenceConsume sample_consumer (Some sample_consume) ''tool-1'' 9 (calm 100) (0, finished_db) = (r, (n', db'))"
    by (metis prod_cases3)
  with sample_consumed have "r = Inr (Reply ''ev-1'')" by simp
  with th_consume [OF h c] c show ?thesis by simp
qed



theorem refused_start_blocks_key_witness:
  "\<exists>x\<in>set (ai_tool_runs (started_db leased_db)). tr_idempotency_key x = idem_key sample_ctx \<and> tr_status x = ''running''"
  using refused_start_blocks_key [OF sample_history_refused, of sample_ctx] by auto


end
