(* ===== verification/GraphLease.thy ===== *)
theory GraphLease
  imports Fencing StoreDB
begin

text \<open>
  The lease of a graph worker, \<open>internal/store/graph_worker_lease.go\<close>: one row per lease key, taken over
  only when it has expired, with an epoch that grows on every takeover.

  \<open>Acquire\<close> is an upsert followed by a read of the row under the token just drawn; the assignments of
  \<open>ON DUPLICATE KEY UPDATE\<close> run from left to right, and \<open>expires_at\<close>, which their conditions read, is
  assigned last.  \<open>NOW()\<close> is \<open>sql_now\<close> of the database clock.
\<close>

section \<open>GraphWorkerLeaseDAO\<close>

definition get_lease :: "gostring \<Rightarrow> store_db \<Rightarrow> graph_lease option" where
  "get_lease key db = sql_first (\<lambda>l. gl_key l = key) (graph_worker_leases db)"

definition take_over :: "gostring \<Rightarrow> gostring \<Rightarrow> millis \<Rightarrow> millis \<Rightarrow> graph_lease \<Rightarrow> graph_lease" where
  "take_over owner token expires now l =
     (if gl_expires_at l \<le> now
      then l\<lparr>gl_owner := owner, gl_epoch := gl_epoch l + 1, gl_token := token, gl_expires_at := expires\<rparr>
      else l)"

definition upsert_lease ::
  "gostring \<Rightarrow> gostring \<Rightarrow> gostring \<Rightarrow> int \<Rightarrow> millis \<Rightarrow> store_db \<Rightarrow> store_db" where
  "upsert_lease token key owner secs now db =
     (let expires = now + 1000 * secs
      in if get_lease key db = None
         then db\<lparr>graph_worker_leases := graph_worker_leases db @
           [\<lparr>gl_key = key, gl_owner = owner, gl_epoch = 1, gl_token = token, gl_expires_at = expires\<rparr>]\<rparr>
         else db\<lparr>graph_worker_leases := sql_update (\<lambda>l. gl_key l = key) (take_over owner token expires now)
           (graph_worker_leases db)\<rparr>)"

text \<open>\<open>token\<close> is the value of \<open>NewGraphLeaseToken()\<close>; \<open>None\<close> is the result \<open>false\<close>.\<close>

definition GraphLease_Acquire ::
  "gostring \<Rightarrow> gostring \<Rightarrow> gostring \<Rightarrow> int \<Rightarrow> (store_db, graph_lease option) dbm" where
  "GraphLease_Acquire token key owner secs = db_conn
     (db_bind (db_stmt (\<lambda>t db. ((), upsert_lease token key owner (lease_or_30 secs) (sql_now t) db)))
       (\<lambda>_. db_stmt (\<lambda>t db. (sql_first (\<lambda>l. gl_key l = key \<and> gl_owner l = owner \<and> gl_token l = token \<and>
            sql_now t < gl_expires_at l) (graph_worker_leases db), db))))"

definition GraphLease_Renew :: "graph_lease \<Rightarrow> int \<Rightarrow> (store_db, bool) dbm" where
  "GraphLease_Renew lease secs = db_conn
     (db_bind (db_stmt (\<lambda>t db.
         let p = \<lambda>l. gl_key l = gl_key lease \<and> gl_owner l = gl_owner lease \<and> gl_token l = gl_token lease \<and>
                   sql_now t < gl_expires_at l;
             f = \<lambda>l. l\<lparr>gl_expires_at := sql_now t + 1000 * lease_or_30 secs\<rparr>
         in (sql_affected p f (graph_worker_leases db),
             db\<lparr>graph_worker_leases := sql_update p f (graph_worker_leases db)\<rparr>)))
       (\<lambda>n. db_ret (n = 1)))"

definition GraphLease_Verify :: "gostring \<Rightarrow> gostring \<Rightarrow> gostring \<Rightarrow> int \<Rightarrow> (store_db, bool) dbm" where
  "GraphLease_Verify key owner token epoch = db_conn
     (db_bind (db_stmt (\<lambda>t db. (sql_count (\<lambda>l. gl_key l = key \<and> gl_owner l = owner \<and> gl_epoch l = epoch \<and>
          gl_token l = token \<and> sql_now t < gl_expires_at l) (graph_worker_leases db), db)))
       (\<lambda>n. db_ret (n = 1)))"

definition GraphLease_Release :: "gostring \<Rightarrow> gostring \<Rightarrow> gostring \<Rightarrow> int \<Rightarrow> (store_db, unit) dbm" where
  "GraphLease_Release key owner token epoch = db_conn (db_stmt (\<lambda>t db. ((),
     db\<lparr>graph_worker_leases := sql_update (\<lambda>l. gl_key l = key \<and> gl_owner l = owner \<and> gl_epoch l = epoch \<and>
          gl_token l = token) (\<lambda>l. l\<lparr>gl_expires_at := sql_now t\<rparr>) (graph_worker_leases db)\<rparr>)))"

section \<open>Lookups after an operation\<close>

lemma take_over_key [simp]: "gl_key (take_over owner token expires now l) = gl_key l"
  by (simp add: take_over_def)

abbreviation leases_uniq :: "store_db \<Rightarrow> bool" where
  "leases_uniq db \<equiv> uniq_key gl_key (graph_worker_leases db)"

lemma get_lease_upsert:
  "get_lease k (upsert_lease token key owner secs now db) =
     (if k = key then Some (case get_lease key db of
          None \<Rightarrow> \<lparr>gl_key = key, gl_owner = owner, gl_epoch = 1, gl_token = token, gl_expires_at = now + 1000 * secs\<rparr>
        | Some l \<Rightarrow> take_over owner token (now + 1000 * secs) now l)
      else get_lease k db)"
proof (cases "get_lease key db")
  case None
  then show ?thesis by (auto simp: upsert_lease_def get_lease_def split: option.splits)
next
  case (Some l)
  have "sql_first (\<lambda>l. gl_key l = k) (sql_update (\<lambda>l. gl_key l = key) (take_over owner token (now + 1000 * secs) now) (graph_worker_leases db)) =
    map_option (\<lambda>l. if k = key then take_over owner token (now + 1000 * secs) now l else l) (get_lease k db)"
    by (simp add: get_lease_def sql_first_key_update [where key = gl_key and p = "\<lambda>_. True", simplified])
  with Some show ?thesis by (auto simp: upsert_lease_def get_lease_def Let_def option.map_ident)
qed

lemma upsert_lease_uniq: "leases_uniq db \<Longrightarrow> leases_uniq (upsert_lease token key owner secs now db)"
  by (auto simp: upsert_lease_def Let_def uniq_key_append_one uniq_key_update get_lease_def sql_first_None image_iff)

lemma get_lease_update:
  assumes "\<And>l. gl_key (f l) = gl_key l"
  shows "get_lease k (db\<lparr>graph_worker_leases := sql_update (\<lambda>l. gl_key l = key \<and> p l) f (graph_worker_leases db)\<rparr>) =
    map_option (\<lambda>l. if k = key \<and> p l then f l else l) (get_lease k db)"
  using sql_first_key_update [where key = gl_key, OF assms] by (simp add: get_lease_def)

lemma get_lease_and:
  "leases_uniq db \<Longrightarrow> sql_first (\<lambda>l. gl_key l = key \<and> p l) (graph_worker_leases db) =
     (case get_lease key db of None \<Rightarrow> None | Some l \<Rightarrow> if p l then Some l else None)"
  using sql_first_key_and [where key = gl_key] by (simp add: get_lease_def)

lemma get_lease_count:
  "leases_uniq db \<Longrightarrow> sql_count (\<lambda>l. gl_key l = key \<and> p l) (graph_worker_leases db) =
     (case get_lease key db of None \<Rightarrow> 0 | Some l \<Rightarrow> if p l then 1 else 0)"
  using sql_count_key_and [where key = gl_key] by (simp add: get_lease_def)

section \<open>The lease as an instance of fencing\<close>

inductive lease_op :: "store_db \<Rightarrow> store_db \<Rightarrow> bool" where
  acquire: "GraphLease_Acquire token key owner secs env (n, db) = (ra, (n', db')) \<Longrightarrow> lease_op db db'"
| renew: "GraphLease_Renew lease secs env (n, db) = (rr, (n', db')) \<Longrightarrow> lease_op db db'"
| release: "GraphLease_Release key owner token epoch env (n, db) = (ru, (n', db')) \<Longrightarrow> lease_op db db'"

definition lease_epoch :: "gostring \<Rightarrow> store_db \<Rightarrow> int option" where
  "lease_epoch key db = map_option gl_epoch (get_lease key db)"

text \<open>A credential is owner, epoch and token.\<close>

definition lease_holds :: "gostring \<Rightarrow> gostring \<times> int \<times> gostring \<Rightarrow> store_db \<Rightarrow> bool" where
  "lease_holds key c db \<longleftrightarrow> (\<exists>l. get_lease key db = Some l \<and> c = (gl_owner l, gl_epoch l, gl_token l))"

lemma Acquire_db:
  "GraphLease_Acquire token key owner secs env (n, db) = (ra, (n', db')) \<Longrightarrow>
     db' = db \<or> db' = upsert_lease token key owner (lease_or_30 secs) (sql_now (stmt_now env n)) db"
  by (auto simp: GraphLease_Acquire_def dbm_defs split: if_splits)

lemma lease_op_row:
  "lease_op db db' \<Longrightarrow> get_lease k db = Some l \<Longrightarrow> \<exists>l'. get_lease k db' = Some l' \<and> gl_epoch l \<le> gl_epoch l'"
proof (induction rule: lease_op.induct)
  case (acquire token key owner secs env n db ra n' db')
  from Acquire_db [OF acquire(1)] acquire(2) show ?case
    by (auto simp: get_lease_upsert take_over_def)
next
  case (renew lease secs env n db rr n' db')
  then show ?case
    by (auto simp: GraphLease_Renew_def dbm_defs get_lease_update Let_def split: if_splits)
next
  case (release key owner token epoch env n db ru n' db')
  then show ?case
    by (auto simp: GraphLease_Release_def dbm_defs get_lease_update split: if_splits)
qed

lemma lease_op_uniq: "lease_op db db' \<Longrightarrow> leases_uniq db \<Longrightarrow> leases_uniq db'"
proof (induction rule: lease_op.induct)
  case (acquire token key owner secs env n db ra n' db')
  with Acquire_db [OF acquire(1)] show ?case by (auto intro: upsert_lease_uniq)
next
  case (renew lease secs env n db rr n' db')
  then show ?case by (auto simp: GraphLease_Renew_def dbm_defs Let_def uniq_key_update split: if_splits)
next
  case (release key owner token epoch env n db ru n' db')
  then show ?case by (auto simp: GraphLease_Release_def dbm_defs uniq_key_update split: if_splits)
qed

lemma lease_ops_uniq: "lease_op\<^sup>*\<^sup>* db db' \<Longrightarrow> leases_uniq db \<Longrightarrow> leases_uniq db'"
  by (induction rule: rtranclp_induct) (auto intro: lease_op_uniq)

interpretation graph_worker: exclusive_lease lease_op lease_epoch lease_holds "\<lambda>c. fst (snd c)"
proof
  fix db db' k e
  assume "lease_op db db'" and "lease_epoch k db = Some e"
  then show "\<exists>e'. lease_epoch k db' = Some e' \<and> e \<le> e'" using lease_op_row by (fastforce simp: lease_epoch_def)
qed (auto simp: lease_holds_def lease_epoch_def)

section \<open>Properties\<close>

lemma Verify_eq:
  assumes "leases_uniq db"
  shows "GraphLease_Verify key owner token epoch env (n, db) =
    (if \<not> db_up env then (Inl MysqlUnavailable, (n, db)) else if \<not> stmt_ok env n then (Inl DriverError, (Suc n, db))
     else (Inr (case get_lease key db of None \<Rightarrow> False
        | Some l \<Rightarrow> (owner, epoch, token) = (gl_owner l, gl_epoch l, gl_token l) \<and> sql_now (stmt_now env n) < gl_expires_at l), (Suc n, db)))"
  using get_lease_count [OF assms, of key "\<lambda>l. gl_owner l = owner \<and> gl_epoch l = epoch \<and> gl_token l = token \<and> sql_now (stmt_now env n) < gl_expires_at l"]
  by (cases "get_lease key db") (auto simp: GraphLease_Verify_def dbm_defs)

definition granted_lease :: "gostring \<Rightarrow> gostring \<Rightarrow> gostring \<Rightarrow> int \<Rightarrow> millis \<Rightarrow> store_db \<Rightarrow> graph_lease" where
  "granted_lease token key owner secs now db =
    \<lparr>gl_key = key, gl_owner = owner, gl_epoch = (case lease_epoch key db of None \<Rightarrow> 1 | Some e \<Rightarrow> e + 1), gl_token = token,
     gl_expires_at = now + 1000 * lease_or_30 secs\<rparr>"

lemma Acquire_calm:
  "GraphLease_Acquire token key owner secs (calm t) (n, db) =
    (let db' = upsert_lease token key owner (lease_or_30 secs) (sql_now t) db
     in (Inr (sql_first (\<lambda>l. gl_key l = key \<and> gl_owner l = owner \<and> gl_token l = token \<and> sql_now t < gl_expires_at l)
           (graph_worker_leases db')), (Suc (Suc n), db')))"
  by (simp add: GraphLease_Acquire_def db_conn_def db_bind_def Let_def)

lemma sql_update_same: "(\<And>l. l \<in> set t \<Longrightarrow> p l \<Longrightarrow> f l = l) \<Longrightarrow> sql_update p f t = t"
  by (induction t) auto

text \<open>
  Acquire, on every branch.  A lease that nobody holds, or that has expired, is granted at the next
  epoch, and Verify then accepts its credential exactly until it expires.  While a lease runs, a claim
  with another token is refused and leaves the table as it is.
\<close>

theorem graph_acquire_exact:
  assumes u: "uniq_key gl_key (graph_worker_leases db)"
    and fresh: "\<forall>l. get_lease key db = Some l \<longrightarrow> gl_token l \<noteq> token"
  shows "(case get_lease key db of
      Some l \<Rightarrow> sql_now t < gl_expires_at l \<longrightarrow> GraphLease_Acquire token key owner secs (calm t) (n, db) = (Inr None, (n + 2, db))
    | None \<Rightarrow> True) \<and>
    ((\<forall>l. get_lease key db = Some l \<longrightarrow> gl_expires_at l \<le> sql_now t) \<longrightarrow>
      (\<exists>db'. GraphLease_Acquire token key owner secs (calm t) (n, db) = (Inr (Some (granted_lease token key owner secs (sql_now t) db)), (n + 2, db')) \<and>
        (\<forall>u m o' tk e. GraphLease_Verify key o' tk e (calm u) (m, db') =
           (Inr ((o', e, tk) = (owner, gl_epoch (granted_lease token key owner secs (sql_now t) db), token) \<and>
             sql_now u < sql_now t + 1000 * lease_or_30 secs), (Suc m, db')))))"
proof (intro conjI impI)
  let ?a = "GraphLease_Acquire token key owner secs (calm t) (n, db)"
  let ?db = "upsert_lease token key owner (lease_or_30 secs) (sql_now t) db"
  have u': "leases_uniq ?db" using u by (rule upsert_lease_uniq)
  show "case get_lease key db of Some l \<Rightarrow> sql_now t < gl_expires_at l \<longrightarrow> ?a = (Inr None, (n + 2, db)) | None \<Rightarrow> True"
  proof (cases "get_lease key db")
    case (Some l)
    have "?db = db" if e: "sql_now t < gl_expires_at l"
    proof -
      have "sql_update (\<lambda>l. gl_key l = key) (take_over owner token (sql_now t + 1000 * lease_or_30 secs) (sql_now t))
          (graph_worker_leases db) = graph_worker_leases db"
      proof (rule sql_update_same)
        fix l' assume "l' \<in> set (graph_worker_leases db)" and "gl_key l' = key"
        then have "l' = l" using sql_first_uniq [OF u, of l' key] Some by (simp add: get_lease_def)
        then show "take_over owner token (sql_now t + 1000 * lease_or_30 secs) (sql_now t) l' = l'"
          using e by (simp add: take_over_def)
      qed
      with Some show ?thesis by (simp add: upsert_lease_def Let_def)
    qed
    with Some fresh get_lease_and [OF u, of key "\<lambda>l. gl_owner l = owner \<and> gl_token l = token \<and> sql_now t < gl_expires_at l"]
    show ?thesis by (simp add: Acquire_calm Let_def)
  qed simp
  assume free: "\<forall>l. get_lease key db = Some l \<longrightarrow> gl_expires_at l \<le> sql_now t"
  let ?g = "granted_lease token key owner secs (sql_now t) db"
  have key: "\<And>l. get_lease key db = Some l \<Longrightarrow> gl_key l = key" by (auto simp: get_lease_def dest: sql_first_SomeD)
  have g: "get_lease key ?db = Some ?g"
    using free key by (cases "get_lease key db") (auto simp: get_lease_upsert granted_lease_def lease_epoch_def take_over_def)
  have "?a = (Inr (Some ?g), (n + 2, ?db))"
    using get_lease_and [OF u', of key "\<lambda>l. gl_owner l = owner \<and> gl_token l = token \<and> sql_now t < gl_expires_at l"] g lease_or_30_pos [of secs]
    by (simp add: Acquire_calm Let_def granted_lease_def)
  moreover have "GraphLease_Verify key o' tk e (calm w) (m, ?db) =
     (Inr ((o', e, tk) = (owner, gl_epoch ?g, token) \<and> sql_now w < sql_now t + 1000 * lease_or_30 secs), (Suc m, ?db))" for w m o' tk e
    unfolding Verify_eq [OF u'] g by (simp add: granted_lease_def)
  ultimately show "\<exists>db'. ?a = (Inr (Some ?g), (n + 2, db')) \<and>
        (\<forall>u m o' tk e. GraphLease_Verify key o' tk e (calm u) (m, db') =
           (Inr ((o', e, tk) = (owner, gl_epoch ?g, token) \<and> sql_now u < sql_now t + 1000 * lease_or_30 secs), (Suc m, db')))"
    by blast
qed

definition sample_lease_db :: store_db where
  "sample_lease_db = empty_db\<lparr>graph_worker_leases :=
     [\<lparr>gl_key = ''g'', gl_owner = ''w1'', gl_epoch = 4, gl_token = ''a'', gl_expires_at = 30000\<rparr>]\<rparr>"

theorem graph_acquire_exact_witness:
  "GraphLease_Acquire ''b'' ''g'' ''w2'' 30 (calm 29999) (0, sample_lease_db) = (Inr None, (2, sample_lease_db)) \<and>
   (\<exists>l db'. GraphLease_Acquire ''b'' ''g'' ''w2'' 30 (calm 30000) (0, sample_lease_db) = (Inr (Some l), (2, db')) \<and> gl_epoch l = 5 \<and>
      GraphLease_Verify ''g'' ''w1'' ''a'' 4 (calm 30001) (0, db') = (Inr False, (1, db')))"
proof -
  have u: "uniq_key gl_key (graph_worker_leases sample_lease_db)" by (simp add: sample_lease_db_def uniq_key_def)
  have g: "get_lease ''g'' sample_lease_db = Some \<lparr>gl_key = ''g'', gl_owner = ''w1'', gl_epoch = 4, gl_token = ''a'', gl_expires_at = 30000\<rparr>"
    by (simp add: sample_lease_db_def get_lease_def)
  have f: "\<forall>l. get_lease ''g'' sample_lease_db = Some l \<longrightarrow> gl_token l \<noteq> ''b''" by (simp add: g)
  have "GraphLease_Acquire ''b'' ''g'' ''w2'' 30 (calm 29999) (0, sample_lease_db) = (Inr None, (2, sample_lease_db))"
    using graph_acquire_exact [OF u f, of 29999 "''w2''" 30 0] by (simp add: g sql_now_def)
  moreover have "\<forall>l. get_lease ''g'' sample_lease_db = Some l \<longrightarrow> gl_expires_at l \<le> sql_now 30000" by (simp add: g sql_now_def)
  with graph_acquire_exact [OF u f, of 30000 "''w2''" 30 0]
  obtain db' where "GraphLease_Acquire ''b'' ''g'' ''w2'' 30 (calm 30000) (0, sample_lease_db) =
      (Inr (Some (granted_lease ''b'' ''g'' ''w2'' 30 (sql_now 30000) sample_lease_db)), (2, db'))"
    "GraphLease_Verify ''g'' ''w1'' ''a'' 4 (calm 30001) (0, db') = (Inr False, (1, db'))"
    by (auto simp: numeral_2_eq_2)
  moreover have "gl_epoch (granted_lease ''b'' ''g'' ''w2'' 30 (sql_now 30000) sample_lease_db) = 5"
    by (simp add: granted_lease_def lease_epoch_def g)
  ultimately show ?thesis by blast
qed

text \<open>
  C31.  A graph worker that was replaced is fenced for good: if a later holder of the key has passed
  Verify with another epoch, then after any further operations Verify never accepts the old credential
  again, and Release with it has no effect.
\<close>

theorem graph_replaced_worker_fenced:
  assumes u: "uniq_key gl_key (graph_worker_leases db)"
    and old: "GraphLease_Verify key o1 t1 e1 env (n, db) = (Inr True, st)"
    and ops: "lease_op\<^sup>*\<^sup>* db db1"
    and new: "GraphLease_Verify key o2 t2 e2 env' (n', db1) = (Inr True, st')" "e2 \<noteq> e1"
    and more: "lease_op\<^sup>*\<^sup>* db1 db2"
  shows "e1 < e2 \<and> (\<forall>env m. fst (GraphLease_Verify key o1 t1 e1 env (m, db2)) \<noteq> Inr True) \<and>
    (\<forall>env m. snd (snd (GraphLease_Release key o1 t1 e1 env (m, db2))) = db2)"
proof -
  have u1: "leases_uniq db1" and u2: "leases_uniq db2"
    using lease_ops_uniq [OF ops u] lease_ops_uniq [OF more] by blast+
  have h1: "lease_holds key (o1, e1, t1) db"
    using old by (auto simp: Verify_eq [OF u] lease_holds_def split: option.splits if_splits)
  have h2: "lease_holds key (o2, e2, t2) db1"
    using new(1) by (auto simp: Verify_eq [OF u1] lease_holds_def split: option.splits if_splits)
  have no: "\<not> lease_holds key (o1, e1, t1) db2"
    using graph_worker.replaced_is_fenced [OF h1 ops h2 _ more] new(2) by simp
  have "e1 < e2" using graph_worker.accepted_epochs_grow [OF h1 ops h2] new(2) by simp
  moreover have "fst (GraphLease_Verify key o1 t1 e1 env (m, db2)) \<noteq> Inr True" for env m
    using no by (auto simp: Verify_eq [OF u2] lease_holds_def split: option.splits)
  moreover have "snd (snd (GraphLease_Release key o1 t1 e1 env (m, db2))) = db2" for env m
  proof -
    have "sql_update (\<lambda>l. gl_key l = key \<and> gl_owner l = o1 \<and> gl_epoch l = e1 \<and> gl_token l = t1) f (graph_worker_leases db2) =
        graph_worker_leases db2" for f
      by (rule sql_update_id)
        (use no sql_first_uniq [OF u2, of _ key] in \<open>auto simp: lease_holds_def get_lease_def\<close>)
    then show ?thesis by (simp add: GraphLease_Release_def dbm_defs)
  qed
  ultimately show ?thesis by blast
qed

theorem graph_replaced_worker_fenced_witness:
  "let db1 = snd (snd (GraphLease_Acquire ''b'' ''g'' ''w2'' 30 (calm 30000) (0, sample_lease_db)))
   in fst (GraphLease_Verify ''g'' ''w1'' ''a'' 4 (calm 100) (0, sample_lease_db)) = Inr True \<and>
      fst (GraphLease_Verify ''g'' ''w1'' ''a'' 4 (calm 100) (0, db1)) \<noteq> Inr True"
proof -
  let ?a = "GraphLease_Acquire ''b'' ''g'' ''w2'' 30 (calm 30000) (0, sample_lease_db)"
  let ?v = "GraphLease_Verify ''g'' ''w1'' ''a'' 4 (calm 100) (0, sample_lease_db)"
  let ?w = "GraphLease_Verify ''g'' ''w2'' ''b'' 5 (calm 30001) (0, snd (snd ?a))"
  have u: "uniq_key gl_key (graph_worker_leases sample_lease_db)" by (simp add: sample_lease_db_def uniq_key_def)
  have "?a = (fst ?a, (fst (snd ?a), snd (snd ?a)))" by simp
  then have op: "lease_op\<^sup>*\<^sup>* sample_lease_db (snd (snd ?a))" by (intro r_into_rtranclp lease_op.acquire)
  have 1: "fst ?v = Inr True" "fst ?w = Inr True" by code_simp+
  then have "?v = (Inr True, snd ?v)" "?w = (Inr True, snd ?w)" by (metis prod.collapse)+
  from graph_replaced_worker_fenced [OF u this(1) op this(2) _ rtranclp.rtrancl_refl] 1(1)
  show ?thesis unfolding Let_def by simp
qed

end
