(* ===== verification/Cutover.thy ===== *)
theory Cutover
  imports Prelude
begin

text \<open>
  The cutover from the legacy storage chain to the new one: the state machine
  \<open>internal/cutover/state_machine.go\<close> and its coordinator \<open>internal/cutover/coordinator.go\<close>.

  The runtime controls of writer and reader are interfaces with no implementation in the repository.
  They are parameters: a state of the runtime together with its operations (\<open>runtime_ctl\<close>), absent when
  no control was injected.  A method of the coordinator returns its error, if any, and the coordinator
  it leaves; the mutex makes each method one step.
\<close>

section \<open>The state machine\<close>

type_synonym Phase = int

definition PhaseNone :: Phase where "PhaseNone = 0"
definition PhasePrecheck :: Phase where "PhasePrecheck = 1"
definition PhaseActivateNewWriter :: Phase where "PhaseActivateNewWriter = 2"
definition PhaseActivateNewReader :: Phase where "PhaseActivateNewReader = 3"
definition PhaseFreshDataVerify :: Phase where "PhaseFreshDataVerify = 4"
definition PhaseScopeVerify :: Phase where "PhaseScopeVerify = 5"
definition PhaseSemanticVerify :: Phase where "PhaseSemanticVerify = 6"
definition PhaseStopOldWriter :: Phase where "PhaseStopOldWriter = 7"
definition PhaseStopOldReader :: Phase where "PhaseStopOldReader = 8"
definition PhaseRemoveAdapters :: Phase where "PhaseRemoveAdapters = 9"
definition PhaseRemoveFallback :: Phase where "PhaseRemoveFallback = 10"
definition PhaseFinalVerify :: Phase where "PhaseFinalVerify = 11"
definition PhaseDone :: Phase where "PhaseDone = 12"

lemmas phase_defs = PhaseNone_def PhasePrecheck_def PhaseActivateNewWriter_def PhaseActivateNewReader_def
  PhaseFreshDataVerify_def PhaseScopeVerify_def PhaseSemanticVerify_def PhaseStopOldWriter_def
  PhaseStopOldReader_def PhaseRemoveAdapters_def PhaseRemoveFallback_def PhaseFinalVerify_def PhaseDone_def

definition phaseName :: "Phase \<Rightarrow> gostring" where
  "phaseName p =
     (case map_of
        [(PhaseNone, ''NONE''), (PhasePrecheck, ''PRECHECK''), (PhaseActivateNewWriter, ''ACTIVATE_NEW_WRITER''),
         (PhaseActivateNewReader, ''ACTIVATE_NEW_READER''), (PhaseFreshDataVerify, ''FRESH_DATA_VERIFY''),
         (PhaseScopeVerify, ''SCOPE_VERIFY''), (PhaseSemanticVerify, ''SEMANTIC_VERIFY''),
         (PhaseStopOldWriter, ''STOP_OLD_WRITER''), (PhaseStopOldReader, ''STOP_OLD_READER''),
         (PhaseRemoveAdapters, ''REMOVE_ADAPTERS''), (PhaseRemoveFallback, ''REMOVE_FALLBACK''),
         (PhaseFinalVerify, ''FINAL_VERIFY''), (PhaseDone, ''DONE'')] p of
        None \<Rightarrow> [] | Some s \<Rightarrow> s)"

datatype Decision = DecisionNone | DecisionAbort | DecisionHardAbort | DecisionRollback | DecisionStopForbidden

record cut_state =
  st_Phase :: Phase
  st_OldWriterStopped :: bool
  st_OldReaderStopped :: bool
  st_FreshDataVerified :: bool
  st_ActiveWriter :: bool
  st_ActiveReader :: bool

definition New_cutover :: cut_state where
  "New_cutover = \<lparr>st_Phase = PhasePrecheck, st_OldWriterStopped = False, st_OldReaderStopped = False,
     st_FreshDataVerified = False, st_ActiveWriter = False, st_ActiveReader = False\<rparr>"

definition decide :: "Phase \<Rightarrow> Decision" where
  "decide failPhase =
     (if failPhase = PhasePrecheck then DecisionAbort
      else if failPhase = PhaseActivateNewWriter then DecisionAbort
      else if failPhase = PhaseActivateNewReader then DecisionRollback
      else if failPhase = PhaseFreshDataVerify then DecisionAbort
      else if failPhase = PhaseScopeVerify then DecisionHardAbort
      else if failPhase = PhaseSemanticVerify then DecisionHardAbort
      else if failPhase = PhaseStopOldWriter then DecisionStopForbidden
      else if failPhase = PhaseStopOldReader then DecisionStopForbidden
      else if failPhase = PhaseRemoveAdapters then DecisionHardAbort
      else if failPhase = PhaseRemoveFallback then DecisionHardAbort
      else if failPhase = PhaseFinalVerify then DecisionHardAbort
      else DecisionNone)"

text \<open>The left value is the message of the error.\<close>

definition advance :: "cut_state \<Rightarrow> gostring + cut_state" where
  "advance s =
     (let next_phase = st_Phase s + 1
      in if (next_phase = PhaseStopOldWriter \<or> next_phase = PhaseStopOldReader) \<and> \<not> st_FreshDataVerified s
         then Inl (''cutover: cannot '' @ phaseName next_phase @ '' before fresh-data verification PASS'')
         else if next_phase = PhaseRemoveAdapters \<and> (\<not> st_OldWriterStopped s \<or> \<not> st_OldReaderStopped s)
         then Inl ''cutover: cannot remove adapters before old writer AND old reader stopped''
         else Inr (s\<lparr>st_Phase := next_phase,
                st_ActiveWriter := (st_ActiveWriter s \<or> next_phase = PhaseActivateNewWriter),
                st_ActiveReader := (st_ActiveReader s \<or> next_phase = PhaseActivateNewReader)\<rparr>))"

definition MarkFreshDataVerified :: "cut_state \<Rightarrow> cut_state" where
  "MarkFreshDataVerified s = s\<lparr>st_FreshDataVerified := True\<rparr>"

definition State_StopOldWriter :: "cut_state \<Rightarrow> cut_state" where
  "State_StopOldWriter s = s\<lparr>st_OldWriterStopped := True\<rparr>"

definition State_StopOldReader :: "cut_state \<Rightarrow> cut_state" where
  "State_StopOldReader s = s\<lparr>st_OldReaderStopped := True\<rparr>"

definition Gate6Satisfied :: "cut_state \<Rightarrow> bool" where
  "Gate6Satisfied s \<longleftrightarrow> st_Phase s = PhaseDone \<and> st_ActiveWriter s \<and> st_ActiveReader s \<and>
     st_OldWriterStopped s \<and> st_OldReaderStopped s"

section \<open>The coordinator\<close>

text \<open>\<open>RuntimeWriter\<close> and \<open>RuntimeReader\<close>; \<open>rt_IsNew\<close> is \<open>IsWritingNew\<close> and \<open>IsReadingNew\<close>.\<close>

record 'w runtime_ctl =
  rt_ActivateNew :: "'w \<Rightarrow> bool \<times> 'w"
  rt_IsNew :: "'w \<Rightarrow> bool"
  rt_StopLegacy :: "'w \<Rightarrow> 'w"

record ('w, 'r) Coordinator =
  co_state :: cut_state
  co_writer :: "('w runtime_ctl \<times> 'w) option"
  co_reader :: "('r runtime_ctl \<times> 'r) option"
  co_id :: gostring
  co_startedAt :: millis
  co_lastTransition :: millis
  co_failureCheckpoint :: Phase
  co_abortReason :: gostring

record cut_error =
  er_Checkpoint :: Phase
  er_Reason :: gostring
  er_Decision :: Decision

definition NewCoordinator ::
  "gostring \<Rightarrow> ('w runtime_ctl \<times> 'w) option \<Rightarrow> ('r runtime_ctl \<times> 'r) option \<Rightarrow> millis \<Rightarrow> ('w, 'r) Coordinator" where
  "NewCoordinator cid writer reader now =
    \<lparr>co_state = New_cutover, co_writer = writer, co_reader = reader, co_id = cid, co_startedAt = now,
     co_lastTransition = now, co_failureCheckpoint = PhaseNone, co_abortReason = []\<rparr>"

definition cut_err :: "('w, 'r) Coordinator \<Rightarrow> gostring \<Rightarrow> Decision \<Rightarrow> cut_error option" where
  "cut_err c reason d = Some \<lparr>er_Checkpoint = st_Phase (co_state c), er_Reason = reason, er_Decision = d\<rparr>"

text \<open>The common end of the methods: advance, then record the transition.\<close>

definition advance_and_record :: "millis \<Rightarrow> ('w, 'r) Coordinator \<Rightarrow> cut_error option \<times> ('w, 'r) Coordinator" where
  "advance_and_record now c =
     (case advance (co_state c) of
        Inl msg \<Rightarrow> (cut_err c msg DecisionNone, c)
      | Inr s \<Rightarrow> (None, c\<lparr>co_state := s, co_lastTransition := now\<rparr>))"

definition ActivateNewWriter :: "millis \<Rightarrow> ('w, 'r) Coordinator \<Rightarrow> cut_error option \<times> ('w, 'r) Coordinator" where
  "ActivateNewWriter now c =
     (if st_Phase (co_state c) \<noteq> PhasePrecheck \<and> st_Phase (co_state c) \<noteq> PhaseActivateNewWriter
      then (cut_err c ''ActivateNewWriter only allowed at precheck/activate-new-writer'' DecisionNone, c)
      else (case co_writer c of
         None \<Rightarrow> (cut_err c ''writer runtime control not injected'' DecisionNone, c)
       | Some (ctl, w) \<Rightarrow>
           let (ok, w') = rt_ActivateNew ctl w; c' = c\<lparr>co_writer := Some (ctl, w')\<rparr>
           in if \<not> ok then (cut_err c' ''writer did not enter new mode'' DecisionNone, c')
              else if \<not> rt_IsNew ctl w' then (cut_err c' ''writer not actually writing new backend'' DecisionNone, c')
              else advance_and_record now c'))"

definition ActivateNewReader :: "millis \<Rightarrow> ('w, 'r) Coordinator \<Rightarrow> cut_error option \<times> ('w, 'r) Coordinator" where
  "ActivateNewReader now c =
     (if st_Phase (co_state c) \<noteq> PhaseActivateNewWriter
      then (cut_err c ''ActivateNewReader only allowed after new writer active'' DecisionNone, c)
      else (case co_reader c of
         None \<Rightarrow> (cut_err c ''reader runtime control not injected'' DecisionNone, c)
       | Some (ctl, r) \<Rightarrow>
           let (ok, r') = rt_ActivateNew ctl r; c' = c\<lparr>co_reader := Some (ctl, r')\<rparr>
           in if \<not> ok then (cut_err c' ''reader did not enter new mode'' DecisionNone, c')
              else if \<not> rt_IsNew ctl r' then (cut_err c' ''reader not actually reading new backend'' DecisionNone, c')
              else advance_and_record now c'))"

lemma advance_phase: "advance s = Inr s' \<Longrightarrow> st_Phase s' = st_Phase s + 1"
  by (auto simp: advance_def Let_def split: if_splits)

text \<open>The loop of \<open>VerifyFreshData\<close>; each successful \<open>advance\<close> raises the phase.\<close>

function verify_loop :: "cut_state \<Rightarrow> (gostring \<times> cut_state) + cut_state" where
  "verify_loop s =
     (if st_Phase s < PhaseStopOldWriter
      then (case advance s of Inl msg \<Rightarrow> Inl (msg, s) | Inr s' \<Rightarrow> verify_loop s')
      else Inr s)"
  by pat_completeness auto

termination
  by (relation "measure (\<lambda>s. nat (PhaseStopOldWriter - st_Phase s))") (auto simp: advance_phase)

declare verify_loop.simps [simp del]

definition VerifyFreshData ::
  "bool \<Rightarrow> millis \<Rightarrow> ('w, 'r) Coordinator \<Rightarrow> cut_error option \<times> ('w, 'r) Coordinator" where
  "VerifyFreshData verified now c =
     (if \<not> verified
      then (cut_err c ''fresh data not visible; ABORT, old path unchanged'' DecisionAbort,
            c\<lparr>co_failureCheckpoint := st_Phase (co_state c), co_abortReason := ''fresh data not verified''\<rparr>)
      else (case verify_loop (MarkFreshDataVerified (co_state c)) of
         Inl (msg, s) \<Rightarrow> (cut_err (c\<lparr>co_state := s\<rparr>) msg DecisionNone, c\<lparr>co_state := s\<rparr>)
       | Inr s \<Rightarrow> (None, c\<lparr>co_state := s, co_lastTransition := now\<rparr>)))"

definition StopOldWriter :: "millis \<Rightarrow> ('w, 'r) Coordinator \<Rightarrow> cut_error option \<times> ('w, 'r) Coordinator" where
  "StopOldWriter now c =
     (if st_Phase (co_state c) \<noteq> PhaseStopOldWriter
      then (cut_err c ''StopOldWriter only allowed at stop-old-writer phase'' DecisionNone, c)
      else if \<not> st_FreshDataVerified (co_state c)
      then (cut_err c ''cannot stop old writer before fresh-data verified'' DecisionAbort, c)
      else advance_and_record now
        (c\<lparr>co_writer := map_option (\<lambda>(ctl, w). (ctl, rt_StopLegacy ctl w)) (co_writer c),
           co_state := State_StopOldWriter (co_state c)\<rparr>))"

definition StopOldReader :: "millis \<Rightarrow> ('w, 'r) Coordinator \<Rightarrow> cut_error option \<times> ('w, 'r) Coordinator" where
  "StopOldReader now c =
     (if st_Phase (co_state c) \<noteq> PhaseStopOldReader
      then (cut_err c ''StopOldReader only allowed at stop-old-reader phase'' DecisionNone, c)
      else if \<not> st_FreshDataVerified (co_state c)
      then (cut_err c ''cannot stop old reader before fresh-data verified'' DecisionAbort, c)
      else advance_and_record now
        (c\<lparr>co_reader := map_option (\<lambda>(ctl, r). (ctl, rt_StopLegacy ctl r)) (co_reader c),
           co_state := State_StopOldReader (co_state c)\<rparr>))"

definition Coordinator_Fail ::
  "Phase \<Rightarrow> gostring \<Rightarrow> ('w, 'r) Coordinator \<Rightarrow> Decision \<times> ('w, 'r) Coordinator" where
  "Coordinator_Fail checkpoint reason c =
     (decide checkpoint, c\<lparr>co_failureCheckpoint := checkpoint, co_abortReason := reason\<rparr>)"

record cut_status =
  cs_CutoverID :: gostring
  cs_CurrentState :: gostring
  cs_StartedAt :: millis
  cs_LastTransitionAt :: millis
  cs_NewWriterActive :: bool
  cs_NewReaderActive :: bool
  cs_FreshDataVerified :: bool
  cs_OldWriterStopped :: bool
  cs_OldReaderStopped :: bool
  cs_FailureCheckpoint :: gostring
  cs_AbortReason :: gostring

definition Coordinator_Status :: "('w, 'r) Coordinator \<Rightarrow> cut_status" where
  "Coordinator_Status c =
    \<lparr>cs_CutoverID = co_id c, cs_CurrentState = phaseName (st_Phase (co_state c)),
     cs_StartedAt = co_startedAt c, cs_LastTransitionAt = co_lastTransition c,
     cs_NewWriterActive = st_ActiveWriter (co_state c), cs_NewReaderActive = st_ActiveReader (co_state c),
     cs_FreshDataVerified = st_FreshDataVerified (co_state c),
     cs_OldWriterStopped = st_OldWriterStopped (co_state c),
     cs_OldReaderStopped = st_OldReaderStopped (co_state c),
     cs_FailureCheckpoint = phaseName (co_failureCheckpoint c), cs_AbortReason = co_abortReason c\<rparr>"

section \<open>Runs of the coordinator\<close>

inductive cut_step :: "('w, 'r) Coordinator \<Rightarrow> ('w, 'r) Coordinator \<Rightarrow> bool" where
  activate_writer: "cut_step c (snd (ActivateNewWriter now c))"
| activate_reader: "cut_step c (snd (ActivateNewReader now c))"
| verify: "cut_step c (snd (VerifyFreshData verified now c))"
| stop_writer: "cut_step c (snd (StopOldWriter now c))"
| stop_reader: "cut_step c (snd (StopOldReader now c))"
| fail: "cut_step c (snd (Coordinator_Fail checkpoint reason c))"

text \<open>The phase determines every flag, and no method leads past the removal of the adapters.\<close>

definition cut_inv :: "cut_state \<Rightarrow> bool" where
  "cut_inv s \<longleftrightarrow> PhasePrecheck \<le> st_Phase s \<and> st_Phase s \<le> PhaseRemoveAdapters \<and>
     st_ActiveWriter s = (PhaseActivateNewWriter \<le> st_Phase s) \<and>
     st_ActiveReader s = (PhaseActivateNewReader \<le> st_Phase s) \<and>
     st_FreshDataVerified s = (PhaseStopOldWriter \<le> st_Phase s) \<and>
     st_OldWriterStopped s = (PhaseStopOldReader \<le> st_Phase s) \<and>
     st_OldReaderStopped s = (PhaseRemoveAdapters \<le> st_Phase s)"

lemma advance_verified:
  assumes "st_FreshDataVerified s" and "st_Phase s < PhaseStopOldWriter"
  shows "\<exists>s'. advance s = Inr s' \<and> st_FreshDataVerified s'"
  using assms by (auto simp: advance_def Let_def phase_defs)

lemma verify_loop_exact:
  assumes "st_FreshDataVerified s" and "st_Phase s \<le> PhaseStopOldWriter"
  shows "verify_loop s = Inr (s\<lparr>st_Phase := PhaseStopOldWriter,
     st_ActiveWriter := (st_ActiveWriter s \<or> st_Phase s < PhaseActivateNewWriter),
     st_ActiveReader := (st_ActiveReader s \<or> st_Phase s < PhaseActivateNewReader)\<rparr>)"
  using assms
proof (induction s rule: verify_loop.induct)
  case (1 s)
  show ?case
  proof (cases "st_Phase s < PhaseStopOldWriter")
    case True
    then obtain s' where a: "advance s = Inr s'" using 1 advance_verified by blast
    have f: "s' = s\<lparr>st_Phase := st_Phase s + 1, st_ActiveWriter := (st_ActiveWriter s \<or> st_Phase s + 1 = PhaseActivateNewWriter),
        st_ActiveReader := (st_ActiveReader s \<or> st_Phase s + 1 = PhaseActivateNewReader)\<rparr>"
      using a by (auto simp: advance_def Let_def split: if_splits)
    have "verify_loop s' = Inr (s'\<lparr>st_Phase := PhaseStopOldWriter,
        st_ActiveWriter := (st_ActiveWriter s' \<or> st_Phase s' < PhaseActivateNewWriter),
        st_ActiveReader := (st_ActiveReader s' \<or> st_Phase s' < PhaseActivateNewReader)\<rparr>)"
      using 1(1) [OF True a] 1(2) True f by (simp add: phase_defs)
    moreover have "((st_ActiveWriter s \<or> st_Phase s + 1 = PhaseActivateNewWriter) \<or> st_Phase s + 1 < PhaseActivateNewWriter) =
        (st_ActiveWriter s \<or> st_Phase s < PhaseActivateNewWriter)"
      "((st_ActiveReader s \<or> st_Phase s + 1 = PhaseActivateNewReader) \<or> st_Phase s + 1 < PhaseActivateNewReader) =
        (st_ActiveReader s \<or> st_Phase s < PhaseActivateNewReader)" by (auto simp: phase_defs)
    ultimately show ?thesis using True a by (subst verify_loop.simps) (simp add: f)
  next
    case False
    with 1(3) show ?thesis by (subst verify_loop.simps) (simp add: phase_defs)
  qed
qed

lemma New_cutover_inv: "cut_inv New_cutover"
  by (simp add: cut_inv_def New_cutover_def phase_defs)

lemma advance_and_record_state:
  "co_state (snd (advance_and_record now c)) = (case advance (co_state c) of Inl _ \<Rightarrow> co_state c | Inr s \<Rightarrow> s)"
  "fst (advance_and_record now c) = None \<longleftrightarrow> (\<exists>s. advance (co_state c) = Inr s)"
  by (cases "advance (co_state c)"; simp add: advance_and_record_def cut_err_def)+

text \<open>What a method does to the control state, and what it reports.\<close>

lemma ActivateNewWriter_state:
  "co_state (snd (ActivateNewWriter now c)) = co_state c \<or>
   (fst (ActivateNewWriter now c) = None \<and> st_Phase (co_state c) \<in> {PhasePrecheck, PhaseActivateNewWriter} \<and>
    advance (co_state c) = Inr (co_state (snd (ActivateNewWriter now c))))"
  by (cases "advance (co_state c)")
    (auto simp: ActivateNewWriter_def cut_err_def Let_def advance_and_record_state split: option.splits prod.splits)

lemma ActivateNewReader_state:
  "co_state (snd (ActivateNewReader now c)) = co_state c \<or>
   (fst (ActivateNewReader now c) = None \<and> st_Phase (co_state c) = PhaseActivateNewWriter \<and>
    advance (co_state c) = Inr (co_state (snd (ActivateNewReader now c))))"
  by (cases "advance (co_state c)")
    (auto simp: ActivateNewReader_def cut_err_def Let_def advance_and_record_state split: option.splits prod.splits)

lemma StopOldWriter_state:
  assumes "cut_inv (co_state c)"
  shows "(fst (StopOldWriter now c) \<noteq> None \<and> snd (StopOldWriter now c) = c) \<or>
   (fst (StopOldWriter now c) = None \<and> st_Phase (co_state c) = PhaseStopOldWriter \<and>
    snd (StopOldWriter now c) = c\<lparr>co_writer := map_option (\<lambda>(ctl, w). (ctl, rt_StopLegacy ctl w)) (co_writer c),
      co_state := (co_state c)\<lparr>st_OldWriterStopped := True, st_Phase := PhaseStopOldReader\<rparr>, co_lastTransition := now\<rparr>)"
  using assms
  by (auto simp: StopOldWriter_def advance_and_record_def advance_def State_StopOldWriter_def cut_err_def cut_inv_def
      phase_defs Let_def)

lemma StopOldReader_state:
  assumes "cut_inv (co_state c)"
  shows "(fst (StopOldReader now c) \<noteq> None \<and> snd (StopOldReader now c) = c) \<or>
   (fst (StopOldReader now c) = None \<and> st_Phase (co_state c) = PhaseStopOldReader \<and>
    snd (StopOldReader now c) = c\<lparr>co_reader := map_option (\<lambda>(ctl, w). (ctl, rt_StopLegacy ctl w)) (co_reader c),
      co_state := (co_state c)\<lparr>st_OldReaderStopped := True, st_Phase := PhaseRemoveAdapters\<rparr>, co_lastTransition := now\<rparr>)"
  using assms
  by (auto simp: StopOldReader_def advance_and_record_def advance_def State_StopOldReader_def cut_err_def cut_inv_def
      phase_defs Let_def)

lemma VerifyFreshData_state:
  assumes "cut_inv (co_state c)"
  shows "(fst (VerifyFreshData verified now c) \<noteq> None \<and> co_state (snd (VerifyFreshData verified now c)) = co_state c) \<or>
    (fst (VerifyFreshData verified now c) = None \<and> verified \<and>
     co_state (snd (VerifyFreshData verified now c)) = (co_state c)\<lparr>st_FreshDataVerified := True,
       st_Phase := max PhaseStopOldWriter (st_Phase (co_state c)), st_ActiveWriter := True, st_ActiveReader := True\<rparr>)"
proof (cases verified)
  case True
  let ?s = "MarkFreshDataVerified (co_state c)"
  have "verify_loop ?s = Inr ((co_state c)\<lparr>st_FreshDataVerified := True,
       st_Phase := max PhaseStopOldWriter (st_Phase (co_state c)), st_ActiveWriter := True, st_ActiveReader := True\<rparr>)"
  proof (cases "st_Phase (co_state c) \<le> PhaseStopOldWriter")
    case True
    then show ?thesis
      using verify_loop_exact [of ?s] assms by (auto simp: MarkFreshDataVerified_def cut_inv_def phase_defs)
  next
    case False
    with assms show ?thesis
      by (subst verify_loop.simps) (auto simp: MarkFreshDataVerified_def cut_inv_def phase_defs)
  qed
  with True show ?thesis by (simp add: VerifyFreshData_def)
qed (simp add: VerifyFreshData_def cut_err_def)

lemma advance_inv:
  assumes inv: "cut_inv s" and ph: "st_Phase s = PhasePrecheck \<or> st_Phase s = PhaseActivateNewWriter"
    and adv: "advance s = Inr s'"
  shows "cut_inv s'"
proof -
  have "s' = s\<lparr>st_Phase := st_Phase s + 1, st_ActiveWriter := (st_ActiveWriter s \<or> st_Phase s + 1 = PhaseActivateNewWriter),
      st_ActiveReader := (st_ActiveReader s \<or> st_Phase s + 1 = PhaseActivateNewReader)\<rparr>"
    using adv by (simp add: advance_def Let_def split: if_splits)
  with ph inv show ?thesis by (elim disjE) (simp_all add: cut_inv_def phase_defs)
qed

lemma cut_step_inv: "cut_step c c' \<Longrightarrow> cut_inv (co_state c) \<Longrightarrow> cut_inv (co_state c')"
proof (induction rule: cut_step.induct)
  case (activate_writer c now)
  with ActivateNewWriter_state [of now c] advance_inv show ?case by auto
next
  case (activate_reader c now)
  with ActivateNewReader_state [of now c] advance_inv show ?case by auto
next
  case (verify c verified now)
  from VerifyFreshData_state [OF verify, of verified now] show ?case
  proof (elim disjE conjE)
    assume "co_state (snd (VerifyFreshData verified now c)) = co_state c"
    with verify show ?thesis by simp
  next
    assume e: "co_state (snd (VerifyFreshData verified now c)) = (co_state c)\<lparr>st_FreshDataVerified := True,
       st_Phase := max PhaseStopOldWriter (st_Phase (co_state c)), st_ActiveWriter := True, st_ActiveReader := True\<rparr>"
    show ?thesis unfolding e using verify by (simp add: cut_inv_def phase_defs le_max_iff_disj)
  qed
next
  case (stop_writer c now)
  from StopOldWriter_state [OF stop_writer, of now] show ?case
    by (elim disjE conjE) (use stop_writer in \<open>simp_all add: cut_inv_def phase_defs\<close>)
next
  case (stop_reader c now)
  from StopOldReader_state [OF stop_reader, of now] show ?case
    by (elim disjE conjE) (use stop_reader in \<open>simp_all add: cut_inv_def phase_defs\<close>)
next
  case (fail c checkpoint reason)
  then show ?case by (simp add: Coordinator_Fail_def)
qed

lemma cut_steps_inv: "cut_step\<^sup>*\<^sup>* c c' \<Longrightarrow> cut_inv (co_state c) \<Longrightarrow> cut_inv (co_state c')"
  by (induction rule: rtranclp_induct) (auto intro: cut_step_inv)

section \<open>What the cutover promises\<close>

text \<open>
  The abstract view: whether fresh data was verified, and which legacy side still runs.  Stopping is
  allowed only after the verification, the writer first.
\<close>

type_synonym cut_spec = "bool \<times> bool \<times> bool"

inductive spec_step :: "cut_spec \<Rightarrow> cut_spec \<Rightarrow> bool" where
  spec_stay: "spec_step s s"
| spec_verify: "spec_step (v, w, r) (True, w, r)"
| spec_stop_writer: "spec_step (True, True, r) (True, False, r)"
| spec_stop_reader: "spec_step (True, False, True) (True, False, False)"

definition cut_abs :: "('w, 'r) Coordinator \<Rightarrow> cut_spec" where
  "cut_abs c = (st_FreshDataVerified (co_state c), \<not> st_OldWriterStopped (co_state c), \<not> st_OldReaderStopped (co_state c))"

lemma advance_keeps: "advance s = Inr s' \<Longrightarrow> st_FreshDataVerified s' = st_FreshDataVerified s \<and>
    st_OldWriterStopped s' = st_OldWriterStopped s \<and> st_OldReaderStopped s' = st_OldReaderStopped s"
  by (auto simp: advance_def Let_def split: if_splits)


text \<open>
  A call that reports an error makes no progress: phase and flags are as before.  So every abort
  leaves the old chain as it was.
\<close>

theorem cutover_error_no_progress:
  assumes "cut_step\<^sup>*\<^sup>* (NewCoordinator cid writer reader t0) c"
    and "r \<in> {ActivateNewWriter now c, ActivateNewReader now c, VerifyFreshData v now c, StopOldWriter now c, StopOldReader now c}"
    and "fst r \<noteq> None"
  shows "co_state (snd r) = co_state c"
proof -
  have inv: "cut_inv (co_state c)"
    using cut_steps_inv [OF assms(1)] New_cutover_inv by (simp add: NewCoordinator_def)
  from assms(2,3) ActivateNewWriter_state [of now c] ActivateNewReader_state [of now c]
    VerifyFreshData_state [OF inv, of v now] StopOldWriter_state [OF inv, of now] StopOldReader_state [OF inv, of now]
  show ?thesis by (elim insertE emptyE) auto
qed

text \<open>
  C34.  In every reachable state the phase determines all flags.  No method goes past the removal of the
  adapters, so the completion criterion \<open>Gate6Satisfied\<close> never holds.
\<close>

theorem cutover_phase_invariant:
  assumes "cut_step\<^sup>*\<^sup>* (NewCoordinator cid writer reader t0) c"
  shows "PhasePrecheck \<le> st_Phase (co_state c) \<and> st_Phase (co_state c) \<le> PhaseRemoveAdapters \<and>
    st_ActiveWriter (co_state c) = (PhaseActivateNewWriter \<le> st_Phase (co_state c)) \<and>
    st_ActiveReader (co_state c) = (PhaseActivateNewReader \<le> st_Phase (co_state c)) \<and>
    st_FreshDataVerified (co_state c) = (PhaseStopOldWriter \<le> st_Phase (co_state c)) \<and>
    st_OldWriterStopped (co_state c) = (PhaseStopOldReader \<le> st_Phase (co_state c)) \<and>
    st_OldReaderStopped (co_state c) = (PhaseRemoveAdapters \<le> st_Phase (co_state c)) \<and>
    \<not> Gate6Satisfied (co_state c)"
proof -
  have inv: "cut_inv (co_state c)"
    using cut_steps_inv [OF assms] New_cutover_inv by (simp add: NewCoordinator_def)
  then have "\<not> Gate6Satisfied (co_state c)" by (simp add: cut_inv_def Gate6Satisfied_def phase_defs)
  with inv show ?thesis unfolding cut_inv_def by blast
qed

definition cutover_run :: "('w runtime_ctl \<times> 'w) \<Rightarrow> ('r runtime_ctl \<times> 'r) \<Rightarrow> (cut_error option list \<times> ('w, 'r) Coordinator)" where
  "cutover_run writer reader =
     (let (e1, c) = ActivateNewWriter 1 (NewCoordinator ''c'' (Some writer) (Some reader) 0);
          (e2, c) = ActivateNewReader 2 c;
          (e3, c) = VerifyFreshData True 3 c;
          (e4, c) = StopOldWriter 4 c;
          (e5, c) = StopOldReader 5 c
      in ([e1, e2, e3, e4, e5], c))"

text \<open>
  The planned sequence of calls goes through without an error when both runtimes activate: it ends
  with the new chain active and the legacy stop issued to both sides, once each and after activation.
\<close>

theorem cutover_completes:
  assumes "rt_ActivateNew wctl w = (True, w')" and "rt_IsNew wctl w'"
    and "rt_ActivateNew rctl r = (True, r')" and "rt_IsNew rctl r'"
  shows "\<exists>c. cutover_run (wctl, w) (rctl, r) = ([None, None, None, None, None], c) \<and>
    co_writer c = Some (wctl, rt_StopLegacy wctl w') \<and> co_reader c = Some (rctl, rt_StopLegacy rctl r') \<and>
    co_state c = \<lparr>st_Phase = PhaseRemoveAdapters, st_OldWriterStopped = True, st_OldReaderStopped = True,
      st_FreshDataVerified = True, st_ActiveWriter = True, st_ActiveReader = True\<rparr>"
proof -
  let ?s3 = "\<lparr>st_Phase = 3, st_OldWriterStopped = False, st_OldReaderStopped = False, st_FreshDataVerified = True,
    st_ActiveWriter = True, st_ActiveReader = True\<rparr>"
  have v: "verify_loop ?s3 = Inr (?s3\<lparr>st_Phase := 7\<rparr>)"
    using verify_loop_exact [of ?s3] by (simp add: phase_defs)
  show ?thesis
    using assms v
    by (simp add: cutover_run_def NewCoordinator_def New_cutover_def ActivateNewWriter_def ActivateNewReader_def
        VerifyFreshData_def StopOldWriter_def StopOldReader_def advance_and_record_def advance_def Let_def
        MarkFreshDataVerified_def State_StopOldWriter_def State_StopOldReader_def phase_defs)
qed

definition sample_ctl :: "(bool \<times> bool) runtime_ctl" where
  "sample_ctl = \<lparr>rt_ActivateNew = (\<lambda>(new, legacy). (True, (True, legacy))), rt_IsNew = fst,
     rt_StopLegacy = (\<lambda>(new, legacy). (new, False))\<rparr>"


theorem cutover_error_no_progress_witness:
  "let c = NewCoordinator ''c'' (Some (sample_ctl, (False, True))) (None :: ((bool \<times> bool) runtime_ctl \<times> bool \<times> bool) option) 0
   in fst (StopOldWriter 4 c) \<noteq> None \<and> co_state (snd (StopOldWriter 4 c)) = co_state c"
proof -
  let ?c = "NewCoordinator ''c'' (Some (sample_ctl, (False, True))) (None :: ((bool \<times> bool) runtime_ctl \<times> bool \<times> bool) option) 0"
  have e: "fst (StopOldWriter 4 ?c) \<noteq> None" by code_simp
  from cutover_error_no_progress [OF rtranclp.rtrancl_refl _ e, where v = True and now = 4] e show ?thesis by (simp add: Let_def)
qed

theorem cutover_phase_invariant_witness:
  "let c = snd (VerifyFreshData True 3 (NewCoordinator ''c'' (Some (sample_ctl, (False, True))) (Some (sample_ctl, (False, True))) 0))
   in st_ActiveWriter (co_state c) \<and> co_writer c = Some (sample_ctl, (False, True)) \<and> \<not> Gate6Satisfied (co_state c)"
proof -
  let ?init = "NewCoordinator ''c'' (Some (sample_ctl, (False, True))) (Some (sample_ctl, (False, True))) 0"
  let ?c = "snd (VerifyFreshData True 3 ?init)"
  have "cut_step\<^sup>*\<^sup>* ?init ?c" by (rule r_into_rtranclp) (rule cut_step.verify)
  from cutover_phase_invariant [OF this] have "\<not> Gate6Satisfied (co_state ?c)" by blast
  moreover have "st_ActiveWriter (co_state ?c)" by code_simp
  moreover have "co_writer ?c = Some (sample_ctl, (False, True))"
    by (simp add: VerifyFreshData_def NewCoordinator_def split: sum.split)
  ultimately show ?thesis by (simp add: Let_def)
qed

theorem cutover_completes_witness:
  "\<exists>c. cutover_run (sample_ctl, (False, True)) (sample_ctl, (False, True)) = ([None, None, None, None, None], c) \<and>
    co_writer c = Some (sample_ctl, (True, False))"
  using cutover_completes [of sample_ctl "(False, True)" "(True, True)" sample_ctl "(False, True)" "(True, True)"]
  by (auto simp: sample_ctl_def)

end
