(* ===== verification/CollectorWAL.thy ===== *)
theory CollectorWAL
  imports Prelude
begin

text \<open>
  The write-ahead log of the event collector, \<open>ai-event-collector/wal.go\<close>: a batch is appended and
  synced before it is sent, acknowledged when the ingest service took it, and replayed after a restart
  until then.

  The log file is the list of its lines as the scanner and \<open>json.Unmarshal\<close> see them, and possibly an
  unterminated last line; the ack file is what \<open>readAck\<close> makes of it.  Failures of the file system are
  parameters of the operations.  Sequence numbers are natural numbers; the 64-bit counter of the code
  is taken not to wrap.
\<close>

section \<open>Base64\<close>

text \<open>\<open>base64.StdEncoding\<close>: three bytes to four characters, padded with \<open>=\<close>.\<close>

definition b64_alphabet :: gostring where
  "b64_alphabet = ''ABCDEFGHIJKLMNOPQRSTUVWXYZabcdefghijklmnopqrstuvwxyz0123456789+/''"

definition b64_char :: "nat \<Rightarrow> char" where
  "b64_char n = b64_alphabet ! n"

fun b64_encode_bytes :: "nat list \<Rightarrow> gostring" where
  "b64_encode_bytes [] = []"
| "b64_encode_bytes [a] = [b64_char (a div 4), b64_char (a mod 4 * 16), CHR ''='', CHR ''='']"
| "b64_encode_bytes [a, b] = [b64_char (a div 4), b64_char (a mod 4 * 16 + b div 16), b64_char (b mod 16 * 4), CHR ''='']"
| "b64_encode_bytes (a # b # c # bs) =
     b64_char (a div 4) # b64_char (a mod 4 * 16 + b div 16) # b64_char (b mod 16 * 4 + c div 64) #
     b64_char (c mod 64) # b64_encode_bytes bs"

definition b64_encode :: "gostring \<Rightarrow> gostring" where
  "b64_encode v = b64_encode_bytes (map of_char v)"

definition b64_value :: "char \<Rightarrow> nat option" where
  "b64_value ch = (if ch \<in> set b64_alphabet then Some (length (takeWhile (\<lambda>x. x \<noteq> ch) b64_alphabet)) else None)"

fun b64_decode_bytes :: "gostring \<Rightarrow> nat list option" where
  "b64_decode_bytes [] = Some []"
| "b64_decode_bytes (w # x # y # z # rest) =
     (case (b64_value w, b64_value x) of
        (Some p, Some q) \<Rightarrow>
          if y = CHR ''='' then (if z = CHR ''='' \<and> rest = [] then Some [p * 4 + q div 16] else None)
          else (case b64_value y of
             None \<Rightarrow> None
           | Some r \<Rightarrow>
               if z = CHR ''='' then (if rest = [] then Some [p * 4 + q div 16, q mod 16 * 16 + r div 4] else None)
               else (case (b64_value z, b64_decode_bytes rest) of
                  (Some s, Some bs) \<Rightarrow> Some ((p * 4 + q div 16) # (q mod 16 * 16 + r div 4) # (r mod 4 * 64 + s) # bs)
                | _ \<Rightarrow> None))
      | _ \<Rightarrow> None)"
| "b64_decode_bytes _ = None"

text \<open>\<open>DecodeString\<close> skips line ends.\<close>

definition b64_decode :: "gostring \<Rightarrow> gostring option" where
  "b64_decode v = map_option (map char_of) (b64_decode_bytes (filter (\<lambda>ch. ch \<noteq> CHR 0x0A \<and> ch \<noteq> CHR 0x0D) v))"

section \<open>Entries and files\<close>

record walEntry =
  we_Seq :: nat
  we_Kind :: gostring
  we_Value :: gostring
  we_At :: int

text \<open>A line that parses, one that does not, and one beyond the capacity of the scanner.\<close>

datatype wal_line = Good walEntry | Corrupt | TooLong

text \<open>The legacy ack file holds one number.\<close>

datatype ack_file = AckNumber nat | AckState nat "nat list" | AckGarbage

record wal_disk =
  wd_lines :: "wal_line list"
  wd_tail :: "wal_line option"
  wd_ack :: "ack_file option"

text \<open>\<open>w_broken\<close> is the sticky error of the buffered writer; \<open>w_acked\<close> lists the keys of the map.\<close>

record WAL =
  w_seq :: nat
  w_acked :: "nat list"
  w_consecutive :: nat
  w_broken :: bool
  w_disk :: wal_disk

definition scan_lines :: "wal_disk \<Rightarrow> wal_line list" where
  "scan_lines d = wd_lines d @ (case wd_tail d of None \<Rightarrow> [] | Some l \<Rightarrow> [l])"

text \<open>The scanner stops with an error at a line that is too long.\<close>

fun scan_entries :: "wal_line list \<Rightarrow> walEntry list \<times> bool" where
  "scan_entries [] = ([], True)"
| "scan_entries (Good e # ls) = (let (es, ok) = scan_entries ls in (e # es, ok))"
| "scan_entries (Corrupt # ls) = scan_entries ls"
| "scan_entries (TooLong # ls) = ([], False)"

definition readAck :: "wal_disk \<Rightarrow> (nat \<times> nat list) option" where
  "readAck d = (case wd_ack d of
     None \<Rightarrow> None | Some (AckNumber n) \<Rightarrow> Some (n, []) | Some (AckState c acked) \<Rightarrow> Some (c, acked)
   | Some AckGarbage \<Rightarrow> None)"

definition scanLastSeq :: "wal_disk \<Rightarrow> nat option" where
  "scanLastSeq d = (let (es, ok) = scan_entries (scan_lines d)
     in if ok then Some (fold max (map we_Seq es) 0) else None)"

text \<open>The entries and whether the scan ended without an error.\<close>

definition readRemaining :: "WAL \<Rightarrow> nat \<Rightarrow> walEntry list \<times> bool" where
  "readRemaining w after_seq = (let (es, ok) = scan_entries (scan_lines (w_disk w))
     in (filter (\<lambda>e. we_Seq e \<notin> set (w_acked w) \<and> after_seq < we_Seq e) es, ok))"

section \<open>Operations\<close>

definition wal_recover :: "WAL \<Rightarrow> WAL" where
  "wal_recover w =
     (let w = (case readAck (w_disk w) of
           None \<Rightarrow> w
         | Some (st, acked) \<Rightarrow> w\<lparr>w_consecutive := st, w_acked := remdups (w_acked w @ filter (\<lambda>s. st < s) acked)\<rparr>);
          w = (case scanLastSeq (w_disk w) of
             None \<Rightarrow> w | Some last_seq \<Rightarrow> if w_seq w < last_seq then w\<lparr>w_seq := last_seq\<rparr> else w)
      in if w_seq w < w_consecutive w then w\<lparr>w_seq := w_consecutive w\<rparr> else w)"

text \<open>Opening the log, at the first start and after every restart, with what is on disk.\<close>

definition NewWAL :: "wal_disk \<Rightarrow> WAL" where
  "NewWAL d = wal_recover \<lparr>w_seq = 0, w_acked = [], w_consecutive = 0, w_broken = False, w_disk = d\<rparr>"

text \<open>
  How the writes of an \<open>Append\<close> end: the line is written and synced; the flush fails and leaves a
  fragment of the line, if any; the line is written and the sync fails.
\<close>

datatype append_io = IoOk | IoFlushFails "wal_line option" | IoSyncFails

text \<open>Bytes written behind an unterminated line become part of that line.\<close>

definition glue :: "wal_line option \<Rightarrow> wal_line \<Rightarrow> wal_line" where
  "glue tail_line l = (case tail_line of None \<Rightarrow> l | Some TooLong \<Rightarrow> TooLong | Some _ \<Rightarrow> if l = TooLong then TooLong else Corrupt)"

definition write_line :: "wal_line \<Rightarrow> wal_disk \<Rightarrow> wal_disk" where
  "write_line l d = d\<lparr>wd_lines := wd_lines d @ [glue (wd_tail d) l], wd_tail := None\<rparr>"

text \<open>\<open>too_long\<close> says whether the marshalled entry exceeds the capacity of the scanner.\<close>

definition entry_line :: "(walEntry \<Rightarrow> bool) \<Rightarrow> walEntry \<Rightarrow> wal_line" where
  "entry_line too_long e = (if too_long e then TooLong else Good e)"

definition wal_Append ::
  "(walEntry \<Rightarrow> bool) \<Rightarrow> append_io \<Rightarrow> int \<Rightarrow> gostring \<Rightarrow> gostring \<Rightarrow> WAL \<Rightarrow> nat option \<times> WAL" where
  "wal_Append too_long io now kind v w =
     (let w = w\<lparr>w_seq := Suc (w_seq w)\<rparr>;
          e = \<lparr>we_Seq = w_seq w, we_Kind = kind, we_Value = b64_encode v, we_At = now\<rparr>
      in if w_broken w then (None, w)
         else (case io of
            IoOk \<Rightarrow> (Some (w_seq w), w\<lparr>w_disk := write_line (entry_line too_long e) (w_disk w)\<rparr>)
          | IoSyncFails \<Rightarrow> (None, w\<lparr>w_disk := write_line (entry_line too_long e) (w_disk w)\<rparr>)
          | IoFlushFails fragment \<Rightarrow>
              (None, w\<lparr>w_broken := True, w_disk := (case fragment of None \<Rightarrow> w_disk w
                 | Some l \<Rightarrow> (w_disk w)\<lparr>wd_tail := Some (glue (wd_tail (w_disk w)) l)\<rparr>)\<rparr>)))"

text \<open>The loop of \<open>Ack\<close>: every turn removes a key from the map.\<close>

function advance_ack :: "nat \<Rightarrow> nat list \<Rightarrow> nat \<times> nat list" where
  "advance_ack c acked =
     (if Suc c \<in> set acked then advance_ack (Suc c) (removeAll (Suc c) acked) else (c, acked))"
  by pat_completeness auto

termination
  by (relation "measure (\<lambda>(c, acked). length acked)") (auto intro: length_removeAll_less)

declare advance_ack.simps [simp del]

definition persistAck :: "bool \<Rightarrow> WAL \<Rightarrow> WAL" where
  "persistAck ok w = (if ok then w\<lparr>w_disk := (w_disk w)\<lparr>wd_ack := Some (AckState (w_consecutive w) (sort (w_acked w)))\<rparr>\<rparr> else w)"

definition wal_Ack :: "bool \<Rightarrow> nat \<Rightarrow> WAL \<Rightarrow> WAL" where
  "wal_Ack ok s w =
     (let acked = (if w_consecutive w < s then List.insert s (w_acked w) else w_acked w);
          (c, acked) = advance_ack (w_consecutive w) acked
      in persistAck ok (w\<lparr>w_consecutive := c, w_acked := acked\<rparr>))"

definition wal_ReadAll :: "WAL \<Rightarrow> walEntry list \<times> bool" where
  "wal_ReadAll w = readRemaining w (w_consecutive w)"

text \<open>
  How the writes of \<open>Compact\<close> end: no temporary file; or the temporary file, with the first \<open>k\<close> lines
  in it, replaces the log, and the ack state is written or not.  The errors of these writes are
  dropped by the code.
\<close>

datatype compact_io = CompactNoTmp | CompactRenamed nat bool

definition wal_Compact :: "compact_io \<Rightarrow> WAL \<Rightarrow> WAL" where
  "wal_Compact io w =
     (if w_seq w \<le> w_consecutive w
      then w\<lparr>w_disk := (w_disk w)\<lparr>wd_lines := [], wd_tail := None\<rparr>, w_acked := []\<rparr>
      else (let (remaining, ok) = readRemaining w (w_consecutive w)
            in if \<not> ok then w
               else (case io of
                  CompactNoTmp \<Rightarrow> w
                | CompactRenamed k ack_ok \<Rightarrow>
                    persistAck ack_ok (w\<lparr>w_broken := False, w_acked := [],
                      w_disk := (w_disk w)\<lparr>wd_lines := map Good (take k (filter (\<lambda>e. we_Seq e \<notin> set (w_acked w)) remaining)),
                        wd_tail := None\<rparr>\<rparr>))))"

record PendingStats =
  ps_Records :: nat
  ps_Bytes :: nat
  ps_Oldest :: int

definition stats_entry :: "nat \<Rightarrow> walEntry \<Rightarrow> PendingStats \<Rightarrow> PendingStats" where
  "stats_entry consecutive e st =
     (if we_Seq e \<le> consecutive then st
      else \<lparr>ps_Records = Suc (ps_Records st),
            ps_Bytes = ps_Bytes st + (case b64_decode (we_Value e) of None \<Rightarrow> 0 | Some v \<Rightarrow> length v),
            ps_Oldest = (if 0 < we_At e \<and> (ps_Oldest st = 0 \<or> we_At e < ps_Oldest st) then we_At e else ps_Oldest st)\<rparr>)"

definition wal_PendingStats :: "int \<Rightarrow> WAL \<Rightarrow> PendingStats" where
  "wal_PendingStats now w =
     (let (es, ok) = readRemaining w (w_consecutive w); zero = \<lparr>ps_Records = 0, ps_Bytes = 0, ps_Oldest = 0\<rparr>
      in if \<not> ok then zero
         else (let st = fold (stats_entry (w_consecutive w)) es zero
               in if ps_Oldest st = 0 then st\<lparr>ps_Oldest := now\<rparr> else st))"

definition wal_OldestAgeSeconds :: "int \<Rightarrow> int \<Rightarrow> WAL \<Rightarrow> int" where
  "wal_OldestAgeSeconds now later w =
     (let st = wal_PendingStats now w
      in if ps_Records st = 0 then 0
         else (let age = later - ps_Oldest st in if age < 0 then 0 else age div 1000))"

section \<open>Base64 round trip\<close>

lemma b64_value_char: "n < 64 \<Longrightarrow> b64_value (b64_char n) = Some n"
proof -
  assume n: "n < 64"
  have d: "distinct b64_alphabet" and l: "length b64_alphabet = 64" by (simp_all add: b64_alphabet_def)
  have "length (takeWhile (\<lambda>x. x \<noteq> b64_alphabet ! n) b64_alphabet) = n"
  proof -
    have "takeWhile (\<lambda>x. x \<noteq> b64_alphabet ! n) b64_alphabet = take n b64_alphabet"
      using n l d by (intro takeWhile_eq_take_P_nth) (auto simp: nth_eq_iff_index_eq)
    with n l show ?thesis by simp
  qed
  with n l show ?thesis by (simp add: b64_value_def b64_char_def)
qed

lemma b64_char_neq: "n < 64 \<Longrightarrow> b64_char n \<noteq> CHR ''=''" "n < 64 \<Longrightarrow> b64_char n \<noteq> CHR 0x0A" "n < 64 \<Longrightarrow> b64_char n \<noteq> CHR 0x0D"
proof -
  have "n < 64 \<Longrightarrow> b64_char n \<in> set b64_alphabet"
    unfolding b64_char_def by (rule nth_mem) (simp add: b64_alphabet_def)
  moreover have "CHR ''='' \<notin> set b64_alphabet" "CHR 0x0A \<notin> set b64_alphabet" "CHR 0x0D \<notin> set b64_alphabet"
    by (simp_all add: b64_alphabet_def)
  ultimately show "n < 64 \<Longrightarrow> b64_char n \<noteq> CHR ''=''" "n < 64 \<Longrightarrow> b64_char n \<noteq> CHR 0x0A" "n < 64 \<Longrightarrow> b64_char n \<noteq> CHR 0x0D"
    by metis+
qed

lemma sextets:
  fixes a b c :: nat
  assumes "a < 256" "b < 256" "c < 256"
  shows "a div 4 < 64" "a mod 4 * 16 < 64" "a mod 4 * 16 + b div 16 < 64" "b mod 16 * 4 < 64" "b mod 16 * 4 + c div 64 < 64" "c mod 64 < 64"
    "b div 16 div 16 = 0" "c div 64 div 4 = 0" "b div 16 mod 16 = b div 16" "c div 64 mod 4 = c div 64"
proof -
  have d: "a div 4 < 64" "b div 16 < 16" "c div 64 < 4" using assms by (simp_all add: less_mult_imp_div_less)
  have m: "a mod 4 < 4" "b mod 16 < 16" by simp_all
  show "a div 4 < 64" "a mod 4 * 16 < 64" "a mod 4 * 16 + b div 16 < 64" "b mod 16 * 4 < 64" "b mod 16 * 4 + c div 64 < 64" "c mod 64 < 64"
    using d m by linarith+
  show "b div 16 div 16 = 0" "c div 64 div 4 = 0" "b div 16 mod 16 = b div 16" "c div 64 mod 4 = c div 64"
    using d by simp_all
qed

lemma b64_decode_encode_bytes: "\<forall>b\<in>set bs. b < 256 \<Longrightarrow> b64_decode_bytes (b64_encode_bytes bs) = Some bs"
proof (induction bs rule: b64_encode_bytes.induct)
  case (2 a)
  then show ?case using sextets [of a 0 0] by (simp add: b64_value_char)
next
  case (3 a b)
  then show ?case using sextets [of a b 0] by (simp add: b64_value_char b64_char_neq)
next
  case (4 a b c bs)
  then show ?case using sextets [of a b c] by (simp add: b64_value_char b64_char_neq)
qed simp

lemma b64_encode_no_line_end:
  "\<forall>b\<in>set bs. b < 256 \<Longrightarrow> filter (\<lambda>ch. ch \<noteq> CHR 0x0A \<and> ch \<noteq> CHR 0x0D) (b64_encode_bytes bs) = b64_encode_bytes bs"
proof (induction bs rule: b64_encode_bytes.induct)
  case (2 a)
  then show ?case using sextets(1,2) [of a 0 0] by (simp add: b64_char_neq)
next
  case (3 a b)
  then show ?case using sextets(1,3,4) [of a b 0] by (simp add: b64_char_neq)
next
  case (4 a b c bs)
  then show ?case using sextets(1,3,5,6) [of a b c] by (simp add: b64_char_neq)
qed simp

lemma b64_decode_encode: "b64_decode (b64_encode v) = Some v"
proof -
  have "\<forall>b\<in>set (map (of_char :: char \<Rightarrow> nat) v). b < 256" by auto
  then show ?thesis
    by (simp add: b64_decode_def b64_encode_def b64_encode_no_line_end b64_decode_encode_bytes o_def)
qed

section \<open>Lemmas\<close>

lemma advance_ack_excluded:
  "advance_ack c acked = (c', acked') \<Longrightarrow>
     c \<le> c' \<and> set acked' \<subseteq> set acked \<and> (\<forall>s. s \<le> c' \<or> s \<in> set acked' \<longleftrightarrow> s \<le> c \<or> s \<in> set acked) \<and>
     (distinct acked \<longrightarrow> distinct acked') \<and> Suc c' \<notin> set acked'"
proof (induction c acked rule: advance_ack.induct)
  case (1 c acked)
  show ?case
  proof (cases "Suc c \<in> set acked")
    case True
    with 1 have "Suc c \<le> c' \<and> set acked' \<subseteq> set (removeAll (Suc c) acked) \<and>
        (\<forall>s. s \<le> c' \<or> s \<in> set acked' \<longleftrightarrow> s \<le> Suc c \<or> s \<in> set (removeAll (Suc c) acked)) \<and>
        (distinct (removeAll (Suc c) acked) \<longrightarrow> distinct acked') \<and> Suc c' \<notin> set acked'"
      by (subst (asm) advance_ack.simps) simp
    with True show ?thesis by (auto simp: le_Suc_eq distinct_removeAll)
  next
    case False
    with 1(2) show ?thesis by (subst (asm) advance_ack.simps) auto
  qed
qed

lemma advance_ack_above:
  assumes "advance_ack c acked = (c', acked')" and "\<forall>s\<in>set acked. c < s"
  shows "\<forall>s\<in>set acked'. c' < s"
  using assms
proof (induction c acked rule: advance_ack.induct)
  case (1 c acked)
  show ?case
  proof (cases "Suc c \<in> set acked")
    case True
    with 1(2) have "advance_ack (Suc c) (removeAll (Suc c) acked) = (c', acked')" by (subst (asm) advance_ack.simps) simp
    with 1(1) [OF True] 1(3) show ?thesis by (auto simp: Suc_lessI)
  next
    case False
    with 1(2,3) show ?thesis by (subst (asm) advance_ack.simps) auto
  qed
qed

lemma fold_max: "fold max xs (n::nat) = Max (insert n (set xs))"
  by (simp add: Max.set_eq_fold [symmetric])

lemma scan_entries_Good [simp]: "scan_entries (map Good es) = (es, True)"
  by (induction es) simp_all

text \<open>The state of a log whose file holds the entries \<open>es\<close>.\<close>

definition wal_inv :: "walEntry list \<Rightarrow> WAL \<Rightarrow> bool" where
  "wal_inv es w \<longleftrightarrow> wd_lines (w_disk w) = map Good es \<and> wd_tail (w_disk w) = None \<and> distinct (map we_Seq es) \<and>
     (\<forall>e\<in>set es. we_Seq e \<le> w_seq w) \<and> w_consecutive w \<le> w_seq w \<and>
     (\<forall>s\<in>set (w_acked w). w_consecutive w < s \<and> s \<in> we_Seq ` set es) \<and> distinct (w_acked w) \<and>
     (case readAck (w_disk w) of None \<Rightarrow> w_consecutive w = 0 \<and> w_acked w = []
      | Some (c, acked) \<Rightarrow> c = w_consecutive w \<and> set acked = set (w_acked w) \<and> distinct acked)"

definition wal_pending :: "walEntry list \<Rightarrow> WAL \<Rightarrow> walEntry list" where
  "wal_pending es w = filter (\<lambda>e. we_Seq e \<notin> set (w_acked w) \<and> w_consecutive w < we_Seq e) es"

lemma wal_inv_scan: "wal_inv es w \<Longrightarrow> scan_entries (scan_lines (w_disk w)) = (es, True)"
  by (simp add: wal_inv_def scan_lines_def)

lemma ReadAll_inv: "wal_inv es w \<Longrightarrow> wal_ReadAll w = (wal_pending es w, True)"
  by (simp add: wal_ReadAll_def readRemaining_def wal_inv_scan wal_pending_def)

lemma wal_inv_append:
  assumes inv: "wal_inv es w"
    and w': "w' = w\<lparr>w_seq := Suc (w_seq w), w_disk := write_line (Good e) (w_disk w)\<rparr>" and e: "we_Seq e = Suc (w_seq w)"
  shows "wal_inv (es @ [e]) w' \<and> wal_pending (es @ [e]) w' = wal_pending es w @ [e]"
proof -
  have "Suc (w_seq w) \<notin> set (w_acked w)" "Suc (w_seq w) \<notin> we_Seq ` set es" "w_consecutive w < Suc (w_seq w)"
    using inv by (fastforce simp: wal_inv_def)+
  with inv w' e show ?thesis
    by (auto simp: wal_inv_def wal_pending_def write_line_def glue_def readAck_def le_SucI split: option.splits)
qed

lemma persistAck_fields [simp]:
  "w_acked (persistAck ok w) = w_acked w" "w_consecutive (persistAck ok w) = w_consecutive w"
  "w_seq (persistAck ok w) = w_seq w"
  by (simp_all add: persistAck_def)

lemma wal_inv_ack:
  assumes inv: "wal_inv es w" and s: "s \<in> we_Seq ` set es"
  shows "wal_inv es (wal_Ack True s w) \<and> wal_pending es (wal_Ack True s w) = filter (\<lambda>e. we_Seq e \<noteq> s) (wal_pending es w)"
proof -
  let ?A = "if w_consecutive w < s then List.insert s (w_acked w) else w_acked w"
  obtain c A where a: "advance_ack (w_consecutive w) ?A = (c, A)" by fastforce
  have w: "wal_Ack True s w = persistAck True (w\<lparr>w_consecutive := c, w_acked := A\<rparr>)"
    by (simp add: wal_Ack_def a del: List.insert_def)
  have above: "\<forall>x\<in>set ?A. w_consecutive w < x" using inv by (auto simp: wal_inv_def)
  have ex: "\<And>x. x \<le> c \<or> x \<in> set A \<longleftrightarrow> x \<le> w_consecutive w \<or> x \<in> set ?A" and sub: "set A \<subseteq> set ?A"
    and dis: "distinct A"
    using advance_ack_excluded [OF a] inv by (auto simp: wal_inv_def)
  have seqs: "set ?A \<subseteq> we_Seq ` set es" using inv s by (auto simp: wal_inv_def)
  have bound: "\<forall>x\<in>we_Seq ` set es. x \<le> w_seq w" using inv by (auto simp: wal_inv_def)
  have "c \<le> w_seq w"
  proof (cases "c \<le> w_consecutive w")
    case True
    with inv show ?thesis by (auto simp: wal_inv_def)
  next
    case False
    with ex [of c] have "c \<in> set ?A" by simp
    with seqs bound show ?thesis by blast
  qed
  then have "wal_inv es (wal_Ack True s w)"
    using inv dis sub seqs advance_ack_above [OF a above]
    unfolding w wal_inv_def persistAck_def readAck_def by (auto split: if_splits)
  moreover have "wal_pending es (wal_Ack True s w) = filter (\<lambda>e. we_Seq e \<noteq> s) (wal_pending es w)"
    unfolding w wal_pending_def filter_filter
  proof (rule filter_cong [OF refl])
    fix e assume "e \<in> set es"
    show "(we_Seq e \<notin> set (w_acked (persistAck True (w\<lparr>w_consecutive := c, w_acked := A\<rparr>))) \<and>
        w_consecutive (persistAck True (w\<lparr>w_consecutive := c, w_acked := A\<rparr>)) < we_Seq e) =
      ((we_Seq e \<notin> set (w_acked w) \<and> w_consecutive w < we_Seq e) \<and> we_Seq e \<noteq> s)"
      using ex [of "we_Seq e"] by (auto split: if_splits)
  qed
  ultimately show ?thesis by blast
qed


lemma wal_inv_compact:
  assumes inv: "wal_inv es w" and k: "length (wal_pending es w) \<le> k"
  shows "\<exists>es'. wal_inv es' (wal_Compact (CompactRenamed k True) w) \<and>
    wal_pending es' (wal_Compact (CompactRenamed k True) w) = wal_pending es w"
proof (cases "w_seq w \<le> w_consecutive w")
  case True
  have "s \<le> w_seq w" if "s \<in> set (w_acked w)" for s using inv that by (auto simp: wal_inv_def)
  with True have "w_acked w = []" using inv by (cases "w_acked w") (fastforce simp: wal_inv_def)+
  moreover have "wal_pending es w = []" using True inv by (fastforce simp: wal_inv_def wal_pending_def filter_empty_conv)
  ultimately have "w_acked w = []" "wal_pending es w = []" by simp_all
  with True inv show ?thesis
    by (intro exI [of _ "[]"]) (auto simp: wal_Compact_def wal_inv_def wal_pending_def readAck_def split: option.splits)
next
  case False
  let ?w = "wal_Compact (CompactRenamed k True) w"
  have r: "readRemaining w (w_consecutive w) = (wal_pending es w, True)"
    using ReadAll_inv [OF inv] by (simp add: wal_ReadAll_def)
  have f: "filter (\<lambda>e. we_Seq e \<notin> set (w_acked w)) (wal_pending es w) = wal_pending es w"
    unfolding wal_pending_def filter_filter by (rule filter_cong) auto
  have w: "?w = persistAck True (w\<lparr>w_broken := False, w_acked := [],
      w_disk := (w_disk w)\<lparr>wd_lines := map Good (wal_pending es w), wd_tail := None\<rparr>\<rparr>)"
    using False k r f by (simp add: wal_Compact_def)
  have "distinct (map we_Seq (wal_pending es w))" "\<forall>e\<in>set (wal_pending es w). we_Seq e \<le> w_seq w"
    using inv by (auto simp: wal_inv_def wal_pending_def distinct_map_filter)
  then have "wal_inv (wal_pending es w) ?w"
    unfolding w using inv by (simp add: wal_inv_def persistAck_def readAck_def)
  moreover have "wal_pending (wal_pending es w) ?w = wal_pending es w"
    unfolding w by (simp add: wal_pending_def filter_id_conv)
  ultimately show ?thesis by blast
qed

lemma wal_inv_restart:
  assumes inv: "wal_inv es w"
  shows "wal_inv es (NewWAL (w_disk w)) \<and> wal_pending es (NewWAL (w_disk w)) = wal_pending es w"
proof -
  let ?last = "fold max (map we_Seq es) 0"
  have last: "\<forall>e\<in>set es. we_Seq e \<le> ?last" by (simp add: fold_max)
  have sc: "scanLastSeq (w_disk w) = Some ?last" using wal_inv_scan [OF inv] by (simp add: scanLastSeq_def)
  obtain A where A: "NewWAL (w_disk w) = \<lparr>w_seq = max ?last (w_consecutive w), w_acked = A, w_consecutive = w_consecutive w,
      w_broken = False, w_disk = w_disk w\<rparr>" "set A = set (w_acked w)" "distinct A"
  proof (cases "readAck (w_disk w)")
    case None
    with inv have "w_consecutive w = 0" "w_acked w = []" by (auto simp: wal_inv_def)
    with None sc show ?thesis by (intro that [of "[]"]) (auto simp: NewWAL_def wal_recover_def Let_def)
  next
    case (Some st)
    then obtain acked where st: "st = (w_consecutive w, acked)" "set acked = set (w_acked w)" "distinct acked"
      using inv by (cases st) (auto simp: wal_inv_def)
    with inv have "filter (\<lambda>s. w_consecutive w < s) acked = acked" by (auto simp: wal_inv_def intro: filter_True)
    with Some st sc show ?thesis by (intro that [of acked]) (auto simp: NewWAL_def wal_recover_def distinct_remdups_id Let_def max_def)
  qed
  have "we_Seq e \<le> max ?last (w_consecutive w)" if "e \<in> set es" for e using last that by (simp add: le_max_iff_disj)
  with inv A show ?thesis by (auto simp: wal_inv_def wal_pending_def split: option.splits)
qed

section \<open>Refinement of the queue of owed batches\<close>

definition empty_disk :: wal_disk where
  "empty_disk = \<lparr>wd_lines = [], wd_tail = None, wd_ack = None\<rparr>"

text \<open>
  A history of a log together with the batches it owes: appended, and not acknowledged.  A failed flush
  leaves nothing, a failed sync the whole line; an acknowledgement names an owed batch; the files of
  \<open>Ack\<close> and \<open>Compact\<close> are written completely.
\<close>

inductive wal_reach :: "WAL \<Rightarrow> walEntry list \<Rightarrow> bool" where
  start: "wal_reach (NewWAL empty_disk) []"
| append: "wal_reach w owed \<Longrightarrow> wal_Append (\<lambda>_. False) IoOk now kind v w = (Some s, w') \<Longrightarrow>
    wal_reach w' (owed @ [\<lparr>we_Seq = s, we_Kind = kind, we_Value = b64_encode v, we_At = now\<rparr>])"
| append_unsynced: "wal_reach w owed \<Longrightarrow> \<not> w_broken w \<Longrightarrow> wal_Append (\<lambda>_. False) IoSyncFails now kind v w = (None, w') \<Longrightarrow>
    wal_reach w' (owed @ [\<lparr>we_Seq = Suc (w_seq w), we_Kind = kind, we_Value = b64_encode v, we_At = now\<rparr>])"
| append_fails: "wal_reach w owed \<Longrightarrow> wal_Append (\<lambda>_. False) (IoFlushFails None) now kind v w = (None, w') \<Longrightarrow> wal_reach w' owed"
| ack: "wal_reach w owed \<Longrightarrow> s \<in> we_Seq ` set owed \<Longrightarrow> wal_reach (wal_Ack True s w) (filter (\<lambda>e. we_Seq e \<noteq> s) owed)"
| compact: "wal_reach w owed \<Longrightarrow> length owed \<le> k \<Longrightarrow> wal_reach (wal_Compact (CompactRenamed k True) w) owed"
| restart: "wal_reach w owed \<Longrightarrow> wal_reach (NewWAL (w_disk w)) owed"

lemma wal_reach_inv: "wal_reach w owed \<Longrightarrow> \<exists>es. wal_inv es w \<and> wal_pending es w = owed"
proof (induction rule: wal_reach.induct)
  case start
  show ?case
    by (intro exI [of _ "[]"])
      (simp add: wal_inv_def wal_pending_def empty_disk_def NewWAL_def wal_recover_def readAck_def scanLastSeq_def scan_lines_def)
next
  case (append w owed now kind v s w')
  then obtain es where es: "wal_inv es w" "wal_pending es w = owed" by blast
  let ?e = "\<lparr>we_Seq = Suc (w_seq w), we_Kind = kind, we_Value = b64_encode v, we_At = now\<rparr>"
  have "s = Suc (w_seq w)" "w' = w\<lparr>w_seq := Suc (w_seq w), w_disk := write_line (Good ?e) (w_disk w)\<rparr>"
    using append(2) by (simp_all add: wal_Append_def Let_def entry_line_def split: if_splits) auto
  with wal_inv_append [OF es(1), of w' ?e] es(2) show ?case by auto
next
  case (append_unsynced w owed now kind v w')
  then obtain es where es: "wal_inv es w" "wal_pending es w = owed" by blast
  let ?e = "\<lparr>we_Seq = Suc (w_seq w), we_Kind = kind, we_Value = b64_encode v, we_At = now\<rparr>"
  have "w' = w\<lparr>w_seq := Suc (w_seq w), w_disk := write_line (Good ?e) (w_disk w)\<rparr>"
    using append_unsynced(2,3) by (simp add: wal_Append_def Let_def entry_line_def)
  with wal_inv_append [OF es(1), of w' ?e] es(2) show ?case by auto
next
  case (append_fails w owed now kind v w')
  then obtain es where es: "wal_inv es w" "wal_pending es w = owed" by blast
  have "w_seq w' = Suc (w_seq w)" "w_disk w' = w_disk w" "w_acked w' = w_acked w" "w_consecutive w' = w_consecutive w"
    using append_fails(2) by (auto simp: wal_Append_def Let_def split: if_splits)
  with es show ?case by (intro exI [of _ es]) (auto simp: wal_inv_def wal_pending_def le_SucI split: option.splits)
next
  case (ack w owed s)
  then obtain es where es: "wal_inv es w" "wal_pending es w = owed" by blast
  with ack(2) have "s \<in> we_Seq ` set es" by (auto simp: wal_pending_def)
  with wal_inv_ack [OF es(1)] es(2) show ?case by auto
next
  case (compact w owed k)
  then obtain es where "wal_inv es w" "wal_pending es w = owed" by blast
  with wal_inv_compact [of es w k] compact(2) show ?case by auto
next
  case (restart w owed)
  then show ?case using wal_inv_restart by blast
qed

lemma fold_stats:
  "ps_Records (fold (stats_entry c) es st) = ps_Records st + length (filter (\<lambda>e. c < we_Seq e) es)"
  "ps_Bytes (fold (stats_entry c) es st) = ps_Bytes st +
     sum_list (map (\<lambda>e. case b64_decode (we_Value e) of None \<Rightarrow> 0 | Some v \<Rightarrow> length v) (filter (\<lambda>e. c < we_Seq e) es))"
  by (induction es arbitrary: st) (simp_all add: stats_entry_def)

text \<open>
  C35.  The log refines the queue of owed batches.  After any history of appends, acknowledgements in any
  order, compactions and restarts, \<open>ReadAll\<close> returns exactly the batches that were appended and not
  acknowledged, in the order of the appends, and the pending statistics count exactly them.
\<close>

theorem wal_refines_owed:
  assumes "wal_reach w owed"
  shows "wal_ReadAll w = (owed, True) \<and> ps_Records (wal_PendingStats now w) = length owed \<and>
    ps_Bytes (wal_PendingStats now w) = sum_list (map (\<lambda>e. case b64_decode (we_Value e) of None \<Rightarrow> 0 | Some v \<Rightarrow> length v) owed)"
proof -
  obtain es where inv: "wal_inv es w" and owed: "wal_pending es w = owed" using wal_reach_inv [OF assms] by blast
  have r: "wal_ReadAll w = (owed, True)" using ReadAll_inv [OF inv] owed by simp
  have f: "filter (\<lambda>e. w_consecutive w < we_Seq e) owed = owed" using owed by (auto simp: wal_pending_def filter_id_conv)
  let ?st = "fold (stats_entry (w_consecutive w)) owed \<lparr>ps_Records = 0, ps_Bytes = 0, ps_Oldest = 0\<rparr>"
  have "wal_PendingStats now w = (if ps_Oldest ?st = 0 then ?st\<lparr>ps_Oldest := now\<rparr> else ?st)"
    using r by (simp add: wal_PendingStats_def wal_ReadAll_def Let_def)
  then have "ps_Records (wal_PendingStats now w) = ps_Records ?st" "ps_Bytes (wal_PendingStats now w) = ps_Bytes ?st" by simp_all
  with r show ?thesis by (simp add: fold_stats f)
qed

definition sample_wal :: WAL where
  "sample_wal =
     (let w = NewWAL empty_disk;
          w = snd (wal_Append (\<lambda>_. False) IoOk 10 ''k8s'' ''a'' w);
          w = snd (wal_Append (\<lambda>_. False) IoOk 20 ''k8s'' ''bc'' w)
      in snd (wal_Append (\<lambda>_. False) IoOk 30 ''k8s'' ''d'' w))"

lemma wal_reach_append:
  "wal_reach w owed \<Longrightarrow> \<not> w_broken w \<Longrightarrow> wal_reach (snd (wal_Append (\<lambda>_. False) IoOk now kind v w))
     (owed @ [\<lparr>we_Seq = Suc (w_seq w), we_Kind = kind, we_Value = b64_encode v, we_At = now\<rparr>])"
  by (rule wal_reach.append [of w owed]) (simp_all add: wal_Append_def Let_def)

theorem wal_refines_owed_witness:
  "map we_Seq (fst (wal_ReadAll (wal_Compact (CompactRenamed 9 True) (wal_Ack True 2 sample_wal)))) = [1, 3] \<and>
   wal_ReadAll (NewWAL (w_disk (wal_Ack True 2 sample_wal))) = wal_ReadAll (wal_Ack True 2 sample_wal)"
proof -
  let ?w1 = "snd (wal_Append (\<lambda>_. False) IoOk 10 ''k8s'' ''a'' (NewWAL empty_disk))"
  let ?w2 = "snd (wal_Append (\<lambda>_. False) IoOk 20 ''k8s'' ''bc'' ?w1)"
  let ?e = "\<lambda>w kind v now. \<lparr>we_Seq = Suc (w_seq w), we_Kind = kind, we_Value = b64_encode v, we_At = now\<rparr>"
  let ?o = "[?e (NewWAL empty_disk) ''k8s'' ''a'' 10, ?e ?w1 ''k8s'' ''bc'' 20, ?e ?w2 ''k8s'' ''d'' (30::int)]"
  have b: "\<not> w_broken (NewWAL empty_disk)" "\<not> w_broken ?w1" "\<not> w_broken ?w2" by code_simp+
  have "wal_reach sample_wal ?o"
    using wal_reach_append [OF wal_reach_append [OF wal_reach_append [OF wal_reach.start b(1)] b(2)] b(3), of 30 "''k8s''" "''d''"]
    by (simp add: sample_wal_def Let_def)
  moreover have q: "map we_Seq ?o = [1, 2, 3]" by code_simp
  then have "2 \<in> we_Seq ` set ?o" unfolding set_map [symmetric] by simp
  ultimately have r: "wal_reach (wal_Ack True 2 sample_wal) (filter (\<lambda>e. we_Seq e \<noteq> 2) ?o)" by (rule wal_reach.ack)
  have "length (filter (\<lambda>e. we_Seq e \<noteq> 2) ?o) \<le> 9" by (rule order_trans [OF length_filter_le]) simp
  with r have "wal_reach (wal_Compact (CompactRenamed 9 True) (wal_Ack True 2 sample_wal)) (filter (\<lambda>e. we_Seq e \<noteq> 2) ?o)"
    by (rule wal_reach.compact)
  from wal_refines_owed [OF this] have "fst (wal_ReadAll (wal_Compact (CompactRenamed 9 True) (wal_Ack True 2 sample_wal))) =
      filter (\<lambda>e. we_Seq e \<noteq> 2) ?o" by simp
  moreover have "map we_Seq (filter (\<lambda>e. we_Seq e \<noteq> 2) ?o) = filter (\<lambda>x. x \<noteq> 2) (map we_Seq ?o)"
    by (simp only: filter_map o_def)
  moreover have "wal_ReadAll (NewWAL (w_disk (wal_Ack True 2 sample_wal))) = wal_ReadAll (wal_Ack True 2 sample_wal)"
    using wal_refines_owed [OF r] wal_refines_owed [OF wal_reach.restart [OF r]] by simp
  ultimately show ?thesis using q by simp
qed

section \<open>Where the log loses a batch\<close>

text \<open>
  After a crash that left an unterminated line, the first append of the next process completes that line
  and cannot be read back, although it reports success.
\<close>

theorem wal_torn_tail_swallows_append:
  assumes "wd_tail (w_disk w) = Some l" and "\<not> w_broken w" and "\<forall>e\<in>set (fst (scan_entries (wd_lines (w_disk w)))). we_Seq e \<le> w_seq w"
  shows "\<exists>s w'. wal_Append too_long IoOk now kind v w = (Some s, w') \<and> s \<notin> we_Seq ` set (fst (wal_ReadAll w'))"
proof -
  have "fst (scan_entries (ls @ [x])) = fst (scan_entries ls)" if "x = Corrupt \<or> x = TooLong" for ls x
    using that by (induction ls rule: scan_entries.induct) (auto simp: case_prod_beta Let_def)
  moreover have "glue (Some l) y = Corrupt \<or> glue (Some l) y = TooLong" for y by (cases l) (simp_all add: glue_def)
  ultimately have "fst (scan_entries (wd_lines (w_disk w) @ [glue (Some l) y])) = fst (scan_entries (wd_lines (w_disk w)))" for y
    by blast
  then have "Suc (w_seq w) \<notin> we_Seq ` set (fst (scan_entries (wd_lines (w_disk w) @ [glue (Some l) y])))" for y
    using assms(3) by fastforce
  with assms(1,2) show ?thesis
    by (auto simp: wal_Append_def Let_def wal_ReadAll_def readRemaining_def scan_lines_def write_line_def case_prod_beta)
qed

text \<open>
  A crash between the two renames of \<open>Compact\<close> leaves acknowledged numbers in the ack file that are no
  longer in the log; the next process reuses such a number, and its batch counts as acknowledged.
\<close>

theorem wal_compact_crash_loses_append:
  "let w = wal_Ack True 3 (wal_Ack True 2 sample_wal);
       w = NewWAL (w_disk (wal_Compact (CompactRenamed 9 False) w));
       (s, w') = wal_Append (\<lambda>_. False) IoOk 40 ''k8s'' ''e'' w
   in s = Some 2 \<and> map we_Seq (fst (wal_ReadAll w')) = [1]"
  by code_simp

end
