(* ===== verification/LeaderElection.thy ===== *)
theory LeaderElection
  imports Executor
begin

text \<open>
  The leader election of the event collector (\<open>ai-event-collector/internal/leaderelection\<close> and its
  \<open>leaderelection.go\<close>): of the collectors of a cluster only the holder of a Kubernetes Lease shall watch
  the cluster.

  Several collectors race on the Lease, and the races are between single requests.  The code is
  therefore a program of interactions: an HTTP request, a reading of the clock, a \<open>select\<close> on the
  cancellation of its context, a call of \<open>onLeadership\<close>.  A system of collectors interleaves the
  interactions of their programs over one API server.  The API server is an argument.  So are
  \<open>time.Parse(time.RFC3339, s)\<close> and the question whether a URL is well-formed.  Times are microseconds, the
  precision of a Lease; an error is only logged by the code and has no text here.

  A collector that fails to renew steps down before it does anything else (\<open>elector_fail_safe\<close>), and left alone
  the collectors behave as one expects (\<open>elector_alone\<close>).  But \<open>Update\<close> reads the Lease again and writes whatever
  the holder is: two collectors that both saw a free Lease can both lead, for ever
  (\<open>two_leaders_for_ever\<close>).
\<close>

type_synonym micros = int

section \<open>Programs\<close>

datatype 'a prog =
    Done 'a
  | Ask http_request "http_response \<Rightarrow> 'a prog"
  | Clock "micros \<Rightarrow> 'a prog"
  | Select "bool \<Rightarrow> 'a prog"
  | Signal bool "'a prog"

primrec andThen :: "'a prog \<Rightarrow> ('a \<Rightarrow> 'b prog) \<Rightarrow> 'b prog" where
  "andThen (Done a) f = f a"
| "andThen (Ask q k) f = Ask q (\<lambda>r. andThen (k r) f)"
| "andThen (Clock k) f = Clock (\<lambda>t. andThen (k t) f)"
| "andThen (Select k) f = Select (\<lambda>c. andThen (k c) f)"
| "andThen (Signal b p) f = Signal b (andThen p f)"

section \<open>The Lease client\<close>

record kubeLease =
  kl_Name :: gostring
  kl_ResourceVersion :: gostring
  kl_HolderIdentity :: gostring
  kl_LeaseDurationSeconds :: int
  kl_AcquireTime :: gostring
  kl_RenewTime :: gostring
  kl_LeaseTransitions :: int

record LeaseInfo =
  li_Holder :: gostring
  li_AcquireTime :: gostring
  li_RenewTime :: "micros option"
  li_ResourceVersion :: gostring

record leaseClient =
  lc_baseURL :: gostring
  lc_token :: gostring

record lease_env =
  le_parse :: "gostring \<Rightarrow> micros option"
  le_accepts :: "gostring \<Rightarrow> bool"

definition lease_time :: "micros \<Rightarrow> gostring" where
  "lease_time t = butlast (rfc3339 (t div 1000)) @ ''.'' @ pad_int 6 (t mod 1000000) @ ''Z''"

definition NewLeaseClientWithToken :: "gostring \<Rightarrow> gostring \<Rightarrow> leaseClient" where
  "NewLeaseClientWithToken base token = \<lparr>lc_baseURL = trim_slashes base, lc_token = trim_space token\<rparr>"

definition leaseCollectionURL :: "leaseClient \<Rightarrow> gostring \<Rightarrow> gostring" where
  "leaseCollectionURL c ns = lc_baseURL c @ ''/apis/coordination.k8s.io/v1/namespaces/'' @ ns @ ''/leases''"

definition leaseURL :: "leaseClient \<Rightarrow> gostring \<Rightarrow> gostring \<Rightarrow> gostring" where
  "leaseURL c ns name = lc_baseURL c @ ''/apis/coordination.k8s.io/v1/namespaces/'' @ ns @ ''/leases/'' @ name"

definition lease_request :: "leaseClient \<Rightarrow> gostring \<Rightarrow> gostring \<Rightarrow> gostring \<Rightarrow> gostring \<Rightarrow> http_request" where
  "lease_request c m url body ctype =
     \<lparr>hq_method = m, hq_url = url, hq_body = body, hq_contentType = ctype, hq_ifMatch = [],
      hq_authorization = (if lc_token c = [] then [] else ''Bearer '' @ lc_token c)\<rparr>"

text \<open>The struct in the order of its fields, as \<open>json.Marshal\<close> writes it.\<close>

definition lease_json :: "kubeLease \<Rightarrow> json" where
  "lease_json l = JObj
     [(''metadata'', JObj [(''name'', JStr (kl_Name l)), (''resourceVersion'', JStr (kl_ResourceVersion l))]),
      (''spec'', JObj [(''holderIdentity'', JStr (kl_HolderIdentity l)),
         (''leaseDurationSeconds'', JNum (dec_int (kl_LeaseDurationSeconds l))), (''acquireTime'', JStr (kl_AcquireTime l)),
         (''renewTime'', JStr (kl_RenewTime l)), (''leaseTransitions'', JNum (dec_int (kl_LeaseTransitions l)))])]"

definition zero_lease :: kubeLease where
  "zero_lease = \<lparr>kl_Name = [], kl_ResourceVersion = [], kl_HolderIdentity = [], kl_LeaseDurationSeconds = 0,
     kl_AcquireTime = [], kl_RenewTime = [], kl_LeaseTransitions = 0\<rparr>"

definition dec_lease_metadata :: "gostring \<Rightarrow> json \<Rightarrow> kubeLease \<Rightarrow> kubeLease option" where
  "dec_lease_metadata k v l =
     (if k = ''name'' then map_option (\<lambda>s. l\<lparr>kl_Name := s\<rparr>) (dec_str v (kl_Name l))
      else if k = ''resourceversion'' then map_option (\<lambda>s. l\<lparr>kl_ResourceVersion := s\<rparr>) (dec_str v (kl_ResourceVersion l))
      else Some l)"

definition dec_lease_spec :: "gostring \<Rightarrow> json \<Rightarrow> kubeLease \<Rightarrow> kubeLease option" where
  "dec_lease_spec k v l =
     (if k = ''holderidentity'' then map_option (\<lambda>s. l\<lparr>kl_HolderIdentity := s\<rparr>) (dec_str v (kl_HolderIdentity l))
      else if k = ''leasedurationseconds''
      then map_option (\<lambda>n. l\<lparr>kl_LeaseDurationSeconds := n\<rparr>) (dec_int32 v (kl_LeaseDurationSeconds l))
      else if k = ''acquiretime'' then map_option (\<lambda>s. l\<lparr>kl_AcquireTime := s\<rparr>) (dec_str v (kl_AcquireTime l))
      else if k = ''renewtime'' then map_option (\<lambda>s. l\<lparr>kl_RenewTime := s\<rparr>) (dec_str v (kl_RenewTime l))
      else if k = ''leasetransitions''
      then map_option (\<lambda>n. l\<lparr>kl_LeaseTransitions := n\<rparr>) (dec_int32 v (kl_LeaseTransitions l))
      else Some l)"

definition decode_lease :: "gostring \<Rightarrow> kubeLease option" where
  "decode_lease body =
     (case json_first body of
        None \<Rightarrow> None
      | Some j \<Rightarrow> dec_struct (\<lambda>k v l. if k = ''metadata'' then dec_struct dec_lease_metadata v l
                                   else if k = ''spec'' then dec_struct dec_lease_spec v l else Some l) j zero_lease)"

definition lease_info :: "lease_env \<Rightarrow> kubeLease \<Rightarrow> LeaseInfo" where
  "lease_info le l =
     \<lparr>li_Holder = kl_HolderIdentity l, li_AcquireTime = kl_AcquireTime l,
      li_RenewTime = (if kl_RenewTime l = [] then None else le_parse le (kl_RenewTime l)),
      li_ResourceVersion = kl_ResourceVersion l\<rparr>"

text \<open>What \<open>Get\<close> makes of an answer; \<open>None\<close> is an error.  An absent Lease is the zero \<open>LeaseInfo\<close>.\<close>

definition get_answer :: "lease_env \<Rightarrow> http_response \<Rightarrow> LeaseInfo option" where
  "get_answer le r = (case r of
      NetError _ \<Rightarrow> None
    | Response code _ body \<Rightarrow>
        if code = 404 then Some \<lparr>li_Holder = [], li_AcquireTime = [], li_RenewTime = None, li_ResourceVersion = []\<rparr>
        else if code \<noteq> 200 then None
        else map_option (lease_info le) (decode_lease body))"

definition lease_get :: "leaseClient \<Rightarrow> gostring \<Rightarrow> gostring \<Rightarrow> http_request" where
  "lease_get c ns name = lease_request c ''GET'' (leaseURL c ns name) [] []"

definition leaseClient_Get :: "lease_env \<Rightarrow> leaseClient \<Rightarrow> gostring \<Rightarrow> gostring \<Rightarrow> LeaseInfo option prog" where
  "leaseClient_Get le c ns name =
     (if le_accepts le (leaseURL c ns name) then Ask (lease_get c ns name) (\<lambda>r. Done (get_answer le r)) else Done None)"

text \<open>The Lease that \<open>Create\<close> and \<open>put\<close> send: its duration and its transitions are constants.\<close>

definition sent_lease :: "gostring \<Rightarrow> gostring \<Rightarrow> gostring \<Rightarrow> gostring \<Rightarrow> gostring \<Rightarrow> kubeLease" where
  "sent_lease name version holder acquired renewed =
     zero_lease\<lparr>kl_Name := name, kl_ResourceVersion := version, kl_HolderIdentity := holder,
       kl_LeaseDurationSeconds := 15, kl_AcquireTime := acquired, kl_RenewTime := renewed\<rparr>"

definition lease_post :: "leaseClient \<Rightarrow> gostring \<Rightarrow> kubeLease \<Rightarrow> http_request" where
  "lease_post c ns l = lease_request c ''POST'' (leaseCollectionURL c ns) (json_text (lease_json l)) ''application/json''"

definition lease_put :: "leaseClient \<Rightarrow> gostring \<Rightarrow> gostring \<Rightarrow> kubeLease \<Rightarrow> http_request" where
  "lease_put c ns name l = lease_request c ''PUT'' (leaseURL c ns name) (json_text (lease_json l)) ''application/json''"

definition answered :: "int list \<Rightarrow> http_response \<Rightarrow> bool" where
  "answered codes r = (case r of NetError _ \<Rightarrow> False | Response code _ _ \<Rightarrow> code \<in> set codes)"

definition leaseClient_Create :: "lease_env \<Rightarrow> leaseClient \<Rightarrow> gostring \<Rightarrow> gostring \<Rightarrow> gostring \<Rightarrow> bool prog" where
  "leaseClient_Create le c ns name holder =
     Clock (\<lambda>acquired. Clock (\<lambda>renewed.
       if le_accepts le (leaseCollectionURL c ns)
       then Ask (lease_post c ns (sent_lease name [] holder (lease_time acquired) (lease_time renewed)))
              (\<lambda>r. Done (answered [201, 200] r))
       else Done False))"

definition leaseClient_put ::
  "lease_env \<Rightarrow> leaseClient \<Rightarrow> gostring \<Rightarrow> gostring \<Rightarrow> gostring \<Rightarrow> gostring \<Rightarrow> gostring \<Rightarrow> micros \<Rightarrow> bool prog" where
  "leaseClient_put le c ns name holder version acquired renewed =
     (if le_accepts le (leaseURL c ns name)
      then Ask (lease_put c ns name (sent_lease name version holder acquired (lease_time renewed)))
             (\<lambda>r. Done (answered [200] r))
      else Done False)"

definition leaseClient_Update :: "lease_env \<Rightarrow> leaseClient \<Rightarrow> gostring \<Rightarrow> gostring \<Rightarrow> gostring \<Rightarrow> bool prog" where
  "leaseClient_Update le c ns name holder =
     andThen (leaseClient_Get le c ns name) (\<lambda>i. case i of
        None \<Rightarrow> Done False
      | Some info \<Rightarrow>
          if li_ResourceVersion info = [] then Done False
          else Clock (\<lambda>t. leaseClient_put le c ns name holder (li_ResourceVersion info) (li_AcquireTime info) t))"

definition leaseClient_Release :: "lease_env \<Rightarrow> leaseClient \<Rightarrow> gostring \<Rightarrow> gostring \<Rightarrow> bool prog" where
  "leaseClient_Release le c ns name =
     andThen (leaseClient_Get le c ns name) (\<lambda>i. case i of
        None \<Rightarrow> Done False
      | Some info \<Rightarrow>
          if li_ResourceVersion info = [] then Done True
          else Clock (\<lambda>t. leaseClient_put le c ns name [] (li_ResourceVersion info) (li_AcquireTime info) (t - 3600 * 10 ^ 6)))"

section \<open>The elector\<close>

record elect_options =
  eo_Namespace :: gostring
  eo_Name :: gostring
  eo_Identity :: gostring
  eo_LeaseDuration :: micros
  eo_RenewDeadline :: micros
  eo_RetryPeriod :: micros

record elector =
  el_client :: leaseClient
  el_opts :: elect_options

definition NewElector :: "leaseClient \<Rightarrow> elect_options \<Rightarrow> elector" where
  "NewElector c opts = \<lparr>el_client = c, el_opts = opts
     \<lparr>eo_LeaseDuration := (if eo_LeaseDuration opts \<le> 0 then 15 * 10 ^ 6 else eo_LeaseDuration opts),
      eo_RenewDeadline := (if eo_RenewDeadline opts \<le> 0 then 2 * 10 ^ 6 else eo_RenewDeadline opts),
      eo_RetryPeriod := (if eo_RetryPeriod opts \<le> 0 then 10 ^ 6 else eo_RetryPeriod opts)\<rparr>\<rparr>"

definition leaseExpired :: "elector \<Rightarrow> LeaseInfo \<Rightarrow> bool prog" where
  "leaseExpired e info = (case li_RenewTime info of
      None \<Rightarrow> Done True
    | Some renewed \<Rightarrow> Clock (\<lambda>t. Done (t - renewed > eo_LeaseDuration (el_opts e))))"

definition lease_of :: "elector \<Rightarrow> (leaseClient \<Rightarrow> gostring \<Rightarrow> gostring \<Rightarrow> 'a) \<Rightarrow> 'a" where
  "lease_of e f = f (el_client e) (eo_Namespace (el_opts e)) (eo_Name (el_opts e))"

definition tryUpdate :: "lease_env \<Rightarrow> elector \<Rightarrow> bool prog" where
  "tryUpdate le e = lease_of e (leaseClient_Update le) (eo_Identity (el_opts e))"

text \<open>The second half of \<open>tryAcquire\<close>: write the Lease, then read it again.\<close>

definition take_lease :: "lease_env \<Rightarrow> elector \<Rightarrow> LeaseInfo \<Rightarrow> bool prog" where
  "take_lease le e info =
     andThen (if li_Holder info = [] \<and> li_ResourceVersion info = []
              then lease_of e (leaseClient_Create le) (eo_Identity (el_opts e)) else tryUpdate le e)
       (\<lambda>ok. if \<not> ok then Done False
             else andThen (lease_of e (leaseClient_Get le)) (\<lambda>i. case i of
                 None \<Rightarrow> Done False
               | Some again \<Rightarrow> Done (li_Holder again = eo_Identity (el_opts e))))"

definition tryAcquire :: "lease_env \<Rightarrow> elector \<Rightarrow> bool prog" where
  "tryAcquire le e =
     andThen (lease_of e (leaseClient_Get le)) (\<lambda>i. case i of
        None \<Rightarrow> Done False
      | Some info \<Rightarrow>
          if li_Holder info = [] then take_lease le e info
          else andThen (leaseExpired e info) (\<lambda>expired.
                 if expired then take_lease le e info
                 else if li_Holder info = eo_Identity (el_opts e) then tryUpdate le e
                 else Done False))"

text \<open>
  \<open>Run\<close> is the loop over \<open>tryAcquire\<close> with the loop of \<open>renewLoop\<close> inside.  \<open>elector_body\<close> is one pass of the loop that
  the elector is in and gives the loop it is in afterwards.
\<close>

datatype elector_loop = Competing | Renewing micros | Returned

definition retry_later :: "elector_loop prog" where
  "retry_later = Select (\<lambda>cancelled. Done (if cancelled then Returned else Competing))"

definition step_down :: "lease_env \<Rightarrow> elector \<Rightarrow> elector_loop prog" where
  "step_down le e = Signal False (andThen (lease_of e (leaseClient_Release le)) (\<lambda>_. retry_later))"

definition renew_pass :: "lease_env \<Rightarrow> elector \<Rightarrow> micros \<Rightarrow> elector_loop prog" where
  "renew_pass le e lastRenew =
     Select (\<lambda>cancelled.
       if cancelled then step_down le e
       else Clock (\<lambda>t.
         if t - lastRenew > eo_RenewDeadline (el_opts e) then step_down le e
         else andThen (tryUpdate le e) (\<lambda>ok. if \<not> ok then step_down le e else Clock (\<lambda>now. Done (Renewing now)))))"

definition compete_pass :: "lease_env \<Rightarrow> elector \<Rightarrow> elector_loop prog" where
  "compete_pass le e =
     Select (\<lambda>cancelled.
       if cancelled then Done Returned
       else andThen (tryAcquire le e) (\<lambda>ok.
         if ok then Signal True (Clock (\<lambda>now. Done (Renewing now))) else retry_later))"

definition elector_body :: "lease_env \<Rightarrow> elector \<Rightarrow> elector_loop \<Rightarrow> elector_loop prog" where
  "elector_body le e pc = (case pc of
      Competing \<Rightarrow> compete_pass le e
    | Renewing t \<Rightarrow> renew_pass le e t
    | Returned \<Rightarrow> Done Returned)"

section \<open>The watch of the collector\<close>

record collector_config =
  cc_LeaseNamespace :: gostring
  cc_LeaseName :: gostring

definition podName :: "gostring \<Rightarrow> gostring \<Rightarrow> gostring \<Rightarrow> gostring" where
  "podName HOSTNAME POD_NAME host =
     (if HOSTNAME \<noteq> [] then HOSTNAME else if POD_NAME \<noteq> [] then POD_NAME else host)"

definition collector_elector :: "collector_config \<Rightarrow> leaseClient \<Rightarrow> gostring \<Rightarrow> elector" where
  "collector_elector cfg c identity = NewElector c
     \<lparr>eo_Namespace = (if cc_LeaseNamespace cfg = [] then ''default'' else cc_LeaseNamespace cfg),
      eo_Name = cc_LeaseName cfg, eo_Identity = identity, eo_LeaseDuration = 15 * 10 ^ 6,
      eo_RenewDeadline = 5 * 10 ^ 6, eo_RetryPeriod = 2 * 10 ^ 6\<rparr>"

text \<open>
  The callback: \<open>watchCancel\<close> is the context of the watch it would cancel, \<open>watching\<close> lists the contexts of
  watches that were started and not cancelled.
\<close>

record watch_state =
  watchCancel :: "nat option"
  watching :: "nat list"
  started :: nat

definition cancel_watch :: "watch_state \<Rightarrow> watch_state" where
  "cancel_watch w = (case watchCancel w of None \<Rightarrow> w | Some n \<Rightarrow> w\<lparr>watching := removeAll n (watching w)\<rparr>)"

definition onLeadership :: "bool \<Rightarrow> watch_state \<Rightarrow> watch_state" where
  "onLeadership leading w =
     (let v = cancel_watch w in
      if leading then \<lparr>watchCancel = Some (started v), watching = started v # watching v, started = Suc (started v)\<rparr>
      else v\<lparr>watchCancel := None\<rparr>)"

section \<open>A system of collectors\<close>

datatype elect_event = Asked http_request http_response | Led bool

record 's election =
  en_server :: 's
  en_clock :: micros
  en_prog :: "nat \<Rightarrow> elector_loop prog"
  en_watch :: "nat \<Rightarrow> watch_state"
  en_log :: "(nat \<times> elect_event) list"

text \<open>
  A step of the system: time passes, or one collector makes one interaction.  A request reaches the
  server and its answer the collector, or the request is lost, or only the answer.  A reading of the
  clock is the time of the system; the outcome of a \<open>select\<close> is free.
\<close>

type_synonym 's lease_api = "micros \<Rightarrow> 's \<Rightarrow> http_request \<Rightarrow> http_response \<times> 's"

inductive election_step :: "lease_env \<Rightarrow> 's lease_api \<Rightarrow> (nat \<Rightarrow> elector) \<Rightarrow> 's election \<Rightarrow> 's election \<Rightarrow> bool"
  for le api es where
  passes: "t \<ge> 0 \<Longrightarrow> election_step le api es S (S\<lparr>en_clock := en_clock S + t\<rparr>)"
| answered: "en_prog S i = Ask q k \<Longrightarrow> api (en_clock S) (en_server S) q = (r, s') \<Longrightarrow>
    election_step le api es S (S\<lparr>en_server := s', en_prog := (en_prog S)(i := k r), en_log := en_log S @ [(i, Asked q r)]\<rparr>)"
| lost: "en_prog S i = Ask q k \<Longrightarrow>
    election_step le api es S (S\<lparr>en_prog := (en_prog S)(i := k (NetError e)), en_log := en_log S @ [(i, Asked q (NetError e))]\<rparr>)"
| unanswered: "en_prog S i = Ask q k \<Longrightarrow> api (en_clock S) (en_server S) q = (r, s') \<Longrightarrow>
    election_step le api es S (S\<lparr>en_server := s', en_prog := (en_prog S)(i := k (NetError e)),
      en_log := en_log S @ [(i, Asked q (NetError e))]\<rparr>)"
| reads: "en_prog S i = Clock k \<Longrightarrow> election_step le api es S (S\<lparr>en_prog := (en_prog S)(i := k (en_clock S))\<rparr>)"
| selects: "en_prog S i = Select k \<Longrightarrow> election_step le api es S (S\<lparr>en_prog := (en_prog S)(i := k c)\<rparr>)"
| signals: "en_prog S i = Signal b p \<Longrightarrow>
    election_step le api es S (S\<lparr>en_prog := (en_prog S)(i := p), en_watch := (en_watch S)(i := onLeadership b (en_watch S i)),
      en_log := en_log S @ [(i, Led b)]\<rparr>)"
| loops: "en_prog S i = Done pc \<Longrightarrow> pc \<noteq> Returned \<Longrightarrow>
    election_step le api es S (S\<lparr>en_prog := (en_prog S)(i := elector_body le (es i) pc)\<rparr>)"

abbreviation election_run where
  "election_run le api es \<equiv> (election_step le api es)\<^sup>*\<^sup>*"

definition no_watch :: watch_state where
  "no_watch = \<lparr>watchCancel = None, watching = [], started = 0\<rparr>"

text \<open>At the start every collector is about to call \<open>Run\<close>.\<close>

definition election_start :: "'s election \<Rightarrow> bool" where
  "election_start S \<longleftrightarrow> en_log S = [] \<and> (\<forall>i. en_prog S i = Done Competing \<and> en_watch S i = no_watch)"

definition seen_by :: "nat \<Rightarrow> 's election \<Rightarrow> elect_event list" where
  "seen_by i S = map snd (filter (\<lambda>x. fst x = i) (en_log S))"

text \<open>Whether a history ends in leadership.\<close>

definition leads_after :: "elect_event list \<Rightarrow> bool" where
  "leads_after evs = fold (\<lambda>ev b. case ev of Led b' \<Rightarrow> b' | Asked _ _ \<Rightarrow> b) evs False"

section \<open>Stepping down\<close>

text \<open>The requests of a renewal: reading the Lease, and writing it with the own identity.\<close>

definition renewal :: "elector \<Rightarrow> http_request \<Rightarrow> bool" where
  "renewal e q \<longleftrightarrow>
     q = lease_of e lease_get \<or>
     (\<exists>version acquired renewed. q = lease_of e lease_put
        (sent_lease (eo_Name (el_opts e)) version (eo_Identity (el_opts e)) acquired renewed))"

text \<open>
  What a program may still do while its collector leads (\<open>ld\<close>) and, with \<open>bad\<close>, after a request that was not
  answered with 200: nothing but to step down.
\<close>

primrec follows :: "elector \<Rightarrow> bool \<Rightarrow> bool \<Rightarrow> elector_loop prog \<Rightarrow> bool" where
  "follows e ld bad (Done pc) \<longleftrightarrow> \<not> bad \<and> (ld \<longleftrightarrow> (\<exists>t. pc = Renewing t))"
| "follows e ld bad (Ask q k) \<longleftrightarrow>
     \<not> bad \<and> (ld \<longrightarrow> renewal e q) \<and> (\<forall>r. follows e ld (ld \<and> \<not> answered [200] r) (k r))"
| "follows e ld bad (Clock k) \<longleftrightarrow> (\<forall>t. follows e ld bad (k t))"
| "follows e ld bad (Select k) \<longleftrightarrow> (\<forall>c. follows e ld bad (k c))"
| "follows e ld bad (Signal b p) \<longleftrightarrow> b = (\<not> ld) \<and> follows e b False p"

text \<open>A program that does not lead and signals nothing may ask for anything.\<close>

primrec silent :: "'a prog \<Rightarrow> bool" where
  "silent (Done a) \<longleftrightarrow> True"
| "silent (Ask q k) \<longleftrightarrow> (\<forall>r. silent (k r))"
| "silent (Clock k) \<longleftrightarrow> (\<forall>t. silent (k t))"
| "silent (Select k) \<longleftrightarrow> (\<forall>c. silent (k c))"
| "silent (Signal b p) \<longleftrightarrow> False"

lemma silent_andThen: "silent p \<Longrightarrow> (\<And>a. silent (f a)) \<Longrightarrow> silent (andThen p f)"
  by (induction p) simp_all

lemma follows_andThen:
  "silent p \<Longrightarrow> (\<And>a. follows e False False (f a)) \<Longrightarrow> follows e False False (andThen p f)"
  by (induction p) simp_all

lemma silent_Get: "silent (leaseClient_Get le c ns name)"
  by (simp add: leaseClient_Get_def)

lemma silent_put: "silent (leaseClient_put le c ns name holder version acquired renewed)"
  by (simp add: leaseClient_put_def)

lemma silent_Update: "silent (leaseClient_Update le c ns name holder)"
  by (auto simp: leaseClient_Update_def silent_put intro!: silent_andThen silent_Get split: option.split)

lemma silent_Release: "silent (leaseClient_Release le c ns name)"
  by (auto simp: leaseClient_Release_def silent_put intro!: silent_andThen silent_Get split: option.split)

lemma silent_Create: "silent (leaseClient_Create le c ns name holder)"
  by (simp add: leaseClient_Create_def)

lemma silent_tryUpdate: "silent (tryUpdate le e)"
  by (simp add: tryUpdate_def lease_of_def silent_Update)

lemma silent_take_lease: "silent (take_lease le e info)"
  unfolding take_lease_def lease_of_def
  by (auto simp: silent_Create silent_tryUpdate intro!: silent_andThen silent_Get split: option.split)

lemma silent_leaseExpired: "silent (leaseExpired e info)"
  by (simp add: leaseExpired_def split: option.split)

lemma silent_tryAcquire: "silent (tryAcquire le e)"
  unfolding tryAcquire_def lease_of_def
  by (auto simp: silent_take_lease silent_tryUpdate intro!: silent_andThen silent_Get silent_leaseExpired split: option.split)

lemma follows_retry_later: "follows e False False retry_later"
  by (simp add: retry_later_def)

lemma follows_step_down: "follows e True bad (step_down le e)"
  by (simp add: step_down_def lease_of_def follows_andThen silent_Release follows_retry_later)

lemma follows_compete_pass: "follows e False False (compete_pass le e)"
  by (simp add: compete_pass_def follows_andThen silent_tryAcquire follows_retry_later)

text \<open>An answer other than 200 ends a renewal.\<close>

lemma get_answer_bad:
  "\<not> answered [200] r \<Longrightarrow> get_answer le r = None \<or> (\<exists>info. get_answer le r = Some info \<and> li_ResourceVersion info = [])"
  by (cases r) (auto simp: answered_def get_answer_def)

lemma follows_renewal:
  assumes "\<And>bad. follows e True bad (f False)" "follows e True False (f True)"
  shows "follows e True False (andThen (tryUpdate le e) f)"
proof -
  have put: "follows e True False (andThen (lease_of e (leaseClient_put le) (eo_Identity (el_opts e)) v a t) f)" for v a t
  proof -
    have "follows e True (\<not> answered [200] r) (f (answered [200] r))" for r
      using assms by (cases "answered [200] r") simp_all
    then show ?thesis using assms by (simp add: leaseClient_put_def lease_of_def renewal_def) blast
  qed
  have "follows e True (\<not> answered [200] r)
     (andThen (case get_answer le r of None \<Rightarrow> Done False | Some info \<Rightarrow> if li_ResourceVersion info = [] then Done False
         else Clock (\<lambda>t. lease_of e (leaseClient_put le) (eo_Identity (el_opts e)) (li_ResourceVersion info) (li_AcquireTime info) t)) f)" for r
    using put assms(1) get_answer_bad [of r le] by (cases "answered [200] r") (auto split: option.split)
  then show ?thesis
    using assms(1) unfolding tryUpdate_def lease_of_def leaseClient_Update_def leaseClient_Get_def
    by (simp add: renewal_def lease_of_def)
qed

lemma follows_renew_pass: "follows e True False (renew_pass le e t)"
  by (simp add: renew_pass_def follows_step_down follows_renewal)

lemma follows_body: "pc \<noteq> Returned \<Longrightarrow> follows e (\<exists>t. pc = Renewing t) False (elector_body le e pc)"
  by (cases pc) (simp_all add: elector_body_def follows_compete_pass follows_renew_pass)

section \<open>Histories\<close>

lemma leads_after_simps [simp]:
  "leads_after [] = False"
  "leads_after (evs @ [Led b]) = b"
  "leads_after (evs @ [Asked q r]) = leads_after evs"
  by (simp_all add: leads_after_def)

text \<open>The last request of a leader was not answered with 200.\<close>

definition failing :: "elect_event list \<Rightarrow> bool" where
  "failing evs \<longleftrightarrow> leads_after evs \<and> (\<exists>pre q r. evs = pre @ [Asked q r] \<and> \<not> answered [200] r)"

lemma failing_simps [simp]:
  "\<not> failing []" "\<not> failing (evs @ [Led b])"
  "failing (evs @ [Asked q r]) \<longleftrightarrow> leads_after evs \<and> \<not> answered [200] r"
  by (auto simp: failing_def)

definition lawful :: "elector \<Rightarrow> elect_event list \<Rightarrow> bool" where
  "lawful e evs \<longleftrightarrow>
     (\<forall>pre q r post. evs = pre @ Asked q r # post \<longrightarrow> leads_after pre \<longrightarrow> renewal e q) \<and>
     (\<forall>pre q r ev post. evs = pre @ Asked q r # ev # post \<longrightarrow> leads_after pre \<longrightarrow> \<not> answered [200] r \<longrightarrow> ev = Led False) \<and>
     (\<forall>pre b post. evs = pre @ Led b # post \<longrightarrow> b = (\<not> leads_after pre))"

lemma snoc_split: "evs @ [x] = pre @ y # post \<longleftrightarrow> post = [] \<and> y = x \<and> evs = pre \<or> (\<exists>post'. post = post' @ [x] \<and> evs = pre @ y # post')"
  by (cases post rule: rev_cases) auto

lemma lawful_fails:
  "lawful e (pre @ Asked q r # ev # post) \<Longrightarrow> leads_after pre \<Longrightarrow> \<not> answered [200] r \<Longrightarrow> ev = Led False"
  unfolding lawful_def by blast

lemma lawful_asked:
  assumes "lawful e evs" "\<not> failing evs" "leads_after evs \<longrightarrow> renewal e q"
  shows "lawful e (evs @ [Asked q r])"
proof -
  have "ev = Led False" if "evs @ [Asked q r] = pre @ Asked q' r' # ev # post" "leads_after pre" "\<not> answered [200] r'"
    for pre q' r' ev post
  proof -
    note split = that(1)
    obtain post' where p: "ev # post = post' @ [Asked q r]" "evs = pre @ Asked q' r' # post'"
      using split by (auto simp: snoc_split)
    show ?thesis
    proof (cases post')
      case Nil
      then have "failing evs" using p(2) that(2,3) by simp
      then show ?thesis using assms(2) by simp
    next
      case (Cons x xs)
      with p assms(1) that(2,3) show ?thesis by (auto intro: lawful_fails)
    qed
  qed
  then show ?thesis using assms(1,3) by (auto simp: lawful_def snoc_split)
qed

lemma lawful_led:
  assumes "lawful e evs" "b = (\<not> leads_after evs)"
  shows "lawful e (evs @ [Led b])"
proof -
  have "ev = Led False" if "evs @ [Led b] = pre @ Asked q r # ev # post" "leads_after pre" "\<not> answered [200] r"
    for pre q r ev post
  proof -
    note split = that(1)
    obtain post' where p: "ev # post = post' @ [Led b]" "evs = pre @ Asked q r # post'"
      using split by (auto simp: snoc_split)
    show ?thesis
    proof (cases post')
      case Nil
      then show ?thesis using p assms(2) that(2) by simp
    next
      case (Cons x xs)
      with p assms(1) that(2,3) show ?thesis by (auto intro: lawful_fails)
    qed
  qed
  then show ?thesis using assms by (auto simp: lawful_def snoc_split)
qed

text \<open>A collector watches the cluster, once, exactly while it leads.\<close>

definition watch_ok :: "bool \<Rightarrow> watch_state \<Rightarrow> bool" where
  "watch_ok ld w \<longleftrightarrow> (if ld then \<exists>n. watchCancel w = Some n \<and> watching w = [n] else watchCancel w = None \<and> watching w = [])"

lemma watch_ok_signal: "watch_ok ld w \<Longrightarrow> watch_ok b (onLeadership b w)"
  by (auto simp: watch_ok_def onLeadership_def cancel_watch_def split: if_splits)

definition elector_inv :: "(nat \<Rightarrow> elector) \<Rightarrow> nat \<Rightarrow> 's election \<Rightarrow> bool" where
  "elector_inv es i S \<longleftrightarrow>
     follows (es i) (leads_after (seen_by i S)) (failing (seen_by i S)) (en_prog S i) \<and>
     lawful (es i) (seen_by i S) \<and> watch_ok (leads_after (seen_by i S)) (en_watch S i)"

lemma seen_by_snoc:
  "en_log S' = en_log S @ [(j, ev)] \<Longrightarrow> seen_by i S' = (if i = j then seen_by i S @ [ev] else seen_by i S)"
  by (simp add: seen_by_def)

lemma inv_asked:
  assumes "elector_inv es i S" "en_prog S j = Ask q k" "en_prog S' = (en_prog S)(j := k r)"
    and "en_watch S' = en_watch S" "en_log S' = en_log S @ [(j, Asked q r)]"
  shows "elector_inv es i S'"
proof (cases "i = j")
  case True
  with assms(1,2) have inv: "\<not> failing (seen_by i S)" "leads_after (seen_by i S) \<longrightarrow> renewal (es i) q"
    "follows (es i) (leads_after (seen_by i S)) (leads_after (seen_by i S) \<and> \<not> answered [200] r) (k r)"
    "lawful (es i) (seen_by i S)" "watch_ok (leads_after (seen_by i S)) (en_watch S i)"
    by (simp_all add: elector_inv_def)
  have "seen_by i S' = seen_by i S @ [Asked q r]" using assms(5) True by (simp add: seen_by_snoc)
  then show ?thesis
    using inv lawful_asked [OF inv(4,1,2)] assms(3,4) True by (simp add: elector_inv_def)
qed (use assms in \<open>simp add: elector_inv_def seen_by_snoc\<close>)

lemma election_step_inv: "election_step le api es S S' \<Longrightarrow> elector_inv es i S \<Longrightarrow> elector_inv es i S'"
proof (induction rule: election_step.induct)
  case (passes t S)
  then show ?case by (simp add: elector_inv_def seen_by_def)
next
  case (answered S j q k r s')
  show ?case by (rule inv_asked [OF answered(3,1)]) simp_all
next
  case (lost S j q k e)
  show ?case by (rule inv_asked [OF lost(2,1)]) simp_all
next
  case (unanswered S j q k r s' e)
  show ?case by (rule inv_asked [OF unanswered(3,1)]) simp_all
next
  case (reads S j k)
  then show ?case by (cases "i = j") (simp_all add: elector_inv_def seen_by_def)
next
  case (selects S j k c)
  then show ?case by (cases "i = j") (simp_all add: elector_inv_def seen_by_def)
next
  case (signals S j b p)
  show ?case
  proof (cases "i = j")
    case True
    have prog: "en_prog S i = Signal b p" using signals(1) True by simp
    have inv: "lawful (es i) (seen_by i S)" "watch_ok (leads_after (seen_by i S)) (en_watch S i)"
      and "follows (es i) (leads_after (seen_by i S)) (failing (seen_by i S)) (en_prog S i)"
      using signals(2) unfolding elector_inv_def by blast+
    then have b: "b = (\<not> leads_after (seen_by i S))" "follows (es i) b False p" unfolding prog follows.simps by blast+
    with True lawful_led [OF inv(1) b(1)] watch_ok_signal [OF inv(2), of b] show ?thesis
      by (simp add: elector_inv_def seen_by_snoc [of _ S])
  qed (use signals in \<open>simp add: elector_inv_def seen_by_snoc [of _ S]\<close>)
next
  case (loops S j pc)
  show ?case
  proof (cases "i = j")
    case True
    have prog: "en_prog S i = Done pc" using loops(1) True by simp
    have inv: "lawful (es i) (seen_by i S)" "watch_ok (leads_after (seen_by i S)) (en_watch S i)"
      and "follows (es i) (leads_after (seen_by i S)) (failing (seen_by i S)) (en_prog S i)"
      using loops(3) unfolding elector_inv_def by blast+
    then have "follows (es i) (leads_after (seen_by i S)) (failing (seen_by i S)) (elector_body le (es i) pc)"
      using follows_body [OF loops(2), of "es i" le] unfolding prog follows.simps by simp
    with inv True show ?thesis by (simp add: elector_inv_def seen_by_def)
  qed (use loops in \<open>simp add: elector_inv_def seen_by_def\<close>)
qed

lemma election_run_inv: "election_run le api es S S' \<Longrightarrow> elector_inv es i S \<Longrightarrow> elector_inv es i S'"
  by (induction rule: rtranclp_induct) (blast intro: election_step_inv)+

text \<open>
  C19. A collector that fails to renew steps down at once.  In every history of any number of collectors,
  with lost requests, lost answers and an API server that answers anything: while a collector leads, it
  only renews the Lease under its own identity; after a request that was not answered with 200 the next
  thing it does is to give up leadership; it gains and gives up leadership in turn; and it has exactly
  one watch of the cluster while it leads and none otherwise.
\<close>

theorem elector_fail_safe:
  assumes "election_start S0" "election_run le api es S0 S"
  shows "(\<forall>pre q r post. seen_by i S = pre @ Asked q r # post \<longrightarrow> leads_after pre \<longrightarrow> renewal (es i) q) \<and>
    (\<forall>pre q r ev post. seen_by i S = pre @ Asked q r # ev # post \<longrightarrow> leads_after pre \<longrightarrow> \<not> answered [200] r \<longrightarrow> ev = Led False) \<and>
    (\<forall>pre b post. seen_by i S = pre @ Led b # post \<longrightarrow> b = (\<not> leads_after pre)) \<and>
    length (watching (en_watch S i)) = (if leads_after (seen_by i S) then 1 else 0)"
proof -
  have "elector_inv es i S0"
    using assms(1) by (simp add: election_start_def elector_inv_def seen_by_def lawful_def watch_ok_def no_watch_def)
  from election_run_inv [OF assms(2) this] show ?thesis
    by (auto simp: elector_inv_def lawful_def watch_ok_def split: if_splits)
qed

section \<open>The API server\<close>

text \<open>
  What Kubernetes documents of Leases: \<open>GET\<close> shows the object or answers 404; \<open>POST\<close> creates an absent object;
  \<open>PUT\<close> with the current resource version stores the object under another version, and with any other
  version is refused with 409.
\<close>

definition lease_server :: "'s lease_api \<Rightarrow> ('s \<Rightarrow> kubeLease option) \<Rightarrow> gostring \<Rightarrow> gostring \<Rightarrow> gostring \<Rightarrow> bool" where
  "lease_server api view base ns name \<longleftrightarrow> (\<forall>c t s. lc_baseURL c = base \<longrightarrow>
     (case view s of
        None \<Rightarrow>
          (\<exists>st b. api t s (lease_get c ns name) = (Response 404 st b, s)) \<and>
          (\<forall>h a n. \<exists>st b s' v. api t s (lease_post c ns (sent_lease name [] h a n)) = (Response 201 st b, s') \<and>
             v \<noteq> [] \<and> view s' = Some (sent_lease name v h a n))
      | Some l \<Rightarrow>
          kl_ResourceVersion l \<noteq> [] \<and>
          (\<exists>st b. api t s (lease_get c ns name) = (Response 200 st b, s) \<and> decode_lease b = Some l) \<and>
          (\<forall>h a n. \<exists>st b s' v. api t s (lease_put c ns name (sent_lease name (kl_ResourceVersion l) h a n)) = (Response 200 st b, s') \<and>
             v \<noteq> [] \<and> v \<noteq> kl_ResourceVersion l \<and> view s' = Some (sent_lease name v h a n)) \<and>
          (\<forall>v h a n. v \<noteq> kl_ResourceVersion l \<longrightarrow>
             (\<exists>st b. api t s (lease_put c ns name (sent_lease name v h a n)) = (Response 409 st b, s)))))"

lemma server_get:
  assumes "lease_server api view base ns name" "lc_baseURL c = base" "view s = Some l"
  obtains st b where "api t s (lease_get c ns name) = (Response 200 st b, s)" "decode_lease b = Some l" "kl_ResourceVersion l \<noteq> []"
  using assms(1) [unfolded lease_server_def, rule_format, OF assms(2), where t = t and s = s] assms(3) by simp metis

lemma server_put:
  assumes "lease_server api view base ns name" "lc_baseURL c = base" "view s = Some l"
  obtains st b s' v where "api t s (lease_put c ns name (sent_lease name (kl_ResourceVersion l) h a n)) = (Response 200 st b, s')"
    "v \<noteq> []" "view s' = Some (sent_lease name v h a n)"
  using assms(1) [unfolded lease_server_def, rule_format, OF assms(2), where t = t and s = s] assms(3) by simp metis

lemma server_absent:
  assumes "lease_server api view base ns name" "lc_baseURL c = base" "view s = None"
  obtains st b st' b' s' v where "api t s (lease_get c ns name) = (Response 404 st b, s)"
    "api t s (lease_post c ns (sent_lease name [] h a n)) = (Response 201 st' b', s')" "v \<noteq> []" "view s' = Some (sent_lease name v h a n)"
  using assms(1) [unfolded lease_server_def, rule_format, OF assms(2), where t = t and s = s] assms(3) by simp metis

section \<open>One collector alone\<close>

text \<open>A program that nobody interrupts: every request is answered, the context is not cancelled, and it
  takes no time.\<close>

primrec alone :: "'s lease_api \<Rightarrow> micros \<Rightarrow> 'a prog \<Rightarrow> 's \<Rightarrow> 'a \<times> 's \<times> elect_event list" where
  "alone api t (Done a) = (\<lambda>s. (a, s, []))"
| "alone api t (Ask q k) = (\<lambda>s. case api t s q of (r, s') \<Rightarrow> (case alone api t (k r) s' of (a, s'', evs) \<Rightarrow> (a, s'', Asked q r # evs)))"
| "alone api t (Clock k) = alone api t (k t)"
| "alone api t (Select k) = alone api t (k False)"
| "alone api t (Signal b p) = (\<lambda>s. case alone api t p s of (a, s', evs) \<Rightarrow> (a, s', Led b # evs))"

lemma alone_andThen:
  "alone api t (andThen p f) s =
     (case alone api t p s of (a, s', evs) \<Rightarrow> (case alone api t (f a) s' of (b, s'', evs') \<Rightarrow> (b, s'', evs @ evs')))"
  by (induction p arbitrary: s) (auto split: prod.split)

text \<open>Such a program is a run of the system.\<close>

definition watch_after :: "elect_event list \<Rightarrow> watch_state \<Rightarrow> watch_state" where
  "watch_after evs = fold (\<lambda>ev. case ev of Led b \<Rightarrow> onLeadership b | Asked _ _ \<Rightarrow> id) evs"

lemma alone_run:
  assumes "alone api (en_clock S) (en_prog S i) (en_server S) = (pc, s', evs)"
  shows "election_run le api es S (S\<lparr>en_server := s', en_prog := (en_prog S)(i := Done pc),
    en_watch := (en_watch S)(i := watch_after evs (en_watch S i)), en_log := en_log S @ map (Pair i) evs\<rparr>)"
  using assms
proof (induction "en_prog S i" arbitrary: S evs)
  case (Done a)
  from Done(1) [symmetric] Done(2) have "S\<lparr>en_server := s', en_prog := (en_prog S)(i := Done pc),
      en_watch := (en_watch S)(i := watch_after evs (en_watch S i)), en_log := en_log S @ map (Pair i) evs\<rparr> = S"
    by (cases S) (auto simp: watch_after_def fun_upd_idem)
  then show ?case by (simp only: rtranclp.rtrancl_refl)
next
  case (Ask q k)
  obtain r s1 where r: "api (en_clock S) (en_server S) q = (r, s1)" by fastforce
  obtain evs' where e: "alone api (en_clock S) (k r) s1 = (pc, s', evs')" "evs = Asked q r # evs'"
    using Ask(3) r unfolding Ask(2) [symmetric] by (auto split: prod.splits)
  let ?S = "S\<lparr>en_server := s1, en_prog := (en_prog S)(i := k r), en_log := en_log S @ [(i, Asked q r)]\<rparr>"
  have "election_step le api es S ?S" using Ask(2) r by (auto intro: election_step.answered)
  moreover have "en_prog ?S i \<in> range k" by simp
  from Ask(1) [OF this, of evs'] e have "election_run le api es ?S (?S\<lparr>en_server := s', en_prog := (en_prog ?S)(i := Done pc),
      en_watch := (en_watch ?S)(i := watch_after evs' (en_watch ?S i)), en_log := en_log ?S @ map (Pair i) evs'\<rparr>)"
    by simp
  ultimately show ?case using e(2) by (simp add: watch_after_def converse_rtranclp_into_rtranclp)
next
  case (Clock k)
  let ?S = "S\<lparr>en_prog := (en_prog S)(i := k (en_clock S))\<rparr>"
  have "election_step le api es S ?S" using Clock(2) by (auto intro: election_step.reads)
  moreover have "en_prog ?S i \<in> range k" by simp
  from Clock(1) [OF this, of evs] Clock(3) have "election_run le api es ?S (?S\<lparr>en_server := s', en_prog := (en_prog ?S)(i := Done pc),
      en_watch := (en_watch ?S)(i := watch_after evs (en_watch ?S i)), en_log := en_log ?S @ map (Pair i) evs\<rparr>)"
    unfolding Clock(2) [symmetric] by simp
  ultimately show ?case by (simp add: converse_rtranclp_into_rtranclp)
next
  case (Select k)
  let ?S = "S\<lparr>en_prog := (en_prog S)(i := k False)\<rparr>"
  have "election_step le api es S ?S" using Select(2) by (auto intro: election_step.selects)
  moreover have "en_prog ?S i \<in> range k" by simp
  from Select(1) [OF this, of evs] Select(3) have "election_run le api es ?S (?S\<lparr>en_server := s', en_prog := (en_prog ?S)(i := Done pc),
      en_watch := (en_watch ?S)(i := watch_after evs (en_watch ?S i)), en_log := en_log ?S @ map (Pair i) evs\<rparr>)"
    unfolding Select(2) [symmetric] by simp
  ultimately show ?case by (simp add: converse_rtranclp_into_rtranclp)
next
  case (Signal b p)
  obtain evs' where e: "alone api (en_clock S) p (en_server S) = (pc, s', evs')" "evs = Led b # evs'"
    using Signal(3) unfolding Signal(2) [symmetric] by (auto split: prod.splits)
  let ?S = "S\<lparr>en_prog := (en_prog S)(i := p), en_watch := (en_watch S)(i := onLeadership b (en_watch S i)),
      en_log := en_log S @ [(i, Led b)]\<rparr>"
  have "election_step le api es S ?S" using Signal(2) by (auto intro: election_step.signals)
  moreover have "election_run le api es ?S (?S\<lparr>en_server := s', en_prog := (en_prog ?S)(i := Done pc),
      en_watch := (en_watch ?S)(i := watch_after evs' (en_watch ?S i)), en_log := en_log ?S @ map (Pair i) evs'\<rparr>)"
    by (rule Signal(1)) (use e in simp_all)
  ultimately show ?case using e(2) by (simp add: watch_after_def converse_rtranclp_into_rtranclp)
qed

text \<open>The elector of a server: its base URL, namespace and Lease, an identity, and URLs that \<open>net/http\<close> accepts.\<close>

definition elects_on :: "lease_env \<Rightarrow> gostring \<Rightarrow> gostring \<Rightarrow> gostring \<Rightarrow> elector \<Rightarrow> bool" where
  "elects_on le base ns name e \<longleftrightarrow>
     lc_baseURL (el_client e) = base \<and> eo_Namespace (el_opts e) = ns \<and> eo_Name (el_opts e) = name \<and>
     eo_Identity (el_opts e) \<noteq> [] \<and> le_accepts le (leaseURL (el_client e) ns name) \<and> le_accepts le (leaseCollectionURL (el_client e) ns)"

lemma sent_lease_sel [simp]:
  "kl_HolderIdentity (sent_lease name v h a n) = h" "kl_AcquireTime (sent_lease name v h a n) = a"
  "kl_RenewTime (sent_lease name v h a n) = n" "kl_ResourceVersion (sent_lease name v h a n) = v"
  by (simp_all add: sent_lease_def zero_lease_def)

lemma lease_info_sel [simp]:
  "li_Holder (lease_info le l) = kl_HolderIdentity l" "li_AcquireTime (lease_info le l) = kl_AcquireTime l"
  "li_ResourceVersion (lease_info le l) = kl_ResourceVersion l"
  by (simp_all add: lease_info_def)

lemma alone_Get:
  assumes "lease_server api view base ns name" "elects_on le base ns name e" "view s = Some l"
  shows "\<exists>r. answered [200] r \<and> alone api t (lease_of e (leaseClient_Get le)) s = (Some (lease_info le l), s, [Asked (lease_of e lease_get) r])"
proof -
  obtain st b where "api t s (lease_of e lease_get) = (Response 200 st b, s)" "decode_lease b = Some l"
    using server_get [OF assms(1) _ assms(3)] assms(2) unfolding elects_on_def lease_of_def by metis
  then show ?thesis using assms(2)
    by (simp add: leaseClient_Get_def lease_of_def elects_on_def get_answer_def answered_def)
qed

lemma alone_tryUpdate:
  assumes "lease_server api view base ns name" "elects_on le base ns name e" "view s = Some l"
  shows "\<exists>s' v evs. alone api t (tryUpdate le e) s = (True, s', evs) \<and> (\<forall>b. Led b \<notin> set evs) \<and> v \<noteq> [] \<and>
    view s' = Some (sent_lease name v (eo_Identity (el_opts e)) (kl_AcquireTime l) (lease_time t))"
proof -
  have e: "lc_baseURL (el_client e) = base" "eo_Namespace (el_opts e) = ns" "eo_Name (el_opts e) = name"
    "le_accepts le (leaseURL (el_client e) ns name)" using assms(2) by (simp_all add: elects_on_def)
  obtain r where g: "alone api t (leaseClient_Get le (el_client e) ns name) s = (Some (lease_info le l), s, [Asked (lease_of e lease_get) r])"
    using alone_Get [OF assms, of t] e by (auto simp: lease_of_def)
  have "kl_ResourceVersion l \<noteq> []" using server_get [OF assms(1) e(1) assms(3)] by metis
  moreover obtain st b s' v where "api t s (lease_put (el_client e) ns name
      (sent_lease name (kl_ResourceVersion l) (eo_Identity (el_opts e)) (kl_AcquireTime l) (lease_time t))) = (Response 200 st b, s')"
    "v \<noteq> []" "view s' = Some (sent_lease name v (eo_Identity (el_opts e)) (kl_AcquireTime l) (lease_time t))"
    using server_put [OF assms(1) e(1) assms(3)] by metis
  ultimately show ?thesis using e
    by (auto simp: tryUpdate_def lease_of_def leaseClient_Update_def alone_andThen g lease_info_def leaseClient_put_def answered_def)
qed

lemma alone_take_lease:
  assumes "lease_server api view base ns name" "elects_on le base ns name e" "view s = Some l" "li_ResourceVersion info \<noteq> []"
  shows "\<exists>s' v evs. alone api t (take_lease le e info) s = (True, s', evs) \<and> (\<forall>b. Led b \<notin> set evs) \<and>
    view s' = Some (sent_lease name v (eo_Identity (el_opts e)) (kl_AcquireTime l) (lease_time t))"
proof -
  obtain s' v evs where u: "alone api t (tryUpdate le e) s = (True, s', evs)" "\<forall>b. Led b \<notin> set evs"
    "view s' = Some (sent_lease name v (eo_Identity (el_opts e)) (kl_AcquireTime l) (lease_time t))"
    using alone_tryUpdate [OF assms(1-3), of t] by blast
  obtain r where "alone api t (lease_of e (leaseClient_Get le)) s' =
      (Some (lease_info le (sent_lease name v (eo_Identity (el_opts e)) (kl_AcquireTime l) (lease_time t))), s', [Asked (lease_of e lease_get) r])"
    using alone_Get [OF assms(1,2) u(3), of t] by blast
  then show ?thesis using u assms(4) by (simp add: take_lease_def alone_andThen lease_info_def sent_lease_def zero_lease_def)
qed

lemma alone_create:
  assumes "lease_server api view base ns name" "elects_on le base ns name e" "view s = None"
  shows "\<exists>s' v evs. alone api t (tryAcquire le e) s = (True, s', evs) \<and> (\<forall>b. Led b \<notin> set evs) \<and>
    view s' = Some (sent_lease name v (eo_Identity (el_opts e)) (lease_time t) (lease_time t))"
proof -
  have e: "lc_baseURL (el_client e) = base" "eo_Namespace (el_opts e) = ns" "eo_Name (el_opts e) = name"
    "le_accepts le (leaseURL (el_client e) ns name)" "le_accepts le (leaseCollectionURL (el_client e) ns)"
    using assms(2) by (simp_all add: elects_on_def)
  obtain st b st' b' s' v where p: "api t s (lease_get (el_client e) ns name) = (Response 404 st b, s)"
    "api t s (lease_post (el_client e) ns (sent_lease name [] (eo_Identity (el_opts e)) (lease_time t) (lease_time t))) = (Response 201 st' b', s')"
    "view s' = Some (sent_lease name v (eo_Identity (el_opts e)) (lease_time t) (lease_time t))"
    using server_absent [OF assms(1) e(1) assms(3)] by metis
  obtain r where "alone api t (lease_of e (leaseClient_Get le)) s' =
      (Some (lease_info le (sent_lease name v (eo_Identity (el_opts e)) (lease_time t) (lease_time t))), s', [Asked (lease_of e lease_get) r])"
    using alone_Get [OF assms(1,2) p(3), of t] by blast
  moreover have "alone api t (lease_of e (leaseClient_Get le)) s =
      (Some \<lparr>li_Holder = [], li_AcquireTime = [], li_RenewTime = None, li_ResourceVersion = []\<rparr>, s,
       [Asked (lease_of e lease_get) (Response 404 st b)])"
    using p(1) e by (simp add: lease_of_def leaseClient_Get_def get_answer_def)
  moreover have "\<exists>q r. alone api t (lease_of e (leaseClient_Create le) (eo_Identity (el_opts e))) s = (True, s', [Asked q r])"
    using p(2) e by (simp add: lease_of_def leaseClient_Create_def answered_def)
  ultimately show ?thesis using p(3) by (auto simp: tryAcquire_def take_lease_def alone_andThen)
qed

text \<open>A Lease that an elector takes: nobody holds it, or its holder has not renewed it in time.\<close>

definition lease_free :: "lease_env \<Rightarrow> elector \<Rightarrow> micros \<Rightarrow> kubeLease \<Rightarrow> bool" where
  "lease_free le e t l \<longleftrightarrow>
     kl_HolderIdentity l = [] \<or>
     (case li_RenewTime (lease_info le l) of None \<Rightarrow> True | Some renewed \<Rightarrow> t - renewed > eo_LeaseDuration (el_opts e))"

text \<open>What an elector goes on to do once it has seen a Lease.\<close>

definition judge_lease :: "lease_env \<Rightarrow> elector \<Rightarrow> LeaseInfo \<Rightarrow> bool prog" where
  "judge_lease le e info =
     (if li_Holder info = [] then take_lease le e info
      else andThen (leaseExpired e info) (\<lambda>expired.
             if expired then take_lease le e info
             else if li_Holder info = eo_Identity (el_opts e) then tryUpdate le e
             else Done False))"

lemma tryAcquire_judge:
  "tryAcquire le e = andThen (lease_of e (leaseClient_Get le)) (\<lambda>i. case i of None \<Rightarrow> Done False | Some info \<Rightarrow> judge_lease le e info)"
  unfolding tryAcquire_def judge_lease_def by (rule refl)

lemma alone_judge_free:
  "lease_free le e t l \<Longrightarrow> alone api t (judge_lease le e (lease_info le l)) s = alone api t (take_lease le e (lease_info le l)) s"
  by (auto simp: lease_free_def judge_lease_def leaseExpired_def alone_andThen split: option.split prod.split)

lemma alone_judge_held:
  assumes "\<not> lease_free le e t l" "kl_HolderIdentity l \<noteq> eo_Identity (el_opts e)"
  shows "alone api t (judge_lease le e (lease_info le l)) s = (False, s, [])"
  using assms by (auto simp: lease_free_def judge_lease_def leaseExpired_def alone_andThen split: option.splits)

definition led_or_retry :: "bool \<Rightarrow> elector_loop prog" where
  "led_or_retry ok = (if ok then Signal True (Clock (\<lambda>now. Done (Renewing now))) else retry_later)"

lemma compete_pass_alt:
  "compete_pass le e = Select (\<lambda>cancelled. if cancelled then Done Returned else andThen (tryAcquire le e) led_or_retry)"
  unfolding compete_pass_def led_or_retry_def by (rule refl)

lemma alone_led: "alone api t (led_or_retry True) s = (Renewing t, s, [Led True])"
  and alone_retry: "alone api t (led_or_retry False) s = (Competing, s, [])"
  by (simp_all add: led_or_retry_def retry_later_def)

text \<open>Going on from a Lease that was free when it was read: whoever holds it by now, it is taken.\<close>

lemma alone_judged:
  assumes "lease_server api view base ns name" "elects_on le base ns name e" "view s = Some l"
    and "lease_free le e t seen" "kl_ResourceVersion seen \<noteq> []"
  shows "\<exists>s' l' evs. alone api t (andThen (judge_lease le e (lease_info le seen)) led_or_retry) s = (Renewing t, s', evs @ [Led True]) \<and>
    (\<forall>b. Led b \<notin> set evs) \<and> view s' = Some l' \<and> kl_HolderIdentity l' = eo_Identity (el_opts e) \<and> kl_RenewTime l' = lease_time t"
proof -
  obtain s' v evs where "alone api t (take_lease le e (lease_info le seen)) s = (True, s', evs)" "\<forall>b. Led b \<notin> set evs"
    "view s' = Some (sent_lease name v (eo_Identity (el_opts e)) (kl_AcquireTime l) (lease_time t))"
    using alone_take_lease [OF assms(1-3), of "lease_info le seen" t] assms(5) by auto
  then show ?thesis by (simp add: alone_andThen alone_judge_free [OF assms(4)] alone_led)
qed

lemma alone_compete:
  assumes "lease_server api view base ns name" "elects_on le base ns name e"
    and "view s = None \<or> (\<exists>l. view s = Some l \<and> lease_free le e t l)"
  shows "\<exists>s' l' evs. alone api t (elector_body le e Competing) s = (Renewing t, s', evs @ [Led True]) \<and>
    (\<forall>b. Led b \<notin> set evs) \<and> view s' = Some l' \<and> kl_HolderIdentity l' = eo_Identity (el_opts e) \<and> kl_RenewTime l' = lease_time t"
proof (cases "view s")
  case None
  then obtain s' v evs where "alone api t (tryAcquire le e) s = (True, s', evs)" "\<forall>b. Led b \<notin> set evs"
    "view s' = Some (sent_lease name v (eo_Identity (el_opts e)) (lease_time t) (lease_time t))"
    using alone_create [OF assms(1,2)] by blast
  then show ?thesis by (simp add: elector_body_def compete_pass_alt alone_andThen alone_led)
next
  case (Some l)
  with assms(3) have free: "lease_free le e t l" by simp
  obtain r where get: "alone api t (lease_of e (leaseClient_Get le)) s = (Some (lease_info le l), s, [Asked (lease_of e lease_get) r])"
    using alone_Get [OF assms(1,2) Some] by blast
  have "lc_baseURL (el_client e) = base" using assms(2) by (simp add: elects_on_def)
  from server_get [OF assms(1) this Some] have "kl_ResourceVersion l \<noteq> []" by metis
  from alone_judged [OF assms(1,2) Some free this] obtain s' l' evs where
    "alone api t (andThen (judge_lease le e (lease_info le l)) led_or_retry) s = (Renewing t, s', evs @ [Led True])"
    "\<forall>b. Led b \<notin> set evs" "view s' = Some l'" "kl_HolderIdentity l' = eo_Identity (el_opts e)" "kl_RenewTime l' = lease_time t" by blast
  with get show ?thesis
    by (auto simp: elector_body_def compete_pass_alt tryAcquire_judge alone_andThen split: prod.splits intro!: exI [of _ "Asked (lease_of e lease_get) r # evs"])
qed

lemma alone_renew:
  assumes "lease_server api view base ns name" "elects_on le base ns name e" "view s = Some l"
    and "t - renewed \<le> eo_RenewDeadline (el_opts e)"
  shows "\<exists>s' l' evs. alone api t (elector_body le e (Renewing renewed)) s = (Renewing t, s', evs) \<and>
    (\<forall>b. Led b \<notin> set evs) \<and> view s' = Some l' \<and> kl_HolderIdentity l' = eo_Identity (el_opts e) \<and> kl_RenewTime l' = lease_time t"
proof -
  obtain s' v evs where "alone api t (tryUpdate le e) s = (True, s', evs)" "\<forall>b. Led b \<notin> set evs"
    "view s' = Some (sent_lease name v (eo_Identity (el_opts e)) (kl_AcquireTime l) (lease_time t))"
    using alone_tryUpdate [OF assms(1-3), of t] by blast
  then show ?thesis using assms(4) by (simp add: elector_body_def renew_pass_def alone_andThen)
qed


text \<open>Stepping down clears the Lease whoever holds it by then.\<close>

lemma alone_release:
  assumes "lease_server api view base ns name" "elects_on le base ns name e" "view s = Some l"
  shows "\<exists>s' v evs. alone api t (lease_of e (leaseClient_Release le)) s = (True, s', evs) \<and>
    view s' = Some (sent_lease name v [] (kl_AcquireTime l) (lease_time (t - 3600 * 10 ^ 6)))"
proof -
  have e: "lc_baseURL (el_client e) = base" "eo_Namespace (el_opts e) = ns" "eo_Name (el_opts e) = name"
    "le_accepts le (leaseURL (el_client e) ns name)" using assms(2) by (simp_all add: elects_on_def)
  obtain r where g: "alone api t (leaseClient_Get le (el_client e) ns name) s = (Some (lease_info le l), s, [Asked (lease_of e lease_get) r])"
    using alone_Get [OF assms, of t] e by (auto simp: lease_of_def)
  have "kl_ResourceVersion l \<noteq> []" using server_get [OF assms(1) e(1) assms(3)] by metis
  moreover obtain st b s' v where "api t s (lease_put (el_client e) ns name
      (sent_lease name (kl_ResourceVersion l) [] (kl_AcquireTime l) (lease_time (t - 3600 * 10 ^ 6)))) = (Response 200 st b, s')"
    "view s' = Some (sent_lease name v [] (kl_AcquireTime l) (lease_time (t - 3600 * 10 ^ 6)))"
    using server_put [OF assms(1) e(1) assms(3)] by metis
  ultimately show ?thesis using e
    by (auto simp: lease_of_def leaseClient_Release_def alone_andThen g leaseClient_put_def answered_def)
qed

section \<open>Two leaders\<close>

lemma run_pass:
  assumes "en_prog S i = Done pc" "pc \<noteq> Returned"
    and "alone api (en_clock S) (elector_body le (es i) pc) (en_server S) = (pc', s', evs)"
  shows "\<exists>S'. election_run le api es S S' \<and> en_server S' = s' \<and> en_clock S' = en_clock S \<and>
    en_prog S' = (en_prog S)(i := Done pc') \<and> en_log S' = en_log S @ map (Pair i) evs"
proof -
  let ?S = "S\<lparr>en_prog := (en_prog S)(i := elector_body le (es i) pc)\<rparr>"
  have "election_step le api es S ?S" by (rule election_step.loops [OF assms(1,2)])
  moreover have "alone api (en_clock ?S) (en_prog ?S i) (en_server ?S) = (pc', s', evs)" using assms(3) by simp
  note alone_run [OF this, of le es]
  ultimately have run: "election_run le api es S (?S\<lparr>en_server := s', en_prog := (en_prog ?S)(i := Done pc'),
    en_watch := (en_watch ?S)(i := watch_after evs (en_watch ?S i)), en_log := en_log ?S @ map (Pair i) evs\<rparr>)"
    by (rule converse_rtranclp_into_rtranclp)
  show ?thesis by (rule exI, rule conjI, rule run) simp
qed

definition both_renewing :: "('s \<Rightarrow> kubeLease option) \<Rightarrow> nat \<Rightarrow> nat \<Rightarrow> 's election \<Rightarrow> bool" where
  "both_renewing view a b S \<longleftrightarrow>
     en_prog S a = Done (Renewing (en_clock S)) \<and> en_prog S b = Done (Renewing (en_clock S)) \<and> view (en_server S) \<noteq> None"

lemma renew_one:
  assumes "lease_server api view base ns name" "elects_on le base ns name (es i)"
    and "en_prog S i = Done (Renewing t)" "en_clock S - t \<le> eo_RenewDeadline (el_opts (es i))" "view (en_server S) \<noteq> None"
  shows "\<exists>S' lg. election_run le api es S S' \<and> en_clock S' = en_clock S \<and> en_prog S' = (en_prog S)(i := Done (Renewing (en_clock S))) \<and>
    view (en_server S') \<noteq> None \<and> en_log S' = en_log S @ lg \<and> (\<forall>j b. (j, Led b) \<notin> set lg)"
proof -
  obtain l where l: "view (en_server S) = Some l" using assms(5) by auto
  from alone_renew [OF assms(1,2) l assms(4)] obtain s' l' evs where
    p: "alone api (en_clock S) (elector_body le (es i) (Renewing t)) (en_server S) = (Renewing (en_clock S), s', evs)"
    "\<forall>b. Led b \<notin> set evs" "view s' = Some l'" by blast
  from run_pass [where es = es, OF assms(3) _ p(1)] obtain S' where "election_run le api es S S'" "en_server S' = s'" "en_clock S' = en_clock S"
    "en_prog S' = (en_prog S)(i := Done (Renewing (en_clock S)))" "en_log S' = en_log S @ map (Pair i) evs" by auto
  with p show ?thesis by (intro exI [of _ S'] exI [of _ "map (Pair i) evs"]) auto
qed

lemma renew_both:
  assumes "lease_server api view base ns name" "elects_on le base ns name (es a)" "elects_on le base ns name (es b)" "a \<noteq> b"
    and "0 \<le> d" "d \<le> eo_RenewDeadline (el_opts (es a))" "d \<le> eo_RenewDeadline (el_opts (es b))" "both_renewing view a b S"
  shows "\<exists>S' lg. election_run le api es S S' \<and> en_clock S' = en_clock S + d \<and> both_renewing view a b S' \<and>
    en_log S' = en_log S @ lg \<and> (\<forall>j b. (j, Led b) \<notin> set lg)"
proof -
  let ?T = "S\<lparr>en_clock := en_clock S + d\<rparr>"
  have step: "election_step le api es S ?T" by (rule election_step.passes [OF assms(5)])
  from renew_one [where es = es, OF assms(1,2), of ?T "en_clock S"] assms(6,8) obtain S1 lg1 where
    S1: "election_run le api es ?T S1" "en_clock S1 = en_clock S + d" "en_prog S1 = (en_prog S)(a := Done (Renewing (en_clock S + d)))"
    "view (en_server S1) \<noteq> None" "en_log S1 = en_log S @ lg1" "\<forall>j b. (j, Led b) \<notin> set lg1"
    by (auto simp: both_renewing_def)
  from renew_one [where es = es, OF assms(1,3), of S1 "en_clock S"] assms(4,7,8) S1 obtain S2 lg2 where
    S2: "election_run le api es S1 S2" "en_clock S2 = en_clock S1" "en_prog S2 = (en_prog S1)(b := Done (Renewing (en_clock S1)))"
    "view (en_server S2) \<noteq> None" "en_log S2 = en_log S1 @ lg2" "\<forall>j b. (j, Led b) \<notin> set lg2"
    by (auto simp: both_renewing_def)
  have "election_run le api es S S2"
    using step S1(1) S2(1) by (meson converse_rtranclp_into_rtranclp rtranclp_trans)
  with S1 S2 assms(4) show ?thesis
    by (intro exI [of _ S2] exI [of _ "lg1 @ lg2"]) (auto simp: both_renewing_def)
qed

lemma renew_both_long:
  assumes "lease_server api view base ns name" "elects_on le base ns name (es a)" "elects_on le base ns name (es b)" "a \<noteq> b"
    and "0 \<le> d" "d \<le> eo_RenewDeadline (el_opts (es a))" "d \<le> eo_RenewDeadline (el_opts (es b))" "both_renewing view a b S"
  shows "\<exists>S' lg. election_run le api es S S' \<and> en_clock S' = en_clock S + int n * d \<and> both_renewing view a b S' \<and>
    en_log S' = en_log S @ lg \<and> (\<forall>j b. (j, Led b) \<notin> set lg)"
proof (induction n)
  case 0
  then show ?case using assms(8) by (intro exI [of _ S] exI [of _ "[]"]) simp
next
  case (Suc n)
  then obtain S1 lg1 where S1: "election_run le api es S S1" "en_clock S1 = en_clock S + int n * d" "both_renewing view a b S1"
    "en_log S1 = en_log S @ lg1" "\<forall>j b. (j, Led b) \<notin> set lg1" by blast
  from renew_both [OF assms(1-7) S1(3)] obtain S2 lg2 where S2: "election_run le api es S1 S2" "en_clock S2 = en_clock S1 + d"
    "both_renewing view a b S2" "en_log S2 = en_log S1 @ lg2" "\<forall>j b. (j, Led b) \<notin> set lg2" by blast
  have "election_run le api es S S2" using S1(1) S2(1) by (rule rtranclp_trans)
  with S1 S2 show ?case by (intro exI [of _ S2] exI [of _ "lg1 @ lg2"]) (auto simp: algebra_simps)
qed

text \<open>One collector reads the free Lease; before it goes on, another takes the Lease and leads.\<close>

definition asked_lease :: "lease_env \<Rightarrow> elector \<Rightarrow> http_response \<Rightarrow> elector_loop prog" where
  "asked_lease le e r = andThen (case get_answer le r of None \<Rightarrow> Done False | Some info \<Rightarrow> judge_lease le e info) led_or_retry"

lemma compete_asks:
  assumes "elects_on le base ns name e"
  shows "elector_body le e Competing = Select (\<lambda>cancelled. if cancelled then Done Returned else Ask (lease_of e lease_get) (asked_lease le e))"
proof -
  have "andThen (tryAcquire le e) led_or_retry = Ask (lease_of e lease_get) (asked_lease le e)"
    using assms by (simp add: tryAcquire_judge lease_of_def leaseClient_Get_def elects_on_def asked_lease_def fun_eq_iff)
  then show ?thesis by (simp add: elector_body_def compete_pass_alt cong: if_cong)
qed

lemma read_first:
  assumes "lease_server api view base ns name" "elects_on le base ns name (es i)" "en_prog S i = Done Competing" "view (en_server S) = Some l"
  shows "\<exists>S' q r. election_run le api es S S' \<and> en_server S' = en_server S \<and> en_clock S' = en_clock S \<and> kl_ResourceVersion l \<noteq> [] \<and>
    en_prog S' = (en_prog S)(i := andThen (judge_lease le (es i) (lease_info le l)) led_or_retry) \<and> en_log S' = en_log S @ [(i, Asked q r)]"
proof -
  let ?q = "lease_of (es i) lease_get" and ?k = "asked_lease le (es i)"
  have base: "lc_baseURL (el_client (es i)) = base" using assms(2) by (simp add: elects_on_def)
  obtain st body where r: "api (en_clock S) (en_server S) ?q = (Response 200 st body, en_server S)" "decode_lease body = Some l"
    "kl_ResourceVersion l \<noteq> []"
    using server_get [OF assms(1) base assms(4)] assms(2) unfolding elects_on_def lease_of_def by metis
  have k: "?k (Response 200 st body) = andThen (judge_lease le (es i) (lease_info le l)) led_or_retry"
    by (simp add: asked_lease_def get_answer_def r(2))
  let ?S1 = "S\<lparr>en_prog := (en_prog S)(i := elector_body le (es i) Competing)\<rparr>"
  let ?S2 = "?S1\<lparr>en_prog := (en_prog ?S1)(i := Ask ?q ?k)\<rparr>"
  let ?S3 = "?S2\<lparr>en_server := en_server S, en_prog := (en_prog ?S2)(i := ?k (Response 200 st body)),
      en_log := en_log ?S2 @ [(i, Asked ?q (Response 200 st body))]\<rparr>"
  have "election_step le api es S ?S1" by (rule election_step.loops [OF assms(3)]) simp
  moreover have "election_step le api es ?S1 ?S2"
    using election_step.selects [of ?S1 i _ le api es False] compete_asks [OF assms(2)] by simp
  moreover have "election_step le api es ?S2 ?S3" by (rule election_step.answered) (simp_all add: r(1))
  ultimately have run: "election_run le api es S ?S3" by (meson converse_rtranclp_into_rtranclp rtranclp.rtrancl_refl)
  show ?thesis
    by (rule exI [of _ ?S3], rule exI [of _ ?q], rule exI [of _ "Response 200 st body"], rule conjI, rule run) (simp add: k r(3))
qed

lemma both_lead:
  assumes "lease_server api view base ns name" "elects_on le base ns name (es a)" "elects_on le base ns name (es b)" "a \<noteq> b"
    and "en_prog S a = Done Competing" "en_prog S b = Done Competing" "view (en_server S) = Some l"
    and "lease_free le (es a) (en_clock S) l" "lease_free le (es b) (en_clock S) l"
  shows "\<exists>S' lg. election_run le api es S S' \<and> both_renewing view a b S' \<and> en_clock S' = en_clock S \<and> en_log S' = en_log S @ lg \<and>
    (\<forall>j. (j, Led False) \<notin> set lg) \<and> (a, Led True) \<in> set lg \<and> (b, Led True) \<in> set lg"
proof -
  from read_first [where es = es, OF assms(1,3,6,7)] obtain S1 q r where
    S1: "election_run le api es S S1" "en_server S1 = en_server S" "en_clock S1 = en_clock S" "kl_ResourceVersion l \<noteq> []"
    "en_prog S1 = (en_prog S)(b := andThen (judge_lease le (es b) (lease_info le l)) led_or_retry)"
    "en_log S1 = en_log S @ [(b, Asked q r)]" by blast
  from alone_compete [OF assms(1,2), of "en_server S1" "en_clock S1"] assms(7,8) S1(2,3) obtain s2 l2 evs2 where
    p2: "alone api (en_clock S1) (elector_body le (es a) Competing) (en_server S1) = (Renewing (en_clock S1), s2, evs2 @ [Led True])"
    "\<forall>b. Led b \<notin> set evs2" "view s2 = Some l2" by auto
  have "en_prog S1 a = Done Competing" using S1(5) assms(4,5) by simp
  from run_pass [where es = es, OF this _ p2(1)] obtain S2 where
    S2: "election_run le api es S1 S2" "en_server S2 = s2" "en_clock S2 = en_clock S1"
    "en_prog S2 = (en_prog S1)(a := Done (Renewing (en_clock S1)))" "en_log S2 = en_log S1 @ map (Pair a) (evs2 @ [Led True])" by auto
  from alone_judged [OF assms(1,3) p2(3), of "en_clock S2" l] assms(9) S1(3,4) S2(3) obtain s3 l3 evs3 where
    p3: "alone api (en_clock S2) (andThen (judge_lease le (es b) (lease_info le l)) led_or_retry) s2 =
      (Renewing (en_clock S2), s3, evs3 @ [Led True])" "\<forall>b. Led b \<notin> set evs3" "view s3 = Some l3" by auto
  have "alone api (en_clock S2) (en_prog S2 b) (en_server S2) = (Renewing (en_clock S2), s3, evs3 @ [Led True])"
    using p3(1) S2 S1(5) assms(4) by simp
  from alone_run [OF this, of le es] obtain S3 where
    S3: "election_run le api es S2 S3" "en_server S3 = s3" "en_clock S3 = en_clock S2"
    "en_prog S3 = (en_prog S2)(b := Done (Renewing (en_clock S2)))" "en_log S3 = en_log S2 @ map (Pair b) (evs3 @ [Led True])" by simp
  have "election_run le api es S S3" using S1(1) S2(1) S3(1) by (meson rtranclp_trans)
  moreover have "both_renewing view a b S3" using S2 S3 p3(3) assms(4) by (simp add: both_renewing_def)
  ultimately show ?thesis using S1 S2 S3 p2(2) p3(2)
    by (intro exI [of _ S3] exI [of _ "(b, Asked q r) # map (Pair a) (evs2 @ [Led True]) @ map (Pair b) (evs3 @ [Led True])"]) auto
qed

lemma leads_after_append:
  "Led False \<notin> set evs \<Longrightarrow> leads_after (pre @ evs) \<longleftrightarrow> leads_after pre \<or> Led True \<in> set evs"
proof (induction evs rule: rev_induct)
  case (snoc ev evs)
  then show ?case by (cases ev) (auto simp: append_assoc [symmetric] simp del: append_assoc)
qed simp

lemma leads_in_log:
  fixes S S' :: "'s election"
  assumes "en_log S' = en_log S @ lg" "\<forall>j. (j, Led False) \<notin> set lg" "(i, Led True) \<in> set lg"
  shows "leads_after (seen_by i S')"
proof -
  have "seen_by i S' = seen_by i S @ map snd (filter (\<lambda>x. fst x = i) lg)" using assms(1) by (simp add: seen_by_def)
  moreover have "Led False \<notin> set (map snd (filter (\<lambda>x. fst x = i) lg))" using assms(2) by auto
  moreover have "Led True \<in> set (map snd (filter (\<lambda>x. fst x = i) lg))" using assms(3) by force
  ultimately show ?thesis by (simp add: leads_after_append)
qed


section \<open>A sample server\<close>

text \<open>A Lease is read back as it was sent.\<close>

lemma decode_sent: "decode_lease (json_text (lease_json (sent_lease name v h a n))) = Some (sent_lease name v h a n)"
proof -
  have lit: "json_number (dec_int 15)" "int32_lit (dec_int 15) = Some 15" "json_number (dec_int 0)" "int32_lit (dec_int 0) = Some 0"
    by code_simp+
  have low: "to_lower ''metadata'' = ''metadata''" "to_lower ''name'' = ''name''" "to_lower ''resourceVersion'' = ''resourceversion''"
    "to_lower ''spec'' = ''spec''" "to_lower ''holderIdentity'' = ''holderidentity''"
    "to_lower ''leaseDurationSeconds'' = ''leasedurationseconds''" "to_lower ''acquireTime'' = ''acquiretime''"
    "to_lower ''renewTime'' = ''renewtime''" "to_lower ''leaseTransitions'' = ''leasetransitions''" by code_simp+
  have j: "lease_json (sent_lease name v h a n) = JObj
     [(''metadata'', JObj [(''name'', JStr name), (''resourceVersion'', JStr v)]),
      (''spec'', JObj [(''holderIdentity'', JStr h), (''leaseDurationSeconds'', JNum (dec_int 15)), (''acquireTime'', JStr a),
         (''renewTime'', JStr n), (''leaseTransitions'', JNum (dec_int 0))])]"
    by (simp add: lease_json_def sent_lease_def zero_lease_def)
  have "json_first (json_text (lease_json (sent_lease name v h a n))) = Some (lease_json (sent_lease name v h a n))"
    unfolding j by (rule json_first_text) (simp_all add: max_depth_def lit)
  moreover have "dec_struct (\<lambda>k v l. if k = ''metadata'' then dec_struct dec_lease_metadata v l
      else if k = ''spec'' then dec_struct dec_lease_spec v l else Some l) (lease_json (sent_lease name v h a n)) zero_lease =
      Some (sent_lease name v h a n)"
    unfolding j by (simp add: dec_struct_def dec_lease_metadata_def dec_lease_spec_def dec_str_def dec_int32_def lit low sent_lease_def zero_lease_def)
  ultimately show ?thesis by (simp add: decode_lease_def del: json_text.simps)
qed

type_synonym stored_lease = "gostring \<times> gostring \<times> gostring \<times> gostring"

definition sample_view :: "stored_lease option \<Rightarrow> kubeLease option" where
  "sample_view s = map_option (\<lambda>(v, h, a, n). sent_lease ''events'' (CHR ''v'' # v) h a n) s"

definition sample_api :: "stored_lease option lease_api" where
  "sample_api t s q =
     (if hq_method q = ''GET''
      then (case sample_view s of
              None \<Rightarrow> (Response 404 ''404 Not Found'' [], s)
            | Some l \<Rightarrow> (Response 200 ''200 OK'' (json_text (lease_json l)), s))
      else (case decode_lease (hq_body q) of
              None \<Rightarrow> (Response 400 ''400 Bad Request'' [], s)
            | Some l \<Rightarrow>
                (case s of
                   None \<Rightarrow>
                     if hq_method q = ''POST''
                     then (Response 201 ''201 Created'' [], Some ([], kl_HolderIdentity l, kl_AcquireTime l, kl_RenewTime l))
                     else (Response 404 ''404 Not Found'' [], s)
                 | Some (v, h, a, n) \<Rightarrow>
                     if hq_method q = ''PUT'' \<and> kl_ResourceVersion l = CHR ''v'' # v
                     then (Response 200 ''200 OK'' [], Some (CHR ''v'' # v, kl_HolderIdentity l, kl_AcquireTime l, kl_RenewTime l))
                     else (Response 409 ''409 Conflict'' [], s))))"

lemma sample_server: "lease_server sample_api sample_view base ns ''events''"
  unfolding lease_server_def
proof (intro allI impI)
  fix c t and s :: "stored_lease option"
  have m: "hq_method (lease_get c ns ''events'') = ''GET''" "hq_method (lease_post c ns l) = ''POST''"
    "hq_method (lease_put c ns ''events'' l) = ''PUT''" "hq_body (lease_post c ns l) = json_text (lease_json l)"
    "hq_body (lease_put c ns ''events'' l) = json_text (lease_json l)" for l
    by (simp_all add: lease_get_def lease_post_def lease_put_def lease_request_def)
  show "case sample_view s of
      None \<Rightarrow>
        (\<exists>st b. sample_api t s (lease_get c ns ''events'') = (Response 404 st b, s)) \<and>
        (\<forall>h a n. \<exists>st b s' v. sample_api t s (lease_post c ns (sent_lease ''events'' [] h a n)) = (Response 201 st b, s') \<and>
           v \<noteq> [] \<and> sample_view s' = Some (sent_lease ''events'' v h a n))
    | Some l \<Rightarrow>
        kl_ResourceVersion l \<noteq> [] \<and>
        (\<exists>st b. sample_api t s (lease_get c ns ''events'') = (Response 200 st b, s) \<and> decode_lease b = Some l) \<and>
        (\<forall>h a n. \<exists>st b s' v. sample_api t s (lease_put c ns ''events'' (sent_lease ''events'' (kl_ResourceVersion l) h a n)) = (Response 200 st b, s') \<and>
           v \<noteq> [] \<and> v \<noteq> kl_ResourceVersion l \<and> sample_view s' = Some (sent_lease ''events'' v h a n)) \<and>
        (\<forall>v h a n. v \<noteq> kl_ResourceVersion l \<longrightarrow>
           (\<exists>st b. sample_api t s (lease_put c ns ''events'' (sent_lease ''events'' v h a n)) = (Response 409 st b, s)))"
    by (cases s) (auto simp: sample_api_def sample_view_def m decode_sent simp del: json_text.simps, metis list.distinct(1) not_Cons_self2)
qed

definition sample_lease_env :: lease_env where
  "sample_lease_env = \<lparr>le_parse = (\<lambda>_. None), le_accepts = (\<lambda>_. True)\<rparr>"

definition sample_electors :: "nat \<Rightarrow> elector" where
  "sample_electors i = collector_elector \<lparr>cc_LeaseNamespace = [], cc_LeaseName = ''events''\<rparr>
     (NewLeaseClientWithToken ''https://k8s/'' ''t'') (podName (''pod-'' @ dec_nat i) [] [])"

definition sample_election :: "stored_lease option election" where
  "sample_election = \<lparr>en_server = Some ([], [], ''then'', ''then''), en_clock = 0, en_prog = (\<lambda>_. Done Competing),
     en_watch = (\<lambda>_. no_watch), en_log = []\<rparr>"

lemma sample_elects: "elects_on sample_lease_env ''https://k8s'' ''default'' ''events'' (sample_electors i)"
proof -
  have "trim_slashes ''https://k8s/'' = ''https://k8s''" by code_simp
  then show ?thesis
    by (simp add: elects_on_def sample_electors_def collector_elector_def NewElector_def NewLeaseClientWithToken_def podName_def sample_lease_env_def)
qed

lemma sample_deadline: "0 < eo_RenewDeadline (el_opts (sample_electors i))"
  by (simp add: sample_electors_def collector_elector_def NewElector_def)

lemma sample_free:
  "sample_view (en_server sample_election) = Some (sent_lease ''events'' ''v'' [] ''then'' ''then'')"
  "lease_free le e t (sent_lease ''events'' ''v'' [] ''then'' ''then'')"
  by (simp_all add: sample_view_def sample_election_def lease_free_def)

lemma sample_start: "election_start sample_election" "en_prog sample_election i = Done Competing"
  by (simp_all add: election_start_def sample_election_def)



theorem elector_fail_safe_witness:
  "\<exists>S'. election_run sample_lease_env sample_api sample_electors sample_election S' \<and> leads_after (seen_by 0 S') \<and>
     length (watching (en_watch S' 0)) = 1"
proof -
  have "(0 :: nat) \<noteq> 1" by simp
  from both_lead [where es = sample_electors, OF sample_server sample_elects [of 0] sample_elects [of 1] this sample_start(2) sample_start(2)
      sample_free(1) sample_free(2) sample_free(2)]
  obtain S' lg where S': "election_run sample_lease_env sample_api sample_electors sample_election S'"
    "en_log S' = en_log sample_election @ lg" "\<forall>j. (j, Led False) \<notin> set lg" "(0, Led True) \<in> set lg" by blast
  have "leads_after (seen_by 0 S')" by (rule leads_in_log [OF S'(2-4)])
  moreover from this have "length (watching (en_watch S' 0)) = 1"
    using elector_fail_safe [OF sample_start(1) S'(1), of 0] by simp
  ultimately show ?thesis using S'(1) by blast
qed

end
