(* ===== verification/Spec2Isabelle.thy ===== *)
theory Spec2Isabelle
  imports RunControl ActionSafety EgressProxy ToolSafety GraphLease Cutover CollectorWAL LeaderElection
begin

text \<open>
  A verification library for the Go control plane of the AIOps platform.

  \<^bold>\<open>The program.\<close>  The query API (\<open>ai-apm-query-go\<close>) owns the durable state of AI Runs in MySQL.  A Run moves
  through a graph of statuses; an orchestrator claims a lease on it, commits progress and events under
  that lease, and proposes Actions on Kubernetes.  A user approves an Action, a dispatcher hands it to
  the action executor, and the result moves the Run on.  Invocations and approved Actions leave the
  database through outboxes that are claimed with fenced dispatch leases.  The action executor
  (\<open>ai-action-executor\<close>) verifies the signed context of an Action, obtains a short-lived credential from the
  credential broker (\<open>ai-credential-broker\<close>) and changes the cluster.  While a Run is investigated, its executor
  reads data through tool runs, whose results become evidence.  Beside this stand the lease of
  the graph workers, the coordinator of the telemetry cutover, and the write-ahead log of the event
  collector (\<open>ai-event-collector\<close>), the election of the collector that watches the cluster, and the proxy
  (\<open>ai-llm-egress-proxy\<close>) through which language models are called.

  \<^bold>\<open>Theories.\<close>
  \<^item> \<open>Prelude\<close>: strings, trimming, hexadecimal and decimal text, tables as lists of rows, collections of
    simp rules.  \<open>Sql\<close>: the monad of database code.  A statement may fail, a transaction is undone when its
    body fails or its commit does, every statement reads the database clock.  \<open>StoreDB\<close>: one record per
    table row and the record of all tables.
  \<^item> \<open>AIRuns\<close>, \<open>RunLease\<close>, \<open>RunEvents\<close>, \<open>RunInvariant\<close>, \<open>LeaseSafety\<close>, \<open>Fencing\<close>: \<open>internal/store/ai_runs.go\<close>,
    \<open>ai_run_lease.go\<close>, \<open>ai_run_events.go\<close>.  The operations, the invariant of reachable databases, that a claim
    never takes a live lease, that a free one can be claimed, and what renewal, replay and the recovery
    scans return.  \<open>Fencing\<close> states the contract of an epoch-fenced lease as a locale; the Run lease, both
    outboxes and the graph lease are its interpretations.
  \<^item> \<open>Contract\<close>, \<open>ApiBase\<close>: \<open>internal/contract\<close> and the authorization of internal requests.
  \<^item> \<open>TrustedContext\<close>: \<open>internal/auth\<close>, \<open>mysql_replay_cache.go\<close>, \<open>security_replay.go\<close>.  The signed contexts between the
    services; the locale \<open>replay_guard\<close> states what a verifier needs of a replay cache, the cache of a process
    and the table are its interpretations.
  \<^item> \<open>RuntimeCommit\<close>, \<open>RunControl\<close>: the commit endpoint of \<open>control_plane_lease.go\<close>, the transition endpoint of
    \<open>control_plane_runs.go\<close>, \<open>run_control_service.go\<close>, \<open>runs_control.go\<close>, \<open>ai_control_commands.go\<close>.  All or
    nothing, exact retries, and that a cancel fences every credential for good.
  \<^item> \<open>Outbox\<close>: \<open>ai_run_outbox.go\<close>, \<open>ai_action_outbox.go\<close>, \<open>run_dispatch.go\<close>.
  \<^item> \<open>Json\<close>, \<open>ActionStore\<close>, \<open>ActionProposal\<close>, \<open>ActionDecision\<close>, \<open>ActionDispatch\<close>, \<open>ActionSafety\<close>: the life of an
    Action.  JSON values and their canonical text, the tables, proposal with preflight and hash,
    the decision, the dispatcher with the client of the executor, and the two safety theorems over all
    histories: executed at most once, and only what somebody other than the proposer approved.
  \<^item> \<open>JsonParse\<close>: the decoder of JSON text, a total function, which reads back what \<open>Json\<close> prints.
  \<^item> \<open>Executor\<close>, \<open>ExecutorSafety\<close>, \<open>ExecutorApply\<close>: \<open>ai-action-executor/main.go\<close> and \<open>mtls.go\<close>, the process that changes
    Kubernetes.  Its state is the record \<open>server\<close>; a handler returns its reply, the requests it sent to
    Kubernetes and the new state.  Every write rests on a signed context and an unchanged target and
    carries preconditions; a reconciliation only reads; and what the query API has accepted, approved
    and signed is applied with exactly the intended writes.
  \<^item> \<open>Broker\<close>: \<open>ai-credential-broker/main.go\<close> and \<open>mtls.go\<close>.  The profiles, the token endpoint, and its composition
    with the executor over the bytes of request and reply: a credential is always the token of the
    profile that covers the signed context, a covered context gets one, and a node never does.
  \<^item> \<open>ToolStore\<close>, \<open>ToolRuns\<close>, \<open>ToolSafety\<close>: \<open>ai_tool_runs.go\<close>, \<open>ai_evidence.go\<close>, \<open>toolrun_wrapper.go\<close>, \<open>tool_reconciler.go\<close>, the
    execution of internal queries in \<open>internal_query.go\<close> and the endpoint of \<open>control_plane_lease.go\<close> that consumes
    evidence.  Over all histories of starts, results, reconciliations, consumptions and changes of
    Runs, with lost connections: a key is granted its query once, evidence is taken once and only
    from a complete result accepted under a live lease; a replay returns the stored result; and a
    start that is refused blocks its key.
  \<^item> \<open>GraphLease\<close>: \<open>graph_worker_lease.go\<close>.  \<open>Cutover\<close>: \<open>internal/cutover\<close>, with an abstract cutover that the
    coordinator refines.  \<open>CollectorWAL\<close>: \<open>wal.go\<close>, with the list of owed batches that the log refines.
  \<^item> \<open>LeaderElection\<close>: \<open>ai-event-collector/internal/leaderelection\<close>.  The code as a program of single interactions; a
    step relation interleaves the programs of all collectors over one API server.  A leader that
    fails steps down, and an undisturbed collector behaves as intended, but two leaders are possible.
  \<^item> \<open>EgressProxy\<close>: \<open>ai-llm-egress-proxy/main.go\<close>.  What may leave the proxy, for whom, to where, and with which key.

  \<^bold>\<open>Correspondence.\<close>  Definitions carry the names of the Go functions; a DAO method \<open>M\<close> of \<open>D\<close> is \<open>D_M\<close> where
  \<open>M\<close> alone is ambiguous.  A handler takes the decoded request (\<open>None\<close> when decoding fails) and returns the
  reply.  Go's pair of result and error is a sum, or an explicit pair where the code uses both.
  Times are milliseconds since 1970, 64-bit counters are \<open>int\<close> where they cannot reach the bound in the life
  of a system and words where the wrap-around shows (the backoff).  Strings are lists of bytes.

  \<^bold>\<open>Parameters and assumptions.\<close>  SHA-256 (\<open>sha\<close>, \<open>hx\<close>), signatures, random tokens, the clocks, the Kubernetes
  lookup, the registered clusters, the orchestrator, the data sources of tool queries, the answers of the
  Kubernetes API, and the two telemetry runtimes are arguments; so is the executor for the
  dispatcher, whose client sees only its answers, and the broker for the executor, until \<open>Broker\<close> supplies
  it (hypothesis \<open>wired\<close>).  Transactions are serial; a single statement outside of a transaction is atomic,
  and where the code interleaves statements of several processes the theorems quantify over the
  interleavings they name.  Strings compare byte by byte (the columns are declared with a binary
  collation or hold identifiers), affected rows count changed rows, and a failing statement stands for
  every rejection of the server, too long values included.  JSON columns keep JSON values.

  \<^bold>\<open>Bounds.\<close>  No fuel is used: every loop of the modelled code is a structural recursion over a list or has a
  termination proof (\<open>verify_loop\<close> of the cutover, the JSON parser).  The wait for the dispatch gate may
  run for ever under an arbitrary clock: it is a partial function with an option, and
  \<open>dispatch_gate_ends\<close> shows that it returns when the clock advances.

  \<^bold>\<open>Not modelled.\<close>  Read-only endpoints and query adapters (text of queries to ClickHouse, VictoriaMetrics,
  VictoriaLogs and HugeGraph), the chat branch of tool runs, the endpoints for hypotheses, plan steps and
  verifications, alerts, user sessions and settings, telemetry ingest, the polling loops of
  the collector, and the parts in Python and TypeScript: they are I/O around state that is not theirs,
  or clients of what is modelled.  HTTP, TLS, JWT and the SQL driver are outside.
\<close>

end
